(* ===== verification/Prelude.thy ===== *)
theory Prelude
  imports Main "HOL-Library.List_Lexorder" "HOL-Library.Char_ord" "HOL-Library.Code_Target_Nat"
begin

text \<open>
  What every component shares: Go strings as byte lists (trimming, prefixes, control
  characters, the byte order of SQL text), errors as values, the state-and-error
  operations in which handlers are written, and the locale of relations that every step
  of an operation stays in. A Go string is a list of bytes, \<^typ>\<open>string\<close>, so
  \<^term>\<open>length\<close> is the source's \<open>len\<close> and \<open><\<close> is the order of a binary collation.
\<close>

named_theorems op_simps \<open>unfolding rules of the operations' combinators\<close>
named_theorems valid_simps \<open>facts about the validation predicates\<close>

section \<open>Go strings\<close>

fun has_prefix :: "string \<Rightarrow> string \<Rightarrow> bool" where
  "has_prefix s [] = True"
| "has_prefix [] (c # p) = False"
| "has_prefix (d # s) (c # p) = (c = d \<and> has_prefix s p)"

definition trim_prefix :: "string \<Rightarrow> string \<Rightarrow> string" where
  "trim_prefix s p = (if has_prefix s p then drop (length p) s else s)"

lemma has_prefix_append [simp]: "has_prefix (p @ s) p"
  by (induction p) auto

lemma has_prefix_iff: "has_prefix s p \<longleftrightarrow> (\<exists>r. s = p @ r)"
  by (induction s p rule: has_prefix.induct) auto

lemma trim_prefix_append [simp]: "trim_prefix (p @ s) p = s"
  by (simp add: trim_prefix_def)

lemma has_prefix_trans: "has_prefix s t \<Longrightarrow> has_prefix t p \<Longrightarrow> has_prefix s p"
  by (auto simp: has_prefix_iff)

text \<open>The UTF-8 encodings of the code points that \<open>unicode.IsSpace\<close> accepts.\<close>

definition go_spaces :: "string list" where
  "go_spaces =
    [[CHR 0x20], [CHR 0x09], [CHR 0x0A], [CHR 0x0B], [CHR 0x0C], [CHR 0x0D],
     [CHR 0xC2, CHR 0x85], [CHR 0xC2, CHR 0xA0], [CHR 0xE1, CHR 0x9A, CHR 0x80],
     [CHR 0xE2, CHR 0x80, CHR 0x80], [CHR 0xE2, CHR 0x80, CHR 0x81], [CHR 0xE2, CHR 0x80, CHR 0x82],
     [CHR 0xE2, CHR 0x80, CHR 0x83], [CHR 0xE2, CHR 0x80, CHR 0x84], [CHR 0xE2, CHR 0x80, CHR 0x85],
     [CHR 0xE2, CHR 0x80, CHR 0x86], [CHR 0xE2, CHR 0x80, CHR 0x87], [CHR 0xE2, CHR 0x80, CHR 0x88],
     [CHR 0xE2, CHR 0x80, CHR 0x89], [CHR 0xE2, CHR 0x80, CHR 0x8A], [CHR 0xE2, CHR 0x80, CHR 0xA8],
     [CHR 0xE2, CHR 0x80, CHR 0xA9], [CHR 0xE2, CHR 0x80, CHR 0xAF], [CHR 0xE2, CHR 0x81, CHR 0x9F],
     [CHR 0xE3, CHR 0x80, CHR 0x80]]"

function trim_front :: "string list \<Rightarrow> string \<Rightarrow> string" where
  "trim_front ps s =
    (case find (\<lambda>p. p \<noteq> [] \<and> has_prefix s p) ps of
       None \<Rightarrow> s
     | Some p \<Rightarrow> trim_front ps (drop (length p) s))"
  by pat_completeness auto
termination
proof (relation "measure (\<lambda>(ps, s). length s)")
  fix ps s p
  assume "find (\<lambda>p. p \<noteq> [] \<and> has_prefix s p) ps = Some p"
  then have "p \<noteq> []" and "has_prefix s p" by (auto simp: find_Some_iff)
  then show "((ps, drop (length p) s), (ps, s)) \<in> measure (\<lambda>(ps, s). length s)"
    by (auto simp: has_prefix_iff)
qed simp

declare trim_front.simps [simp del]

definition trim_space :: "string \<Rightarrow> string" where
  "trim_space s = rev (trim_front (map rev go_spaces) (rev (trim_front go_spaces s)))"

text \<open>A string that starts with none of the given encodings is left alone.\<close>

definition clean_front :: "string list \<Rightarrow> string \<Rightarrow> bool" where
  "clean_front ps s \<longleftrightarrow> (\<forall>p \<in> set ps. p \<noteq> [] \<longrightarrow> \<not> has_prefix s p)"

lemma trim_front_clean: "clean_front ps s \<Longrightarrow> trim_front ps s = s"
  by (subst trim_front.simps) (auto simp: clean_front_def find_Some_iff split: option.splits)

lemma clean_front_trim_front: "clean_front ps (trim_front ps s)"
proof (induction ps s rule: trim_front.induct)
  case (1 ps s)
  show ?case
  proof (cases "find (\<lambda>p. p \<noteq> [] \<and> has_prefix s p) ps")
    case None
    then have "trim_front ps s = s" by (simp add: trim_front.simps [of ps s])
    with None show ?thesis by (auto simp: clean_front_def find_None_iff)
  next
    case (Some p)
    with "1.IH" show ?thesis by (simp add: trim_front.simps [of ps s])
  qed
qed

lemma trim_front_suffix: "\<exists>r. s = r @ trim_front ps s"
proof (induction ps s rule: trim_front.induct)
  case (1 ps s)
  show ?case
  proof (cases "find (\<lambda>p. p \<noteq> [] \<and> has_prefix s p) ps")
    case None
    then show ?thesis by (simp add: trim_front.simps [of ps s])
  next
    case (Some p)
    with "1.IH" obtain r where "drop (length p) s = r @ trim_front ps (drop (length p) s)" by blast
    then have "s = (take (length p) s @ r) @ trim_front ps (drop (length p) s)"
      by (metis append_take_drop_id append.assoc)
    moreover have "trim_front ps s = trim_front ps (drop (length p) s)"
      using Some by (simp add: trim_front.simps [of ps s])
    ultimately show ?thesis by metis
  qed
qed

lemma clean_front_take: "clean_front ps (s @ t) \<Longrightarrow> clean_front ps s"
  by (auto simp: clean_front_def has_prefix_iff)

text \<open>Trimming is idempotent: the trimmed text is clean at both ends.\<close>

lemma trim_space_idem [simp]: "trim_space (trim_space s) = trim_space s"
proof -
  let ?f = "trim_front go_spaces s"
  let ?b = "trim_front (map rev go_spaces) (rev ?f)"
  obtain r where "rev ?f = r @ ?b" using trim_front_suffix by blast
  then have "?f = rev ?b @ rev r" by (metis rev_append rev_rev_ident)
  then have "clean_front go_spaces (rev ?b)"
    using clean_front_trim_front [of go_spaces s] by (metis clean_front_take)
  then have "trim_front go_spaces (rev ?b) = rev ?b" by (rule trim_front_clean)
  moreover have "trim_front (map rev go_spaces) ?b = ?b"
    by (rule trim_front_clean [OF clean_front_trim_front])
  ultimately show ?thesis by (simp add: trim_space_def)
qed

lemma trim_space_Nil [simp]: "trim_space [] = []"
proof -
  have "trim_front ps [] = []" for ps
    using trim_front_suffix [of "[]" ps] by simp
  then show ?thesis by (simp add: trim_space_def)
qed

text \<open>
  \<open>strings.IndexFunc(v, unicode.IsControl) >= 0\<close>: a byte below \<open>0x20\<close>, \<open>0x7F\<close>, or the
  UTF-8 encoding of \<open>U+0080\<close> to \<open>U+009F\<close>. The lead byte \<open>0xC2\<close> is never a continuation
  byte, so the pair is always decoded as one code point.
\<close>

fun has_control :: "string \<Rightarrow> bool" where
  "has_control [] = False"
| "has_control [c] = (of_char c < (0x20 :: nat) \<or> of_char c = (0x7F :: nat))"
| "has_control (c # d # s) =
    (of_char c < (0x20 :: nat) \<or> of_char c = (0x7F :: nat) \<or>
     of_char c = (0xC2 :: nat) \<and> 0x80 \<le> (of_char d :: nat) \<and> (of_char d :: nat) \<le> 0x9F \<or>
     has_control (d # s))"

fun ascii_lower :: "char \<Rightarrow> char" where
  "ascii_lower c = (if 65 \<le> (of_char c :: nat) \<and> (of_char c :: nat) \<le> 90
                    then char_of (of_char c + 32 :: nat) else c)"

definition to_lower :: "string \<Rightarrow> string" where
  "to_lower = map ascii_lower"

definition split_on :: "char \<Rightarrow> string \<Rightarrow> string list" where
  "split_on sep s = foldr (\<lambda>c acc. if c = sep then [] # acc
                                    else (c # hd acc) # tl acc) s [[]]"

section \<open>Errors\<close>

text \<open>
  The errors of the source: a format with its arguments, a failing storage statement, an
  error of a provider with its classification (when the connector SDK knows one), two
  joined errors, and a run-time panic.
\<close>

datatype err_class = ErrorPermanent | ErrorRetryable | ErrorOther string

datatype err =
    Errorf string "string list"
  | StorageErr
  | ProviderErr "err_class option" string
  | JoinErr err err
  | Panic string

fun sprintf :: "string \<Rightarrow> string list \<Rightarrow> string" where
  "sprintf [] as = []"
| "sprintf [c] as = [c]"
| "sprintf (c # d # f) as =
    (if c = CHR ''%'' then
       (case as of
          [] \<Rightarrow> c # sprintf (d # f) as
        | a # as' \<Rightarrow> (if d = CHR ''q'' then CHR 0x22 # a @ CHR 0x22 # sprintf f as' else a @ sprintf f as'))
     else c # sprintf (d # f) as)"

fun err_text :: "err \<Rightarrow> string" where
  "err_text (Errorf f as) = sprintf f as"
| "err_text StorageErr = ''storage failed''"
| "err_text (ProviderErr c t) = t"
| "err_text (JoinErr a b) = err_text a @ CHR 0x0A # err_text b"
| "err_text (Panic t) = t"

text \<open>\<open>errors.Join(a, b)\<close> for an optional first error: \<open>nil\<close> is dropped.\<close>

definition join_err :: "err option \<Rightarrow> err \<Rightarrow> err" where
  "join_err a b = (case a of None \<Rightarrow> b | Some e \<Rightarrow> JoinErr e b)"

section \<open>Operations: a state and an error or a result\<close>

text \<open>
  A handler is a function from the state to its error or result and the state it leaves,
  so that what an early return has already written stays written.
\<close>

type_synonym ('s, 'a) op = "'s \<Rightarrow> (err + 'a) \<times> 's"

definition ret :: "'a \<Rightarrow> ('s, 'a) op" where
  "ret x = (\<lambda>s. (Inr x, s))"

definition throw :: "err \<Rightarrow> ('s, 'a) op" where
  "throw e = (\<lambda>s. (Inl e, s))"

definition seq :: "('s, 'a) op \<Rightarrow> ('a \<Rightarrow> ('s, 'b) op) \<Rightarrow> ('s, 'b) op" where
  "seq m f = (\<lambda>s. case m s of (Inl e, s') \<Rightarrow> (Inl e, s') | (Inr x, s') \<Rightarrow> f x s')"

definition try_op :: "('s, 'a) op \<Rightarrow> ('s, err + 'a) op" where
  "try_op m = (\<lambda>s. case m s of (r, s') \<Rightarrow> (Inr r, s'))"

text \<open>An error handled where it returns; a panic is not an error and passes through.\<close>

definition rescue :: "('s, 'a) op \<Rightarrow> ('s, err + 'a) op" where
  "rescue m = (\<lambda>s. case m s of (Inl (Panic t), s') \<Rightarrow> (Inl (Panic t), s') | (r, s') \<Rightarrow> (Inr r, s'))"

definition check :: "bool \<Rightarrow> err \<Rightarrow> ('s, unit) op" where
  "check b e = (if b then ret () else throw e)"

definition of_result :: "err + 'a \<Rightarrow> ('s, 'a) op" where
  "of_result r = (case r of Inl e \<Rightarrow> throw e | Inr x \<Rightarrow> ret x)"

fun each :: "('a \<Rightarrow> ('s, 'b) op) \<Rightarrow> 'a list \<Rightarrow> ('s, 'b list) op" where
  "each f [] = ret []"
| "each f (x # xs) = seq (f x) (\<lambda>y. seq (each f xs) (\<lambda>ys. ret (y # ys)))"

lemma seq_apply [op_simps]:
  "seq m f s = (case m s of (Inl e, s') \<Rightarrow> (Inl e, s') | (Inr x, s') \<Rightarrow> f x s')"
  by (simp add: seq_def)

lemma ret_apply [op_simps, simp]: "ret x s = (Inr x, s)"
  by (simp add: ret_def)

lemma throw_apply [op_simps, simp]: "throw e s = (Inl e, s)"
  by (simp add: throw_def)

lemma check_apply [op_simps]: "check b e s = (if b then Inr () else Inl e, s)"
  by (simp add: check_def)

lemma try_op_apply [op_simps]: "try_op m s = (Inr (fst (m s)), snd (m s))"
  by (simp add: try_op_def split: prod.splits)

lemma of_result_apply [op_simps]: "of_result r s = (r, s)"
  by (cases r) (simp_all add: of_result_def)

lemma seq_ret [simp]: "seq (ret x) f = f x"
  by (simp add: seq_def fun_eq_iff)

lemma seq_throw [simp]: "seq (throw e) f = throw e"
  by (simp add: seq_def fun_eq_iff)

lemma seq_assoc: "seq (seq m f) g = seq m (\<lambda>x. seq (f x) g)"
  by (auto simp: seq_def fun_eq_iff split: prod.splits sum.splits)

text \<open>A result after a sequence comes from a result of its first part.\<close>

lemma seq_Inr:
  "seq m f s = (Inr y, t) \<longleftrightarrow> (\<exists>x s'. m s = (Inr x, s') \<and> f x s' = (Inr y, t))"
  by (auto simp: seq_def split: prod.splits sum.splits)

lemma check_Inr [simp]: "check b e s = (Inr u, t) \<longleftrightarrow> b \<and> t = s"
  by (auto simp: check_apply)

lemma of_result_Inr [simp]: "of_result r s = (Inr x, t) \<longleftrightarrow> r = Inr x \<and> t = s"
  by (auto simp: of_result_apply)

lemma try_op_Inr [simp]: "try_op m s = (Inr r, t) \<longleftrightarrow> m s = (r, t)"
  by (cases "m s") (auto simp: try_op_apply)

lemma rescue_Inr: "rescue m s = (Inr r, t) \<longleftrightarrow> m s = (r, t) \<and> (\<forall>p. r \<noteq> Inl (Panic p))"
  by (auto simp: rescue_def split: prod.splits sum.splits err.splits)

lemma ret_Inr: "ret x s = (Inr y, t) \<longleftrightarrow> y = x \<and> t = s"
  by auto

lemma throw_Inr: "\<not> throw e s = (Inr y, t)"
  by auto

lemmas op_Inr = seq_Inr ret_Inr throw_Inr

lemma case_Inr:
  "(case r of Inl e \<Rightarrow> g e | Inr x \<Rightarrow> f x) s = (Inr y, t) \<longleftrightarrow>
    (\<exists>e. r = Inl e \<and> g e s = (Inr y, t)) \<or> (\<exists>x. r = Inr x \<and> f x s = (Inr y, t))"
  "(case q of None \<Rightarrow> m | Some x \<Rightarrow> f x) s = (Inr y, t) \<longleftrightarrow>
    q = None \<and> m s = (Inr y, t) \<or> (\<exists>x. q = Some x \<and> f x s = (Inr y, t))"
  by (auto split: sum.splits option.splits)

section \<open>Relations every step stays in\<close>

text \<open>
  A reflexive and transitive relation between the state before and the state after: what an
  operation never does. The relation is carried through sequences, branches and loops, so a
  component proves it for its statements only.
\<close>

locale evolution =
  fixes R :: "'s \<Rightarrow> 's \<Rightarrow> bool"
  assumes stays: "R s s"
    and chains: "R s t \<Longrightarrow> R t u \<Longrightarrow> R s u"
begin

definition within :: "('s, 'a) op \<Rightarrow> bool" where
  "within m \<longleftrightarrow> (\<forall>s. R s (snd (m s)))"

lemma within_I: "(\<And>s. R s (snd (m s))) \<Longrightarrow> within m"
  by (simp add: within_def)

lemma within_D: "within m \<Longrightarrow> m s = (r, t) \<Longrightarrow> R s t"
  by (metis within_def snd_conv)

lemma within_ret: "within (ret x)"
  by (simp add: within_def stays)

lemma within_throw: "within (throw e)"
  by (simp add: within_def stays)

lemma within_check: "within (check b e)"
  by (simp add: within_def stays check_def)

lemma within_of_result: "within (of_result r)"
  by (simp add: within_def stays of_result_apply)

lemma within_seq: "within m \<Longrightarrow> (\<And>x. within (f x)) \<Longrightarrow> within (seq m f)"
  by (auto simp: within_def seq_def split: prod.splits sum.splits)
    (metis chains snd_conv)+

lemma within_try_op: "within m \<Longrightarrow> within (try_op m)"
  by (simp add: within_def try_op_apply)

lemma within_rescue: "within m \<Longrightarrow> within (rescue m)"
  by (auto simp: within_def rescue_def split: prod.splits sum.splits err.splits) (metis snd_conv)+

lemma within_if: "(b \<Longrightarrow> within m) \<Longrightarrow> (\<not> b \<Longrightarrow> within n) \<Longrightarrow> within (if b then m else n)"
  by simp

lemma within_option:
  "(x = None \<Longrightarrow> within m) \<Longrightarrow> (\<And>y. x = Some y \<Longrightarrow> within (f y)) \<Longrightarrow>
   within (case x of None \<Rightarrow> m | Some y \<Rightarrow> f y)"
  by (cases x) auto

lemma within_sum:
  "(\<And>e. x = Inl e \<Longrightarrow> within (g e)) \<Longrightarrow> (\<And>y. x = Inr y \<Longrightarrow> within (f y)) \<Longrightarrow>
   within (case x of Inl e \<Rightarrow> g e | Inr y \<Rightarrow> f y)"
  by (cases x) auto

lemma within_prod: "(\<And>a b. x = (a, b) \<Longrightarrow> within (f a b)) \<Longrightarrow> within (case x of (a, b) \<Rightarrow> f a b)"
  by (cases x) auto

lemma within_list:
  "(xs = [] \<Longrightarrow> within m) \<Longrightarrow> (\<And>y ys. xs = y # ys \<Longrightarrow> within (f y ys)) \<Longrightarrow>
   within (case xs of [] \<Rightarrow> m | y # ys \<Rightarrow> f y ys)"
  by (cases xs) auto

lemma within_each: "(\<And>x. x \<in> set xs \<Longrightarrow> within (f x)) \<Longrightarrow> within (each f xs)"
  by (induction xs) (auto intro!: within_ret within_seq)

lemma within_let: "within (f x) \<Longrightarrow> within (let y = x in f y)"
  by simp

lemmas within_intros =
  within_ret within_throw within_check within_of_result within_seq within_try_op within_rescue within_if
  within_option within_sum within_prod within_list within_each within_let

end

end
