(* ===== verification/Json.thy ===== *)
theory Json
  imports Prelude
begin

text \<open>
  JSON values as \<open>encoding/json\<close> decodes them into \<open>any\<close>, and \<open>json.RawMessage\<close> seen the two
  ways the source looks at one: its length in bytes and what it decodes to. A number is its
  decimal value \<open>mantissa / 10 ^ scale\<close> (the rounding to \<open>float64\<close> is not modelled); an object
  is a list of members in which the first occurrence of a key counts. \<open>json.Valid\<close> is
  \<open>raw_value r \<noteq> None\<close>.
\<close>

datatype json =
    JNull
  | JBool bool
  | JNum int nat
  | JStr string
  | JArr "json list"
  | JObj "(string \<times> json) list"

datatype raw_message = Raw (raw_length: nat) (raw_value: "json option")

definition raw_nil :: raw_message where
  "raw_nil = Raw 0 None"

definition json_valid :: "raw_message \<Rightarrow> bool" where
  "json_valid r \<longleftrightarrow> raw_value r \<noteq> None"

text \<open>\<open>json.Unmarshal\<close> into \<open>map[string]any\<close>: an object, or \<open>null\<close> for the empty map.\<close>

definition decode_object :: "raw_message \<Rightarrow> (string \<times> json) list option" where
  "decode_object r =
    (case raw_value r of Some (JObj m) \<Rightarrow> Some m | Some JNull \<Rightarrow> Some [] | _ \<Rightarrow> None)"

fun obj_put :: "string \<Rightarrow> json \<Rightarrow> (string \<times> json) list \<Rightarrow> (string \<times> json) list" where
  "obj_put k v [] = [(k, v)]"
| "obj_put k v ((k', v') # m) = (if k' = k then (k, v) # m else (k', v') # obj_put k v m)"

fun obj_delete :: "string \<Rightarrow> (string \<times> json) list \<Rightarrow> (string \<times> json) list" where
  "obj_delete k [] = []"
| "obj_delete k ((k', v') # m) = (if k' = k then obj_delete k m else (k', v') # obj_delete k m)"

lemma map_of_obj_put [simp]: "map_of (obj_put k v m) = (map_of m)(k \<mapsto> v)"
  by (induction k v m rule: obj_put.induct) auto

lemma map_of_obj_delete [simp]: "map_of (obj_delete k m) = (map_of m)(k := None)"
  by (induction k m rule: obj_delete.induct) auto

text \<open>
  \<open>json.Unmarshal\<close> into \<open>map[string]string\<close>, \<open>[]string\<close> and \<open>string\<close>: a \<open>null\<close> leaves the zero value.
\<close>

definition decode_string :: "json \<Rightarrow> string option" where
  "decode_string j = (case j of JStr s \<Rightarrow> Some s | JNull \<Rightarrow> Some [] | _ \<Rightarrow> None)"

fun decode_members :: "(string \<times> json) list \<Rightarrow> (string \<times> string) list option" where
  "decode_members [] = Some []"
| "decode_members ((k, j) # m) =
    (case (decode_string j, decode_members m) of (Some s, Some r) \<Rightarrow> Some ((k, s) # r) | _ \<Rightarrow> None)"

definition decode_string_map :: "raw_message \<Rightarrow> (string \<times> string) list option" where
  "decode_string_map r =
    (case raw_value r of Some (JObj m) \<Rightarrow> decode_members m | Some JNull \<Rightarrow> Some [] | _ \<Rightarrow> None)"

fun decode_strings :: "json list \<Rightarrow> string list option" where
  "decode_strings [] = Some []"
| "decode_strings (j # js) =
    (case (decode_string j, decode_strings js) of (Some s, Some r) \<Rightarrow> Some (s # r) | _ \<Rightarrow> None)"

definition decode_string_list :: "raw_message \<Rightarrow> string list option" where
  "decode_string_list r =
    (case raw_value r of Some (JArr js) \<Rightarrow> decode_strings js | Some JNull \<Rightarrow> Some [] | _ \<Rightarrow> None)"

text \<open>
  A \<open>json.RawMessage\<close> inside a value to be marshalled: \<open>null\<close> where it is \<open>nil\<close>, and no value where it
  is not JSON (\<open>json.Marshal\<close> fails).
\<close>

definition embed_raw :: "raw_message \<Rightarrow> json option" where
  "embed_raw r = (if raw_length r = 0 then Some JNull else raw_value r)"

lemma decode_strings_JStr [simp]: "decode_strings (map JStr ss) = Some ss"
  by (induction ss) (simp_all add: decode_string_def)

text \<open>A member read as a string, the zero value where it is missing or of another type.\<close>

definition str_member :: "string \<Rightarrow> (string \<times> json) list \<Rightarrow> string" where
  "str_member k m = (case map_of m k of Some (JStr s) \<Rightarrow> s | _ \<Rightarrow> [])"

text \<open>
  A member decoded into a field of a struct: a missing or \<open>null\<close> member leaves the zero value, a
  value of another type is an error.
\<close>

definition member_text :: "(string \<times> json) list \<Rightarrow> string \<Rightarrow> string option" where
  "member_text m k = (case map_of m k of None \<Rightarrow> Some [] | Some j \<Rightarrow> decode_string j)"

definition member_bool :: "(string \<times> json) list \<Rightarrow> string \<Rightarrow> bool option" where
  "member_bool m k =
    (case map_of m k of None \<Rightarrow> Some False | Some JNull \<Rightarrow> Some False | Some (JBool b) \<Rightarrow> Some b | _ \<Rightarrow> None)"

definition member_object :: "(string \<times> json) list \<Rightarrow> string \<Rightarrow> (string \<times> json) list option" where
  "member_object m k =
    (case map_of m k of None \<Rightarrow> Some [] | Some JNull \<Rightarrow> Some [] | Some (JObj ms) \<Rightarrow> Some ms | _ \<Rightarrow> None)"

definition member_list :: "(string \<times> json) list \<Rightarrow> string \<Rightarrow> json list option" where
  "member_list m k =
    (case map_of m k of None \<Rightarrow> Some [] | Some JNull \<Rightarrow> Some [] | Some (JArr js) \<Rightarrow> Some js | _ \<Rightarrow> None)"

section \<open>The text of a value\<close>

fun nat_text_rev :: "nat \<Rightarrow> string" where
  "nat_text_rev n = char_of (48 + n mod 10) # (if n < 10 then [] else nat_text_rev (n div 10))"

declare nat_text_rev.simps [simp del]

definition nat_text :: "nat \<Rightarrow> string" where
  "nat_text n = rev (nat_text_rev n)"

definition int_text :: "int \<Rightarrow> string" where
  "int_text i = (if i < 0 then CHR ''-'' # nat_text (nat (- i)) else nat_text (nat i))"

text \<open>
  The number in the shortest decimal form: the integer part, and the fraction without trailing
  zeroes. (Go prints exponents from \<open>1e21\<close> up and below \<open>1e-4\<close>; those are not modelled.)
\<close>

definition decimal_text :: "int \<Rightarrow> nat \<Rightarrow> string" where
  "decimal_text m s =
    (let a = nat \<bar>m\<bar>; frac = a mod 10 ^ s;
         ds = rev (take s (rev (nat_text (10 ^ s + frac))));
         f = rev (dropWhile (\<lambda>c. c = CHR ''0'') (rev ds))
     in (if m < 0 then ''-'' else []) @ nat_text (a div 10 ^ s) @ (if f = [] then [] else CHR ''.'' # f))"

text \<open>\<open>fmt.Sprint\<close> of a decoded value; the members of an object print in key order.\<close>

definition join_text :: "string \<Rightarrow> string list \<Rightarrow> string" where
  "join_text sep ts = (case ts of [] \<Rightarrow> [] | t # us \<Rightarrow> t @ concat (map (\<lambda>u. sep @ u) us))"

fun sprint :: "json \<Rightarrow> string" where
  "sprint JNull = ''<nil>''"
| "sprint (JBool b) = (if b then ''true'' else ''false'')"
| "sprint (JNum m s) = decimal_text m s"
| "sprint (JStr s) = s"
| "sprint (JArr xs) = ''['' @ join_text '' '' (map sprint xs) @ '']''"
| "sprint (JObj ms) =
    ''map['' @ join_text '' ''
      (map (\<lambda>(k, t). k @ '':'' @ t) (sort_key fst (map (\<lambda>(k, v). (k, sprint v)) ms))) @ '']''"

text \<open>The bytes a character of a string costs in \<open>json.Marshal\<close>, which escapes HTML.\<close>

definition char_cost :: "char \<Rightarrow> nat" where
  "char_cost c =
    (if c \<in> {CHR 0x22, CHR 0x5C, CHR 0x08, CHR 0x0C, CHR 0x0A, CHR 0x0D, CHR 0x09} then 2
     else if of_char c < (0x20 :: nat) \<or> c \<in> {CHR ''<'', CHR ''>'', CHR ''&''} then 6 else 1)"

definition string_cost :: "string \<Rightarrow> nat" where
  "string_cost s = 2 + sum_list (map char_cost s)"

fun json_length :: "json \<Rightarrow> nat" where
  "json_length JNull = 4"
| "json_length (JBool b) = (if b then 4 else 5)"
| "json_length (JNum m s) = length (decimal_text m s)"
| "json_length (JStr s) = string_cost s"
| "json_length (JArr xs) = 2 + (length xs - 1) + sum_list (map json_length xs)"
| "json_length (JObj ms) =
    2 + (length ms - 1) + sum_list (map (\<lambda>(k, v). string_cost k + 1 + json_length v) ms)"

text \<open>\<open>json.Marshal\<close> of a value.\<close>

definition marshal :: "json \<Rightarrow> raw_message" where
  "marshal j = Raw (json_length j) (Some j)"

lemma raw_value_marshal [simp]: "raw_value (marshal j) = Some j"
  by (simp add: marshal_def)

lemma json_valid_marshal [simp]: "json_valid (marshal j)"
  by (simp add: json_valid_def)

lemma decode_object_marshal [simp]: "decode_object (marshal (JObj m)) = Some m"
  by (simp add: decode_object_def)

text \<open>
  \<open>json.Marshal\<close> of a map: the members in key order; nothing is written where a member does not
  marshal (the source ignores that error).
\<close>

fun all_members :: "(string \<times> json option) list \<Rightarrow> (string \<times> json) list option" where
  "all_members [] = Some []"
| "all_members ((k, v) # m) =
    (case (v, all_members m) of (Some j, Some r) \<Rightarrow> Some ((k, j) # r) | _ \<Rightarrow> None)"

definition marshal_map :: "(string \<times> json option) list \<Rightarrow> raw_message" where
  "marshal_map m =
    (case all_members m of None \<Rightarrow> raw_nil | Some ms \<Rightarrow> marshal (JObj (sort_key fst ms)))"

section \<open>Paths\<close>

fun payload_path :: "json \<Rightarrow> string list \<Rightarrow> json option" where
  "payload_path j [] = Some j"
| "payload_path j (k # ks) =
    (case j of
       JObj m \<Rightarrow> (case map_of m k of None \<Rightarrow> None | Some j' \<Rightarrow> payload_path j' ks)
     | _ \<Rightarrow> None)"

definition integrationPayloadPath :: "(string \<times> json) list \<Rightarrow> string \<Rightarrow> json option" where
  "integrationPayloadPath payload path =
    payload_path (JObj payload) (split_on CHR ''.'' (trim_space path))"

lemma payload_path_append:
  "payload_path j (ks @ ls) = (case payload_path j ks of None \<Rightarrow> None | Some j' \<Rightarrow> payload_path j' ls)"
  by (induction j ks rule: payload_path.induct) (auto split: json.splits option.splits)

end
