(* ===== verification/DomainModel.thy ===== *)
theory DomainModel
  imports Json
begin

text \<open>
  The deployment-neutral model of \<open>internal/domain/integration/model\<close>: its structs as records
  (fields keep the Go names behind a prefix per struct) and every \<open>Validate\<close> method as a
  function to \<^typ>\<open>err option\<close>, \<^const>\<open>None\<close> being \<open>nil\<close>. Go iterates over a map in random
  order; the model checks the entries in the order written, so which of several errors is
  reported is one choice of the source's.
\<close>

text \<open>The first error of a list of checks.\<close>

fun first_err :: "err option list \<Rightarrow> err option" where
  "first_err [] = None"
| "first_err (None # es) = first_err es"
| "first_err (Some e # es) = Some e"

definition fails_if :: "bool \<Rightarrow> err \<Rightarrow> err option" where
  "fails_if b e = (if b then Some e else None)"

lemma fails_if_None [simp]: "fails_if b e = None \<longleftrightarrow> \<not> b"
  by (simp add: fails_if_def)

lemma first_err_Cons: "first_err (x # xs) = (case x of None \<Rightarrow> first_err xs | Some e \<Rightarrow> Some e)"
  by (cases x) auto

lemma first_err_None [valid_simps]: "first_err es = None \<longleftrightarrow> (\<forall>e \<in> set es. e = None)"
  by (induction es) (auto simp: first_err_Cons split: option.splits)

definition blank :: "string \<Rightarrow> bool" where
  "blank s \<longleftrightarrow> trim_space s = []"

lemma blank_Nil [simp]: "blank []"
  by (simp add: blank_def)

lemma blank_trim [simp]: "blank (trim_space s) = blank s"
  by (simp add: blank_def)

section \<open>Bounded values and contract hashes\<close>

definition boundedAccountReadValue :: "string \<Rightarrow> nat \<Rightarrow> bool" where
  "boundedAccountReadValue value limit \<longleftrightarrow>
    value \<noteq> [] \<and> length value \<le> limit \<and> trim_space value = value \<and> \<not> has_control value"

definition boundedAccountWriteValue :: "string \<Rightarrow> nat \<Rightarrow> bool" where
  "boundedAccountWriteValue value limit \<longleftrightarrow>
    value \<noteq> [] \<and> length value \<le> limit \<and> trim_space value = value \<and> \<not> has_control value"

definition hex_digit :: "char \<Rightarrow> nat option" where
  "hex_digit c =
    (let n = of_char c in
     if 48 \<le> n \<and> n \<le> 57 then Some (n - 48)
     else if 97 \<le> n \<and> n \<le> 102 then Some (n - 87)
     else if 65 \<le> n \<and> n \<le> 70 then Some (n - 55) else None)"

fun hex_decode :: "string \<Rightarrow> nat list option" where
  "hex_decode [] = Some []"
| "hex_decode [c] = None"
| "hex_decode (c # d # s) =
    (case (hex_digit c, hex_digit d, hex_decode s) of
       (Some a, Some b, Some r) \<Rightarrow> Some ((16 * a + b) # r)
     | _ \<Rightarrow> None)"

definition contract_hash_valid :: "string \<Rightarrow> bool" where
  "contract_hash_valid s \<longleftrightarrow>
    (case hex_decode s of None \<Rightarrow> False | Some h \<Rightarrow> length h = 32 \<and> to_lower s = s)"

definition lower_hex :: "char \<Rightarrow> bool" where
  "lower_hex c \<longleftrightarrow> (let n = of_char c :: nat in 48 \<le> n \<and> n \<le> 57 \<or> 97 \<le> n \<and> n \<le> 102)"

lemma ascii_lower_id: "ascii_lower c = c \<longleftrightarrow> \<not> (65 \<le> (of_char c :: nat) \<and> (of_char c :: nat) \<le> 90)"
proof -
  have "65 \<le> (of_char c :: nat) \<Longrightarrow> (of_char c :: nat) \<le> 90 \<Longrightarrow> (of_char (ascii_lower c) :: nat) = of_char c + 32"
    by simp
  then show ?thesis by (metis add_cancel_right_right ascii_lower.simps zero_neq_numeral)
qed

lemma hex_digit_lower: "hex_digit c \<noteq> None \<and> ascii_lower c = c \<longleftrightarrow> lower_hex c"
  unfolding ascii_lower_id by (auto simp: hex_digit_def lower_hex_def Let_def)

lemma hex_decode_length: "hex_decode s = Some h \<Longrightarrow> length s = 2 * length h"
  by (induction s arbitrary: h rule: hex_decode.induct) (auto split: option.splits)

lemma hex_decode_iff:
  "(\<exists>h. hex_decode s = Some h) \<longleftrightarrow> even (length s) \<and> (\<forall>c \<in> set s. hex_digit c \<noteq> None)"
  by (induction s rule: hex_decode.induct) (auto split: option.splits)

text \<open>A contract hash is 64 lower-case hexadecimal digits.\<close>

lemma contract_hash_valid_iff [valid_simps]:
  "contract_hash_valid s \<longleftrightarrow> length s = 64 \<and> (\<forall>c \<in> set s. lower_hex c)"
proof -
  have lower: "to_lower s = s \<longleftrightarrow> (\<forall>c \<in> set s. ascii_lower c = c)"
    by (simp add: to_lower_def list_eq_iff_nth_eq all_set_conv_all_nth)
  have "contract_hash_valid s \<longleftrightarrow> (\<exists>h. hex_decode s = Some h) \<and> length s = 64 \<and> to_lower s = s"
    by (auto simp: contract_hash_valid_def hex_decode_length split: option.splits)
  also have "\<dots> \<longleftrightarrow> length s = 64 \<and> (\<forall>c \<in> set s. lower_hex c)"
    unfolding hex_decode_iff lower by (auto simp flip: hex_digit_lower)
  finally show ?thesis .
qed

section \<open>Connection accounts: reads and writes\<close>

record ConnectionAccountAccess =
  acc_Personal :: bool
  acc_Workspace :: bool

record ConnectionAccountSubject =
  sub_WorkspaceID :: string
  sub_UserID :: string
  sub_Access :: ConnectionAccountAccess

definition Subject_Validate :: "ConnectionAccountSubject \<Rightarrow> err option" where
  "Subject_Validate s =
    fails_if (blank (sub_WorkspaceID s) \<or> blank (sub_UserID s))
      (Errorf ''Integration connection account subject is incomplete'' [])"

record ConnectionAccountReadOperation =
  ro_Operation :: string
  ro_ContractSHA256 :: string

definition ReadOperation_Validate :: "ConnectionAccountReadOperation \<Rightarrow> err option" where
  "ReadOperation_Validate r =
    (if \<not> boundedAccountReadValue (ro_Operation r) 128
     then Some (Errorf ''Integration account read operation is invalid'' [])
     else if \<not> contract_hash_valid (ro_ContractSHA256 r)
     then Some (Errorf ''Integration account read contract is invalid'' [])
     else None)"

record ConnectionAccountReadRequest =
  rr_RequestID :: string
  rr_Operation :: string
  rr_ContractSHA256 :: string
  rr_Payload :: raw_message

definition ReadRequest_OperationContract :: "ConnectionAccountReadRequest \<Rightarrow> ConnectionAccountReadOperation" where
  "ReadRequest_OperationContract r =
    \<lparr>ro_Operation = rr_Operation r, ro_ContractSHA256 = rr_ContractSHA256 r\<rparr>"

definition ReadRequest_Validate :: "ConnectionAccountReadRequest \<Rightarrow> err option" where
  "ReadRequest_Validate r =
    (case ReadOperation_Validate (ReadRequest_OperationContract r) of
       Some e \<Rightarrow> Some e
     | None \<Rightarrow>
         fails_if (\<not> boundedAccountReadValue (rr_RequestID r) 256 \<or> raw_length (rr_Payload r) > 2 ^ 20 \<or>
                   \<not> json_valid (rr_Payload r))
           (Errorf ''Integration account read request is invalid'' []))"

record ConnectionAccountReadSource =
  rs_WorkspaceID :: string
  rs_ConnectionKey :: string
  rs_ConnectorKey :: string
  rs_ProviderKey :: string
  rs_AccountUpdatedAt :: string
  rs_Operation :: string
  rs_ContractSHA256 :: string

record ConnectionAccountReadAccess =
  ra_Source :: ConnectionAccountReadSource
  ra_ScopeAlternatives :: "string list list"

record ConnectionAccountReadResult =
  rres_Source :: ConnectionAccountReadSource
  rres_InvocationID :: string
  rres_ReadAt :: string
  rres_PayloadAvailable :: bool
  rres_Payload :: raw_message

record ConnectionAccountWriteOperation =
  wo_Operation :: string
  wo_ContractSHA256 :: string

definition WriteOperation_Validate :: "ConnectionAccountWriteOperation \<Rightarrow> err option" where
  "WriteOperation_Validate o' =
    fails_if (\<not> boundedAccountWriteValue (wo_Operation o') 128 \<or> \<not> contract_hash_valid (wo_ContractSHA256 o'))
      (Errorf ''Integration account write operation is invalid'' [])"

record ConnectionAccountWriteSource =
  ws_WorkspaceID :: string
  ws_ConnectionKey :: string
  ws_ConnectorKey :: string
  ws_ProviderKey :: string
  ws_AccountUpdatedAt :: string
  ws_Operation :: string
  ws_ContractSHA256 :: string

definition WriteSource_OperationContract :: "ConnectionAccountWriteSource \<Rightarrow> ConnectionAccountWriteOperation" where
  "WriteSource_OperationContract s =
    \<lparr>wo_Operation = ws_Operation s, wo_ContractSHA256 = ws_ContractSHA256 s\<rparr>"

record ConnectionAccountWriteAccess =
  wa_Source :: ConnectionAccountWriteSource
  wa_ScopeAlternatives :: "string list list"

record ConnectionAccountWriteRequest =
  wr_RequestID :: string
  wr_ExpectedSource :: ConnectionAccountWriteSource
  wr_Payload :: raw_message

definition WriteRequest_Validate :: "ConnectionAccountWriteRequest \<Rightarrow> err option" where
  "WriteRequest_Validate r =
    (let s = wr_ExpectedSource r in
     case WriteOperation_Validate (WriteSource_OperationContract s) of
       Some e \<Rightarrow> Some e
     | None \<Rightarrow>
         first_err
           (map (\<lambda>value. fails_if (\<not> boundedAccountWriteValue value 2048)
                    (Errorf ''Integration account write source is invalid'' []))
                [ws_WorkspaceID s, ws_ConnectionKey s, ws_ConnectorKey s, ws_ProviderKey s, ws_AccountUpdatedAt s] @
            [fails_if (\<not> boundedAccountWriteValue (wr_RequestID r) 256 \<or> raw_length (wr_Payload r) > 2 ^ 20 \<or>
                       \<not> json_valid (wr_Payload r))
               (Errorf ''Integration account write request is invalid'' [])]))"

definition AccountWriteNotFound :: string where "AccountWriteNotFound = ''not_found''"
definition AccountWriteSucceeded :: string where "AccountWriteSucceeded = ''succeeded''"
definition AccountWriteFailed :: string where "AccountWriteFailed = ''failed''"
definition AccountWriteUncertain :: string where "AccountWriteUncertain = ''uncertain''"

lemmas account_write_statuses =
  AccountWriteNotFound_def AccountWriteSucceeded_def AccountWriteFailed_def AccountWriteUncertain_def

record ConnectionAccountWriteResult =
  wres_Source :: ConnectionAccountWriteSource
  wres_InvocationID :: string
  wres_Status :: string
  wres_RecordedAt :: string
  wres_Receipt :: raw_message

record AccountWriteClaim =
  cl_Subject :: ConnectionAccountSubject
  cl_Request :: ConnectionAccountWriteRequest
  cl_InvocationID :: string
  cl_Fingerprint :: string

record AccountWriteExecution =
  ex_Status :: string
  ex_Payload :: raw_message
  ex_CredentialUpdateFailed :: bool

section \<open>Requests, receipts, invocations and events\<close>

record ConnectorDefinition =
  cdf_Key :: string
  cdf_DisplayName :: string
  cdf_Operations :: "string list"
  cdf_Schema :: raw_message
  cdf_Definition :: raw_message

record ConnectionRequirement =
  creq_Key :: string
  creq_WorkspaceID :: string
  creq_ConnectorKey :: string
  creq_ProviderKey :: string
  creq_Name :: string
  creq_Status :: string
  creq_Config :: raw_message

record DeliveryRequest =
  dr_MessageID :: string
  dr_DeduplicationKey :: string
  dr_WorkspaceID :: string
  dr_ConnectorKey :: string
  dr_ConnectionKey :: string
  dr_Operation :: string
  dr_Payload :: raw_message

record DeliveryReceipt =
  rcp_MessageID :: string
  rcp_InvocationID :: string
  rcp_Status :: string
  rcp_ResultRef :: string
  rcp_ErrorCode :: string

record WebPushSubscription =
  wp_ID :: string
  wp_WorkspaceID :: string
  wp_UserID :: string
  wp_EndpointHash :: string
  wp_Status :: string
  wp_ExpiresAt :: string
  wp_CreatedAt :: string
  wp_UpdatedAt :: string
  wp_RevokedAt :: string

record WebPushSubscriptionInput =
  wpi_Endpoint :: string
  wpi_P256DH :: string
  wpi_Auth :: string
  wpi_ExpiresAt :: string

record WebPushReadiness =
  wpr_Ready :: bool
  wpr_PublicKey :: string
  wpr_ConnectionKey :: string
  wpr_Status :: string
  wpr_Reason :: string

record Invocation =
  ivc_ID :: string
  ivc_WorkspaceID :: string
  ivc_ConnectorKey :: string
  ivc_ProviderKey :: string
  ivc_ConnectionKey :: string
  ivc_Operation :: string
  ivc_Status :: string
  ivc_DurationMS :: int
  ivc_RequestRef :: string
  ivc_ResponseRef :: string
  ivc_Error :: string
  ivc_EventID :: string
  ivc_ObjectKey :: string
  ivc_RecordID :: string
  ivc_WorkflowExecutionID :: string
  ivc_Metadata :: "(string \<times> json) list"
  ivc_CreatedAt :: string
  ivc_UpdatedAt :: string

record InvocationQuery =
  iq_WorkspaceID :: string
  iq_ConnectorKey :: string
  iq_ConnectionKey :: string
  iq_Operation :: string
  iq_Status :: string
  iq_CreatedFrom :: string
  iq_Limit :: int

record InvocationSource =
  src_ExecutionID :: string
  src_ObjectKey :: string
  src_RecordID :: string

definition InvocationSource_Validate :: "InvocationSource \<Rightarrow> err option" where
  "InvocationSource_Validate s =
    first_err
      (map (\<lambda>value. fails_if (value \<noteq> [] \<and> \<not> boundedAccountWriteValue value 255)
               (Errorf ''Integration invocation source invalid'' []))
           [src_ExecutionID s, src_ObjectKey s, src_RecordID s] @
       [fails_if (src_RecordID s \<noteq> [] \<and> (src_ExecutionID s = [] \<or> src_ObjectKey s = []))
          (Errorf ''Integration invocation source incomplete'' [])])"

record ProviderReadExpectation =
  pre_ConnectionUpdatedAt :: string
  pre_ProviderKey :: string
  pre_ContractSHA256 :: string

definition PersistenceStandard :: string where "PersistenceStandard = ''standard''"
definition PersistenceSensitive :: string where "PersistenceSensitive = ''sensitive''"

record ProviderCallRequest =
  pc_Source :: InvocationSource
  pc_ReadExpectation :: "ProviderReadExpectation option"
  pc_RequestID :: string
  pc_WorkspaceID :: string
  pc_ConnectorKey :: string
  pc_ConnectionKey :: string
  pc_Operation :: string
  pc_Payload :: raw_message
  pc_PersistenceMode :: string
  pc_MaskedDestination :: string
  pc_ActorID :: string
  pc_RoleKey :: string

record ProviderCallResult =
  pcr_Invocation :: Invocation
  pcr_Response :: raw_message

record RuntimeExecutionReceipt =
  rer_EventID :: string
  rer_MappingKey :: string
  rer_ExecutionID :: string
  rer_TargetType :: string
  rer_Status :: string
  rer_ErrorCode :: string
  rer_CompletedAt :: string

record Event =
  evt_ID :: string
  evt_WorkspaceID :: string
  evt_ConnectorKey :: string
  evt_ConnectionKey :: string
  evt_Provider :: string
  evt_EventType :: string
  evt_ExternalID :: string
  evt_Status :: string
  evt_Payload :: raw_message
  evt_Error :: string
  evt_AttemptCount :: nat
  evt_NextRetryAt :: string
  evt_LastAttemptAt :: string
  evt_ReceivedAt :: string
  evt_UpdatedAt :: string
  evt_Execution :: "RuntimeExecutionReceipt option"

record EventQuery =
  eq_WorkspaceID :: string
  eq_Provider :: string
  eq_EventType :: string
  eq_Status :: string
  eq_Limit :: int

record EventFieldRequirement =
  efr_Path :: string
  efr_Type :: string
  efr_Options :: "string list"
  efr_Required :: bool

record ExternalIdentityMappingRequirement =
  xid_Provider :: string
  xid_SubjectPath :: string
  xid_SubjectType :: string
  xid_NamePath :: string
  xid_OnUnmapped :: string

record EventMappingRequirement =
  em_Key :: string
  em_WorkspaceID :: string
  em_Provider :: string
  em_ConnectionKey :: string
  em_EventType :: string
  em_CommandPrefix :: string
  em_TargetType :: string
  em_WorkflowKey :: string
  em_ObjectKey :: string
  em_ObjectKeyPath :: string
  em_RecordID :: string
  em_RecordIDPath :: string
  em_ActionKey :: string
  em_ActionKeyPath :: string
  em_ActionInput :: "(string \<times> string) list"
  em_WorkflowInput :: "(string \<times> string) list"
  em_AgentID :: string
  em_ConversationID :: string
  em_AgentTaskMode :: string
  em_RelatedTaskID :: string
  em_RelatedTaskIDPath :: string
  em_AgentInput :: "(string \<times> string) list"
  em_EventFields :: "EventFieldRequirement list"
  em_ExternalIdentity :: ExternalIdentityMappingRequirement
  em_Payload :: "(string \<times> json) list"
  em_Enabled :: bool

section \<open>Subject erasure requests\<close>

record SubjectRecordReference =
  ref_ObjectKey :: string
  ref_RecordID :: string

record SubjectErasureRequest =
  ser_WorkspaceID :: string
  ser_SubjectID :: string
  ser_RequestID :: string
  ser_Resources :: "SubjectRecordReference list"
  ser_PublicationMessageIDs :: "string list"
  ser_EventIDs :: "string list"
  ser_LegalHolds :: raw_message

definition legal_hold_blocks :: "raw_message \<Rightarrow> bool" where
  "legal_hold_blocks holds \<longleftrightarrow>
    raw_length holds > 0 \<and>
    (case raw_value holds of Some (JArr xs) \<Rightarrow> xs \<noteq> [] | Some JNull \<Rightarrow> False | _ \<Rightarrow> True)"

definition subject_value_valid :: "string \<Rightarrow> nat \<Rightarrow> bool" where
  "subject_value_valid v limit \<longleftrightarrow>
    v \<noteq> [] \<and> length v \<le> limit \<and> trim_space v = v \<and> \<not> has_control v"

definition SubjectErasure_Validate :: "bool \<Rightarrow> SubjectErasureRequest \<Rightarrow> err option" where
  "SubjectErasure_Validate erasure r =
    first_err
      ([fails_if (\<not> subject_value_valid (ser_WorkspaceID r) 191 \<or> \<not> subject_value_valid (ser_SubjectID r) 255 \<or>
                  erasure \<and> \<not> subject_value_valid (ser_RequestID r) 255)
          (Errorf ''Integration subject scope invalid'' []),
        fails_if (length (ser_Resources r) > 10001 \<or> length (ser_PublicationMessageIDs r) > 10000 \<or>
                  length (ser_EventIDs r) > 10000)
          (Errorf ''Integration subject provenance exceeds limit'' [])] @
       map (\<lambda>ref. fails_if (\<not> subject_value_valid (ref_ObjectKey ref) 255 \<or>
                            \<not> subject_value_valid (ref_RecordID ref) 255)
               (Errorf ''Integration subject resource invalid'' []))
           (ser_Resources r) @
       map (\<lambda>id. fails_if (\<not> subject_value_valid id 255)
               (Errorf ''Integration subject provenance invalid'' []))
           (ser_PublicationMessageIDs r @ ser_EventIDs r) @
       [fails_if (erasure \<and> legal_hold_blocks (ser_LegalHolds r))
          (Errorf ''Integration erasure blocked by legal hold'' [])])"

end
