(* ===== verification/EventMappings.thy ===== *)
theory EventMappings
  imports DomainModel
begin

text \<open>
  The inbound mapping contract of \<open>integration_event_mapping_validation.go\<close> and the payload
  checks of \<open>inbound_store.go\<close>: which mappings are accepted, when a mapping matches an event,
  and when a payload has the declared fields. The main lemma says what acceptance means: the
  target is complete and finite, the declared fields are distinct, valid and typed, and every
  path the mapping reads is declared.
\<close>

section \<open>Accepting a mapping\<close>

definition validEventPath :: "string \<Rightarrow> bool" where
  "validEventPath path \<longleftrightarrow>
    path \<noteq> [] \<and> (\<forall>segment \<in> set (split_on CHR ''.'' path). \<not> blank segment \<and> trim_space segment = segment)"

definition supportedEventFieldType :: "string \<Rightarrow> bool" where
  "supportedEventFieldType value \<longleftrightarrow>
    to_lower (trim_space value) \<in>
      {''text'', ''string'', ''long_text'', ''email'', ''url'', ''date'', ''datetime'', ''relation'',
       ''user'', ''file'', ''number'', ''decimal'', ''currency'', ''percent'', ''integer'', ''boolean'',
       ''bool'', ''object'', ''map'', ''array'', ''list'', ''json''}"

definition mapping_required :: "EventMappingRequirement \<Rightarrow> err option" where
  "mapping_required r =
    first_err
      (map (\<lambda>(name, value). fails_if (blank value) (Errorf ''Integration event mapping %s is required'' [name]))
        [(''key'', em_Key r), (''workspace_id'', em_WorkspaceID r), (''provider'', em_Provider r),
         (''target_type'', em_TargetType r)])"

definition mapping_target :: "EventMappingRequirement \<Rightarrow> err option" where
  "mapping_target r =
    (let target = trim_space (em_TargetType r); mode = trim_space (em_AgentTaskMode r) in
     if target = ''action'' then first_err
       [fails_if (\<not> blank (em_ObjectKeyPath r) \<or> \<not> blank (em_ActionKeyPath r))
          (Errorf ''Integration action event mapping requires finite static object_key and action_key targets'' []),
        fails_if (blank (em_ObjectKey r) \<or> blank (em_ActionKey r))
          (Errorf ''Integration action event mapping requires object_key and action_key'' []),
        fails_if (blank (em_RecordID r) \<and> blank (em_RecordIDPath r))
          (Errorf ''Integration action event mapping requires record_id or record_id_path'' [])]
     else if target = ''workflow'' then
       fails_if (blank (em_WorkflowKey r)) (Errorf ''Integration workflow event mapping requires workflow_key'' [])
     else if target = ''agent_task'' then first_err
       [fails_if (blank (em_AgentID r) \<or> blank (em_ConversationID r))
          (Errorf ''Integration Agent event mapping requires agent_id and conversation_id'' []),
        fails_if (blank (xid_SubjectPath (em_ExternalIdentity r)))
          (Errorf ''Integration Agent event mapping requires external_identity.subject_path'' []),
        (if mode = ''start'' then
           fails_if (\<not> blank (em_RelatedTaskID r) \<or> \<not> blank (em_RelatedTaskIDPath r))
             (Errorf ''Integration Agent start event mapping cannot declare related_task_id'' [])
         else if mode = ''wake'' then
           fails_if (blank (em_RelatedTaskID r) \<and> blank (em_RelatedTaskIDPath r))
             (Errorf ''Integration Agent wake event mapping requires related_task_id or related_task_id_path'' [])
         else Some (Errorf ''Integration Agent event mapping agent_task_mode must be start or wake'' []))]
     else Some (Errorf ''Integration event mapping target_type %q is unsupported'' [em_TargetType r]))"

text \<open>The loop over the event fields: it collects the declared paths or stops at an error.\<close>

fun declare_fields :: "string list \<Rightarrow> nat \<Rightarrow> EventFieldRequirement list \<Rightarrow> err + string list" where
  "declare_fields declared index [] = Inr declared"
| "declare_fields declared index (field # rest) =
    (let path = trim_space (efr_Path field) in
     if \<not> validEventPath path then
       Inl (Errorf ''Integration event mapping event_fields[%d].path is invalid'' [nat_text index])
     else if path \<in> set declared then
       Inl (Errorf ''Integration event mapping event field path %q is duplicated'' [path])
     else if \<not> supportedEventFieldType (efr_Type field) then
       Inl (Errorf ''Integration event mapping event field %q has unsupported type %q'' [path, efr_Type field])
     else declare_fields (path # declared) (index + 1) rest)"

definition requireDeclared :: "string list \<Rightarrow> string \<Rightarrow> string \<Rightarrow> err option" where
  "requireDeclared declared name path =
    (let path = trim_space path in
     if path = [] then None
     else fails_if (path \<notin> set declared)
       (Errorf ''Integration event mapping %s path %q is not declared in event_fields'' [name, path]))"

text \<open>Every path a mapping reads, with the name it is reported under.\<close>

definition mapping_paths :: "EventMappingRequirement \<Rightarrow> (string \<times> string) list" where
  "mapping_paths r =
    map (\<lambda>(key, path). (''action_input.'' @ key, path)) (em_ActionInput r) @
    map (\<lambda>(key, path). (''workflow_input.'' @ key, path)) (em_WorkflowInput r) @
    map (\<lambda>(key, path). (''agent_input.'' @ key, path)) (em_AgentInput r) @
    [(''record_id_path'', em_RecordIDPath r),
     (''related_task_id_path'', em_RelatedTaskIDPath r),
     (''external_identity.subject_path'', xid_SubjectPath (em_ExternalIdentity r)),
     (''external_identity.name_path'', xid_NamePath (em_ExternalIdentity r))] @
    (if blank (em_CommandPrefix r) then [] else [(''command_prefix'', ''command'')])"

definition EventMapping_Validate :: "EventMappingRequirement \<Rightarrow> err option" where
  "EventMapping_Validate r =
    (case first_err [mapping_required r, mapping_target r] of
       Some e \<Rightarrow> Some e
     | None \<Rightarrow>
         (case declare_fields [] 0 (em_EventFields r) of
            Inl e \<Rightarrow> Some e
          | Inr declared \<Rightarrow>
              first_err (map (\<lambda>(name, path). requireDeclared declared name path) (mapping_paths r))))"

section \<open>What acceptance means\<close>

definition field_paths :: "EventMappingRequirement \<Rightarrow> string list" where
  "field_paths r = map (\<lambda>f. trim_space (efr_Path f)) (em_EventFields r)"

definition target_complete :: "EventMappingRequirement \<Rightarrow> bool" where
  "target_complete r \<longleftrightarrow>
    (let target = trim_space (em_TargetType r); mode = trim_space (em_AgentTaskMode r);
         related = \<not> blank (em_RelatedTaskID r) \<or> \<not> blank (em_RelatedTaskIDPath r) in
     target = ''action'' \<and> blank (em_ObjectKeyPath r) \<and> blank (em_ActionKeyPath r) \<and>
       \<not> blank (em_ObjectKey r) \<and> \<not> blank (em_ActionKey r) \<and>
       (\<not> blank (em_RecordID r) \<or> \<not> blank (em_RecordIDPath r)) \<or>
     target = ''workflow'' \<and> \<not> blank (em_WorkflowKey r) \<or>
     target = ''agent_task'' \<and> \<not> blank (em_AgentID r) \<and> \<not> blank (em_ConversationID r) \<and>
       \<not> blank (xid_SubjectPath (em_ExternalIdentity r)) \<and>
       (mode = ''start'' \<and> \<not> related \<or> mode = ''wake'' \<and> related))"

definition mapping_accepted :: "EventMappingRequirement \<Rightarrow> bool" where
  "mapping_accepted r \<longleftrightarrow>
    \<not> blank (em_Key r) \<and> \<not> blank (em_WorkspaceID r) \<and> \<not> blank (em_Provider r) \<and> target_complete r \<and>
    distinct (field_paths r) \<and>
    (\<forall>f \<in> set (em_EventFields r). validEventPath (trim_space (efr_Path f)) \<and> supportedEventFieldType (efr_Type f)) \<and>
    (\<forall>(name, path) \<in> set (mapping_paths r). blank path \<or> trim_space path \<in> set (field_paths r))"

lemma mapping_required_None [valid_simps]:
  "mapping_required r = None \<longleftrightarrow>
    \<not> blank (em_Key r) \<and> \<not> blank (em_WorkspaceID r) \<and> \<not> blank (em_Provider r) \<and> \<not> blank (em_TargetType r)"
  by (auto simp: mapping_required_def first_err_None)

lemma mapping_target_None [valid_simps]: "mapping_target r = None \<longleftrightarrow> target_complete r"
  unfolding mapping_target_def target_complete_def Let_def
  by (auto simp: first_err_None)

lemma target_complete_type: "target_complete r \<Longrightarrow> \<not> blank (em_TargetType r)"
  by (auto simp: target_complete_def Let_def blank_def)

lemma declare_fields_Inr:
  "(\<exists>d. declare_fields declared i fs = Inr d) \<longleftrightarrow>
    (\<forall>f \<in> set fs. validEventPath (trim_space (efr_Path f)) \<and> supportedEventFieldType (efr_Type f)) \<and>
    distinct (map (\<lambda>f. trim_space (efr_Path f)) fs) \<and>
    (\<forall>f \<in> set fs. trim_space (efr_Path f) \<notin> set declared)"
proof (induction fs arbitrary: declared i)
  case (Cons field rest)
  let ?p = "trim_space (efr_Path field)"
  show ?case
  proof (cases "validEventPath ?p \<and> ?p \<notin> set declared \<and> supportedEventFieldType (efr_Type field)")
    case True
    then have "declare_fields declared i (field # rest) = declare_fields (?p # declared) (i + 1) rest"
      by (simp add: Let_def)
    moreover have "?p \<notin> (\<lambda>f. trim_space (efr_Path f)) ` set rest \<longleftrightarrow> (\<forall>f \<in> set rest. trim_space (efr_Path f) \<noteq> ?p)"
      unfolding image_iff Bex_def Ball_def by (auto dest: sym)
    ultimately show ?thesis using True Cons.IH [of "?p # declared" "i + 1"] by auto
  qed (auto simp: Let_def)
qed simp

lemma declare_fields_set:
  "declare_fields declared i fs = Inr d \<Longrightarrow> set d = set declared \<union> (\<lambda>f. trim_space (efr_Path f)) ` set fs"
  by (induction declared i fs arbitrary: d rule: declare_fields.induct) (auto simp: Let_def split: if_splits)

lemma requireDeclared_None [valid_simps]:
  "requireDeclared declared name path = None \<longleftrightarrow> blank path \<or> trim_space path \<in> set declared"
  by (auto simp: requireDeclared_def Let_def blank_def)

lemma field_paths_set: "set (field_paths r) = (\<lambda>f. trim_space (efr_Path f)) ` set (em_EventFields r)"
  by (simp add: field_paths_def)

text \<open>
  A mapping is accepted exactly when its key, workspace and provider are given, its target
  is complete (finite static keys for an action, a workflow key, or an agent with the identity
  path and the mode's related task), its event fields have valid, distinct paths and supported
  types, and every input, record, task, identity and command path it reads is one of them.
\<close>

theorem event_mapping_validate_iff: "EventMapping_Validate r = None \<longleftrightarrow> mapping_accepted r"
proof (cases "declare_fields [] 0 (em_EventFields r)")
  case (Inl e)
  then have "\<not> (\<exists>d. declare_fields [] 0 (em_EventFields r) = Inr d)" by simp
  then have "\<not> mapping_accepted r"
    unfolding declare_fields_Inr by (auto simp: mapping_accepted_def field_paths_def)
  with Inl show ?thesis by (auto simp: EventMapping_Validate_def split: option.splits)
next
  case (Inr d)
  then have ok: "\<exists>d. declare_fields [] 0 (em_EventFields r) = Inr d" by blast
  have d: "set d = set (field_paths r)" using declare_fields_set [OF Inr] by (simp add: field_paths_set)
  have paths: "first_err (map (\<lambda>(name, path). requireDeclared d name path) (mapping_paths r)) = None \<longleftrightarrow>
      (\<forall>(name, path) \<in> set (mapping_paths r). blank path \<or> trim_space path \<in> set (field_paths r))"
    by (auto simp: valid_simps d)
  have "EventMapping_Validate r = None \<longleftrightarrow>
      (mapping_required r = None \<and> mapping_target r = None) \<and>
      (\<forall>(name, path) \<in> set (mapping_paths r). blank path \<or> trim_space path \<in> set (field_paths r))"
    unfolding paths [symmetric]
    by (cases "mapping_required r"; cases "mapping_target r") (simp_all add: EventMapping_Validate_def Inr)
  then show ?thesis
    using ok unfolding declare_fields_Inr mapping_required_None mapping_target_None mapping_accepted_def
      field_paths_def by (auto simp: target_complete_type)
qed

section \<open>Matching an event and checking its payload\<close>

definition eventMappingMatches :: "EventMappingRequirement \<Rightarrow> Event \<Rightarrow> bool" where
  "eventMappingMatches mapping event =
    (if \<not> em_Enabled mapping \<or> trim_space (em_Provider mapping) \<noteq> evt_Provider event \<or>
        trim_space (em_EventType mapping) \<noteq> [] \<and> trim_space (em_EventType mapping) \<noteq> evt_EventType event
     then False
     else
       (let payload = (case decode_object (evt_Payload event) of None \<Rightarrow> [] | Some m \<Rightarrow> m);
            text_at = (\<lambda>path. trim_space (sprint (case integrationPayloadPath payload path of
                                                    None \<Rightarrow> JNull | Some v \<Rightarrow> v)));
            prefix = trim_space (em_CommandPrefix mapping);
            connection = trim_space (em_ConnectionKey mapping) in
        (prefix = [] \<or> has_prefix (text_at ''command'') prefix) \<and>
        (connection = [] \<or> text_at ''_integration_context.connection_key'' = connection)))"

definition mappedSubject :: "EventMappingRequirement \<Rightarrow> Event \<Rightarrow> string \<times> string" where
  "mappedSubject mapping event =
    (let provider = trim_space (xid_Provider (em_ExternalIdentity mapping));
         provider = (if provider = [] then evt_Provider event else provider);
         payload = (case decode_object (evt_Payload event) of None \<Rightarrow> [] | Some m \<Rightarrow> m);
         path = xid_SubjectPath (em_ExternalIdentity mapping) in
     case integrationPayloadPath payload path of
       None \<Rightarrow> (provider, [])
     | Some value \<Rightarrow> if path = [] then (provider, []) else (provider, trim_space (sprint value)))"

definition integrationEventValueMatchesType :: "json \<Rightarrow> string \<Rightarrow> bool" where
  "integrationEventValueMatchesType value valueType =
    (let t = to_lower (trim_space valueType) in
     if t \<in> {''text'', ''string'', ''email'', ''url'', ''date'', ''datetime'', ''relation'', ''user''} then
       (case value of JStr s \<Rightarrow> True | _ \<Rightarrow> False)
     else if t \<in> {''number'', ''decimal'', ''currency'', ''percent''} then
       (case value of JNum m s \<Rightarrow> True | _ \<Rightarrow> False)
     else if t = ''integer'' then
       (case value of
          JNum m s \<Rightarrow> m mod 10 ^ s = 0 \<and> - (2 ^ 63) \<le> m div 10 ^ s \<and> m div 10 ^ s < 2 ^ 63
        | _ \<Rightarrow> False)
     else if t \<in> {''boolean'', ''bool''} then (case value of JBool b \<Rightarrow> True | _ \<Rightarrow> False)
     else if t \<in> {''object'', ''map''} then (case value of JObj m \<Rightarrow> True | _ \<Rightarrow> False)
     else if t \<in> {''array'', ''list''} then (case value of JArr xs \<Rightarrow> True | _ \<Rightarrow> False)
     else False)"

definition check_event_field :: "(string \<times> json) list \<Rightarrow> EventFieldRequirement \<Rightarrow> err option" where
  "check_event_field payload field =
    (case integrationPayloadPath payload (efr_Path field) of
       None \<Rightarrow> fails_if (efr_Required field) (Errorf ''Integration event field %q is required'' [efr_Path field])
     | Some value \<Rightarrow>
         if \<not> integrationEventValueMatchesType value (efr_Type field)
         then Some (Errorf ''Integration event field %q must be %s'' [efr_Path field, efr_Type field])
         else fails_if (efr_Options field \<noteq> [] \<and>
                (\<forall>option \<in> set (efr_Options field). trim_space (sprint value) \<noteq> trim_space option))
                (Errorf ''Integration event field %q has unsupported value'' [efr_Path field]))"

definition validateIntegrationEventPayload :: "EventMappingRequirement \<Rightarrow> (string \<times> json) list \<Rightarrow> err option" where
  "validateIntegrationEventPayload mapping payload =
    first_err (map (check_event_field payload) (em_EventFields mapping))"

text \<open>
  Three field types a mapping may declare (\<open>long_text\<close>, \<open>file\<close> and \<open>json\<close>) are
  accepted by the contract but match no payload value: an accepted mapping that declares a field
  of such a type rejects every payload in which the field is present.
\<close>

theorem json_fields_reject_every_payload:
  assumes "field \<in> set (em_EventFields mapping)"
    and "to_lower (trim_space (efr_Type field)) \<in> {''json'', ''file'', ''long_text''}"
    and "integrationPayloadPath payload (efr_Path field) = Some v"
  shows "supportedEventFieldType (efr_Type field) \<and> validateIntegrationEventPayload mapping payload \<noteq> None"
proof -
  have "\<not> integrationEventValueMatchesType v (efr_Type field)"
    using assms(2) by (auto simp: integrationEventValueMatchesType_def Let_def)
  then have "check_event_field payload field \<noteq> None" using assms(3) by (simp add: check_event_field_def)
  with assms(1,2) show ?thesis
    by (auto simp: validateIntegrationEventPayload_def first_err_None supportedEventFieldType_def)
qed

text \<open>Such a mapping: an event field \<open>doc\<close> of type \<open>json\<close>, and a payload with an object there.\<close>

theorem json_fields_reject_every_payload_witness:
  "\<exists>mapping. \<exists>field. field \<in> set (em_EventFields mapping) \<and> efr_Type field = ''json'' \<and>
     supportedEventFieldType (efr_Type field) \<and>
     validateIntegrationEventPayload mapping [(''doc'', JObj [])] \<noteq> None"
proof -
  let ?field = "\<lparr>efr_Path = ''doc'', efr_Type = ''json'', efr_Options = [], efr_Required = True\<rparr>"
  obtain mapping :: EventMappingRequirement where m: "em_EventFields mapping = [?field]"
    by (metis EventMappingRequirement.select_convs(23))
  have type: "to_lower (trim_space ''json'') = ''json''" by code_simp
  have path: "integrationPayloadPath [(''doc'', JObj [])] ''doc'' = Some (JObj [])" by code_simp
  have "supportedEventFieldType (efr_Type ?field) \<and> validateIntegrationEventPayload mapping [(''doc'', JObj [])] \<noteq> None"
    by (rule json_fields_reject_every_payload [where field = ?field and v = "JObj []"])
      (simp_all only: m path type EventFieldRequirement.select_convs list.set insert_iff simp_thms)
  with m show ?thesis by (intro exI [of _ mapping] exI [of _ ?field]) simp
qed

section \<open>The stored form of a mapping\<close>

text \<open>\<open>json.Marshal\<close> of a mapping; an \<open>omitempty\<close> member is left out when it is empty.\<close>

definition entry_if :: "bool \<Rightarrow> string \<Rightarrow> json \<Rightarrow> (string \<times> json) list" where
  "entry_if b k j = (if b then [(k, j)] else [])"

definition text_entry :: "string \<Rightarrow> string \<Rightarrow> (string \<times> json) list" where
  "text_entry k v = entry_if (v \<noteq> []) k (JStr v)"

definition map_entry :: "string \<Rightarrow> (string \<times> string) list \<Rightarrow> (string \<times> json) list" where
  "map_entry k m = entry_if (m \<noteq> []) k (JObj (map (\<lambda>(k, v). (k, JStr v)) (sort_key fst m)))"

definition event_field_json :: "EventFieldRequirement \<Rightarrow> json" where
  "event_field_json f =
    JObj ([(''path'', JStr (efr_Path f)), (''type'', JStr (efr_Type f))] @
          entry_if (efr_Options f \<noteq> []) ''options'' (JArr (map JStr (efr_Options f))) @
          entry_if (efr_Required f) ''required'' (JBool True))"

definition identity_json :: "ExternalIdentityMappingRequirement \<Rightarrow> json" where
  "identity_json x =
    JObj (text_entry ''provider'' (xid_Provider x) @ text_entry ''subject_path'' (xid_SubjectPath x) @
          text_entry ''subject_type'' (xid_SubjectType x) @ text_entry ''name_path'' (xid_NamePath x) @
          text_entry ''on_unmapped'' (xid_OnUnmapped x))"

definition mapping_members :: "EventMappingRequirement \<Rightarrow> (string \<times> json) list" where
  "mapping_members r =
     ([(''key'', JStr (em_Key r)), (''workspace_id'', JStr (em_WorkspaceID r)), (''provider'', JStr (em_Provider r))] @
      text_entry ''connection_key'' (em_ConnectionKey r) @ text_entry ''event_type'' (em_EventType r) @
      text_entry ''command_prefix'' (em_CommandPrefix r) @ [(''target_type'', JStr (em_TargetType r))] @
      text_entry ''workflow_key'' (em_WorkflowKey r) @ text_entry ''object_key'' (em_ObjectKey r) @
      text_entry ''object_key_path'' (em_ObjectKeyPath r) @ text_entry ''record_id'' (em_RecordID r) @
      text_entry ''record_id_path'' (em_RecordIDPath r) @ text_entry ''action_key'' (em_ActionKey r) @
      text_entry ''action_key_path'' (em_ActionKeyPath r) @ map_entry ''action_input'' (em_ActionInput r) @
      map_entry ''workflow_input'' (em_WorkflowInput r) @ text_entry ''agent_id'' (em_AgentID r) @
      text_entry ''conversation_id'' (em_ConversationID r) @ text_entry ''agent_task_mode'' (em_AgentTaskMode r) @
      text_entry ''related_task_id'' (em_RelatedTaskID r) @ text_entry ''related_task_id_path'' (em_RelatedTaskIDPath r) @
      map_entry ''agent_input'' (em_AgentInput r) @
      entry_if (em_EventFields r \<noteq> []) ''event_fields'' (JArr (map event_field_json (em_EventFields r))) @
      [(''external_identity'', identity_json (em_ExternalIdentity r))] @
      entry_if (em_Payload r \<noteq> []) ''payload'' (JObj (sort_key fst (em_Payload r))) @
      [(''enabled'', JBool (em_Enabled r))])"

definition mapping_json :: "EventMappingRequirement \<Rightarrow> json" where
  "mapping_json r = JObj (mapping_members r)"

text \<open>\<open>json.Unmarshal\<close> into a mapping.\<close>

definition members :: "json \<Rightarrow> (string \<times> json) list option" where
  "members j = (case j of JObj m \<Rightarrow> Some m | JNull \<Rightarrow> Some [] | _ \<Rightarrow> None)"

definition decode_event_field :: "json \<Rightarrow> EventFieldRequirement option" where
  "decode_event_field j =
    (case members j of
       None \<Rightarrow> None
     | Some m \<Rightarrow>
         (case (member_text m ''path'', member_text m ''type'',
                (case member_list m ''options'' of None \<Rightarrow> None | Some js \<Rightarrow> decode_strings js), member_bool m ''required'') of
            (Some p, Some t, Some os, Some b) \<Rightarrow>
              Some \<lparr>efr_Path = p, efr_Type = t, efr_Options = os, efr_Required = b\<rparr>
          | _ \<Rightarrow> None))"

fun decode_event_fields :: "json list \<Rightarrow> EventFieldRequirement list option" where
  "decode_event_fields [] = Some []"
| "decode_event_fields (j # js) =
    (case (decode_event_field j, decode_event_fields js) of (Some f, Some fs) \<Rightarrow> Some (f # fs) | _ \<Rightarrow> None)"

definition decode_identity :: "(string \<times> json) list \<Rightarrow> ExternalIdentityMappingRequirement option" where
  "decode_identity m =
    (case map (member_text m) [''provider'', ''subject_path'', ''subject_type'', ''name_path'', ''on_unmapped''] of
       [Some a, Some b, Some c, Some d, Some e] \<Rightarrow>
         Some \<lparr>xid_Provider = a, xid_SubjectPath = b, xid_SubjectType = c, xid_NamePath = d, xid_OnUnmapped = e\<rparr>
     | _ \<Rightarrow> None)"

definition mapping_texts :: "string list" where
  "mapping_texts =
    [''key'', ''workspace_id'', ''provider'', ''connection_key'', ''event_type'', ''command_prefix'', ''target_type'',
     ''workflow_key'', ''object_key'', ''object_key_path'', ''record_id'', ''record_id_path'', ''action_key'',
     ''action_key_path'', ''agent_id'', ''conversation_id'', ''agent_task_mode'', ''related_task_id'', ''related_task_id_path'']"

definition member_strings :: "(string \<times> json) list \<Rightarrow> string \<Rightarrow> (string \<times> string) list option" where
  "member_strings m k = (case member_object m k of None \<Rightarrow> None | Some ms \<Rightarrow> decode_members ms)"

definition decode_mapping :: "json \<Rightarrow> EventMappingRequirement option" where
  "decode_mapping j =
    (case members j of
       None \<Rightarrow> None
     | Some m \<Rightarrow>
         if \<not> list_all (\<lambda>k. member_text m k \<noteq> None) mapping_texts then None
         else
           (case (member_strings m ''action_input'', member_strings m ''workflow_input'', member_strings m ''agent_input'',
                  (case member_list m ''event_fields'' of None \<Rightarrow> None | Some js \<Rightarrow> decode_event_fields js),
                  (case member_object m ''external_identity'' of None \<Rightarrow> None | Some ms \<Rightarrow> decode_identity ms),
                  member_object m ''payload'', member_bool m ''enabled'') of
              (Some action, Some workflow, Some agent, Some fs, Some identity, Some payload, Some enabled) \<Rightarrow>
                Some \<lparr>em_Key = str_member ''key'' m, em_WorkspaceID = str_member ''workspace_id'' m,
                      em_Provider = str_member ''provider'' m, em_ConnectionKey = str_member ''connection_key'' m,
                      em_EventType = str_member ''event_type'' m, em_CommandPrefix = str_member ''command_prefix'' m,
                      em_TargetType = str_member ''target_type'' m, em_WorkflowKey = str_member ''workflow_key'' m,
                      em_ObjectKey = str_member ''object_key'' m, em_ObjectKeyPath = str_member ''object_key_path'' m,
                      em_RecordID = str_member ''record_id'' m, em_RecordIDPath = str_member ''record_id_path'' m,
                      em_ActionKey = str_member ''action_key'' m, em_ActionKeyPath = str_member ''action_key_path'' m,
                      em_ActionInput = action, em_WorkflowInput = workflow, em_AgentID = str_member ''agent_id'' m,
                      em_ConversationID = str_member ''conversation_id'' m, em_AgentTaskMode = str_member ''agent_task_mode'' m,
                      em_RelatedTaskID = str_member ''related_task_id'' m,
                      em_RelatedTaskIDPath = str_member ''related_task_id_path'' m, em_AgentInput = agent,
                      em_EventFields = fs, em_ExternalIdentity = identity, em_Payload = payload, em_Enabled = enabled\<rparr>
            | _ \<Rightarrow> None))"

section \<open>A stored mapping reads back\<close>

lemma map_of_entry_if [simp]: "map_of (entry_if b k j @ m) k' = (if b \<and> k = k' then Some j else map_of m k')"
  by (simp add: entry_if_def)

lemma map_of_entry_end [simp]: "map_of (entry_if b k j) k' = (if b \<and> k = k' then Some j else None)"
  by (simp add: entry_if_def)

lemma if_empty [simp]: "(if v = [] then Some [] else Some v) = Some v" "(if v \<noteq> [] then Some v else Some []) = Some v"
  by simp_all

lemma decode_members_texts [simp]: "decode_members (map (\<lambda>(k, v). (k, JStr v)) m) = Some m"
  by (induction m) (auto simp: decode_string_def)

lemma entry_members [simp]:
  "member_text (entry_if b k j @ m) k' = (if b \<and> k = k' then decode_string j else member_text m k')"
  "member_text ((k, j) # m) k' = (if k = k' then decode_string j else member_text m k')"
  "member_text (entry_if b k j) k' = (if b \<and> k = k' then decode_string j else Some [])"
  "member_text [] k' = Some []" "decode_string (JStr s) = Some s"
  by (simp_all add: member_text_def decode_string_def del: map_of_append)

lemma decode_identity_json [simp]:
  "identity_json x = JObj m \<Longrightarrow> decode_identity m = Some x"
  by (cases x) (auto simp: identity_json_def decode_identity_def text_entry_def)

lemma decode_event_field_json [simp]: "decode_event_field (event_field_json f) = Some f"
  by (cases f) (simp add: decode_event_field_def event_field_json_def members_def member_list_def member_bool_def
      del: map_of_append)

lemma decode_event_fields_json [simp]: "decode_event_fields (map event_field_json fs) = Some fs"
  by (induction fs) simp_all

text \<open>A Go map has no order: its canonical list is sorted by key.\<close>

definition mapping_canonical :: "EventMappingRequirement \<Rightarrow> bool" where
  "mapping_canonical r \<longleftrightarrow>
    sorted (map fst (em_ActionInput r)) \<and> sorted (map fst (em_WorkflowInput r)) \<and>
    sorted (map fst (em_AgentInput r)) \<and> sorted (map fst (em_Payload r))"

lemmas mapping_entries = mapping_members_def text_entry_def map_entry_def

lemma mapping_strings:
  "member_strings (mapping_members r) ''action_input'' = Some (sort_key fst (em_ActionInput r))"
  "member_strings (mapping_members r) ''workflow_input'' = Some (sort_key fst (em_WorkflowInput r))"
  "member_strings (mapping_members r) ''agent_input'' = Some (sort_key fst (em_AgentInput r))"
  by (simp_all add: member_strings_def member_object_def mapping_entries del: map_of_append)

lemma mapping_objects:
  "member_object (mapping_members r) ''payload'' = Some (sort_key fst (em_Payload r))"
  "member_bool (mapping_members r) ''enabled'' = Some (em_Enabled r)"
  "member_list (mapping_members r) ''event_fields'' = Some (map event_field_json (em_EventFields r))"
  by (simp_all add: member_object_def member_bool_def member_list_def mapping_entries del: map_of_append)

lemma mapping_member_texts:
  "member_text (mapping_members r) ''key'' = Some (em_Key r)"
  "member_text (mapping_members r) ''workspace_id'' = Some (em_WorkspaceID r)"
  "member_text (mapping_members r) ''provider'' = Some (em_Provider r)"
  "member_text (mapping_members r) ''connection_key'' = Some (em_ConnectionKey r)"
  "member_text (mapping_members r) ''event_type'' = Some (em_EventType r)"
  "member_text (mapping_members r) ''command_prefix'' = Some (em_CommandPrefix r)"
  "member_text (mapping_members r) ''target_type'' = Some (em_TargetType r)"
  "member_text (mapping_members r) ''workflow_key'' = Some (em_WorkflowKey r)"
  "member_text (mapping_members r) ''object_key'' = Some (em_ObjectKey r)"
  "member_text (mapping_members r) ''object_key_path'' = Some (em_ObjectKeyPath r)"
  "member_text (mapping_members r) ''record_id'' = Some (em_RecordID r)"
  "member_text (mapping_members r) ''record_id_path'' = Some (em_RecordIDPath r)"
  "member_text (mapping_members r) ''action_key'' = Some (em_ActionKey r)"
  "member_text (mapping_members r) ''action_key_path'' = Some (em_ActionKeyPath r)"
  "member_text (mapping_members r) ''agent_id'' = Some (em_AgentID r)"
  "member_text (mapping_members r) ''conversation_id'' = Some (em_ConversationID r)"
  "member_text (mapping_members r) ''agent_task_mode'' = Some (em_AgentTaskMode r)"
  "member_text (mapping_members r) ''related_task_id'' = Some (em_RelatedTaskID r)"
  "member_text (mapping_members r) ''related_task_id_path'' = Some (em_RelatedTaskIDPath r)"
  by (simp_all add: mapping_entries)

lemma str_member_text: "member_text m k = Some s \<Longrightarrow> str_member k m = s"
  by (auto simp: member_text_def str_member_def decode_string_def split: option.splits json.splits)

lemmas mapping_strs = mapping_member_texts [THEN str_member_text]

lemma mapping_texts_present: "list_all (\<lambda>k. member_text (mapping_members r) k \<noteq> None) mapping_texts"
  by (simp add: mapping_texts_def mapping_member_texts)

lemma mapping_identity:
  "identity_json (em_ExternalIdentity r) = JObj x \<Longrightarrow> member_object (mapping_members r) ''external_identity'' = Some x"
  by (simp add: member_object_def mapping_entries del: map_of_append)

text \<open>
  A mapping that is stored reads back as it was, every field of it, whatever is empty.
\<close>

lemma mapping_decodes:
  assumes "mapping_canonical r"
  shows "decode_mapping (mapping_json r) = Some r"
proof -
  obtain x where x: "identity_json (em_ExternalIdentity r) = JObj x" by (simp add: identity_json_def)
  show ?thesis
    using assms mapping_identity [OF x] decode_identity_json [OF x]
    by (simp add: mapping_json_def decode_mapping_def members_def mapping_texts_present [simplified] mapping_strings mapping_objects mapping_strs
        mapping_canonical_def sort_key_id_if_sorted)
qed

definition demo_mapping :: EventMappingRequirement where
  "demo_mapping =
    \<lparr>em_Key = ''inbox'', em_WorkspaceID = ''w1'', em_Provider = ''echo'', em_ConnectionKey = [], em_EventType = ''message'',
     em_CommandPrefix = [], em_TargetType = ''workflow'', em_WorkflowKey = ''triage'', em_ObjectKey = [], em_ObjectKeyPath = [],
     em_RecordID = [], em_RecordIDPath = [], em_ActionKey = [], em_ActionKeyPath = [], em_ActionInput = [],
     em_WorkflowInput = [(''text'', ''text'')], em_AgentID = [], em_ConversationID = [], em_AgentTaskMode = [],
     em_RelatedTaskID = [], em_RelatedTaskIDPath = [], em_AgentInput = [],
     em_EventFields = [\<lparr>efr_Path = ''text'', efr_Type = ''text'', efr_Options = [], efr_Required = True\<rparr>],
     em_ExternalIdentity = \<lparr>xid_Provider = [], xid_SubjectPath = [], xid_SubjectType = [], xid_NamePath = [], xid_OnUnmapped = []\<rparr>,
     em_Payload = [], em_Enabled = True\<rparr>"

lemma demo_mapping_canonical: "mapping_canonical demo_mapping"
  by (simp add: mapping_canonical_def demo_mapping_def)


end
