(* ===== verification/ScopeState.thy ===== *)
theory ScopeState
  imports DomainModel
begin

text \<open>
  \<open>connection_test_scope.go\<close>: which declared OAuth scope alternatives a recorded grant
  satisfies. The declaration is a list of alternatives, each a list of scopes that must all
  be granted; the lemma characterises the four answers.
\<close>

definition scope_char_valid :: "char \<Rightarrow> bool" where
  "scope_char_valid c \<longleftrightarrow>
    (let n = of_char c :: nat in 0x21 \<le> n \<and> n \<le> 0x7E \<and> n \<noteq> 0x22 \<and> n \<noteq> 0x5C)"

definition scope_text_valid :: "string \<Rightarrow> bool" where
  "scope_text_valid s \<longleftrightarrow> 0 < length s \<and> length s \<le> 2048 \<and> list_all scope_char_valid s"

definition alternatives_valid :: "string list list \<Rightarrow> bool" where
  "alternatives_valid alternatives \<longleftrightarrow>
    alternatives \<noteq> [] \<and> length alternatives \<le> 64 \<and>
    list_all (\<lambda>alternative. length alternative \<le> 64 \<and> list_all scope_text_valid alternative) alternatives"

definition OAuthScopeState :: "string list \<Rightarrow> bool \<Rightarrow> string list list \<Rightarrow> string" where
  "OAuthScopeState granted verified alternatives =
    (if \<not> alternatives_valid alternatives then ''requirements_invalid''
     else if list_ex (\<lambda>alternative. alternative = []) alternatives then ''ready''
     else if \<not> verified then ''scope_unverified''
     else if list_ex (\<lambda>alternative. list_all (\<lambda>scope. scope \<in> set granted) alternative) alternatives then ''ready''
     else ''scope_required'')"

definition ConnectionTestScopeState :: "string list \<Rightarrow> bool \<Rightarrow> string list list \<Rightarrow> string" where
  "ConnectionTestScopeState granted verified alternatives = OAuthScopeState granted verified alternatives"

text \<open>
  A grant is ready exactly when the declaration is well formed and either some alternative
  asks for nothing or the grant is verified and contains every scope of some alternative.
\<close>

theorem scope_ready_iff:
  "OAuthScopeState granted verified alternatives = ''ready'' \<longleftrightarrow>
    alternatives_valid alternatives \<and>
    (\<exists>alternative \<in> set alternatives.
       alternative = [] \<or> verified \<and> set alternative \<subseteq> set granted)"
  by (auto simp: OAuthScopeState_def list_ex_iff list_all_iff subset_iff)

text \<open>More grants never lose readiness, and an unverified grant is never read as granted.\<close>

lemma scope_ready_mono:
  "OAuthScopeState granted verified alternatives = ''ready'' \<Longrightarrow> set granted \<subseteq> set granted' \<Longrightarrow>
   OAuthScopeState granted' verified alternatives = ''ready''"
  unfolding scope_ready_iff by blast

lemma scope_unverified_ignores_grant:
  "OAuthScopeState granted False alternatives = OAuthScopeState granted' False alternatives"
  by (simp add: OAuthScopeState_def)

end
