(* ===== verification/Sql.thy ===== *)
theory Sql
  imports Json
begin

text \<open>
  The tables and the predicates of the query builder. A row maps column names to values, a
  table is the list of its rows, a database maps table names to tables; predicates are the
  builder's terms, evaluated in the three-valued logic of SQL. The unique keys are those of
  \<open>schema/definition.go\<close>; text compares in byte order.
\<close>

section \<open>Values, rows and tables\<close>

text \<open>\<open>Doc\<close> is a text column that holds JSON, seen as a \<^typ>\<open>raw_message\<close>.\<close>

datatype sql = Null | Text string | Num int | Doc raw_message

type_synonym row = "string \<Rightarrow> sql"
type_synonym database = "string \<Rightarrow> row list"

definition row_of :: "(string \<times> sql) list \<Rightarrow> row" where
  "row_of cs = (\<lambda>c. case map_of cs c of None \<Rightarrow> Null | Some v \<Rightarrow> v)"

text \<open>\<open>Scan\<close> into a \<open>string\<close> fails on \<open>NULL\<close>; into a \<open>sql.NullString\<close> it gives the empty string.\<close>

definition text_of :: "sql \<Rightarrow> string" where
  "text_of v = (case v of Text s \<Rightarrow> s | _ \<Rightarrow> [])"

definition int_of_sql :: "sql \<Rightarrow> int" where
  "int_of_sql v = (case v of Num i \<Rightarrow> i | _ \<Rightarrow> 0)"

definition doc_of :: "sql \<Rightarrow> raw_message" where
  "doc_of v = (case v of Doc r \<Rightarrow> r | _ \<Rightarrow> raw_nil)"

lemma sql_readers [simp]:
  "text_of (Text s) = s" "text_of Null = []" "int_of_sql (Num i) = i" "doc_of (Doc r) = r"
  "doc_of Null = raw_nil" "int_of_sql Null = 0"
  by (simp_all add: text_of_def int_of_sql_def doc_of_def)

fun has_null :: "row \<Rightarrow> string list \<Rightarrow> bool" where
  "has_null r cs = (\<exists>c \<in> set cs. r c = Null)"

section \<open>Predicates\<close>

text \<open>
  The builder's predicates. \<open>EqualOuter\<close> compares a column with one of the enclosing
  statement's row, as \<open>EqualExpressions(Column(c), QualifiedColumn(table, d))\<close> does inside a
  \<open>NotExists\<close>; \<open>NotPrefix\<close> is \<open>NotLike(c, p || '%')\<close>.
\<close>

datatype predicate =
    Equal string sql
  | NotEqual string sql
  | In string "sql list"
  | LessThan string sql
  | LessThanOrEqual string sql
  | GreaterThanOrEqual string sql
  | NotPrefix string string
  | IsNull string
  | EqualOuter string string
  | NotExists string predicate
  | And "predicate list"
  | Or "predicate list"
  | NotP predicate
  | AlwaysTrue
  | AlwaysFalse

definition eq3 :: "sql \<Rightarrow> sql \<Rightarrow> bool option" where
  "eq3 v u = (if v = Null \<or> u = Null then None else Some (v = u))"

definition less3 :: "sql \<Rightarrow> sql \<Rightarrow> bool option" where
  "less3 v u =
    (case (v, u) of (Text s, Text t) \<Rightarrow> Some (s < t) | (Num i, Num j) \<Rightarrow> Some (i < j) | _ \<Rightarrow> None)"

definition not3 :: "bool option \<Rightarrow> bool option" where
  "not3 = map_option Not"

definition all3 :: "bool option list \<Rightarrow> bool option" where
  "all3 bs = (if Some False \<in> set bs then Some False else if None \<in> set bs then None else Some True)"

definition any3 :: "bool option list \<Rightarrow> bool option" where
  "any3 bs = (if Some True \<in> set bs then Some True else if None \<in> set bs then None else Some False)"

fun eval :: "database \<Rightarrow> row \<Rightarrow> row \<Rightarrow> predicate \<Rightarrow> bool option" where
  "eval d out r (Equal c v) = eq3 (r c) v"
| "eval d out r (NotEqual c v) = not3 (eq3 (r c) v)"
| "eval d out r (In c vs) = any3 (map (eq3 (r c)) vs)"
| "eval d out r (LessThan c v) = less3 (r c) v"
| "eval d out r (LessThanOrEqual c v) = not3 (less3 v (r c))"
| "eval d out r (GreaterThanOrEqual c v) = not3 (less3 (r c) v)"
| "eval d out r (NotPrefix c p) = (case r c of Text s \<Rightarrow> Some (\<not> has_prefix s p) | _ \<Rightarrow> None)"
| "eval d out r (IsNull c) = Some (r c = Null)"
| "eval d out r (EqualOuter c c') = eq3 (r c) (out c')"
| "eval d out r (NotExists t p) = Some (\<forall>q \<in> set (d t). eval d r q p \<noteq> Some True)"
| "eval d out r (And ps) = all3 (map (eval d out r) ps)"
| "eval d out r (Or ps) = any3 (map (eval d out r) ps)"
| "eval d out r (NotP p) = not3 (eval d out r p)"
| "eval d out r AlwaysTrue = Some True"
| "eval d out r AlwaysFalse = Some False"

definition holds :: "database \<Rightarrow> row \<Rightarrow> predicate \<Rightarrow> bool" where
  "holds d r p \<longleftrightarrow> eval d r r p = Some True"

named_theorems where_simps \<open>what a predicate says of a row\<close>

lemma not3_True [simp]: "not3 b = Some True \<longleftrightarrow> b = Some False"
  by (auto simp: not3_def)

lemma not3_False [simp]: "not3 b = Some False \<longleftrightarrow> b = Some True"
  by (auto simp: not3_def)

lemma all3_True [simp]: "all3 bs = Some True \<longleftrightarrow> (\<forall>b \<in> set bs. b = Some True)"
  by (auto simp: all3_def) (metis (full_types) not_Some_eq)

lemma any3_True [simp]: "any3 (map f xs) = Some True \<longleftrightarrow> (\<exists>x \<in> set xs. f x = Some True)"
  by (auto simp: any3_def image_iff)

lemma any3_False [simp]: "any3 bs = Some False \<longleftrightarrow> (\<forall>b \<in> set bs. b = Some False)"
  by (auto simp: any3_def) (metis (full_types) not_Some_eq)

lemma eq3_True [simp]: "eq3 v u = Some True \<longleftrightarrow> v = u \<and> u \<noteq> Null"
  by (auto simp: eq3_def)

lemma eq3_False [simp]: "eq3 v u = Some False \<longleftrightarrow> v \<noteq> u \<and> v \<noteq> Null \<and> u \<noteq> Null"
  by (auto simp: eq3_def)

lemma holds_Equal [where_simps]: "holds d r (Equal c v) \<longleftrightarrow> r c = v \<and> v \<noteq> Null"
  by (auto simp: holds_def)

lemma holds_NotEqual [where_simps]: "holds d r (NotEqual c v) \<longleftrightarrow> r c \<noteq> v \<and> r c \<noteq> Null \<and> v \<noteq> Null"
  by (auto simp: holds_def)

lemma holds_In [where_simps]: "holds d r (In c vs) \<longleftrightarrow> r c \<in> set vs \<and> r c \<noteq> Null"
  by (auto simp: holds_def)

lemma holds_And [where_simps]: "holds d r (And ps) \<longleftrightarrow> (\<forall>p \<in> set ps. holds d r p)"
  by (auto simp: holds_def)

lemma holds_Or [where_simps]: "holds d r (Or ps) \<longleftrightarrow> (\<exists>p \<in> set ps. holds d r p)"
  by (auto simp: holds_def)

lemma holds_True [where_simps]: "holds d r AlwaysTrue"
  by (simp add: holds_def)

lemma holds_False [where_simps]: "\<not> holds d r AlwaysFalse"
  by (simp add: holds_def)

lemma holds_IsNull [where_simps]: "holds d r (IsNull c) \<longleftrightarrow> r c = Null"
  by (simp add: holds_def)

lemma holds_LessThan [where_simps]:
  "holds d r (LessThan c (Text t)) \<longleftrightarrow> (\<exists>s. r c = Text s \<and> s < t)"
  by (auto simp: holds_def less3_def split: sql.splits)

lemma holds_LessThanOrEqual [where_simps]:
  "holds d r (LessThanOrEqual c (Text t)) \<longleftrightarrow> (\<exists>s. r c = Text s \<and> s \<le> t)"
  by (auto simp: holds_def less3_def not_less split: sql.splits)

lemma holds_GreaterThanOrEqual [where_simps]:
  "holds d r (GreaterThanOrEqual c (Text t)) \<longleftrightarrow> (\<exists>s. r c = Text s \<and> t \<le> s)"
  by (auto simp: holds_def less3_def not_less split: sql.splits)

lemma holds_NotPrefix [where_simps]:
  "holds d r (NotPrefix c p) \<longleftrightarrow> (\<exists>s. r c = Text s \<and> \<not> has_prefix s p)"
  by (auto simp: holds_def split: sql.splits)

section \<open>Statements\<close>

text \<open>The unique keys of the tables, next to the primary key \<open>id\<close> that every table has.\<close>

definition unique_keys :: "string \<Rightarrow> string list list" where
  "unique_keys t = [''id''] #
    (if t \<in> {''_integration_connector_definitions'', ''_integration_event_mapping_definitions''}
       then [[''resource_key'']]
     else if t \<in> {''_integration_connections'', ''_integration_connection_accounts'',
                  ''_integration_connection_grants'', ''_integration_credential_refresh_leases''}
       then [[''workspace_id'', ''connection_key'']]
     else if t = ''_integration_connection_account_secrets''
       then [[''workspace_id'', ''connection_key'', ''secret_key''], [''workspace_id'', ''secret_key'']]
     else if t = ''_integration_connector_provider_states''
       then [[''workspace_id'', ''connection_key'', ''task_key'']]
     else if t \<in> {''_integration_connector_provider_commits'', ''_integration_invocations''}
       then [[''workspace_id'', ''id'']]
     else if t = ''_integration_api_keys'' then [[''workspace_id'', ''api_key''], [''token_hash'']]
     else if t \<in> {''_integration_secrets'', ''_integration_secret_materials''}
       then [[''workspace_id'', ''secret_key'']]
     else if t = ''_integration_external_identities''
       then [[''workspace_id'', ''identity_key''], [''workspace_id'', ''provider'', ''external_subject'']]
     else if t = ''_integration_events'' then [[''workspace_id'', ''provider'', ''external_id'']]
     else if t = ''_integration_event_mapping_intents'' then [[''workspace_id'', ''event_id'']]
     else if t = ''_integration_webhook_nonces'' then [[''workspace_id'', ''connector_key'', ''nonce'']]
     else if t = ''_integration_webhook_subscriptions'' then [[''workspace_id'', ''subscription_key'']]
     else if t = ''_integration_web_push_subscriptions''
       then [[''workspace_id'', ''id''], [''workspace_id'', ''endpoint_hash'']]
     else if t = ''_integration_oauth_applications'' then [[''workspace_id'', ''application_key'']]
     else if t = ''_integration_oauth_sessions'' then [[''state_hash'']]
     else if t = ''_integration_subject_erasure_fences''
       then [[''workspace_id'', ''kind'', ''object_key'', ''resource_id'']]
     else if t = ''_integration_subject_erasure_receipts'' then [[''workspace_id'', ''request_id'']]
     else [])"

definition same_key :: "row \<Rightarrow> row \<Rightarrow> string list \<Rightarrow> bool" where
  "same_key r q cs \<longleftrightarrow> (\<forall>c \<in> set cs. r c = q c \<and> r c \<noteq> Null)"

definition conflicts :: "database \<Rightarrow> string \<Rightarrow> row \<Rightarrow> bool" where
  "conflicts d t r \<longleftrightarrow> (\<exists>q \<in> set (d t). \<exists>cs \<in> set (unique_keys t). same_key r q cs)"

definition insert_row :: "string \<Rightarrow> (string \<times> sql) list \<Rightarrow> database \<Rightarrow> (err + nat) \<times> database" where
  "insert_row t cs d =
    (let r = row_of cs in
     if conflicts d t r then (Inl StorageErr, d) else (Inr 1, d(t := d t @ [r])))"

fun set_columns :: "(string \<times> sql) list \<Rightarrow> row \<Rightarrow> row" where
  "set_columns [] r = r"
| "set_columns ((c, v) # cs) r = set_columns cs (r(c := v))"

definition update_rows :: "string \<Rightarrow> (row \<Rightarrow> row) \<Rightarrow> predicate \<Rightarrow> database \<Rightarrow> (err + nat) \<times> database" where
  "update_rows t f p d =
    (Inr (length (filter (\<lambda>r. holds d r p) (d t))),
     d(t := map (\<lambda>r. if holds d r p then f r else r) (d t)))"

definition delete_rows :: "string \<Rightarrow> predicate \<Rightarrow> database \<Rightarrow> (err + nat) \<times> database" where
  "delete_rows t p d =
    (Inr (length (filter (\<lambda>r. holds d r p) (d t))), d(t := filter (\<lambda>r. \<not> holds d r p) (d t)))"

definition select_rows :: "string \<Rightarrow> predicate \<Rightarrow> database \<Rightarrow> row list" where
  "select_rows t p d = filter (\<lambda>r. holds d r p) (d t)"

text \<open>\<open>OrderBy(Ascending(c)).Limit(n)\<close>; rows that tie stay in table order.\<close>

definition ascending :: "string \<Rightarrow> row list \<Rightarrow> row list" where
  "ascending c rs = sort_key (\<lambda>r. text_of (r c)) rs"

definition descending :: "string \<Rightarrow> row list \<Rightarrow> row list" where
  "descending c rs = rev (sort_key (\<lambda>r. text_of (r c)) (rev rs))"

lemma set_ascending [simp]: "set (ascending c rs) = set rs"
  by (simp add: ascending_def)

lemma set_descending [simp]: "set (descending c rs) = set rs"
  by (simp add: descending_def)

lemma set_select_rows [simp]: "set (select_rows t p d) = {r \<in> set (d t). holds d r p}"
  by (simp add: select_rows_def)

text \<open>A column that is not set keeps its value.\<close>

lemma set_columns_other: "c \<notin> fst ` set cs \<Longrightarrow> set_columns cs r c = r c"
  by (induction cs r rule: set_columns.induct) auto

lemma row_of_apply [simp]:
  "row_of ((c, v) # cs) c' = (if c' = c then v else row_of cs c')"
  "row_of [] c' = Null"
  by (auto simp: row_of_def)

lemma same_key_sym: "same_key r q cs \<Longrightarrow> same_key q r cs"
  by (auto simp: same_key_def)

lemma id_key: "[''id''] \<in> set (unique_keys t)"
  by (simp add: unique_keys_def)

section \<open>Unique rows\<close>

text \<open>A table in which no two rows share a unique key: every insertion keeps it.\<close>

definition keyed :: "database \<Rightarrow> string \<Rightarrow> bool" where
  "keyed d t \<longleftrightarrow>
    (\<forall>i < length (d t). \<forall>j < i. \<forall>cs \<in> set (unique_keys t). \<not> same_key (d t ! i) (d t ! j) cs)"

lemma keyed_insert: "keyed d t \<Longrightarrow> keyed (snd (insert_row t' cs d)) t"
proof (cases "t' = t \<and> \<not> conflicts d t (row_of cs)")
  case True
  assume k: "keyed d t"
  let ?r = "row_of cs"
  have "\<not> same_key ((d t @ [?r]) ! i) ((d t @ [?r]) ! j) ks"
    if "i < length (d t @ [?r])" "j < i" "ks \<in> set (unique_keys t)" for i j ks
  proof (cases "i = length (d t)")
    case True
    with that have "(d t @ [?r]) ! i = ?r" "(d t @ [?r]) ! j \<in> set (d t)"
      by (auto simp: nth_append)
    with that \<open>t' = t \<and> \<not> conflicts d t ?r\<close> show ?thesis by (auto simp: conflicts_def)
  next
    case False
    with that k show ?thesis by (auto simp: keyed_def nth_append)
  qed
  with True show ?thesis by (simp add: insert_row_def Let_def keyed_def)
next
  case False
  then show "keyed d t \<Longrightarrow> keyed (snd (insert_row t' cs d)) t"
    by (cases "t' = t") (simp_all add: insert_row_def Let_def keyed_def)
qed

lemma keyed_rows:
  assumes "keyed d t" "r \<in> set (d t)" "q \<in> set (d t)" "same_key r q cs" "cs \<in> set (unique_keys t)"
  shows "r = q"
proof -
  obtain i j where ij: "i < length (d t)" "j < length (d t)" "r = d t ! i" "q = d t ! j"
    using assms(2,3) by (metis in_set_conv_nth)
  then have "i = j"
    using assms(1,4,5) same_key_sym unfolding keyed_def by (metis linorder_less_linear)
  with ij show ?thesis by simp
qed

lemma keyed_id:
  "keyed d t \<Longrightarrow> r \<in> set (d t) \<Longrightarrow> q \<in> set (d t) \<Longrightarrow> r ''id'' = q ''id'' \<Longrightarrow> r ''id'' \<noteq> Null \<Longrightarrow> r = q"
  by (rule keyed_rows [OF _ _ _ _ id_key]) (auto simp: same_key_def)

lemma update_rows_result: "update_rows t f p d = (x, d') \<Longrightarrow> d' t = map (\<lambda>r. if holds d r p then f r else r) (d t)"
  by (auto simp: update_rows_def)

text \<open>Updates that leave the key columns alone, and deletions, keep it too.\<close>

lemma keyed_update:
  assumes "keyed d t" and f: "\<And>r c cs. cs \<in> set (unique_keys t') \<Longrightarrow> c \<in> set cs \<Longrightarrow> f r c = r c"
  shows "keyed (snd (update_rows t' f p d)) t"
proof (cases "t' = t")
  case True
  have "same_key (if holds d r p then f r else r) (if holds d q p then f q else q) cs = same_key r q cs"
    if "cs \<in> set (unique_keys t)" for r q cs
    using f that True by (auto simp: same_key_def)
  with assms(1) True show ?thesis by (simp add: update_rows_def keyed_def)
qed (use assms(1) in \<open>simp add: update_rows_def keyed_def\<close>)

end
