(* ===== verification/AccessScope.thy ===== *)
theory AccessScope
  imports DomainModel Sql
begin

text \<open>
  \<open>integration_access.go\<close> and \<open>access_scope.go\<close>: the access scope that an application
  service puts into the context, and the row predicate that the stores build from it. The main
  lemma says which rows the predicate lets through.
\<close>

record AccessScope =
  as_WorkspaceID :: string
  as_PermissionKey :: string
  as_ActorID :: string
  as_ActorOrgID :: string
  as_Unrestricted :: bool
  as_AllowedUserIDs :: "string list"
  as_AllowedOrgIDs :: "string list"
  as_DeniedAll :: bool
  as_DeniedUserIDs :: "string list"
  as_DeniedOrgIDs :: "string list"

definition AccessScope_Valid :: "AccessScope \<Rightarrow> bool" where
  "AccessScope_Valid scope \<longleftrightarrow>
    \<not> (blank (as_WorkspaceID scope) \<or> blank (as_PermissionKey scope) \<or> blank (as_ActorID scope)) \<and>
    (as_Unrestricted scope \<or> as_AllowedUserIDs scope \<noteq> [] \<or> as_AllowedOrgIDs scope \<noteq> [])"

definition scope_ConnectionAccountAccess :: "AccessScope \<Rightarrow> ConnectionAccountAccess" where
  "scope_ConnectionAccountAccess scope =
    (if \<not> AccessScope_Valid scope \<or> as_DeniedAll scope \<or> as_DeniedOrgIDs scope \<noteq> []
     then \<lparr>acc_Personal = False, acc_Workspace = False\<rparr>
     else
       \<lparr>acc_Personal =
          (as_Unrestricted scope \<or> list_ex (\<lambda>id. id = as_ActorID scope) (as_AllowedUserIDs scope)) \<and>
          \<not> list_ex (\<lambda>id. id = as_ActorID scope) (as_DeniedUserIDs scope),
        acc_Workspace = as_Unrestricted scope\<rparr>)"

text \<open>The \<open>In\<close> predicate of an owner column, where the table has one and there are values.\<close>

definition column_in :: "string \<Rightarrow> string list \<Rightarrow> predicate list" where
  "column_in c xs = (if c \<noteq> [] \<and> xs \<noteq> [] then [In c (map Text xs)] else [])"

definition scopeDataPredicate :: "AccessScope \<Rightarrow> string \<Rightarrow> string \<Rightarrow> predicate" where
  "scopeDataPredicate scope ownerUserColumn ownerOrgColumn =
    (if as_DeniedAll scope then AlwaysFalse
     else if ownerUserColumn = [] \<and> as_DeniedUserIDs scope \<noteq> [] \<or>
             ownerOrgColumn = [] \<and> as_DeniedOrgIDs scope \<noteq> [] then AlwaysFalse
     else
       (let allow = (if \<not> as_Unrestricted scope
                     then column_in ownerUserColumn (as_AllowedUserIDs scope) @
                          column_in ownerOrgColumn (as_AllowedOrgIDs scope)
                     else []);
            deny = column_in ownerUserColumn (as_DeniedUserIDs scope) @
                   column_in ownerOrgColumn (as_DeniedOrgIDs scope)
        in if \<not> as_Unrestricted scope \<and> allow = [] then AlwaysFalse
           else if \<not> as_Unrestricted scope then
             (if deny \<noteq> [] then And [Or allow, NotP (Or deny)] else Or allow)
           else if deny \<noteq> [] then NotP (Or deny) else AlwaysTrue))"

definition scopedWhere ::
    "AccessScope option \<Rightarrow> string \<Rightarrow> string \<Rightarrow> string \<Rightarrow> predicate list \<Rightarrow> err + predicate" where
  "scopedWhere ctx workspaceID ownerUserColumn ownerOrgColumn additional =
    (let workspaceID = trim_space workspaceID; base = Equal ''workspace_id'' (Text workspaceID) in
     case ctx of
       None \<Rightarrow> Inr (And (base # additional))
     | Some scope \<Rightarrow>
         if \<not> AccessScope_Valid scope then Inl (Errorf ''Integration access scope is invalid'' [])
         else if as_WorkspaceID scope \<noteq> workspaceID
           then Inl (Errorf ''Integration access workspace does not match the query workspace'' [])
         else if \<not> as_Unrestricted scope \<or> as_DeniedAll scope \<or> as_DeniedUserIDs scope \<noteq> [] \<or>
                 as_DeniedOrgIDs scope \<noteq> []
           then Inr (And ([base, scopeDataPredicate scope ownerUserColumn ownerOrgColumn] @ additional))
         else Inr (And (base # additional)))"

definition scopeOwner :: "AccessScope option \<Rightarrow> string \<Rightarrow> string \<times> string" where
  "scopeOwner ctx fallbackActorID =
    (case ctx of
       Some scope \<Rightarrow> (as_ActorID scope, as_ActorOrgID scope)
     | None \<Rightarrow> (trim_space fallbackActorID, []))"

definition requireAllDataScope :: "AccessScope option \<Rightarrow> string \<Rightarrow> err option" where
  "requireAllDataScope ctx workspaceID =
    (case ctx of
       None \<Rightarrow> None
     | Some scope \<Rightarrow>
         if \<not> AccessScope_Valid scope then Some (Errorf ''Integration access scope is invalid'' [])
         else if as_WorkspaceID scope \<noteq> trim_space workspaceID
           then Some (Errorf ''Integration access workspace does not match the mutation workspace'' [])
         else if \<not> as_Unrestricted scope \<or> as_DeniedAll scope \<or> as_DeniedUserIDs scope \<noteq> [] \<or>
                 as_DeniedOrgIDs scope \<noteq> []
           then Some (Errorf ''Integration management mutations require all data scope'' [])
         else None)"

section \<open>Which rows a scope sees\<close>

definition row_allowed :: "AccessScope \<Rightarrow> string \<Rightarrow> string \<Rightarrow> row \<Rightarrow> bool" where
  "row_allowed scope u g r \<longleftrightarrow>
    as_Unrestricted scope \<or>
    u \<noteq> [] \<and> r u \<in> Text ` set (as_AllowedUserIDs scope) \<or>
    g \<noteq> [] \<and> r g \<in> Text ` set (as_AllowedOrgIDs scope)"

definition row_not_denied :: "AccessScope \<Rightarrow> string \<Rightarrow> string \<Rightarrow> row \<Rightarrow> bool" where
  "row_not_denied scope u g r \<longleftrightarrow>
    \<not> as_DeniedAll scope \<and>
    (as_DeniedUserIDs scope \<noteq> [] \<longrightarrow>
       u \<noteq> [] \<and> r u \<noteq> Null \<and> r u \<notin> Text ` set (as_DeniedUserIDs scope)) \<and>
    (as_DeniedOrgIDs scope \<noteq> [] \<longrightarrow>
       g \<noteq> [] \<and> r g \<noteq> Null \<and> r g \<notin> Text ` set (as_DeniedOrgIDs scope))"

lemma column_in_holds:
  "(\<exists>p \<in> set (column_in c xs). holds d r p) \<longleftrightarrow> c \<noteq> [] \<and> r c \<in> Text ` set xs"
  by (auto simp: column_in_def where_simps)

lemma column_in_False:
  "(\<forall>p \<in> set (column_in c xs). eval d r r p = Some False) \<longleftrightarrow>
    (c \<noteq> [] \<and> xs \<noteq> [] \<longrightarrow> r c \<noteq> Null \<and> r c \<notin> Text ` set xs)"
  by (cases xs) (auto simp: column_in_def)

lemma holds_NotOr: "holds d r (NotP (Or ps)) \<longleftrightarrow> (\<forall>p \<in> set ps. eval d r r p = Some False)"
  by (auto simp: holds_def)

lemma holds_allow:
  "holds d r (Or (column_in u xs @ column_in g ys)) \<longleftrightarrow>
    u \<noteq> [] \<and> r u \<in> Text ` set xs \<or> g \<noteq> [] \<and> r g \<in> Text ` set ys"
  unfolding holds_Or set_append bex_Un column_in_holds ..

lemma holds_deny:
  "holds d r (NotP (Or (column_in u xs @ column_in g ys))) \<longleftrightarrow>
    (u \<noteq> [] \<and> xs \<noteq> [] \<longrightarrow> r u \<noteq> Null \<and> r u \<notin> Text ` set xs) \<and>
    (g \<noteq> [] \<and> ys \<noteq> [] \<longrightarrow> r g \<noteq> Null \<and> r g \<notin> Text ` set ys)"
  unfolding holds_NotOr set_append ball_Un column_in_False ..

lemma column_in_Nil: "column_in c xs = [] \<longleftrightarrow> c = [] \<or> xs = []"
  by (simp add: column_in_def)

lemma no_allow:
  "column_in u xs @ column_in g ys = [] \<Longrightarrow>
    \<not> (u \<noteq> [] \<and> r u \<in> Text ` set xs \<or> g \<noteq> [] \<and> r g \<in> Text ` set ys)"
  by (auto simp: column_in_Nil)

lemma scopeDataPredicate_iff:
  "holds d r (scopeDataPredicate scope u g) \<longleftrightarrow> row_allowed scope u g r \<and> row_not_denied scope u g r"
proof (cases "as_DeniedAll scope \<or> u = [] \<and> as_DeniedUserIDs scope \<noteq> [] \<or> g = [] \<and> as_DeniedOrgIDs scope \<noteq> []")
  case True
  then show ?thesis by (auto simp: scopeDataPredicate_def row_not_denied_def holds_False)
next
  case False
  define allow where "allow = column_in u (as_AllowedUserIDs scope) @ column_in g (as_AllowedOrgIDs scope)"
  define deny where "deny = column_in u (as_DeniedUserIDs scope) @ column_in g (as_DeniedOrgIDs scope)"
  have denied: "row_not_denied scope u g r \<longleftrightarrow> deny = [] \<or> holds d r (NotP (Or deny))"
    using False unfolding deny_def holds_deny by (auto simp: row_not_denied_def column_in_Nil)
  have allowed: "row_allowed scope u g r \<longleftrightarrow> as_Unrestricted scope \<or> holds d r (Or allow)"
    unfolding allow_def holds_allow row_allowed_def ..
  have none: "allow = [] \<Longrightarrow> \<not> holds d r (Or allow)"
    by (simp add: holds_Or)
  have "scopeDataPredicate scope u g =
    (if \<not> as_Unrestricted scope \<and> allow = [] then AlwaysFalse
     else if \<not> as_Unrestricted scope then (if deny \<noteq> [] then And [Or allow, NotP (Or deny)] else Or allow)
     else if deny \<noteq> [] then NotP (Or deny) else AlwaysTrue)"
    using False by (auto simp: scopeDataPredicate_def allow_def deny_def Let_def)
  then show ?thesis
    unfolding denied allowed using none by (auto simp: holds_And holds_True holds_False)
qed

lemma scopedWhere_holds:
  assumes "scopedWhere (Some scope) ws u g additional = Inr p"
  shows "holds d r p \<longleftrightarrow>
    AccessScope_Valid scope \<and> as_WorkspaceID scope = trim_space ws \<and>
    r ''workspace_id'' = Text (as_WorkspaceID scope) \<and>
    row_allowed scope u g r \<and> row_not_denied scope u g r \<and> (\<forall>q \<in> set additional. holds d r q)"
proof -
  have valid: "AccessScope_Valid scope" "as_WorkspaceID scope = trim_space ws"
    using assms by (simp_all add: scopedWhere_def Let_def split: if_splits)
  show ?thesis
  proof (cases "\<not> as_Unrestricted scope \<or> as_DeniedAll scope \<or> as_DeniedUserIDs scope \<noteq> [] \<or> as_DeniedOrgIDs scope \<noteq> []")
    case True
    with assms valid have "p = And ([Equal ''workspace_id'' (Text (as_WorkspaceID scope)), scopeDataPredicate scope u g] @ additional)"
      by (simp add: scopedWhere_def Let_def)
    with valid show ?thesis by (simp add: holds_And holds_Equal scopeDataPredicate_iff)
  next
    case False
    with assms valid have "p = And (Equal ''workspace_id'' (Text (as_WorkspaceID scope)) # additional)"
      by (simp add: scopedWhere_def Let_def)
    moreover from False have "row_allowed scope u g r \<and> row_not_denied scope u g r"
      by (simp add: row_allowed_def row_not_denied_def)
    ultimately show ?thesis using valid by (simp add: holds_And holds_Equal)
  qed
qed

text \<open>
  C29. The predicate a store builds lets a row through exactly when the row is of the scope's
  workspace, its owner columns are allowed (or the scope is unrestricted) and not denied, and
  the additional conditions hold; an owner column that the table does not have or that is
  \<open>NULL\<close> is treated as denied whenever there is anything to deny.
\<close>

theorem scoped_where_exact:
  assumes "scopedWhere (Some scope) ws u g additional = Inr p"
  shows "holds d r p \<longleftrightarrow>
    AccessScope_Valid scope \<and> as_WorkspaceID scope = trim_space ws \<and>
    r ''workspace_id'' = Text (as_WorkspaceID scope) \<and>
    row_allowed scope u g r \<and> row_not_denied scope u g r \<and> (\<forall>q \<in> set additional. holds d r q)"
  by (rule scopedWhere_holds [OF assms])

lemma scopedWhere_holds_None:
  "scopedWhere None ws u g additional = Inr p \<Longrightarrow>
    holds d r p \<longleftrightarrow> r ''workspace_id'' = Text (trim_space ws) \<and> (\<forall>q \<in> set additional. holds d r q)"
  by (auto simp: scopedWhere_def Let_def holds_And holds_Equal)

text \<open>The rows a context lets a store see or change.\<close>

definition context_sees :: "AccessScope option \<Rightarrow> string \<Rightarrow> string \<Rightarrow> row \<Rightarrow> bool" where
  "context_sees ctx u g r \<longleftrightarrow>
    (case ctx of None \<Rightarrow> True
     | Some scope \<Rightarrow> r ''workspace_id'' = Text (as_WorkspaceID scope) \<and> row_allowed scope u g r \<and> row_not_denied scope u g r)"

lemma scopedWhere_sees:
  assumes "scopedWhere ctx ws u g additional = Inr p" and "holds d r p"
  shows "r ''workspace_id'' = Text (trim_space ws) \<and> context_sees ctx u g r \<and> (\<forall>q \<in> set additional. holds d r q)"
proof (cases ctx)
  case None
  with assms show ?thesis by (simp add: scopedWhere_holds_None context_sees_def)
next
  case (Some scope)
  with assms scopedWhere_holds [of scope ws u g additional p d r] show ?thesis
    by (auto simp: context_sees_def)
qed

lemma scopedWhere_ok:
  "AccessScope_Valid scope \<Longrightarrow> as_WorkspaceID scope = trim_space ws \<Longrightarrow>
    \<exists>p. scopedWhere (Some scope) ws u g additional = Inr p"
  by (simp add: scopedWhere_def Let_def)

lemma sees_every_row:
  "(\<forall>u g r. row_allowed scope u g r \<and> row_not_denied scope u g r) \<longleftrightarrow>
    as_Unrestricted scope \<and> \<not> as_DeniedAll scope \<and> as_DeniedUserIDs scope = [] \<and> as_DeniedOrgIDs scope = []"
    (is "?all \<longleftrightarrow> ?open")
proof
  assume ?all
  then have "row_allowed scope [] [] (\<lambda>_. Null)" and "row_not_denied scope [] [] (\<lambda>_. Null)" by blast+
  then show ?open by (simp_all add: row_allowed_def row_not_denied_def)
next
  assume ?open
  then show ?all by (simp add: row_allowed_def row_not_denied_def)
qed

text \<open>
  A mutation passes the all-data guard exactly when the context has no scope, or has a valid
  one for that workspace that is unrestricted and denies nothing.
\<close>

theorem require_all_scope_iff:
  "requireAllDataScope ctx ws = None \<longleftrightarrow>
    (case ctx of
       None \<Rightarrow> True
     | Some scope \<Rightarrow>
         AccessScope_Valid scope \<and> as_WorkspaceID scope = trim_space ws \<and>
         (\<forall>u g r. row_allowed scope u g r \<and> row_not_denied scope u g r))"
proof (cases ctx)
  case (Some scope)
  show ?thesis
    unfolding Some requireAllDataScope_def option.case sees_every_row by (cases "AccessScope_Valid scope") simp_all
qed (simp add: requireAllDataScope_def)

section \<open>A member's scope\<close>

definition member_scope :: AccessScope where
  "member_scope =
    \<lparr>as_WorkspaceID = ''w1'', as_PermissionKey = ''integration.push.read'', as_ActorID = ''u1'', as_ActorOrgID = [],
     as_Unrestricted = False, as_AllowedUserIDs = [''u1''], as_AllowedOrgIDs = [], as_DeniedAll = False,
     as_DeniedUserIDs = [''u2''], as_DeniedOrgIDs = []\<rparr>"

text \<open>A scope of user \<open>u1\<close> sees the row that \<open>u1\<close> owns in its workspace and not the one of \<open>u2\<close>.\<close>

theorem scoped_where_exact_witness:
  "\<exists>p. scopedWhere (Some member_scope) ''w1'' ''user_id'' [] [] = Inr p \<and>
     holds (\<lambda>_. []) (row_of [(''workspace_id'', Text ''w1''), (''user_id'', Text ''u1'')]) p \<and>
     \<not> holds (\<lambda>_. []) (row_of [(''workspace_id'', Text ''w1''), (''user_id'', Text ''u2'')]) p"
proof -
  have valid: "AccessScope_Valid member_scope" by code_simp
  have ws: "trim_space ''w1'' = ''w1''" by code_simp
  obtain p where p: "scopedWhere (Some member_scope) ''w1'' ''user_id'' [] [] = Inr p"
    using scopedWhere_ok [OF valid, of "''w1''"] ws by (metis AccessScope.select_convs(1) member_scope_def)
  show ?thesis
  proof (intro exI conjI)
    show "scopedWhere (Some member_scope) ''w1'' ''user_id'' [] [] = Inr p" by (fact p)
    show "holds (\<lambda>_. []) (row_of [(''workspace_id'', Text ''w1''), (''user_id'', Text ''u1'')]) p"
      unfolding scoped_where_exact [OF p] using valid ws
      by (simp add: row_allowed_def row_not_denied_def) (simp add: member_scope_def)
    show "\<not> holds (\<lambda>_. []) (row_of [(''workspace_id'', Text ''w1''), (''user_id'', Text ''u2'')]) p"
      unfolding scoped_where_exact [OF p] by (simp add: row_allowed_def member_scope_def)
  qed
qed

end
