(* ===== verification/Timestamps.thy ===== *)
theory Timestamps
  imports Prelude "HOL-Library.Monad_Syntax"
begin

text \<open>
  Instants and their texts. The stores keep every deadline as text and let SQL compare the
  texts, so the layouts of Go's \<open>time\<close> package matter: \<open>RFC3339Nano\<close> drops trailing zeroes
  of the fraction, and text order is then not instant order inside a second. An instant is
  the number of nanoseconds since \<open>0000-01-01T00:00:00Z\<close>; the layouts print four-digit
  years, so the order and round-trip lemmas carry the bound \<open>t < year_10000\<close>. The
  operations modelled are those of \<open>provider_worker_deadline.go\<close> and the retry delays of
  \<open>inbound_store.go\<close>.
\<close>

type_synonym time = int

definition second :: time where "second = 1000000000"
definition minute :: time where "minute = 60 * second"
definition hour :: time where "hour = 60 * minute"

section \<open>The civil calendar\<close>

definition leap_year :: "nat \<Rightarrow> bool" where
  "leap_year y \<longleftrightarrow> y mod 4 = 0 \<and> (y mod 100 \<noteq> 0 \<or> y mod 400 = 0)"

definition year_length :: "nat \<Rightarrow> nat" where
  "year_length y = (if leap_year y then 366 else 365)"

definition days_before_year :: "nat \<Rightarrow> nat" where
  "days_before_year y = 365 * y + (y + 3) div 4 + (y + 399) div 400 - (y + 99) div 100"

lemma leap_count_step:
  fixes a b c n :: nat
  assumes "b \<le> a" and "Q \<longrightarrow> P" and "R \<longrightarrow> Q"
  shows "365 * Suc n + (a + (if P then 1 else 0)) + (c + (if R then 1 else 0)) - (b + (if Q then 1 else 0)) =
    365 * n + a + c - b + (if P \<and> (\<not> Q \<or> R) then 366 else 365)"
  using assms by (cases P; cases Q; cases R) auto

lemma days_before_year_Suc: "days_before_year (Suc y) = days_before_year y + year_length y"
proof -
  have 4: "(Suc y + 3) div 4 = (y + 3) div 4 + (if y mod 4 = 0 then 1 else 0)"
    using div_Suc [of "y + 3" 4] by simp
  have 100: "(Suc y + 99) div 100 = (y + 99) div 100 + (if y mod 100 = 0 then 1 else 0)"
    using div_Suc [of "y + 99" 100] by simp
  have 400: "(Suc y + 399) div 400 = (y + 399) div 400 + (if y mod 400 = 0 then 1 else 0)"
    using div_Suc [of "y + 399" 400] by simp
  have "(y + 99) div 100 \<le> (y + 3) div 4"
    using times_div_less_eq_dividend [of 100 "y + 99"]
    by (cases "(y + 99) div 100") (auto simp: less_eq_div_iff_mult_less_eq)
  moreover have "y mod 100 = 0 \<longrightarrow> y mod 4 = 0"
    by (auto simp: mod_eq_0_iff_dvd elim: dvd_trans [rotated])
  moreover have "y mod 400 = 0 \<longrightarrow> y mod 100 = 0"
    by (auto simp: mod_eq_0_iff_dvd elim: dvd_trans [rotated])
  ultimately show ?thesis
    unfolding days_before_year_def year_length_def leap_year_def 4 100 400 by (rule leap_count_step)
qed

lemma year_length_bounds: "365 \<le> year_length y" "year_length y \<le> 366"
  by (auto simp: year_length_def)

lemma days_before_year_mono: "y \<le> z \<Longrightarrow> days_before_year y \<le> days_before_year z"
  by (induction rule: dec_induct) (auto simp: days_before_year_Suc)

lemma days_before_year_le: "days_before_year y \<le> 366 * y"
proof (induction y)
  case (Suc y)
  then show ?case using year_length_bounds(2) [of y] by (simp add: days_before_year_Suc)
qed (simp add: days_before_year_def)

lemma days_before_year_ge: "y \<le> days_before_year y"
proof (induction y)
  case (Suc y)
  then show ?case using year_length_bounds(1) [of y] by (simp add: days_before_year_Suc)
qed simp

function year_from :: "nat \<Rightarrow> nat \<Rightarrow> nat" where
  "year_from y d = (if days_before_year (Suc y) \<le> d then year_from (Suc y) d else y)"
  by pat_completeness auto
termination
  by (relation "measure (\<lambda>(y, d). d - y)")
    (auto dest: le_trans [OF days_before_year_ge])

declare year_from.simps [simp del]

definition year_of :: "nat \<Rightarrow> nat" where
  "year_of d = year_from (d div 366) d"

lemma year_from_bounds:
  "days_before_year y \<le> d \<Longrightarrow>
   days_before_year (year_from y d) \<le> d \<and> d < days_before_year (Suc (year_from y d))"
proof (induction y d rule: year_from.induct)
  case (1 y d)
  then show ?case
    by (cases "days_before_year (Suc y) \<le> d") (auto simp: year_from.simps [of y d])
qed

lemma year_of_bounds:
  "days_before_year (year_of d) \<le> d" "d < days_before_year (Suc (year_of d))"
proof -
  have "days_before_year (d div 366) \<le> d"
    using days_before_year_le [of "d div 366"] by (meson div_times_less_eq_dividend le_trans times_div_less_eq_dividend)
  then show "days_before_year (year_of d) \<le> d" "d < days_before_year (Suc (year_of d))"
    using year_from_bounds by (auto simp: year_of_def)
qed

lemma year_of_unique:
  assumes "days_before_year y \<le> d" and "d < days_before_year (Suc y)"
  shows "year_of d = y"
proof -
  have "\<not> year_of d < y" using assms(1) year_of_bounds(2) [of d] days_before_year_mono [of "Suc (year_of d)" y] by force
  moreover have "\<not> y < year_of d" using assms(2) year_of_bounds(1) [of d] days_before_year_mono [of "Suc y" "year_of d"] by force
  ultimately show ?thesis by simp
qed

lemma year_of_mono: "d \<le> e \<Longrightarrow> year_of d \<le> year_of e"
  using year_of_bounds(1) [of d] year_of_bounds(2) [of e] days_before_year_mono [of "Suc (year_of e)" "year_of d"]
  by (metis le_trans not_less_eq_eq linorder_not_le order_le_less_trans)

definition month_lengths :: "bool \<Rightarrow> nat list" where
  "month_lengths leap = [31, if leap then 29 else 28, 31, 30, 31, 30, 31, 31, 30, 31, 30, 31]"

text \<open>The month (from 1) and the day of the month (from 1) of a zero-based day of the year.\<close>

fun month_day :: "nat list \<Rightarrow> nat \<Rightarrow> nat \<times> nat" where
  "month_day [] n = (1, n + 1)"
| "month_day (l # ls) n =
    (if n < l then (1, n + 1) else (case month_day ls (n - l) of (m, d) \<Rightarrow> (m + 1, d)))"

definition civil :: "nat \<Rightarrow> nat \<times> nat \<times> nat" where
  "civil d = (let y = year_of d in (y, month_day (month_lengths (leap_year y)) (d - days_before_year y)))"

definition days_of_civil :: "nat \<Rightarrow> nat \<Rightarrow> nat \<Rightarrow> nat" where
  "days_of_civil y m d =
    days_before_year y + sum_list (take (m - 1) (month_lengths (leap_year y))) + (d - 1)"

lemma sum_month_lengths: "sum_list (month_lengths (leap_year y)) = year_length y"
  by (simp add: month_lengths_def year_length_def)

lemma length_month_lengths [simp]: "length (month_lengths b) = 12"
  by (simp add: month_lengths_def)

lemma month_day_pos: "1 \<le> fst (month_day ls n)" "1 \<le> snd (month_day ls n)"
  by (induction ls n rule: month_day.induct) (auto split: prod.splits)

lemma month_day_inverse:
  "month_day ls n = (m, d) \<Longrightarrow> sum_list (take (m - 1) ls) + (d - 1) = n"
proof (induction ls arbitrary: n m)
  case (Cons l ls)
  show ?case
  proof (cases "n < l")
    case False
    with Cons.prems obtain m' where m: "month_day ls (n - l) = (m', d)" "m = m' + 1"
      by (auto split: prod.splits)
    with month_day_pos(1) [of ls "n - l"] obtain k where "m' = Suc k" by (cases m') auto
    with Cons.IH [OF m(1)] m(2) False show ?thesis by simp
  qed (use Cons.prems in auto)
qed auto

lemma month_day_range:
  "n < sum_list ls \<Longrightarrow> month_day ls n = (m, d) \<Longrightarrow> m - 1 < length ls \<and> d \<le> ls ! (m - 1)"
proof (induction ls arbitrary: n m)
  case (Cons l ls)
  show ?case
  proof (cases "n < l")
    case False
    with Cons.prems obtain m' where m: "month_day ls (n - l) = (m', d)" "m = m' + 1"
      by (auto split: prod.splits)
    with month_day_pos(1) [of ls "n - l"] obtain k where k: "m' = Suc k" by (cases m') auto
    have "n - l < sum_list ls" using Cons.prems(1) False by simp
    from Cons.IH [OF this m(1)] k m(2) show ?thesis by simp
  qed (use Cons.prems in auto)
qed auto

lemma month_day_mono:
  "a < b \<Longrightarrow> month_day ls a = (m, d) \<Longrightarrow> month_day ls b = (n, e) \<Longrightarrow> m < n \<or> m = n \<and> d < e"
proof (induction ls arbitrary: a b m n)
  case (Cons l ls)
  show ?case
  proof (cases "a < l")
    case True
    with Cons.prems month_day_pos(1) [of ls "b - l"] show ?thesis by (auto split: if_splits prod.splits)
  next
    case False
    with Cons.prems obtain m' n' where "month_day ls (a - l) = (m', d)" "m = m' + 1"
        "month_day ls (b - l) = (n', e)" "n = n' + 1"
      by (auto split: prod.splits if_splits)
    moreover have "a - l < b - l" using False Cons.prems(1) by simp
    ultimately show ?thesis using Cons.IH by auto
  qed
qed auto

lemma civil_inverse: "civil d = (y, m, k) \<Longrightarrow> days_of_civil y m k = d"
  using month_day_inverse [of "month_lengths (leap_year (year_of d))" "d - days_before_year (year_of d)" m k]
    year_of_bounds(1) [of d]
  by (auto simp: civil_def days_of_civil_def Let_def)

lemma civil_range:
  assumes "civil d = (y, m, k)"
  shows "1 \<le> m" "m \<le> 12" "1 \<le> k" "k \<le> month_lengths (leap_year y) ! (m - 1)" "k \<le> 31"
proof -
  let ?ls = "month_lengths (leap_year y)"
  have y: "y = year_of d" and md: "month_day ?ls (d - days_before_year y) = (m, k)"
    using assms by (auto simp: civil_def Let_def)
  have "d - days_before_year y < sum_list ?ls"
    using year_of_bounds [of d] by (simp add: y sum_month_lengths days_before_year_Suc)
  from month_day_range [OF this md] have r: "m - 1 < 12" "k \<le> ?ls ! (m - 1)" by auto
  moreover have "\<forall>i < 12. ?ls ! i \<le> 31" by (auto simp: month_lengths_def less_Suc_eq numeral_eq_Suc)
  ultimately show "m \<le> 12" "k \<le> ?ls ! (m - 1)" "k \<le> 31" by (auto intro: le_trans)
  show "1 \<le> m" "1 \<le> k" using month_day_pos [of ?ls "d - days_before_year y"] md by auto
qed

lemma civil_mono:
  assumes "a < b" and "civil a = (y, m, d)" and "civil b = (z, n, e)"
  shows "y < z \<or> y = z \<and> (m < n \<or> m = n \<and> d < e)"
proof (cases "y = z")
  case True
  have "a - days_before_year y < b - days_before_year y"
    using assms year_of_bounds(1) [of a] by (auto simp: civil_def Let_def)
  with True assms show ?thesis by (auto simp: civil_def Let_def dest: month_day_mono)
next
  case False
  with assms year_of_mono [of a b] show ?thesis by (auto simp: civil_def Let_def)
qed

section \<open>Digits\<close>

definition digit :: "nat \<Rightarrow> char" where
  "digit n = char_of (48 + n)"

definition is_digit :: "char \<Rightarrow> bool" where
  "is_digit c \<longleftrightarrow> 48 \<le> (of_char c :: nat) \<and> (of_char c :: nat) \<le> 57"

definition digit_val :: "char \<Rightarrow> nat" where
  "digit_val c = of_char c - 48"

fun digits :: "nat \<Rightarrow> nat \<Rightarrow> string" where
  "digits 0 n = []"
| "digits (Suc w) n = digits w (n div 10) @ [digit (n mod 10)]"

definition number_of :: "string \<Rightarrow> nat" where
  "number_of s = foldl (\<lambda>n c. 10 * n + digit_val c) 0 s"

lemma of_char_digit: "n < 10 \<Longrightarrow> (of_char (digit n) :: nat) = 48 + n"
  by (simp add: digit_def)

lemma is_digit_digit [simp]: "n < 10 \<Longrightarrow> is_digit (digit n)"
  by (simp add: is_digit_def of_char_digit)

lemma digit_val_digit [simp]: "n < 10 \<Longrightarrow> digit_val (digit n) = n"
  by (simp add: digit_val_def of_char_digit)

lemma digit_less [simp]: "m < 10 \<Longrightarrow> n < 10 \<Longrightarrow> digit m < digit n \<longleftrightarrow> m < n"
  by (simp add: less_char_def of_char_digit)

lemma digit_eq [simp]: "m < 10 \<Longrightarrow> n < 10 \<Longrightarrow> digit m = digit n \<longleftrightarrow> m = n"
  by (metis digit_val_digit)

lemma length_digits [simp]: "length (digits w n) = w"
  by (induction w arbitrary: n) auto

lemma digits_all [simp]: "c \<in> set (digits w n) \<Longrightarrow> is_digit c"
  by (induction w arbitrary: n) auto

lemma number_of_append: "number_of (s @ t) = number_of s * 10 ^ length t + number_of t"
proof (induction t rule: rev_induct)
  case (snoc c t)
  have "number_of (s @ t @ [c]) = 10 * number_of (s @ t) + digit_val c"
    by (simp add: number_of_def)
  moreover have "number_of (t @ [c]) = 10 * number_of t + digit_val c"
    by (simp add: number_of_def)
  ultimately show ?case using snoc by (simp add: algebra_simps)
qed (simp add: number_of_def)

lemma number_of_digits [simp]: "n < 10 ^ w \<Longrightarrow> number_of (digits w n) = n"
proof (induction w arbitrary: n)
  case (Suc w)
  then have "n div 10 < 10 ^ w" by (simp add: less_mult_imp_div_less)
  with Suc.IH have "number_of (digits w (n div 10)) = n div 10" by blast
  then show ?case by (simp add: number_of_append) (simp add: number_of_def)
qed (simp add: number_of_def)

text \<open>The order of concatenations whose first parts have the same length.\<close>

lemma append_less_append:
  fixes a b :: "'a :: linorder list"
  shows "length a = length b \<Longrightarrow> a @ s < b @ t \<longleftrightarrow> a < b \<or> a = b \<and> s < t"
  by (induction a b rule: list_induct2) auto

lemma less_same_length:
  fixes a b :: "'a :: linorder list"
  shows "length a = length b \<Longrightarrow> a @ s < b \<longleftrightarrow> a < b"
  using append_less_append [of a b s "[]"] by simp

lemma less_div_mod:
  fixes m n k :: nat
  shows "m < n \<longleftrightarrow> m div k < n div k \<or> m div k = n div k \<and> m mod k < n mod k"
proof (cases "m div k" "n div k" rule: linorder_cases)
  case equal
  then show ?thesis by (metis div_mult_mod_eq nat_add_left_cancel_less less_irrefl)
next
  case less
  then have "m < n" by (metis div_le_mono linorder_not_le)
  with less show ?thesis by simp
next
  case greater
  then have "\<not> m < n" by (metis div_le_mono less_imp_le linorder_not_le)
  with greater show ?thesis by simp
qed

lemma digits_less: "m < 10 ^ w \<Longrightarrow> n < 10 ^ w \<Longrightarrow> digits w m < digits w n \<longleftrightarrow> m < n"
proof (induction w arbitrary: m n)
  case (Suc w)
  have d: "m div 10 < 10 ^ w" "n div 10 < 10 ^ w"
    using Suc.prems by (simp_all add: less_mult_imp_div_less)
  have "digits w (m div 10) = digits w (n div 10) \<longleftrightarrow> m div 10 = n div 10"
    using d by (metis number_of_digits)
  then have "digits (Suc w) m < digits (Suc w) n \<longleftrightarrow>
      m div 10 < n div 10 \<or> m div 10 = n div 10 \<and> m mod 10 < n mod 10"
    using Suc.IH [OF d] by (simp add: append_less_append)
  also have "\<dots> \<longleftrightarrow> m < n" by (rule less_div_mod [symmetric])
  finally show ?case .
qed simp

section \<open>The layouts\<close>

definition day_seconds :: nat where "day_seconds = 86400"

text \<open>The seconds of an instant and the nanoseconds inside the second.\<close>

definition secs_of :: "time \<Rightarrow> nat" where "secs_of t = nat (t div 1000000000)"
definition nanos_of :: "time \<Rightarrow> nat" where "nanos_of t = nat (t mod 1000000000)"

definition format_date :: "nat \<Rightarrow> string" where
  "format_date d = (case civil d of (y, m, k) \<Rightarrow> digits 4 y @ ''-'' @ digits 2 m @ ''-'' @ digits 2 k)"

definition format_clock :: "nat \<Rightarrow> string" where
  "format_clock s = digits 2 (s div 3600) @ '':'' @ digits 2 (s mod 3600 div 60) @ '':'' @ digits 2 (s mod 60)"

text \<open>\<open>"2006-01-02T15:04:05"\<close>\<close>

definition format_seconds :: "nat \<Rightarrow> string" where
  "format_seconds s = format_date (s div day_seconds) @ ''T'' @ format_clock (s mod day_seconds)"

text \<open>The fraction of \<open>.999999999\<close>: nine digits without the trailing zeroes, or nothing.\<close>

definition format_fraction :: "nat \<Rightarrow> string" where
  "format_fraction n =
    (if n = 0 then [] else CHR ''.'' # rev (dropWhile (\<lambda>c. c = CHR ''0'') (rev (digits 9 n))))"

definition format_rfc3339nano :: "time \<Rightarrow> string" where
  "format_rfc3339nano t = format_seconds (secs_of t) @ format_fraction (nanos_of t) @ ''Z''"

definition format_rfc3339 :: "time \<Rightarrow> string" where
  "format_rfc3339 t = format_seconds (secs_of t) @ ''Z''"

text \<open>The first instant whose year has five digits, and Go's zero \<open>time.Time\<close>.\<close>

definition year_10000 :: time where "year_10000 = 3652425 * 86400 * 1000000000"
definition zero_time :: time where "zero_time = 366 * 86400 * 1000000000"

lemma days_before_10000: "days_before_year 10000 = 3652425"
  by (simp add: days_before_year_def)

lemma civil_year_bound: "d < 3652425 \<Longrightarrow> civil d = (y, m, k) \<Longrightarrow> y < 10 ^ 4"
  using year_of_bounds(1) [of d] days_before_year_mono [of 10000 y]
  by (force simp: civil_def Let_def days_before_10000)

lemma length_format_date [simp]: "length (format_date d) = 10"
  by (simp add: format_date_def split: prod.splits)

lemma length_format_clock [simp]: "length (format_clock s) = 8"
  by (simp add: format_clock_def)

lemma length_format_seconds [simp]: "length (format_seconds s) = 19"
  by (simp add: format_seconds_def)

lemma format_date_mono:
  assumes "a < b" and "b < 3652425"
  shows "format_date a < format_date b"
proof -
  obtain y m d where a: "civil a = (y, m, d)" by (cases "civil a") auto
  obtain z n e where b: "civil b = (z, n, e)" by (cases "civil b") auto
  have "y < 10 ^ 4" "z < 10 ^ 4" using assms civil_year_bound [OF _ a] civil_year_bound [OF _ b] by auto
  moreover have "m < 10 ^ 2" "n < 10 ^ 2" "d < 10 ^ 2" "e < 10 ^ 2"
    using civil_range [OF a] civil_range [OF b] by auto
  ultimately show ?thesis
    using civil_mono [OF assms(1) a b] by (auto simp: format_date_def a b append_less_append digits_less)
qed

lemma format_clock_mono:
  assumes "a < b" and "b < day_seconds"
  shows "format_clock a < format_clock b"
proof -
  have 1: "a div 3600 < 10 ^ 2" "b div 3600 < 10 ^ 2"
    using assms by (auto simp: day_seconds_def less_mult_imp_div_less)
  have 2: "s mod 3600 div 60 < 10 ^ 2" "s mod 60 < 10 ^ 2" for s :: nat
  proof -
    have "s mod 3600 < 60 * 60" by simp
    then have "s mod 3600 div 60 < 60" by (rule less_mult_imp_div_less)
    moreover have "s mod 60 < 60" by simp
    ultimately show "s mod 3600 div 60 < 10 ^ 2" "s mod 60 < 10 ^ 2" by auto
  qed
  have "a div 3600 < b div 3600 \<or> a div 3600 = b div 3600 \<and>
      (a mod 3600 div 60 < b mod 3600 div 60 \<or>
       a mod 3600 div 60 = b mod 3600 div 60 \<and> a mod 3600 mod 60 < b mod 3600 mod 60)"
    using assms(1) less_div_mod [of a b 3600] less_div_mod [of "a mod 3600" "b mod 3600" 60] by blast
  moreover have "s mod 3600 mod 60 = s mod 60" for s :: nat by (simp add: mod_mod_cancel)
  ultimately show ?thesis
    using 1 2 [of a] 2 [of b] by (auto simp: format_clock_def append_less_append digits_less)
qed

text \<open>The seconds layout orders instants as the clock does, up to the year 9999.\<close>

lemma format_seconds_mono:
  assumes "a < b" and "b < 3652425 * day_seconds"
  shows "format_seconds a < format_seconds b"
proof -
  have "a div day_seconds < b div day_seconds \<or>
      a div day_seconds = b div day_seconds \<and> a mod day_seconds < b mod day_seconds"
    using assms(1) less_div_mod by blast
  moreover have "b div day_seconds < 3652425"
    using assms(2) by (simp add: less_mult_imp_div_less)
  ultimately show ?thesis
    by (auto simp: format_seconds_def append_less_append format_date_mono format_clock_mono day_seconds_def)
qed

lemma format_seconds_less_iff:
  assumes "a < 3652425 * day_seconds" and "b < 3652425 * day_seconds"
  shows "format_seconds a < format_seconds b \<longleftrightarrow> a < b"
  using format_seconds_mono [of a b] format_seconds_mono [of b a] assms by (metis linorder_neqE_nat order_less_asym' order_less_irrefl)

section \<open>Parsing\<close>

text \<open>
  \<open>time.Parse(time.RFC3339Nano, s)\<close>; the layout \<open>RFC3339\<close> accepts the same texts. As in Go,
  the hour may have one digit, the fraction any number of digits after a dot or a comma
  (nine are kept), and the zone is \<open>Z\<close> or a signed offset of at most 24 hours and 60 minutes.
\<close>

definition four :: "string \<Rightarrow> (nat \<times> string) option" where
  "four s = (if 4 \<le> length s \<and> (\<forall>c \<in> set (take 4 s). is_digit c)
             then Some (number_of (take 4 s), drop 4 s) else None)"

definition two :: "string \<Rightarrow> (nat \<times> string) option" where
  "two s = (if 2 \<le> length s \<and> (\<forall>c \<in> set (take 2 s). is_digit c)
            then Some (number_of (take 2 s), drop 2 s) else None)"

definition one_or_two :: "string \<Rightarrow> (nat \<times> string) option" where
  "one_or_two s =
    (case two s of
       Some r \<Rightarrow> Some r
     | None \<Rightarrow> (case s of c # r \<Rightarrow> if is_digit c then Some (digit_val c, r) else None | [] \<Rightarrow> None))"

definition expect :: "char \<Rightarrow> string \<Rightarrow> string option" where
  "expect c s = (case s of d # r \<Rightarrow> if d = c then Some r else None | [] \<Rightarrow> None)"

definition nanos_of_digits :: "string \<Rightarrow> nat" where
  "nanos_of_digits ds = (let k = take 9 ds in number_of k * 10 ^ (9 - length k))"

definition parse_fraction :: "string \<Rightarrow> nat \<times> string" where
  "parse_fraction s =
    (case s of
       c # d # r \<Rightarrow>
         (if (c = CHR ''.'' \<or> c = CHR '','') \<and> is_digit d
          then (nanos_of_digits (takeWhile is_digit (d # r)), dropWhile is_digit (d # r))
          else (0, s))
     | _ \<Rightarrow> (0, s))"

definition parse_zone :: "string \<Rightarrow> int option" where
  "parse_zone s =
    (if s = ''Z'' then Some 0
     else do {
       (sign, s) \<leftarrow> (case s of c # r \<Rightarrow>
                      if c = CHR ''+'' then Some (1, r) else if c = CHR ''-'' then Some (- 1, r) else None
                    | [] \<Rightarrow> None);
       (h, s) \<leftarrow> two s;
       s \<leftarrow> expect CHR '':'' s;
       (m, s) \<leftarrow> two s;
       (if h \<le> 24 \<and> m \<le> 60 \<and> s = [] then Some (sign * int (h * 60 + m) * 60) else None)
     })"

definition parse_rfc3339 :: "string \<Rightarrow> time option" where
  "parse_rfc3339 s = do {
     (y, s) \<leftarrow> four s;
     s \<leftarrow> expect CHR ''-'' s;
     (m, s) \<leftarrow> two s;
     s \<leftarrow> expect CHR ''-'' s;
     (d, s) \<leftarrow> two s;
     s \<leftarrow> expect CHR ''T'' s;
     (hh, s) \<leftarrow> one_or_two s;
     s \<leftarrow> expect CHR '':'' s;
     (mm, s) \<leftarrow> two s;
     s \<leftarrow> expect CHR '':'' s;
     (ss, s) \<leftarrow> two s;
     (let (n, s) = parse_fraction s in do {
       offset \<leftarrow> parse_zone s;
       (if 1 \<le> m \<and> m \<le> 12 \<and> 1 \<le> d \<and> d \<le> month_lengths (leap_year y) ! (m - 1) \<and>
           hh < 24 \<and> mm < 60 \<and> ss < 60
        then Some ((int (days_of_civil y m d * day_seconds + hh * 3600 + mm * 60 + ss) - offset)
                    * 1000000000 + int n)
        else None)
     })
   }"

lemma two_digits [simp]: "n < 100 \<Longrightarrow> two (digits 2 n @ s) = Some (n, s)"
  by (simp add: two_def)

lemma four_digits [simp]: "n < 10000 \<Longrightarrow> four (digits 4 n @ s) = Some (n, s)"
  by (simp add: four_def)

lemma one_or_two_digits [simp]: "n < 100 \<Longrightarrow> one_or_two (digits 2 n @ s) = Some (n, s)"
  by (simp add: one_or_two_def)

lemma expect_Cons [simp]: "expect c (c # s) = Some s"
  by (simp add: expect_def)

lemma number_of_replicate_zero [simp]: "number_of (replicate k CHR ''0'') = 0"
proof (induction k)
  case (Suc k)
  then show ?case
    using number_of_append [of "[CHR ''0'']" "replicate k CHR ''0''"]
    by (simp add: number_of_def digit_val_def)
qed (simp add: number_of_def)

lemma trailing_zeroes:
  "\<exists>k. s = rev (dropWhile (\<lambda>c. c = z) (rev s)) @ replicate k z"
proof -
  have "takeWhile (\<lambda>c. c = z) (rev s) = replicate (length (takeWhile (\<lambda>c. c = z) (rev s))) z"
    by (rule replicate_length_same [symmetric]) (auto dest: set_takeWhileD)
  moreover have "s = rev (dropWhile (\<lambda>c. c = z) (rev s)) @ rev (takeWhile (\<lambda>c. c = z) (rev s))"
    by (metis rev_append rev_rev_ident takeWhile_dropWhile_id)
  ultimately show ?thesis by (metis rev_replicate)
qed

lemma parse_fraction_format [simp]:
  assumes "n < 1000000000"
  shows "parse_fraction (format_fraction n @ ''Z'') = (n, ''Z'')"
proof (cases "n = 0")
  case False
  define ds where "ds = rev (dropWhile (\<lambda>c. c = CHR ''0'') (rev (digits 9 n)))"
  obtain k where k: "digits 9 n = ds @ replicate k CHR ''0''"
    using trailing_zeroes [of "digits 9 n" "CHR ''0''"] by (auto simp only: ds_def)
  have len: "length ds + k = 9" by (metis k length_append length_digits length_replicate)
  have "n = number_of (digits 9 n)" using assms by simp
  also have "\<dots> = number_of ds * 10 ^ k" by (simp add: k number_of_append)
  finally have n: "n = number_of ds * 10 ^ k" .
  have all: "\<forall>c \<in> set ds. is_digit c" by (metis Un_iff digits_all k set_append)
  from n False have "ds \<noteq> []" by (auto simp: number_of_def)
  then obtain d r where d: "ds = d # r" by (cases ds) auto
  have Z: "\<not> is_digit CHR ''Z''" by (simp add: is_digit_def)
  have "takeWhile is_digit (ds @ ''Z'') = ds" "dropWhile is_digit (ds @ ''Z'') = ''Z''"
    using all Z by (simp_all add: takeWhile_append2 dropWhile_append2)
  moreover have "9 - length ds = k" using len by simp
  then have "nanos_of_digits ds = n" using len n by (simp add: nanos_of_digits_def)
  moreover have "format_fraction n @ ''Z'' = CHR ''.'' # ds @ ''Z''"
    using False by (simp add: format_fraction_def ds_def)
  ultimately show ?thesis using all by (simp add: parse_fraction_def d)
qed (simp add: format_fraction_def parse_fraction_def)

lemma parse_format_parts:
  assumes "s < 3652425 * day_seconds" and "n < 1000000000"
  shows "parse_rfc3339 (format_seconds s @ format_fraction n @ ''Z'') = Some (int s * 1000000000 + int n)"
proof -
  obtain y m d where c: "civil (s div day_seconds) = (y, m, d)" by (cases "civil (s div day_seconds)") auto
  have "s div day_seconds < 3652425" using assms(1) by (simp add: less_mult_imp_div_less)
  then have y: "y < 10000" using civil_year_bound [OF _ c] by simp
  let ?t = "s mod day_seconds"
  have "?t < 24 * 3600" by (simp add: day_seconds_def)
  then have h: "?t div 3600 < 24" by (rule less_mult_imp_div_less)
  have "?t mod 3600 < 60 * 60" by simp
  then have m: "?t mod 3600 div 60 < 60" by (rule less_mult_imp_div_less)
  have "s = days_of_civil y m d * day_seconds + ?t" by (simp add: civil_inverse [OF c])
  moreover have "?t = ?t div 3600 * 3600 + (?t mod 3600 div 60 * 60 + ?t mod 3600 mod 60)" by simp
  moreover have "?t mod 3600 mod 60 = ?t mod 60" by (simp add: mod_mod_cancel)
  ultimately have s: "days_of_civil y m d * day_seconds + ?t div 3600 * 3600 + ?t mod 3600 div 60 * 60 + ?t mod 60 = s"
    by linarith
  have f: "parse_zone ''Z'' = Some 0" by (simp add: parse_zone_def)
  show ?thesis
    using y h m civil_range [OF c] assms(2) s
    by (simp add: parse_rfc3339_def format_seconds_def format_date_def c format_clock_def f Let_def)
qed

lemma secs_nanos: "0 \<le> t \<Longrightarrow> int (secs_of t) * 1000000000 + int (nanos_of t) = t"
  by (simp add: secs_of_def nanos_of_def pos_imp_zdiv_nonneg_iff)

lemma secs_of_bound: "t < year_10000 \<Longrightarrow> secs_of t < 3652425 * day_seconds"
  by (auto simp: secs_of_def year_10000_def day_seconds_def nat_less_iff)

lemma nanos_of_bound [simp]: "nanos_of t < 1000000000"
  by (simp add: nanos_of_def nat_less_iff)

text \<open>Every instant of the four-digit years is read back from its text.\<close>

lemma parse_format_nano:
  "0 \<le> t \<Longrightarrow> t < year_10000 \<Longrightarrow> parse_rfc3339 (format_rfc3339nano t) = Some t"
  by (simp add: format_rfc3339nano_def parse_format_parts secs_of_bound secs_nanos)

section \<open>Deadlines and delays\<close>

text \<open>
  \<open>providerDeadlineScanEnd\<close>: the whole current second is scanned, because inside a second the
  texts are not ordered as the instants are. \<open>providerDeadlineReady\<close> then checks each
  candidate as an instant.
\<close>

definition providerDeadlineScanEnd :: "time \<Rightarrow> string" where
  "providerDeadlineScanEnd now = format_seconds (secs_of now + 1)"

definition providerDeadlineReady :: "string \<Rightarrow> string \<Rightarrow> time \<Rightarrow> err + bool" where
  "providerDeadlineReady due lease now =
    (case parse_rfc3339 due of
       None \<Rightarrow> Inl (Errorf ''Integration provider due time is invalid'' [])
     | Some t \<Rightarrow>
         if t > now then Inr False
         else if lease = [] then Inr True
         else (case parse_rfc3339 lease of
                 None \<Rightarrow> Inl (Errorf ''Integration provider lease time is invalid'' [])
               | Some expiry \<Rightarrow> Inr (\<not> expiry > now)))"

definition integrationEventRetryDelay :: "nat \<Rightarrow> time" where
  "integrationEventRetryDelay attempt =
    (if attempt = 0 \<or> attempt = 1 then minute
     else if attempt = 2 then 5 * minute
     else if attempt = 3 then 15 * minute
     else hour)"

lemma nano_before_scan_end:
  assumes "0 \<le> t" and "t < year_10000" and "now + second < year_10000" and "0 \<le> now"
  shows "format_rfc3339nano t < providerDeadlineScanEnd now \<longleftrightarrow> secs_of t \<le> secs_of now"
proof -
  have "secs_of (now + second) = secs_of now + 1"
    using assms(4) by (simp add: secs_of_def second_def)
  then have "secs_of now + 1 < 3652425 * day_seconds"
    using secs_of_bound [OF assms(3)] by simp
  then have "format_seconds (secs_of t) < format_seconds (secs_of now + 1) \<longleftrightarrow> secs_of t < secs_of now + 1"
    using secs_of_bound [OF assms(2)] by (intro format_seconds_less_iff) auto
  then show ?thesis
    by (simp add: format_rfc3339nano_def providerDeadlineScanEnd_def less_same_length less_Suc_eq_le)
qed

text \<open>
  C22. The text scan of the workers loses no due deadline: any deadline the stores wrote that
  is due at \<open>now\<close> lies before \<open>providerDeadlineScanEnd now\<close> in text order, and the deadlines
  the scan adds to those lie in the current second, where \<open>providerDeadlineReady\<close> tells them
  apart: scan and check together accept exactly the due deadlines with no lease.
\<close>

theorem deadline_scan_exact:
  assumes "0 \<le> t" and "t < year_10000" and "0 \<le> now" and "now + second < year_10000"
  shows "format_rfc3339nano t < providerDeadlineScanEnd now \<and>
      providerDeadlineReady (format_rfc3339nano t) [] now = Inr True \<longleftrightarrow> t \<le> now"
proof -
  have "t \<le> now \<Longrightarrow> secs_of t \<le> secs_of now"
    by (simp add: secs_of_def nat_mono zdiv_mono1)
  then show ?thesis
    using assms by (auto simp: nano_before_scan_end providerDeadlineReady_def parse_format_nano)
qed

theorem deadline_scan_exact_witness:
  "format_rfc3339nano 123000000 < providerDeadlineScanEnd 123100000 \<and>
   providerDeadlineReady (format_rfc3339nano 123000000) [] 123100000 = Inr True \<longleftrightarrow> (123000000 :: int) \<le> 123100000"
  by (rule deadline_scan_exact) (simp_all add: year_10000_def second_def)

end
