(* ===== verification/Store.thy ===== *)
theory Store
  imports AccessScope Timestamps
begin

text \<open>
  What a store works with: the connector SDK's data as far as the source uses it, the
  environment (faults, other processes, clock, context, digests, providers), the world (the
  database and the provider calls made so far) and the statements and transactions over it;
  then the erasure fences of \<open>subject_write_fence.go\<close>, and what every guarded statement keeps.
\<close>

section \<open>The connector SDK\<close>

datatype call_mode = ModeCall | ModeOther string
datatype call_effect = EffectRead | EffectWrite | EffectOther string
datatype reconciliation_policy = ReconciliationProviderLookup | ReconciliationPolicyOther string

record OperationDescriptor =
  od_Key :: string
  od_Mode :: call_mode
  od_Effect :: call_effect
  od_Reconciliation :: reconciliation_policy
  od_ContractSHA256 :: string

record Connection =
  cn_Key :: string
  cn_WorkspaceID :: string
  cn_ConnectorKey :: string
  cn_ProviderKey :: string
  cn_Name :: string
  cn_Status :: string
  cn_Config :: "(string \<times> json) list"
  cn_SecretRefs :: "(string \<times> string) list"

record Principal =
  pr_UserID :: string
  pr_RoleKey :: string
  pr_WorkspaceID :: string
  pr_RequestID :: string
  pr_IsAuthenticated :: bool

record CallRequest =
  cr_ConnectorKey :: string
  cr_ProviderKey :: string
  cr_OperationKey :: string
  cr_ContractSHA256 :: string
  cr_Mode :: call_mode
  cr_Payload :: raw_message
  cr_RequestRef :: string
  cr_Delivery :: bool
  cr_Secrets :: "(string \<times> string) list"
  cr_Connection :: Connection
  cr_Principal :: Principal

record CallResult =
  res_ResponseRef :: string
  res_Payload :: raw_message
  res_SecretUpdates :: "(string \<times> string) list"
  res_ResourceHealth :: json

record BackgroundTaskDescriptor =
  bt_Key :: string
  bt_StateVersion :: int

record BackgroundRequest =
  br_TaskKey :: string
  br_StateVersion :: int
  br_Connection :: Connection
  br_State :: raw_message
  br_Secrets :: "(string \<times> string) list"
  br_Now :: time
  br_Principal :: Principal

record BackgroundEvent =
  be_ExternalID :: string
  be_EventType :: string
  be_Payload :: raw_message

record BackgroundCommit =
  bc_OperationKey :: string
  bc_ContractSHA256 :: string
  bc_Payload :: raw_message

record BackgroundResult =
  bg_State :: raw_message
  bg_NextDueAt :: time
  bg_Events :: "BackgroundEvent list"
  bg_Commit :: "BackgroundCommit list"
  bg_WakeTasks :: "string list"
  bg_SecretUpdates :: "(string \<times> string) list"

datatype reconciliation_outcome =
    ReconciliationSucceeded | ReconciliationPending | ReconciliationFailed
  | ReconciliationNotFound | ReconciliationUnknown | ReconciliationOutcomeOther string

record ReconcileRequest =
  rq_ConnectorKey :: string
  rq_ProviderKey :: string
  rq_OperationKey :: string
  rq_ContractSHA256 :: string
  rq_Connection :: Connection
  rq_RequestRef :: string
  rq_ResponseRef :: string
  rq_Payload :: raw_message
  rq_Secrets :: "(string \<times> string) list"
  rq_Principal :: Principal

record ReconcileResult =
  rc_Outcome :: reconciliation_outcome
  rc_Result :: "CallResult option"
  rc_RetryAfter :: int
  rc_FailureCode :: string

record TestConnectionRequest =
  tq_ConnectorKey :: string
  tq_ProviderKey :: string
  tq_Connection :: Connection
  tq_Secrets :: "(string \<times> string) list"
  tq_Principal :: Principal

record TestConnectionResult =
  tr_Connected :: bool
  tr_Details :: raw_message
  tr_SecretUpdates :: "(string \<times> string) list"

record VerifyWebhookRequest =
  vq_ConnectorKey :: string
  vq_ProviderKey :: string
  vq_Connection :: Connection
  vq_Headers :: "(string \<times> string list) list"
  vq_Query :: "(string \<times> string list) list"
  vq_Secrets :: "(string \<times> string) list"
  vq_Body :: string
  vq_ReceivedAt :: time

record WebhookSecurity =
  wsec_SignatureVerified :: bool
  wsec_Nonce :: string

record WebhookExternalIdentity =
  wei_Subject :: string
  wei_Name :: string

record VerifiedWebhook =
  vw_EventType :: string
  vw_ExternalID :: string
  vw_Payload :: raw_message
  vw_Challenge :: string
  vw_ChallengeFormat :: string
  vw_Security :: "WebhookSecurity option"
  vw_ExternalIdentity :: "WebhookExternalIdentity option"

text \<open>The trigger port of the integration SDK, through which an event reaches the runtime.\<close>

record TriggerTarget =
  tt_Type :: string
  tt_WorkflowKey :: string
  tt_ObjectKey :: string
  tt_RecordID :: string
  tt_ActionKey :: string
  tt_AgentID :: string
  tt_ConversationID :: string
  tt_AgentTaskMode :: string
  tt_RelatedTaskID :: string
  tt_Input :: "(string \<times> json) list"

record TriggerRequest =
  tg_EventID :: string
  tg_WorkspaceID :: string
  tg_MappingKey :: string
  tg_MappingRevision :: string
  tg_IdempotencyKey :: string
  tg_Provider :: string
  tg_EventType :: string
  tg_ExternalID :: string
  tg_ReceivedAt :: string
  tg_Target :: TriggerTarget
  tg_ActorID :: string
  tg_RoleKey :: string
  tg_ExternalName :: string

text \<open>
  The configuration fields of a provider with their validation; a bound is a decimal
  \<open>mantissa / 10 ^ scale\<close> as in \<^const>\<open>JNum\<close>.
\<close>

datatype config_type =
    ConfigText | ConfigEmail | ConfigSelect | ConfigInteger | ConfigDecimal | ConfigBoolean | ConfigJSON
  | ConfigOther string

record ConfigValidation =
  va_MinLength :: int
  va_MaxLength :: int
  va_Pattern :: string
  va_Options :: "string list"
  va_Min :: "(int \<times> nat) option"
  va_Max :: "(int \<times> nat) option"

record ConfigField =
  cf_Key :: string
  cf_Type :: config_type
  cf_Required :: bool
  cf_RequiredWith :: "string list"
  cf_Validation :: ConfigValidation

text \<open>The OAuth capability of a provider: the address to send the user to, and the exchange of the code.\<close>

record OAuthAuthorizationRequest =
  oq_Connection :: Connection
  oq_ClientID :: string
  oq_RedirectURI :: string
  oq_Scopes :: "string list"
  oq_State :: string
  oq_CodeChallenge :: string

record OAuthCodeExchangeRequest =
  ox_Connection :: Connection
  ox_ClientID :: string
  ox_ClientSecret :: string
  ox_RedirectURI :: string
  ox_RequestedScopes :: "string list"
  ox_Code :: string
  ox_CodeVerifier :: string

record OAuthTokens =
  ot_AccessToken :: string
  ot_RefreshToken :: string
  ot_TokenType :: string
  ot_GrantedScopes :: "string list"

record OAuthAuthorizer =
  oa_AuthorizationURL :: "OAuthAuthorizationRequest \<Rightarrow> err + string"
  oa_Exchange :: "nat \<Rightarrow> OAuthCodeExchangeRequest \<Rightarrow> err + OAuthTokens"

text \<open>
  A provider adapter. Its answers may depend on the moment of the call (the first argument);
  an optional capability is \<^const>\<open>None\<close> where the adapter does not have it. \<open>bp_ValidateTask\<close>,
  \<open>bp_ValidateResult\<close> and \<open>pv_ValidateReconcile\<close> are the SDK's \<open>Validate\<close> of what the adapter gives;
  \<open>pv_StartupSafe\<close> says whether its startup activation is \<open>StartupActivationDefaultSafe\<close>.
\<close>

record BackgroundProcessor =
  bp_BackgroundTasks :: "Connection \<Rightarrow> BackgroundTaskDescriptor list"
  bp_ProcessBackground :: "nat \<Rightarrow> BackgroundRequest \<Rightarrow> BackgroundResult \<times> err option"
  bp_ValidateTask :: "BackgroundTaskDescriptor \<Rightarrow> err option"
  bp_ValidateResult :: "BackgroundResult \<Rightarrow> err option"

record provider =
  pv_Operations :: "OperationDescriptor list"
  pv_SecretFields :: "(string \<times> bool) list"
  pv_Call :: "nat \<Rightarrow> CallRequest \<Rightarrow> CallResult \<times> err option"
  pv_OperationScopes :: "string \<Rightarrow> string list list option"
  pv_ConnectionTestScopes :: "string list list option"
  pv_TestConnection :: "(nat \<Rightarrow> TestConnectionRequest \<Rightarrow> TestConnectionResult \<times> err option) option"
  pv_VerifyWebhook :: "(VerifyWebhookRequest \<Rightarrow> err + VerifiedWebhook) option"
  pv_Background :: "BackgroundProcessor option"
  pv_Reconcile :: "(nat \<Rightarrow> ReconcileRequest \<Rightarrow> ReconcileResult \<times> err option) option"
  pv_ValidateReconcile :: "ReconcileResult \<Rightarrow> err option"
  pv_ConnectorKey :: string
  pv_ProviderKey :: string
  pv_ConfigFields :: "ConfigField list"
  pv_ValidateConfig :: "(Connection \<Rightarrow> err option) option"
  pv_StartupSafe :: bool
  pv_OAuth :: "OAuthAuthorizer option"

definition providerOperation :: "provider \<Rightarrow> string \<Rightarrow> OperationDescriptor option" where
  "providerOperation p key = find (\<lambda>operation. od_Key operation = key) (pv_Operations p)"

section \<open>The environment and the world\<close>

text \<open>
  A statement can take effect and report it, fail without effect, or take effect while its
  acknowledgement is lost.
\<close>

datatype outcome = Fine | Dropped | Unacknowledged

text \<open>The host's cipher for secret material: workspace, secret key and text.\<close>

record secret_cipher =
  ci_Encrypt :: "string \<Rightarrow> string \<Rightarrow> string \<Rightarrow> err + string"
  ci_Decrypt :: "string \<Rightarrow> string \<Rightarrow> string \<Rightarrow> err + string"

text \<open>A secret as it was when it was resolved, and all the secrets of a connection.\<close>

record providerSecretVersion =
  ver_SecretKey :: string
  ver_Fingerprint :: string
  ver_UpdatedAt :: string

record resolvedProviderSecrets =
  rps_Values :: "(string \<times> string) list"
  rps_Versions :: "(string \<times> providerSecretVersion) list option"

text \<open>
  The secret resolver of a delivery store: the store's own \<open>SecretResolver\<close>, or one of the host
  that may lack the optional interfaces.
\<close>

record host_resolver =
  hr_Resolve :: "nat \<Rightarrow> string \<Rightarrow> (string \<times> string) list \<Rightarrow> err + (string \<times> string) list"
  hr_Snapshot :: "(nat \<Rightarrow> string \<Rightarrow> (string \<times> string) list \<Rightarrow> err + resolvedProviderSecrets) option"
  hr_Conditional ::
    "(nat \<Rightarrow> string \<Rightarrow> (string \<times> providerSecretVersion) list \<Rightarrow> (string \<times> string) list \<Rightarrow> err option) option"
  hr_Writer :: "(nat \<Rightarrow> string \<Rightarrow> (string \<times> string) list \<Rightarrow> err option) option"

datatype secret_port = MaterialResolver | HostResolver host_resolver

text \<open>
  \<open>ev_others n\<close> is what other processes do to the database before step \<open>n\<close>; \<open>ev_clock n\<close> is
  \<open>time.Now()\<close> at step \<open>n\<close>; \<open>ev_ctx_err n\<close> is \<open>ctx.Err() != nil\<close>. The digests and the cipher are
  functions the source only calls: \<open>ev_sha256\<close> of a text and \<open>ev_sha256_json\<close> of a marshalled
  value, both in hexadecimal; \<open>ev_challenge\<close> is the digest of a text in unpadded URL base64.
  \<open>ev_WebPush\<close> says whether the delivery store has a web push store. \<open>ev_Regexp\<close> compiles a regular
  expression to its matcher; \<open>ev_Random n\<close> is what 32 random bytes give at step \<open>n\<close>, in base64.
\<close>

text \<open>
  The checks of the integration SDK on a subject, an account scope and a registration, and the
  JSON form of its runtime receipt; the texts of the connector SDK's reconciliation outcomes and
  configuration types, and its \<open>ApplyConfigDefaults\<close>.
\<close>

record integration_sdk =
  sdk_SubjectValidate :: "ConnectionAccountSubject \<Rightarrow> err option"
  sdk_ScopeValid :: "string \<Rightarrow> bool"
  sdk_RegistrationValidate :: "string \<Rightarrow> string \<Rightarrow> err option"
  sdk_ReceiptJSON :: "RuntimeExecutionReceipt \<Rightarrow> json"
  sdk_OutcomeText :: "reconciliation_outcome \<Rightarrow> string"
  sdk_ConfigTypeText :: "config_type \<Rightarrow> string"
  sdk_ApplyConfigDefaults :: "ConfigField list \<Rightarrow> (string \<times> json) list \<Rightarrow> err + (string \<times> json) list"

record env =
  ev_fault :: "nat \<Rightarrow> outcome"
  ev_others :: "nat \<Rightarrow> database \<Rightarrow> database"
  ev_clock :: "nat \<Rightarrow> time"
  ev_ctx_err :: "nat \<Rightarrow> bool"
  ev_scope :: "AccessScope option"
  ev_sha256 :: "string \<Rightarrow> string"
  ev_sha256_json :: "json \<Rightarrow> string"
  ev_getenv :: "string \<Rightarrow> string"
  ev_Cipher :: "secret_cipher option"
  ev_Secrets :: secret_port
  ev_WebPush :: bool
  ev_Provider :: "string \<Rightarrow> string \<Rightarrow> provider option"
  ev_Trigger :: "(nat \<Rightarrow> TriggerRequest \<Rightarrow> RuntimeExecutionReceipt \<times> err option) option"
  ev_SDK :: integration_sdk
  ev_Regexp :: "string \<Rightarrow> (string \<Rightarrow> bool) option"
  ev_Random :: "nat \<Rightarrow> err + string"
  ev_challenge :: "string \<Rightarrow> string"

text \<open>The external work done so far, in order.\<close>

datatype external_call =
    ProviderCall CallRequest
  | BackgroundCall BackgroundRequest
  | ReconcileCall ReconcileRequest
  | TestCall TestConnectionRequest
  | RuntimeTrigger TriggerRequest
  | OAuthExchange OAuthCodeExchangeRequest

record world =
  w_db :: database
  w_calls :: "external_call list"
  w_step :: nat
  w_tx :: bool

type_synonym 'a dbop = "(world, 'a) op"

definition before_step :: "env \<Rightarrow> world \<Rightarrow> world" where
  "before_step E w =
    w\<lparr>w_db := (if w_tx w then w_db w else ev_others E (w_step w) (w_db w)), w_step := Suc (w_step w)\<rparr>"

definition statement :: "env \<Rightarrow> (database \<Rightarrow> (err + 'a) \<times> database) \<Rightarrow> 'a dbop" where
  "statement E f = (\<lambda>w.
    let u = before_step E w; (r, d) = f (w_db u) in
    case ev_fault E (w_step w) of
      Fine \<Rightarrow> (r, u\<lparr>w_db := d\<rparr>)
    | Dropped \<Rightarrow> (Inl StorageErr, u)
    | Unacknowledged \<Rightarrow> (Inl StorageErr, u\<lparr>w_db := d\<rparr>))"

definition select :: "env \<Rightarrow> string \<Rightarrow> predicate \<Rightarrow> row list dbop" where
  "select E t p = statement E (\<lambda>d. (Inr (select_rows t p d), d))"

text \<open>A query that is more than a selection from one table.\<close>

definition query_read :: "env \<Rightarrow> (database \<Rightarrow> 'a) \<Rightarrow> 'a dbop" where
  "query_read E f = statement E (\<lambda>d. (Inr (f d), d))"

text \<open>\<open>QueryRowContext\<close>: the first row, \<^const>\<open>None\<close> for \<open>sql.ErrNoRows\<close>.\<close>

definition select_row :: "env \<Rightarrow> string \<Rightarrow> predicate \<Rightarrow> row option dbop" where
  "select_row E t p =
    seq (select E t p) (\<lambda>rs. ret (case rs of [] \<Rightarrow> None | r # _ \<Rightarrow> Some r))"

definition insert_into :: "env \<Rightarrow> string \<Rightarrow> (string \<times> sql) list \<Rightarrow> nat dbop" where
  "insert_into E t cs = statement E (insert_row t cs)"

definition update_set :: "env \<Rightarrow> string \<Rightarrow> (string \<times> sql) list \<Rightarrow> predicate \<Rightarrow> nat dbop" where
  "update_set E t cs p = statement E (update_rows t (set_columns cs) p)"

definition delete_from :: "env \<Rightarrow> string \<Rightarrow> predicate \<Rightarrow> nat dbop" where
  "delete_from E t p = statement E (delete_rows t p)"

text \<open>
  \<open>BeginTx\<close>, a body, \<open>Commit\<close>, with \<open>Rollback\<close> deferred. Inside the transaction no other process
  is seen (serializable isolation); an error of the body restores the snapshot, while provider
  calls made meanwhile stay made.
\<close>

definition transaction :: "env \<Rightarrow> 'a dbop \<Rightarrow> 'a dbop" where
  "transaction E body = (\<lambda>w.
    let u = before_step E w in
    if ev_fault E (w_step w) \<noteq> Fine then (Inl StorageErr, u)
    else
      (case body (u\<lparr>w_tx := True\<rparr>) of
         (Inl e, v) \<Rightarrow> (Inl e, v\<lparr>w_db := w_db u, w_tx := w_tx w\<rparr>)
       | (Inr x, v) \<Rightarrow>
           (case ev_fault E (w_step v) of
              Fine \<Rightarrow> (Inr x, v\<lparr>w_tx := w_tx w, w_step := Suc (w_step v)\<rparr>)
            | Dropped \<Rightarrow> (Inl StorageErr, v\<lparr>w_db := w_db u, w_tx := w_tx w, w_step := Suc (w_step v)\<rparr>)
            | Unacknowledged \<Rightarrow> (Inl StorageErr, v\<lparr>w_tx := w_tx w, w_step := Suc (w_step v)\<rparr>))))"

definition now :: "env \<Rightarrow> time dbop" where
  "now E = (\<lambda>w. (Inr (ev_clock E (w_step w)), w))"

definition ctx_done :: "env \<Rightarrow> bool dbop" where
  "ctx_done E = (\<lambda>w. (Inr (ev_ctx_err E (w_step w)), w))"

definition record_call :: "external_call \<Rightarrow> (nat \<Rightarrow> 'a) \<Rightarrow> 'a dbop" where
  "record_call c answer = (\<lambda>w. (Inr (answer (w_step w)), w\<lparr>w_calls := w_calls w @ [c], w_step := Suc (w_step w)\<rparr>))"

definition call_provider :: "provider \<Rightarrow> CallRequest \<Rightarrow> (CallResult \<times> err option) dbop" where
  "call_provider p request = record_call (ProviderCall request) (\<lambda>n. pv_Call p n request)"

definition no_rows :: err where "no_rows = Errorf ''sql: no rows in result set'' []"

text \<open>\<open>QueryRowContext(...).Scan(...)\<close> where the row must be there.\<close>

definition row_or_error :: "env \<Rightarrow> string \<Rightarrow> predicate \<Rightarrow> row dbop" where
  "row_or_error E t p =
    seq (select_row E t p) (\<lambda>found. case found of None \<Rightarrow> throw no_rows | Some r \<Rightarrow> ret r)"

definition at_step :: "(nat \<Rightarrow> err + 'a) \<Rightarrow> 'a dbop" where
  "at_step f = (\<lambda>w. (f (w_step w), w\<lparr>w_step := Suc (w_step w)\<rparr>))"

text \<open>\<open>Scan\<close> into a \<open>string\<close>, which fails on \<open>NULL\<close>.\<close>

definition scan_texts :: "row \<Rightarrow> string list \<Rightarrow> unit dbop" where
  "scan_texts r cs = check (\<not> has_null r cs) StorageErr"

definition timestamp :: "time \<Rightarrow> sql" where
  "timestamp t = Text (format_rfc3339nano t)"

section \<open>Erasure fences\<close>

definition fences :: string where "fences = ''_integration_subject_erasure_fences''"

type_synonym fence_ref = "string \<times> string \<times> string"

definition guard_predicate :: "string \<Rightarrow> fence_ref list \<Rightarrow> predicate" where
  "guard_predicate workspace refs =
    And [Equal ''workspace_id'' (Text workspace),
         Or (AlwaysFalse #
             map (\<lambda>(kind, object, id).
                    And [Equal ''kind'' (Text kind), Equal ''object_key'' (Text object), Equal ''resource_id'' (Text id)])
                 (filter (\<lambda>(kind, object, id). id \<noteq> []) refs))]"

definition guardSubjectWrite :: "env \<Rightarrow> string \<Rightarrow> fence_ref list \<Rightarrow> unit dbop" where
  "guardSubjectWrite E workspace refs =
    seq (select E fences (guard_predicate workspace refs)) (\<lambda>rs.
    if rs \<noteq> [] then throw (Errorf ''integration.subject_erased'' []) else ret ())"

definition subjectRowWriteAllowed :: "string \<Rightarrow> predicate" where
  "subjectRowWriteAllowed t =
    NotExists fences
      (And [EqualOuter ''workspace_id'' ''workspace_id'', Equal ''kind'' (Text ''row''),
            Equal ''object_key'' (Text t), EqualOuter ''resource_id'' ''id''])"

text \<open>An update as the stores write it: the fence predicate first.\<close>

definition guarded_update :: "env \<Rightarrow> string \<Rightarrow> (string \<times> sql) list \<Rightarrow> predicate \<Rightarrow> nat dbop" where
  "guarded_update E t cs p = update_set E t cs (And [subjectRowWriteAllowed t, p])"

definition is_fence :: "row \<Rightarrow> string \<Rightarrow> string \<Rightarrow> string \<Rightarrow> string \<Rightarrow> bool" where
  "is_fence f workspace kind object rid \<longleftrightarrow>
    f ''workspace_id'' = Text workspace \<and> f ''kind'' = Text kind \<and>
    f ''object_key'' = Text object \<and> f ''resource_id'' = Text rid"

definition fenced :: "database \<Rightarrow> string \<Rightarrow> string \<Rightarrow> string \<Rightarrow> string \<Rightarrow> bool" where
  "fenced d workspace kind object rid \<longleftrightarrow> list_ex (\<lambda>f. is_fence f workspace kind object rid) (d fences)"

definition row_fenced :: "database \<Rightarrow> string \<Rightarrow> row \<Rightarrow> bool" where
  "row_fenced d t r \<longleftrightarrow>
    list_ex (\<lambda>f. f ''workspace_id'' = r ''workspace_id'' \<and> f ''kind'' = Text ''row'' \<and>
                 f ''object_key'' = Text t \<and> f ''resource_id'' = r ''id'') (d fences) \<and>
    r ''workspace_id'' \<noteq> Null \<and> r ''id'' \<noteq> Null"

lemma row_fenced_iff_fenced:
  "r ''workspace_id'' = Text ws \<Longrightarrow> r ''id'' = Text i \<Longrightarrow> row_fenced d t r \<longleftrightarrow> fenced d ws ''row'' t i"
  by (simp add: row_fenced_def fenced_def is_fence_def)

lemma holds_row_write_allowed [where_simps]:
  "holds d r (subjectRowWriteAllowed t) \<longleftrightarrow> \<not> row_fenced d t r"
  by (auto simp: holds_def subjectRowWriteAllowed_def row_fenced_def list_ex_iff)

lemma guard_predicate_iff:
  "holds d f (guard_predicate ws refs) \<longleftrightarrow> (\<exists>(k, t, i) \<in> set refs. i \<noteq> [] \<and> is_fence f ws k t i)"
  by (fastforce simp: guard_predicate_def where_simps is_fence_def)

section \<open>A calm environment\<close>

text \<open>
  No faults, no other processes, a clock that stands at 2026-01-01T00:00:00Z, no access scope, the
  identity for the digests and the cipher, tokens that name their step, no regular expressions and no
  providers: for closed examples.
\<close>

definition calm_env :: env where
  "calm_env =
    \<lparr>ev_fault = (\<lambda>n. Fine), ev_others = (\<lambda>n d. d), ev_clock = (\<lambda>n. 63934444800000000000),
     ev_ctx_err = (\<lambda>n. False), ev_scope = None, ev_sha256 = (\<lambda>s. s), ev_sha256_json = sprint,
     ev_getenv = (\<lambda>s. []),
     ev_Cipher = Some \<lparr>ci_Encrypt = (\<lambda>ws k s. Inr s), ci_Decrypt = (\<lambda>ws k s. Inr s)\<rparr>,
     ev_Secrets = MaterialResolver, ev_WebPush = True, ev_Provider = (\<lambda>c p. None), ev_Trigger = None,
     ev_SDK = \<lparr>sdk_SubjectValidate = (\<lambda>subject. None), sdk_ScopeValid = (\<lambda>s. True),
               sdk_RegistrationValidate = (\<lambda>s owner. None), sdk_ReceiptJSON = (\<lambda>receipt. JObj []), sdk_OutcomeText = (\<lambda>outcome. []),
               sdk_ConfigTypeText = (\<lambda>t. []), sdk_ApplyConfigDefaults = (\<lambda>fs config. Inr config)\<rparr>,
     ev_Regexp = (\<lambda>p. None), ev_Random = (\<lambda>n. Inr (''0123456789012345678901234567890123456789t'' @ nat_text n)),
     ev_challenge = (\<lambda>s. s)\<rparr>"

lemma calm_env_simps [simp]:
  "ev_fault calm_env n = Fine" "ev_others calm_env n d = d" "ev_ctx_err calm_env n = False"
  "ev_scope calm_env = None" "ev_clock calm_env n = 63934444800000000000" "ev_sha256 calm_env s = s"
  "ev_sha256_json calm_env j = sprint j" "ev_getenv calm_env s = []" "ev_Secrets calm_env = MaterialResolver"
  "ev_Provider calm_env c p = None" "ev_Trigger calm_env = None" "sdk_SubjectValidate (ev_SDK calm_env) subject = None"
  "sdk_ScopeValid (ev_SDK calm_env) s" "sdk_RegistrationValidate (ev_SDK calm_env) s owner = None"
  "sdk_ApplyConfigDefaults (ev_SDK calm_env) fs config = Inr config" "ev_Regexp calm_env p = None" "ev_challenge calm_env s = s"
  by (simp_all add: calm_env_def)

definition world_of :: "database \<Rightarrow> world" where
  "world_of d = \<lparr>w_db = d, w_calls = [], w_step = 0, w_tx = False\<rparr>"

end
