(* ===== verification/Effects.thy ===== *)
theory Effects
  imports Store
begin

text \<open>
  What an operation of the stores can do to the world, as locales over a relation between the
  world before and after: reading, writing by insertions and fence-guarded updates, and calling
  out. An operation is shown once to be built from these steps; each interpretation then gives a
  different fact about all of them: a quiet operation makes no external call, a fenced row is
  never touched, a row never loses its identity, and calls made stay made.
\<close>

definition keeps_identity :: "(string \<times> sql) list \<Rightarrow> bool" where
  "keeps_identity cs \<longleftrightarrow> list_all (\<lambda>(c, v). c \<noteq> ''id'' \<and> c \<noteq> ''workspace_id'') cs"

locale store_reads = evolution R for R :: "world \<Rightarrow> world \<Rightarrow> bool" +
  fixes E :: env
  assumes within_select: "within (select E t p)"
    and begins: "R w (before_step E w)"
    and counts: "R w (w\<lparr>w_tx := b, w_step := n\<rparr>)"
    and rolls_back: "R w v \<Longrightarrow> R w (v\<lparr>w_db := w_db w\<rparr>)"
begin

lemma flags: "R w (w\<lparr>w_tx := b\<rparr>)"
  using counts [where w = w and b = b and n = "w_step w"] by simp

lemma within_step: "R w (w\<lparr>w_step := n\<rparr>)"
  using counts [where w = w and b = "w_tx w" and n = n] by simp

lemma within_at_step: "within (at_step f)"
  by (simp add: within_def at_step_def within_step)

lemma within_now: "within (now E)"
  by (simp add: within_def now_def stays)

lemma within_ctx_done: "within (ctx_done E)"
  by (simp add: within_def ctx_done_def stays)

lemma within_query_read: "within (query_read E f)"
proof (rule within_I)
  fix w
  have "snd (query_read E f w) = before_step E w"
    by (cases "ev_fault E (w_step w)") (simp_all add: query_read_def statement_def Let_def)
  then show "R w (snd (query_read E f w))" using begins by simp
qed

lemma within_select_row: "within (select_row E t p)"
  unfolding select_row_def by (intro within_seq within_select within_ret)

lemma within_row_or_error: "within (row_or_error E t p)"
  unfolding row_or_error_def by (intro within_seq within_select_row within_option within_throw within_ret)

lemma within_scan_texts: "within (scan_texts r cs)"
  unfolding scan_texts_def by (rule within_check)

lemma within_guard: "within (guardSubjectWrite E ws refs)"
  unfolding guardSubjectWrite_def by (intro within_seq within_select within_if within_throw within_ret)

lemma within_transaction:
  assumes "within body"
  shows "within (transaction E body)"
proof (rule within_I)
  fix w
  let ?u = "before_step E w"
  let ?v = "snd (body (?u\<lparr>w_tx := True\<rparr>))"
  have uv: "R ?u ?v" using assms flags chains unfolding within_def by blast
  have close: "R w x" if "R ?u x" for x using begins chains that by blast
  have step: "R ?u (?v\<lparr>w_tx := b, w_step := n\<rparr>)" "R ?u (?v\<lparr>w_db := w_db ?u, w_tx := b, w_step := n\<rparr>)"
    for b n
    using chains [OF uv counts] chains [OF rolls_back [OF uv] counts] by simp_all
  have "R ?u (?v\<lparr>w_db := w_db ?u, w_tx := b\<rparr>)" for b
    using chains [OF rolls_back [OF uv] flags] by simp
  then show "R w (snd (transaction E body w))"
    using step begins
    by (cases "body (?u\<lparr>w_tx := True\<rparr>)")
      (auto simp: transaction_def Let_def intro: close split: sum.splits outcome.splits)
qed

lemmas within_reads =
  within_intros within_select within_now within_ctx_done within_select_row within_row_or_error
  within_scan_texts within_guard within_transaction within_at_step within_query_read

end

locale store_writes = store_reads +
  assumes within_insert: "within (insert_into E t cs)"
    and within_guarded_update: "keeps_identity cs \<Longrightarrow> t \<noteq> fences \<Longrightarrow> within (guarded_update E t cs p)"
begin

lemmas within_writes = within_reads within_insert within_guarded_update

end

locale store_calls = store_writes +
  assumes calls_out: "R w (w\<lparr>w_calls := w_calls w @ [c], w_step := n\<rparr>)"
begin

lemma within_record_call: "within (record_call c answer)"
  by (simp add: within_def record_call_def calls_out)

lemma within_call_provider: "within (call_provider p request)"
  unfolding call_provider_def by (rule within_record_call)

lemmas within_calls = within_writes within_record_call within_call_provider

end

section \<open>Statements on the database\<close>

text \<open>A relation on databases that other processes stay in, seen on worlds.\<close>

definition db_within :: "(database \<Rightarrow> database \<Rightarrow> bool) \<Rightarrow> env \<Rightarrow> world \<Rightarrow> world \<Rightarrow> bool" where
  "db_within Q E s t \<longleftrightarrow> (\<forall>n d. Q d (ev_others E n d)) \<longrightarrow> Q (w_db s) (w_db t)"

locale db_relation =
  fixes Q :: "database \<Rightarrow> database \<Rightarrow> bool"
  assumes db_stays: "Q d d"
    and db_chains: "Q a b \<Longrightarrow> Q b c \<Longrightarrow> Q a c"
    and db_insert: "Q d (snd (insert_row t cs d))"
    and db_update: "keeps_identity cs \<Longrightarrow> t \<noteq> fences \<Longrightarrow>
      Q d (snd (update_rows t (set_columns cs) (And [subjectRowWriteAllowed t, p]) d))"
begin

lemma statement_within:
  assumes "\<And>d. Q d (snd (f d))"
  shows "db_within Q E w (snd (statement E f w))"
  unfolding db_within_def
proof
  assume peers: "\<forall>n d. Q d (ev_others E n d)"
  let ?d = "w_db (before_step E w)"
  have "Q (w_db w) ?d" using peers db_stays by (simp add: before_step_def)
  moreover have "Q ?d (snd (f ?d))" by (rule assms)
  ultimately show "Q (w_db w) (w_db (snd (statement E f w)))"
    using db_chains
    by (cases "f ?d"; cases "ev_fault E (w_step w)") (auto simp: statement_def Let_def)
qed

lemma store_calls_within: "store_calls (db_within Q E) E"
proof -
  have evo: "evolution (db_within Q E)"
    by unfold_locales (auto simp: db_within_def intro: db_stays db_chains)
  show ?thesis
  proof unfold_locales
    show "db_within Q E s s" for s by (rule evolution.stays [OF evo])
    show "db_within Q E s t \<Longrightarrow> db_within Q E t u \<Longrightarrow> db_within Q E s u" for s t u
      by (rule evolution.chains [OF evo])
    show "evolution.within (db_within Q E) (select E t p)" for t p
      unfolding evolution.within_def [OF evo] select_def
      by (intro allI statement_within) (simp add: db_stays)
    show "evolution.within (db_within Q E) (insert_into E t cs)" for t cs
      unfolding evolution.within_def [OF evo] insert_into_def using statement_within db_insert by blast
    show "keeps_identity cs \<Longrightarrow> t \<noteq> fences \<Longrightarrow> evolution.within (db_within Q E) (guarded_update E t cs p)"
      for cs t p
      unfolding evolution.within_def [OF evo] guarded_update_def update_set_def
      using statement_within db_update by blast
    show "db_within Q E w (before_step E w)" for w
      using db_stays by (simp add: db_within_def before_step_def)
    show "db_within Q E w v \<Longrightarrow> db_within Q E w (v\<lparr>w_db := w_db w\<rparr>)" for w v
      using db_stays by (simp add: db_within_def)
  qed (use db_stays in \<open>simp_all add: db_within_def\<close>)
qed

end

section \<open>Invariants of the tables\<close>

text \<open>An invariant of the database, kept as long as other processes keep it.\<close>

definition inv_within :: "(database \<Rightarrow> bool) \<Rightarrow> env \<Rightarrow> world \<Rightarrow> world \<Rightarrow> bool" where
  "inv_within I E s t \<longleftrightarrow> (\<forall>n d. I d \<longrightarrow> I (ev_others E n d)) \<longrightarrow> I (w_db s) \<longrightarrow> I (w_db t)"

lemma inv_evolution: "evolution (inv_within I E)"
  by unfold_locales (auto simp: inv_within_def)

lemma inv_statement:
  assumes "\<And>d. I d \<Longrightarrow> I (snd (f d))"
  shows "evolution.within (inv_within I E) (statement E f)"
  unfolding evolution.within_def [OF inv_evolution]
proof
  fix w
  let ?d = "w_db (before_step E w)"
  have "I ?d \<Longrightarrow> I (snd (f ?d))" by (rule assms)
  then show "inv_within I E w (snd (statement E f w))"
    by (cases "f ?d"; cases "ev_fault E (w_step w)")
      (auto simp: inv_within_def statement_def Let_def before_step_def)
qed

lemma inv_store_reads: "store_reads (inv_within I E) E"
proof unfold_locales
  show "evolution.within (inv_within I E) (select E t p)" for t p
    unfolding select_def by (rule inv_statement) simp
qed (auto simp: inv_within_def before_step_def)

text \<open>A condition on the rows of one table.\<close>

definition all_rows :: "string \<Rightarrow> (row \<Rightarrow> bool) \<Rightarrow> database \<Rightarrow> bool" where
  "all_rows t P d \<longleftrightarrow> (\<forall>r \<in> set (d t). P r)"

lemma all_rows_insert: "(u = t \<Longrightarrow> P (row_of cs)) \<Longrightarrow> all_rows t P d \<Longrightarrow> all_rows t P (snd (insert_row u cs d))"
  by (auto simp: all_rows_def insert_row_def Let_def)

lemma all_rows_update:
  "(\<And>r. u = t \<Longrightarrow> P r \<Longrightarrow> holds d r p \<Longrightarrow> P (f r)) \<Longrightarrow> all_rows t P d \<Longrightarrow>
   all_rows t P (snd (update_rows u f p d))"
  by (auto simp: all_rows_def update_rows_def)

lemma all_rows_delete: "all_rows t P d \<Longrightarrow> all_rows t P (snd (delete_rows u p d))"
  by (auto simp: all_rows_def delete_rows_def)

text \<open>A row that no update selects stays.\<close>

lemma row_stays_insert: "r \<in> set (d t) \<Longrightarrow> r \<in> set (snd (insert_row u cs d) t)"
  by (auto simp: insert_row_def Let_def)

lemma row_stays_update:
  "(u = t \<Longrightarrow> \<not> holds d r p) \<Longrightarrow> r \<in> set (d t) \<Longrightarrow> r \<in> set (snd (update_rows u f p d) t)"
  by (force simp: update_rows_def)

section \<open>What every operation keeps\<close>

text \<open>An operation that makes no external call.\<close>

definition quiet :: "world \<Rightarrow> world \<Rightarrow> bool" where
  "quiet s t \<longleftrightarrow> w_calls t = w_calls s"

lemma before_step_calls [simp]: "w_calls (before_step E w) = w_calls w"
  by (simp add: before_step_def)

lemma statement_calls: "w_calls (snd (statement E f w)) = w_calls w"
  by (cases "f (w_db (before_step E w))"; cases "ev_fault E (w_step w)")
    (auto simp: statement_def Let_def before_step_def)

interpretation quiet: store_writes quiet E for E
proof -
  have evo: "evolution quiet" by unfold_locales (auto simp: quiet_def)
  show "store_writes quiet E"
    by unfold_locales
      (auto simp: quiet_def evolution.within_def [OF evo] select_def insert_into_def guarded_update_def
        update_set_def statement_calls before_step_def)
qed

text \<open>External calls made stay made, in their order.\<close>

definition calls_grow :: "world \<Rightarrow> world \<Rightarrow> bool" where
  "calls_grow s t \<longleftrightarrow> (\<exists>cs. w_calls t = w_calls s @ cs)"

interpretation calls_grow: store_calls calls_grow E for E
proof -
  have evo: "evolution calls_grow" by unfold_locales (auto simp: calls_grow_def)
  show "store_calls calls_grow E"
    by unfold_locales
      (auto simp: calls_grow_def evolution.within_def [OF evo] select_def insert_into_def guarded_update_def
        update_set_def statement_calls before_step_def)
qed

text \<open>
  A fenced row stays as it is, and fences stay. (Erasure is the one component that changes
  fenced rows; it is not built from guarded statements.)
\<close>

definition keeps_fenced :: "database \<Rightarrow> database \<Rightarrow> bool" where
  "keeps_fenced d d' \<longleftrightarrow>
    set (d fences) \<subseteq> set (d' fences) \<and> (\<forall>t. \<forall>r \<in> set (d t). row_fenced d t r \<longrightarrow> r \<in> set (d' t))"

lemma row_fenced_mono: "set (d fences) \<subseteq> set (d' fences) \<Longrightarrow> row_fenced d t r \<Longrightarrow> row_fenced d' t r"
  by (auto simp: row_fenced_def list_ex_iff)

lemma guarded_rows_kept:
  assumes "t \<noteq> fences"
  shows "keeps_fenced d (snd (update_rows t f (And [subjectRowWriteAllowed t, p]) d))"
proof -
  have "r \<in> (\<lambda>r. if holds d r (And [subjectRowWriteAllowed t, p]) then f r else r) ` set (d t)"
    if "r \<in> set (d t)" "row_fenced d t r" for r
    using that by (auto simp: where_simps image_iff)
  with assms show ?thesis by (auto simp: keeps_fenced_def update_rows_def)
qed

interpretation keeps_fenced: db_relation keeps_fenced
proof
  show "keeps_fenced a b \<Longrightarrow> keeps_fenced b c \<Longrightarrow> keeps_fenced a c" for a b c
    unfolding keeps_fenced_def using row_fenced_mono by (metis subset_trans)
  show "keeps_fenced d (snd (insert_row t cs d))" for d t cs
    by (auto simp: keeps_fenced_def insert_row_def Let_def)
  show "keeps_identity cs \<Longrightarrow> t \<noteq> fences \<Longrightarrow>
      keeps_fenced d (snd (update_rows t (set_columns cs) (And [subjectRowWriteAllowed t, p]) d))" for cs t d p
    by (rule guarded_rows_kept)
qed (simp add: keeps_fenced_def)

interpretation frozen: store_calls "db_within keeps_fenced E" E for E
  by (rule keeps_fenced.store_calls_within)

text \<open>No row loses its identity: a claimed key stays claimed.\<close>

definition keeps_ids :: "database \<Rightarrow> database \<Rightarrow> bool" where
  "keeps_ids d d' \<longleftrightarrow>
    (\<forall>t. \<forall>r \<in> set (d t). \<exists>q \<in> set (d' t). q ''id'' = r ''id'' \<and> q ''workspace_id'' = r ''workspace_id'')"

lemma set_columns_identity:
  "keeps_identity cs \<Longrightarrow> set_columns cs r ''id'' = r ''id'' \<and> set_columns cs r ''workspace_id'' = r ''workspace_id''"
  by (auto simp: keeps_identity_def list_all_iff intro!: set_columns_other)

interpretation keeps_ids: db_relation keeps_ids
proof
  show "keeps_ids a b \<Longrightarrow> keeps_ids b c \<Longrightarrow> keeps_ids a c" for a b c
    unfolding keeps_ids_def by metis
  show "keeps_ids d (snd (insert_row t cs d))" for d t cs
    by (auto simp: keeps_ids_def insert_row_def Let_def)
  fix cs t d p
  assume identity: "keeps_identity cs"
  let ?p = "And [subjectRowWriteAllowed t, p]"
  let ?d' = "snd (update_rows t (set_columns cs) ?p d)"
  show "keeps_ids d ?d'"
    unfolding keeps_ids_def
  proof (intro allI ballI)
    fix u r
    assume r: "r \<in> set (d u)"
    let ?q = "if u = t \<and> holds d r ?p then set_columns cs r else r"
    have "?q \<in> set (?d' u)" using r by (auto simp: update_rows_def)
    moreover have "?q ''id'' = r ''id'' \<and> ?q ''workspace_id'' = r ''workspace_id''"
      using set_columns_identity [OF identity] by simp
    ultimately show "\<exists>q \<in> set (?d' u). q ''id'' = r ''id'' \<and> q ''workspace_id'' = r ''workspace_id''" by blast
  qed
qed (auto simp: keeps_ids_def)

interpretation ids: store_calls "db_within keeps_ids E" E for E
  by (rule keeps_ids.store_calls_within)

section \<open>No external call in a given state\<close>

text \<open>
  Where a condition on the database holds, it goes on to hold and nothing is called out: the
  relation that operations stay in when every call of theirs comes after a step that fails
  under the condition.
\<close>

definition stable :: "(database \<Rightarrow> bool) \<Rightarrow> env \<Rightarrow> bool" where
  "stable P E \<longleftrightarrow> (\<forall>n d. P d \<longrightarrow> P (ev_others E n d))"

definition quiet_where :: "(database \<Rightarrow> bool) \<Rightarrow> env \<Rightarrow> world \<Rightarrow> world \<Rightarrow> bool" where
  "quiet_where P E s t \<longleftrightarrow> stable P E \<longrightarrow> P (w_db s) \<longrightarrow> P (w_db t) \<and> w_calls t = w_calls s"

lemma stable_before_step: "stable P E \<Longrightarrow> P (w_db w) \<Longrightarrow> P (w_db (before_step E w))"
  by (simp add: stable_def before_step_def)

lemma quiet_where_evolution: "evolution (quiet_where P E)"
  by unfold_locales (auto simp: quiet_where_def)

lemma quiet_where_statement:
  assumes "\<And>d. P d \<Longrightarrow> P (snd (f d))"
  shows "evolution.within (quiet_where P E) (statement E f)"
  unfolding evolution.within_def [OF quiet_where_evolution]
proof
  fix w
  have "P (w_db (before_step E w)) \<Longrightarrow> P (snd (f (w_db (before_step E w))))" by (rule assms)
  then show "quiet_where P E w (snd (statement E f w))"
    using stable_before_step [of P E w]
    by (cases "f (w_db (before_step E w))"; cases "ev_fault E (w_step w)")
      (auto simp: quiet_where_def statement_def Let_def statement_calls before_step_calls)
qed

lemma quiet_where_writes:
  assumes "\<And>t cs d. P d \<Longrightarrow> P (snd (insert_row t cs d))"
    and "\<And>t cs p d. keeps_identity cs \<Longrightarrow> t \<noteq> fences \<Longrightarrow> P d \<Longrightarrow>
      P (snd (update_rows t (set_columns cs) (And [subjectRowWriteAllowed t, p]) d))"
  shows "store_writes (quiet_where P E) E"
proof unfold_locales
  show "quiet_where P E s s" for s by (rule evolution.stays [OF quiet_where_evolution])
  show "quiet_where P E s t \<Longrightarrow> quiet_where P E t u \<Longrightarrow> quiet_where P E s u" for s t u
    by (rule evolution.chains [OF quiet_where_evolution])
  show "evolution.within (quiet_where P E) (select E t p)" for t p
    unfolding select_def by (rule quiet_where_statement) simp
  show "evolution.within (quiet_where P E) (insert_into E t cs)" for t cs
    unfolding insert_into_def by (intro quiet_where_statement assms(1))
  show "keeps_identity cs \<Longrightarrow> t \<noteq> fences \<Longrightarrow> evolution.within (quiet_where P E) (guarded_update E t cs p)"
    for cs t p
    unfolding guarded_update_def update_set_def by (intro quiet_where_statement assms(2))
  show "quiet_where P E w (before_step E w)" for w
    using stable_before_step [of P E w] by (simp add: quiet_where_def before_step_calls)
qed (auto simp: quiet_where_def)

text \<open>What follows a step that fails is not reached.\<close>

lemma within_after_stop:
  assumes "evolution.within (quiet_where P E) m"
    and "\<And>w. stable P E \<Longrightarrow> P (w_db w) \<Longrightarrow> \<exists>e w'. m w = (Inl e, w')"
  shows "evolution.within (quiet_where P E) (seq m f)"
  unfolding evolution.within_def [OF quiet_where_evolution]
proof
  fix w
  have m: "quiet_where P E w (snd (m w))"
    using assms(1) unfolding evolution.within_def [OF quiet_where_evolution] by blast
  show "quiet_where P E w (snd (seq m f w))"
  proof (cases "stable P E \<and> P (w_db w)")
    case True
    then obtain e w' where "m w = (Inl e, w')" using assms(2) by blast
    with m show ?thesis by (simp add: seq_def)
  qed (auto simp: quiet_where_def)
qed

text \<open>A fence: the guard of it fails.\<close>

lemma fenced_kept: "keeps_fenced d d' \<Longrightarrow> fenced d ws k g i \<Longrightarrow> fenced d' ws k g i"
  by (auto simp: keeps_fenced_def fenced_def list_ex_iff)

interpretation fence_quiet: store_writes "quiet_where (\<lambda>d. fenced d ws k g i) E" E for ws k g i E
  by (rule quiet_where_writes) (blast intro: fenced_kept keeps_fenced.db_insert keeps_fenced.db_update)+

lemma guard_stops:
  assumes "stable (\<lambda>d. fenced d ws k g i) E" and "fenced (w_db w) ws k g i" and "(k, g, i) \<in> set refs" and "i \<noteq> []"
  shows "\<exists>e w'. guardSubjectWrite E ws refs w = (Inl e, w')"
proof -
  let ?d = "w_db (before_step E w)"
  have "fenced ?d ws k g i" using stable_before_step [OF assms(1)] assms(2) .
  then obtain f where f: "f \<in> set (?d fences)" "is_fence f ws k g i" by (auto simp: fenced_def list_ex_iff)
  with assms(3,4) have "holds ?d f (guard_predicate ws refs)"
    unfolding guard_predicate_iff by (intro bexI [of _ "(k, g, i)"]) auto
  with f(1) have "select_rows fences (guard_predicate ws refs) ?d \<noteq> []"
    by (auto simp: select_rows_def filter_empty_conv)
  then show ?thesis
    by (cases "ev_fault E (w_step w)")
      (auto simp: guardSubjectWrite_def select_def statement_def seq_def Let_def)
qed

lemma within_after_guard:
  assumes "(k, g, i) \<in> set refs" and "i \<noteq> []"
  shows "evolution.within (quiet_where (\<lambda>d. fenced d ws k g i) E) (seq (guardSubjectWrite E ws refs) f)"
  by (rule within_after_stop [OF fence_quiet.within_guard]) (rule guard_stops [OF _ _ assms])

text \<open>A row of a table that holds a primary key: no other row with that key can be inserted.\<close>

definition has_id :: "string \<Rightarrow> string \<Rightarrow> database \<Rightarrow> bool" where
  "has_id t i d \<longleftrightarrow> list_ex (\<lambda>r. r ''id'' = Text i) (d t)"

lemma has_id_kept: "keeps_ids d d' \<Longrightarrow> has_id t i d \<Longrightarrow> has_id t i d'"
  unfolding keeps_ids_def has_id_def list_ex_iff by metis

interpretation id_quiet: store_writes "quiet_where (has_id t i) E" E for t i E
  by (rule quiet_where_writes) (blast intro: has_id_kept keeps_ids.db_insert keeps_ids.db_update)+

lemma has_id_conflicts: "has_id t i d \<Longrightarrow> row_of cs ''id'' = Text i \<Longrightarrow> conflicts d t (row_of cs)"
proof -
  assume "has_id t i d" and cs: "row_of cs ''id'' = Text i"
  then obtain q where "q \<in> set (d t)" "q ''id'' = Text i" by (auto simp: has_id_def list_ex_iff)
  moreover from this cs have "same_key (row_of cs) q [''id'']" by (simp add: same_key_def)
  ultimately show ?thesis using id_key unfolding conflicts_def by blast
qed

lemma insert_stops:
  assumes "stable (has_id t i) E" and "has_id t i (w_db w)" and "row_of cs ''id'' = Text i"
  shows "\<exists>e w'. insert_into E t cs w = (Inl e, w')"
proof -
  have "conflicts (w_db (before_step E w)) t (row_of cs)"
    using has_id_conflicts stable_before_step [OF assms(1)] assms(2,3) by blast
  then show ?thesis
    by (cases "ev_fault E (w_step w)") (simp_all add: insert_into_def statement_def insert_row_def Let_def)
qed

lemma within_after_insert:
  assumes "row_of cs ''id'' = Text i"
  shows "evolution.within (quiet_where (has_id t i) E) (seq (insert_into E t cs) f)"
  by (rule within_after_stop [OF id_quiet.within_insert]) (rule insert_stops [OF _ _ assms])

section \<open>At most one external call\<close>

text \<open>
  An operation that makes at most one external call, and only with the condition established:
  first for operations that establish it themselves, then for those that start under it.
\<close>

definition single_call :: "(database \<Rightarrow> bool) \<Rightarrow> env \<Rightarrow> 'a dbop \<Rightarrow> bool" where
  "single_call P E m \<longleftrightarrow> (\<forall>w. stable P E \<longrightarrow>
    w_calls (snd (m w)) = w_calls w \<or> (\<exists>c. w_calls (snd (m w)) = w_calls w @ [c] \<and> P (w_db (snd (m w)))))"

definition single_call_under :: "(database \<Rightarrow> bool) \<Rightarrow> env \<Rightarrow> 'a dbop \<Rightarrow> bool" where
  "single_call_under P E m \<longleftrightarrow> (\<forall>w. stable P E \<longrightarrow> P (w_db w) \<longrightarrow>
    P (w_db (snd (m w))) \<and>
    (w_calls (snd (m w)) = w_calls w \<or> (\<exists>c. w_calls (snd (m w)) = w_calls w @ [c])))"

lemma quiet_evolution: "evolution quiet"
  by unfold_locales (auto simp: quiet_def)

lemma quiet_D: "evolution.within quiet m \<Longrightarrow> m w = (r, w') \<Longrightarrow> w_calls w' = w_calls w"
  unfolding evolution.within_def [OF quiet_evolution] quiet_def by (metis snd_conv)

lemma quiet_where_D:
  "evolution.within (quiet_where P E) m \<Longrightarrow> stable P E \<Longrightarrow> P (w_db w) \<Longrightarrow> m w = (r, w') \<Longrightarrow>
    P (w_db w') \<and> w_calls w' = w_calls w"
  unfolding evolution.within_def [OF quiet_where_evolution] quiet_where_def by (metis snd_conv)

lemma single_call_quiet: "evolution.within quiet m \<Longrightarrow> single_call P E m"
  unfolding single_call_def using quiet_D by (metis prod.collapse)

lemma single_call_seq:
  assumes "evolution.within quiet m" and "\<And>x. single_call P E (f x)"
  shows "single_call P E (seq m f)"
  unfolding single_call_def
proof (intro allI impI)
  fix w :: world
  assume "stable P E"
  obtain r u where m: "m w = (r, u)" by fastforce
  have next_part: "w_calls (snd (f x u)) = w_calls u \<or>
      (\<exists>c. w_calls (snd (f x u)) = w_calls u @ [c] \<and> P (w_db (snd (f x u))))" for x
    using assms(2) [of x] \<open>stable P E\<close> unfolding single_call_def by blast
  show "w_calls (snd (seq m f w)) = w_calls w \<or>
      (\<exists>c. w_calls (snd (seq m f w)) = w_calls w @ [c] \<and> P (w_db (snd (seq m f w))))"
  proof (cases r)
    case (Inr x)
    with next_part [of x] quiet_D [OF assms(1) m] m show ?thesis by (simp add: seq_def)
  qed (use quiet_D [OF assms(1) m] m in \<open>simp add: seq_def\<close>)
qed

lemma single_call_claim:
  assumes "evolution.within quiet m" and "\<And>w x w'. stable P E \<Longrightarrow> m w = (Inr x, w') \<Longrightarrow> P (w_db w')"
    and "\<And>x. single_call_under P E (f x)"
  shows "single_call P E (seq m f)"
  unfolding single_call_def
proof (intro allI impI)
  fix w :: world
  assume st: "stable P E"
  obtain r u where m: "m w = (r, u)" by fastforce
  show "w_calls (snd (seq m f w)) = w_calls w \<or>
      (\<exists>c. w_calls (snd (seq m f w)) = w_calls w @ [c] \<and> P (w_db (snd (seq m f w))))"
  proof (cases r)
    case (Inl e)
    with quiet_D [OF assms(1) m] m show ?thesis by (simp add: seq_def)
  next
    case (Inr x)
    with assms(2) [OF st] m have "P (w_db u)" by blast
    with quiet_D [OF assms(1) m] assms(3) [of x] st m Inr show ?thesis
      unfolding single_call_under_def by (fastforce simp: seq_def)
  qed
qed

lemma single_call_under_seq:
  assumes "evolution.within (quiet_where P E) m" and "\<And>x. single_call_under P E (f x)"
  shows "single_call_under P E (seq m f)"
  unfolding single_call_under_def
proof (intro allI impI)
  fix w :: world
  assume st: "stable P E" "P (w_db w)"
  obtain r u where m: "m w = (r, u)" by fastforce
  have u: "P (w_db u)" "w_calls u = w_calls w" using quiet_where_D [OF assms(1) st m] by simp_all
  have next_part: "P (w_db (snd (f x u))) \<and> (w_calls (snd (f x u)) = w_calls u \<or>
      (\<exists>c. w_calls (snd (f x u)) = w_calls u @ [c]))" for x
    using assms(2) [of x] st(1) u(1) unfolding single_call_under_def by blast
  show "P (w_db (snd (seq m f w))) \<and>
      (w_calls (snd (seq m f w)) = w_calls w \<or> (\<exists>c. w_calls (snd (seq m f w)) = w_calls w @ [c]))"
  proof (cases r)
    case (Inr x)
    with next_part [of x] u m show ?thesis by (simp add: seq_def)
  qed (use u m in \<open>simp add: seq_def\<close>)
qed

lemma single_call_under_call:
  assumes "\<And>x. evolution.within (quiet_where P E) (f x)"
  shows "single_call_under P E (seq (record_call c answer) f)"
  unfolding single_call_under_def
proof (intro allI impI)
  fix w :: world
  assume st: "stable P E" "P (w_db w)"
  let ?u = "w\<lparr>w_calls := w_calls w @ [c], w_step := Suc (w_step w)\<rparr>"
  obtain r v where f: "f (answer (w_step w)) ?u = (r, v)" by fastforce
  have "P (w_db ?u)" using st(2) by simp
  from quiet_where_D [OF assms st(1) this f] f
  show "P (w_db (snd (seq (record_call c answer) f w))) \<and>
      (w_calls (snd (seq (record_call c answer) f w)) = w_calls w \<or>
       (\<exists>c'. w_calls (snd (seq (record_call c answer) f w)) = w_calls w @ [c']))"
    by (simp add: seq_def record_call_def)
qed

lemma single_call_if:
  "(b \<Longrightarrow> single_call P E m) \<Longrightarrow> (\<not> b \<Longrightarrow> single_call P E n) \<Longrightarrow> single_call P E (if b then m else n)"
  by simp

lemma single_call_sum:
  "(\<And>e. x = Inl e \<Longrightarrow> single_call P E (g e)) \<Longrightarrow> (\<And>y. x = Inr y \<Longrightarrow> single_call P E (f y)) \<Longrightarrow>
   single_call P E (case x of Inl e \<Rightarrow> g e | Inr y \<Rightarrow> f y)"
  by (cases x) auto

lemma single_call_under_quiet: "evolution.within (quiet_where P E) m \<Longrightarrow> single_call_under P E m"
  unfolding single_call_under_def using quiet_where_D by (metis prod.collapse)

lemma single_call_under_then:
  assumes "single_call_under P E m" and "\<And>x. evolution.within (quiet_where P E) (f x)"
  shows "single_call_under P E (seq m f)"
  unfolding single_call_under_def
proof (intro allI impI)
  fix w :: world
  assume st: "stable P E" "P (w_db w)"
  obtain r u where m: "m w = (r, u)" by fastforce
  have u: "P (w_db u)" "w_calls u = w_calls w \<or> (\<exists>c. w_calls u = w_calls w @ [c])"
    using assms(1) st m unfolding single_call_under_def by (metis snd_conv)+
  show "P (w_db (snd (seq m f w))) \<and>
      (w_calls (snd (seq m f w)) = w_calls w \<or> (\<exists>c. w_calls (snd (seq m f w)) = w_calls w @ [c]))"
  proof (cases r)
    case (Inr x)
    obtain r' v where f: "f x u = (r', v)" by fastforce
    from quiet_where_D [OF assms(2) st(1) u(1) f] u(2) f m Inr show ?thesis by (simp add: seq_def)
  qed (use u m in \<open>simp add: seq_def\<close>)
qed

text \<open>A claim that may be refused: only where it was acquired the rest may call.\<close>

lemma single_call_claim_if:
  assumes "evolution.within quiet m"
    and "\<And>w x w'. stable P E \<Longrightarrow> m w = (Inr x, w') \<Longrightarrow> won x \<Longrightarrow> P (w_db w')"
    and "\<And>x. won x \<Longrightarrow> single_call_under P E (f x)"
    and "\<And>x. \<not> won x \<Longrightarrow> evolution.within quiet (f x)"
  shows "single_call P E (seq m f)"
  unfolding single_call_def
proof (intro allI impI)
  fix w :: world
  assume st: "stable P E"
  obtain r u where m: "m w = (r, u)" by fastforce
  note mq = quiet_D [OF assms(1) m]
  show "w_calls (snd (seq m f w)) = w_calls w \<or>
      (\<exists>c. w_calls (snd (seq m f w)) = w_calls w @ [c] \<and> P (w_db (snd (seq m f w))))"
  proof (cases r)
    case (Inl e)
    with mq m show ?thesis by (simp add: seq_def)
  next
    case (Inr x)
    obtain r' v where f: "f x u = (r', v)" by fastforce
    show ?thesis
    proof (cases "won x")
      case True
      with assms(2) [OF st] m Inr have "P (w_db u)" by blast
      with assms(3) [OF True] st have "P (w_db (snd (f x u))) \<and>
          (w_calls (snd (f x u)) = w_calls u \<or> (\<exists>c. w_calls (snd (f x u)) = w_calls u @ [c]))"
        unfolding single_call_under_def by blast
      with f m Inr mq show ?thesis by (auto simp: seq_def)
    next
      case False
      from quiet_D [OF assms(4) [OF False] f] f m Inr mq show ?thesis by (simp add: seq_def)
    qed
  qed
qed

text \<open>Any number of runs, each of which calls at most once and not at all once the condition holds.\<close>

definition at_most_once :: "(database \<Rightarrow> bool) \<Rightarrow> 'a dbop \<Rightarrow> bool" where
  "at_most_once P m \<longleftrightarrow>
    (\<forall>w. (w_calls (snd (m w)) = w_calls w \<or> (\<exists>c. w_calls (snd (m w)) = w_calls w @ [c] \<and> P (w_db (snd (m w))))) \<and>
         (P (w_db w) \<longrightarrow> w_calls (snd (m w)) = w_calls w \<and> P (w_db (snd (m w)))))"

lemma at_most_once_I:
  "stable P E \<Longrightarrow> single_call P E m \<Longrightarrow> evolution.within (quiet_where P E) m \<Longrightarrow> at_most_once P m"
  unfolding at_most_once_def single_call_def evolution.within_def [OF quiet_where_evolution] quiet_where_def by blast

lemma runs_taken:
  "list_all (at_most_once P) ms \<Longrightarrow> P (w_db w) \<Longrightarrow> w_calls (fold (\<lambda>m w. snd (m w)) ms w) = w_calls w"
  by (induction ms arbitrary: w) (auto simp: at_most_once_def)

lemma runs_at_most_once:
  "list_all (at_most_once P) ms \<Longrightarrow>
   \<exists>cs. w_calls (fold (\<lambda>m w. snd (m w)) ms w) = w_calls w @ cs \<and> length cs \<le> 1"
proof (induction ms arbitrary: w)
  case (Cons m ms)
  let ?u = "snd (m w)"
  have ms: "list_all (at_most_once P) ms" and m: "at_most_once P m" using Cons.prems by simp_all
  from m have "w_calls ?u = w_calls w \<or> (\<exists>c. w_calls ?u = w_calls w @ [c] \<and> P (w_db ?u))"
    unfolding at_most_once_def by blast
  then show ?case using Cons.IH [OF ms, of ?u] runs_taken [OF ms, of ?u] by auto
qed simp

text \<open>What follows a step, where the result of the step is known.\<close>

lemma single_call_seq_result:
  assumes "evolution.within quiet m" and "\<And>w x w'. m w = (Inr x, w') \<Longrightarrow> single_call P E (f x)"
  shows "single_call P E (seq m f)"
  unfolding single_call_def
proof (intro allI impI)
  fix w :: world
  assume "stable P E"
  obtain r u where m: "m w = (r, u)" by fastforce
  note mq = quiet_D [OF assms(1) m]
  show "w_calls (snd (seq m f w)) = w_calls w \<or>
      (\<exists>c. w_calls (snd (seq m f w)) = w_calls w @ [c] \<and> P (w_db (snd (seq m f w))))"
  proof (cases r)
    case (Inr x)
    with assms(2) m \<open>stable P E\<close> have "w_calls (snd (f x u)) = w_calls u \<or>
        (\<exists>c. w_calls (snd (f x u)) = w_calls u @ [c] \<and> P (w_db (snd (f x u))))"
      unfolding single_call_def by blast
    with Inr mq m show ?thesis by (simp add: seq_def)
  qed (use mq m in \<open>simp add: seq_def\<close>)
qed

lemma quiet_where_seq_under:
  assumes "evolution.within (quiet_where P E) m"
    and "\<And>w x w'. stable P E \<Longrightarrow> P (w_db w) \<Longrightarrow> m w = (Inr x, w') \<Longrightarrow> evolution.within (quiet_where P E) (f x)"
  shows "evolution.within (quiet_where P E) (seq m f)"
  unfolding evolution.within_def [OF quiet_where_evolution] quiet_where_def
proof (intro allI impI)
  fix w :: world
  assume st: "stable P E" "P (w_db w)"
  obtain r u where m: "m w = (r, u)" by fastforce
  note mq = quiet_where_D [OF assms(1) st m]
  show "P (w_db (snd (seq m f w))) \<and> w_calls (snd (seq m f w)) = w_calls w"
  proof (cases r)
    case (Inr x)
    obtain r' v where f: "f x u = (r', v)" by fastforce
    from assms(2) [OF st] m Inr have "evolution.within (quiet_where P E) (f x)" by blast
    from quiet_where_D [OF this st(1) _ f] mq f m Inr show ?thesis by (simp add: seq_def)
  qed (use mq m in \<open>simp add: seq_def\<close>)
qed

lemma quiet_where_seq_result:
  assumes "evolution.within (quiet_where P E) m"
    and "\<And>w x w'. m w = (Inr x, w') \<Longrightarrow> evolution.within (quiet_where P E) (f x)"
  shows "evolution.within (quiet_where P E) (seq m f)"
  by (rule quiet_where_seq_under [OF assms(1)]) (rule assms(2))

lemma single_call_under_if:
  "(b \<Longrightarrow> single_call_under P E m) \<Longrightarrow> (\<not> b \<Longrightarrow> single_call_under P E n) \<Longrightarrow> single_call_under P E (if b then m else n)"
  by simp

lemma single_call_under_sum:
  "(\<And>e. x = Inl e \<Longrightarrow> single_call_under P E (g e)) \<Longrightarrow> (\<And>y. x = Inr y \<Longrightarrow> single_call_under P E (f y)) \<Longrightarrow>
   single_call_under P E (case x of Inl e \<Rightarrow> g e | Inr y \<Rightarrow> f y)"
  by (cases x) auto

lemma single_call_under_option:
  "(x = None \<Longrightarrow> single_call_under P E m) \<Longrightarrow> (\<And>y. x = Some y \<Longrightarrow> single_call_under P E (f y)) \<Longrightarrow>
   single_call_under P E (case x of None \<Rightarrow> m | Some y \<Rightarrow> f y)"
  by (cases x) auto

interpretation quiet_where: evolution "quiet_where P E" for P E
  by (rule quiet_where_evolution)

lemma quiet_where_ctx_done: "evolution.within (quiet_where P E) (ctx_done E)"
  by (simp add: quiet_where.within_def ctx_done_def quiet_where_def)

lemma within_after_stop_try:
  assumes "evolution.within (quiet_where P E) m" and "\<And>w. stable P E \<Longrightarrow> P (w_db w) \<Longrightarrow> \<exists>e w'. m w = (Inl e, w')"
    and "\<And>e. evolution.within (quiet_where P E) (g e)"
  shows "evolution.within (quiet_where P E) (seq (try_op m) (\<lambda>r. case r of Inl e \<Rightarrow> g e | Inr x \<Rightarrow> f x))"
proof (rule quiet_where_seq_under [OF quiet_where.within_try_op [OF assms(1)]])
  fix w r w'
  assume "stable P E" "P (w_db w)" and m: "try_op m w = (Inr r, w')"
  from assms(2) [OF this(1,2)] m obtain e where "r = Inl e" by auto
  then show "evolution.within (quiet_where P E) (case r of Inl e \<Rightarrow> g e | Inr x \<Rightarrow> f x)" by (simp add: assms(3))
qed

text \<open>An insertion that succeeds establishes its primary key.\<close>

lemma insert_establishes:
  "insert_into E t cs w = (Inr n, w') \<Longrightarrow> row_of cs ''id'' = Text i \<Longrightarrow> has_id t i (w_db w')"
  by (cases "ev_fault E (w_step w)")
    (auto simp: insert_into_def statement_def insert_row_def Let_def has_id_def list_ex_iff split: if_splits)

text \<open>The keys of a table stay unique, where its keys are made of identity columns.\<close>

lemma keyed_within:
  assumes "\<And>cs c. cs \<in> set (unique_keys t) \<Longrightarrow> c \<in> set cs \<Longrightarrow> c = ''id'' \<or> c = ''workspace_id''"
  shows "store_calls (inv_within (\<lambda>d. keyed d t) E) E"
proof -
  have reads: "store_reads (inv_within (\<lambda>d. keyed d t) E) E" by (rule inv_store_reads)
  show ?thesis
  proof (intro store_calls.intro store_writes.intro reads store_writes_axioms.intro store_calls_axioms.intro)
    show "evolution.within (inv_within (\<lambda>d. keyed d t) E) (insert_into E u cs)" for u cs
      unfolding insert_into_def by (intro inv_statement keyed_insert)
    show "evolution.within (inv_within (\<lambda>d. keyed d t) E) (guarded_update E u cs p)"
      if "keeps_identity cs" "u \<noteq> fences" for u cs p
      unfolding guarded_update_def update_set_def
    proof (intro inv_statement)
      fix d
      assume k: "keyed d t"
      show "keyed (snd (update_rows u (set_columns cs) (And [subjectRowWriteAllowed u, p]) d)) t"
      proof (cases "u = t")
        case True
        with k show ?thesis
          using assms set_columns_identity [OF that(1)] by (intro keyed_update) blast+
      next
        case False
        with k show ?thesis by (simp add: keyed_def update_rows_def)
      qed
    qed
  qed (simp_all add: inv_within_def)
qed

section \<open>Statements do not read the access scope\<close>

lemma statement_scope [simp]: "statement (E\<lparr>ev_scope := x\<rparr>) = statement E"
  by (simp add: statement_def before_step_def fun_eq_iff)

lemma operations_scope [simp]:
  "select (E\<lparr>ev_scope := x\<rparr>) = select E" "select_row (E\<lparr>ev_scope := x\<rparr>) = select_row E"
  "row_or_error (E\<lparr>ev_scope := x\<rparr>) = row_or_error E" "query_read (E\<lparr>ev_scope := x\<rparr>) = query_read E"
  "guarded_update (E\<lparr>ev_scope := x\<rparr>) = guarded_update E" "insert_into (E\<lparr>ev_scope := x\<rparr>) = insert_into E"
  "guardSubjectWrite (E\<lparr>ev_scope := x\<rparr>) = guardSubjectWrite E" "now (E\<lparr>ev_scope := x\<rparr>) = now E"
  "ctx_done (E\<lparr>ev_scope := x\<rparr>) = ctx_done E"
  by (simp_all add: fun_eq_iff select_def select_row_def row_or_error_def query_read_def guarded_update_def
      update_set_def insert_into_def guardSubjectWrite_def now_def ctx_done_def)

section \<open>Statements when nobody interferes\<close>

definition alone :: "env \<Rightarrow> bool" where
  "alone E \<longleftrightarrow> (\<forall>n d. ev_others E n d = d)"

lemma alone_before_step [simp]: "alone E \<Longrightarrow> w_db (before_step E w) = w_db w"
  by (simp add: alone_def before_step_def)

lemma statement_Inr:
  "alone E \<Longrightarrow> statement E f w = (Inr x, w') \<Longrightarrow> f (w_db w) = (Inr x, w_db w') \<and> w_calls w' = w_calls w"
  by (cases "f (w_db w)"; cases "ev_fault E (w_step w)")
    (auto simp: statement_def Let_def)

lemma select_Inr:
  "alone E \<Longrightarrow> select E t p w = (Inr rs, w') \<Longrightarrow>
    rs = select_rows t p (w_db w) \<and> w_db w' = w_db w \<and> w_calls w' = w_calls w"
  unfolding select_def by (drule (1) statement_Inr) auto

lemma query_read_Inr:
  "alone E \<Longrightarrow> query_read E f w = (Inr x, w') \<Longrightarrow> x = f (w_db w) \<and> w_db w' = w_db w \<and> w_calls w' = w_calls w"
  unfolding query_read_def by (drule (1) statement_Inr) auto

lemma select_row_Inr:
  "alone E \<Longrightarrow> select_row E t p w = (Inr x, w') \<Longrightarrow>
    x = (case select_rows t p (w_db w) of [] \<Rightarrow> None | r # _ \<Rightarrow> Some r) \<and> w_db w' = w_db w \<and> w_calls w' = w_calls w"
  unfolding select_row_def op_Inr by (auto dest: select_Inr)

lemma guarded_update_Inr:
  "alone E \<Longrightarrow> guarded_update E t cs p w = (Inr n, w') \<Longrightarrow>
    update_rows t (set_columns cs) (And [subjectRowWriteAllowed t, p]) (w_db w) = (Inr n, w_db w') \<and>
    w_calls w' = w_calls w"
  unfolding guarded_update_def update_set_def by (rule statement_Inr)

lemma insert_into_Inr:
  "alone E \<Longrightarrow> insert_into E t cs w = (Inr n, w') \<Longrightarrow>
    insert_row t cs (w_db w) = (Inr n, w_db w') \<and> w_calls w' = w_calls w"
  unfolding insert_into_def by (rule statement_Inr)

lemma set_columns_get: "distinct (map fst cs) \<Longrightarrow> (c, v) \<in> set cs \<Longrightarrow> set_columns cs q c = v"
proof (induction cs q rule: set_columns.induct)
  case (2 c' v' cs q)
  show ?case
  proof (cases "(c, v) \<in> set cs")
    case True
    have "set_columns cs (q(c' := v')) c = v" using 2(2) by (intro "2.IH" True) simp
    then show ?thesis by simp
  next
    case False
    with 2(3) have "c = c'" "v = v'" by auto
    with 2(2) show ?thesis by (simp add: set_columns_other)
  qed
qed simp

lemma update_rows_other: "update_rows t f p d = (x, d') \<Longrightarrow> u \<noteq> t \<Longrightarrow> d' u = d u"
  by (auto simp: update_rows_def)

lemma delete_rows_result: "delete_rows t p d = (x, d') \<Longrightarrow> d' t = filter (\<lambda>r. \<not> holds d r p) (d t)"
  by (auto simp: delete_rows_def)

lemma update_set_Inr:
  "alone E \<Longrightarrow> update_set E t cs p w = (Inr n, w') \<Longrightarrow> update_rows t (set_columns cs) p (w_db w) = (Inr n, w_db w')"
  unfolding update_set_def by (drule (1) statement_Inr) (rule conjunct1)

lemma delete_from_Inr:
  "alone E \<Longrightarrow> delete_from E t p w = (Inr n, w') \<Longrightarrow> delete_rows t p (w_db w) = (Inr n, w_db w')"
  unfolding delete_from_def by (drule (1) statement_Inr) (rule conjunct1)

lemma transaction_Inr:
  assumes "alone E" and "transaction E body w = (Inr x, w')"
  shows "\<exists>u v. w_db u = w_db w \<and> w_calls u = w_calls w \<and> body u = (Inr x, v) \<and> w_db w' = w_db v \<and> w_calls w' = w_calls v"
proof -
  let ?u = "(before_step E w)\<lparr>w_tx := True\<rparr>"
  obtain v where "body ?u = (Inr x, v)" "w_db w' = w_db v" "w_calls w' = w_calls v"
    using assms(2)
    by (cases "body ?u") (auto simp: transaction_def Let_def split: if_splits sum.splits outcome.splits)
  then show ?thesis using assms(1) by (intro exI [of _ ?u] exI [of _ v]) simp
qed

lemma now_Inr: "now E w = (Inr t, w') \<longleftrightarrow> t = ev_clock E (w_step w) \<and> w' = w"
  by (auto simp: now_def)

text \<open>An update that reports one row has a row that was selected and is there changed.\<close>

lemma update_rows_hit:
  assumes "update_rows t f p d = (Inr n, d')" and "n \<noteq> 0"
  shows "\<exists>r \<in> set (d t). holds d r p \<and> f r \<in> set (d' t)"
proof -
  from assms have d': "d' = d(t := map (\<lambda>r. if holds d r p then f r else r) (d t))"
    and "filter (\<lambda>r. holds d r p) (d t) \<noteq> []"
    by (auto simp: update_rows_def)
  then obtain r where "r \<in> set (d t)" "holds d r p" by (auto simp: filter_empty_conv)
  with d' show ?thesis by force
qed

text \<open>A row with a unique id is the one that a lookup by id finds.\<close>

lemma select_by_id:
  assumes "keyed d t" and "r \<in> set (d t)" and "r ''id'' = Text i"
  shows "\<exists>rs. select_rows t (Equal ''id'' (Text i)) d = r # rs"
proof -
  have r: "r \<in> set (select_rows t (Equal ''id'' (Text i)) d)" using assms by (simp add: holds_Equal)
  then obtain q rs where q: "select_rows t (Equal ''id'' (Text i)) d = q # rs"
    by (cases "select_rows t (Equal ''id'' (Text i)) d") auto
  have "q \<in> set (select_rows t (Equal ''id'' (Text i)) d)" unfolding q by simp
  then have "q \<in> set (d t)" "q ''id'' = Text i" by (simp_all add: holds_Equal)
  with assms have "q = r" by (intro keyed_id) simp_all
  with q show ?thesis by simp
qed

text \<open>When nobody interferes, reading leaves the database as it is.\<close>

definition unchanged :: "env \<Rightarrow> world \<Rightarrow> world \<Rightarrow> bool" where
  "unchanged E s t \<longleftrightarrow> (alone E \<longrightarrow> w_db t = w_db s) \<and> w_calls t = w_calls s"

lemma unchanged_evolution: "evolution (unchanged E)"
  by unfold_locales (auto simp: unchanged_def)

interpretation untouched: store_reads "unchanged E" E for E
proof unfold_locales
  show "evolution.within (unchanged E) (select E t p)" for t p
    unfolding evolution.within_def [OF unchanged_evolution]
  proof
    fix w
    show "unchanged E w (snd (select E t p w))"
      by (cases "ev_fault E (w_step w)") (simp_all add: unchanged_def select_def statement_def Let_def)
  qed
qed (auto simp: unchanged_def)

lemma unchanged_D: "evolution.within (unchanged E) m \<Longrightarrow> alone E \<Longrightarrow> m w = (r, w') \<Longrightarrow> w_db w' = w_db w \<and> w_calls w' = w_calls w"
  unfolding evolution.within_def [OF unchanged_evolution] unchanged_def by (metis snd_conv)

lemma select_unique:
  assumes "keyed d t" and "r \<in> set (d t)" and "r ''id'' = Text i" and "holds d r p"
    and "\<And>q. holds d q p \<Longrightarrow> q ''id'' = Text i"
  shows "\<exists>rs. select_rows t p d = r # rs"
proof -
  have r: "r \<in> set (select_rows t p d)" using assms by simp
  then obtain q rs where q: "select_rows t p d = q # rs" by (cases "select_rows t p d") auto
  have "q \<in> set (select_rows t p d)" unfolding q by simp
  then have "q \<in> set (d t)" "q ''id'' = Text i" using assms(5) by simp_all
  with assms(1-3) have "q = r" by (intro keyed_id [OF assms(1)]) simp_all
  with q show ?thesis by simp
qed

section \<open>Runs in a calm environment\<close>

text \<open>Without faults and interference a statement is its effect: a run is computed by rewriting.\<close>

definition calm :: "env \<Rightarrow> bool" where
  "calm E \<longleftrightarrow> (\<forall>n. ev_fault E n = Fine) \<and> alone E"

named_theorems run_simps \<open>steps of a calm run\<close>

lemma calm_alone: "calm E \<Longrightarrow> alone E"
  by (simp add: calm_def)

lemma calm_statement:
  "calm E \<Longrightarrow> statement E f w =
    (case f (w_db w) of (r, d) \<Rightarrow> (r, w\<lparr>w_db := d, w_step := Suc (w_step w)\<rparr>))"
  by (cases "f (w_db w)") (simp add: statement_def calm_def alone_def before_step_def Let_def)

lemma calm_select [run_simps]:
  "calm E \<Longrightarrow> select E t p w = (Inr (select_rows t p (w_db w)), w\<lparr>w_step := Suc (w_step w)\<rparr>)"
  by (simp add: select_def calm_statement)

lemma calm_query_read [run_simps]:
  "calm E \<Longrightarrow> query_read E f w = (Inr (f (w_db w)), w\<lparr>w_step := Suc (w_step w)\<rparr>)"
  by (simp add: query_read_def calm_statement)

lemma calm_select_row [run_simps]:
  "calm E \<Longrightarrow> select_row E t p w =
    (Inr (case select_rows t p (w_db w) of [] \<Rightarrow> None | r # _ \<Rightarrow> Some r), w\<lparr>w_step := Suc (w_step w)\<rparr>)"
  by (simp add: select_row_def calm_select seq_apply)

lemma calm_insert [run_simps]:
  "calm E \<Longrightarrow> insert_into E t cs w =
    (if conflicts (w_db w) t (row_of cs) then (Inl StorageErr, w\<lparr>w_step := Suc (w_step w)\<rparr>)
     else (Inr 1, w\<lparr>w_db := (w_db w)(t := w_db w t @ [row_of cs]), w_step := Suc (w_step w)\<rparr>))"
  by (simp add: insert_into_def calm_statement insert_row_def Let_def)

lemma calm_guarded_update [run_simps]:
  "calm E \<Longrightarrow> guarded_update E t cs p w =
    (case update_rows t (set_columns cs) (And [subjectRowWriteAllowed t, p]) (w_db w) of
       (r, d) \<Rightarrow> (r, w\<lparr>w_db := d, w_step := Suc (w_step w)\<rparr>))"
  by (simp add: guarded_update_def update_set_def calm_statement)

lemma calm_guard [run_simps]:
  "calm E \<Longrightarrow> guardSubjectWrite E ws refs w =
    (if select_rows fences (guard_predicate ws refs) (w_db w) \<noteq> []
     then (Inl (Errorf ''integration.subject_erased'' []), w\<lparr>w_step := Suc (w_step w)\<rparr>)
     else (Inr (), w\<lparr>w_step := Suc (w_step w)\<rparr>))"
  by (simp add: guardSubjectWrite_def calm_select seq_apply)

lemma calm_transaction [run_simps]:
  "calm E \<Longrightarrow> transaction E body w =
    (case body (w\<lparr>w_step := Suc (w_step w), w_tx := True\<rparr>) of
       (Inl e, v) \<Rightarrow> (Inl e, v\<lparr>w_db := w_db w, w_tx := w_tx w\<rparr>)
     | (Inr x, v) \<Rightarrow> (Inr x, v\<lparr>w_tx := w_tx w, w_step := Suc (w_step v)\<rparr>))"
  by (auto simp: transaction_def calm_def alone_def before_step_def Let_def split: prod.splits sum.splits)

lemma calm_delete [run_simps]:
  "calm E \<Longrightarrow> delete_from E t p w =
    (case delete_rows t p (w_db w) of (r, d) \<Rightarrow> (r, w\<lparr>w_db := d, w_step := Suc (w_step w)\<rparr>))"
  by (simp add: delete_from_def calm_statement)

lemma calm_now [run_simps]: "now E w = (Inr (ev_clock E (w_step w)), w)"
  by (simp add: now_def)

lemma calm_ctx_done [run_simps]: "ctx_done E w = (Inr (ev_ctx_err E (w_step w)), w)"
  by (simp add: ctx_done_def)

lemma calm_call_provider [run_simps]:
  "call_provider p request w =
    (Inr (pv_Call p (w_step w) request), w\<lparr>w_calls := w_calls w @ [ProviderCall request], w_step := Suc (w_step w)\<rparr>)"
  by (simp add: call_provider_def record_call_def)

lemmas run_steps = run_simps seq_apply check_apply try_op_apply of_result_apply scan_texts_def

lemma calm_env_calm [simp]: "calm calm_env"
  by (simp add: calm_def alone_def)

end
