(* ===== verification/Secrets.thy ===== *)
theory Secrets
  imports Effects
begin

text \<open>
  \<open>secret_resolver.go\<close> and \<open>provider_secret_updates.go\<close>: resolving the secret references of a
  connection with the version each had, and writing back the secrets that a provider rotated,
  all of them in one transaction and only while each still has the version that was resolved.
\<close>

definition secrets_table :: string where "secrets_table = ''_integration_secrets''"
definition materials_table :: string where "materials_table = ''_integration_secret_materials''"

lemma secret_tables_not_fences [simp]: "secrets_table \<noteq> fences" "materials_table \<noteq> fences"
  by (simp_all add: secrets_table_def materials_table_def fences_def)

definition secret_where :: "string \<Rightarrow> string \<Rightarrow> predicate" where
  "secret_where workspaceID secretKey =
    And [Equal ''workspace_id'' (Text workspaceID), Equal ''secret_key'' (Text secretKey)]"

section \<open>Resolving\<close>

definition environmentSecret :: "env \<Rightarrow> string \<Rightarrow> err + string" where
  "environmentSecret E reference =
    (let key = trim_space (trim_prefix reference ''env:''); v = trim_space (ev_getenv E key) in
     if key = [] \<or> v = [] then Inl (Errorf ''environment secret is unavailable'' []) else Inr v)"

definition resolveReferenceSnapshot ::
    "env \<Rightarrow> string \<Rightarrow> string \<Rightarrow> (string \<times> providerSecretVersion option) dbop" where
  "resolveReferenceSnapshot E workspaceID reference =
    (if has_prefix reference ''env:'' then
       seq (of_result (environmentSecret E reference)) (\<lambda>v. ret (v, None))
     else if \<not> has_prefix reference ''secret:'' then throw (Errorf ''secret reference is invalid'' [])
     else
       (let secretKey = trim_space (trim_prefix reference ''secret:'') in
        seq (row_or_error E secrets_table (secret_where workspaceID secretKey)) (\<lambda>r.
        seq (scan_texts r [''status'', ''updated_at'']) (\<lambda>_.
        seq (check (r ''status'' = Text ''active'') (Errorf ''secret %q is not active'' [secretKey])) (\<lambda>_.
        seq (now E) (\<lambda>t.
        seq (check (text_of (r ''expires_at'') = [] \<or>
                    (case parse_rfc3339 (text_of (r ''expires_at'')) of None \<Rightarrow> False | Some e \<Rightarrow> t < e))
               (Errorf ''secret %q is expired'' [secretKey])) (\<lambda>_.
        let valueRef = text_of (r ''value_ref'') in
        if has_prefix valueRef ''env:'' then
          seq (of_result (environmentSecret E valueRef)) (\<lambda>v. ret (v, None))
        else if \<not> has_prefix valueRef ''material:'' then throw (Errorf ''secret %q has no material'' [secretKey])
        else
          seq (row_or_error E materials_table (secret_where workspaceID secretKey)) (\<lambda>m.
          seq (scan_texts m [''ciphertext'']) (\<lambda>_.
          seq (of_result (case ev_Cipher E of
                 None \<Rightarrow> Inl (Errorf ''nil cipher'' [])
               | Some c \<Rightarrow> ci_Decrypt c workspaceID secretKey (text_of (m ''ciphertext'')))) (\<lambda>v.
          ret (v, Some \<lparr>ver_SecretKey = secretKey, ver_Fingerprint = text_of (r ''fingerprint''),
                        ver_UpdatedAt = text_of (r ''updated_at'')\<rparr>)))))))))))"

fun resolve_each ::
    "env \<Rightarrow> string \<Rightarrow> (string \<times> string) list \<Rightarrow>
     ((string \<times> string) list \<times> (string \<times> providerSecretVersion) list) dbop" where
  "resolve_each E workspaceID [] = ret ([], [])"
| "resolve_each E workspaceID ((name, reference) # references) =
    seq (ctx_done E) (\<lambda>cancelled.
    if cancelled then throw (Errorf ''context canceled'' [])
    else
      seq (try_op (resolveReferenceSnapshot E (trim_space workspaceID) (trim_space reference))) (\<lambda>r. case r of
        Inl e \<Rightarrow> throw (Errorf ''resolve Integration provider secret %q: %w'' [name, err_text e])
      | Inr (v, version) \<Rightarrow>
          seq (resolve_each E workspaceID references) (\<lambda>(values, versions).
          ret ((name, v) # values, (case version of None \<Rightarrow> versions | Some x \<Rightarrow> (name, x) # versions)))))"

definition ResolveSecretReferencesSnapshot ::
    "env \<Rightarrow> string \<Rightarrow> (string \<times> string) list \<Rightarrow> resolvedProviderSecrets dbop" where
  "ResolveSecretReferencesSnapshot E workspaceID references =
    seq (resolve_each E workspaceID references) (\<lambda>(values, versions).
    ret \<lparr>rps_Values = values, rps_Versions = Some versions\<rparr>)"

definition ResolveSecretReferences ::
    "env \<Rightarrow> string \<Rightarrow> (string \<times> string) list \<Rightarrow> (string \<times> string) list dbop" where
  "ResolveSecretReferences E workspaceID references =
    seq (ResolveSecretReferencesSnapshot E workspaceID references) (\<lambda>resolved. ret (rps_Values resolved))"

section \<open>Writing rotated secrets back\<close>

definition secret_changed :: "string \<Rightarrow> err" where
  "secret_changed fieldKey =
    Errorf ''Integration Provider credential changed while the request was running: %s'' [fieldKey]"

record preparedProviderSecretUpdate =
  pu_fieldKey :: string
  pu_secretKey :: string
  pu_ciphertext :: string
  pu_fingerprint :: string
  pu_expected :: "providerSecretVersion option"

text \<open>One update prepared: the reference must name material, of the version that was resolved.\<close>

definition prepare_secret_update ::
    "env \<Rightarrow> string \<Rightarrow> (string \<times> string) list \<Rightarrow> (string \<times> providerSecretVersion) list option \<Rightarrow>
     string \<times> string \<Rightarrow> err + preparedProviderSecretUpdate" where
  "prepare_secret_update E workspaceID references versions update =
    (case update of (fieldKey, plaintext) \<Rightarrow>
      (let reference = trim_space (case map_of references fieldKey of None \<Rightarrow> [] | Some v \<Rightarrow> v);
           secretKey = trim_space (trim_prefix reference ''secret:'') in
       if \<not> has_prefix reference ''secret:'' then
         Inl (Errorf ''Integration Provider cannot update non-material secret reference %q'' [fieldKey])
       else
         (case ev_Cipher E of
            None \<Rightarrow> Inl (Errorf ''Integration Provider secret update %q has no writable material'' [fieldKey])
          | Some cipher \<Rightarrow>
              if secretKey = [] then
                Inl (Errorf ''Integration Provider secret update %q has no writable material'' [fieldKey])
              else
                (case ci_Encrypt cipher workspaceID secretKey plaintext of
                   Inl e \<Rightarrow> Inl (Errorf ''encrypt Integration Provider secret update %q: %w'' [fieldKey, err_text e])
                 | Inr ciphertext \<Rightarrow>
                     let prepared = \<lparr>pu_fieldKey = fieldKey, pu_secretKey = secretKey, pu_ciphertext = ciphertext,
                                     pu_fingerprint = ev_sha256 E plaintext, pu_expected = None\<rparr> in
                     (case versions of
                        None \<Rightarrow> Inr prepared
                      | Some vs \<Rightarrow>
                          (case map_of vs fieldKey of
                             None \<Rightarrow> Inl (secret_changed fieldKey)
                           | Some expected \<Rightarrow>
                               if ver_SecretKey expected \<noteq> secretKey then Inl (secret_changed fieldKey)
                               else Inr (prepared\<lparr>pu_expected := Some expected\<rparr>)))))))"

fun prepare_secret_updates ::
    "env \<Rightarrow> string \<Rightarrow> (string \<times> string) list \<Rightarrow> (string \<times> providerSecretVersion) list option \<Rightarrow>
     (string \<times> string) list \<Rightarrow> err + preparedProviderSecretUpdate list" where
  "prepare_secret_updates E workspaceID references versions [] = Inr []"
| "prepare_secret_updates E workspaceID references versions (u # us) =
    (case prepare_secret_update E workspaceID references versions u of
       Inl e \<Rightarrow> Inl e
     | Inr p \<Rightarrow>
         (case prepare_secret_updates E workspaceID references versions us of
            Inl e \<Rightarrow> Inl e
          | Inr ps \<Rightarrow> Inr (p # ps)))"

record currentProviderSecret =
  cu_update :: preparedProviderSecretUpdate
  cu_materialID :: string
  cu_fingerprint :: string
  cu_updatedAt :: string

definition read_current_secret ::
    "env \<Rightarrow> string \<Rightarrow> preparedProviderSecretUpdate \<Rightarrow> currentProviderSecret dbop" where
  "read_current_secret E workspaceID item =
    seq (row_or_error E secrets_table (secret_where workspaceID (pu_secretKey item))) (\<lambda>r.
    seq (scan_texts r [''status'', ''updated_at'']) (\<lambda>_.
    seq (check (r ''status'' = Text ''active'' \<and> text_of (r ''value_ref'') = ''material:'' @ pu_secretKey item)
           (secret_changed (pu_fieldKey item))) (\<lambda>_.
    seq (check (case pu_expected item of
                  None \<Rightarrow> True
                | Some v \<Rightarrow> ver_Fingerprint v = text_of (r ''fingerprint'') \<and> ver_UpdatedAt v = text_of (r ''updated_at''))
           (secret_changed (pu_fieldKey item))) (\<lambda>_.
    seq (row_or_error E materials_table (secret_where workspaceID (pu_secretKey item))) (\<lambda>m.
    seq (scan_texts m [''id'']) (\<lambda>_.
    ret \<lparr>cu_update = item, cu_materialID = text_of (m ''id''), cu_fingerprint = text_of (r ''fingerprint''),
         cu_updatedAt = text_of (r ''updated_at'')\<rparr>))))))"

text \<open>The new version's time: moved past the time of an item that has the same text.\<close>

definition secret_update_time :: "time \<Rightarrow> currentProviderSecret list \<Rightarrow> time" where
  "secret_update_time t items =
    fold (\<lambda>item t. if format_rfc3339nano t = cu_updatedAt item then t + 1 else t) items t"

definition write_current_secret ::
    "env \<Rightarrow> string \<Rightarrow> string \<Rightarrow> currentProviderSecret \<Rightarrow> unit dbop" where
  "write_current_secret E workspaceID updatedAt item =
    (let u = cu_update item in
     seq (guarded_update E secrets_table
            [(''fingerprint'', Text (pu_fingerprint u)), (''rotated_at'', Text updatedAt), (''updated_at'', Text updatedAt)]
            (And [Equal ''workspace_id'' (Text workspaceID), Equal ''secret_key'' (Text (pu_secretKey u)),
                  Equal ''status'' (Text ''active''), Equal ''value_ref'' (Text (''material:'' @ pu_secretKey u)),
                  Equal ''fingerprint'' (Text (cu_fingerprint item)), Equal ''updated_at'' (Text (cu_updatedAt item))])) (\<lambda>n.
     seq (check (n = 1) (secret_changed (pu_fieldKey u))) (\<lambda>_.
     seq (guarded_update E materials_table
            [(''ciphertext'', Text (pu_ciphertext u)), (''updated_at'', Text updatedAt)]
            (And [Equal ''id'' (Text (cu_materialID item)), Equal ''workspace_id'' (Text workspaceID),
                  Equal ''secret_key'' (Text (pu_secretKey u))])) (\<lambda>n.
     check (n = 1) (Errorf ''Integration Provider secret material %q changed'' [pu_secretKey u])))))"

definition applyPreparedSecretUpdates ::
    "env \<Rightarrow> string \<Rightarrow> preparedProviderSecretUpdate list \<Rightarrow> unit dbop" where
  "applyPreparedSecretUpdates E workspaceID prepared =
    seq (each (read_current_secret E workspaceID) prepared) (\<lambda>items.
    seq (now E) (\<lambda>t.
    let updatedAt = format_rfc3339nano (secret_update_time t items) in
    seq (each (write_current_secret E workspaceID updatedAt) items) (\<lambda>_. ret ())))"

text \<open>The updates are handled in the order of their field keys.\<close>

definition applySecretUpdates ::
    "env \<Rightarrow> string \<Rightarrow> (string \<times> string) list \<Rightarrow> (string \<times> providerSecretVersion) list option \<Rightarrow>
     (string \<times> string) list \<Rightarrow> unit dbop" where
  "applySecretUpdates E workspaceID references versions updates =
    (let workspaceID = trim_space workspaceID in
     if workspaceID = [] \<or> ev_Cipher E = None
     then throw (Errorf ''Integration Provider secret update storage is unavailable'' [])
     else
       seq (of_result (prepare_secret_updates E workspaceID references versions (sort_key fst updates))) (\<lambda>prepared.
       if prepared = [] then ret ()
       else transaction E (applyPreparedSecretUpdates E workspaceID prepared)))"

definition ApplySecretUpdates ::
    "env \<Rightarrow> string \<Rightarrow> (string \<times> string) list \<Rightarrow> (string \<times> string) list \<Rightarrow> unit dbop" where
  "ApplySecretUpdates E workspaceID references updates = applySecretUpdates E workspaceID references None updates"

definition ApplySecretUpdatesIfCurrent ::
    "env \<Rightarrow> string \<Rightarrow> (string \<times> string) list \<Rightarrow> (string \<times> providerSecretVersion) list option \<Rightarrow>
     (string \<times> string) list \<Rightarrow> unit dbop" where
  "ApplySecretUpdatesIfCurrent E workspaceID references versions updates =
    (if versions = None then throw (Errorf ''Integration Provider secret update snapshot is required'' [])
     else applySecretUpdates E workspaceID references versions updates)"

section \<open>The delivery store's use of the resolver\<close>

definition resolveProviderSecrets :: "env \<Rightarrow> string \<Rightarrow> (string \<times> string) list \<Rightarrow> resolvedProviderSecrets dbop" where
  "resolveProviderSecrets E workspaceID references =
    (case ev_Secrets E of
       MaterialResolver \<Rightarrow> ResolveSecretReferencesSnapshot E workspaceID references
     | HostResolver h \<Rightarrow>
         (case hr_Snapshot h of
            Some snapshot \<Rightarrow> at_step (\<lambda>n. snapshot n workspaceID references)
          | None \<Rightarrow>
              seq (at_step (\<lambda>n. hr_Resolve h n workspaceID references)) (\<lambda>values.
              ret \<lparr>rps_Values = values, rps_Versions = None\<rparr>)))"

definition error_result :: "err option \<Rightarrow> err + unit" where
  "error_result e = (case e of None \<Rightarrow> Inr () | Some e \<Rightarrow> Inl e)"

text \<open>The error that is left: the provider's, joined with the one of storing the updates.\<close>

definition persistProviderSecretUpdates ::
    "env \<Rightarrow> string \<Rightarrow> (string \<times> string) list \<Rightarrow> (string \<times> providerSecretVersion) list option \<Rightarrow>
     (string \<times> string) list \<Rightarrow> err option \<Rightarrow> err option dbop" where
  "persistProviderSecretUpdates E workspaceID references versions updates providerErr =
    (if updates = [] then ret providerErr
     else
       seq (try_op
         (case versions of
            Some vs \<Rightarrow>
              (case ev_Secrets E of
                 MaterialResolver \<Rightarrow> ApplySecretUpdatesIfCurrent E workspaceID references versions updates
               | HostResolver h \<Rightarrow>
                   (case hr_Conditional h of
                      None \<Rightarrow> throw (Errorf ''Integration conditional secret update writer is unavailable'' [])
                    | Some apply \<Rightarrow> at_step (\<lambda>n. error_result (apply n workspaceID vs updates))))
          | None \<Rightarrow>
              (case ev_Secrets E of
                 MaterialResolver \<Rightarrow> ApplySecretUpdates E workspaceID references updates
               | HostResolver h \<Rightarrow>
                   (case hr_Writer h of
                      None \<Rightarrow> throw (Errorf ''Integration secret update writer is unavailable'' [])
                    | Some apply \<Rightarrow> at_step (\<lambda>n. error_result (apply n workspaceID updates)))))) (\<lambda>r. case r of
         Inl e \<Rightarrow> ret (Some (join_err providerErr e))
       | Inr _ \<Rightarrow> ret providerErr))"

section \<open>What the secret operations are built from\<close>

text \<open>
  The operations only read and change rows of the two secret tables: a relation that such changes
  stay in is kept by all of them.
\<close>

locale secret_writes = store_reads +
  assumes within_secrets_update: "keeps_identity cs \<Longrightarrow> within (guarded_update E secrets_table cs p)"
    and within_materials_update: "keeps_identity cs \<Longrightarrow> within (guarded_update E materials_table cs p)"
begin

lemma within_resolveReferenceSnapshot: "within (resolveReferenceSnapshot E ws reference)"
  unfolding resolveReferenceSnapshot_def Let_def by (intro within_reads)

lemma within_resolve_each: "within (resolve_each E ws refs)"
proof (induction refs)
  case (Cons r refs)
  then show ?case
    by (cases r) (simp, intro within_reads within_resolveReferenceSnapshot)
qed (simp add: within_def stays)

lemma within_resolve: "within (ResolveSecretReferencesSnapshot E ws refs)"
  unfolding ResolveSecretReferencesSnapshot_def by (intro within_reads within_resolve_each)

lemma within_resolveProviderSecrets: "within (resolveProviderSecrets E ws refs)"
  unfolding resolveProviderSecrets_def
  by (cases "ev_Secrets E") (auto intro!: within_reads within_resolve)

lemma within_read_current_secret: "within (read_current_secret E ws item)"
  unfolding read_current_secret_def by (intro within_reads)

lemma within_write_current_secret: "within (write_current_secret E ws t item)"
  unfolding write_current_secret_def Let_def
  by (intro within_reads within_secrets_update within_materials_update) (simp_all add: keeps_identity_def)

lemma within_applySecretUpdates: "within (applySecretUpdates E ws refs versions updates)"
  unfolding applySecretUpdates_def applyPreparedSecretUpdates_def Let_def
  by (intro within_reads within_read_current_secret within_write_current_secret)

lemma within_persistProviderSecretUpdates:
  "within (persistProviderSecretUpdates E ws refs versions updates e)"
  unfolding persistProviderSecretUpdates_def ApplySecretUpdates_def ApplySecretUpdatesIfCurrent_def
  by (cases "ev_Secrets E")
    (auto intro!: within_reads within_applySecretUpdates)

lemmas within_secrets =
  within_reads within_resolveProviderSecrets within_resolve
  within_persistProviderSecretUpdates within_applySecretUpdates

end

sublocale store_writes \<subseteq> secret_writes
  by unfold_locales (auto intro: within_guarded_update)

context store_writes
begin

lemmas within_secret_writes = within_writes within_secrets

end

text \<open>Tables other than the two are left alone.\<close>

lemma secret_writes_other_table:
  "t \<noteq> secrets_table \<Longrightarrow> t \<noteq> materials_table \<Longrightarrow> secret_writes (inv_within (all_rows t P) E) E"
  by (intro secret_writes.intro inv_store_reads secret_writes_axioms.intro)
    (auto simp: guarded_update_def update_set_def intro!: inv_statement all_rows_update)

end
