(* ===== verification/WebPush.thy ===== *)
theory WebPush
  imports Effects
begin

text \<open>
  \<open>web_push_subscription_store.go\<close>: registering, revoking and expiring the push subscriptions of
  users, each operation in one transaction, and the readiness of the push connection.
\<close>

definition push_table :: string where "push_table = ''_integration_web_push_subscriptions''"
definition connections_table :: string where "connections_table = ''_integration_connections''"

lemma push_not_fences [simp]: "push_table \<noteq> fences"
  by (simp add: push_table_def fences_def)

record webPushMaterial = WebPushSubscription +
  wm_Endpoint :: string
  wm_P256DH :: string
  wm_Auth :: string

definition public :: "webPushMaterial \<Rightarrow> WebPushSubscription" where
  "public v = WebPushSubscription.truncate v"

definition push_columns :: "string list" where
  "push_columns = [''id'', ''workspace_id'', ''user_id'', ''endpoint_hash'', ''endpoint'', ''p256dh'', ''auth_secret'',
     ''status'', ''expires_at'', ''created_at'', ''updated_at'', ''revoked_at'']"

definition scan_subscription :: "row \<Rightarrow> WebPushSubscription" where
  "scan_subscription r =
    \<lparr>wp_ID = text_of (r ''id''), wp_WorkspaceID = text_of (r ''workspace_id''), wp_UserID = text_of (r ''user_id''),
     wp_EndpointHash = text_of (r ''endpoint_hash''), wp_Status = text_of (r ''status''),
     wp_ExpiresAt = text_of (r ''expires_at''), wp_CreatedAt = text_of (r ''created_at''),
     wp_UpdatedAt = text_of (r ''updated_at''), wp_RevokedAt = text_of (r ''revoked_at'')\<rparr>"

definition scan_material :: "row \<Rightarrow> webPushMaterial" where
  "scan_material r =
    WebPushSubscription.extend (scan_subscription r)
      \<lparr>wm_Endpoint = text_of (r ''endpoint''), wm_P256DH = text_of (r ''p256dh''), wm_Auth = text_of (r ''auth_secret'')\<rparr>"

definition material :: "env \<Rightarrow> string \<Rightarrow> string \<Rightarrow> webPushMaterial option dbop" where
  "material E workspaceID ident =
    seq (of_result (scopedWhere (ev_scope E) workspaceID ''user_id'' [] [Equal ''id'' (Text ident)])) (\<lambda>p.
    seq (select_row E push_table p) (\<lambda>found. case found of
      None \<Rightarrow> ret None
    | Some r \<Rightarrow> seq (scan_texts r push_columns) (\<lambda>_. ret (Some (scan_material r)))))"

definition scopeAllowsUser :: "AccessScope \<Rightarrow> string \<Rightarrow> bool" where
  "scopeAllowsUser scope userID =
    (if as_DeniedAll scope then False
     else if list_ex (\<lambda>denied. denied = userID) (as_DeniedUserIDs scope) then False
     else if as_Unrestricted scope then True
     else list_ex (\<lambda>allowed. allowed = userID) (as_AllowedUserIDs scope))"

text \<open>The public values of an operation that found its subscription again.\<close>

definition public_of :: "webPushMaterial option \<Rightarrow> WebPushSubscription" where
  "public_of v = (case v of Some m \<Rightarrow> public m
     | None \<Rightarrow> \<lparr>wp_ID = [], wp_WorkspaceID = [], wp_UserID = [], wp_EndpointHash = [], wp_Status = [],
                wp_ExpiresAt = [], wp_CreatedAt = [], wp_UpdatedAt = [], wp_RevokedAt = []\<rparr>)"

definition push_not_found :: err where
  "push_not_found = Errorf ''Integration Web Push subscription was not found'' []"

definition push_upsert_body ::
    "env \<Rightarrow> string \<Rightarrow> string \<Rightarrow> string \<Rightarrow> WebPushSubscriptionInput \<Rightarrow> WebPushSubscription dbop" where
  "push_upsert_body E workspaceID userID ident input =
    (let workspaceID = trim_space workspaceID; ident = trim_space ident;
         userID = (case ev_scope E of Some scope \<Rightarrow> as_ActorID scope | None \<Rightarrow> trim_space userID);
         endpoint = trim_space (wpi_Endpoint input) in
     seq (check (case ev_scope E of Some scope \<Rightarrow> scopeAllowsUser scope userID | None \<Rightarrow> True) push_not_found) (\<lambda>_.
     seq (check (\<not> (workspaceID = [] \<or> userID = [] \<or> ident = [] \<or> length ident > 200 \<or>
                    \<not> has_prefix endpoint ''https://'' \<or> blank (wpi_P256DH input) \<or> blank (wpi_Auth input)))
            (Errorf ''Integration Web Push subscription is invalid'' [])) (\<lambda>_.
     seq (now E) (\<lambda>t.
     seq (check (wpi_ExpiresAt input = [] \<or>
                 (case parse_rfc3339 (wpi_ExpiresAt input) of None \<Rightarrow> False | Some e \<Rightarrow> t < e))
            (Errorf ''Integration Web Push subscription expiry is invalid'' [])) (\<lambda>_.
     seq (guardSubjectWrite E workspaceID [(''subject'', [], userID)]) (\<lambda>_.
     let endpointHash = ev_sha256 E endpoint in
     seq (now E) (\<lambda>t.
     let nowText = format_rfc3339 t in
     seq (material E workspaceID ident) (\<lambda>existing.
     seq (check (\<not> (case existing of None \<Rightarrow> False | Some m \<Rightarrow> ev_scope E = None \<and> wp_UserID m \<noteq> userID))
            push_not_found) (\<lambda>_.
     seq (if existing \<noteq> None then
            seq (of_result (scopedWhere (ev_scope E) workspaceID ''user_id'' [] [Equal ''id'' (Text ident)])) (\<lambda>p.
            guarded_update E push_table
              [(''endpoint_hash'', Text endpointHash), (''endpoint'', Text endpoint),
               (''p256dh'', Text (trim_space (wpi_P256DH input))), (''auth_secret'', Text (trim_space (wpi_Auth input))),
               (''status'', Text ''active''), (''expires_at'', Text (wpi_ExpiresAt input)),
               (''updated_at'', Text nowText), (''revoked_at'', Text [])] p)
          else
            insert_into E push_table
              [(''id'', Text ident), (''workspace_id'', Text workspaceID), (''user_id'', Text userID),
               (''endpoint_hash'', Text endpointHash), (''endpoint'', Text endpoint),
               (''p256dh'', Text (trim_space (wpi_P256DH input))), (''auth_secret'', Text (trim_space (wpi_Auth input))),
               (''status'', Text ''active''), (''expires_at'', Text (wpi_ExpiresAt input)),
               (''created_at'', Text nowText), (''updated_at'', Text nowText), (''revoked_at'', Text [])]) (\<lambda>_.
     seq (material E workspaceID ident) (\<lambda>v. ret (public_of v))))))))))))"

definition push_Upsert ::
    "env \<Rightarrow> string \<Rightarrow> string \<Rightarrow> string \<Rightarrow> WebPushSubscriptionInput \<Rightarrow> WebPushSubscription dbop" where
  "push_Upsert E workspaceID userID ident input = transaction E (push_upsert_body E workspaceID userID ident input)"

text \<open>The columns that revoking and expiring clear.\<close>

definition clear_keys :: "(string \<times> sql) list" where
  "clear_keys = [(''endpoint'', Text []), (''p256dh'', Text []), (''auth_secret'', Text [])]"

definition push_revoke_body :: "env \<Rightarrow> string \<Rightarrow> string \<Rightarrow> string \<Rightarrow> WebPushSubscription dbop" where
  "push_revoke_body E workspaceID userID ident =
    seq (material E (trim_space workspaceID) (trim_space ident)) (\<lambda>found.
    seq (check (case found of None \<Rightarrow> False
                | Some m \<Rightarrow> \<not> (ev_scope E = None \<and> wp_UserID m \<noteq> trim_space userID)) push_not_found) (\<lambda>_.
    if (case found of None \<Rightarrow> False | Some m \<Rightarrow> wp_Status m = ''revoked'') then ret (public_of found)
    else
      seq (now E) (\<lambda>t.
      let nowText = format_rfc3339 t in
      seq (of_result (scopedWhere (ev_scope E) workspaceID ''user_id'' [] [Equal ''id'' (Text ident)])) (\<lambda>p.
      seq (guarded_update E push_table
             (clear_keys @ [(''status'', Text ''revoked''), (''updated_at'', Text nowText), (''revoked_at'', Text nowText)])
             p) (\<lambda>_.
      seq (material E workspaceID ident) (\<lambda>v. ret (public_of v)))))))"

definition push_Revoke :: "env \<Rightarrow> string \<Rightarrow> string \<Rightarrow> string \<Rightarrow> WebPushSubscription dbop" where
  "push_Revoke E workspaceID userID ident = transaction E (push_revoke_body E workspaceID userID ident)"

definition expired_predicates :: "string \<Rightarrow> predicate list" where
  "expired_predicates nowText =
    [Equal ''status'' (Text ''active''), NotEqual ''expires_at'' (Text []), LessThan ''expires_at'' (Text nowText)]"

fun chunks :: "nat \<Rightarrow> 'a list \<Rightarrow> 'a list list" where
  "chunks n [] = []"
| "chunks n (x # xs) = (x # take (n - 1) xs) # chunks n (drop (n - 1) xs)"

definition expire_chunk :: "env \<Rightarrow> string \<Rightarrow> string \<Rightarrow> string list \<Rightarrow> nat dbop" where
  "expire_chunk E workspaceID nowText ids =
    seq (of_result (scopedWhere (ev_scope E) (trim_space workspaceID) [] []
           (expired_predicates nowText @ [In ''id'' (map Text ids)]))) (\<lambda>p.
    seq (guarded_update E push_table
           (clear_keys @ [(''status'', Text ''expired''), (''updated_at'', Text nowText)]) p) (\<lambda>n.
    seq (check (n = length ids)
           (Errorf ''Integration Web Push cleanup candidate set changed during the transaction'' [])) (\<lambda>_. ret n)))"

definition push_cleanup_body :: "env \<Rightarrow> string \<Rightarrow> nat dbop" where
  "push_cleanup_body E workspaceID =
    seq (now E) (\<lambda>t.
    let nowText = format_rfc3339 t in
    seq (of_result (scopedWhere (ev_scope E) (trim_space workspaceID) [] [] (expired_predicates nowText))) (\<lambda>p.
    seq (select E push_table p) (\<lambda>rs.
    seq (each (\<lambda>r. scan_texts r [''id'']) rs) (\<lambda>_.
    seq (each (expire_chunk E workspaceID nowText) (chunks 200 (map (\<lambda>r. text_of (r ''id'')) rs))) (\<lambda>ns.
    ret (sum_list ns))))))"

definition push_CleanupExpired :: "env \<Rightarrow> string \<Rightarrow> nat dbop" where
  "push_CleanupExpired E workspaceID = transaction E (push_cleanup_body E workspaceID)"

definition push_List :: "env \<Rightarrow> string \<Rightarrow> string \<Rightarrow> WebPushSubscription list dbop" where
  "push_List E workspaceID userID =
    seq (of_result (scopedWhere (ev_scope E) (trim_space workspaceID) ''user_id'' []
           (if ev_scope E = None then [Equal ''user_id'' (Text (trim_space userID))] else []))) (\<lambda>p.
    seq (select E push_table p) (\<lambda>rs.
    seq (each (\<lambda>r. scan_texts r [''id'', ''workspace_id'', ''user_id'', ''endpoint_hash'', ''status'', ''expires_at'',
                                 ''created_at'', ''updated_at'', ''revoked_at'']) rs) (\<lambda>_.
    ret (map scan_subscription (descending ''created_at'' rs)))))"

section \<open>Readiness of the push connection\<close>

definition not_ready :: "WebPushReadiness \<Rightarrow> string \<Rightarrow> WebPushReadiness" where
  "not_ready v reason = v\<lparr>wpr_Reason := reason\<rparr>"

definition push_Readiness :: "env \<Rightarrow> string \<Rightarrow> WebPushReadiness dbop" where
  "push_Readiness E workspaceID =
    (let workspaceID = trim_space workspaceID in
     seq (check (workspaceID \<noteq> []) (Errorf ''Integration Web Push workspace is required'' [])) (\<lambda>_.
     seq (of_result (scopedWhere (ev_scope E) workspaceID [] []
            [Equal ''connector_key'' (Text ''notification''), Equal ''provider_key'' (Text ''web_push'')])) (\<lambda>p.
     seq (select E connections_table p) (\<lambda>rs.
     case ascending ''connection_key'' rs of
       [] \<Rightarrow> ret \<lparr>wpr_Ready = False, wpr_PublicKey = [], wpr_ConnectionKey = [], wpr_Status = ''unconfigured'',
                 wpr_Reason = ''connection_missing''\<rparr>
     | r # _ \<Rightarrow>
         seq (scan_texts r [''connection_key'', ''status'', ''config_json'', ''secret_refs_json'']) (\<lambda>_.
         case decode_object (doc_of (r ''config_json'')) of
           None \<Rightarrow> throw (Errorf ''decode Integration Web Push configuration: %w'' [''json''])
         | Some config \<Rightarrow>
             (let publicKey = trim_space (sprint (case map_of config ''vapid_public_key'' of None \<Rightarrow> JNull | Some v \<Rightarrow> v));
                  status = text_of (r ''status'');
                  result = \<lparr>wpr_Ready = False, wpr_PublicKey = publicKey, wpr_ConnectionKey = text_of (r ''connection_key''),
                            wpr_Status = status, wpr_Reason = []\<rparr> in
              if publicKey = [] then ret (not_ready result ''public_key_missing'')
              else
                (case decode_string_map (doc_of (r ''secret_refs_json'')) of
                   None \<Rightarrow> throw (Errorf ''decode Integration Web Push secret references: %w'' [''json''])
                 | Some secretRefs \<Rightarrow>
                     (let reference = trim_space (case map_of secretRefs ''vapid_private_key'' of None \<Rightarrow> [] | Some v \<Rightarrow> v);
                          secretKey = trim_space (trim_prefix reference ''secret:'') in
                      if secretKey = [] \<or> secretKey = reference then ret (not_ready result ''private_key_unbound'')
                      else
                        seq (try_op (select_row E ''_integration_secrets''
                               (And [Equal ''workspace_id'' (Text workspaceID), Equal ''secret_key'' (Text secretKey)]))) (\<lambda>found.
                        (let secretStatus = (case found of Inr (Some q) \<Rightarrow> text_of (q ''status'') | _ \<Rightarrow> []) in
                         if found = Inr None \<or> trim_space secretStatus \<noteq> ''active''
                         then ret (not_ready result ''private_key_unavailable'')
                         else if status \<noteq> ''active'' \<and> status \<noteq> ''verified''
                         then ret (not_ready result ''connection_not_ready'')
                         else ret (result\<lparr>wpr_Ready := True\<rparr>)))))))))))"

section \<open>Cleared keys\<close>

text \<open>A subscription that is revoked or expired holds no endpoint and no keys.\<close>

definition push_row_ok :: "row \<Rightarrow> bool" where
  "push_row_ok r \<longleftrightarrow>
    r ''status'' = Text ''revoked'' \<or> r ''status'' = Text ''expired'' \<longrightarrow>
    r ''endpoint'' = Text [] \<and> r ''p256dh'' = Text [] \<and> r ''auth_secret'' = Text []"

definition push_inv :: "database \<Rightarrow> bool" where
  "push_inv = all_rows push_table push_row_ok"

interpretation push: store_reads "inv_within push_inv E" E for E
  by (rule inv_store_reads)

lemma push_insert_within:
  "push_row_ok (row_of cs) \<Longrightarrow> evolution.within (inv_within push_inv E) (insert_into E push_table cs)"
  unfolding insert_into_def push_inv_def by (intro inv_statement all_rows_insert)

lemma push_update_within:
  "(\<And>r. push_row_ok (set_columns cs r)) \<Longrightarrow>
   evolution.within (inv_within push_inv E) (guarded_update E push_table cs p)"
  unfolding guarded_update_def update_set_def push_inv_def by (intro inv_statement all_rows_update)

lemma push_material_within: "evolution.within (inv_within push_inv E) (material E ws i)"
  unfolding material_def by (intro push.within_reads)

lemmas push_within =
  push.within_reads push_insert_within push_update_within push_material_within

lemma push_Upsert_within: "evolution.within (inv_within push_inv E) (push_Upsert E ws u i input)"
  unfolding push_Upsert_def push_upsert_body_def Let_def
  by (intro push_within) (simp_all add: push_row_ok_def)

lemma push_Revoke_within: "evolution.within (inv_within push_inv E) (push_Revoke E ws u i)"
  unfolding push_Revoke_def push_revoke_body_def Let_def
  by (intro push_within) (simp_all add: push_row_ok_def clear_keys_def)

lemma push_CleanupExpired_within: "evolution.within (inv_within push_inv E) (push_CleanupExpired E ws)"
  unfolding push_CleanupExpired_def push_cleanup_body_def expire_chunk_def Let_def
  by (intro push_within) (simp_all add: push_row_ok_def clear_keys_def)

text \<open>
  C26. A revoked or expired subscription holds no endpoint and no key material, whatever faults
  strike the registering, revoking and expiring operations, as long as other processes keep it so.
\<close>

theorem push_keys_cleared:
  assumes "\<And>n d. push_inv d \<Longrightarrow> push_inv (ev_others E n d)" and "push_inv (w_db w)"
  shows "push_inv (w_db (snd (push_Upsert E ws u i input w))) \<and>
         push_inv (w_db (snd (push_Revoke E ws u i w))) \<and>
         push_inv (w_db (snd (push_CleanupExpired E ws w)))"
  using assms push_Upsert_within [of E ws u i input] push_Revoke_within [of E ws u i]
    push_CleanupExpired_within [of E ws]
  unfolding evolution.within_def [OF inv_evolution] inv_within_def by blast

text \<open>Revoking again a revoked subscription, in the calm environment.\<close>

definition revoked_push :: database where
  "revoked_push = (\<lambda>t. if t = push_table then
     [row_of [(''id'', Text ''s1''), (''workspace_id'', Text ''w1''), (''user_id'', Text ''u1''), (''endpoint'', Text []),
        (''p256dh'', Text []), (''auth_secret'', Text []), (''status'', Text ''revoked'')]] else [])"

theorem push_keys_cleared_witness:
  "push_inv (w_db (snd (push_Revoke calm_env ''w1'' ''u1'' ''s1'' (world_of revoked_push))))"
proof -
  have "push_inv (w_db (world_of revoked_push))"
    by (simp add: world_of_def revoked_push_def push_inv_def all_rows_def push_row_ok_def)
  then have "push_inv (w_db (snd (push_Upsert calm_env ''w1'' ''u1'' ''s1'' undefined (world_of revoked_push)))) \<and>
      push_inv (w_db (snd (push_Revoke calm_env ''w1'' ''u1'' ''s1'' (world_of revoked_push)))) \<and>
      push_inv (w_db (snd (push_CleanupExpired calm_env ''w1'' (world_of revoked_push))))"
    by (intro push_keys_cleared) simp_all
  then show ?thesis by simp
qed

section \<open>Rows that are not the caller's\<close>

lemma push_row_reads: "store_reads (inv_within (\<lambda>d. r \<in> set (d push_table)) E) E"
  by (rule inv_store_reads)

lemma push_row_insert:
  "evolution.within (inv_within (\<lambda>d. r \<in> set (d push_table)) E) (insert_into E t cs)"
  unfolding insert_into_def by (intro inv_statement row_stays_insert)

lemma push_row_update:
  "(\<And>d. \<not> holds d r p) \<Longrightarrow>
   evolution.within (inv_within (\<lambda>d. r \<in> set (d push_table)) E) (guarded_update E t cs p)"
  unfolding guarded_update_def update_set_def
  by (intro inv_statement row_stays_update) (simp_all add: where_simps)

interpretation push_row: store_reads "inv_within (\<lambda>d. r \<in> set (d push_table)) E" E for r E
  by (rule inv_store_reads)

lemma push_row_material: "evolution.within (inv_within (\<lambda>d. r \<in> set (d push_table)) E) (material E ws i)"
  unfolding material_def by (intro push_row.within_reads)

text \<open>A result that is checked and then used: the rest may rely on it.\<close>

lemma push_row_scoped:
  assumes "\<And>p. scopedWhere ctx ws u g q = Inr p \<Longrightarrow> evolution.within (inv_within (\<lambda>d. r \<in> set (d push_table)) E) (f p)"
  shows "evolution.within (inv_within (\<lambda>d. r \<in> set (d push_table)) E) (seq (of_result (scopedWhere ctx ws u g q)) f)"
  using assms by (cases "scopedWhere ctx ws u g q") (simp_all add: of_result_def push_row.within_throw)

definition push_target :: "AccessScope option \<Rightarrow> string \<Rightarrow> string \<Rightarrow> row \<Rightarrow> bool" where
  "push_target ctx ws i r \<longleftrightarrow>
    r ''workspace_id'' = Text (trim_space ws) \<and> r ''id'' = Text i \<and> context_sees ctx ''user_id'' [] r"

lemma push_not_target:
  "scopedWhere ctx ws ''user_id'' [] [Equal ''id'' (Text i)] = Inr p \<Longrightarrow> \<not> push_target ctx ws i r \<Longrightarrow> \<not> holds d r p"
  using scopedWhere_sees [of ctx ws "''user_id''" "[]" "[Equal ''id'' (Text i)]" p d r]
  by (auto simp: push_target_def holds_Equal)

lemmas push_row_within =
  push_row_scoped push_row.within_reads push_row_material push_row_insert push_row_update

lemma push_Revoke_row:
  assumes "\<not> push_target (ev_scope E) ws i r"
  shows "evolution.within (inv_within (\<lambda>d. r \<in> set (d push_table)) E) (push_Revoke E ws u i)"
  unfolding push_Revoke_def push_revoke_body_def Let_def
  by (intro push_row_within) (erule push_not_target [OF _ assms])

lemma push_Upsert_row:
  assumes "\<not> push_target (ev_scope E) ws (trim_space i) r"
  shows "evolution.within (inv_within (\<lambda>d. r \<in> set (d push_table)) E) (push_Upsert E ws u i input)"
  unfolding push_Upsert_def push_upsert_body_def Let_def
  by (intro push_row_within)
    (use push_not_target [of "ev_scope E" "trim_space ws" "trim_space i" _ r] assms in \<open>auto simp: push_target_def\<close>)

text \<open>
  Registering and revoking change no subscription but the one with the given id in the given
  workspace, and under an access scope only one that the scope lets the caller see: every other
  row stays as it is, for all faults, as long as other processes leave it alone.
\<close>

theorem push_other_rows_untouched:
  assumes "\<And>n d. r \<in> set (d push_table) \<Longrightarrow> r \<in> set (ev_others E n d push_table)"
    and "r \<in> set (w_db w push_table)"
  shows "(push_target (ev_scope E) ws (trim_space i) r \<or>
          r \<in> set (w_db (snd (push_Upsert E ws u i input w)) push_table)) \<and>
         (push_target (ev_scope E) ws i r \<or>
          r \<in> set (w_db (snd (push_Revoke E ws u i w)) push_table))"
  using assms push_Revoke_row [of E ws i r u] push_Upsert_row [of E ws i r u input]
  unfolding evolution.within_def [OF inv_evolution] inv_within_def by blast

text \<open>User \<open>u1\<close>, under its own scope, cannot revoke the subscription of \<open>u2\<close>.\<close>

definition other_push :: row where
  "other_push = row_of [(''id'', Text ''s2''), (''workspace_id'', Text ''w1''), (''user_id'', Text ''u2''),
     (''endpoint'', Text ''https://push.example''), (''status'', Text ''active'')]"

theorem push_other_rows_untouched_witness:
  "other_push \<in> set (w_db (snd (push_Revoke (calm_env\<lparr>ev_scope := Some member_scope\<rparr>) ''w1'' ''u1'' ''s2''
     (world_of (\<lambda>t. [other_push])))) push_table)"
proof -
  let ?E = "calm_env\<lparr>ev_scope := Some member_scope\<rparr>" and ?w = "world_of (\<lambda>t. [other_push])"
  have hidden: "\<not> push_target (ev_scope ?E) ''w1'' ''s2'' other_push"
    by (simp add: push_target_def context_sees_def row_allowed_def member_scope_def other_push_def)
  have "(push_target (ev_scope ?E) ''w1'' (trim_space ''s2'') other_push \<or>
         other_push \<in> set (w_db (snd (push_Upsert ?E ''w1'' ''u1'' ''s2'' undefined ?w)) push_table)) \<and>
        (push_target (ev_scope ?E) ''w1'' ''s2'' other_push \<or>
         other_push \<in> set (w_db (snd (push_Revoke ?E ''w1'' ''u1'' ''s2'' ?w)) push_table))"
    by (rule push_other_rows_untouched) (simp_all add: world_of_def calm_env_def)
  with hidden show ?thesis by blast
qed

text \<open>
  Revoking with an id that has surrounding space leaves the subscription of the trimmed id
  as it was: the lookup trims the id, the update does not, so a subscription that was found
  and reported keeps its endpoint, keys and status.
\<close>

theorem push_revoke_padded_id:
  assumes "\<And>n d. r \<in> set (d push_table) \<Longrightarrow> r \<in> set (ev_others E n d push_table)"
    and "r \<in> set (w_db w push_table)"
    and "r ''id'' = Text (trim_space i)" and "trim_space i \<noteq> i"
  shows "r \<in> set (w_db (snd (push_Revoke E ws u i w)) push_table)"
proof -
  have "\<not> push_target (ev_scope E) ws i r" using assms(3,4) by (simp add: push_target_def)
  from push_Revoke_row [OF this] assms(1,2) show ?thesis
    unfolding evolution.within_def [OF inv_evolution] inv_within_def by blast
qed

theorem push_revoke_padded_id_witness:
  "other_push \<in> set (w_db (snd (push_Revoke calm_env ''w1'' ''u2'' '' s2'' (world_of (\<lambda>t. [other_push])))) push_table)"
proof (rule push_revoke_padded_id)
  have "trim_space '' s2'' = ''s2''" by code_simp
  then show "other_push ''id'' = Text (trim_space '' s2'')" and "trim_space '' s2'' \<noteq> '' s2''"
    by (simp_all add: other_push_def)
qed (simp_all add: world_of_def)

end
