(* ===== verification/Delivery.thy ===== *)
theory Delivery
  imports Secrets WebPush
begin

text \<open>
  \<open>delivery_store.go\<close>: accepting a delivery (idempotent once it has succeeded, retried after a
  failure), the claim of an invocation row before the provider is called and its completion
  after, and the lookup of connections and receipts.
\<close>

definition invocations_table :: string where "invocations_table = ''_integration_invocations''"

lemma invocations_not_fences [simp]: "invocations_table \<noteq> fences"
  by (simp add: invocations_table_def fences_def)

record deliveryConnection =
  dc_Key :: string
  dc_WorkspaceID :: string
  dc_ConnectorKey :: string
  dc_ProviderKey :: string
  dc_Status :: string
  dc_UpdatedAt :: string
  dc_Config :: "(string \<times> json) list"
  dc_SecretRefs :: "(string \<times> string) list"

definition scan_delivery_connection :: "row \<Rightarrow> deliveryConnection dbop" where
  "scan_delivery_connection r =
    seq (scan_texts r [''connection_key'', ''workspace_id'', ''connector_key'', ''provider_key'', ''status'',
                       ''config_json'', ''secret_refs_json'', ''updated_at'']) (\<lambda>_.
    case (decode_object (doc_of (r ''config_json'')), decode_string_map (doc_of (r ''secret_refs_json''))) of
      (Some config, Some refs) \<Rightarrow>
        ret \<lparr>dc_Key = text_of (r ''connection_key''), dc_WorkspaceID = text_of (r ''workspace_id''),
             dc_ConnectorKey = text_of (r ''connector_key''), dc_ProviderKey = text_of (r ''provider_key''),
             dc_Status = text_of (r ''status''), dc_UpdatedAt = text_of (r ''updated_at''),
             dc_Config = config, dc_SecretRefs = refs\<rparr>
    | _ \<Rightarrow> throw (Errorf ''json'' []))"

definition delivery_connection :: "env \<Rightarrow> string \<Rightarrow> string \<Rightarrow> string \<Rightarrow> deliveryConnection dbop" where
  "delivery_connection E workspaceID connectorKey connectionKey =
    seq (select E connections_table
      (And ([Equal ''workspace_id'' (Text workspaceID), Equal ''connector_key'' (Text connectorKey),
             Equal ''status'' (Text ''active'')] @
            (if connectionKey \<noteq> [] then [Equal ''connection_key'' (Text connectionKey)] else [])))) (\<lambda>rs.
    seq (each scan_delivery_connection (take 2 (ascending ''connection_key'' rs))) (\<lambda>values.
    if values = [] then
      throw (Errorf ''active Integration connection for connector %q was not found'' [connectorKey])
    else if length values > 1 \<and> connectionKey = [] then
      throw (Errorf ''Integration connector %q requires an explicit connection'' [connectorKey])
    else ret (hd values)))"

definition deliveryInvocationID :: "env \<Rightarrow> string \<Rightarrow> string" where
  "deliveryInvocationID E messageID = ''delivery:'' @ ev_sha256 E (trim_space messageID)"

text \<open>The connection as the connector SDK sees it (the delivery paths do not load its name).\<close>

definition sdk_connection :: "deliveryConnection \<Rightarrow> Connection" where
  "sdk_connection c =
    \<lparr>cn_Key = dc_Key c, cn_WorkspaceID = dc_WorkspaceID c, cn_ConnectorKey = dc_ConnectorKey c,
     cn_ProviderKey = dc_ProviderKey c, cn_Name = [], cn_Status = dc_Status c, cn_Config = dc_Config c,
     cn_SecretRefs = dc_SecretRefs c\<rparr>"

section \<open>Claiming and finishing an invocation\<close>

definition invocation_fences :: "string \<Rightarrow> string \<Rightarrow> string \<Rightarrow> fence_ref list" where
  "invocation_fences connectionKey messageID ident =
    [(''connection'', [], connectionKey), (''message'', [], messageID), (''row'', ''_integration_invocations'', ident)]"

definition claim_changed :: err where
  "claim_changed = Errorf ''Integration invocation claim changed'' []"

definition insertInvocation ::
    "env \<Rightarrow> string \<Rightarrow> DeliveryRequest \<Rightarrow> string \<Rightarrow> string \<Rightarrow> raw_message \<Rightarrow> unit dbop" where
  "insertInvocation E ident request connectionKey providerKey metadata =
    seq (guardSubjectWrite E (dr_WorkspaceID request)
           (invocation_fences connectionKey (dr_MessageID request) ident)) (\<lambda>_.
    seq (now E) (\<lambda>t.
    seq (insert_into E invocations_table
      [(''id'', Text ident), (''workspace_id'', Text (dr_WorkspaceID request)),
       (''connector_key'', Text (dr_ConnectorKey request)), (''provider_key'', Text providerKey),
       (''connection_key'', Text connectionKey), (''operation'', Text (dr_Operation request)),
       (''status'', Text ''running''), (''duration_ms'', Num 0), (''request_ref'', Text (dr_MessageID request)),
       (''response_ref'', Null), (''error'', Null), (''event_id'', Null), (''object_key'', Null), (''record_id'', Null),
       (''workflow_execution_id'', Null), (''metadata_json'', Doc metadata), (''created_at'', timestamp t),
       (''updated_at'', timestamp t)]) (\<lambda>n.
    check (n = 1) claim_changed)))"

definition prepareInvocationWithMetadata ::
    "env \<Rightarrow> string \<Rightarrow> DeliveryRequest \<Rightarrow> deliveryConnection \<Rightarrow> raw_message \<Rightarrow> unit dbop" where
  "prepareInvocationWithMetadata E ident request connection metadata =
    seq (guardSubjectWrite E (dr_WorkspaceID request)
           (invocation_fences (dc_Key connection) (dr_MessageID request) ident)) (\<lambda>_.
    seq (now E) (\<lambda>t.
    seq (select_row E invocations_table (Equal ''id'' (Text ident))) (\<lambda>found. case found of
      Some r \<Rightarrow>
        seq (scan_texts r [''status'']) (\<lambda>_.
        seq (guarded_update E invocations_table
               [(''status'', Text ''running''), (''error'', Null), (''metadata_json'', Doc metadata),
                (''updated_at'', timestamp t)]
               (Equal ''id'' (Text ident))) (\<lambda>n.
        check (n = 1) claim_changed))
    | None \<Rightarrow> insertInvocation E ident request (dc_Key connection) (dc_ProviderKey connection) metadata)))"

definition prepareInvocation :: "env \<Rightarrow> string \<Rightarrow> DeliveryRequest \<Rightarrow> deliveryConnection \<Rightarrow> unit dbop" where
  "prepareInvocation E ident request connection =
    prepareInvocationWithMetadata E ident request connection
      (marshal_map [(''message_id'', Some (JStr (dr_MessageID request))),
                    (''deduplication_key'', Some (JStr (dr_DeduplicationKey request))),
                    (''payload'', embed_raw (dr_Payload request))])"

definition finishInvocation :: "env \<Rightarrow> string \<Rightarrow> string \<Rightarrow> string \<Rightarrow> string \<Rightarrow> unit dbop" where
  "finishInvocation E ident status responseRef errorText =
    seq (now E) (\<lambda>t.
    seq (guarded_update E invocations_table
           [(''status'', Text status), (''response_ref'', Text responseRef), (''error'', Text errorText),
            (''updated_at'', timestamp t)]
           (Equal ''id'' (Text ident))) (\<lambda>n.
    check (n = 1) (Errorf ''Integration invocation completion changed'' [])))"

definition delivery_receipt :: "env \<Rightarrow> string \<Rightarrow> string \<Rightarrow> DeliveryReceipt option dbop" where
  "delivery_receipt E messageID ident =
    seq (select_row E invocations_table (Equal ''id'' (Text ident))) (\<lambda>found. case found of
      None \<Rightarrow> ret None
    | Some r \<Rightarrow>
        seq (scan_texts r [''status'']) (\<lambda>_.
        ret (Some \<lparr>rcp_MessageID = messageID, rcp_InvocationID = ident, rcp_Status = text_of (r ''status''),
                   rcp_ResultRef = text_of (r ''response_ref''),
                   rcp_ErrorCode = (if text_of (r ''error'') \<noteq> [] then ''provider_call_failed'' else [])\<rparr>)))"

section \<open>Accepting a delivery\<close>

definition hydrateWebPushPayload :: "env \<Rightarrow> string \<Rightarrow> raw_message \<Rightarrow> raw_message dbop" where
  "hydrateWebPushPayload E workspaceID payload =
    (if \<not> ev_WebPush E then throw (Errorf ''Integration Web Push subscription store is unavailable'' [])
     else
       (case decode_object payload of
          None \<Rightarrow> throw (Errorf ''decode Web Push delivery payload: %w'' [''json''])
        | Some v \<Rightarrow>
            (let ident = trim_space (sprint (case map_of v ''subscription_id'' of None \<Rightarrow> JNull | Some j \<Rightarrow> j)) in
             seq (material E workspaceID ident) (\<lambda>found. case found of
               None \<Rightarrow> throw (Errorf ''Integration Web Push subscription is unavailable'' [])
             | Some m \<Rightarrow>
                 seq (check (wp_Status m = ''active'' \<and> wm_Endpoint m \<noteq> [])
                        (Errorf ''Integration Web Push subscription is unavailable'' [])) (\<lambda>_.
                 seq (now E) (\<lambda>t.
                 seq (check (wp_ExpiresAt m = [] \<or>
                             (case parse_rfc3339 (wp_ExpiresAt m) of None \<Rightarrow> True | Some e \<Rightarrow> t < e))
                        (Errorf ''Integration Web Push subscription is expired'' [])) (\<lambda>_.
                 ret (marshal (JObj (sort_key fst
                   (obj_put ''endpoint'' (JStr (wm_Endpoint m))
                   (obj_put ''p256dh'' (JStr (wm_P256DH m))
                   (obj_put ''auth'' (JStr (wm_Auth m)) v)))))))))))))"

definition provider_unavailable :: "string \<Rightarrow> string \<Rightarrow> err" where
  "provider_unavailable connectorKey providerKey =
    Errorf ''Integration provider %s/%s is unavailable'' [connectorKey, providerKey]"

definition operation_missing :: "string \<Rightarrow> string \<Rightarrow> string \<Rightarrow> err" where
  "operation_missing connectorKey providerKey operation =
    Errorf ''Integration provider %s/%s does not implement operation %s'' [connectorKey, providerKey, operation]"

text \<open>The provider of a connection, and the operation of it that a request names.\<close>

definition find_provider :: "env \<Rightarrow> deliveryConnection \<Rightarrow> provider dbop" where
  "find_provider E c =
    (case ev_Provider E (dc_ConnectorKey c) (dc_ProviderKey c) of
       None \<Rightarrow> throw (provider_unavailable (dc_ConnectorKey c) (dc_ProviderKey c))
     | Some p \<Rightarrow> ret p)"

definition find_operation :: "provider \<Rightarrow> deliveryConnection \<Rightarrow> string \<Rightarrow> OperationDescriptor dbop" where
  "find_operation p c key =
    (case providerOperation p key of
       None \<Rightarrow> throw (operation_missing (dc_ConnectorKey c) (dc_ProviderKey c) key)
     | Some operation \<Rightarrow> ret operation)"

definition delivery_call ::
    "DeliveryRequest \<Rightarrow> deliveryConnection \<Rightarrow> OperationDescriptor \<Rightarrow> raw_message \<Rightarrow> (string \<times> string) list \<Rightarrow> CallRequest" where
  "delivery_call request connection operation payload secrets =
    \<lparr>cr_ConnectorKey = dc_ConnectorKey connection, cr_ProviderKey = dc_ProviderKey connection,
     cr_OperationKey = dr_Operation request, cr_ContractSHA256 = od_ContractSHA256 operation,
     cr_Mode = od_Mode operation, cr_Payload = payload, cr_RequestRef = dr_MessageID request, cr_Delivery = True,
     cr_Secrets = secrets, cr_Connection = sdk_connection connection,
     cr_Principal = \<lparr>pr_UserID = [], pr_RoleKey = [], pr_WorkspaceID = dr_WorkspaceID request,
                     pr_RequestID = dr_MessageID request, pr_IsAuthenticated = True\<rparr>\<rparr>"

text \<open>
  The error beside the receipt is the one that \<open>Accept\<close> returns together with it, after the
  provider failed; any other error comes without a receipt.
\<close>

definition Accept :: "env \<Rightarrow> DeliveryRequest \<Rightarrow> (DeliveryReceipt \<times> err option) dbop" where
  "Accept E request =
    (let ident = deliveryInvocationID E (dr_MessageID request) in
     seq (delivery_receipt E (dr_MessageID request) ident) (\<lambda>receipt.
     if (case receipt of None \<Rightarrow> False | Some r \<Rightarrow> rcp_Status r = ''succeeded'') then ret (the receipt, None)
     else
       seq (delivery_connection E (dr_WorkspaceID request) (dr_ConnectorKey request) (dr_ConnectionKey request)) (\<lambda>connection.
       seq (find_provider E connection) (\<lambda>p.
       seq (find_operation p connection (dr_Operation request)) (\<lambda>operation.
       seq (resolveProviderSecrets E (dr_WorkspaceID request) (dc_SecretRefs connection)) (\<lambda>resolved.
       seq (if dr_ConnectorKey request = ''notification'' \<and> dr_Operation request = ''send''
            then hydrateWebPushPayload E (dr_WorkspaceID request) (dr_Payload request)
            else ret (dr_Payload request)) (\<lambda>payload.
       seq (prepareInvocation E ident request connection) (\<lambda>_.
       seq (call_provider p (delivery_call request connection operation payload (rps_Values resolved))) (\<lambda>(result, callErr).
       seq (persistProviderSecretUpdates E (dr_WorkspaceID request) (dc_SecretRefs connection)
              (rps_Versions resolved) (res_SecretUpdates result) callErr) (\<lambda>callErr.
       seq (finishInvocation E ident (if callErr = None then ''succeeded'' else ''failed'') (res_ResponseRef result)
              (case callErr of None \<Rightarrow> [] | Some e \<Rightarrow> err_text e)) (\<lambda>_.
       ret (\<lparr>rcp_MessageID = dr_MessageID request, rcp_InvocationID = ident,
             rcp_Status = (if callErr = None then ''succeeded'' else ''failed''), rcp_ResultRef = res_ResponseRef result,
             rcp_ErrorCode = (if callErr = None then [] else ''provider_call_failed'')\<rparr>, callErr))))))))))))"

definition Query :: "env \<Rightarrow> string \<Rightarrow> DeliveryReceipt dbop" where
  "Query E messageID =
    (let messageID = trim_space messageID in
     if messageID = [] then throw (Errorf ''Integration delivery message ID is required'' [])
     else
       seq (delivery_receipt E messageID (deliveryInvocationID E messageID)) (\<lambda>receipt. case receipt of
         None \<Rightarrow> throw (Errorf ''Integration delivery %q was not found'' [messageID])
       | Some r \<Rightarrow> ret r))"

text \<open>The domain service in front of the store.\<close>

definition validateDelivery :: "DeliveryRequest \<Rightarrow> err option" where
  "validateDelivery v =
    first_err
      (map (\<lambda>(name, s). fails_if (blank s) (Errorf ''Integration delivery %s is required'' [name]))
         [(''message_id'', dr_MessageID v), (''deduplication_key'', dr_DeduplicationKey v),
          (''workspace_id'', dr_WorkspaceID v), (''connector_key'', dr_ConnectorKey v), (''operation'', dr_Operation v)] @
       [fails_if (\<not> json_valid (dr_Payload v)) (Errorf ''Integration delivery payload must be valid JSON'' [])])"

definition Service_Accept :: "env \<Rightarrow> DeliveryRequest \<Rightarrow> (DeliveryReceipt \<times> err option) dbop" where
  "Service_Accept E v = (case validateDelivery v of Some e \<Rightarrow> throw e | None \<Rightarrow> Accept E v)"

definition Service_Query :: "env \<Rightarrow> string \<Rightarrow> DeliveryReceipt dbop" where
  "Service_Query E messageID =
    (if blank messageID then throw (Errorf ''Integration delivery message ID is required'' []) else Query E messageID)"

section \<open>What deliveries are built from\<close>

context store_reads
begin

lemma within_delivery_connection: "within (delivery_connection E ws c k)"
  unfolding delivery_connection_def scan_delivery_connection_def by (intro within_reads)

lemma within_find_provider: "within (find_provider E c)"
  unfolding find_provider_def by (intro within_reads)

end

text \<open>The statements by which deliveries write, and the calls they make.\<close>

locale delivery_writes = secret_writes +
  assumes within_invocation_insert: "within (insert_into E invocations_table cs)"
    and within_invocation_update: "keeps_identity cs \<Longrightarrow> within (guarded_update E invocations_table cs p)"
begin

lemma within_material: "within (material E ws i)"
  unfolding material_def by (intro within_reads)

lemma within_hydrate: "within (hydrateWebPushPayload E ws payload)"
  unfolding hydrateWebPushPayload_def Let_def by (intro within_reads within_material)

lemma within_insertInvocation: "within (insertInvocation E i request ck pk metadata)"
  unfolding insertInvocation_def by (intro within_reads within_invocation_insert)

lemma within_prepareInvocationWithMetadata: "within (prepareInvocationWithMetadata E i request c metadata)"
  unfolding prepareInvocationWithMetadata_def
  by (intro within_reads within_insertInvocation within_invocation_update) (simp_all add: keeps_identity_def)

lemma within_prepareInvocation: "within (prepareInvocation E i request c)"
  unfolding prepareInvocation_def by (rule within_prepareInvocationWithMetadata)

lemma within_finishInvocation: "within (finishInvocation E i status ref e)"
  unfolding finishInvocation_def by (intro within_reads within_invocation_update) (simp_all add: keeps_identity_def)

lemma within_delivery_receipt: "within (delivery_receipt E m i)"
  unfolding delivery_receipt_def by (intro within_reads)

lemma within_Query: "within (Query E m)"
  unfolding Query_def Let_def by (intro within_reads within_delivery_receipt)

lemma within_find_operation: "within (find_operation p c k)"
  unfolding find_operation_def by (intro within_reads)

lemmas within_delivery_steps =
  within_secrets within_delivery_connection within_material within_hydrate within_insertInvocation
  within_prepareInvocationWithMetadata within_prepareInvocation within_finishInvocation
  within_delivery_receipt within_find_provider within_find_operation

end

locale delivery_calls = delivery_writes +
  assumes within_provider_call: "within (call_provider p request)"
begin

lemma within_Accept: "within (Accept E request)"
  unfolding Accept_def Let_def by (intro within_delivery_steps within_provider_call)

end

sublocale store_writes \<subseteq> delivery_writes
  by unfold_locales (auto intro: within_insert within_guarded_update simp: invocations_table_def fences_def)

sublocale store_calls \<subseteq> delivery_calls
  by unfold_locales (rule within_call_provider)

context store_writes
begin

lemmas within_delivery = within_secret_writes within_delivery_steps

end

text \<open>Tables other than those of secrets and invocations are left alone.\<close>

lemma delivery_calls_other_table:
  assumes "t \<noteq> secrets_table" and "t \<noteq> materials_table" and "t \<noteq> invocations_table"
  shows "delivery_calls (inv_within (all_rows t P) E) E"
proof (intro delivery_calls.intro delivery_writes.intro delivery_writes_axioms.intro delivery_calls_axioms.intro)
  show "secret_writes (inv_within (all_rows t P) E) E" using assms(1,2) by (rule secret_writes_other_table)
  show "evolution.within (inv_within (all_rows t P) E) (call_provider p request)" for p request
    by (simp add: evolution.within_def [OF inv_evolution] inv_within_def call_provider_def record_call_def)
qed (use assms(3) in \<open>auto simp: insert_into_def guarded_update_def update_set_def
    intro!: inv_statement all_rows_insert all_rows_update\<close>)

section \<open>Fenced deliveries\<close>

lemma prepareInvocation_stops:
  assumes "(k, g, i) \<in> {(''message'', [], dr_MessageID request), (''row'', invocations_table, ident),
      (''connection'', [], dc_Key connection)}" and "i \<noteq> []"
  shows "evolution.within (quiet_where (\<lambda>d. fenced d (dr_WorkspaceID request) k g i) E)
    (seq (prepareInvocation E ident request connection) f)"
proof -
  have "(k, g, i) \<in> set (invocation_fences (dc_Key connection) (dr_MessageID request) ident)"
    using assms(1) by (auto simp: invocation_fences_def invocations_table_def)
  then show ?thesis
    unfolding prepareInvocation_def prepareInvocationWithMetadata_def seq_assoc
    using assms(2) by (rule within_after_guard)
qed

text \<open>The fences that stop a delivery, whatever connection it goes to.\<close>

definition delivery_fence :: "env \<Rightarrow> DeliveryRequest \<Rightarrow> fence_ref \<Rightarrow> bool" where
  "delivery_fence E request ref \<longleftrightarrow>
    ref = (''message'', [], dr_MessageID request) \<and> dr_MessageID request \<noteq> [] \<or>
    ref = (''row'', invocations_table, deliveryInvocationID E (dr_MessageID request))"

lemma Accept_fenced:
  assumes "delivery_fence E request (k, g, i)"
  shows "evolution.within (quiet_where (\<lambda>d. fenced d (dr_WorkspaceID request) k g i) E) (Accept E request)"
  unfolding Accept_def Let_def
  by (intro prepareInvocation_stops fence_quiet.within_delivery)
    (use assms in \<open>auto simp: delivery_fence_def deliveryInvocationID_def\<close>)

text \<open>
  C8. A delivery whose message, or whose invocation row, is fenced by an erasure reaches no
  provider: no external call is made and the fence still stands afterwards, for all faults and
  as long as other processes leave that fence in place.
\<close>

theorem fenced_delivery_calls_nobody:
  assumes "delivery_fence E request (k, g, i)"
    and "\<And>n d. fenced d (dr_WorkspaceID request) k g i \<Longrightarrow> fenced (ev_others E n d) (dr_WorkspaceID request) k g i"
    and "fenced (w_db w) (dr_WorkspaceID request) k g i"
  shows "w_calls (snd (Accept E request w)) = w_calls w \<and>
         fenced (w_db (snd (Accept E request w))) (dr_WorkspaceID request) k g i"
  using Accept_fenced [OF assms(1)] assms(2,3)
  unfolding evolution.within_def [OF quiet_where_evolution] quiet_where_def stable_def by blast

section \<open>Receipts tell the truth, and success is final\<close>

definition receipt_of :: "string \<Rightarrow> string \<Rightarrow> row \<Rightarrow> DeliveryReceipt" where
  "receipt_of messageID ident r =
    \<lparr>rcp_MessageID = messageID, rcp_InvocationID = ident, rcp_Status = text_of (r ''status''),
     rcp_ResultRef = text_of (r ''response_ref''),
     rcp_ErrorCode = (if text_of (r ''error'') \<noteq> [] then ''provider_call_failed'' else [])\<rparr>"

definition invocation_row :: "database \<Rightarrow> string \<Rightarrow> row \<Rightarrow> bool" where
  "invocation_row d ident r \<longleftrightarrow> r \<in> set (d invocations_table) \<and> r ''id'' = Text ident \<and> r ''status'' \<noteq> Null"

lemma finishInvocation_Inr:
  assumes "alone E" and "finishInvocation E i status ref e w = (Inr u, w')"
  shows "\<exists>r. invocation_row (w_db w') i r \<and> r ''status'' = Text status \<and>
    r ''response_ref'' = Text ref \<and> r ''error'' = Text e"
proof -
  let ?cs = "\<lambda>t. [(''status'', Text status), (''response_ref'', Text ref), (''error'', Text e), (''updated_at'', timestamp t)]"
  obtain t where "guarded_update E invocations_table (?cs t) (Equal ''id'' (Text i)) w = (Inr 1, w')"
    using assms(2) by (auto simp: finishInvocation_def seq_Inr now_Inr)
  from guarded_update_Inr [OF assms(1) this] obtain r
    where "holds (w_db w) r (And [subjectRowWriteAllowed invocations_table, Equal ''id'' (Text i)])"
      and r: "set_columns (?cs t) r \<in> set (w_db w' invocations_table)"
    using update_rows_hit by (metis zero_neq_one)
  then have "r ''id'' = Text i" by (simp add: holds_And holds_Equal)
  with r show ?thesis unfolding invocation_row_def by (intro exI [of _ "set_columns (?cs t) r"]) simp
qed

lemma delivery_receipt_Inr:
  assumes "alone E" and "delivery_receipt E m i w = (Inr (Some rcp), w')"
  shows "w_db w' = w_db w \<and> (\<exists>r. invocation_row (w_db w) i r \<and> rcp = receipt_of m i r)"
proof -
  obtain r u where row: "select_row E invocations_table (Equal ''id'' (Text i)) w = (Inr (Some r), u)"
    and rest: "\<not> has_null r [''status'']" "rcp = receipt_of m i r" "w' = u"
    using assms(2) by (auto simp: delivery_receipt_def op_Inr scan_texts_def receipt_of_def split: option.splits)
  from select_row_Inr [OF assms(1) row] obtain rs
    where rs: "select_rows invocations_table (Equal ''id'' (Text i)) (w_db w) = r # rs" and "w_db u = w_db w"
    by (auto split: list.splits)
  have "r \<in> set (select_rows invocations_table (Equal ''id'' (Text i)) (w_db w))" unfolding rs by simp
  with rest \<open>w_db u = w_db w\<close> show ?thesis by (auto simp: invocation_row_def holds_Equal)
qed

lemma delivery_receipt_final:
  assumes "alone E" and "keyed (w_db w) invocations_table" and "invocation_row (w_db w) i r"
  shows "fst (delivery_receipt E m i w) \<in> {Inl StorageErr, Inr (Some (receipt_of m i r))} \<and>
         w_calls (snd (delivery_receipt E m i w)) = w_calls w"
proof -
  obtain rs where rs: "select_rows invocations_table (Equal ''id'' (Text i)) (w_db w) = r # rs"
    using select_by_id assms(2,3) unfolding invocation_row_def by blast
  have "\<not> has_null r [''status'']" using assms(3) by (simp add: invocation_row_def)
  then show ?thesis
    using rs assms(1)
    by (cases "ev_fault E (w_step w)")
      (simp_all add: delivery_receipt_def select_row_def select_def statement_def seq_def Let_def scan_texts_def
        check_apply receipt_of_def before_step_def alone_def)
qed

text \<open>What \<open>Accept\<close> reports is what the invocation row says.\<close>

lemma Accept_Inr:
  assumes "alone E" and "Accept E request w = (Inr (rcp, callErr), w')"
  shows "\<exists>r. invocation_row (w_db w') (deliveryInvocationID E (dr_MessageID request)) r \<and>
    text_of (r ''status'') = rcp_Status rcp \<and> text_of (r ''response_ref'') = rcp_ResultRef rcp \<and>
    rcp_Status rcp = (if callErr = None then ''succeeded'' else ''failed'') \<and>
    (callErr = None \<longrightarrow> rcp = receipt_of (dr_MessageID request) (deliveryInvocationID E (dr_MessageID request)) r)"
proof -
  let ?i = "deliveryInvocationID E (dr_MessageID request)"
  obtain found u where found: "delivery_receipt E (dr_MessageID request) ?i w = (Inr found, u)"
    using assms(2) by (auto simp: Accept_def Let_def seq_Inr)
  show ?thesis
  proof (cases "case found of None \<Rightarrow> False | Some r \<Rightarrow> rcp_Status r = ''succeeded''")
    case True
    then obtain old where old: "found = Some old" "rcp_Status old = ''succeeded''" by (auto split: option.splits)
    with assms(2) found have "rcp = old" "callErr = None" "w' = u"
      by (auto simp: Accept_def Let_def seq_apply)
    with delivery_receipt_Inr [OF assms(1)] found old show ?thesis by (fastforce simp: receipt_of_def)
  next
    case False
    then have "\<exists>ref v. finishInvocation E ?i (if callErr = None then ''succeeded'' else ''failed'')
        ref (case callErr of None \<Rightarrow> [] | Some e \<Rightarrow> err_text e) v = (Inr (), w') \<and>
      rcp = \<lparr>rcp_MessageID = dr_MessageID request, rcp_InvocationID = ?i,
             rcp_Status = (if callErr = None then ''succeeded'' else ''failed''), rcp_ResultRef = ref,
             rcp_ErrorCode = (if callErr = None then [] else ''provider_call_failed'')\<rparr>"
      using assms(2) found
      by (clarsimp simp: Accept_def Let_def op_Inr split: prod.splits split del: if_split) blast
    then obtain v ref where finish: "finishInvocation E ?i (if callErr = None then ''succeeded'' else ''failed'')
        ref (case callErr of None \<Rightarrow> [] | Some e \<Rightarrow> err_text e) v = (Inr (), w')"
      and rcp: "rcp = \<lparr>rcp_MessageID = dr_MessageID request, rcp_InvocationID = ?i,
             rcp_Status = (if callErr = None then ''succeeded'' else ''failed''), rcp_ResultRef = ref,
             rcp_ErrorCode = (if callErr = None then [] else ''provider_call_failed'')\<rparr>" by blast
    from finishInvocation_Inr [OF assms(1) finish] obtain r
      where "invocation_row (w_db w') ?i r" "r ''status'' = Text (if callErr = None then ''succeeded'' else ''failed'')"
        "r ''response_ref'' = Text ref" "r ''error'' = Text (case callErr of None \<Rightarrow> [] | Some e \<Rightarrow> err_text e)" by blast
    with rcp show ?thesis by (intro exI [of _ r]) (simp add: receipt_of_def)
  qed
qed

text \<open>
  C7. A receipt that \<open>Accept\<close> returns agrees with the stored invocation: its row exists under the
  message's id with the reported status and result, and the status is \<open>succeeded\<close> exactly when no
  provider error was reported.
\<close>

theorem delivery_receipt_truthful:
  assumes "alone E" and "Accept E request w = (Inr (rcp, callErr), w')"
  shows "\<exists>r. invocation_row (w_db w') (deliveryInvocationID E (dr_MessageID request)) r \<and>
    text_of (r ''status'') = rcp_Status rcp \<and> text_of (r ''response_ref'') = rcp_ResultRef rcp \<and>
    rcp_Status rcp = (if callErr = None then ''succeeded'' else ''failed'')"
  using Accept_Inr [OF assms] by blast

interpretation invocation_keys: store_calls "inv_within (\<lambda>d. keyed d invocations_table) E" E for E
  by (rule keyed_within) (auto simp: unique_keys_def invocations_table_def)

lemma Accept_keyed:
  "alone E \<Longrightarrow> keyed (w_db w) invocations_table \<Longrightarrow> keyed (w_db (snd (Accept E request w))) invocations_table"
  using invocation_keys.within_Accept [of E request]
  unfolding evolution.within_def [OF inv_evolution] inv_within_def alone_def by metis

lemma Accept_final:
  assumes "alone E" and "keyed (w_db w) invocations_table"
    and "invocation_row (w_db w) (deliveryInvocationID E (dr_MessageID request)) r"
    and "r ''status'' = Text ''succeeded''"
  shows "fst (Accept E request w) \<in>
      {Inl StorageErr, Inr (receipt_of (dr_MessageID request) (deliveryInvocationID E (dr_MessageID request)) r, None)} \<and>
    w_calls (snd (Accept E request w)) = w_calls w"
proof -
  let ?i = "deliveryInvocationID E (dr_MessageID request)"
  let ?rcp = "receipt_of (dr_MessageID request) ?i r"
  have status: "rcp_Status ?rcp = ''succeeded''" using assms(4) by (simp add: receipt_of_def)
  obtain x u where A: "delivery_receipt E (dr_MessageID request) ?i w = (x, u)" by fastforce
  with delivery_receipt_final [OF assms(1-3), of "dr_MessageID request"]
  have x: "x = Inl StorageErr \<or> x = Inr (Some ?rcp)" and u: "w_calls u = w_calls w" by auto
  from x show ?thesis
  proof
    assume "x = Inl StorageErr"
    then show ?thesis using A u by (simp add: Accept_def Let_def seq_apply)
  next
    assume "x = Inr (Some ?rcp)"
    then show ?thesis using A u status by (simp add: Accept_def Let_def seq_apply)
  qed
qed

text \<open>
  C5. Success is final: once a delivery has been accepted, accepting it again, under whatever
  faults, makes no further external call and answers the same receipt (or a storage error).
\<close>

theorem accept_idempotent:
  assumes "alone E" and "keyed (w_db w) invocations_table" and "Accept E request w = (Inr (rcp, None), w')"
  shows "fst (Accept (E\<lparr>ev_fault := faults\<rparr>) request w') \<in> {Inl StorageErr, Inr (rcp, None)} \<and>
         w_calls (snd (Accept (E\<lparr>ev_fault := faults\<rparr>) request w')) = w_calls w'"
proof -
  let ?E = "E\<lparr>ev_fault := faults\<rparr>" and ?i = "deliveryInvocationID E (dr_MessageID request)"
  have E': "alone ?E" "deliveryInvocationID ?E (dr_MessageID request) = ?i"
    using assms(1) by (simp_all add: alone_def deliveryInvocationID_def)
  have "keyed (w_db w') invocations_table" using Accept_keyed [OF assms(1,2), of request] assms(3) by simp
  moreover obtain r where r: "invocation_row (w_db w') ?i r" "text_of (r ''status'') = ''succeeded''"
      "rcp = receipt_of (dr_MessageID request) ?i r"
    using Accept_Inr [OF assms(1,3)] by auto
  moreover have "r ''status'' = Text ''succeeded''" using r(2) by (cases "r ''status''") (auto simp: text_of_def)
  ultimately show ?thesis using Accept_final [of ?E w' request r] E' by simp
qed

section \<open>A delivery in the calm environment\<close>

definition echo_operation :: "call_effect \<Rightarrow> OperationDescriptor" where
  "echo_operation effect =
    \<lparr>od_Key = ''send'', od_Mode = ModeCall, od_Effect = effect, od_Reconciliation = ReconciliationProviderLookup,
     od_ContractSHA256 = ''c1''\<rparr>"

text \<open>A provider whose operation \<open>send\<close> always answers \<open>ok\<close>.\<close>

definition echo_provider :: "call_effect \<Rightarrow> provider" where
  "echo_provider effect =
    \<lparr>pv_Operations = [echo_operation effect], pv_SecretFields = [],
     pv_Call = (\<lambda>n request. (\<lparr>res_ResponseRef = ''ok'', res_Payload = marshal (JStr ''ok''), res_SecretUpdates = [],
                             res_ResourceHealth = JNull\<rparr>, None)),
     pv_OperationScopes = (\<lambda>k. Some [[]]), pv_ConnectionTestScopes = None, pv_TestConnection = None,
     pv_VerifyWebhook = None, pv_Background = None, pv_Reconcile = None,
     pv_ValidateReconcile = (\<lambda>r. None), pv_ConnectorKey = ''c'', pv_ProviderKey = ''p'', pv_ConfigFields = [],
     pv_ValidateConfig = None, pv_StartupSafe = False, pv_OAuth = None\<rparr>"

definition echo_env :: env where
  "echo_env = calm_env\<lparr>ev_Provider := (\<lambda>c p. Some (echo_provider EffectWrite))\<rparr>"

lemma echo_env_calm [simp]: "calm echo_env"
  by (simp add: calm_def echo_env_def alone_def)

lemma echo_env_alone [simp]: "alone echo_env"
  by (rule calm_alone) simp

lemma echo_env_simps [simp]:
  "ev_Secrets echo_env = MaterialResolver" "ev_Provider echo_env c p = Some (echo_provider EffectWrite)"
  "ev_scope echo_env = None" "ev_sha256 echo_env s = s" "ev_sha256_json echo_env j = sprint j"
  "ev_ctx_err echo_env n = False"
  by (simp_all add: echo_env_def calm_env_def)

lemma tables_differ [simp]:
  "connections_table \<noteq> invocations_table" "invocations_table \<noteq> connections_table" "fences \<noteq> connections_table"
  "connections_table \<noteq> fences" "fences \<noteq> invocations_table"
  by (simp_all add: connections_table_def invocations_table_def fences_def)

definition crm_connection :: row where
  "crm_connection = row_of
    [(''connection_key'', Text ''main''), (''workspace_id'', Text ''w1''), (''connector_key'', Text ''crm''),
     (''provider_key'', Text ''echo''), (''status'', Text ''active''), (''config_json'', Doc (marshal (JObj []))),
     (''secret_refs_json'', Doc (marshal (JObj []))), (''updated_at'', Text ''t0'')]"

definition crm_db :: database where
  "crm_db = (\<lambda>t. if t = connections_table then [crm_connection] else [])"

definition crm_delivery :: DeliveryRequest where
  "crm_delivery =
    \<lparr>dr_MessageID = ''m1'', dr_DeduplicationKey = ''m1'', dr_WorkspaceID = ''w1'', dr_ConnectorKey = ''crm'',
     dr_ConnectionKey = ''main'', dr_Operation = ''send'', dr_Payload = marshal (JObj [])\<rparr>"

definition crm_target :: deliveryConnection where
  "crm_target =
    \<lparr>dc_Key = ''main'', dc_WorkspaceID = ''w1'', dc_ConnectorKey = ''crm'', dc_ProviderKey = ''echo'',
     dc_Status = ''active'', dc_UpdatedAt = ''t0'', dc_Config = [], dc_SecretRefs = []\<rparr>"

lemma crm_connection_found:
  "calm E \<Longrightarrow> w_db w connections_table = [crm_connection] \<Longrightarrow>
   delivery_connection E ''w1'' ''crm'' ''main'' w = (Inr crm_target, w\<lparr>w_step := Suc (w_step w)\<rparr>)"
  by (simp add: delivery_connection_def run_steps select_rows_def crm_connection_def crm_target_def where_simps
      ascending_def scan_delivery_connection_def decode_string_map_def)

lemmas run_delivery =
  run_steps Let_def select_rows_def where_simps update_rows_def conflicts_def row_fenced_def
  find_provider_def find_operation_def providerOperation_def echo_provider_def echo_operation_def
  resolveProviderSecrets_def ResolveSecretReferencesSnapshot_def persistProviderSecretUpdates_def
  delivery_receipt_def prepareInvocation_def prepareInvocationWithMetadata_def insertInvocation_def
  finishInvocation_def

lemma crm_accepted: "\<exists>rcp w'. Accept echo_env crm_delivery (world_of crm_db) = (Inr (rcp, None), w')"
  by (simp add: Accept_def crm_delivery_def crm_db_def world_of_def crm_connection_found crm_target_def run_delivery)

theorem delivery_receipt_truthful_witness:
  "\<exists>rcp w' r. Accept echo_env crm_delivery (world_of crm_db) = (Inr (rcp, None), w') \<and>
     invocation_row (w_db w') (deliveryInvocationID echo_env ''m1'') r \<and> text_of (r ''status'') = ''succeeded''"
proof -
  obtain rcp w' where a: "Accept echo_env crm_delivery (world_of crm_db) = (Inr (rcp, None), w')"
    using crm_accepted by blast
  have "dr_MessageID crm_delivery = ''m1''" by (simp add: crm_delivery_def)
  with delivery_receipt_truthful [OF _ a] a show ?thesis by auto
qed

text \<open>The second run has its first statement dropped: it fails, and still calls nobody.\<close>

theorem accept_idempotent_witness:
  "\<exists>rcp w'. Accept echo_env crm_delivery (world_of crm_db) = (Inr (rcp, None), w') \<and>
     w_calls (snd (Accept (echo_env\<lparr>ev_fault := \<lambda>n. Dropped\<rparr>) crm_delivery w')) = w_calls w'"
proof -
  obtain rcp w' where a: "Accept echo_env crm_delivery (world_of crm_db) = (Inr (rcp, None), w')"
    using crm_accepted by blast
  have "keyed (w_db (world_of crm_db)) invocations_table"
    by (simp add: keyed_def world_of_def crm_db_def)
  from accept_idempotent [OF _ this a, of "\<lambda>n. Dropped"] a show ?thesis by auto
qed

definition message_fence :: row where
  "message_fence = row_of
    [(''id'', Text ''f1''), (''workspace_id'', Text ''w1''), (''kind'', Text ''message''), (''object_key'', Text []),
     (''resource_id'', Text ''m1''), (''request_id'', Text ''r1'')]"

theorem fenced_delivery_calls_nobody_witness:
  "w_calls (snd (Accept echo_env crm_delivery (world_of (crm_db(fences := [message_fence]))))) = []"
proof -
  let ?w = "world_of (crm_db(fences := [message_fence]))"
  have "w_calls (snd (Accept echo_env crm_delivery ?w)) = w_calls ?w \<and>
      fenced (w_db (snd (Accept echo_env crm_delivery ?w))) (dr_WorkspaceID crm_delivery) ''message'' [] ''m1''"
  proof (rule fenced_delivery_calls_nobody)
    show "delivery_fence echo_env crm_delivery (''message'', [], ''m1'')"
      by (simp add: delivery_fence_def crm_delivery_def)
  qed (use echo_env_alone in \<open>simp_all add: alone_def world_of_def crm_delivery_def fenced_def is_fence_def message_fence_def\<close>)
  then show ?thesis by (simp add: world_of_def)
qed

end
