(* ===== verification/Operations.thy ===== *)
theory Operations
  imports Delivery
begin

text \<open>
  \<open>operations_store.go\<close> and the operations part of \<open>integration_domain_service.go\<close>: the
  synchronous provider call, standard or sensitive, and the reading of invocations. The lemmas
  say that a sensitive call is made at most once for a request id and stores no payload.
\<close>

definition operationInvocationID :: "env \<Rightarrow> string \<Rightarrow> string \<Rightarrow> string" where
  "operationInvocationID E workspaceID requestID =
    ''call:'' @ ev_sha256 E (trim_space workspaceID @ [CHR 0x00] @ trim_space requestID)"

section \<open>Reading invocations\<close>

definition scan_invocation :: "row \<Rightarrow> Invocation dbop" where
  "scan_invocation r =
    seq (scan_texts r [''id'', ''workspace_id'', ''connector_key'', ''operation'', ''status'', ''duration_ms'',
                       ''metadata_json'', ''created_at'', ''updated_at'']) (\<lambda>_.
    let value = (\<lambda>metadata.
      \<lparr>ivc_ID = text_of (r ''id''), ivc_WorkspaceID = text_of (r ''workspace_id''),
       ivc_ConnectorKey = text_of (r ''connector_key''), ivc_ProviderKey = text_of (r ''provider_key''),
       ivc_ConnectionKey = text_of (r ''connection_key''), ivc_Operation = text_of (r ''operation''),
       ivc_Status = text_of (r ''status''), ivc_DurationMS = int_of_sql (r ''duration_ms''),
       ivc_RequestRef = text_of (r ''request_ref''), ivc_ResponseRef = text_of (r ''response_ref''),
       ivc_Error = text_of (r ''error''), ivc_EventID = text_of (r ''event_id''),
       ivc_ObjectKey = text_of (r ''object_key''), ivc_RecordID = text_of (r ''record_id''),
       ivc_WorkflowExecutionID = text_of (r ''workflow_execution_id''), ivc_Metadata = metadata,
       ivc_CreatedAt = text_of (r ''created_at''), ivc_UpdatedAt = text_of (r ''updated_at'')\<rparr>) in
    if raw_length (doc_of (r ''metadata_json'')) = 0 then ret (value [])
    else
      (case decode_object (doc_of (r ''metadata_json'')) of
         None \<Rightarrow> throw (Errorf ''decode Integration invocation metadata: %w'' [''json''])
       | Some m \<Rightarrow> ret (value m)))"

definition GetInvocation :: "env \<Rightarrow> string \<Rightarrow> string \<Rightarrow> Invocation dbop" where
  "GetInvocation E workspaceID ident =
    seq (of_result (scopedWhere (ev_scope E) (trim_space workspaceID) [] [] [Equal ''id'' (Text (trim_space ident))])) (\<lambda>p.
    seq (select_row E invocations_table p) (\<lambda>found. case found of
      None \<Rightarrow> throw (Errorf ''Integration invocation %q was not found'' [ident])
    | Some r \<Rightarrow> scan_invocation r))"

definition filter_equal :: "string \<Rightarrow> string \<Rightarrow> predicate list" where
  "filter_equal c v = (if trim_space v \<noteq> [] then [Equal c (Text (trim_space v))] else [])"

definition ListInvocations :: "env \<Rightarrow> InvocationQuery \<Rightarrow> Invocation list dbop" where
  "ListInvocations E q =
    seq (check (\<not> blank (iq_WorkspaceID q)) (Errorf ''Integration invocation workspace is required'' [])) (\<lambda>_.
    seq (of_result (scopedWhere (ev_scope E) (trim_space (iq_WorkspaceID q)) [] [] [])) (\<lambda>p.
    let limit = (if iq_Limit q \<le> 0 \<or> iq_Limit q > 500 then 100 else iq_Limit q) in
    seq (select E invocations_table
      (And (p # filter_equal ''connector_key'' (iq_ConnectorKey q) @ filter_equal ''connection_key'' (iq_ConnectionKey q) @
            filter_equal ''operation'' (iq_Operation q) @ filter_equal ''status'' (iq_Status q) @
            (if trim_space (iq_CreatedFrom q) \<noteq> []
             then [GreaterThanOrEqual ''created_at'' (Text (trim_space (iq_CreatedFrom q)))] else [])))) (\<lambda>rs.
    each scan_invocation (take (nat limit) (descending ''created_at'' rs)))))"

definition invocationResponse :: "(string \<times> json) list \<Rightarrow> raw_message" where
  "invocationResponse metadata =
    (case map_of metadata ''response'' of None \<Rightarrow> raw_nil | Some JNull \<Rightarrow> raw_nil | Some v \<Rightarrow> marshal v)"

section \<open>Calling a provider\<close>

definition source_json :: "InvocationSource \<Rightarrow> json" where
  "source_json s = JObj (filter (\<lambda>(k, v). v \<noteq> JStr [])
    [(''execution_id'', JStr (src_ExecutionID s)), (''object_key'', JStr (src_ObjectKey s)),
     (''record_id'', JStr (src_RecordID s))])"

definition sensitiveInvocationMetadata :: "ProviderCallRequest \<Rightarrow> (string \<times> json option) list" where
  "sensitiveInvocationMetadata request =
    [(''kind'', Some (JStr ''operation-v1'')), (''actor_id'', Some (JStr (pc_ActorID request))),
     (''source'', Some (source_json (pc_Source request))), (''message_id'', Some (JStr (pc_RequestID request))),
     (''payload_persistence'', Some (JStr PersistenceSensitive)),
     (''masked_destination'', Some (JStr (trim_space (pc_MaskedDestination request))))]"

definition is_sensitive :: "ProviderCallRequest \<Rightarrow> bool" where
  "is_sensitive request \<longleftrightarrow> pc_PersistenceMode request = PersistenceSensitive"

definition prepareProviderInvocation ::
    "env \<Rightarrow> string \<Rightarrow> DeliveryRequest \<Rightarrow> deliveryConnection \<Rightarrow> ProviderCallRequest \<Rightarrow> unit dbop" where
  "prepareProviderInvocation E ident delivery connection request =
    (if \<not> is_sensitive request then
       prepareInvocationWithMetadata E ident delivery connection
         (marshal_map [(''kind'', Some (JStr ''operation-v1'')), (''actor_id'', Some (JStr (pc_ActorID request))),
            (''source'', Some (source_json (pc_Source request))), (''message_id'', Some (JStr (pc_RequestID request))),
            (''payload'', embed_raw (pc_Payload request))])
     else
       insertInvocation E ident delivery (dc_Key connection) (dc_ProviderKey connection)
         (marshal_map (sensitiveInvocationMetadata request)))"

definition call_delivery_request :: "ProviderCallRequest \<Rightarrow> DeliveryRequest" where
  "call_delivery_request request =
    \<lparr>dr_MessageID = pc_RequestID request, dr_DeduplicationKey = pc_RequestID request,
     dr_WorkspaceID = pc_WorkspaceID request, dr_ConnectorKey = pc_ConnectorKey request,
     dr_ConnectionKey = pc_ConnectionKey request, dr_Operation = pc_Operation request, dr_Payload = pc_Payload request\<rparr>"

definition operation_call ::
    "ProviderCallRequest \<Rightarrow> deliveryConnection \<Rightarrow> OperationDescriptor \<Rightarrow> (string \<times> string) list \<Rightarrow> CallRequest" where
  "operation_call request connection operation secrets =
    \<lparr>cr_ConnectorKey = dc_ConnectorKey connection, cr_ProviderKey = dc_ProviderKey connection,
     cr_OperationKey = pc_Operation request, cr_ContractSHA256 = od_ContractSHA256 operation,
     cr_Mode = od_Mode operation, cr_Payload = pc_Payload request, cr_RequestRef = pc_RequestID request,
     cr_Delivery = False, cr_Secrets = secrets, cr_Connection = sdk_connection connection,
     cr_Principal = \<lparr>pr_UserID = pc_ActorID request, pr_RoleKey = pc_RoleKey request,
                     pr_WorkspaceID = pc_WorkspaceID request, pr_RequestID = pc_RequestID request,
                     pr_IsAuthenticated = \<not> blank (pc_ActorID request)\<rparr>\<rparr>"

text \<open>The expectation of an account read: the same connection, provider, contract and effect.\<close>

definition read_expectation_met ::
    "ProviderReadExpectation option \<Rightarrow> deliveryConnection \<Rightarrow> OperationDescriptor \<Rightarrow> bool" where
  "read_expectation_met expectation connection operation =
    (case expectation of
       None \<Rightarrow> True
     | Some expected \<Rightarrow>
         \<not> (pre_ConnectionUpdatedAt expected = [] \<or> pre_ConnectionUpdatedAt expected \<noteq> dc_UpdatedAt connection \<or>
            pre_ProviderKey expected \<noteq> dc_ProviderKey connection \<or>
            pre_ContractSHA256 expected \<noteq> od_ContractSHA256 operation \<or> od_Effect operation \<noteq> EffectRead))"

text \<open>The write after the call: status, response reference, error and metadata by persistence mode.\<close>

definition finish_call ::
    "env \<Rightarrow> ProviderCallRequest \<Rightarrow> string \<Rightarrow> time \<Rightarrow> CallResult \<Rightarrow> err option \<Rightarrow> nat dbop" where
  "finish_call E request ident started result callErr =
    seq (now E) (\<lambda>ended.
    seq (now E) (\<lambda>t.
    let sensitive = is_sensitive request;
        status = (if callErr = None then ''succeeded'' else ''failed'');
        errorText = (case callErr of None \<Rightarrow> []
                     | Some e \<Rightarrow> if sensitive then ''sensitive provider call failed'' else err_text e);
        responseRef = (if sensitive then [] else res_ResponseRef result);
        metadata = (if sensitive then sensitiveInvocationMetadata request
                    else [(''resource_health'', Some (res_ResourceHealth result)),
                          (''request'', embed_raw (pc_Payload request)), (''response'', embed_raw (res_Payload result)),
                          (''kind'', Some (JStr ''operation-v1'')), (''actor_id'', Some (JStr (pc_ActorID request))),
                          (''source'', Some (source_json (pc_Source request)))]) in
    guarded_update E invocations_table
      [(''status'', Text status), (''duration_ms'', Num ((ended - started) div 1000000)),
       (''response_ref'', Text responseRef), (''error'', Text errorText), (''metadata_json'', Doc (marshal_map metadata)),
       (''updated_at'', timestamp t)]
      (And [Equal ''workspace_id'' (Text (pc_WorkspaceID request)), Equal ''id'' (Text ident)])))"

definition guard_call :: "env \<Rightarrow> ProviderCallRequest \<Rightarrow> unit dbop" where
  "guard_call E request =
    seq (if src_RecordID (pc_Source request) \<noteq> [] then
           guardSubjectWrite E (pc_WorkspaceID request)
             [(''resource'', src_ObjectKey (pc_Source request), src_RecordID (pc_Source request))]
         else ret ()) (\<lambda>_.
    if pc_ActorID request \<noteq> [] then guardSubjectWrite E (pc_WorkspaceID request) [(''subject'', [], pc_ActorID request)]
    else ret ())"

text \<open>
  What follows the guards and the lookup of a finished invocation. As in \<open>Accept\<close>, the error in
  the result is the provider's, returned together with the invocation.
\<close>

definition call_uncached ::
    "env \<Rightarrow> ProviderCallRequest \<Rightarrow> string \<Rightarrow> (ProviderCallResult \<times> err option) dbop" where
  "call_uncached E request ident =
    seq (delivery_connection E (pc_WorkspaceID request) (pc_ConnectorKey request) (pc_ConnectionKey request)) (\<lambda>connection.
    seq (find_provider E connection) (\<lambda>p.
    seq (find_operation p connection (pc_Operation request)) (\<lambda>operation.
    seq (check (od_Mode operation = ModeCall)
           (Errorf ''Integration operation %s is not a synchronous call'' [pc_Operation request])) (\<lambda>_.
    seq (check (read_expectation_met (pc_ReadExpectation request) connection operation)
           (Errorf ''Integration account read target changed before execution'' [])) (\<lambda>_.
    seq (resolveProviderSecrets E (pc_WorkspaceID request) (dc_SecretRefs connection)) (\<lambda>resolved.
    seq (prepareProviderInvocation E ident (call_delivery_request request) connection request) (\<lambda>_.
    seq (now E) (\<lambda>started.
    seq (call_provider p (operation_call request connection operation (rps_Values resolved))) (\<lambda>(result, callErr).
    seq (persistProviderSecretUpdates E (pc_WorkspaceID request) (dc_SecretRefs connection)
           (rps_Versions resolved) (res_SecretUpdates result) callErr) (\<lambda>callErr.
    seq (finish_call E request ident started result callErr) (\<lambda>_.
    seq (GetInvocation E (pc_WorkspaceID request) ident) (\<lambda>invocation.
    ret (\<lparr>pcr_Invocation = invocation, pcr_Response = (if callErr = None then res_Payload result else raw_nil)\<rparr>,
         callErr)))))))))))))"

definition Call :: "env \<Rightarrow> ProviderCallRequest \<Rightarrow> (ProviderCallResult \<times> err option) dbop" where
  "Call E request =
    seq (guard_call E request) (\<lambda>_.
    let ident = operationInvocationID E (pc_WorkspaceID request) (pc_RequestID request) in
    seq (try_op (GetInvocation E (pc_WorkspaceID request) ident)) (\<lambda>found.
    case found of
      Inr current \<Rightarrow>
        if ivc_Status current = ''succeeded'' then
          ret (\<lparr>pcr_Invocation = current,
                pcr_Response = (if is_sensitive request then raw_nil
                                else invocationResponse (ivc_Metadata current))\<rparr>, None)
        else call_uncached E request ident
    | Inl _ \<Rightarrow> call_uncached E request ident))"

text \<open>The domain service in front of the store.\<close>

definition validate_call :: "ProviderCallRequest \<Rightarrow> err option" where
  "validate_call v =
    first_err
      [InvocationSource_Validate (pc_Source v),
       fails_if (blank (pc_RequestID v) \<or> blank (pc_WorkspaceID v) \<or> blank (pc_ConnectorKey v) \<or>
                 blank (pc_Operation v) \<or> \<not> json_valid (pc_Payload v))
         (Errorf ''Integration provider call is invalid'' []),
       fails_if (pc_PersistenceMode v \<noteq> [] \<and> pc_PersistenceMode v \<noteq> PersistenceStandard \<and>
                 pc_PersistenceMode v \<noteq> PersistenceSensitive)
         (Errorf ''Integration provider call persistence mode is invalid'' []),
       fails_if (pc_PersistenceMode v = PersistenceSensitive \<and> blank (pc_MaskedDestination v))
         (Errorf ''Integration sensitive provider call masked destination is required'' [])]"

definition Service_Call :: "env \<Rightarrow> ProviderCallRequest \<Rightarrow> (ProviderCallResult \<times> err option) dbop" where
  "Service_Call E v = (case validate_call v of Some e \<Rightarrow> throw e | None \<Rightarrow> Call E v)"

section \<open>What calls are built from\<close>

context store_writes
begin

lemma within_GetInvocation: "within (GetInvocation E ws i)"
  unfolding GetInvocation_def scan_invocation_def Let_def by (intro within_secret_writes)

lemma within_ListInvocations: "within (ListInvocations E q)"
  unfolding ListInvocations_def scan_invocation_def Let_def by (intro within_secret_writes)

lemma within_prepareProviderInvocation: "within (prepareProviderInvocation E i d c request)"
  unfolding prepareProviderInvocation_def by (intro within_delivery within_if)

lemma within_finish_call: "within (finish_call E request i t result e)"
  unfolding finish_call_def Let_def by (intro within_delivery) (simp_all add: keeps_identity_def)

lemma within_guard_call: "within (guard_call E request)"
  unfolding guard_call_def by (intro within_delivery)

lemmas within_operations =
  within_delivery within_GetInvocation within_ListInvocations within_prepareProviderInvocation
  within_finish_call within_guard_call

end

context store_calls
begin

lemma within_call_uncached: "within (call_uncached E request i)"
  unfolding call_uncached_def by (intro within_operations within_call_provider)

lemma within_Call: "within (Call E request)"
  unfolding Call_def Let_def by (intro within_operations within_call_uncached)

end

section \<open>A sensitive call is made at most once\<close>

lemma insertInvocation_stops:
  "evolution.within (quiet_where (has_id invocations_table i) E) (seq (insertInvocation E i d ck pk metadata) f)"
  unfolding insertInvocation_def seq_assoc
  by (intro id_quiet.within_seq id_quiet.within_guard id_quiet.within_now within_after_insert) simp

lemma sensitive_uncached_stops:
  "is_sensitive request \<Longrightarrow>
   evolution.within (quiet_where (has_id invocations_table i) E) (call_uncached E request i)"
  unfolding call_uncached_def prepareProviderInvocation_def
  by (simp, intro insertInvocation_stops id_quiet.within_operations)

text \<open>A sensitive call whose id is taken calls nobody, whatever state the invocation is in.\<close>

lemma sensitive_Call_taken:
  "is_sensitive request \<Longrightarrow>
   evolution.within
     (quiet_where (has_id invocations_table (operationInvocationID E (pc_WorkspaceID request) (pc_RequestID request))) E)
     (Call E request)"
  unfolding Call_def Let_def by (intro sensitive_uncached_stops id_quiet.within_operations)

lemma insertInvocation_claims:
  "insertInvocation E i d ck pk metadata w = (Inr u, w') \<Longrightarrow> has_id invocations_table i (w_db w')"
  unfolding insertInvocation_def op_Inr by (auto intro!: insert_establishes)

lemma single_call_insertInvocation:
  "(\<And>x. single_call_under (has_id invocations_table i) E (f x)) \<Longrightarrow>
   single_call (has_id invocations_table i) E (seq (insertInvocation E i d ck pk metadata) f)"
  by (rule single_call_claim [OF quiet.within_insertInvocation]) (rule insertInvocation_claims)

lemma sensitive_Call_single:
  assumes "is_sensitive request"
  shows "single_call
    (has_id invocations_table (operationInvocationID E (pc_WorkspaceID request) (pc_RequestID request))) E (Call E request)"
proof -
  have uncached: "single_call (has_id invocations_table i) E (call_uncached E request i)" for i
    unfolding call_uncached_def prepareProviderInvocation_def call_provider_def if_not_P [of "\<not> is_sensitive request"]
    using assms
    by simp
      (intro single_call_insertInvocation single_call_under_call single_call_seq single_call_under_seq
        quiet.within_operations id_quiet.within_operations)
  then show ?thesis
    unfolding Call_def Let_def
    by (intro uncached single_call_seq quiet.within_operations single_call_if single_call_sum)
      (intro single_call_quiet quiet.within_ret)
qed

text \<open>Any number of runs of \<open>Call\<close>, each with its own faults, clock and interference.\<close>

fun run_calls :: "(env \<times> ProviderCallRequest) list \<Rightarrow> world \<Rightarrow> world" where
  "run_calls [] w = w"
| "run_calls ((E, request) # runs) w = run_calls runs (snd (Call E request w))"

definition same_sensitive_call :: "string \<Rightarrow> env \<times> ProviderCallRequest \<Rightarrow> bool" where
  "same_sensitive_call i run \<longleftrightarrow>
    (case run of (E, request) \<Rightarrow>
      is_sensitive request \<and> operationInvocationID E (pc_WorkspaceID request) (pc_RequestID request) = i \<and>
      stable (has_id invocations_table i) E)"

lemma run_calls_taken:
  "list_all (same_sensitive_call i) runs \<Longrightarrow> has_id invocations_table i (w_db w) \<Longrightarrow>
   w_calls (run_calls runs w) = w_calls w"
proof (induction runs w rule: run_calls.induct)
  case (2 E request runs w)
  have runs: "list_all (same_sensitive_call i) runs" and sensitive: "is_sensitive request"
    and i: "operationInvocationID E (pc_WorkspaceID request) (pc_RequestID request) = i"
    and st: "stable (has_id invocations_table i) E" using 2(2) by (simp_all add: same_sensitive_call_def [of i "(E, request)"])
  have "has_id invocations_table i (w_db (snd (Call E request w))) \<and> w_calls (snd (Call E request w)) = w_calls w"
    using sensitive_Call_taken [OF sensitive, of E] 2(3) i st
    unfolding evolution.within_def [OF quiet_where_evolution] quiet_where_def by auto
  with 2(1) [OF runs] show ?case by simp
qed simp

text \<open>
  C4. Over any number of sensitive calls with the same invocation id, each under its own faults
  and with other processes that do not delete the claimed invocation, the provider is called at
  most once.
\<close>

theorem sensitive_call_at_most_once:
  assumes "list_all (same_sensitive_call i) runs"
  shows "\<exists>cs. w_calls (run_calls runs w) = w_calls w @ cs \<and> length cs \<le> 1"
  using assms
proof (induction runs w rule: run_calls.induct)
  case (2 E request runs w)
  let ?u = "snd (Call E request w)"
  have sensitive: "is_sensitive request" "operationInvocationID E (pc_WorkspaceID request) (pc_RequestID request) = i"
    and st: "stable (has_id invocations_table i) E" and runs: "list_all (same_sensitive_call i) runs"
    using 2(2) by (simp_all add: same_sensitive_call_def [of i "(E, request)"])
  have "w_calls ?u = w_calls w \<or> (\<exists>c. w_calls ?u = w_calls w @ [c] \<and> has_id invocations_table i (w_db ?u))"
    using sensitive_Call_single [OF sensitive(1), of E] sensitive(2) st unfolding single_call_def by auto
  with 2(1) [OF runs] run_calls_taken [OF runs, of ?u] show ?case by auto
qed simp

section \<open>A sensitive call stores no payload\<close>

text \<open>
  The row of an invocation that was there before, or one with the metadata of a sensitive call,
  which are made of the request without its payload, and with no text of the provider's answer.
\<close>

definition payload_free :: "ProviderCallRequest \<Rightarrow> row \<Rightarrow> bool" where
  "payload_free request r \<longleftrightarrow>
    r ''metadata_json'' = Doc (marshal_map (sensitiveInvocationMetadata request)) \<and>
    r ''response_ref'' \<in> {Null, Text []} \<and> r ''error'' \<in> {Null, Text [], Text ''sensitive provider call failed''}"

lemma payload_free_payload: "payload_free (request\<lparr>pc_Payload := p\<rparr>) = payload_free request"
  by (simp add: payload_free_def fun_eq_iff sensitiveInvocationMetadata_def)

definition old_or_payload_free :: "row set \<Rightarrow> ProviderCallRequest \<Rightarrow> database \<Rightarrow> bool" where
  "old_or_payload_free old request = all_rows invocations_table (\<lambda>r. r \<in> old \<or> payload_free request r)"

interpretation payload: secret_writes "inv_within (old_or_payload_free old request) E" E for old request E
  unfolding old_or_payload_free_def
  by (rule secret_writes_other_table) (simp_all add: invocations_table_def secrets_table_def materials_table_def)

lemma payload_insertInvocation:
  "evolution.within (inv_within (old_or_payload_free old request) E)
     (insertInvocation E i d ck pk (marshal_map (sensitiveInvocationMetadata request)))"
  unfolding insertInvocation_def
  by (intro payload.within_reads) (auto simp: insert_into_def old_or_payload_free_def payload_free_def
      intro!: inv_statement all_rows_insert)

lemma payload_finish_call:
  assumes "is_sensitive request"
  shows "evolution.within (inv_within (old_or_payload_free old request) E) (finish_call E request i t result e)"
proof -
  have "payload_free request (set_columns
      [(''status'', s), (''duration_ms'', n), (''response_ref'', Text []),
       (''error'', Text (case e of None \<Rightarrow> [] | Some x \<Rightarrow> ''sensitive provider call failed'')),
       (''metadata_json'', Doc (marshal_map (sensitiveInvocationMetadata request))), (''updated_at'', u)] r)" for s n u r
    by (cases e) (simp_all add: payload_free_def)
  then have "evolution.within (inv_within (old_or_payload_free old request) E)
      (guarded_update E invocations_table
        [(''status'', s), (''duration_ms'', n), (''response_ref'', Text []),
         (''error'', Text (case e of None \<Rightarrow> [] | Some x \<Rightarrow> ''sensitive provider call failed'')),
         (''metadata_json'', Doc (marshal_map (sensitiveInvocationMetadata request))), (''updated_at'', u)] p)"
    for s n u p
    unfolding guarded_update_def update_set_def old_or_payload_free_def
    by (intro inv_statement all_rows_update) simp_all
  then show ?thesis
    unfolding finish_call_def Let_def if_P [OF assms] fst_conv snd_conv by (intro payload.within_reads)
qed

lemma payload_connection:
  "evolution.within (inv_within (old_or_payload_free old request) E) (delivery_connection E ws c k)"
  unfolding delivery_connection_def scan_delivery_connection_def by (intro payload.within_reads)

lemma payload_GetInvocation:
  "evolution.within (inv_within (old_or_payload_free old request) E) (GetInvocation E ws i)"
  unfolding GetInvocation_def scan_invocation_def Let_def by (intro payload.within_reads)

lemma payload_call_provider:
  "evolution.within (inv_within (old_or_payload_free old request) E) (call_provider p c)"
  by (simp add: evolution.within_def [OF inv_evolution] inv_within_def call_provider_def record_call_def)

lemma sensitive_Call_payload:
  assumes "is_sensitive request"
  shows "evolution.within (inv_within (old_or_payload_free old request) E) (Call E request)"
proof -
  have "evolution.within (inv_within (old_or_payload_free old request) E) (call_uncached E request i)" for i
    unfolding call_uncached_def prepareProviderInvocation_def find_provider_def find_operation_def
    using assms
    by simp
      (intro payload_insertInvocation payload_finish_call payload_connection payload_GetInvocation
        payload_call_provider payload.within_secrets)
  then show ?thesis
    unfolding Call_def guard_call_def Let_def by (intro payload_GetInvocation payload.within_secrets)
qed

text \<open>
  C6. A sensitive call leaves no trace of its payload or of the provider's answer in the
  invocations: every row is one that was there before, or carries exactly the metadata that are
  computed without the payload, no response reference and at most a fixed error text.
\<close>

theorem sensitive_call_stores_no_payload:
  assumes "is_sensitive request"
    and "\<And>n d. old_or_payload_free old request d \<Longrightarrow> old_or_payload_free old request (ev_others E n d)"
    and "set (w_db w invocations_table) \<subseteq> old"
    and "r \<in> set (w_db (snd (Call E request w)) invocations_table)"
  shows "r \<in> old \<or> payload_free request r"
proof -
  have "old_or_payload_free old request (w_db w)"
    using assms(3) by (auto simp: old_or_payload_free_def all_rows_def)
  with sensitive_Call_payload [OF assms(1)] assms(2)
  have "old_or_payload_free old request (w_db (snd (Call E request w)))"
    unfolding evolution.within_def [OF inv_evolution] inv_within_def by blast
  with assms(4) show ?thesis by (simp add: old_or_payload_free_def all_rows_def)
qed

section \<open>Fenced calls\<close>

text \<open>The fences that stop a call: its record, its actor, its request as a message, its row.\<close>

definition call_fence :: "env \<Rightarrow> ProviderCallRequest \<Rightarrow> fence_ref \<Rightarrow> bool" where
  "call_fence E request ref \<longleftrightarrow>
    ref = (''resource'', src_ObjectKey (pc_Source request), src_RecordID (pc_Source request)) \<and>
      src_RecordID (pc_Source request) \<noteq> [] \<or>
    ref = (''subject'', [], pc_ActorID request) \<and> pc_ActorID request \<noteq> []"

lemma guard_call_stops:
  assumes "call_fence E request (k, g, i)"
  shows "evolution.within (quiet_where (\<lambda>d. fenced d (pc_WorkspaceID request) k g i) E) (seq (guard_call E request) f)"
proof (cases "(k, g, i) = (''resource'', src_ObjectKey (pc_Source request), src_RecordID (pc_Source request)) \<and>
    src_RecordID (pc_Source request) \<noteq> []")
  case True
  then show ?thesis
    unfolding guard_call_def seq_assoc
    by (simp only: if_True simp_thms prod.inject, intro within_after_guard; simp)
next
  case False
  with assms have actor: "(k, g, i) = (''subject'', [], pc_ActorID request)" "pc_ActorID request \<noteq> []"
    by (auto simp: call_fence_def)
  have "evolution.within (quiet_where (\<lambda>d. fenced d (pc_WorkspaceID request) k g i) E)
      (seq (guardSubjectWrite E (pc_WorkspaceID request) [(''subject'', [], pc_ActorID request)]) f)"
    using actor by (intro within_after_guard) simp_all
  then have "evolution.within (quiet_where (\<lambda>d. fenced d (pc_WorkspaceID request) k g i) E)
      (seq first (\<lambda>_. seq (guardSubjectWrite E (pc_WorkspaceID request) [(''subject'', [], pc_ActorID request)]) f))"
    if "evolution.within (quiet_where (\<lambda>d. fenced d (pc_WorkspaceID request) k g i) E) first" for first :: "unit dbop"
    using that by (rule fence_quiet.within_seq [rotated])
  then show ?thesis
    unfolding guard_call_def seq_assoc if_P [OF actor(2)]
    by (blast intro: fence_quiet.within_if fence_quiet.within_guard fence_quiet.within_ret)
qed

text \<open>
  A call on behalf of an erased actor or about an erased record reaches no provider, as long
  as other processes leave the fence in place.
\<close>

theorem fenced_call_calls_nobody:
  assumes "call_fence E request (k, g, i)"
    and "\<And>n d. fenced d (pc_WorkspaceID request) k g i \<Longrightarrow> fenced (ev_others E n d) (pc_WorkspaceID request) k g i"
    and "fenced (w_db w) (pc_WorkspaceID request) k g i"
  shows "w_calls (snd (Call E request w)) = w_calls w"
proof -
  have "evolution.within (quiet_where (\<lambda>d. fenced d (pc_WorkspaceID request) k g i) E) (Call E request)"
    unfolding Call_def by (rule guard_call_stops [OF assms(1)])
  then show ?thesis
    using assms(2,3) unfolding evolution.within_def [OF quiet_where_evolution] quiet_where_def stable_def by blast
qed

section \<open>A sensitive call in the calm environment\<close>

definition crm_call :: ProviderCallRequest where
  "crm_call =
    \<lparr>pc_Source = \<lparr>src_ExecutionID = [], src_ObjectKey = ''customer'', src_RecordID = ''r1''\<rparr>,
     pc_ReadExpectation = None, pc_RequestID = ''q1'', pc_WorkspaceID = ''w1'', pc_ConnectorKey = ''crm'',
     pc_ConnectionKey = ''main'', pc_Operation = ''send'', pc_Payload = marshal (JObj []),
     pc_PersistenceMode = PersistenceSensitive, pc_MaskedDestination = ''+1***'', pc_ActorID = ''u1'',
     pc_RoleKey = ''member''\<rparr>"

text \<open>Two runs: the second one meets the invocation of the first and calls nobody.\<close>

theorem sensitive_call_at_most_once_witness:
  "\<exists>cs. w_calls (run_calls [(echo_env, crm_call), (echo_env\<lparr>ev_fault := \<lambda>n. Unacknowledged\<rparr>, crm_call)]
      (world_of crm_db)) = cs \<and> length cs \<le> 1"
proof -
  let ?i = "operationInvocationID echo_env ''w1'' ''q1''"
  let ?runs = "[(echo_env, crm_call), (echo_env\<lparr>ev_fault := \<lambda>n. Unacknowledged\<rparr>, crm_call)]"
  have st: "stable (has_id invocations_table ?i) echo_env"
    using echo_env_alone unfolding alone_def stable_def by simp
  have "list_all (same_sensitive_call ?i) ?runs"
    using st by (simp add: same_sensitive_call_def crm_call_def is_sensitive_def operationInvocationID_def stable_def)
  from sensitive_call_at_most_once [OF this, of "world_of crm_db"] show ?thesis by (simp add: world_of_def)
qed

theorem sensitive_call_stores_no_payload_witness:
  "list_all (payload_free crm_call) (w_db (snd (Call echo_env crm_call (world_of crm_db))) invocations_table)"
  unfolding list_all_iff
proof
  fix r
  assume r: "r \<in> set (w_db (snd (Call echo_env crm_call (world_of crm_db))) invocations_table)"
  have "is_sensitive crm_call" by (simp add: is_sensitive_def crm_call_def)
  from sensitive_call_stores_no_payload [OF this, of "{}" echo_env "world_of crm_db" r] r echo_env_alone
  show "payload_free crm_call r" by (simp add: alone_def world_of_def crm_db_def)
qed

definition actor_fence :: row where
  "actor_fence = row_of
    [(''id'', Text ''f1''), (''workspace_id'', Text ''w1''), (''kind'', Text ''subject''), (''object_key'', Text []),
     (''resource_id'', Text ''u1''), (''request_id'', Text ''r1'')]"

theorem fenced_call_calls_nobody_witness:
  "w_calls (snd (Call echo_env crm_call (world_of (crm_db(fences := [actor_fence]))))) = []"
proof -
  let ?w = "world_of (crm_db(fences := [actor_fence]))"
  have "w_calls (snd (Call echo_env crm_call ?w)) = w_calls ?w"
  proof (rule fenced_call_calls_nobody)
    show "call_fence echo_env crm_call (''subject'', [], ''u1'')"
      by (simp add: call_fence_def crm_call_def)
  qed (use echo_env_alone in \<open>simp_all add: alone_def world_of_def crm_call_def fenced_def is_fence_def actor_fence_def\<close>)
  then show ?thesis by (simp add: world_of_def)
qed

end
