(* ===== verification/ConnectionAccounts.thy ===== *)
theory ConnectionAccounts
  imports Secrets ScopeState WebPush
begin

text \<open>
  \<open>connection_account_store.go\<close>, \<open>connection_readiness.go\<close> and the readers of
  \<open>management_store.go\<close> and \<open>management_secret_store.go\<close> that they use: the accounts that a
  subject may see, their readiness, publishing a connection as an account, reserving its
  credentials, and revoking it.
\<close>

definition accounts_table :: string where "accounts_table = ''_integration_connection_accounts''"
definition account_secrets_table :: string where
  "account_secrets_table = ''_integration_connection_account_secrets''"
definition grants_table :: string where "grants_table = ''_integration_connection_grants''"

section \<open>Connections and secrets as the owner reads them\<close>

record ManagedConnection =
  mc_Key :: string
  mc_WorkspaceID :: string
  mc_ConnectorKey :: string
  mc_ProviderKey :: string
  mc_Name :: string
  mc_Status :: string
  mc_Config :: "(string \<times> json) list"
  mc_SecretRefs :: "(string \<times> string) list"
  mc_CreatedBy :: string
  mc_CreatedAt :: string
  mc_UpdatedAt :: string

definition requiredOwnerValue :: "string \<Rightarrow> string \<Rightarrow> err + string" where
  "requiredOwnerValue label v =
    (if trim_space v = [] then Inl (Errorf ''Integration %s is required'' [label]) else Inr (trim_space v))"

definition ownerID :: "env \<Rightarrow> string \<Rightarrow> string \<Rightarrow> string \<Rightarrow> string" where
  "ownerID E prefix workspaceID key =
    prefix @ take 32 (ev_sha256 E (trim_space workspaceID @ [CHR 0x00] @ trim_space key))"

definition ownerNow :: "env \<Rightarrow> string dbop" where
  "ownerNow E = seq (now E) (\<lambda>t. ret (format_rfc3339nano t))"

definition scanConnection :: "row \<Rightarrow> ManagedConnection dbop" where
  "scanConnection r =
    seq (scan_texts r [''connection_key'', ''workspace_id'', ''connector_key'', ''provider_key'', ''status'',
                       ''config_json'', ''secret_refs_json'', ''created_at'', ''updated_at'']) (\<lambda>_.
    case decode_object (doc_of (r ''config_json'')) of
      None \<Rightarrow> throw (Errorf ''decode Integration connection config: %w'' [''json''])
    | Some config \<Rightarrow>
        (case decode_string_map (doc_of (r ''secret_refs_json'')) of
           None \<Rightarrow> throw (Errorf ''decode Integration connection secret references: %w'' [''json''])
         | Some refs \<Rightarrow>
             ret \<lparr>mc_Key = text_of (r ''connection_key''), mc_WorkspaceID = text_of (r ''workspace_id''),
                  mc_ConnectorKey = text_of (r ''connector_key''), mc_ProviderKey = text_of (r ''provider_key''),
                  mc_Name = text_of (r ''name''), mc_Status = text_of (r ''status''), mc_Config = config,
                  mc_SecretRefs = refs, mc_CreatedBy = text_of (r ''created_by''),
                  mc_CreatedAt = text_of (r ''created_at''), mc_UpdatedAt = text_of (r ''updated_at'')\<rparr>))"

definition ListConnections :: "env \<Rightarrow> string \<Rightarrow> ManagedConnection list dbop" where
  "ListConnections E workspaceID =
    seq (of_result (requiredOwnerValue ''workspace ID'' workspaceID)) (\<lambda>workspaceID.
    seq (of_result (scopedWhere (ev_scope E) workspaceID [] [] [])) (\<lambda>p.
    seq (select E connections_table p) (\<lambda>rs.
    each scanConnection (ascending ''connection_key'' rs))))"

definition GetConnection :: "env \<Rightarrow> string \<Rightarrow> string \<Rightarrow> ManagedConnection dbop" where
  "GetConnection E workspaceID key =
    seq (of_result (requiredOwnerValue ''workspace ID'' workspaceID)) (\<lambda>workspaceID.
    seq (of_result (requiredOwnerValue ''connection key'' key)) (\<lambda>key.
    seq (of_result (scopedWhere (ev_scope E) workspaceID [] [] [Equal ''connection_key'' (Text key)])) (\<lambda>p.
    seq (select_row E connections_table p) (\<lambda>found. case found of
      None \<Rightarrow> throw (Errorf ''Integration connection %q was not found'' [key])
    | Some r \<Rightarrow> scanConnection r))))"

record Secret =
  sec_Key :: string
  sec_WorkspaceID :: string
  sec_Kind :: string
  sec_Status :: string
  sec_Description :: string
  sec_ValueRef :: string
  sec_Fingerprint :: string
  sec_Configured :: bool
  sec_CreatedBy :: string
  sec_CreatedAt :: string
  sec_UpdatedAt :: string
  sec_DisabledAt :: string
  sec_ExpiresAt :: string
  sec_RotatedAt :: string
  sec_RevokedAt :: string
  sec_LastTestedAt :: string
  sec_LastTestStatus :: string
  sec_LastTestError :: string

definition scanSecret :: "row \<Rightarrow> Secret dbop" where
  "scanSecret r =
    seq (scan_texts r [''secret_key'', ''workspace_id'', ''kind'', ''status'', ''created_at'', ''updated_at'']) (\<lambda>_.
    ret \<lparr>sec_Key = text_of (r ''secret_key''), sec_WorkspaceID = text_of (r ''workspace_id''),
         sec_Kind = text_of (r ''kind''), sec_Status = text_of (r ''status''),
         sec_Description = text_of (r ''description''), sec_ValueRef = text_of (r ''value_ref''),
         sec_Fingerprint = text_of (r ''fingerprint''),
         sec_Configured = (text_of (r ''value_ref'') \<noteq> [] \<or> text_of (r ''fingerprint'') \<noteq> []),
         sec_CreatedBy = text_of (r ''created_by''), sec_CreatedAt = text_of (r ''created_at''),
         sec_UpdatedAt = text_of (r ''updated_at''), sec_DisabledAt = text_of (r ''disabled_at''),
         sec_ExpiresAt = text_of (r ''expires_at''), sec_RotatedAt = text_of (r ''rotated_at''),
         sec_RevokedAt = text_of (r ''revoked_at''), sec_LastTestedAt = text_of (r ''last_tested_at''),
         sec_LastTestStatus = text_of (r ''last_test_status''), sec_LastTestError = text_of (r ''last_test_error'')\<rparr>)"

definition ListSecrets :: "env \<Rightarrow> string \<Rightarrow> Secret list dbop" where
  "ListSecrets E workspaceID =
    seq (of_result (requiredOwnerValue ''workspace ID'' workspaceID)) (\<lambda>workspaceID.
    seq (of_result (scopedWhere (ev_scope E) workspaceID [] [] [])) (\<lambda>p.
    seq (select E secrets_table p) (\<lambda>rs.
    each scanSecret (ascending ''secret_key'' rs))))"

definition getSecret :: "env \<Rightarrow> string \<Rightarrow> string \<Rightarrow> Secret dbop" where
  "getSecret E workspaceID key =
    seq (of_result (scopedWhere (ev_scope E) (trim_space workspaceID) [] []
           [Equal ''secret_key'' (Text (trim_space key))])) (\<lambda>p.
    seq (select_row E secrets_table p) (\<lambda>found. case found of
      None \<Rightarrow> throw (Errorf ''Integration secret %q was not found'' [key])
    | Some r \<Rightarrow> scanSecret r))"

section \<open>Accounts\<close>

record ConnectionAccountTestEligibility =
  te_Allowed :: bool
  te_State :: string
  te_ScopeAlternatives :: "string list list"

record ConnectionAccountReadiness =
  rd_Available :: bool
  rd_State :: string
  rd_GrantedScopes :: "string list"
  rd_Test :: "ConnectionAccountTestEligibility option"

record ConnectionAccount =
  ca_Key :: string
  ca_WorkspaceID :: string
  ca_ConnectorKey :: string
  ca_ProviderKey :: string
  ca_Name :: string
  ca_Scope :: string
  ca_OwnerUserID :: string
  ca_Status :: string
  ca_CreatedAt :: string
  ca_UpdatedAt :: string
  ca_Readiness :: "ConnectionAccountReadiness option"

text \<open>The two account scopes of the integration SDK.\<close>

definition ScopePersonal :: string where "ScopePersonal = ''personal''"
definition ScopeWorkspace :: string where "ScopeWorkspace = ''workspace''"

definition errConnectionAccountNotFound :: err where
  "errConnectionAccountNotFound = Errorf ''Integration connection account was not found'' []"
definition errConnectionAccountChanged :: err where
  "errConnectionAccountChanged = Errorf ''Integration connection account changed'' []"

definition normalizedConnectionAccountSubject ::
    "env \<Rightarrow> ConnectionAccountSubject \<Rightarrow> err + ConnectionAccountSubject" where
  "normalizedConnectionAccountSubject E subject =
    (let subject = subject\<lparr>sub_WorkspaceID := trim_space (sub_WorkspaceID subject),
                           sub_UserID := trim_space (sub_UserID subject)\<rparr> in
     case sdk_SubjectValidate (ev_SDK E) subject of Some e \<Rightarrow> Inl e | None \<Rightarrow> Inr subject)"

definition requireConnectionAccountSubjectScope :: "AccessScope option \<Rightarrow> ConnectionAccountSubject \<Rightarrow> err option" where
  "requireConnectionAccountSubjectScope ctx subject =
    (case ctx of
       None \<Rightarrow> None
     | Some scope \<Rightarrow>
         if \<not> AccessScope_Valid scope \<or> as_WorkspaceID scope \<noteq> sub_WorkspaceID subject \<or>
            as_ActorID scope \<noteq> sub_UserID subject
         then Some (Errorf ''Integration connection account subject does not match the authorized principal'' [])
         else
           (let access = scope_ConnectionAccountAccess scope in
            if acc_Personal (sub_Access subject) \<and> \<not> acc_Personal access \<or>
               acc_Workspace (sub_Access subject) \<and> \<not> acc_Workspace access
            then Some (Errorf ''Integration connection account access exceeds the authorized scope'' [])
            else None))"

text \<open>The condition on an account row that the subject may see.\<close>

definition connectionAccountAccess :: "ConnectionAccountSubject \<Rightarrow> predicate" where
  "connectionAccountAccess subject =
    And [Equal ''workspace_id'' (Text (sub_WorkspaceID subject)),
         Or [if acc_Personal (sub_Access subject)
             then And [Equal ''scope'' (Text ScopePersonal), Equal ''owner_user_id'' (Text (sub_UserID subject))]
             else AlwaysFalse,
             if acc_Workspace (sub_Access subject) then Equal ''scope'' (Text ScopeWorkspace) else AlwaysFalse]]"

text \<open>The accounts joined with their connections.\<close>

definition account_join :: "predicate \<Rightarrow> database \<Rightarrow> (row \<times> row) list" where
  "account_join p d =
    [(a, c). a \<leftarrow> select_rows accounts_table p d, c \<leftarrow> d connections_table,
             same_key a c [''workspace_id'', ''connection_key'']]"

definition scanConnectionAccount :: "env \<Rightarrow> row \<times> row \<Rightarrow> ConnectionAccount dbop" where
  "scanConnectionAccount E = (\<lambda>(a, c).
    seq (scan_texts c [''connection_key'', ''workspace_id'', ''connector_key'', ''provider_key'', ''status'',
                       ''created_at'', ''updated_at'']) (\<lambda>_.
    seq (scan_texts a [''scope'', ''owner_user_id'']) (\<lambda>_.
    let scope = text_of (a ''scope''); owner = text_of (a ''owner_user_id'') in
    if \<not> sdk_ScopeValid (ev_SDK E) scope \<or> scope = ScopePersonal \<and> blank owner \<or>
       scope = ScopeWorkspace \<and> \<not> blank owner
    then throw (Errorf ''Integration connection account ownership is invalid'' [])
    else
      ret \<lparr>ca_Key = text_of (c ''connection_key''), ca_WorkspaceID = text_of (c ''workspace_id''),
           ca_ConnectorKey = text_of (c ''connector_key''), ca_ProviderKey = text_of (c ''provider_key''),
           ca_Name = text_of (c ''name''), ca_Scope = scope, ca_OwnerUserID = owner,
           ca_Status = text_of (c ''status''), ca_CreatedAt = text_of (c ''created_at''),
           ca_UpdatedAt = text_of (c ''updated_at''), ca_Readiness = None\<rparr>)))"

section \<open>Readiness\<close>

text \<open>The scope under which the owner reads the metadata of an account.\<close>

definition readiness_scope :: "ConnectionAccount \<Rightarrow> AccessScope" where
  "readiness_scope a =
    \<lparr>as_WorkspaceID = ca_WorkspaceID a, as_PermissionKey = ''integration.connection_accounts.readiness'',
     as_ActorID = (if ca_OwnerUserID a = [] then ''integration'' else ca_OwnerUserID a), as_ActorOrgID = [],
     as_Unrestricted = True, as_AllowedUserIDs = [], as_AllowedOrgIDs = [], as_DeniedAll = False,
     as_DeniedUserIDs = [], as_DeniedOrgIDs = []\<rparr>"

text \<open>One secret reference: \<^const>\<open>None\<close> where it is usable, else the state of the account.\<close>

definition secret_reference_state :: "env \<Rightarrow> ConnectionAccount \<Rightarrow> string \<Rightarrow> string option dbop" where
  "secret_reference_state E a reference =
    (if \<not> has_prefix reference ''secret:'' then ret (Some ''unconfigured'')
     else
       (let key = trim_prefix reference ''secret:'' in
        seq (getSecret (E\<lparr>ev_scope := Some (readiness_scope a)\<rparr>) (ca_WorkspaceID a) key) (\<lambda>secret.
        if sec_Status secret \<noteq> ''active'' then ret (Some ''credential_unavailable'')
        else if \<not> sec_Configured secret \<or> \<not> has_prefix (sec_ValueRef secret) ''material:''
          then ret (Some ''unconfigured'')
        else
          seq (now E) (\<lambda>t.
          if sec_ExpiresAt secret \<noteq> [] \<and>
             (case parse_rfc3339 (sec_ExpiresAt secret) of None \<Rightarrow> True | Some expiry \<Rightarrow> \<not> t < expiry)
          then ret (Some ''credential_expired'')
          else
            seq (select_row E materials_table (secret_where (ca_WorkspaceID a) key)) (\<lambda>found. case found of
              None \<Rightarrow> ret (Some ''unconfigured'')
            | Some r \<Rightarrow> seq (scan_texts r [''secret_key'']) (\<lambda>_. ret None))))))"

fun secret_references_state :: "env \<Rightarrow> ConnectionAccount \<Rightarrow> string list \<Rightarrow> string option dbop" where
  "secret_references_state E a [] = ret None"
| "secret_references_state E a (reference # references) =
    seq (secret_reference_state E a reference) (\<lambda>state. case state of
      Some s \<Rightarrow> ret (Some s)
    | None \<Rightarrow> secret_references_state E a references)"

definition not_available :: "string \<Rightarrow> ConnectionAccountReadiness" where
  "not_available state = \<lparr>rd_Available = False, rd_State = state, rd_GrantedScopes = [], rd_Test = None\<rparr>"

definition test_eligibility :: "provider \<Rightarrow> string list \<Rightarrow> bool \<Rightarrow> ConnectionAccountTestEligibility option" where
  "test_eligibility p granted verified =
    (case pv_ConnectionTestScopes p of
       None \<Rightarrow> None
     | Some alternatives \<Rightarrow>
         (let state = ConnectionTestScopeState granted verified alternatives in
          Some \<lparr>te_Allowed = (state = ''ready''), te_State = state,
                te_ScopeAlternatives = (if state \<noteq> ''requirements_invalid'' then alternatives else [])\<rparr>))"

definition account_readiness :: "env \<Rightarrow> ConnectionAccount \<Rightarrow> ConnectionAccountReadiness dbop" where
  "account_readiness E a =
    (if ca_Status a \<noteq> ''active'' then ret (not_available (ca_Status a))
     else
       (case ev_Provider E (ca_ConnectorKey a) (ca_ProviderKey a) of
          None \<Rightarrow> ret (not_available ''provider_unavailable'')
        | Some p \<Rightarrow>
            seq (GetConnection (E\<lparr>ev_scope := Some (readiness_scope a)\<rparr>) (ca_WorkspaceID a) (ca_Key a)) (\<lambda>connection.
            if mc_Status connection \<noteq> ''active'' \<or> mc_UpdatedAt connection \<noteq> ca_UpdatedAt a
            then ret (not_available ''changed'')
            else if list_ex (\<lambda>(key, required). required \<and>
                       (case map_of (mc_SecretRefs connection) key of None \<Rightarrow> True | Some ref \<Rightarrow> blank ref))
                     (pv_SecretFields p)
            then ret (not_available ''unconfigured'')
            else
              seq (secret_references_state E a (map snd (mc_SecretRefs connection))) (\<lambda>state. case state of
                Some s \<Rightarrow> ret (not_available s)
              | None \<Rightarrow>
                  seq (select_row E grants_table
                         (And [Equal ''workspace_id'' (Text (ca_WorkspaceID a)),
                               Equal ''connection_key'' (Text (ca_Key a))])) (\<lambda>found. case found of
                    None \<Rightarrow>
                      ret \<lparr>rd_Available = True, rd_State = ''configured'', rd_GrantedScopes = [],
                           rd_Test = test_eligibility p [] False\<rparr>
                  | Some r \<Rightarrow>
                      seq (scan_texts r [''scopes_json'']) (\<lambda>_.
                      case decode_string_list (doc_of (r ''scopes_json'')) of
                        None \<Rightarrow> throw (Errorf ''Integration connection grant is invalid'' [])
                      | Some granted \<Rightarrow>
                          ret \<lparr>rd_Available = True, rd_State = ''configured'', rd_GrantedScopes = granted,
                               rd_Test = test_eligibility p granted True\<rparr>))))))"

definition enrichAccountReadiness :: "env \<Rightarrow> ConnectionAccount \<Rightarrow> ConnectionAccount dbop" where
  "enrichAccountReadiness E a =
    seq (account_readiness E a) (\<lambda>readiness. ret (a\<lparr>ca_Readiness := Some readiness\<rparr>))"

definition saveConnectionGrant :: "env \<Rightarrow> string \<Rightarrow> string \<Rightarrow> string list \<Rightarrow> nat dbop" where
  "saveConnectionGrant E workspace key scopes =
    insert_into E grants_table
      [(''id'', Text key), (''workspace_id'', Text workspace), (''connection_key'', Text key),
       (''scopes_json'', Doc (marshal (JArr (map JStr scopes))))]"

section \<open>Reading accounts\<close>

definition ListConnectionAccounts :: "env \<Rightarrow> ConnectionAccountSubject \<Rightarrow> ConnectionAccount list dbop" where
  "ListConnectionAccounts E subject =
    seq (of_result (normalizedConnectionAccountSubject E subject)) (\<lambda>subject.
    case requireConnectionAccountSubjectScope (ev_scope E) subject of Some e \<Rightarrow> throw e | None \<Rightarrow>
    seq (query_read E (account_join (connectionAccountAccess subject))) (\<lambda>rs.
    seq (each (scanConnectionAccount E) (sort_key (\<lambda>(a, c). text_of (c ''connection_key'')) rs)) (\<lambda>values.
    each (enrichAccountReadiness E) values)))"

definition connectionAccount :: "env \<Rightarrow> string \<Rightarrow> string \<Rightarrow> predicate option \<Rightarrow> ConnectionAccount dbop" where
  "connectionAccount E workspaceID key access =
    seq (of_result (requiredOwnerValue ''workspace ID'' workspaceID)) (\<lambda>workspaceID.
    seq (of_result (requiredOwnerValue ''connection account key'' key)) (\<lambda>key.
    seq (query_read E (account_join
           (And ([Equal ''workspace_id'' (Text workspaceID), Equal ''connection_key'' (Text key)] @
                 (case access of None \<Rightarrow> [] | Some p \<Rightarrow> [p]))))) (\<lambda>rs. case rs of
      [] \<Rightarrow> throw errConnectionAccountNotFound
    | ac # _ \<Rightarrow> scanConnectionAccount E ac)))"

definition GetConnectionAccount :: "env \<Rightarrow> ConnectionAccountSubject \<Rightarrow> string \<Rightarrow> ConnectionAccount dbop" where
  "GetConnectionAccount E subject key =
    seq (of_result (normalizedConnectionAccountSubject E subject)) (\<lambda>subject.
    case requireConnectionAccountSubjectScope (ev_scope E) subject of Some e \<Rightarrow> throw e | None \<Rightarrow>
    seq (connectionAccount E (sub_WorkspaceID subject) key (Some (connectionAccountAccess subject)))
      (enrichAccountReadiness E))"

section \<open>Reserving credentials\<close>

text \<open>The managed secrets that the references name, without duplicates and sorted.\<close>

fun material_keys :: "(string \<times> string) list \<Rightarrow> err + string list" where
  "material_keys [] = Inr []"
| "material_keys ((field, reference) # refs) =
    (let reference = trim_space reference; key = trim_space (trim_prefix reference ''secret:'') in
     if \<not> has_prefix reference ''secret:'' \<or> key = [] then
       Inl (Errorf ''Integration connection account secret %q must use managed material'' [field])
     else (case material_keys refs of Inl e \<Rightarrow> Inl e | Inr keys \<Rightarrow> Inr (key # keys)))"

definition materialSecretKeys :: "(string \<times> string) list \<Rightarrow> err + string list" where
  "materialSecretKeys refs =
    (case material_keys refs of Inl e \<Rightarrow> Inl e | Inr keys \<Rightarrow> Inr (sort (remdups keys)))"

definition reserved_by_other :: "env \<Rightarrow> ManagedConnection \<Rightarrow> string \<Rightarrow> unit dbop" where
  "reserved_by_other E connection reference =
    (if \<not> has_prefix (trim_space reference) ''secret:'' then ret ()
     else
       seq (select_row E account_secrets_table
              (And [Equal ''workspace_id'' (Text (mc_WorkspaceID connection)),
                    Equal ''secret_key'' (Text (trim_space (trim_prefix (trim_space reference) ''secret:'')))])) (\<lambda>found.
       case found of
         None \<Rightarrow> ret ()
       | Some r \<Rightarrow>
           seq (scan_texts r [''connection_key'']) (\<lambda>_.
           check (text_of (r ''connection_key'') = mc_Key connection)
             (Errorf ''Integration credential belongs to another connection account'' []))))"

definition rejectReservedAccountSecrets :: "env \<Rightarrow> ManagedConnection \<Rightarrow> unit dbop" where
  "rejectReservedAccountSecrets E connection =
    seq (each (reserved_by_other E connection) (map snd (mc_SecretRefs connection))) (\<lambda>_. ret ())"

text \<open>Another connection of the workspace that already uses one of the secrets.\<close>

definition alias_check :: "ManagedConnection \<Rightarrow> string list \<Rightarrow> row \<Rightarrow> unit dbop" where
  "alias_check connection keys r =
    seq (scan_texts r [''connection_key'']) (\<lambda>_.
    if text_of (r ''connection_key'') = mc_Key connection then ret ()
    else
      (case (if raw_length (doc_of (r ''secret_refs_json'')) = 0 then Some []
             else decode_string_map (doc_of (r ''secret_refs_json''))) of
         None \<Rightarrow> throw (Errorf ''json'' [])
       | Some refs \<Rightarrow>
           check (\<not> list_ex (\<lambda>(field, ref). list_ex (\<lambda>key. trim_space ref = ''secret:'' @ key) keys) refs)
             (Errorf ''Integration account credential is already used by another connection'' [])))"

definition rejectExistingCredentialAliases :: "env \<Rightarrow> ManagedConnection \<Rightarrow> string list \<Rightarrow> unit dbop" where
  "rejectExistingCredentialAliases E connection keys =
    (if keys = [] then ret ()
     else
       seq (select E connections_table (Equal ''workspace_id'' (Text (mc_WorkspaceID connection)))) (\<lambda>rs.
       seq (each (alias_check connection keys) rs) (\<lambda>_. ret ())))"

definition require_active_material :: "env \<Rightarrow> ManagedConnection \<Rightarrow> string \<Rightarrow> unit dbop" where
  "require_active_material E connection key =
    seq (try_op (seq (row_or_error E secrets_table (secret_where (mc_WorkspaceID connection) key)) (\<lambda>r.
                 seq (scan_texts r [''status'']) (\<lambda>_. ret r)))) (\<lambda>found. case found of
      Inl e \<Rightarrow> throw (Errorf ''read Integration connection account secret %q: %w'' [key, err_text e])
    | Inr r \<Rightarrow>
        check (text_of (r ''status'') = ''active'' \<and> text_of (r ''value_ref'') = ''material:'' @ key)
          (Errorf ''Integration connection account secret %q is not active managed material'' [key]))"

definition reserve_secret :: "env \<Rightarrow> ManagedConnection \<Rightarrow> string \<Rightarrow> unit dbop" where
  "reserve_secret E connection key =
    seq (ownerNow E) (\<lambda>stamp.
    seq (try_op (insert_into E account_secrets_table
      [(''id'', Text (ownerID E ''connection_account_secret_'' (mc_WorkspaceID connection)
                        (mc_Key connection @ [CHR 0x00] @ key))),
       (''workspace_id'', Text (mc_WorkspaceID connection)), (''connection_key'', Text (mc_Key connection)),
       (''secret_key'', Text key), (''created_at'', Text stamp)])) (\<lambda>r. case r of
      Inl e \<Rightarrow> throw (Errorf ''reserve Integration connection account secret %q: %w'' [key, err_text e])
    | Inr n \<Rightarrow> ret ()))"

definition syncConnectionAccountSecrets :: "env \<Rightarrow> ManagedConnection \<Rightarrow> unit dbop" where
  "syncConnectionAccountSecrets E connection =
    seq (rejectReservedAccountSecrets E connection) (\<lambda>_.
    let accountWhere = And [Equal ''workspace_id'' (Text (mc_WorkspaceID connection)),
                            Equal ''connection_key'' (Text (mc_Key connection))] in
    seq (select_row E accounts_table accountWhere) (\<lambda>found. case found of
      None \<Rightarrow> ret ()
    | Some r \<Rightarrow>
        seq (scan_texts r [''id'']) (\<lambda>_.
        seq (of_result (materialSecretKeys (mc_SecretRefs connection))) (\<lambda>keys.
        seq (rejectExistingCredentialAliases E connection keys) (\<lambda>_.
        seq (each (require_active_material E connection) keys) (\<lambda>_.
        seq (delete_from E account_secrets_table accountWhere) (\<lambda>_.
        seq (each (reserve_secret E connection) keys) (\<lambda>_. ret ()))))))))"

section \<open>Publishing an account\<close>

record ConnectionAccountRegistration =
  reg_Scope :: string
  reg_OwnerUserID :: string

text \<open>
  The guards of \<open>RegisterConnectionAccount\<close>, which run before the transaction and again inside it,
  with the workspace, key, actor and registration they leave.
\<close>

definition register_guards ::
    "env \<Rightarrow> string \<Rightarrow> string \<Rightarrow> string \<Rightarrow> ConnectionAccountRegistration \<Rightarrow>
     (string \<times> string \<times> string \<times> ConnectionAccountRegistration) dbop" where
  "register_guards E workspaceID key actorID input =
    seq (guardSubjectWrite E workspaceID
           [(''subject'', [], reg_OwnerUserID input), (''connection'', [], key)]) (\<lambda>_.
    let workspaceID = trim_space workspaceID; key = trim_space key; actorID = trim_space actorID in
    case requireAllDataScope (ev_scope E) workspaceID of Some e \<Rightarrow> throw e | None \<Rightarrow>
    case sdk_RegistrationValidate (ev_SDK E) (reg_Scope input) (reg_OwnerUserID input) of Some e \<Rightarrow> throw e | None \<Rightarrow>
    let input = input\<lparr>reg_OwnerUserID := trim_space (reg_OwnerUserID input)\<rparr>;
        actorID = fst (scopeOwner (ev_scope E) actorID) in
    if actorID = [] then throw (Errorf ''Integration connection account actor is required'' [])
    else ret (workspaceID, key, actorID, input))"

definition register_body ::
    "env \<Rightarrow> string \<Rightarrow> string \<Rightarrow> string \<Rightarrow> ConnectionAccountRegistration \<Rightarrow> ConnectionAccount dbop" where
  "register_body E workspaceID key actorID input =
    seq (GetConnection E workspaceID key) (\<lambda>connection.
    seq (ownerNow E) (\<lambda>stamp.
    seq (select_row E accounts_table
           (And [Equal ''workspace_id'' (Text workspaceID), Equal ''connection_key'' (Text key)])) (\<lambda>found. case found of
      None \<Rightarrow>
        seq (try_op (insert_into E accounts_table
          [(''id'', Text (ownerID E ''connection_account_'' workspaceID key)), (''workspace_id'', Text workspaceID),
           (''connection_key'', Text key), (''scope'', Text (reg_Scope input)),
           (''owner_user_id'', Text (reg_OwnerUserID input)), (''created_by'', Text actorID), (''created_at'', Text stamp),
           (''updated_at'', Text stamp)])) (\<lambda>r. case r of
          Inl e \<Rightarrow> throw (Errorf ''insert Integration connection account: %w'' [err_text e])
        | Inr n \<Rightarrow>
            seq (syncConnectionAccountSecrets E connection) (\<lambda>_.
            connectionAccount E workspaceID key None))
    | Some r \<Rightarrow>
        seq (scan_texts r [''id'']) (\<lambda>_.
        seq (connectionAccount E workspaceID key None) (\<lambda>existing.
        if ca_Scope existing \<noteq> reg_Scope input \<or> ca_OwnerUserID existing \<noteq> reg_OwnerUserID input then
          throw (Errorf ''Integration connection account ownership is immutable; create a separate connection'' [])
        else ret existing)))))"

definition RegisterConnectionAccount ::
    "env \<Rightarrow> string \<Rightarrow> string \<Rightarrow> string \<Rightarrow> ConnectionAccountRegistration \<Rightarrow> ConnectionAccount dbop" where
  "RegisterConnectionAccount E workspaceID key actorID input =
    seq (register_guards E workspaceID key actorID input) (\<lambda>(workspaceID, key, actorID, input).
    transaction E
      (seq (register_guards E workspaceID key actorID input) (\<lambda>(workspaceID, key, actorID, input).
       register_body E workspaceID key actorID input)))"

section \<open>Revoking an account\<close>

definition revoke_guards ::
    "env \<Rightarrow> ConnectionAccountSubject \<Rightarrow> string \<Rightarrow> err + (ConnectionAccountSubject \<times> string)" where
  "revoke_guards E subject expectedUpdatedAt =
    (case normalizedConnectionAccountSubject E subject of
       Inl e \<Rightarrow> Inl e
     | Inr subject \<Rightarrow>
         (case requireConnectionAccountSubjectScope (ev_scope E) subject of
            Some e \<Rightarrow> Inl e
          | None \<Rightarrow>
              if trim_space expectedUpdatedAt = [] then
                Inl (Errorf ''Integration connection account revision is required'' [])
              else Inr (subject, trim_space expectedUpdatedAt)))"

definition revoke_secret :: "env \<Rightarrow> string \<Rightarrow> string \<Rightarrow> string \<Rightarrow> nat dbop" where
  "revoke_secret E workspaceID stamp key =
    guarded_update E secrets_table
      [(''status'', Text ''revoked''), (''revoked_at'', Text stamp), (''updated_at'', Text stamp)]
      (And [Equal ''workspace_id'' (Text workspaceID), Equal ''secret_key'' (Text key),
            Equal ''status'' (Text ''active'')])"

definition revoke_body :: "env \<Rightarrow> ConnectionAccountSubject \<Rightarrow> string \<Rightarrow> string \<Rightarrow> ConnectionAccount dbop" where
  "revoke_body E subject key expectedUpdatedAt =
    seq (GetConnectionAccount E subject key) (\<lambda>account.
    if ca_Status account = ''revoked'' then ret account
    else if ca_UpdatedAt account \<noteq> expectedUpdatedAt then throw errConnectionAccountChanged
    else
      seq (ownerNow E) (\<lambda>stamp.
      seq (guarded_update E connections_table [(''status'', Text ''revoked''), (''updated_at'', Text stamp)]
             (And [Equal ''workspace_id'' (Text (sub_WorkspaceID subject)),
                   Equal ''connection_key'' (Text (ca_Key account)), Equal ''updated_at'' (Text expectedUpdatedAt)])) (\<lambda>n.
      seq (check (n = 1) errConnectionAccountChanged) (\<lambda>_.
      seq (select E account_secrets_table
             (And [Equal ''workspace_id'' (Text (sub_WorkspaceID subject)),
                   Equal ''connection_key'' (Text (ca_Key account))])) (\<lambda>rs.
      seq (each (\<lambda>r. seq (scan_texts r [''secret_key'']) (\<lambda>_. ret (text_of (r ''secret_key''))))
             (ascending ''secret_key'' rs)) (\<lambda>secrets.
      seq (each (revoke_secret E (sub_WorkspaceID subject) stamp) secrets) (\<lambda>_.
      GetConnectionAccount E subject (ca_Key account))))))))"

definition RevokeConnectionAccount ::
    "env \<Rightarrow> ConnectionAccountSubject \<Rightarrow> string \<Rightarrow> string \<Rightarrow> ConnectionAccount dbop" where
  "RevokeConnectionAccount E subject key expectedUpdatedAt =
    seq (of_result (revoke_guards E subject expectedUpdatedAt)) (\<lambda>(subject, expectedUpdatedAt).
    transaction E
      (seq (of_result (revoke_guards E subject expectedUpdatedAt)) (\<lambda>(subject, expectedUpdatedAt).
       revoke_body E subject key expectedUpdatedAt)))"

section \<open>What reading is built from\<close>

context store_reads
begin

lemma within_ownerNow: "within (ownerNow E)"
  unfolding ownerNow_def by (intro within_reads)

lemma within_scanConnection: "within (scanConnection r)"
  unfolding scanConnection_def by (intro within_reads)

lemma within_GetConnection: "within (GetConnection (E\<lparr>ev_scope := x\<rparr>) ws k)" "within (GetConnection E ws k)"
  unfolding GetConnection_def operations_scope by (intro within_reads within_scanConnection)+

lemma within_getSecret: "within (getSecret (E\<lparr>ev_scope := x\<rparr>) ws k)" "within (getSecret E ws k)"
  unfolding getSecret_def scanSecret_def operations_scope by (intro within_reads)+

lemma within_scanConnectionAccount: "within (scanConnectionAccount E ac)"
  unfolding scanConnectionAccount_def Let_def by (cases ac; simp only: prod.case; intro within_reads)

lemma within_secret_reference_state: "within (secret_reference_state E a ref)"
  unfolding secret_reference_state_def Let_def by (intro within_reads within_getSecret)

lemma within_secret_references_state: "within (secret_references_state E a refs)"
  by (induction refs) (simp_all only: secret_references_state.simps, (intro within_reads within_secret_reference_state; simp)+)

lemma within_enrich: "within (enrichAccountReadiness E a)"
  unfolding enrichAccountReadiness_def account_readiness_def
  by (intro within_reads within_GetConnection within_secret_references_state)

lemma within_connectionAccount: "within (connectionAccount E ws k p)"
  unfolding connectionAccount_def by (intro within_reads within_scanConnectionAccount)

lemma within_GetConnectionAccount: "within (GetConnectionAccount E subject k)"
  unfolding GetConnectionAccount_def by (intro within_reads within_connectionAccount within_enrich)

lemma within_ListConnectionAccounts: "within (ListConnectionAccounts E subject)"
  unfolding ListConnectionAccounts_def by (intro within_reads within_scanConnectionAccount within_enrich)

lemmas within_account_reads =
  within_reads within_ownerNow within_GetConnection within_getSecret within_connectionAccount
  within_GetConnectionAccount

end

section \<open>Who sees an account\<close>

lemma query_read_result: "query_read E f w = (Inr x, w') \<Longrightarrow> x = f (w_db (before_step E w))"
  by (cases "ev_fault E (w_step w)") (auto simp: query_read_def statement_def Let_def)

text \<open>An account that the subject owns, or that is shared, where the subject may look.\<close>

definition account_visible :: "ConnectionAccountSubject \<Rightarrow> ConnectionAccount \<Rightarrow> bool" where
  "account_visible subject a \<longleftrightarrow>
    ca_WorkspaceID a = sub_WorkspaceID subject \<and>
    (acc_Personal (sub_Access subject) \<and> ca_Scope a = ScopePersonal \<and> ca_OwnerUserID a = sub_UserID subject \<or>
     acc_Workspace (sub_Access subject) \<and> ca_Scope a = ScopeWorkspace \<and> blank (ca_OwnerUserID a))"

lemma joined_visible:
  assumes "(r, c) \<in> set (account_join p d)" and "holds d r p \<Longrightarrow> holds d r (connectionAccountAccess subject)"
    and "scanConnectionAccount E (r, c) w = (Inr a, w')"
  shows "account_visible subject a"
proof -
  have join: "same_key r c [''workspace_id'', ''connection_key'']" "holds d r p"
    using assms(1) by (auto simp: account_join_def)
  from join(2) assms(2) have "r ''workspace_id'' = Text (sub_WorkspaceID subject)"
    "acc_Personal (sub_Access subject) \<and> r ''scope'' = Text ScopePersonal \<and> r ''owner_user_id'' = Text (sub_UserID subject) \<or>
     acc_Workspace (sub_Access subject) \<and> r ''scope'' = Text ScopeWorkspace"
    by (auto simp: connectionAccountAccess_def where_simps split: if_splits)
  moreover from this(1) join(1) have "c ''workspace_id'' = Text (sub_WorkspaceID subject)" by (simp add: same_key_def)
  ultimately show ?thesis
    using assms(3)
    by (auto simp: scanConnectionAccount_def op_Inr scan_texts_def account_visible_def
        ScopePersonal_def ScopeWorkspace_def Let_def split: if_splits)
qed

lemma enrich_Inr:
  "enrichAccountReadiness E a w = (Inr b, w') \<Longrightarrow> \<exists>r. b = a\<lparr>ca_Readiness := Some r\<rparr>"
  by (auto simp: enrichAccountReadiness_def op_Inr)

lemma visible_readiness [simp]: "account_visible subject (a\<lparr>ca_Readiness := r\<rparr>) = account_visible subject a"
  by (simp add: account_visible_def)

lemma connectionAccount_Some:
  assumes "connectionAccount E ws key (Some p) w = (Inr a, w')"
  shows "\<exists>r c v. (r, c) \<in> set (account_join
      (And ([Equal ''workspace_id'' (Text (trim_space ws)), Equal ''connection_key'' (Text (trim_space key))] @ [p]))
      (w_db (before_step E w))) \<and> scanConnectionAccount E (r, c) v = (Inr a, w')"
proof -
  let ?p = "And ([Equal ''workspace_id'' (Text (trim_space ws)), Equal ''connection_key'' (Text (trim_space key))] @ [p])"
  obtain rcs u where "query_read E (account_join ?p) w = (Inr rcs, u)"
    and "(case rcs of [] \<Rightarrow> throw errConnectionAccountNotFound | rc # rs \<Rightarrow> scanConnectionAccount E rc) u = (Inr a, w')"
    using assms by (auto simp: connectionAccount_def seq_Inr requiredOwnerValue_def split: if_splits)
  then obtain rc rs where q: "query_read E (account_join ?p) w = (Inr (rc # rs), u)"
    and scan: "scanConnectionAccount E rc u = (Inr a, w')"
    by (cases rcs) simp_all
  obtain r c where rc: "rc = (r, c)" by fastforce
  have "rc \<in> set (account_join ?p (w_db (before_step E w)))"
    using query_read_result [OF q] by (metis list.set_intros(1))
  with scan rc show ?thesis by blast
qed

lemma connectionAccount_visible:
  assumes "connectionAccount E ws key (Some (connectionAccountAccess subject)) w = (Inr a, w')"
  shows "account_visible subject a \<and> ca_Key a = trim_space key"
proof -
  let ?p = "And ([Equal ''workspace_id'' (Text (trim_space ws)), Equal ''connection_key'' (Text (trim_space key))] @
                 [connectionAccountAccess subject])"
  obtain r c v where mem: "(r, c) \<in> set (account_join ?p (w_db (before_step E w)))"
    and scan: "scanConnectionAccount E (r, c) v = (Inr a, w')"
    using connectionAccount_Some [OF assms] by blast
  from mem scan have "account_visible subject a"
    by (intro joined_visible [where p = ?p]) (auto simp: where_simps)
  moreover have "c ''connection_key'' = Text (trim_space key)"
    using mem by (auto simp: account_join_def same_key_def where_simps)
  ultimately show ?thesis
    using scan by (auto simp: scanConnectionAccount_def op_Inr scan_texts_def Let_def split: if_splits)
qed

text \<open>
  C27. A subject is only ever given an account of its own workspace that it owns, where it may see
  personal accounts, or a shared one, where it may see those; and where the context carries an
  access scope, that scope is the subject's own and allows what the subject asks for.
\<close>

theorem account_visibility:
  assumes "GetConnectionAccount E subject key w = (Inr a, w')"
  shows "account_visible (subject\<lparr>sub_WorkspaceID := trim_space (sub_WorkspaceID subject),
      sub_UserID := trim_space (sub_UserID subject)\<rparr>) a \<and> ca_Key a = trim_space key \<and>
    (case ev_scope E of None \<Rightarrow> True | Some scope \<Rightarrow>
       as_ActorID scope = trim_space (sub_UserID subject) \<and>
       as_WorkspaceID scope = trim_space (sub_WorkspaceID subject) \<and>
       (ca_Scope a = ScopePersonal \<longrightarrow> acc_Personal (scope_ConnectionAccountAccess scope)) \<and>
       (ca_Scope a = ScopeWorkspace \<longrightarrow> acc_Workspace (scope_ConnectionAccountAccess scope)))"
proof -
  let ?s = "subject\<lparr>sub_WorkspaceID := trim_space (sub_WorkspaceID subject), sub_UserID := trim_space (sub_UserID subject)\<rparr>"
  obtain b u where ok: "requireConnectionAccountSubjectScope (ev_scope E) ?s = None"
    and b: "connectionAccount E (sub_WorkspaceID ?s) key (Some (connectionAccountAccess ?s)) w = (Inr b, u)"
    and e: "enrichAccountReadiness E b u = (Inr a, w')"
    using assms
    by (auto simp: GetConnectionAccount_def op_Inr normalizedConnectionAccountSubject_def Let_def split: option.splits)
  from connectionAccount_visible [OF b] enrich_Inr [OF e]
  have visible: "account_visible ?s a" "ca_Key a = trim_space key" by auto
  with ok show ?thesis
    by (auto simp: requireConnectionAccountSubjectScope_def account_visible_def Let_def ScopePersonal_def
        ScopeWorkspace_def split: option.splits if_splits)
qed

section \<open>Publishing never changes an account\<close>

definition keeps_accounts :: "row set \<Rightarrow> database \<Rightarrow> bool" where
  "keeps_accounts old d \<longleftrightarrow> old \<subseteq> set (d accounts_table)"

interpretation accounts_kept: store_reads "inv_within (keeps_accounts old) E" E for old E
  by (rule inv_store_reads)

lemma keeps_accounts_insert: "evolution.within (inv_within (keeps_accounts old) E) (insert_into E t cs)"
  unfolding insert_into_def by (intro inv_statement) (auto simp: keeps_accounts_def intro: row_stays_insert)

lemma keeps_accounts_delete:
  "t \<noteq> accounts_table \<Longrightarrow> evolution.within (inv_within (keeps_accounts old) E) (delete_from E t p)"
  unfolding delete_from_def by (intro inv_statement) (auto simp: keeps_accounts_def delete_rows_def)

lemma keeps_accounts_sync: "evolution.within (inv_within (keeps_accounts old) E) (syncConnectionAccountSecrets E c)"
  unfolding syncConnectionAccountSecrets_def rejectReservedAccountSecrets_def reserved_by_other_def
    rejectExistingCredentialAliases_def alias_check_def require_active_material_def reserve_secret_def Let_def
  by (intro accounts_kept.within_account_reads keeps_accounts_insert keeps_accounts_delete)
    (simp add: account_secrets_table_def accounts_table_def)

lemma keeps_accounts_register:
  "evolution.within (inv_within (keeps_accounts old) E) (RegisterConnectionAccount E ws key actor input)"
  unfolding RegisterConnectionAccount_def register_guards_def register_body_def Let_def
  by (intro accounts_kept.within_account_reads keeps_accounts_insert keeps_accounts_sync)

text \<open>
  C33. Ownership is immutable: whatever \<open>RegisterConnectionAccount\<close> is asked, and whatever fails
  meanwhile, every account that was there is there afterwards with the same scope and owner, as
  long as other processes keep the accounts.
\<close>

theorem registration_keeps_accounts:
  assumes "\<And>n d. set (d accounts_table) \<subseteq> set (ev_others E n d accounts_table)"
  shows "set (w_db w accounts_table) \<subseteq> set (w_db (snd (RegisterConnectionAccount E ws key actor input w)) accounts_table)"
proof -
  have "keeps_accounts old d \<Longrightarrow> keeps_accounts old (ev_others E n d)" for n d old
    unfolding keeps_accounts_def using assms by blast
  then show ?thesis
    using keeps_accounts_register [of "set (w_db w accounts_table)" E ws key actor input]
    unfolding evolution.within_def [OF inv_evolution] inv_within_def by (simp add: keeps_accounts_def)
qed

section \<open>A revoked account has no usable credential\<close>

definition no_active_secret :: "string \<Rightarrow> string \<Rightarrow> database \<Rightarrow> bool" where
  "no_active_secret ws s d \<longleftrightarrow>
    list_all (\<lambda>r. \<not> (r ''workspace_id'' = Text ws \<and> r ''secret_key'' = Text s \<and> r ''status'' = Text ''active'' \<and>
                   \<not> row_fenced d secrets_table r)) (d secrets_table)"

definition connection_revoked :: "string \<Rightarrow> string \<Rightarrow> database \<Rightarrow> bool" where
  "connection_revoked ws key d \<longleftrightarrow>
    list_ex (\<lambda>c. c ''workspace_id'' = Text ws \<and> c ''connection_key'' = Text key \<and> c ''status'' = Text ''revoked'')
      (d connections_table)"

lemma row_fenced_fences: "d fences = d' fences \<Longrightarrow> row_fenced d t r = row_fenced d' t r"
  by (simp add: row_fenced_def)

lemma row_fenced_columns:
  "r ''id'' = q ''id'' \<Longrightarrow> r ''workspace_id'' = q ''workspace_id'' \<Longrightarrow> row_fenced d t r = row_fenced d t q"
  by (simp add: row_fenced_def)

lemma revoke_secret_Inr:
  assumes "alone E" and "revoke_secret E ws stamp s w = (Inr n, w')"
  shows "no_active_secret ws s (w_db w') \<and> (no_active_secret ws s' (w_db w) \<longrightarrow> no_active_secret ws s' (w_db w')) \<and>
    w_db w' connections_table = w_db w connections_table"
proof -
  let ?cs = "[(''status'', Text ''revoked''), (''revoked_at'', Text stamp), (''updated_at'', Text stamp)]"
  let ?p = "And [subjectRowWriteAllowed secrets_table, And [Equal ''workspace_id'' (Text ws),
    Equal ''secret_key'' (Text s), Equal ''status'' (Text ''active'')]]"
  have "update_rows secrets_table (set_columns ?cs) ?p (w_db w) = (Inr n, w_db w')"
    using guarded_update_Inr [OF assms(1)] assms(2) unfolding revoke_secret_def by blast
  then have d': "w_db w' = (w_db w)(secrets_table :=
      map (\<lambda>r. if holds (w_db w) r ?p then set_columns ?cs r else r) (w_db w secrets_table))"
    by (auto simp: update_rows_def)
  then have f: "row_fenced (w_db w') t r = row_fenced (w_db w) t r" for t r
    by (intro row_fenced_fences) (use secret_tables_not_fences(1) in \<open>auto simp del: secret_tables_not_fences\<close>)
  have "secrets_table \<noteq> connections_table" by (simp add: secrets_table_def connections_table_def)
  with d' f show ?thesis
    by (auto simp: no_active_secret_def list_all_iff where_simps)
qed

lemma revoke_secrets_Inr:
  assumes "alone E" and "each (revoke_secret E ws stamp) ss w = (Inr ns, w')"
  shows "(\<forall>s \<in> set ss. no_active_secret ws s (w_db w')) \<and>
    (no_active_secret ws s' (w_db w) \<longrightarrow> no_active_secret ws s' (w_db w')) \<and>
    w_db w' connections_table = w_db w connections_table"
  using assms(2)
proof (induction ss arbitrary: w ns s')
  case (Cons s ss)
  then obtain n ms u where s: "revoke_secret E ws stamp s w = (Inr n, u)"
    and ss: "each (revoke_secret E ws stamp) ss u = (Inr ms, w')" by (auto simp: op_Inr)
  from revoke_secret_Inr [OF assms(1) s] Cons.IH [OF ss] show ?case by (metis set_ConsD)
qed (simp add: ret_Inr)

lemma each_keys_Inr:
  "each (\<lambda>r. seq (scan_texts r [''secret_key'']) (\<lambda>_. ret (text_of (r ''secret_key'')))) rs w = (Inr ss, w') \<Longrightarrow>
   ss = map (\<lambda>r. text_of (r ''secret_key'')) rs \<and> w' = w"
  by (induction rs arbitrary: w ss) (auto simp: op_Inr scan_texts_def)

lemma GetConnectionAccount_row:
  assumes "alone E" and "GetConnectionAccount E subject key w = (Inr a, w')"
  shows "ca_Key a = trim_space key \<and> (\<exists>c \<in> set (w_db w connections_table).
    c ''workspace_id'' = Text (trim_space (sub_WorkspaceID subject)) \<and> c ''connection_key'' = Text (trim_space key) \<and>
    text_of (c ''status'') = ca_Status a)"
proof -
  let ?s = "subject\<lparr>sub_WorkspaceID := trim_space (sub_WorkspaceID subject), sub_UserID := trim_space (sub_UserID subject)\<rparr>"
  obtain b u where b: "connectionAccount E (sub_WorkspaceID ?s) key (Some (connectionAccountAccess ?s)) w = (Inr b, u)"
    and e: "enrichAccountReadiness E b u = (Inr a, w')"
    using assms(2)
    by (auto simp: GetConnectionAccount_def op_Inr normalizedConnectionAccountSubject_def Let_def split: option.splits)
  from enrich_Inr [OF e] obtain rd where a: "a = b\<lparr>ca_Readiness := Some rd\<rparr>" by blast
  let ?p = "And ([Equal ''workspace_id'' (Text (trim_space (sub_WorkspaceID subject))),
    Equal ''connection_key'' (Text (trim_space key))] @ [connectionAccountAccess ?s])"
  obtain r c v where mem: "(r, c) \<in> set (account_join ?p (w_db (before_step E w)))"
    and scan: "scanConnectionAccount E (r, c) v = (Inr b, u)"
    using connectionAccount_Some [OF b] by auto
  from mem assms(1) have "c \<in> set (w_db w connections_table)"
    "c ''workspace_id'' = Text (trim_space (sub_WorkspaceID subject))" "c ''connection_key'' = Text (trim_space key)"
    by (auto simp: account_join_def same_key_def where_simps)
  moreover have "text_of (c ''status'') = ca_Status a \<and> ca_Key a = text_of (c ''connection_key'')"
    using scan a by (auto simp: scanConnectionAccount_def op_Inr scan_texts_def Let_def split: if_splits)
  ultimately show ?thesis by (intro conjI bexI [of _ c]) simp_all
qed

lemma revoke_body_Inr:
  assumes "alone E" and "revoke_body E subject key revision w = (Inr a, w')"
    and fresh: "\<not> connection_revoked (trim_space (sub_WorkspaceID subject)) (trim_space key) (w_db w)"
    and ws: "trim_space (sub_WorkspaceID subject) = sub_WorkspaceID subject"
    and q: "q \<in> set (w_db w account_secrets_table)" "q ''workspace_id'' = Text (sub_WorkspaceID subject)"
      "q ''connection_key'' = Text (trim_space key)" "q ''secret_key'' = Text s"
  shows "connection_revoked (sub_WorkspaceID subject) (trim_space key) (w_db w') \<and>
    no_active_secret (sub_WorkspaceID subject) s (w_db w')"
proof -
  let ?ws = "sub_WorkspaceID subject" and ?k = "trim_space key"
  obtain acc u where acc: "GetConnectionAccount E subject key w = (Inr acc, u)"
    and rest: "(if ca_Status acc = ''revoked'' then ret acc
     else if ca_UpdatedAt acc \<noteq> revision then throw errConnectionAccountChanged
     else
      seq (ownerNow E) (\<lambda>stamp.
      seq (guarded_update E connections_table [(''status'', Text ''revoked''), (''updated_at'', Text stamp)]
             (And [Equal ''workspace_id'' (Text ?ws), Equal ''connection_key'' (Text (ca_Key acc)),
                   Equal ''updated_at'' (Text revision)])) (\<lambda>n.
      seq (check (n = 1) errConnectionAccountChanged) (\<lambda>_.
      seq (select E account_secrets_table
             (And [Equal ''workspace_id'' (Text ?ws), Equal ''connection_key'' (Text (ca_Key acc))])) (\<lambda>rs.
      seq (each (\<lambda>r. seq (scan_texts r [''secret_key'']) (\<lambda>_. ret (text_of (r ''secret_key''))))
             (ascending ''secret_key'' rs)) (\<lambda>secrets.
      seq (each (revoke_secret E ?ws stamp) secrets) (\<lambda>_.
      GetConnectionAccount E subject (ca_Key acc)))))))) u = (Inr a, w')"
    using assms(2) by (auto simp: revoke_body_def seq_Inr)
  have u: "w_db u = w_db w" using unchanged_D [OF untouched.within_GetConnectionAccount assms(1) acc] by simp
  have key: "ca_Key acc = ?k" and status: "ca_Status acc \<noteq> ''revoked''"
    using GetConnectionAccount_row [OF assms(1) acc] fresh ws
    by (auto simp: connection_revoked_def list_ex_iff text_of_def split: sql.splits) (metis sql.exhaust)
  from rest status obtain stamp u0 v0 v1 ss ns v2 where
      upd: "guarded_update E connections_table [(''status'', Text ''revoked''), (''updated_at'', Text stamp)]
             (And [Equal ''workspace_id'' (Text ?ws), Equal ''connection_key'' (Text ?k),
                   Equal ''updated_at'' (Text revision)]) u0 = (Inr 1, v0)" and u0: "w_db u0 = w_db u"
    and sel: "select E account_secrets_table
             (And [Equal ''workspace_id'' (Text ?ws), Equal ''connection_key'' (Text ?k)]) v0 = (Inr ss, v1)"
    and revs: "each (revoke_secret E ?ws stamp) (map (\<lambda>r. text_of (r ''secret_key'')) (ascending ''secret_key'' ss)) v1 = (Inr ns, v2)"
    and final: "GetConnectionAccount E subject ?k v2 = (Inr a, w')"
    using key by (auto simp: seq_Inr ownerNow_def now_def dest!: each_keys_Inr split: if_splits)
  have w': "w_db w' = w_db v2" using unchanged_D [OF untouched.within_GetConnectionAccount assms(1) final] by simp
  have tables: "account_secrets_table \<noteq> connections_table" by (simp add: account_secrets_table_def connections_table_def)
  have v0: "update_rows connections_table (set_columns [(''status'', Text ''revoked''), (''updated_at'', Text stamp)])
      (And [subjectRowWriteAllowed connections_table, And [Equal ''workspace_id'' (Text ?ws),
        Equal ''connection_key'' (Text ?k), Equal ''updated_at'' (Text revision)]]) (w_db u0) = (Inr 1, w_db v0)"
    using guarded_update_Inr [OF assms(1) upd] by simp
  have secrets: "w_db v0 account_secrets_table = w_db w account_secrets_table"
    using update_rows_other [OF v0 tables] u u0 by simp
  have v1: "w_db v1 = w_db v0" and ss: "q \<in> set ss"
    using select_Inr [OF assms(1) sel] q secrets by (auto simp: where_simps)
  from update_rows_hit [OF v0] have "connection_revoked ?ws ?k (w_db v0)"
    by (auto simp: connection_revoked_def list_ex_iff where_simps elim!: bexI [rotated])
  moreover have "s \<in> set (map (\<lambda>r. text_of (r ''secret_key'')) (ascending ''secret_key'' ss))"
    using ss q(4) by (force simp: text_of_def)
  ultimately show ?thesis
    using revoke_secrets_Inr [OF assms(1) revs] w' v1 by (auto simp: connection_revoked_def)
qed

text \<open>
  C28. A successful revocation takes effect on the credentials: the connection is revoked, and no
  secret that was reserved for the account is still active, except one that an erasure has
  fenced. (An account that was revoked before is left as it is.)
\<close>

theorem revocation_disables_credentials:
  assumes "alone E" and "RevokeConnectionAccount E subject key revision w = (Inr a, w')"
    and "\<not> connection_revoked (trim_space (sub_WorkspaceID subject)) (trim_space key) (w_db w)"
    and "q \<in> set (w_db w account_secrets_table)" "q ''workspace_id'' = Text (trim_space (sub_WorkspaceID subject))"
      "q ''connection_key'' = Text (trim_space key)" "q ''secret_key'' = Text s"
  shows "connection_revoked (trim_space (sub_WorkspaceID subject)) (trim_space key) (w_db w') \<and>
    no_active_secret (trim_space (sub_WorkspaceID subject)) s (w_db w')"
proof -
  have guards: "revoke_guards E subject revision = Inr (subject', revision') \<Longrightarrow> sub_WorkspaceID subject' = trim_space (sub_WorkspaceID subject)"
    for E subject subject' and revision revision' :: string
    by (auto simp: revoke_guards_def normalizedConnectionAccountSubject_def Let_def split: option.splits if_splits)
  obtain subject' revision' where first: "revoke_guards E subject revision = Inr (subject', revision')"
    and t: "transaction E (seq (of_result (revoke_guards E subject' revision')) (\<lambda>(subject, expectedUpdatedAt).
       revoke_body E subject key expectedUpdatedAt)) w = (Inr a, w')"
    using assms(2) by (auto simp: RevokeConnectionAccount_def seq_Inr)
  from transaction_Inr [OF assms(1) t] obtain u v subject'' revision'' where u: "w_db u = w_db w" and v: "w_db w' = w_db v"
    and second: "revoke_guards E subject' revision' = Inr (subject'', revision'')"
    and body: "revoke_body E subject'' key revision'' u = (Inr a, v)"
    by (auto simp: seq_Inr)
  have ws: "sub_WorkspaceID subject'' = trim_space (sub_WorkspaceID subject)" using guards [OF first] guards [OF second] by simp
  show ?thesis
    using revoke_body_Inr [OF assms(1) body, of q s] ws u v assms(3-) by simp
qed

section \<open>Accounts in the calm environment\<close>

definition demo_connection :: "string \<Rightarrow> string \<Rightarrow> row" where
  "demo_connection key reference = row_of
    [(''id'', Text (''c-'' @ key)), (''connection_key'', Text key), (''workspace_id'', Text ''w1''),
     (''connector_key'', Text ''crm''), (''provider_key'', Text ''echo''), (''name'', Text key), (''status'', Text ''active''),
     (''config_json'', Doc (marshal (JObj []))), (''secret_refs_json'', Doc (marshal (JObj [(''token'', JStr reference)]))),
     (''created_by'', Null), (''created_at'', Text ''t0''), (''updated_at'', Text ''t0'')]"

definition demo_account :: row where
  "demo_account = row_of
    [(''id'', Text ''a1''), (''workspace_id'', Text ''w1''), (''connection_key'', Text ''main''),
     (''scope'', Text ScopePersonal), (''owner_user_id'', Text ''u1''), (''created_by'', Text ''u1''),
     (''created_at'', Text ''t0''), (''updated_at'', Text ''t0'')]"

definition demo_secret :: row where
  "demo_secret = row_of
    [(''id'', Text ''s1''), (''workspace_id'', Text ''w1''), (''secret_key'', Text ''k1''), (''kind'', Text ''token''),
     (''status'', Text ''active''), (''value_ref'', Text ''material:k1''), (''fingerprint'', Text ''f1''),
     (''created_at'', Text ''t0''), (''updated_at'', Text ''t0''), (''expires_at'', Text [])]"

definition demo_reservation :: row where
  "demo_reservation = row_of
    [(''id'', Text ''r1''), (''workspace_id'', Text ''w1''), (''connection_key'', Text ''main''),
     (''secret_key'', Text ''k1''), (''created_at'', Text ''t0'')]"

definition demo_accounts_db :: database where
  "demo_accounts_db = (\<lambda>t. if t = connections_table then [demo_connection ''main'' ''secret:k1'']
    else if t = accounts_table then [demo_account] else if t = secrets_table then [demo_secret]
    else if t = account_secrets_table then [demo_reservation] else [])"

definition demo_subject :: ConnectionAccountSubject where
  "demo_subject = \<lparr>sub_WorkspaceID = ''w1'', sub_UserID = ''u1'',
                   sub_Access = \<lparr>acc_Personal = True, acc_Workspace = False\<rparr>\<rparr>"

lemmas account_tables =
  connections_table_def accounts_table_def secrets_table_def account_secrets_table_def grants_table_def
  materials_table_def fences_def

lemma account_tables_differ [simp]:
  "connections_table \<noteq> accounts_table" "accounts_table \<noteq> connections_table" "secrets_table \<noteq> connections_table"
  "secrets_table \<noteq> accounts_table" "account_secrets_table \<noteq> connections_table" "account_secrets_table \<noteq> accounts_table"
  "account_secrets_table \<noteq> secrets_table" "fences \<noteq> accounts_table" "fences \<noteq> connections_table"
  "fences \<noteq> secrets_table" "fences \<noteq> account_secrets_table" "connections_table \<noteq> secrets_table"
  "connections_table \<noteq> account_secrets_table" "accounts_table \<noteq> account_secrets_table"
  "accounts_table \<noteq> secrets_table" "secrets_table \<noteq> account_secrets_table"
  by (simp_all add: account_tables)

lemma demo_trims [simp]:
  "trim_space ''w1'' = ''w1''" "trim_space ''main'' = ''main''" "trim_space ''u1'' = ''u1''"
  "trim_space ''k1'' = ''k1''" "trim_space ''t0'' = ''t0''" "trim_space ''secret:k1'' = ''secret:k1''"
  "trim_space ''secret: k1'' = ''secret: k1''" "trim_space '' k1'' = ''k1''"
  by code_simp+

lemmas run_accounts =
  run_steps Let_def select_rows_def where_simps update_rows_def row_fenced_def world_of_def
  account_join_def same_key_def requiredOwnerValue_def ownerNow_def

lemma demo_account_read:
  "\<exists>a w'. GetConnectionAccount calm_env demo_subject ''main'' (world_of demo_accounts_db) = (Inr a, w')"
  by (simp add: GetConnectionAccount_def normalizedConnectionAccountSubject_def demo_subject_def
      requireConnectionAccountSubjectScope_def connectionAccount_def connectionAccountAccess_def
      scanConnectionAccount_def enrichAccountReadiness_def account_readiness_def
      demo_accounts_db_def demo_connection_def demo_account_def ScopePersonal_def blank_def
      ScopeWorkspace_def run_accounts)

theorem account_visibility_witness:
  "\<exists>a w'. GetConnectionAccount calm_env demo_subject ''main'' (world_of demo_accounts_db) = (Inr a, w') \<and>
     ca_Scope a = ScopePersonal \<and> ca_OwnerUserID a = ''u1''"
proof -
  obtain a w' where a: "GetConnectionAccount calm_env demo_subject ''main'' (world_of demo_accounts_db) = (Inr a, w')"
    using demo_account_read by blast
  from account_visibility [OF a] a show ?thesis by (auto simp: account_visible_def demo_subject_def)
qed

theorem registration_keeps_accounts_witness:
  "demo_account \<in> set (w_db (snd (RegisterConnectionAccount calm_env ''w1'' ''main'' ''u2''
     \<lparr>reg_Scope = ScopeWorkspace, reg_OwnerUserID = []\<rparr> (world_of demo_accounts_db))) accounts_table)"
proof -
  have "demo_account \<in> set (w_db (world_of demo_accounts_db) accounts_table)"
    by (simp add: demo_accounts_db_def world_of_def)
  with registration_keeps_accounts [of calm_env "world_of demo_accounts_db" "''w1''" "''main''" "''u2''"
      "\<lparr>reg_Scope = ScopeWorkspace, reg_OwnerUserID = []\<rparr>"]
  show ?thesis by auto
qed

lemmas run_account_reads =
  GetConnectionAccount_def normalizedConnectionAccountSubject_def requireConnectionAccountSubjectScope_def
  connectionAccount_def connectionAccountAccess_def scanConnectionAccount_def enrichAccountReadiness_def
  account_readiness_def ScopePersonal_def ScopeWorkspace_def blank_def

lemma demo_revoked:
  "\<exists>a w'. RevokeConnectionAccount calm_env demo_subject ''main'' ''t0'' (world_of demo_accounts_db) = (Inr a, w')"
  by (simp add: RevokeConnectionAccount_def revoke_guards_def revoke_body_def run_account_reads calm_transaction
      demo_subject_def demo_accounts_db_def demo_connection_def demo_account_def demo_reservation_def demo_secret_def
      revoke_secret_def ascending_def run_accounts)

theorem revocation_disables_credentials_witness:
  "\<exists>a w'. RevokeConnectionAccount calm_env demo_subject ''main'' ''t0'' (world_of demo_accounts_db) = (Inr a, w') \<and>
     connection_revoked ''w1'' ''main'' (w_db w') \<and> no_active_secret ''w1'' ''k1'' (w_db w')"
proof -
  obtain a w' where a: "RevokeConnectionAccount calm_env demo_subject ''main'' ''t0'' (world_of demo_accounts_db) = (Inr a, w')"
    using demo_revoked by blast
  have "connection_revoked (trim_space (sub_WorkspaceID demo_subject)) (trim_space ''main'') (w_db w') \<and>
      no_active_secret (trim_space (sub_WorkspaceID demo_subject)) ''k1'' (w_db w')"
    by (rule revocation_disables_credentials [OF calm_alone a, of demo_reservation])
      (simp_all add: demo_subject_def demo_accounts_db_def world_of_def connection_revoked_def demo_connection_def
        demo_reservation_def)
  with a show ?thesis by (simp add: demo_subject_def)
qed

section \<open>An alias that publication does not see\<close>

definition alias_db :: database where
  "alias_db = (\<lambda>t. if t = connections_table then [demo_connection ''main'' ''secret:k1'', demo_connection ''old'' ''secret: k1'']
    else if t = secrets_table then [demo_secret] else [])"

lemma demo_prefixes [simp]:
  "trim_prefix ''secret:k1'' ''secret:'' = ''k1''" "trim_prefix ''secret: k1'' ''secret:'' = '' k1''"
  "has_prefix ''secret:k1'' ''secret:''" "has_prefix ''secret: k1'' ''secret:''"
  "raw_length (marshal (JObj [(''token'', JStr ''secret: k1'')])) = 22"
  "''secret: k1'' \<noteq> ''secret:k1''"
  by code_simp+

text \<open>
  The check that a credential of a new account is used by no other connection compares the
  references as texts, while resolving trims the key after the prefix: connection \<open>old\<close> refers to
  the same secret as \<open>main\<close>, and \<open>main\<close> is published with that secret reserved for it.
\<close>

theorem credential_alias_accepted:
  "(\<exists>a w'. RegisterConnectionAccount calm_env ''w1'' ''main'' ''u1''
      \<lparr>reg_Scope = ScopePersonal, reg_OwnerUserID = ''u1''\<rparr> (world_of alias_db) = (Inr a, w')) \<and>
   resolveReferenceSnapshot E ''w1'' ''secret: k1'' = resolveReferenceSnapshot E ''w1'' ''secret:k1'' \<and>
   materialSecretKeys [(''token'', ''secret: k1'')] = materialSecretKeys [(''token'', ''secret:k1'')]"
  by (simp add: RegisterConnectionAccount_def register_guards_def register_body_def calm_transaction
      requireAllDataScope_def scopeOwner_def GetConnection_def scopedWhere_def scanConnection_def
      syncConnectionAccountSecrets_def rejectReservedAccountSecrets_def reserved_by_other_def materialSecretKeys_def
      rejectExistingCredentialAliases_def alias_check_def require_active_material_def reserve_secret_def
      connectionAccount_def scanConnectionAccount_def ScopePersonal_def ScopeWorkspace_def blank_def
      alias_db_def demo_connection_def demo_secret_def conflicts_def unique_keys_def guard_predicate_def
      row_or_error_def decode_string_map_def decode_string_def secret_where_def resolveReferenceSnapshot_def ownerID_def delete_rows_def calm_delete run_accounts)

end
