(* ===== verification/AccountWrites.thy ===== *)
theory AccountWrites
  imports Operations ConnectionAccounts
begin

text \<open>
  The account writes: \<open>connection_account_writes.go\<close> of the application (the service over its four
  ports), and behind the ports the authority, the ledger and the executor of the database layer.
  The ports are locales; the laws of the ledger and the executor give that a write reaches the
  provider at most once.
\<close>

section \<open>The service\<close>

text \<open>The ports of the service; the codec (whose contracts are the SDK's) is pure.\<close>

record account_write_codec =
  co_ValidateOperation :: "ConnectionAccountWriteOperation \<Rightarrow> err option"
  co_CanonicalPayload :: "ConnectionAccountWriteOperation \<Rightarrow> raw_message \<Rightarrow> err + raw_message"
  co_Receipt :: "AccountWriteClaim \<Rightarrow> raw_message \<Rightarrow> err + raw_message"

record AccountWriteService =
  sv_authority ::
    "ConnectionAccountSubject \<Rightarrow> string \<Rightarrow> ConnectionAccountWriteOperation \<Rightarrow> ConnectionAccountWriteAccess dbop"
  sv_codec :: account_write_codec
  sv_claim :: "AccountWriteClaim \<Rightarrow> (ConnectionAccountWriteResult \<times> bool) dbop"
  sv_read :: "AccountWriteClaim \<Rightarrow> ConnectionAccountWriteResult dbop"
  sv_finish :: "AccountWriteClaim \<Rightarrow> AccountWriteExecution \<Rightarrow> ConnectionAccountWriteResult dbop"
  sv_execute :: "AccountWriteClaim \<Rightarrow> AccountWriteExecution dbop"

definition Service_AuthorizeWrite ::
    "AccountWriteService \<Rightarrow> ConnectionAccountSubject \<Rightarrow> string \<Rightarrow> ConnectionAccountWriteOperation \<Rightarrow>
     ConnectionAccountWriteAccess dbop" where
  "Service_AuthorizeWrite s subject key operation =
    (case first_err
       [Subject_Validate subject,
        fails_if (trim_space (sub_UserID subject) \<noteq> sub_UserID subject \<or>
                  trim_space (sub_WorkspaceID subject) \<noteq> sub_WorkspaceID subject)
          (Errorf ''Integration account write subject is invalid'' []),
        WriteOperation_Validate operation,
        co_ValidateOperation (sv_codec s) operation] of
       Some e \<Rightarrow> throw e
     | None \<Rightarrow> sv_authority s subject key operation)"

text \<open>\<open>current\<close>: the authorization is still there, for the same account revision and contract.\<close>

definition write_current :: "AccountWriteService \<Rightarrow> AccountWriteClaim \<Rightarrow> string \<Rightarrow> unit dbop" where
  "write_current s claim key =
    (let expected = wr_ExpectedSource (cl_Request claim) in
     seq (Service_AuthorizeWrite s (cl_Subject claim) key (WriteSource_OperationContract expected)) (\<lambda>access.
     check (wa_Source access = expected \<and> ws_WorkspaceID (wa_Source access) = sub_WorkspaceID (cl_Subject claim) \<and>
            ws_ConnectionKey (wa_Source access) = key)
       (Errorf ''Integration account write authorization changed'' [])))"

definition write_source_json :: "ConnectionAccountWriteSource \<Rightarrow> json" where
  "write_source_json s =
    JObj [(''workspace_id'', JStr (ws_WorkspaceID s)), (''connection_key'', JStr (ws_ConnectionKey s)),
          (''connector_key'', JStr (ws_ConnectorKey s)), (''provider_key'', JStr (ws_ProviderKey s)),
          (''account_updated_at'', JStr (ws_AccountUpdatedAt s)), (''operation'', JStr (ws_Operation s)),
          (''contract_sha256'', JStr (ws_ContractSHA256 s))]"

text \<open>The identity of a write: its workspace, user and request id; and the digest of its content.\<close>

definition write_invocation_id :: "env \<Rightarrow> ConnectionAccountSubject \<Rightarrow> ConnectionAccountWriteRequest \<Rightarrow> string" where
  "write_invocation_id E subject request =
    ''account-write:'' @
    ev_sha256_json E (JArr (map JStr [sub_WorkspaceID subject, sub_UserID subject, wr_RequestID request]))"

definition write_fingerprint :: "env \<Rightarrow> ConnectionAccountWriteRequest \<Rightarrow> string" where
  "write_fingerprint E request =
    (case embed_raw (wr_Payload request) of
       None \<Rightarrow> ev_sha256 E []
     | Some payload \<Rightarrow>
         ev_sha256_json E
           (JObj [(''Source'', write_source_json (wr_ExpectedSource request)), (''Payload'', payload)]))"

definition write_claim ::
    "env \<Rightarrow> AccountWriteService \<Rightarrow> ConnectionAccountSubject \<Rightarrow> string \<Rightarrow> ConnectionAccountWriteRequest \<Rightarrow>
     AccountWriteClaim dbop" where
  "write_claim E s subject key request =
    (case WriteRequest_Validate request of
       Some e \<Rightarrow> throw e
     | None \<Rightarrow>
         (case co_CanonicalPayload (sv_codec s) (WriteSource_OperationContract (wr_ExpectedSource request))
                 (wr_Payload request) of
            Inl e \<Rightarrow> throw (Errorf ''Integration account write payload is invalid'' [])
          | Inr payload \<Rightarrow>
              (let request = request\<lparr>wr_Payload := payload\<rparr>;
                   claim = \<lparr>cl_Subject = subject, cl_Request = request,
                            cl_InvocationID = write_invocation_id E subject request,
                            cl_Fingerprint = write_fingerprint E request\<rparr> in
               seq (write_current s claim key) (\<lambda>_. ret claim))))"

definition failed_execution :: AccountWriteExecution where
  "failed_execution = \<lparr>ex_Status = AccountWriteFailed, ex_Payload = raw_nil, ex_CredentialUpdateFailed = False\<rparr>"

text \<open>What is recorded of an outcome: only a validated receipt, and no status but the three.\<close>

definition settle_outcome :: "account_write_codec \<Rightarrow> AccountWriteClaim \<Rightarrow> AccountWriteExecution \<Rightarrow> AccountWriteExecution" where
  "settle_outcome codec claim outcome =
    (let outcome =
       (if ex_Status outcome = AccountWriteSucceeded then
          (case co_Receipt codec claim (ex_Payload outcome) of
             Inl e \<Rightarrow> outcome\<lparr>ex_Status := AccountWriteUncertain, ex_Payload := raw_nil\<rparr>
           | Inr receipt \<Rightarrow> outcome\<lparr>ex_Payload := receipt\<rparr>)
        else outcome\<lparr>ex_Payload := raw_nil\<rparr>) in
     if ex_Status outcome \<noteq> AccountWriteSucceeded \<and> ex_Status outcome \<noteq> AccountWriteFailed
     then outcome\<lparr>ex_Status := AccountWriteUncertain, ex_Payload := raw_nil\<rparr>
     else outcome)"

definition execute_claim :: "env \<Rightarrow> AccountWriteService \<Rightarrow> AccountWriteClaim \<Rightarrow> string \<Rightarrow> AccountWriteExecution dbop" where
  "execute_claim E s claim key =
    seq (ctx_done E) (\<lambda>cancelled.
    if cancelled then ret failed_execution
    else
      seq (try_op (write_current s claim key)) (\<lambda>r. case r of
        Inl e \<Rightarrow> ret failed_execution
      | Inr _ \<Rightarrow> sv_execute s claim))"

definition WriteConnectionAccount ::
    "env \<Rightarrow> AccountWriteService \<Rightarrow> ConnectionAccountSubject \<Rightarrow> string \<Rightarrow> ConnectionAccountWriteRequest \<Rightarrow>
     ConnectionAccountWriteResult dbop" where
  "WriteConnectionAccount E s subject key request =
    seq (write_claim E s subject key request) (\<lambda>claim.
    seq (sv_claim s claim) (\<lambda>(result, acquired).
    if acquired then
      seq (execute_claim E s claim key) (\<lambda>outcome.
      seq (try_op (sv_finish s claim (settle_outcome (sv_codec s) claim outcome))) (\<lambda>r. case r of
        Inl e \<Rightarrow> throw (Errorf ''Integration account write receipt unavailable; query the original request'' [])
      | Inr result \<Rightarrow> seq (write_current s claim key) (\<lambda>_. ret result)))
    else seq (write_current s claim key) (\<lambda>_. ret result)))"

definition ReadConnectionAccountWriteReceipt ::
    "env \<Rightarrow> AccountWriteService \<Rightarrow> ConnectionAccountSubject \<Rightarrow> string \<Rightarrow> ConnectionAccountWriteRequest \<Rightarrow>
     ConnectionAccountWriteResult dbop" where
  "ReadConnectionAccountWriteReceipt E s subject key request =
    seq (write_claim E s subject key request) (\<lambda>claim.
    seq (sv_read s claim) (\<lambda>result.
    seq (write_current s claim key) (\<lambda>_. ret result)))"

section \<open>The ledger\<close>

record accountWriteMetadata =
  am_Kind :: string
  am_ActorID :: string
  am_Source :: ConnectionAccountWriteSource
  am_Fingerprint :: string
  am_Receipt :: raw_message
  am_CredentialUpdateFailed :: bool

definition accountWriteEvidence :: "AccountWriteClaim \<Rightarrow> accountWriteMetadata" where
  "accountWriteEvidence claim =
    \<lparr>am_Kind = ''account-write-v1'', am_ActorID = sub_UserID (cl_Subject claim),
     am_Source = wr_ExpectedSource (cl_Request claim), am_Fingerprint = cl_Fingerprint claim, am_Receipt = raw_nil,
     am_CredentialUpdateFailed = False\<rparr>"

text \<open>\<open>json.Marshal\<close> of the metadata; it fails on a receipt that is not JSON.\<close>

definition marshal_metadata :: "accountWriteMetadata \<Rightarrow> raw_message option" where
  "marshal_metadata m =
    (case (if raw_length (am_Receipt m) = 0 then Some []
           else map_option (\<lambda>j. [(''receipt'', j)]) (raw_value (am_Receipt m))) of
       None \<Rightarrow> None
     | Some receipt \<Rightarrow>
         Some (marshal (JObj
           ([(''kind'', JStr (am_Kind m)), (''actor_id'', JStr (am_ActorID m)),
             (''source'', write_source_json (am_Source m)), (''fingerprint'', JStr (am_Fingerprint m))] @ receipt @
            (if am_CredentialUpdateFailed m then [(''credential_update_failed'', JBool True)] else [])))))"

text \<open>\<open>json.Unmarshal\<close> into the metadata; a missing or \<open>null\<close> member leaves the zero value.\<close>

definition decode_write_source :: "json \<Rightarrow> ConnectionAccountWriteSource option" where
  "decode_write_source j =
    (case (case j of JObj m \<Rightarrow> Some m | JNull \<Rightarrow> Some [] | _ \<Rightarrow> None) of
       None \<Rightarrow> None
     | Some m \<Rightarrow>
         (case map (member_text m) [''workspace_id'', ''connection_key'', ''connector_key'', ''provider_key'',
                                    ''account_updated_at'', ''operation'', ''contract_sha256''] of
            [Some a, Some b, Some c, Some d, Some e, Some f, Some g] \<Rightarrow>
              Some \<lparr>ws_WorkspaceID = a, ws_ConnectionKey = b, ws_ConnectorKey = c, ws_ProviderKey = d,
                    ws_AccountUpdatedAt = e, ws_Operation = f, ws_ContractSHA256 = g\<rparr>
          | _ \<Rightarrow> None))"

definition decode_metadata :: "raw_message \<Rightarrow> accountWriteMetadata option" where
  "decode_metadata r =
    (case decode_object r of
       None \<Rightarrow> None
     | Some m \<Rightarrow>
         (case (member_text m ''kind'', member_text m ''actor_id'',
                decode_write_source (case map_of m ''source'' of None \<Rightarrow> JNull | Some j \<Rightarrow> j),
                member_text m ''fingerprint'',
                (case map_of m ''credential_update_failed'' of
                   None \<Rightarrow> Some False | Some JNull \<Rightarrow> Some False | Some (JBool b) \<Rightarrow> Some b | _ \<Rightarrow> None)) of
            (Some kind, Some actor, Some source, Some fingerprint, Some failed) \<Rightarrow>
              Some \<lparr>am_Kind = kind, am_ActorID = actor, am_Source = source, am_Fingerprint = fingerprint,
                    am_Receipt = (case map_of m ''receipt'' of None \<Rightarrow> raw_nil | Some j \<Rightarrow> marshal j),
                    am_CredentialUpdateFailed = failed\<rparr>
          | _ \<Rightarrow> None))"

definition receipt_valid :: "raw_message \<Rightarrow> bool" where
  "receipt_valid r \<longleftrightarrow> raw_length r \<noteq> 0 \<and> raw_length r \<le> 32768 \<and> json_valid r"

definition write_where :: "AccountWriteClaim \<Rightarrow> predicate list" where
  "write_where claim =
    [Equal ''workspace_id'' (Text (sub_WorkspaceID (cl_Subject claim))), Equal ''id'' (Text (cl_InvocationID claim))]"

definition write_receipt_of :: "AccountWriteClaim \<Rightarrow> row \<Rightarrow> err + ConnectionAccountWriteResult" where
  "write_receipt_of claim r =
    (case decode_metadata (doc_of (r ''metadata_json'')) of
       None \<Rightarrow> Inl (Errorf ''Integration account write request identity conflicts'' [])
     | Some m \<Rightarrow>
         if am_Kind m \<noteq> ''account-write-v1'' \<or> am_ActorID m \<noteq> sub_UserID (cl_Subject claim) \<or>
            am_Source m \<noteq> wr_ExpectedSource (cl_Request claim) \<or> am_Fingerprint m \<noteq> cl_Fingerprint claim
         then Inl (Errorf ''Integration account write request identity conflicts'' [])
         else
           (let out = (\<lambda>status receipt.
                  \<lparr>wres_Source = wr_ExpectedSource (cl_Request claim), wres_InvocationID = cl_InvocationID claim,
                   wres_Status = status, wres_RecordedAt = text_of (r ''updated_at''), wres_Receipt = receipt\<rparr>);
                status = text_of (r ''status'') in
            if status = AccountWriteSucceeded then
              (if receipt_valid (am_Receipt m) then Inr (out status (am_Receipt m))
               else Inl (Errorf ''Integration account write receipt is invalid'' []))
            else if status = AccountWriteFailed then Inr (out status raw_nil)
            else Inr (out AccountWriteUncertain raw_nil)))"

definition ReadAccountWrite :: "env \<Rightarrow> AccountWriteClaim \<Rightarrow> ConnectionAccountWriteResult dbop" where
  "ReadAccountWrite E claim =
    seq (select_row E invocations_table (And (write_where claim))) (\<lambda>found. case found of
      None \<Rightarrow>
        ret \<lparr>wres_Source = wr_ExpectedSource (cl_Request claim), wres_InvocationID = [],
             wres_Status = AccountWriteNotFound, wres_RecordedAt = [], wres_Receipt = raw_nil\<rparr>
    | Some r \<Rightarrow>
        seq (scan_texts r [''status'', ''metadata_json'', ''updated_at'']) (\<lambda>_.
        of_result (write_receipt_of claim r)))"

definition FinishAccountWrite ::
    "env \<Rightarrow> AccountWriteClaim \<Rightarrow> AccountWriteExecution \<Rightarrow> ConnectionAccountWriteResult dbop" where
  "FinishAccountWrite E claim outcome =
    (let evidence = accountWriteEvidence claim;
         metadata = evidence\<lparr>am_Receipt := (if ex_Status outcome = AccountWriteSucceeded then ex_Payload outcome else raw_nil),
                             am_CredentialUpdateFailed := ex_CredentialUpdateFailed outcome\<rparr> in
     seq (check (ex_Status outcome \<in> {AccountWriteSucceeded, AccountWriteFailed, AccountWriteUncertain})
            (Errorf ''Integration account write outcome is invalid'' [])) (\<lambda>_.
     seq (check (ex_Status outcome = AccountWriteSucceeded \<longrightarrow> receipt_valid (ex_Payload outcome))
            (Errorf ''Integration account write receipt is invalid'' [])) (\<lambda>_.
     case (marshal_metadata evidence, marshal_metadata metadata) of
       (Some initial, Some raw) \<Rightarrow>
         seq (now E) (\<lambda>t.
         seq (guarded_update E invocations_table
                [(''status'', Text (ex_Status outcome)), (''metadata_json'', Doc raw), (''updated_at'', timestamp t)]
                (And (write_where claim @ [Equal ''status'' (Text ''running''), Equal ''metadata_json'' (Doc initial)]))) (\<lambda>n.
         seq (check (n = 1) (Errorf ''Integration account write claim changed'' [])) (\<lambda>_.
         ReadAccountWrite E claim)))
     | _ \<Rightarrow> throw (Errorf ''json'' []))))"

definition write_delivery :: "AccountWriteClaim \<Rightarrow> DeliveryRequest" where
  "write_delivery claim =
    (let source = wr_ExpectedSource (cl_Request claim) in
     \<lparr>dr_MessageID = cl_InvocationID claim, dr_DeduplicationKey = [], dr_WorkspaceID = ws_WorkspaceID source,
      dr_ConnectorKey = ws_ConnectorKey source, dr_ConnectionKey = ws_ConnectionKey source,
      dr_Operation = ws_Operation source, dr_Payload = raw_nil\<rparr>)"

definition ClaimAccountWrite :: "env \<Rightarrow> AccountWriteClaim \<Rightarrow> (ConnectionAccountWriteResult \<times> bool) dbop" where
  "ClaimAccountWrite E claim =
    (let source = wr_ExpectedSource (cl_Request claim) in
     seq (guardSubjectWrite E (sub_WorkspaceID (cl_Subject claim)) [(''subject'', [], sub_UserID (cl_Subject claim))]) (\<lambda>_.
     seq (ReadAccountWrite E claim) (\<lambda>current.
     if wres_Status current \<noteq> AccountWriteNotFound then ret (current, False)
     else
       (case marshal_metadata (accountWriteEvidence claim) of
          None \<Rightarrow> throw (Errorf ''json'' [])
        | Some metadata \<Rightarrow>
            seq (try_op (insertInvocation E (cl_InvocationID claim) (write_delivery claim) (ws_ConnectionKey source)
                           (ws_ProviderKey source) metadata)) (\<lambda>inserted. case inserted of
              Inr _ \<Rightarrow>
                ret (\<lparr>wres_Source = \<lparr>ws_WorkspaceID = [], ws_ConnectionKey = [], ws_ConnectorKey = [], ws_ProviderKey = [],
                                     ws_AccountUpdatedAt = [], ws_Operation = [], ws_ContractSHA256 = []\<rparr>,
                      wres_InvocationID = [], wres_Status = [], wres_RecordedAt = [], wres_Receipt = raw_nil\<rparr>, True)
            | Inl e \<Rightarrow>
                seq (ReadAccountWrite E claim) (\<lambda>current.
                if wres_Status current \<noteq> AccountWriteNotFound then ret (current, False) else throw e))))))"

section \<open>The executor\<close>

definition granted_scopes :: "env \<Rightarrow> ConnectionAccountWriteSource \<Rightarrow> string list list \<Rightarrow> bool dbop" where
  "granted_scopes E source alternatives =
    seq (try_op (select_row E grants_table
           (And [Equal ''workspace_id'' (Text (ws_WorkspaceID source)),
                 Equal ''connection_key'' (Text (ws_ConnectionKey source))]))) (\<lambda>r. case r of
      Inl e \<Rightarrow> ret False
    | Inr None \<Rightarrow> ret (OAuthScopeState [] False alternatives = ''ready'')
    | Inr (Some row) \<Rightarrow>
        if has_null row [''scopes_json''] then ret False
        else
          (case decode_string_list (doc_of (row ''scopes_json'')) of
             None \<Rightarrow> ret False
           | Some grants \<Rightarrow> ret (OAuthScopeState grants True alternatives = ''ready'')))"

definition write_connection_current :: "ConnectionAccountWriteSource \<Rightarrow> err + deliveryConnection \<Rightarrow> bool" where
  "write_connection_current source r =
    (case r of
       Inl e \<Rightarrow> False
     | Inr c \<Rightarrow> dc_UpdatedAt c = ws_AccountUpdatedAt source \<and> dc_ProviderKey c = ws_ProviderKey source)"

definition write_operation :: "provider \<Rightarrow> ConnectionAccountWriteSource \<Rightarrow> OperationDescriptor option" where
  "write_operation p source =
    (case providerOperation p (ws_Operation source) of
       None \<Rightarrow> None
     | Some operation \<Rightarrow>
         if od_Mode operation \<noteq> ModeCall \<or> od_Effect operation \<noteq> EffectWrite \<or>
            od_ContractSHA256 operation \<noteq> ws_ContractSHA256 source
         then None else Some operation)"

definition write_call :: "AccountWriteClaim \<Rightarrow> deliveryConnection \<Rightarrow> (string \<times> string) list \<Rightarrow> CallRequest" where
  "write_call claim connection secrets =
    (let source = wr_ExpectedSource (cl_Request claim) in
     \<lparr>cr_ConnectorKey = ws_ConnectorKey source, cr_ProviderKey = ws_ProviderKey source,
      cr_OperationKey = ws_Operation source, cr_ContractSHA256 = ws_ContractSHA256 source, cr_Mode = ModeCall,
      cr_Payload = wr_Payload (cl_Request claim), cr_RequestRef = cl_InvocationID claim, cr_Delivery = False,
      cr_Secrets = secrets, cr_Connection = sdk_connection connection,
      cr_Principal = \<lparr>pr_UserID = sub_UserID (cl_Subject claim), pr_RoleKey = [],
                      pr_WorkspaceID = ws_WorkspaceID source, pr_RequestID = cl_InvocationID claim,
                      pr_IsAuthenticated = True\<rparr>\<rparr>)"

definition execution_of :: "CallResult \<Rightarrow> err option \<Rightarrow> err option \<Rightarrow> AccountWriteExecution" where
  "execution_of result callErr secretErr =
    (case callErr of
       None \<Rightarrow> \<lparr>ex_Status = AccountWriteSucceeded, ex_Payload = res_Payload result,
                ex_CredentialUpdateFailed = (secretErr \<noteq> None)\<rparr>
     | Some e \<Rightarrow>
         \<lparr>ex_Status = (case e of
                         ProviderErr (Some ErrorPermanent) t \<Rightarrow> AccountWriteFailed
                       | ProviderErr (Some ErrorRetryable) t \<Rightarrow> AccountWriteFailed
                       | _ \<Rightarrow> AccountWriteUncertain),
          ex_Payload = raw_nil, ex_CredentialUpdateFailed = (secretErr \<noteq> None)\<rparr>)"

definition ExecuteAccountWrite :: "env \<Rightarrow> AccountWriteClaim \<Rightarrow> AccountWriteExecution dbop" where
  "ExecuteAccountWrite E claim =
    (let source = wr_ExpectedSource (cl_Request claim);
         connection = delivery_connection E (ws_WorkspaceID source) (ws_ConnectorKey source) (ws_ConnectionKey source) in
     seq (try_op connection) (\<lambda>found.
     if \<not> write_connection_current source found then ret failed_execution
     else
       (case ev_Provider E (ws_ConnectorKey source) (ws_ProviderKey source) of
          None \<Rightarrow> ret failed_execution
        | Some p \<Rightarrow>
            if write_operation p source = None then ret failed_execution
            else
              seq (try_op (resolveProviderSecrets E (ws_WorkspaceID source) (dc_SecretRefs (projr found)))) (\<lambda>r. case r of
                Inl e \<Rightarrow> ret failed_execution
              | Inr resolved \<Rightarrow>
                  seq (try_op connection) (\<lambda>current.
                  if \<not> write_connection_current source current then ret failed_execution
                  else
                    (case pv_OperationScopes p (ws_Operation source) of
                       None \<Rightarrow> ret failed_execution
                     | Some alternatives \<Rightarrow>
                         seq (granted_scopes E source alternatives) (\<lambda>granted.
                         seq (ctx_done E) (\<lambda>cancelled.
                         if \<not> granted \<or> cancelled then ret failed_execution
                         else
                           seq (call_provider p (write_call claim (projr found) (rps_Values resolved))) (\<lambda>(result, callErr).
                           seq (persistProviderSecretUpdates E (ws_WorkspaceID source) (dc_SecretRefs (projr found))
                                  (rps_Versions resolved) (res_SecretUpdates result) None) (\<lambda>secretErr.
                           ret (execution_of result callErr secretErr)))))))))))"

section \<open>The authority\<close>

definition AuthorizeConnectionAccountWrite ::
    "env \<Rightarrow> ConnectionAccountSubject \<Rightarrow> string \<Rightarrow> ConnectionAccountWriteOperation \<Rightarrow> ConnectionAccountWriteAccess dbop" where
  "AuthorizeConnectionAccountWrite E subject key operation =
    (case WriteOperation_Validate operation of
       Some e \<Rightarrow> throw e
     | None \<Rightarrow>
         seq (GetConnectionAccount E subject key) (\<lambda>a.
         case ca_Readiness a of
           None \<Rightarrow> throw (Errorf ''Integration connection account is unavailable'' [])
         | Some readiness \<Rightarrow>
             seq (check (ca_Status a = ''active'' \<and> rd_Available readiness \<and> ca_UpdatedAt a \<noteq> [])
                    (Errorf ''Integration connection account is unavailable'' [])) (\<lambda>_.
             case ev_Provider E (ca_ConnectorKey a) (ca_ProviderKey a) of
               None \<Rightarrow> throw (Errorf ''Integration account write provider is unavailable'' [])
             | Some p \<Rightarrow>
                 let source = \<lparr>ws_WorkspaceID = ca_WorkspaceID a, ws_ConnectionKey = ca_Key a,
                               ws_ConnectorKey = ca_ConnectorKey a, ws_ProviderKey = ca_ProviderKey a,
                               ws_AccountUpdatedAt = ca_UpdatedAt a, ws_Operation = wo_Operation operation,
                               ws_ContractSHA256 = wo_ContractSHA256 operation\<rparr> in
                 if write_operation p source = None then
                   throw (Errorf ''Integration account write operation is unavailable'' [])
                 else
                   (case pv_OperationScopes p (wo_Operation operation) of
                      None \<Rightarrow> throw (Errorf ''Integration account write scope is not granted'' [])
                    | Some alternatives \<Rightarrow>
                        if OAuthScopeState (rd_GrantedScopes readiness) (rd_GrantedScopes readiness \<noteq> []) alternatives \<noteq> ''ready''
                        then throw (Errorf ''Integration account write scope is not granted'' [])
                        else ret \<lparr>wa_Source = source, wa_ScopeAlternatives = alternatives\<rparr>))))"

text \<open>The service as the module assembles it.\<close>

definition owner_service :: "env \<Rightarrow> account_write_codec \<Rightarrow> AccountWriteService" where
  "owner_service E codec =
    \<lparr>sv_authority = AuthorizeConnectionAccountWrite E, sv_codec = codec, sv_claim = ClaimAccountWrite E,
     sv_read = ReadAccountWrite E, sv_finish = FinishAccountWrite E, sv_execute = ExecuteAccountWrite E\<rparr>"

section \<open>What account writes are built from\<close>

context store_reads
begin

lemma within_ReadAccountWrite: "within (ReadAccountWrite E claim)"
  unfolding ReadAccountWrite_def by (intro within_reads)

lemma within_AuthorizeConnectionAccountWrite: "within (AuthorizeConnectionAccountWrite E subject key operation)"
  unfolding AuthorizeConnectionAccountWrite_def Let_def by (intro within_account_reads)

lemma within_granted_scopes: "within (granted_scopes E source alternatives)"
  unfolding granted_scopes_def by (intro within_reads)

end

context store_writes
begin

lemma within_ClaimAccountWrite: "within (ClaimAccountWrite E claim)"
  unfolding ClaimAccountWrite_def Let_def by (intro within_delivery within_ReadAccountWrite)

lemma within_FinishAccountWrite: "within (FinishAccountWrite E claim outcome)"
  unfolding FinishAccountWrite_def Let_def
  by (intro within_delivery within_ReadAccountWrite) (simp_all add: keeps_identity_def)

end

context store_calls
begin

lemma within_ExecuteAccountWrite: "within (ExecuteAccountWrite E claim)"
  unfolding ExecuteAccountWrite_def Let_def
  by (intro within_delivery within_granted_scopes within_call_provider)

end

section \<open>The ports and their contracts\<close>

text \<open>
  The ledger: a claim makes no external call, an acquired one leaves the id claimed, a claimed id
  is never acquired, and no step of the ledger gives a claimed id up.
\<close>

locale account_write_ledger =
  fixes E :: env and claimed :: "string \<Rightarrow> database \<Rightarrow> bool"
    and claim_op :: "AccountWriteClaim \<Rightarrow> (ConnectionAccountWriteResult \<times> bool) dbop"
    and finish_op :: "AccountWriteClaim \<Rightarrow> AccountWriteExecution \<Rightarrow> ConnectionAccountWriteResult dbop"
  assumes claim_quiet: "evolution.within quiet (claim_op c)"
    and claim_keeps: "evolution.within (quiet_where (claimed i) E) (claim_op c)"
    and claim_establishes: "claim_op c w = (Inr (r, True), w') \<Longrightarrow> claimed (cl_InvocationID c) (w_db w')"
    and claim_refused: "stable (claimed (cl_InvocationID c)) E \<Longrightarrow> claimed (cl_InvocationID c) (w_db w) \<Longrightarrow>
      claim_op c w = (Inr (r, acquired), w') \<Longrightarrow> \<not> acquired"
    and finish_keeps: "evolution.within (quiet_where (claimed i) E) (finish_op c x)"

text \<open>The executor calls at most once; the authority calls nobody.\<close>

locale account_write_executor =
  fixes E :: env and claimed :: "string \<Rightarrow> database \<Rightarrow> bool"
    and execute_op :: "AccountWriteClaim \<Rightarrow> AccountWriteExecution dbop"
  assumes execute_single: "single_call_under (claimed i) E (execute_op c)"

locale account_write_authority =
  fixes E :: env and claimed :: "string \<Rightarrow> database \<Rightarrow> bool"
    and authorize_op ::
      "ConnectionAccountSubject \<Rightarrow> string \<Rightarrow> ConnectionAccountWriteOperation \<Rightarrow> ConnectionAccountWriteAccess dbop"
  assumes authorize_quiet: "evolution.within quiet (authorize_op s k operation)"
    and authorize_keeps: "evolution.within (quiet_where (claimed i) E) (authorize_op s k operation)"

locale account_writes =
  account_write_ledger E claimed "sv_claim s" "sv_finish s" +
  account_write_executor E claimed "sv_execute s" +
  account_write_authority E claimed "sv_authority s"
  for E claimed and s :: AccountWriteService
begin

lemma current_quiet: "evolution.within quiet (write_current s claim key)"
  unfolding write_current_def Service_AuthorizeWrite_def Let_def
  by (intro quiet.within_reads authorize_quiet)

lemma current_keeps: "evolution.within (quiet_where (claimed i) E) (write_current s claim key)"
  unfolding write_current_def Service_AuthorizeWrite_def Let_def
  by (intro quiet_where.within_intros authorize_keeps)

lemma execute_claim_single: "single_call_under (claimed i) E (execute_claim E s claim key)"
  unfolding execute_claim_def
  by (intro single_call_under_seq single_call_under_if single_call_under_sum execute_single)
    (intro single_call_under_quiet quiet_where.within_intros quiet_where_ctx_done current_keeps)+

lemma claim_id: "write_claim E s subject key request w = (Inr c, w') \<Longrightarrow> cl_InvocationID c = write_invocation_id E subject request"
  by (auto simp: write_claim_def write_invocation_id_def Let_def op_Inr split: option.splits sum.splits)

lemma write_claim_quiet: "evolution.within quiet (write_claim E s subject key request)"
  unfolding write_claim_def Let_def by (intro quiet.within_reads current_quiet)

lemma write_claim_keeps: "evolution.within (quiet_where (claimed i) E) (write_claim E s subject key request)"
  unfolding write_claim_def Let_def by (intro quiet_where.within_intros current_keeps)

lemma write_single:
  "single_call (claimed (write_invocation_id E subject request)) E (WriteConnectionAccount E s subject key request)"
  unfolding WriteConnectionAccount_def
proof (rule single_call_seq_result [OF write_claim_quiet])
  fix w c w'
  assume "write_claim E s subject key request w = (Inr c, w')"
  then have i: "write_invocation_id E subject request = cl_InvocationID c" by (simp add: claim_id)
  show "single_call (claimed (write_invocation_id E subject request)) E
     (seq (sv_claim s c) (\<lambda>(result, acquired).
      if acquired then
        seq (execute_claim E s c key) (\<lambda>outcome.
        seq (try_op (sv_finish s c (settle_outcome (sv_codec s) c outcome))) (\<lambda>r. case r of
          Inl e \<Rightarrow> throw (Errorf ''Integration account write receipt unavailable; query the original request'' [])
        | Inr result \<Rightarrow> seq (write_current s c key) (\<lambda>_. ret result)))
      else seq (write_current s c key) (\<lambda>_. ret result)))"
    unfolding i
  proof (rule single_call_claim_if [where won = snd, OF claim_quiet])
    show "sv_claim s c w = (Inr x, w') \<Longrightarrow> snd x \<Longrightarrow> claimed (cl_InvocationID c) (w_db w')" for w x w'
      by (cases x) (auto dest: claim_establishes)
    show "snd x \<Longrightarrow> single_call_under (claimed (cl_InvocationID c)) E (case x of (result, acquired) \<Rightarrow>
        if acquired then
        seq (execute_claim E s c key) (\<lambda>outcome.
        seq (try_op (sv_finish s c (settle_outcome (sv_codec s) c outcome))) (\<lambda>r. case r of
          Inl e \<Rightarrow> throw (Errorf ''Integration account write receipt unavailable; query the original request'' [])
        | Inr result \<Rightarrow> seq (write_current s c key) (\<lambda>_. ret result)))
      else seq (write_current s c key) (\<lambda>_. ret result))" for x
      by (cases x; simp only: prod.case snd_conv if_True)
        (intro single_call_under_then [OF execute_claim_single] quiet_where.within_intros finish_keeps current_keeps)
  qed (auto intro!: quiet.within_reads current_quiet split: prod.split)
qed

lemma write_taken:
  "evolution.within (quiet_where (claimed (write_invocation_id E subject request)) E)
     (WriteConnectionAccount E s subject key request)"
  unfolding WriteConnectionAccount_def
proof (rule quiet_where_seq_result [OF write_claim_keeps])
  fix w c w'
  assume "write_claim E s subject key request w = (Inr c, w')"
  then have i: "write_invocation_id E subject request = cl_InvocationID c" by (simp add: claim_id)
  show "evolution.within (quiet_where (claimed (write_invocation_id E subject request)) E)
     (seq (sv_claim s c) (\<lambda>(result, acquired).
      if acquired then
        seq (execute_claim E s c key) (\<lambda>outcome.
        seq (try_op (sv_finish s c (settle_outcome (sv_codec s) c outcome))) (\<lambda>r. case r of
          Inl e \<Rightarrow> throw (Errorf ''Integration account write receipt unavailable; query the original request'' [])
        | Inr result \<Rightarrow> seq (write_current s c key) (\<lambda>_. ret result)))
      else seq (write_current s c key) (\<lambda>_. ret result)))"
    unfolding i
  proof (rule quiet_where_seq_under [OF claim_keeps])
    fix w x w'
    assume "stable (claimed (cl_InvocationID c)) E" "claimed (cl_InvocationID c) (w_db w)" "sv_claim s c w = (Inr x, w')"
    with claim_refused [of c w "fst x" "snd x" w'] have "\<not> snd x" by simp
    then show "evolution.within (quiet_where (claimed (cl_InvocationID c)) E) (case x of (result, acquired) \<Rightarrow>
        if acquired then
        seq (execute_claim E s c key) (\<lambda>outcome.
        seq (try_op (sv_finish s c (settle_outcome (sv_codec s) c outcome))) (\<lambda>r. case r of
          Inl e \<Rightarrow> throw (Errorf ''Integration account write receipt unavailable; query the original request'' [])
        | Inr result \<Rightarrow> seq (write_current s c key) (\<lambda>_. ret result)))
      else seq (write_current s c key) (\<lambda>_. ret result))"
      by (cases x) (auto intro!: quiet_where.within_intros current_keeps)
  qed
qed

end


section \<open>The owner's ports keep the contracts\<close>

lemma insertInvocation_taken:
  assumes "stable (has_id invocations_table i) E" and "has_id invocations_table i (w_db w)"
  shows "insertInvocation E i d ck pk metadata w \<noteq> (Inr u, w')"
proof
  assume "insertInvocation E i d ck pk metadata w = (Inr u, w')"
  then obtain v cs where g: "guardSubjectWrite E (dr_WorkspaceID d) (invocation_fences ck (dr_MessageID d) i) w = (Inr (), v)"
    and insert: "insert_into E invocations_table cs v = (Inr 1, w')" and i: "row_of cs ''id'' = Text i"
    by (auto simp: insertInvocation_def seq_Inr now_Inr)
  from quiet_where_D [OF id_quiet.within_guard assms g] have "has_id invocations_table i (w_db v)" by simp
  from insert_stops [OF assms(1) this i] insert show False by auto
qed

lemma ClaimAccountWrite_acquired:
  "ClaimAccountWrite E c w = (Inr (r, True), w') \<Longrightarrow>
   \<exists>u v metadata. guardSubjectWrite E (sub_WorkspaceID (cl_Subject c)) [(''subject'', [], sub_UserID (cl_Subject c))] w = (Inr (), u) \<and>
     (\<exists>current. ReadAccountWrite E c u = (Inr current, v)) \<and>
     insertInvocation E (cl_InvocationID c) (write_delivery c) (ws_ConnectionKey (wr_ExpectedSource (cl_Request c)))
       (ws_ProviderKey (wr_ExpectedSource (cl_Request c))) metadata v = (Inr (), w')"
  by (auto simp: ClaimAccountWrite_def Let_def op_Inr split: if_splits option.splits sum.splits)
    (metis obj_sumE old.unit.exhaust)

interpretation ledger: account_write_ledger E "has_id invocations_table" "ClaimAccountWrite E" "FinishAccountWrite E" for E
proof
  show "evolution.within quiet (ClaimAccountWrite E c)" for c by (rule quiet.within_ClaimAccountWrite)
  show "evolution.within (quiet_where (has_id invocations_table i) E) (ClaimAccountWrite E c)" for i c
    by (rule id_quiet.within_ClaimAccountWrite)
  show "evolution.within (quiet_where (has_id invocations_table i) E) (FinishAccountWrite E c x)" for i c x
    by (rule id_quiet.within_FinishAccountWrite)
  fix c w r w'
  show "ClaimAccountWrite E c w = (Inr (r, True), w') \<Longrightarrow> has_id invocations_table (cl_InvocationID c) (w_db w')"
    using ClaimAccountWrite_acquired insertInvocation_claims by blast
  fix acquired
  assume st: "stable (has_id invocations_table (cl_InvocationID c)) E" "has_id invocations_table (cl_InvocationID c) (w_db w)"
    and claim: "ClaimAccountWrite E c w = (Inr (r, acquired), w')"
  show "\<not> acquired"
  proof
    assume acquired
    with claim have "ClaimAccountWrite E c w = (Inr (r, True), w')" by simp
    from ClaimAccountWrite_acquired [OF this] obtain u v metadata current where
        g: "guardSubjectWrite E (sub_WorkspaceID (cl_Subject c)) [(''subject'', [], sub_UserID (cl_Subject c))] w = (Inr (), u)"
      and rd: "ReadAccountWrite E c u = (Inr current, v)"
      and insert: "insertInvocation E (cl_InvocationID c) (write_delivery c) (ws_ConnectionKey (wr_ExpectedSource (cl_Request c)))
       (ws_ProviderKey (wr_ExpectedSource (cl_Request c))) metadata v = (Inr (), w')" by blast
    from quiet_where_D [OF id_quiet.within_guard st g] have u: "has_id invocations_table (cl_InvocationID c) (w_db u)" by simp
    from quiet_where_D [OF id_quiet.within_ReadAccountWrite st(1) u rd]
    have "has_id invocations_table (cl_InvocationID c) (w_db v)" by simp
    from insertInvocation_taken [OF st(1) this] insert show False by blast
  qed
qed

interpretation executor: account_write_executor E "has_id invocations_table" "ExecuteAccountWrite E" for E
proof
  show "single_call_under (has_id invocations_table i) E (ExecuteAccountWrite E c)" for i c
    unfolding ExecuteAccountWrite_def call_provider_def Let_def
    by (intro single_call_under_call single_call_under_seq single_call_under_if single_call_under_option
        single_call_under_sum id_quiet.within_delivery id_quiet.within_granted_scopes)
      (intro single_call_under_quiet quiet_where.within_ret)+
qed

interpretation authority: account_write_authority E "has_id invocations_table" "AuthorizeConnectionAccountWrite E" for E
  by unfold_locales (rule quiet.within_AuthorizeConnectionAccountWrite id_quiet.within_AuthorizeConnectionAccountWrite)+

interpretation owner: account_writes E "has_id invocations_table" "owner_service E codec" for E codec
  by (simp add: owner_service_def account_writes_def ledger.account_write_ledger_axioms
      executor.account_write_executor_axioms authority.account_write_authority_axioms)

text \<open>Runs of one write, whatever the content of the request.\<close>

definition same_write :: "string \<Rightarrow> env \<times> account_write_codec \<times> ConnectionAccountSubject \<times> string \<times> ConnectionAccountWriteRequest \<Rightarrow> bool" where
  "same_write i run = (case run of (E, codec, subject, key, request) \<Rightarrow>
     write_invocation_id E subject request = i \<and> stable (has_id invocations_table i) E)"

definition write_run :: "env \<times> account_write_codec \<times> ConnectionAccountSubject \<times> string \<times> ConnectionAccountWriteRequest \<Rightarrow>
    ConnectionAccountWriteResult dbop" where
  "write_run run = (case run of (E, codec, subject, key, request) \<Rightarrow>
     WriteConnectionAccount E (owner_service E codec) subject key request)"

text \<open>
  C1. However often a write with one identity (workspace, user, request id) is submitted, by any
  number of processes, each with its own faults, clock and interference, and whatever the
  request's content, the provider is called at most once, as long as nobody deletes the claim.
\<close>

theorem account_write_at_most_once:
  assumes "list_all (same_write i) runs"
  shows "\<exists>cs. w_calls (fold (\<lambda>run w. snd (write_run run w)) runs w) = w_calls w @ cs \<and> length cs \<le> 1"
proof -
  have "same_write i run \<Longrightarrow> at_most_once (has_id invocations_table i) (write_run run)" for run
    by (cases run) (auto simp: same_write_def write_run_def intro!: at_most_once_I owner.write_single owner.write_taken)
  then have "list_all (at_most_once (has_id invocations_table i)) (map write_run runs)"
    using assms by (auto simp: list_all_iff)
  from runs_at_most_once [OF this, of w] show ?thesis by (simp add: fold_map comp_def)
qed


section \<open>Receipts read back\<close>

lemma decode_write_source_json [simp]: "decode_write_source (write_source_json s) = Some s"
  by (simp add: decode_write_source_def write_source_json_def member_text_def decode_string_def)

text \<open>The metadata read back as they were written; a receipt comes back as its value, in the compact form.\<close>

lemma metadata_roundtrip:
  assumes "marshal_metadata m = Some raw"
  shows "decode_metadata raw = Some (m\<lparr>am_Receipt :=
    (if raw_length (am_Receipt m) = 0 then raw_nil else marshal (the (raw_value (am_Receipt m))))\<rparr>)"
proof -
  let ?ms = "[(''kind'', JStr (am_Kind m)), (''actor_id'', JStr (am_ActorID m)),
    (''source'', write_source_json (am_Source m)), (''fingerprint'', JStr (am_Fingerprint m))]"
  let ?fs = "if am_CredentialUpdateFailed m then [(''credential_update_failed'', JBool True)] else []"
  have read: "decode_metadata (marshal (JObj (?ms @ rs @ ?fs))) =
      Some (m\<lparr>am_Receipt := (case map_of rs ''receipt'' of None \<Rightarrow> raw_nil | Some j \<Rightarrow> marshal j)\<rparr>)"
    if "rs = [] \<or> (\<exists>j. rs = [(''receipt'', j)])" for rs
    using that by (auto simp: decode_metadata_def member_text_def decode_string_def)
  show ?thesis
  proof (cases "raw_length (am_Receipt m) = 0")
    case True
    with assms have "raw = marshal (JObj (?ms @ [] @ ?fs))" by (simp add: marshal_metadata_def)
    with read [of "[]"] True show ?thesis by simp
  next
    case False
    then obtain j where j: "raw_value (am_Receipt m) = Some j"
      using assms by (cases "raw_value (am_Receipt m)") (simp_all add: marshal_metadata_def)
    with False assms have "raw = marshal (JObj (?ms @ [(''receipt'', j)] @ ?fs))" by (simp add: marshal_metadata_def)
    with read [of "[(''receipt'', j)]"] False j show ?thesis by simp
  qed
qed

text \<open>A lookup when nobody interferes: the first row, or a storage error.\<close>

lemma select_row_alone:
  assumes "alone E"
  shows "\<exists>w'. w_db w' = w_db w \<and>
    (select_row E t p w = (Inl StorageErr, w') \<or>
     select_row E t p w = (Inr (case select_rows t p (w_db w) of [] \<Rightarrow> None | r # _ \<Rightarrow> Some r), w'))"
  using assms
  by (cases "ev_fault E (w_step w)") (auto simp: select_row_def select_def statement_def seq_def Let_def)

lemma write_where_iff:
  "holds d r (And (write_where claim)) \<longleftrightarrow>
    r ''id'' = Text (cl_InvocationID claim) \<and> r ''workspace_id'' = Text (sub_WorkspaceID (cl_Subject claim))"
  by (auto simp: write_where_def holds_And holds_Equal)

lemma ReadAccountWrite_found:
  assumes "alone E" and "keyed (w_db w) invocations_table" and "r \<in> set (w_db w invocations_table)"
    and "r ''id'' = Text (cl_InvocationID claim)"
    and "r ''workspace_id'' = Text (sub_WorkspaceID (cl_Subject claim))"
  shows "\<exists>w'. w_db w' = w_db w \<and> (select_row E invocations_table (And (write_where claim)) w = (Inl StorageErr, w') \<or>
      select_row E invocations_table (And (write_where claim)) w = (Inr (Some r), w'))"
proof -
  have "holds (w_db w) r (And (write_where claim))" unfolding write_where_iff using assms(4,5) by simp
  from select_unique [OF assms(2-4) this] obtain rs
    where rs: "select_rows invocations_table (And (write_where claim)) (w_db w) = r # rs"
    unfolding write_where_iff by blast
  show ?thesis
    using select_row_alone [OF assms(1), of w invocations_table "And (write_where claim)"] unfolding rs by auto
qed

lemma ReadAccountWrite_row:
  assumes "alone E" and "keyed (w_db w) invocations_table" and "r \<in> set (w_db w invocations_table)"
    and "r ''id'' = Text (cl_InvocationID claim)"
    and "r ''workspace_id'' = Text (sub_WorkspaceID (cl_Subject claim))"
    and "\<not> has_null r [''status'', ''metadata_json'', ''updated_at'']"
  shows "fst (ReadAccountWrite E claim w) \<in> {Inl StorageErr, write_receipt_of claim r} \<and>
    w_db (snd (ReadAccountWrite E claim w)) = w_db w"
  using ReadAccountWrite_found [OF assms(1-5)] assms(6)
  by (cases "write_receipt_of claim r")
    (auto simp: ReadAccountWrite_def seq_def scan_texts_def of_result_def check_def ret_def throw_def simp del: has_null.simps)

lemma ReadAccountWrite_null:
  assumes "alone E" and "keyed (w_db w) invocations_table" and "r \<in> set (w_db w invocations_table)"
    and "r ''id'' = Text (cl_InvocationID claim)"
    and "r ''workspace_id'' = Text (sub_WorkspaceID (cl_Subject claim))"
    and "has_null r [''status'', ''metadata_json'', ''updated_at'']"
  shows "fst (ReadAccountWrite E claim w) = Inl StorageErr"
  using ReadAccountWrite_found [OF assms(1-5)] assms(6)
  by (auto simp: ReadAccountWrite_def seq_def scan_texts_def check_def throw_def simp del: has_null.simps)

lemma keyed_invocations_update:
  "keyed d invocations_table \<Longrightarrow> keeps_identity cs \<Longrightarrow>
   keyed (snd (update_rows invocations_table (set_columns cs) p d)) invocations_table"
  using set_columns_identity [of cs] by (intro keyed_update) (auto simp: unique_keys_def invocations_table_def)

definition settled_metadata :: "AccountWriteClaim \<Rightarrow> AccountWriteExecution \<Rightarrow> accountWriteMetadata" where
  "settled_metadata claim outcome = (accountWriteEvidence claim)
    \<lparr>am_Receipt := (if ex_Status outcome = AccountWriteSucceeded then ex_Payload outcome else raw_nil),
     am_CredentialUpdateFailed := ex_CredentialUpdateFailed outcome\<rparr>"

lemma FinishAccountWrite_Inr:
  assumes "alone E" and "keyed (w_db w) invocations_table" and "FinishAccountWrite E claim outcome w = (Inr res, w')"
  shows "\<exists>r raw t u. keyed (w_db u) invocations_table \<and> r \<in> set (w_db u invocations_table) \<and>
    r ''id'' = Text (cl_InvocationID claim) \<and> r ''workspace_id'' = Text (sub_WorkspaceID (cl_Subject claim)) \<and>
    r ''status'' = Text (ex_Status outcome) \<and> r ''metadata_json'' = Doc raw \<and> r ''updated_at'' = timestamp t \<and>
    marshal_metadata (settled_metadata claim outcome) = Some raw \<and>
    ex_Status outcome \<in> {AccountWriteSucceeded, AccountWriteFailed, AccountWriteUncertain} \<and>
    (ex_Status outcome = AccountWriteSucceeded \<longrightarrow> receipt_valid (ex_Payload outcome)) \<and>
    ReadAccountWrite E claim u = (Inr res, w')"
proof -
  let ?cs = "\<lambda>raw t. [(''status'', Text (ex_Status outcome)), (''metadata_json'', Doc raw), (''updated_at'', timestamp t)]"
  let ?p = "\<lambda>initial. And (write_where claim @ [Equal ''status'' (Text ''running''), Equal ''metadata_json'' (Doc initial)])"
  obtain raw initial t u where m: "marshal_metadata (settled_metadata claim outcome) = Some raw"
    and upd: "guarded_update E invocations_table (?cs raw t) (?p initial) w = (Inr 1, u)"
    and rd: "ReadAccountWrite E claim u = (Inr res, w')"
    and st: "ex_Status outcome \<in> {AccountWriteSucceeded, AccountWriteFailed, AccountWriteUncertain}"
      "ex_Status outcome = AccountWriteSucceeded \<longrightarrow> receipt_valid (ex_Payload outcome)"
    using assms(3)
    by (auto simp: FinishAccountWrite_def settled_metadata_def Let_def op_Inr now_Inr split: option.splits split del: if_split)
  have u: "update_rows invocations_table (set_columns (?cs raw t))
      (And [subjectRowWriteAllowed invocations_table, ?p initial]) (w_db w) = (Inr 1, w_db u)"
    using guarded_update_Inr [OF assms(1) upd] by simp
  have "keyed (w_db u) invocations_table"
    using keyed_invocations_update [OF assms(2), of "?cs raw t"] u by (simp add: keeps_identity_def) (metis snd_conv)
  moreover obtain r where "holds (w_db w) r (And [subjectRowWriteAllowed invocations_table, ?p initial])"
      and r: "set_columns (?cs raw t) r \<in> set (w_db u invocations_table)"
    using update_rows_hit [OF u] by auto
  then have "r ''id'' = Text (cl_InvocationID claim)" "r ''workspace_id'' = Text (sub_WorkspaceID (cl_Subject claim))"
    by (simp_all add: holds_And holds_Equal write_where_def)
  ultimately show ?thesis using r m rd st by (intro exI [of _ "set_columns (?cs raw t) r"] exI [of _ raw] exI [of _ t] exI [of _ u]) simp
qed

text \<open>
  C2. A write that was settled reads back as it was settled: the status is the recorded outcome's,
  a success carries the recorded receipt's value, and every later query of it, whatever faults
  it meets, either fails to reach the storage or gives the same answer.
\<close>

theorem settled_write_reads_back:
  assumes "alone E" and "keyed (w_db w) invocations_table" and "FinishAccountWrite E claim outcome w = (Inr res, w')"
  shows "wres_Status res = ex_Status outcome \<and> wres_InvocationID res = cl_InvocationID claim \<and>
    wres_Source res = wr_ExpectedSource (cl_Request claim) \<and>
    raw_value (wres_Receipt res) = (if ex_Status outcome = AccountWriteSucceeded then raw_value (ex_Payload outcome) else None) \<and>
    fst (ReadAccountWrite E claim w') \<in> {Inl StorageErr, Inr res} \<and> w_db (snd (ReadAccountWrite E claim w')) = w_db w'"
proof -
  from FinishAccountWrite_Inr [OF assms] obtain r raw t u where
      k: "keyed (w_db u) invocations_table" and r: "r \<in> set (w_db u invocations_table)"
        "r ''id'' = Text (cl_InvocationID claim)" "r ''workspace_id'' = Text (sub_WorkspaceID (cl_Subject claim))"
      and cols: "r ''status'' = Text (ex_Status outcome)" "r ''metadata_json'' = Doc raw" "r ''updated_at'' = timestamp t"
      and m: "marshal_metadata (settled_metadata claim outcome) = Some raw"
      and st: "ex_Status outcome \<in> {AccountWriteSucceeded, AccountWriteFailed, AccountWriteUncertain}"
        "ex_Status outcome = AccountWriteSucceeded \<longrightarrow> receipt_valid (ex_Payload outcome)"
      and rd: "ReadAccountWrite E claim u = (Inr res, w')" by blast
  have nn: "\<not> has_null r [''status'', ''metadata_json'', ''updated_at'']" using cols by (simp add: timestamp_def)
  from ReadAccountWrite_row [OF assms(1) k r(1-3) nn] rd
  have res: "write_receipt_of claim r = Inr res" and w': "w_db w' = w_db u" by auto
  from ReadAccountWrite_row [OF assms(1) _ _ r(2,3) nn, of w'] k r(1) res w'
  have later: "fst (ReadAccountWrite E claim w') \<in> {Inl StorageErr, Inr res}" "w_db (snd (ReadAccountWrite E claim w')) = w_db w'"
    by simp_all
  have "decode_metadata raw = Some ((settled_metadata claim outcome)\<lparr>am_Receipt :=
      (if raw_length (am_Receipt (settled_metadata claim outcome)) = 0 then raw_nil
       else marshal (the (raw_value (am_Receipt (settled_metadata claim outcome)))))\<rparr>)"
    by (rule metadata_roundtrip [OF m])
  with res cols st have "wres_Status res = ex_Status outcome \<and> wres_InvocationID res = cl_InvocationID claim \<and>
    wres_Source res = wr_ExpectedSource (cl_Request claim) \<and>
    raw_value (wres_Receipt res) = (if ex_Status outcome = AccountWriteSucceeded then raw_value (ex_Payload outcome) else None)"
    by (auto simp: Let_def write_receipt_of_def settled_metadata_def accountWriteEvidence_def receipt_valid_def json_valid_def
      raw_nil_def AccountWriteSucceeded_def AccountWriteFailed_def AccountWriteUncertain_def split: if_splits)
  with later show ?thesis by simp
qed

text \<open>A row that records another write: its actor, source or fingerprint is not the claim's.\<close>

definition records_other_write :: "AccountWriteClaim \<Rightarrow> row \<Rightarrow> bool" where
  "records_other_write claim r \<longleftrightarrow>
    (case decode_metadata (doc_of (r ''metadata_json'')) of
       None \<Rightarrow> True
     | Some m \<Rightarrow>
         am_ActorID m \<noteq> sub_UserID (cl_Subject claim) \<or> am_Source m \<noteq> wr_ExpectedSource (cl_Request claim) \<or>
         am_Fingerprint m \<noteq> cl_Fingerprint claim)"

text \<open>
  C3. A claim whose id is taken by another write - another actor, another account revision or
  contract, or another payload - is neither acquired nor answered with that write's receipt: it
  fails, and the ledger is left as it was.
\<close>

theorem write_identity_conflict:
  assumes "alone E" and "keyed (w_db w) invocations_table" and "r \<in> set (w_db w invocations_table)"
    and "r ''id'' = Text (cl_InvocationID claim)" and "r ''workspace_id'' = Text (sub_WorkspaceID (cl_Subject claim))"
    and "records_other_write claim r"
  shows "\<exists>e w'. ClaimAccountWrite E claim w = (Inl e, w') \<and> w_db w' = w_db w \<and> w_calls w' = w_calls w"
proof -
  obtain x v where g: "guardSubjectWrite E (sub_WorkspaceID (cl_Subject claim)) [(''subject'', [], sub_UserID (cl_Subject claim))] w = (x, v)"
    by fastforce
  have v: "w_db v = w_db w" "w_calls v = w_calls w"
    using unchanged_D [OF untouched.within_guard assms(1) g] by simp_all
  obtain y u where rd: "ReadAccountWrite E claim v = (y, u)" by fastforce
  have u: "w_db u = w_db v" "w_calls u = w_calls v"
    using unchanged_D [OF untouched.within_ReadAccountWrite assms(1) rd] by simp_all
  have "\<exists>e. y = Inl e"
  proof (cases "has_null r [''status'', ''metadata_json'', ''updated_at'']")
    case False
    have "\<exists>e. write_receipt_of claim r = Inl e"
      using assms(6) by (auto simp: records_other_write_def write_receipt_of_def split: option.splits)
    with ReadAccountWrite_row [OF assms(1) _ _ assms(4,5) False, of v] assms(2,3) v rd show ?thesis by auto
  next
    case True
    with ReadAccountWrite_null [OF assms(1) _ _ assms(4,5) True, of v] assms(2,3) v rd show ?thesis by auto
  qed
  with g rd u v show ?thesis
    by (cases x) (auto simp: ClaimAccountWrite_def Let_def seq_def)
qed

section \<open>Writes in the calm environment\<close>

definition demo_write_subject :: ConnectionAccountSubject where
  "demo_write_subject = \<lparr>sub_WorkspaceID = ''w1'', sub_UserID = ''u1'', sub_Access = \<lparr>acc_Personal = True, acc_Workspace = False\<rparr>\<rparr>"

definition demo_write_source :: ConnectionAccountWriteSource where
  "demo_write_source =
    \<lparr>ws_WorkspaceID = ''w1'', ws_ConnectionKey = ''main'', ws_ConnectorKey = ''crm'', ws_ProviderKey = ''echo'',
     ws_AccountUpdatedAt = ''t0'', ws_Operation = ''send'', ws_ContractSHA256 = ''c1''\<rparr>"

definition demo_write_request :: "json \<Rightarrow> ConnectionAccountWriteRequest" where
  "demo_write_request payload =
    \<lparr>wr_RequestID = ''q1'', wr_ExpectedSource = demo_write_source, wr_Payload = marshal payload\<rparr>"

definition demo_claim :: "string \<Rightarrow> AccountWriteClaim" where
  "demo_claim fingerprint =
    \<lparr>cl_Subject = demo_write_subject, cl_Request = demo_write_request JNull, cl_InvocationID = ''account-write:1'',
     cl_Fingerprint = fingerprint\<rparr>"

definition open_codec :: account_write_codec where
  "open_codec = \<lparr>co_ValidateOperation = (\<lambda>operation. None), co_CanonicalPayload = (\<lambda>operation payload. Inr payload),
                 co_Receipt = (\<lambda>claim receipt. Inr receipt)\<rparr>"

text \<open>A claimed write that is still running.\<close>

definition running_write :: row where
  "running_write = row_of
    [(''id'', Text ''account-write:1''), (''workspace_id'', Text ''w1''), (''status'', Text ''running''),
     (''metadata_json'', Doc (the (marshal_metadata (accountWriteEvidence (demo_claim ''f1''))))),
     (''updated_at'', Text ''t0'')]"

definition running_db :: database where
  "running_db = (\<lambda>t. if t = invocations_table then [running_write] else [])"

lemma fences_not_invocations [simp]: "fences \<noteq> invocations_table" "invocations_table \<noteq> fences"
  by (simp_all add: fences_def invocations_table_def)

lemma running_db_keyed: "keyed running_db invocations_table"
  by (simp add: keyed_def running_db_def)

definition demo_outcome :: AccountWriteExecution where
  "demo_outcome = \<lparr>ex_Status = AccountWriteSucceeded, ex_Payload = marshal (JStr ''done''), ex_CredentialUpdateFailed = False\<rparr>"

lemma demo_finished: "\<exists>res w'. FinishAccountWrite calm_env (demo_claim ''f1'') demo_outcome (world_of running_db) = (Inr res, w')"
  by (simp add: FinishAccountWrite_def ReadAccountWrite_def demo_outcome_def running_db_def running_write_def demo_claim_def
      demo_write_subject_def demo_write_request_def demo_write_source_def write_where_def write_receipt_of_def
      receipt_valid_def marshal_metadata_def accountWriteEvidence_def decode_metadata_def member_text_def decode_string_def
      account_write_statuses timestamp_def raw_nil_def marshal_def decode_object_def json_valid_def string_cost_def char_cost_def
      decode_write_source_def write_source_json_def run_accounts)

theorem settled_write_reads_back_witness:
  "\<exists>res w'. FinishAccountWrite calm_env (demo_claim ''f1'') demo_outcome (world_of running_db) = (Inr res, w') \<and>
     wres_Status res = ''succeeded'' \<and> raw_value (wres_Receipt res) = Some (JStr ''done'')"
proof -
  obtain res w' where f: "FinishAccountWrite calm_env (demo_claim ''f1'') demo_outcome (world_of running_db) = (Inr res, w')"
    using demo_finished by blast
  have "keyed (w_db (world_of running_db)) invocations_table" by (simp add: world_of_def running_db_keyed)
  from settled_write_reads_back [OF calm_alone this f] f show ?thesis
    by (simp add: demo_outcome_def AccountWriteSucceeded_def)
qed

theorem write_identity_conflict_witness:
  "\<exists>e w'. ClaimAccountWrite calm_env (demo_claim ''f2'') (world_of running_db) = (Inl e, w') \<and> w_db w' = running_db"
proof -
  have "records_other_write (demo_claim ''f2'') running_write"
    by (simp add: records_other_write_def running_write_def marshal_metadata_def accountWriteEvidence_def demo_claim_def
        raw_nil_def decode_metadata_def member_text_def decode_string_def demo_write_subject_def)
  then have "\<exists>e w'. ClaimAccountWrite calm_env (demo_claim ''f2'') (world_of running_db) = (Inl e, w') \<and>
      w_db w' = w_db (world_of running_db) \<and> w_calls w' = w_calls (world_of running_db)"
    by (intro write_identity_conflict [of _ _ running_write])
      (simp_all add: calm_alone world_of_def running_db_keyed, simp_all add: running_db_def running_write_def demo_claim_def demo_write_subject_def)
  then show ?thesis by (auto simp: world_of_def)
qed

theorem account_write_at_most_once_witness:
  "\<exists>cs. w_calls (fold (\<lambda>run w. snd (write_run run w))
      [(calm_env, open_codec, demo_write_subject, ''main'', demo_write_request JNull),
       (calm_env, open_codec, demo_write_subject, ''main'', demo_write_request (JBool True))] (world_of running_db)) = cs \<and> length cs \<le> 1"
proof -
  let ?runs = "[(calm_env, open_codec, demo_write_subject, ''main'', demo_write_request JNull),
       (calm_env, open_codec, demo_write_subject, ''main'', demo_write_request (JBool True))]"
  have "list_all (same_write (write_invocation_id calm_env demo_write_subject (demo_write_request JNull))) ?runs"
    by (simp add: same_write_def stable_def write_invocation_id_def demo_write_request_def)
  from account_write_at_most_once [OF this, of "world_of running_db"] show ?thesis by (simp add: world_of_def)
qed

end
