(* ===== verification/Inbound.thy ===== *)
theory Inbound
  imports Operations EventMappings
begin

text \<open>
  \<open>inbound_store.go\<close>, \<open>subject_inbound_guard.go\<close> and \<open>event_worker_store.go\<close>: accepting a webhook
  (verification, erasure guard, nonce, event row), processing an event through its mapping into
  one trigger of the runtime, the outcome with its bounded retries, replay, and the worker that
  claims due events. The lemmas follow the row of an event through its states and show what
  reaches the runtime.
\<close>

definition events_table :: string where "events_table = ''_integration_events''"
definition nonces_table :: string where "nonces_table = ''_integration_webhook_nonces''"
definition mappings_table :: string where "mappings_table = ''_integration_event_mapping_definitions''"
definition intents_table :: string where "intents_table = ''_integration_event_mapping_intents''"
definition identities_table :: string where "identities_table = ''_integration_external_identities''"

lemma inbound_tables_not_fences [simp]:
  "events_table \<noteq> fences" "nonces_table \<noteq> fences" "intents_table \<noteq> fences" "fences \<noteq> events_table"
  by (simp_all add: events_table_def nonces_table_def intents_table_def fences_def)

record WebhookRequest =
  wq_WorkspaceID :: string
  wq_ConnectorKey :: string
  wq_ConnectionKey :: string
  wq_Headers :: "(string \<times> string list) list"
  wq_Query :: "(string \<times> string list) list"
  wq_Body :: string
  wq_ReceivedAt :: time

record WebhookReceipt =
  wrc_Event :: Event
  wrc_Challenge :: string
  wrc_Format :: string

definition zero_event :: Event where
  "zero_event =
    \<lparr>evt_ID = [], evt_WorkspaceID = [], evt_ConnectorKey = [], evt_ConnectionKey = [], evt_Provider = [],
     evt_EventType = [], evt_ExternalID = [], evt_Status = [], evt_Payload = raw_nil, evt_Error = [],
     evt_AttemptCount = 0, evt_NextRetryAt = [], evt_LastAttemptAt = [], evt_ReceivedAt = [], evt_UpdatedAt = [],
     evt_Execution = None\<rparr>"

section \<open>Reading events\<close>

definition scanEvent :: "row \<Rightarrow> Event dbop" where
  "scanEvent r =
    seq (scan_texts r [''id'', ''workspace_id'', ''provider'', ''event_type'', ''external_id'', ''status'', ''payload_json'',
                       ''attempt_count'', ''next_retry_at'', ''last_attempt_at'', ''received_at'', ''updated_at'']) (\<lambda>_.
    ret (zero_event
      \<lparr>evt_ID := text_of (r ''id''), evt_WorkspaceID := text_of (r ''workspace_id''),
       evt_Provider := text_of (r ''provider''), evt_EventType := text_of (r ''event_type''),
       evt_ExternalID := text_of (r ''external_id''), evt_Status := text_of (r ''status''),
       evt_Payload := doc_of (r ''payload_json''), evt_Error := text_of (r ''error''),
       evt_AttemptCount := nat (int_of_sql (r ''attempt_count'')), evt_NextRetryAt := text_of (r ''next_retry_at''),
       evt_LastAttemptAt := text_of (r ''last_attempt_at''), evt_ReceivedAt := text_of (r ''received_at''),
       evt_UpdatedAt := text_of (r ''updated_at'')\<rparr>))"

definition decode_receipt :: "raw_message \<Rightarrow> RuntimeExecutionReceipt option" where
  "decode_receipt raw =
    (case decode_object raw of
       None \<Rightarrow> None
     | Some m \<Rightarrow>
         (case map (member_text m) [''event_id'', ''mapping_key'', ''execution_id'', ''target_type'', ''status'',
                                    ''error_code'', ''completed_at''] of
            [Some a, Some b, Some c, Some d, Some e, Some f, Some g] \<Rightarrow>
              Some \<lparr>rer_EventID = a, rer_MappingKey = b, rer_ExecutionID = c, rer_TargetType = d, rer_Status = e,
                    rer_ErrorCode = f, rer_CompletedAt = g\<rparr>
          | _ \<Rightarrow> None))"

definition intent_where :: "string \<Rightarrow> string \<Rightarrow> predicate" where
  "intent_where workspaceID eventID =
    And [Equal ''workspace_id'' (Text workspaceID), Equal ''event_id'' (Text eventID)]"

definition eventExecution :: "env \<Rightarrow> string \<Rightarrow> string \<Rightarrow> RuntimeExecutionReceipt option dbop" where
  "eventExecution E workspaceID eventID =
    seq (try_op (select_row E intents_table (intent_where workspaceID eventID))) (\<lambda>r. case r of
      Inl e \<Rightarrow> ret None
    | Inr None \<Rightarrow> ret None
    | Inr (Some row) \<Rightarrow> ret (if row ''payload_json'' = Null then None else decode_receipt (doc_of (row ''payload_json''))))"

definition with_execution :: "env \<Rightarrow> Event \<Rightarrow> Event dbop" where
  "with_execution E event =
    seq (eventExecution E (evt_WorkspaceID event) (evt_ID event)) (\<lambda>x. ret (event\<lparr>evt_Execution := x\<rparr>))"

definition event_where :: "env \<Rightarrow> string \<Rightarrow> string \<Rightarrow> err + predicate" where
  "event_where E workspaceID ident = scopedWhere (ev_scope E) workspaceID [] [] [Equal ''id'' (Text ident)]"

definition GetEvent :: "env \<Rightarrow> string \<Rightarrow> string \<Rightarrow> Event dbop" where
  "GetEvent E workspaceID ident =
    seq (of_result (event_where E (trim_space workspaceID) (trim_space ident))) (\<lambda>p.
    seq (select_row E events_table p) (\<lambda>found. case found of
      None \<Rightarrow> throw (Errorf ''Integration event %q was not found'' [ident])
    | Some r \<Rightarrow> seq (scanEvent r) (with_execution E)))"

definition ListEvents :: "env \<Rightarrow> EventQuery \<Rightarrow> Event list dbop" where
  "ListEvents E q =
    seq (check (\<not> blank (eq_WorkspaceID q)) (Errorf ''Integration event workspace is required'' [])) (\<lambda>_.
    seq (of_result (scopedWhere (ev_scope E) (trim_space (eq_WorkspaceID q)) [] [] [])) (\<lambda>p.
    let limit = (if eq_Limit q \<le> 0 \<or> eq_Limit q > 500 then 100 else eq_Limit q) in
    seq (select E events_table
      (And (p # filter_equal ''provider'' (eq_Provider q) @ filter_equal ''event_type'' (eq_EventType q) @
            filter_equal ''status'' (eq_Status q)))) (\<lambda>rs.
    each (\<lambda>r. seq (scanEvent r) (with_execution E)) (take (nat limit) (descending ''received_at'' rs)))))"

section \<open>The mapping of an event\<close>

text \<open>The first enabled mapping of the workspace that matches; one that does not decode stops the search.\<close>

fun first_mapping :: "Event \<Rightarrow> row list \<Rightarrow> EventMappingRequirement option dbop" where
  "first_mapping event [] = ret None"
| "first_mapping event (r # rs) =
    seq (scan_texts r [''payload_json'']) (\<lambda>_.
    case raw_value (doc_of (r ''payload_json'')) of
      None \<Rightarrow> throw (Errorf ''json'' [])
    | Some j \<Rightarrow>
        (case decode_mapping j of
           None \<Rightarrow> throw (Errorf ''json'' [])
         | Some mapping \<Rightarrow>
             if eventMappingMatches mapping event then ret (Some mapping) else first_mapping event rs))"

definition eventMapping :: "env \<Rightarrow> Event \<Rightarrow> EventMappingRequirement option dbop" where
  "eventMapping E event =
    seq (select E mappings_table
      (And [Equal ''object_key'' (Text (evt_WorkspaceID event)), IsNull ''disabled_at''])) (\<lambda>rs.
    first_mapping event (ascending ''resource_key'' rs))"

definition integrationEventMappingRevision :: "env \<Rightarrow> EventMappingRequirement \<Rightarrow> string" where
  "integrationEventMappingRevision E mapping = ev_sha256_json E (mapping_json mapping)"

section \<open>Recording the outcome\<close>

definition outcome_columns :: "time \<Rightarrow> nat \<Rightarrow> string \<Rightarrow> string \<Rightarrow> (string \<times> sql) list" where
  "outcome_columns t attempts status errorText =
    [(''status'', Text status), (''error'', Text errorText), (''last_attempt_at'', timestamp t), (''lease_owner'', Text []),
     (''lease_expires_at'', Text []), (''updated_at'', timestamp t)] @
    (if status = ''failed'' then
       (let attempt = attempts + 1 in
        if attempt \<ge> 5 then
          [(''status'', Text ''dead_letter''), (''attempt_count'', Num (int attempt)), (''next_retry_at'', Text [])]
        else
          [(''attempt_count'', Num (int attempt)),
           (''next_retry_at'', timestamp (t + integrationEventRetryDelay attempt))])
     else [(''next_retry_at'', Text [])])"

text \<open>
  The event and an error beside it: where the row cannot be read back, the event is the zero one
  (a row whose scan fails part way would leave some of its fields).
\<close>

definition updateEventStatus :: "env \<Rightarrow> Event \<Rightarrow> string \<Rightarrow> string \<Rightarrow> (Event \<times> err option) dbop" where
  "updateEventStatus E event status errorText =
    seq (now E) (\<lambda>t.
    case event_where E (evt_WorkspaceID event) (evt_ID event) of
      Inl e \<Rightarrow> ret (event, Some e)
    | Inr p \<Rightarrow>
        seq (try_op (guarded_update E events_table (outcome_columns t (evt_AttemptCount event) status errorText) p)) (\<lambda>r.
        case r of
          Inl e \<Rightarrow> ret (event, Some e)
        | Inr n \<Rightarrow>
            seq (try_op (GetEvent E (evt_WorkspaceID event) (evt_ID event))) (\<lambda>r. case r of
              Inl e \<Rightarrow> ret (zero_event, Some e)
            | Inr event \<Rightarrow> ret (event, None))))"

definition intent_id :: "Event \<Rightarrow> string" where
  "intent_id event = ''intent:'' @ trim_prefix (evt_ID event) ''event:''"

definition persistExecutionReceipt ::
    "env \<Rightarrow> Event \<Rightarrow> EventMappingRequirement \<Rightarrow> RuntimeExecutionReceipt \<Rightarrow> unit dbop" where
  "persistExecutionReceipt E event mapping receipt =
    (let payload = marshal (sdk_ReceiptJSON (ev_SDK E) receipt) in
     seq (now E) (\<lambda>t.
     seq (select_row E intents_table (intent_where (evt_WorkspaceID event) (evt_ID event))) (\<lambda>found. case found of
       None \<Rightarrow>
         seq (insert_into E intents_table
           [(''id'', Text (intent_id event)), (''workspace_id'', Text (evt_WorkspaceID event)),
            (''event_id'', Text (evt_ID event)), (''mapping_key'', Text (em_Key mapping)),
            (''target_type'', Text (em_TargetType mapping)), (''status'', Text (rer_Status receipt)),
            (''payload_json'', Doc payload), (''created_at'', timestamp t), (''updated_at'', timestamp t)]) (\<lambda>_. ret ())
     | Some r \<Rightarrow>
         seq (scan_texts r [''id'']) (\<lambda>_.
         seq (guarded_update E intents_table
           [(''mapping_key'', Text (em_Key mapping)), (''target_type'', Text (em_TargetType mapping)),
            (''status'', Text (rer_Status receipt)), (''payload_json'', Doc payload), (''updated_at'', timestamp t)]
           (Equal ''id'' (r ''id''))) (\<lambda>_. ret ())))))"

section \<open>Processing an event\<close>

definition static_or_path :: "(string \<times> json) list \<Rightarrow> string \<Rightarrow> string \<Rightarrow> string" where
  "static_or_path payload v path =
    (if trim_space v = [] \<and> trim_space path \<noteq> [] then
       (case integrationPayloadPath payload path of None \<Rightarrow> [] | Some j \<Rightarrow> trim_space (sprint j))
     else trim_space v)"

definition mapping_input :: "EventMappingRequirement \<Rightarrow> Event \<Rightarrow> (string \<times> json) list \<Rightarrow> (string \<times> json) list" where
  "mapping_input mapping event payload =
    (let paths = (if em_TargetType mapping = ''workflow'' then em_WorkflowInput mapping
                  else if em_TargetType mapping = ''agent_task'' then em_AgentInput mapping
                  else em_ActionInput mapping);
         put = fold (\<lambda>(k, j) m. obj_put k j m);
         input = put (List.map_filter (\<lambda>(k, path).
           map_option (\<lambda>j. (k, j)) (integrationPayloadPath payload path)) paths) [];
         input = put (em_Payload mapping) input in
     if em_TargetType mapping = ''workflow'' then
       put [(''integration_event_id'', JStr (evt_ID event)), (''integration_provider'', JStr (evt_Provider event)),
            (''integration_event_type'', JStr (evt_EventType event)), (''integration_external_id'', JStr (evt_ExternalID event)),
            (''integration_mapping_key'', JStr (em_Key mapping))] input
     else input)"

definition resolveExternalIdentity :: "env \<Rightarrow> string \<Rightarrow> string \<Rightarrow> string \<Rightarrow> (string \<times> string) option dbop" where
  "resolveExternalIdentity E workspaceID provider subject =
    seq (try_op (select_row E identities_table
      (And [Equal ''workspace_id'' (Text workspaceID), Equal ''provider'' (Text provider),
            Equal ''external_subject'' (Text subject), Equal ''status'' (Text ''active'')]))) (\<lambda>r. case r of
      Inr (Some row) \<Rightarrow>
        ret (if has_null row [''identity_key'', ''workspace_id'', ''provider'', ''external_subject'', ''actor_id'', ''role_key'', ''status'']
             then None else Some (text_of (row ''actor_id''), text_of (row ''role_key'')))
    | _ \<Rightarrow> ret None)"

text \<open>The principal of the trigger: actor, role and external name; an error where it must be mapped and is not.\<close>

definition event_principal ::
    "env \<Rightarrow> EventMappingRequirement \<Rightarrow> Event \<Rightarrow> WebhookExternalIdentity option \<Rightarrow> (string \<times> json) list \<Rightarrow>
     (string \<times> string \<times> string) dbop" where
  "event_principal E mapping event external payload =
    (let x = em_ExternalIdentity mapping;
         provider = (if trim_space (xid_Provider x) = [] then evt_Provider event else trim_space (xid_Provider x));
         given = (\<lambda>f. case external of None \<Rightarrow> [] | Some identity \<Rightarrow> f identity);
         subject = static_or_path payload (given wei_Subject) (xid_SubjectPath x);
         name = static_or_path payload (given wei_Name) (xid_NamePath x) in
     if subject = [] then ret ([], [], [])
     else
       seq (resolveExternalIdentity E (evt_WorkspaceID event) provider subject) (\<lambda>identity. case identity of
         Some (actor, role) \<Rightarrow> ret (actor, role, name)
       | None \<Rightarrow>
           if trim_space (xid_SubjectPath x) \<noteq> [] \<or> xid_OnUnmapped x \<noteq> [] then
             throw (Errorf ''Integration external identity %s/%s is unmapped'' [provider, subject])
           else ret ([], [], name)))"

definition trigger_request ::
    "env \<Rightarrow> EventMappingRequirement \<Rightarrow> Event \<Rightarrow> (string \<times> json) list \<Rightarrow> string \<times> string \<times> string \<Rightarrow> TriggerRequest" where
  "trigger_request E mapping event payload who =
    (case who of (actor, role, name) \<Rightarrow>
      \<lparr>tg_EventID = evt_ID event, tg_WorkspaceID = evt_WorkspaceID event, tg_MappingKey = em_Key mapping,
       tg_MappingRevision = integrationEventMappingRevision E mapping,
       tg_IdempotencyKey = evt_ID event @ '':'' @ em_Key mapping, tg_Provider = evt_Provider event,
       tg_EventType = evt_EventType event, tg_ExternalID = evt_ExternalID event, tg_ReceivedAt = evt_ReceivedAt event,
       tg_Target =
         \<lparr>tt_Type = em_TargetType mapping, tt_WorkflowKey = em_WorkflowKey mapping,
          tt_ObjectKey = static_or_path payload (em_ObjectKey mapping) (em_ObjectKeyPath mapping),
          tt_RecordID = static_or_path payload (em_RecordID mapping) (em_RecordIDPath mapping),
          tt_ActionKey = static_or_path payload (em_ActionKey mapping) (em_ActionKeyPath mapping),
          tt_AgentID = em_AgentID mapping, tt_ConversationID = em_ConversationID mapping,
          tt_AgentTaskMode = em_AgentTaskMode mapping,
          tt_RelatedTaskID = static_or_path payload (em_RelatedTaskID mapping) (em_RelatedTaskIDPath mapping),
          tt_Input = mapping_input mapping event payload\<rparr>,
       tg_ActorID = actor, tg_RoleKey = role, tg_ExternalName = name\<rparr>)"

definition failed_receipt :: "EventMappingRequirement \<Rightarrow> Event \<Rightarrow> RuntimeExecutionReceipt \<Rightarrow> RuntimeExecutionReceipt" where
  "failed_receipt mapping event receipt =
    (let default = (\<lambda>v d. if blank v then d else v) in
     receipt\<lparr>rer_EventID := default (rer_EventID receipt) (evt_ID event),
             rer_MappingKey := default (rer_MappingKey receipt) (em_Key mapping),
             rer_TargetType := default (rer_TargetType receipt) (em_TargetType mapping),
             rer_Status := default (rer_Status receipt) ''failed'',
             rer_ErrorCode := default (rer_ErrorCode receipt) ''runtime_trigger_failed''\<rparr>)"

text \<open>The outcome of a failed attempt, and the error that caused it; that of recording it is dropped.\<close>

definition fail_event :: "env \<Rightarrow> Event \<Rightarrow> err \<Rightarrow> (Event \<times> err option) dbop" where
  "fail_event E event e =
    seq (updateEventStatus E event ''failed'' (err_text e)) (\<lambda>(event, _). ret (event, Some e))"

definition call_trigger ::
    "(nat \<Rightarrow> TriggerRequest \<Rightarrow> RuntimeExecutionReceipt \<times> err option) \<Rightarrow> TriggerRequest \<Rightarrow>
     (RuntimeExecutionReceipt \<times> err option) dbop" where
  "call_trigger trigger request = record_call (RuntimeTrigger request) (\<lambda>n. trigger n request)"

definition record_trigger ::
    "env \<Rightarrow> Event \<Rightarrow> EventMappingRequirement \<Rightarrow> RuntimeExecutionReceipt \<times> err option \<Rightarrow> (Event \<times> err option) dbop" where
  "record_trigger E event mapping answer =
    (case answer of
       (receipt, Some e) \<Rightarrow>
         seq (try_op (persistExecutionReceipt E event mapping (failed_receipt mapping event receipt))) (\<lambda>r. case r of
           Inl e \<Rightarrow> ret (event, Some e)
         | Inr _ \<Rightarrow> fail_event E event e)
     | (receipt, None) \<Rightarrow>
         seq (try_op (persistExecutionReceipt E event mapping receipt)) (\<lambda>r. case r of
           Inl e \<Rightarrow> ret (event, Some e)
         | Inr _ \<Rightarrow>
             seq (updateEventStatus E event ''processed'' []) (\<lambda>(event, e).
             ret (if e = None then event\<lparr>evt_Execution := Some receipt\<rparr> else event, e))))"

definition processEvent ::
    "env \<Rightarrow> Event \<Rightarrow> WebhookExternalIdentity option \<Rightarrow> (Event \<times> err option) dbop" where
  "processEvent E event external =
    seq (try_op (eventMapping E event)) (\<lambda>r. case r of
      Inl e \<Rightarrow> ret (event, Some e)
    | Inr None \<Rightarrow> updateEventStatus E event ''ignored'' []
    | Inr (Some mapping) \<Rightarrow>
        (case ev_Trigger E of
           None \<Rightarrow>
             seq (updateEventStatus E event ''failed'' ''runtime_trigger_unavailable'') (\<lambda>(event, _).
             ret (event, Some (Errorf ''Integration Runtime TriggerSink is unavailable'' [])))
         | Some trigger \<Rightarrow>
             (case decode_object (evt_Payload event) of
                None \<Rightarrow> ret (event, Some (Errorf ''json'' []))
              | Some payload \<Rightarrow>
                  (case validateIntegrationEventPayload mapping payload of
                     Some e \<Rightarrow> fail_event E event e
                   | None \<Rightarrow>
                       seq (try_op (event_principal E mapping event external payload)) (\<lambda>r. case r of
                         Inl e \<Rightarrow> fail_event E event e
                       | Inr who \<Rightarrow>
                           seq (try_op (guardSubjectWrite E (evt_WorkspaceID event)
                             [(''row'', events_table, evt_ID event), (''subject'', [], fst who)])) (\<lambda>r. case r of
                             Inl e \<Rightarrow> ret (event, Some e)
                           | Inr _ \<Rightarrow>
                               seq (call_trigger trigger (trigger_request E mapping event payload who))
                                 (record_trigger E event mapping)))))))"

section \<open>Accepting a webhook\<close>

text \<open>
  The payload with the connection it came through. A verified payload \<open>null\<close> leaves a nil map,
  and the assignment to it panics.
\<close>

definition nil_map :: err where
  "nil_map = Panic ''assignment to entry in nil map''"

definition integrationWebhookEventPayload :: "raw_message \<Rightarrow> string \<Rightarrow> string \<Rightarrow> err + raw_message" where
  "integrationWebhookEventPayload raw connectorKey connectionKey =
    (case raw_value raw of
       Some (JObj payload) \<Rightarrow>
         Inr (marshal (JObj (sort_key fst (obj_put ''_integration_context''
           (JObj [(''connection_key'', JStr (trim_space connectionKey)), (''connector_key'', JStr (trim_space connectorKey))])
           payload))))
     | Some JNull \<Rightarrow> Inl nil_map
     | _ \<Rightarrow> Inl (Errorf ''Integration webhook event payload must be a JSON object: %w'' [''json'']))"

definition verifiedInboundPayload :: "raw_message \<Rightarrow> WebhookExternalIdentity option \<Rightarrow> err + raw_message" where
  "verifiedInboundPayload raw external =
    (case external of
       None \<Rightarrow> Inr raw
     | Some identity \<Rightarrow>
         if trim_space (wei_Subject identity) = [] then Inr raw
         else
           (case raw_value raw of
              Some (JObj payload) \<Rightarrow>
                (let context_value = (case map_of payload ''_integration_context'' of Some (JObj m) \<Rightarrow> m | _ \<Rightarrow> []) in
                 Inr (marshal (JObj (sort_key fst (obj_put ''_integration_context''
                   (JObj (sort_key fst (obj_put ''verified_external_subject'' (JStr (trim_space (wei_Subject identity))) context_value)))
                   payload)))))
            | Some JNull \<Rightarrow> Inl nil_map
            | _ \<Rightarrow> Inl (Errorf ''json'' [])))"

definition guardInboundSubject :: "env \<Rightarrow> WebhookRequest \<Rightarrow> string \<Rightarrow> VerifiedWebhook \<Rightarrow> unit dbop" where
  "guardInboundSubject E request provider verified =
    (let event = zero_event\<lparr>evt_WorkspaceID := wq_WorkspaceID request, evt_Provider := provider,
                            evt_EventType := vw_EventType verified, evt_Payload := vw_Payload verified\<rparr> in
     seq (eventMapping E event) (\<lambda>found.
     let (subjectProvider, subject) = (case found of None \<Rightarrow> (provider, []) | Some mapping \<Rightarrow> mappedSubject mapping event);
         subject = (case vw_ExternalIdentity verified of None \<Rightarrow> subject | Some x \<Rightarrow> trim_space (wei_Subject x)) in
     guardSubjectWrite E (wq_WorkspaceID request)
       ((''connection'', [], wq_ConnectionKey request) #
        (if subject \<noteq> [] then [(''external'', subjectProvider, ev_sha256 E subject)] else []))))"

definition webhook_nonce_id :: "env \<Rightarrow> WebhookRequest \<Rightarrow> string \<Rightarrow> string" where
  "webhook_nonce_id E request nonce =
    ''nonce:'' @ ev_sha256 E (wq_WorkspaceID request @ [CHR 0x00] @ wq_ConnectorKey request @ [CHR 0x00] @ trim_space nonce)"

definition acceptWebhookNonce :: "env \<Rightarrow> WebhookRequest \<Rightarrow> string \<Rightarrow> unit dbop" where
  "acceptWebhookNonce E request nonce =
    (let received = wq_ReceivedAt request in
     seq (try_op (insert_into E nonces_table
       [(''id'', Text (webhook_nonce_id E request nonce)), (''workspace_id'', Text (wq_WorkspaceID request)),
        (''connector_key'', Text (wq_ConnectorKey request)), (''nonce'', Text (trim_space nonce)),
        (''request_timestamp'', timestamp received), (''created_at'', timestamp received),
        (''expires_at'', timestamp (received + 15 * minute))])) (\<lambda>r. case r of
       Inl e \<Rightarrow> throw (Errorf ''Integration webhook nonce was already used: %w'' [err_text e])
     | Inr _ \<Rightarrow> ret ()))"

definition webhook_event_id :: "env \<Rightarrow> string \<Rightarrow> string \<Rightarrow> string \<Rightarrow> string" where
  "webhook_event_id E workspaceID providerKey externalID =
    ''event:'' @ ev_sha256 E (workspaceID @ [CHR 0x00] @ providerKey @ [CHR 0x00] @ trim_space externalID)"

definition via_connection :: "WebhookRequest \<Rightarrow> Event \<Rightarrow> Event" where
  "via_connection request event =
    event\<lparr>evt_ConnectorKey := wq_ConnectorKey request, evt_ConnectionKey := wq_ConnectionKey request\<rparr>"

text \<open>The columns of a new event: received, never attempted, not leased.\<close>

definition event_columns :: "string \<Rightarrow> string \<Rightarrow> string \<Rightarrow> string \<Rightarrow> string \<Rightarrow> raw_message \<Rightarrow> time \<Rightarrow> (string \<times> sql) list" where
  "event_columns ident workspaceID providerKey eventType externalID payload t =
    [(''id'', Text ident), (''workspace_id'', Text workspaceID), (''provider'', Text providerKey),
     (''event_type'', Text eventType), (''external_id'', Text externalID),
     (''status'', Text ''received''), (''payload_json'', Doc payload), (''error'', Null),
     (''attempt_count'', Num 0), (''next_retry_at'', Text []), (''last_attempt_at'', Text []),
     (''lease_owner'', Text []), (''lease_expires_at'', Text []), (''fencing_token'', Num 0),
     (''received_at'', timestamp t), (''updated_at'', timestamp t)]"

definition new_event_columns :: "WebhookRequest \<Rightarrow> string \<Rightarrow> string \<Rightarrow> VerifiedWebhook \<Rightarrow> (string \<times> sql) list" where
  "new_event_columns request ident providerKey verified =
    event_columns ident (wq_WorkspaceID request) providerKey (vw_EventType verified) (vw_ExternalID verified)
      (vw_Payload verified) (wq_ReceivedAt request)"

definition acceptEvent :: "env \<Rightarrow> WebhookRequest \<Rightarrow> string \<Rightarrow> VerifiedWebhook \<Rightarrow> (Event \<times> bool) dbop" where
  "acceptEvent E request providerKey verified =
    (let ident = webhook_event_id E (wq_WorkspaceID request) providerKey (vw_ExternalID verified) in
     seq (guardSubjectWrite E (wq_WorkspaceID request)
            [(''row'', events_table, ident), (''connection'', [], wq_ConnectionKey request)]) (\<lambda>_.
     seq (try_op (GetEvent E (wq_WorkspaceID request) ident)) (\<lambda>r. case r of
       Inr existing \<Rightarrow> ret (via_connection request existing, False)
     | Inl _ \<Rightarrow>
         seq (try_op (insert_into E events_table (new_event_columns request ident providerKey verified))) (\<lambda>inserted.
         case inserted of
           Inl e \<Rightarrow>
             seq (try_op (GetEvent E (wq_WorkspaceID request) ident)) (\<lambda>r. case r of
               Inr existing \<Rightarrow> ret (existing, False)
             | Inl _ \<Rightarrow> throw (Errorf ''accept Integration event: %w'' [err_text e]))
         | Inr _ \<Rightarrow>
             seq (GetEvent E (wq_WorkspaceID request) ident) (\<lambda>event. ret (via_connection request event, True))))))"

definition verify_request :: "WebhookRequest \<Rightarrow> deliveryConnection \<Rightarrow> (string \<times> string) list \<Rightarrow> VerifyWebhookRequest" where
  "verify_request request connection secrets =
    \<lparr>vq_ConnectorKey = dc_ConnectorKey connection, vq_ProviderKey = dc_ProviderKey connection,
     vq_Connection = sdk_connection connection, vq_Headers = wq_Headers request, vq_Query = wq_Query request,
     vq_Secrets = secrets, vq_Body = wq_Body request, vq_ReceivedAt = wq_ReceivedAt request\<rparr>"

text \<open>\<open>ResolveSecretReferences\<close> of the store's secret resolver.\<close>

definition resolve_references :: "env \<Rightarrow> string \<Rightarrow> (string \<times> string) list \<Rightarrow> (string \<times> string) list dbop" where
  "resolve_references E workspaceID references =
    (case ev_Secrets E of
       MaterialResolver \<Rightarrow> ResolveSecretReferences E workspaceID references
     | HostResolver h \<Rightarrow> at_step (\<lambda>n. hr_Resolve h n workspaceID references))"

text \<open>The webhook as its provider verified it; the signature must not be reported as unverified.\<close>

definition verify_webhook :: "env \<Rightarrow> WebhookRequest \<Rightarrow> (deliveryConnection \<times> VerifiedWebhook) dbop" where
  "verify_webhook E request =
    seq (delivery_connection E (wq_WorkspaceID request) (wq_ConnectorKey request) (wq_ConnectionKey request)) (\<lambda>connection.
    seq (find_provider E connection) (\<lambda>p.
    case pv_VerifyWebhook p of
      None \<Rightarrow>
        throw (Errorf ''Integration provider %s/%s does not support webhooks''
          [dc_ConnectorKey connection, dc_ProviderKey connection])
    | Some verify \<Rightarrow>
        seq (resolve_references E (wq_WorkspaceID request) (dc_SecretRefs connection)) (\<lambda>secrets.
        case verify (verify_request request connection secrets) of
          Inl e \<Rightarrow> throw (Errorf ''verify Integration webhook: %w'' [err_text e])
        | Inr verified \<Rightarrow>
            seq (check (case vw_Security verified of None \<Rightarrow> True | Some s \<Rightarrow> wsec_SignatureVerified s)
                   (Errorf ''Integration webhook signature is not verified'' [])) (\<lambda>_.
            ret (connection, verified)))))"

text \<open>The verified event with the payload under which it is stored.\<close>

definition prepare_inbound :: "env \<Rightarrow> WebhookRequest \<Rightarrow> string \<Rightarrow> VerifiedWebhook \<Rightarrow> VerifiedWebhook dbop" where
  "prepare_inbound E request providerKey verified =
    seq (check (\<not> blank (vw_EventType verified) \<and> \<not> blank (vw_ExternalID verified) \<and> json_valid (vw_Payload verified))
           (Errorf ''Integration verified webhook event is incomplete'' [])) (\<lambda>_.
    seq (of_result (integrationWebhookEventPayload (vw_Payload verified) (wq_ConnectorKey request) (wq_ConnectionKey request))) (\<lambda>payload.
    seq (guardInboundSubject E request providerKey (verified\<lparr>vw_Payload := payload\<rparr>)) (\<lambda>_.
    seq (of_result (verifiedInboundPayload payload (vw_ExternalIdentity verified))) (\<lambda>payload.
    seq (case vw_Security verified of
           None \<Rightarrow> ret ()
         | Some s \<Rightarrow> if blank (wsec_Nonce s) then ret () else acceptWebhookNonce E request (wsec_Nonce s)) (\<lambda>_.
    ret (verified\<lparr>vw_Payload := payload\<rparr>))))))"

definition AcceptWebhook :: "env \<Rightarrow> WebhookRequest \<Rightarrow> (WebhookReceipt \<times> err option) dbop" where
  "AcceptWebhook E request =
    seq (verify_webhook E request) (\<lambda>(connection, verified).
    let receipt = (\<lambda>event. \<lparr>wrc_Event = event, wrc_Challenge = vw_Challenge verified, wrc_Format = vw_ChallengeFormat verified\<rparr>) in
    if vw_Challenge verified \<noteq> [] \<and> blank (vw_EventType verified) then ret (receipt zero_event, None)
    else
      seq (prepare_inbound E request (dc_ProviderKey connection) verified) (\<lambda>verified.
      seq (acceptEvent E request (dc_ProviderKey connection) verified) (\<lambda>(event, inserted).
      if inserted then
        seq (processEvent E event (vw_ExternalIdentity verified)) (\<lambda>(event, e). ret (receipt event, e))
      else ret (receipt event, None))))"

section \<open>Replaying an event\<close>

definition replay_columns :: "time \<Rightarrow> (string \<times> sql) list" where
  "replay_columns t =
    [(''status'', Text ''received''), (''error'', Text []), (''next_retry_at'', Text []), (''updated_at'', timestamp t)]"

definition replay_reset :: "env \<Rightarrow> string \<Rightarrow> string \<Rightarrow> Event dbop" where
  "replay_reset E workspaceID ident =
    seq (of_result (event_where E workspaceID ident)) (\<lambda>p.
    seq (select_row E events_table p) (\<lambda>found. case found of
      None \<Rightarrow> throw (Errorf ''Integration event %q was not found'' [ident])
    | Some r \<Rightarrow>
        seq (scanEvent r) (\<lambda>event.
        seq (now E) (\<lambda>t.
        seq (guarded_update E events_table (replay_columns t) p) (\<lambda>n.
        seq (check (n = 1) (Errorf ''Integration event %q changed during replay'' [ident])) (\<lambda>_.
        ret (event\<lparr>evt_Status := ''received'', evt_Error := [], evt_NextRetryAt := [],
                   evt_UpdatedAt := format_rfc3339nano t\<rparr>)))))))"

definition ReplayEvent :: "env \<Rightarrow> string \<Rightarrow> string \<Rightarrow> (Event \<times> err option) dbop" where
  "ReplayEvent E workspaceID ident =
    seq (transaction E (replay_reset E (trim_space workspaceID) (trim_space ident))) (\<lambda>event.
    processEvent E event None)"

section \<open>The event worker\<close>

definition due_events :: "string \<Rightarrow> predicate" where
  "due_events nowText =
    Or [And [In ''status'' [Text ''received'', Text ''failed''],
             Or [Equal ''next_retry_at'' (Text []), LessThanOrEqual ''next_retry_at'' (Text nowText)]],
        And [Equal ''status'' (Text ''processing''),
             Or [Equal ''lease_expires_at'' (Text []), LessThanOrEqual ''lease_expires_at'' (Text nowText)]]]"

record event_candidate =
  ec_id :: string
  ec_workspaceID :: string
  ec_status :: string
  ec_fencingToken :: int

definition scan_candidate :: "row \<Rightarrow> event_candidate dbop" where
  "scan_candidate r =
    seq (scan_texts r [''id'', ''workspace_id'', ''status'', ''fencing_token'']) (\<lambda>_.
    ret \<lparr>ec_id = text_of (r ''id''), ec_workspaceID = text_of (r ''workspace_id''), ec_status = text_of (r ''status''),
         ec_fencingToken = int_of_sql (r ''fencing_token'')\<rparr>)"

definition claim_columns :: "string \<Rightarrow> time \<Rightarrow> event_candidate \<Rightarrow> (string \<times> sql) list" where
  "claim_columns workerID t c =
    [(''status'', Text ''processing''), (''lease_owner'', Text workerID), (''lease_expires_at'', timestamp (t + 30 * second)),
     (''fencing_token'', Num (ec_fencingToken c + 1)), (''updated_at'', timestamp t)]"

definition claim_event :: "env \<Rightarrow> string \<Rightarrow> time \<Rightarrow> event_candidate \<Rightarrow> nat dbop" where
  "claim_event E workerID t c =
    guarded_update E events_table (claim_columns workerID t c)
      (And [Equal ''id'' (Text (ec_id c)), Equal ''workspace_id'' (Text (ec_workspaceID c)),
            Equal ''status'' (Text (ec_status c)), Equal ''fencing_token'' (Num (ec_fencingToken c))])"

definition process_claimed :: "env \<Rightarrow> event_candidate \<Rightarrow> err option dbop" where
  "process_claimed E c =
    seq (try_op (GetEvent E (ec_workspaceID c) (ec_id c))) (\<lambda>r. case r of
      Inl e \<Rightarrow> ret (Some e)
    | Inr event \<Rightarrow> seq (processEvent E event None) (\<lambda>(_, e). ret e))"

definition first_error :: "err option \<Rightarrow> err option \<Rightarrow> err option" where
  "first_error old e = (if old = None then e else old)"

fun process_candidates ::
    "env \<Rightarrow> string \<Rightarrow> time \<Rightarrow> nat \<Rightarrow> err option \<Rightarrow> event_candidate list \<Rightarrow> (nat \<times> err option) dbop" where
  "process_candidates E workerID t processed firstErr [] = ret (processed, firstErr)"
| "process_candidates E workerID t processed firstErr (c # cs) =
    seq (ctx_done E) (\<lambda>cancelled.
    if cancelled then ret (processed, Some (Errorf ''context canceled'' []))
    else
      seq (try_op (claim_event E workerID t c)) (\<lambda>r. case r of
        Inl e \<Rightarrow> process_candidates E workerID t processed (first_error firstErr (Some e)) cs
      | Inr n \<Rightarrow>
          if n \<noteq> 1 then process_candidates E workerID t processed firstErr cs
          else
            seq (process_claimed E c) (\<lambda>e.
            process_candidates E workerID t (processed + 1) (first_error firstErr e) cs)))"

definition ProcessDueEvents :: "env \<Rightarrow> string \<Rightarrow> int \<Rightarrow> (nat \<times> err option) dbop" where
  "ProcessDueEvents E workerID limit =
    seq (check (\<not> blank workerID) (Errorf ''Integration event worker ID is required'' [])) (\<lambda>_.
    let limit = (if limit \<le> 0 \<or> limit > 500 then 25 else limit) in
    seq (now E) (\<lambda>t.
    seq (select E events_table (due_events (format_rfc3339nano t))) (\<lambda>rs.
    seq (each scan_candidate (take (nat limit) (ascending ''received_at'' rs))) (\<lambda>candidates.
    process_candidates E workerID t 0 None candidates))))"

section \<open>What inbound operations are built from\<close>

context store_reads
begin

lemma within_first_mapping: "within (first_mapping event rs)"
proof (induction rs)
  case Nil
  show ?case unfolding first_mapping.simps by (rule within_ret)
next
  case (Cons r rs)
  show ?case unfolding first_mapping.simps by (intro within_reads Cons.IH)
qed

lemma within_eventMapping: "within (eventMapping E event)"
  unfolding eventMapping_def by (intro within_reads within_first_mapping)

lemma within_GetEvent: "within (GetEvent E ws i)"
  unfolding GetEvent_def scanEvent_def with_execution_def eventExecution_def by (intro within_reads)

lemma within_event_principal: "within (event_principal E mapping event external payload)"
  unfolding event_principal_def resolveExternalIdentity_def Let_def by (intro within_reads)

lemma within_guardInboundSubject: "within (guardInboundSubject E request provider verified)"
  unfolding guardInboundSubject_def Let_def by (intro within_reads within_eventMapping)

lemma within_scan_candidate: "within (scan_candidate r)"
  unfolding scan_candidate_def by (intro within_reads)

lemmas within_inbound_reads =
  within_reads within_eventMapping within_GetEvent within_event_principal within_guardInboundSubject within_scan_candidate

end

text \<open>
  The statements by which inbound operations write, and the calls they make: a relation that these
  stay in is kept by all of the operations.
\<close>

definition settled_status :: "string \<Rightarrow> bool" where
  "settled_status status \<longleftrightarrow> status \<in> {''ignored'', ''processed'', ''failed''}"

locale inbound_writes = secret_writes +
  assumes within_event_insert: "within (insert_into E events_table (event_columns i ws pk type ext payload t))"
    and within_nonce_insert: "within (insert_into E nonces_table cs)"
    and within_intent_insert: "within (insert_into E intents_table cs)"
    and within_intent_update: "keeps_identity cs \<Longrightarrow> within (guarded_update E intents_table cs p)"
    and within_outcome: "settled_status status \<Longrightarrow>
      within (guarded_update E events_table (outcome_columns t n status text) p)"
    and within_replay: "within (guarded_update E events_table (replay_columns t) p)"
    and within_claim: "within (guarded_update E events_table (claim_columns worker t c) p)"
begin

lemma within_updateEventStatus: "settled_status status \<Longrightarrow> within (updateEventStatus E event status text)"
  unfolding updateEventStatus_def by (intro within_inbound_reads within_outcome)

lemma within_fail_event: "within (fail_event E event e)"
  unfolding fail_event_def by (intro within_inbound_reads within_updateEventStatus) (simp add: settled_status_def)

lemma within_persistExecutionReceipt: "within (persistExecutionReceipt E event mapping receipt)"
  unfolding persistExecutionReceipt_def Let_def
  by (intro within_reads within_intent_insert within_intent_update) (simp_all add: keeps_identity_def)

lemma within_record_trigger: "within (record_trigger E event mapping answer)"
  unfolding record_trigger_def
  by (intro within_reads within_fail_event within_persistExecutionReceipt within_updateEventStatus)
    (simp add: settled_status_def)

lemma within_resolve_references: "within (resolve_references E ws refs)"
  unfolding resolve_references_def ResolveSecretReferences_def
  by (cases "ev_Secrets E") (auto intro!: within_secrets)

lemma within_verify_webhook: "within (verify_webhook E request)"
  unfolding verify_webhook_def
  by (intro within_reads within_delivery_connection within_find_provider within_resolve_references)

lemma within_prepare_inbound: "within (prepare_inbound E request pk verified)"
  unfolding prepare_inbound_def acceptWebhookNonce_def Let_def by (intro within_inbound_reads within_nonce_insert)

lemma within_acceptEvent: "within (acceptEvent E request pk verified)"
  unfolding acceptEvent_def new_event_columns_def Let_def by (intro within_inbound_reads within_event_insert)

lemma within_claim_event: "within (claim_event E worker t c)"
  unfolding claim_event_def by (rule within_claim)

lemma within_replay_reset: "within (replay_reset E ws i)"
  unfolding replay_reset_def scanEvent_def by (intro within_reads within_replay)

lemmas within_inbound =
  within_inbound_reads within_updateEventStatus within_fail_event within_record_trigger
  within_verify_webhook within_prepare_inbound within_acceptEvent within_claim_event within_replay_reset

end

locale inbound_calls = inbound_writes +
  assumes within_call_trigger: "within (call_trigger trigger request)"
begin

lemma within_processEvent: "within (processEvent E event external)"
  unfolding processEvent_def by (intro within_inbound within_call_trigger) (simp_all add: settled_status_def)

lemma within_AcceptWebhook: "within (AcceptWebhook E request)"
  unfolding AcceptWebhook_def Let_def by (intro within_inbound within_processEvent)

lemma within_ReplayEvent: "within (ReplayEvent E ws i)"
  unfolding ReplayEvent_def by (intro within_inbound within_processEvent)

lemma within_process_candidates: "within (process_candidates E worker t n e cs)"
proof (induction cs arbitrary: n e)
  case Nil
  show ?case unfolding process_candidates.simps by (rule within_ret)
next
  case (Cons c cs)
  show ?case
    unfolding process_candidates.simps process_claimed_def
    by (intro within_inbound within_processEvent Cons.IH)
qed

lemma within_ProcessDueEvents: "within (ProcessDueEvents E worker limit)"
  unfolding ProcessDueEvents_def Let_def by (intro within_inbound within_process_candidates)

end

lemma inbound_columns_keep_identity [simp]:
  "keeps_identity (outcome_columns t n status text)" "keeps_identity (replay_columns t)"
  "keeps_identity (claim_columns worker t c)"
  by (simp_all add: keeps_identity_def outcome_columns_def replay_columns_def claim_columns_def Let_def)

sublocale store_writes \<subseteq> inbound_writes
  by unfold_locales (auto intro: within_insert within_guarded_update)

sublocale store_calls \<subseteq> inbound_calls
  by unfold_locales (simp add: call_trigger_def within_record_call)

section \<open>The row of an event\<close>

text \<open>
  The states of a row: a failed event has been attempted one to four times and has a time for the
  next attempt; a dead-lettered one at least five times and has none; neither has one that waits,
  was processed or was ignored.
\<close>

definition event_state_ok :: "string \<Rightarrow> int \<Rightarrow> sql \<Rightarrow> bool" where
  "event_state_ok s n retry \<longleftrightarrow>
    0 \<le> n \<and>
    (if s = ''failed'' then 1 \<le> n \<and> n < 5 \<and> retry \<noteq> Text []
     else if s = ''dead_letter'' then 5 \<le> n \<and> retry = Text []
     else s = ''processing'' \<or> s \<in> {''received'', ''processed'', ''ignored''} \<and> retry = Text [])"

definition event_row_ok :: "row \<Rightarrow> bool" where
  "event_row_ok r \<longleftrightarrow>
    (case (r ''status'', r ''attempt_count'') of
       (Text s, Num n) \<Rightarrow> event_state_ok s n (r ''next_retry_at'')
     | _ \<Rightarrow> False)"

lemma timestamp_not_empty [simp]: "timestamp t \<noteq> Text []"
  by (simp add: timestamp_def format_rfc3339nano_def Let_def)

lemma event_row_new: "event_row_ok (row_of (event_columns i ws pk type ext payload t))"
  by (simp add: event_row_ok_def event_columns_def event_state_ok_def)

lemma event_row_outcome:
  assumes "settled_status status" and "event_row_ok r"
  shows "event_row_ok (set_columns (outcome_columns t n status text) r)"
proof (cases "status = ''failed''")
  case True
  then show ?thesis by (simp add: event_row_ok_def outcome_columns_def event_state_ok_def Let_def)
next
  case False
  with assms(1) have "status = ''ignored'' \<or> status = ''processed''" by (simp add: settled_status_def)
  with assms(2) show ?thesis
    by (auto simp: event_row_ok_def outcome_columns_def event_state_ok_def split: sql.splits)
qed

lemma event_row_replay: "event_row_ok r \<Longrightarrow> event_row_ok (set_columns (replay_columns t) r)"
  by (simp add: event_row_ok_def replay_columns_def event_state_ok_def split: sql.splits)

lemma event_row_claim: "event_row_ok r \<Longrightarrow> event_row_ok (set_columns (claim_columns worker t c) r)"
  by (simp add: event_row_ok_def claim_columns_def event_state_ok_def split: sql.splits)

lemma inbound_tables_differ [simp]:
  "events_table \<noteq> nonces_table" "nonces_table \<noteq> events_table" "events_table \<noteq> intents_table" "intents_table \<noteq> events_table"
  "nonces_table \<noteq> intents_table" "intents_table \<noteq> nonces_table"
  "events_table \<noteq> secrets_table" "events_table \<noteq> materials_table" "secrets_table \<noteq> events_table" "materials_table \<noteq> events_table"
  by (simp_all add: events_table_def nonces_table_def intents_table_def secrets_table_def materials_table_def)

lemma event_rows_writes: "inbound_calls (inv_within (all_rows events_table event_row_ok) E) E"
proof -
  have secrets: "secret_writes (inv_within (all_rows events_table event_row_ok) E) E"
    by (rule secret_writes_other_table) simp_all
  show ?thesis
  proof (intro inbound_calls.intro inbound_writes.intro secrets inbound_writes_axioms.intro inbound_calls_axioms.intro)
    show "evolution.within (inv_within (all_rows events_table event_row_ok) E)
        (insert_into E events_table (event_columns i ws pk type ext payload t))" for i ws pk type ext payload t
      unfolding insert_into_def by (intro inv_statement all_rows_insert event_row_new)
    show "evolution.within (inv_within (all_rows events_table event_row_ok) E) (guarded_update E events_table (replay_columns t) p)" for t p
      unfolding guarded_update_def update_set_def by (intro inv_statement all_rows_update event_row_replay)
    show "evolution.within (inv_within (all_rows events_table event_row_ok) E) (guarded_update E events_table (claim_columns worker t c) p)"
      for worker t c p
      unfolding guarded_update_def update_set_def by (intro inv_statement all_rows_update event_row_claim)
    show "evolution.within (inv_within (all_rows events_table event_row_ok) E) (call_trigger trigger request)" for trigger request
      by (simp add: evolution.within_def [OF inv_evolution] call_trigger_def record_call_def inv_within_def)
  qed (auto intro: event_row_outcome simp: insert_into_def guarded_update_def update_set_def intro!: inv_statement all_rows_insert all_rows_update)
qed

interpretation event_rows: inbound_calls "inv_within (all_rows events_table event_row_ok) E" E for E
  by (rule event_rows_writes)

text \<open>The operations on events, as one: a webhook, a replay, and a pass of the worker.\<close>

datatype inbound_step = Webhook WebhookRequest | Replay string string | WorkerPass string int

fun run_inbound :: "env \<Rightarrow> inbound_step \<Rightarrow> world \<Rightarrow> world" where
  "run_inbound E (Webhook request) w = snd (AcceptWebhook E request w)"
| "run_inbound E (Replay ws i) w = snd (ReplayEvent E ws i w)"
| "run_inbound E (WorkerPass worker limit) w = snd (ProcessDueEvents E worker limit w)"

definition keeps_event_rows :: "env \<Rightarrow> bool" where
  "keeps_event_rows E \<longleftrightarrow> (\<forall>n d. all_rows events_table event_row_ok d \<longrightarrow> all_rows events_table event_row_ok (ev_others E n d))"

text \<open>
  C10. Whatever webhooks, replays and worker passes run, in any order, each with its own faults,
  clock, providers and interference (that keeps the rows well formed), every event row stays in
  one of the six states, a failed row has been attempted at most four times and has a time for
  its next attempt, and a row that is not to be retried has none.
\<close>

theorem event_rows_wellformed:
  assumes "list_all (\<lambda>(E, step). keeps_event_rows E) runs" and "all_rows events_table event_row_ok (w_db w)"
  shows "all_rows events_table event_row_ok (w_db (fold (\<lambda>(E, step). run_inbound E step) runs w))"
  using assms
proof (induction runs arbitrary: w)
  case (Cons run runs)
  obtain E step where run: "run = (E, step)" by fastforce
  have "inv_within (all_rows events_table event_row_ok) E w (run_inbound E step w)"
    using event_rows.within_AcceptWebhook event_rows.within_ReplayEvent event_rows.within_ProcessDueEvents
    unfolding event_rows.within_def by (cases step) simp_all
  then have "all_rows events_table event_row_ok (w_db (run_inbound E step w))"
    using Cons.prems run unfolding inv_within_def keeps_event_rows_def by simp
  with Cons run show ?case by simp
qed simp

section \<open>One event, one trigger\<close>

lemma processEvent_single:
  assumes "inbound_writes (quiet_where P E) E"
  shows "single_call_under P E (processEvent E event external)"
  unfolding processEvent_def call_trigger_def
  by (intro single_call_under_call single_call_under_seq single_call_under_if single_call_under_option
      single_call_under_sum inbound_writes.within_inbound [OF assms])
    ((rule single_call_under_quiet, intro inbound_writes.within_inbound [OF assms]) | simp add: settled_status_def)+

lemma acceptEvent_inserted:
  assumes "stable (has_id events_table (webhook_event_id E (wq_WorkspaceID request) pk (vw_ExternalID verified))) E"
    and "acceptEvent E request pk verified w = (Inr (event, True), w')"
  shows "has_id events_table (webhook_event_id E (wq_WorkspaceID request) pk (vw_ExternalID verified)) (w_db w')"
proof -
  let ?i = "webhook_event_id E (wq_WorkspaceID request) pk (vw_ExternalID verified)"
  obtain u v n ev where insert: "insert_into E events_table (new_event_columns request ?i pk verified) u = (Inr n, v)"
      and rd: "GetEvent E (wq_WorkspaceID request) ?i v = (Inr ev, w')"
    using assms(2) by (auto simp: acceptEvent_def Let_def op_Inr case_Inr)
  have "has_id events_table ?i (w_db v)"
    by (rule insert_establishes [OF insert]) (simp add: new_event_columns_def event_columns_def)
  from quiet_where_D [OF id_quiet.within_GetEvent assms(1) this rd] show ?thesis by simp
qed

lemma acceptEvent_taken:
  assumes "stable (has_id events_table (webhook_event_id E (wq_WorkspaceID request) pk (vw_ExternalID verified))) E"
    and "has_id events_table (webhook_event_id E (wq_WorkspaceID request) pk (vw_ExternalID verified)) (w_db w)"
    and "acceptEvent E request pk verified w = (Inr (event, inserted), w')"
  shows "\<not> inserted"
proof
  let ?i = "webhook_event_id E (wq_WorkspaceID request) pk (vw_ExternalID verified)"
  assume inserted
  with assms(3) obtain u v r n t where g: "guardSubjectWrite E (wq_WorkspaceID request)
        [(''row'', events_table, ?i), (''connection'', [], wq_ConnectionKey request)] w = (Inr (), u)"
      and rd: "GetEvent E (wq_WorkspaceID request) ?i u = (r, v)"
      and insert: "insert_into E events_table (new_event_columns request ?i pk verified) v = (Inr n, t)"
    by (auto simp: acceptEvent_def Let_def op_Inr case_Inr)
  from quiet_where_D [OF id_quiet.within_guard assms(1,2) g] have u: "has_id events_table ?i (w_db u)" by simp
  from quiet_where_D [OF id_quiet.within_GetEvent assms(1) u rd] have v: "has_id events_table ?i (w_db v)" by simp
  from insert_stops [OF assms(1) v, of "new_event_columns request ?i pk verified"] insert show False
    by (auto simp: new_event_columns_def event_columns_def)
qed

lemma prepare_inbound_id:
  "prepare_inbound E request pk verified w = (Inr verified', w') \<Longrightarrow> vw_ExternalID verified' = vw_ExternalID verified"
  by (auto simp: prepare_inbound_def op_Inr)

text \<open>A delivery of the webhook of one event: whatever the request, it is verified to be that event.\<close>

definition delivers :: "string \<Rightarrow> env \<Rightarrow> WebhookRequest \<Rightarrow> bool" where
  "delivers i E request \<longleftrightarrow> (\<forall>w c verified w'. verify_webhook E request w = (Inr (c, verified), w') \<longrightarrow>
     webhook_event_id E (wq_WorkspaceID request) (dc_ProviderKey c) (vw_ExternalID verified) = i)"

text \<open>What follows the verification.\<close>

definition accept_verified ::
    "env \<Rightarrow> WebhookRequest \<Rightarrow> deliveryConnection \<Rightarrow> VerifiedWebhook \<Rightarrow> (WebhookReceipt \<times> err option) dbop" where
  "accept_verified E request connection verified =
    (let receipt = (\<lambda>event. \<lparr>wrc_Event = event, wrc_Challenge = vw_Challenge verified, wrc_Format = vw_ChallengeFormat verified\<rparr>) in
    if vw_Challenge verified \<noteq> [] \<and> blank (vw_EventType verified) then ret (receipt zero_event, None)
    else
      seq (prepare_inbound E request (dc_ProviderKey connection) verified) (\<lambda>verified.
      seq (acceptEvent E request (dc_ProviderKey connection) verified) (\<lambda>(event, inserted).
      if inserted then
        seq (processEvent E event (vw_ExternalIdentity verified)) (\<lambda>(event, e). ret (receipt event, e))
      else ret (receipt event, None))))"

lemma AcceptWebhook_verified:
  "AcceptWebhook E request = seq (verify_webhook E request) (\<lambda>(connection, verified). accept_verified E request connection verified)"
  by (simp add: AcceptWebhook_def accept_verified_def)

lemma accept_verified_single:
  assumes "webhook_event_id E (wq_WorkspaceID request) (dc_ProviderKey c) (vw_ExternalID verified) = i"
  shows "single_call (has_id events_table i) E (accept_verified E request c verified)"
  unfolding accept_verified_def Let_def
proof (intro single_call_if single_call_seq_result [OF quiet.within_prepare_inbound])
  show "single_call (has_id events_table i) E (ret (\<lparr>wrc_Event = zero_event, wrc_Challenge = vw_Challenge verified,
      wrc_Format = vw_ChallengeFormat verified\<rparr>, None))"
    by (intro single_call_quiet quiet.within_reads)
  fix w v w'
  assume "prepare_inbound E request (dc_ProviderKey c) verified w = (Inr v, w')"
  with assms have i: "webhook_event_id E (wq_WorkspaceID request) (dc_ProviderKey c) (vw_ExternalID v) = i"
    by (simp add: prepare_inbound_id)
  show "single_call (has_id events_table i) E (seq (acceptEvent E request (dc_ProviderKey c) v) (\<lambda>(event, inserted).
      if inserted then
        seq (processEvent E event (vw_ExternalIdentity v)) (\<lambda>(event, e).
          ret (\<lparr>wrc_Event = event, wrc_Challenge = vw_Challenge verified, wrc_Format = vw_ChallengeFormat verified\<rparr>, e))
      else ret (\<lparr>wrc_Event = event, wrc_Challenge = vw_Challenge verified, wrc_Format = vw_ChallengeFormat verified\<rparr>, None)))"
  proof (rule single_call_claim_if [where won = snd, OF quiet.within_acceptEvent])
    show "stable (has_id events_table i) E \<Longrightarrow> acceptEvent E request (dc_ProviderKey c) v w = (Inr x, w') \<Longrightarrow> snd x \<Longrightarrow>
        has_id events_table i (w_db w')" for w x w'
      using acceptEvent_inserted [of E request "dc_ProviderKey c" v w "fst x" w'] i by (cases x) simp
  qed (auto split: prod.split intro!: single_call_under_then processEvent_single [OF id_quiet.inbound_writes_axioms] quiet_where.within_intros quiet.within_reads)
qed

lemma accept_verified_taken:
  assumes "webhook_event_id E (wq_WorkspaceID request) (dc_ProviderKey c) (vw_ExternalID verified) = i"
  shows "evolution.within (quiet_where (has_id events_table i) E) (accept_verified E request c verified)"
  unfolding accept_verified_def Let_def
proof (intro quiet_where.within_if quiet_where.within_ret quiet_where_seq_result [OF id_quiet.within_prepare_inbound])
  fix w v w'
  assume "prepare_inbound E request (dc_ProviderKey c) verified w = (Inr v, w')"
  with assms have i: "webhook_event_id E (wq_WorkspaceID request) (dc_ProviderKey c) (vw_ExternalID v) = i"
    by (simp add: prepare_inbound_id)
  show "evolution.within (quiet_where (has_id events_table i) E) (seq (acceptEvent E request (dc_ProviderKey c) v) (\<lambda>(event, inserted).
      if inserted then
        seq (processEvent E event (vw_ExternalIdentity v)) (\<lambda>(event, e).
          ret (\<lparr>wrc_Event = event, wrc_Challenge = vw_Challenge verified, wrc_Format = vw_ChallengeFormat verified\<rparr>, e))
      else ret (\<lparr>wrc_Event = event, wrc_Challenge = vw_Challenge verified, wrc_Format = vw_ChallengeFormat verified\<rparr>, None)))"
  proof (rule quiet_where_seq_under [OF id_quiet.within_acceptEvent])
    fix w x w'
    assume "stable (has_id events_table i) E" "has_id events_table i (w_db w)" "acceptEvent E request (dc_ProviderKey c) v w = (Inr x, w')"
    with acceptEvent_taken [of E request "dc_ProviderKey c" v w "fst x" "snd x" w'] i have "\<not> snd x" by simp
    then show "evolution.within (quiet_where (has_id events_table i) E) (case x of (event, inserted) \<Rightarrow>
      if inserted then
        seq (processEvent E event (vw_ExternalIdentity v)) (\<lambda>(event, e).
          ret (\<lparr>wrc_Event = event, wrc_Challenge = vw_Challenge verified, wrc_Format = vw_ChallengeFormat verified\<rparr>, e))
      else ret (\<lparr>wrc_Event = event, wrc_Challenge = vw_Challenge verified, wrc_Format = vw_ChallengeFormat verified\<rparr>, None))"
      by (cases x) (auto intro!: quiet_where.within_intros)
  qed
qed

text \<open>
  C9. However often the webhook of one event is delivered, to any number of processes, each with
  its own faults, clock and interference, accepting it triggers the runtime at most once, as long
  as nobody deletes the event.
\<close>

theorem webhook_triggers_at_most_once:
  assumes "list_all (\<lambda>(E, request). delivers i E request \<and> stable (has_id events_table i) E) runs"
  shows "\<exists>cs. w_calls (fold (\<lambda>(E, request) w. snd (AcceptWebhook E request w)) runs w) = w_calls w @ cs \<and> length cs \<le> 1"
proof -
  have "at_most_once (has_id events_table i) (AcceptWebhook E request)"
    if "delivers i E request" "stable (has_id events_table i) E" for E request
  proof (rule at_most_once_I [OF that(2)])
    show "single_call (has_id events_table i) E (AcceptWebhook E request)"
      unfolding AcceptWebhook_verified
      by (rule single_call_seq_result [OF quiet.within_verify_webhook])
        (use that(1) in \<open>auto simp: delivers_def intro!: accept_verified_single\<close>)
    show "evolution.within (quiet_where (has_id events_table i) E) (AcceptWebhook E request)"
      unfolding AcceptWebhook_verified
      by (rule quiet_where_seq_result [OF id_quiet.within_verify_webhook])
        (use that(1) in \<open>auto simp: delivers_def intro!: accept_verified_taken\<close>)
  qed
  then have "list_all (at_most_once (has_id events_table i)) (map (\<lambda>(E, request). AcceptWebhook E request) runs)"
    using assms by (auto simp: list_all_iff)
  from runs_at_most_once [OF this, of w] show ?thesis by (simp add: fold_map comp_def case_prod_unfold)
qed

section \<open>A pass of the worker\<close>

text \<open>No condition at all: an operation makes at most one call.\<close>

interpretation any_quiet: store_writes "quiet_where (\<lambda>_. True) E" E for E
  by (rule quiet_where_writes) simp_all

lemma processEvent_calls: "\<exists>cs. w_calls (snd (processEvent E event external w)) = w_calls w @ cs \<and> length cs \<le> 1"
proof -
  have "stable (\<lambda>_. True) E" by (simp add: stable_def)
  with processEvent_single [OF any_quiet.inbound_writes_axioms, of E event external]
  have "w_calls (snd (processEvent E event external w)) = w_calls w \<or>
      (\<exists>c. w_calls (snd (processEvent E event external w)) = w_calls w @ [c])"
    unfolding single_call_under_def by blast
  then show ?thesis by auto
qed

lemma process_claimed_calls: "\<exists>cs. w_calls (snd (process_claimed E c w)) = w_calls w @ cs \<and> length cs \<le> 1"
proof -
  obtain r u where rd: "GetEvent E (ec_workspaceID c) (ec_id c) w = (r, u)" by fastforce
  have "w_calls u = w_calls w" by (rule quiet_D [OF quiet.within_GetEvent rd])
  show ?thesis
  proof (cases r)
    case (Inr event)
    have "w_calls (snd (process_claimed E c w)) = w_calls (snd (processEvent E event None u))"
      using rd Inr by (auto simp: process_claimed_def seq_def try_op_def split: prod.splits sum.splits)
    with processEvent_calls [of E event None u] \<open>w_calls u = w_calls w\<close> show ?thesis by simp
  qed (use rd \<open>w_calls u = w_calls w\<close> in \<open>simp add: process_claimed_def seq_def try_op_def\<close>)
qed

lemma process_candidates_bounds:
  "process_candidates E worker t n0 e0 cs w = (Inr (n, e), w') \<Longrightarrow>
    n0 \<le> n \<and> n \<le> n0 + length cs \<and> (\<exists>calls. w_calls w' = w_calls w @ calls \<and> length calls \<le> n - n0)"
proof (induction cs arbitrary: n0 e0 w)
  case (Cons c cs)
  obtain r u where claim: "claim_event E worker t c w = (r, u)" by fastforce
  have u: "w_calls u = w_calls w" by (rule quiet_D [OF quiet.within_claim_event claim])
  show ?case
  proof (cases "ev_ctx_err E (w_step w) \<or> r \<noteq> Inr 1")
    case True
    with Cons.prems claim u show ?thesis
      by (cases r) (auto simp: op_Inr ctx_done_def dest!: Cons.IH split: if_splits)
  next
    case False
    with Cons.prems claim obtain x v where v: "process_claimed E c u = (Inr x, v)"
      and rest: "process_candidates E worker t (n0 + 1) (first_error e0 x) cs v = (Inr (n, e), w')"
      by (auto simp: op_Inr ctx_done_def)
    from process_claimed_calls [of E c u] v obtain calls where "w_calls v = w_calls u @ calls" "length calls \<le> 1" by auto
    with Cons.IH [OF rest] u show ?thesis by auto
  qed
qed (simp add: ret_def)

lemma each_length: "each f xs w = (Inr ys, w') \<Longrightarrow> length ys = length xs"
  by (induction xs arbitrary: ys w) (auto simp: op_Inr)

text \<open>
  C11. A pass of the worker is bounded: it handles at most as many events as its limit says (25
  where none or too large a one is given), and makes at most one external call for each.
\<close>

theorem worker_pass_bounded:
  assumes "ProcessDueEvents E worker limit w = (Inr (n, e), w')"
  shows "int n \<le> (if limit \<le> 0 \<or> limit > 500 then 25 else limit) \<and> (\<exists>cs. w_calls w' = w_calls w @ cs \<and> length cs \<le> n)"
proof -
  let ?limit = "if limit \<le> 0 \<or> limit > 500 then 25 else limit"
  obtain t rs u candidates v where sel: "select E events_table (due_events (format_rfc3339nano t)) w = (Inr rs, u)"
      and scan: "each scan_candidate (take (nat ?limit) (ascending ''received_at'' rs)) u = (Inr candidates, v)"
      and run: "process_candidates E worker t 0 None candidates v = (Inr (n, e), w')"
    using assms by (auto simp: ProcessDueEvents_def Let_def op_Inr now_Inr simp del: process_candidates.simps split del: if_split)
  have "w_calls v = w_calls w"
    using quiet_D [OF quiet.within_select sel] quiet_D [OF quiet.within_each scan] quiet.within_scan_candidate by simp
  moreover have "length candidates \<le> nat ?limit" using each_length [OF scan] by simp
  ultimately show ?thesis using process_candidates_bounds [OF run] by auto
qed

text \<open>
  A claim is exclusive: once one worker has claimed an event at the version a candidate was
  read at, no other claim of that candidate takes hold, whenever the other worker started.
\<close>

theorem event_claim_exclusive:
  assumes "alone E" and "keyed (w_db w) events_table" and "claim_event E worker t c w = (Inr n, w')" and "n \<noteq> 0"
  shows "fst (claim_event E other t' c w') \<in> {Inr 0, Inl StorageErr}"
proof -
  let ?p = "And [subjectRowWriteAllowed events_table, And [Equal ''id'' (Text (ec_id c)),
    Equal ''workspace_id'' (Text (ec_workspaceID c)), Equal ''status'' (Text (ec_status c)),
    Equal ''fencing_token'' (Num (ec_fencingToken c))]]"
  let ?f = "set_columns (claim_columns worker t c)"
  have upd: "update_rows events_table ?f ?p (w_db w) = (Inr n, w_db w')"
    using guarded_update_Inr [OF assms(1)] assms(3) unfolding claim_event_def by blast
  from upd have d': "w_db w' events_table = map (\<lambda>r. if holds (w_db w) r ?p then ?f r else r) (w_db w events_table)"
    by (rule update_rows_result)
  obtain r where r: "r \<in> set (w_db w events_table)" "holds (w_db w) r ?p" using update_rows_hit [OF upd assms(4)] by blast
  have none: "\<not> holds (w_db w') q ?p" if "q \<in> set (w_db w' events_table)" for q
  proof
    assume "holds (w_db w') q ?p"
    then have q: "q ''id'' = Text (ec_id c)" "q ''fencing_token'' = Num (ec_fencingToken c)" by (simp_all add: holds_And holds_Equal)
    from that d' obtain s where s: "s \<in> set (w_db w events_table)" "q = (if holds (w_db w) s ?p then ?f s else s)" by auto
    have "?f s ''id'' = s ''id''" by (simp add: claim_columns_def)
    with s q have "s ''id'' = Text (ec_id c)" by (auto split: if_splits)
    with r have "s = r" by (intro keyed_id [OF assms(2) s(1)]) (simp_all add: holds_And holds_Equal)
    with r s have "q = ?f r" by simp
    with q(2) show False by (simp add: claim_columns_def)
  qed
  then have "filter (\<lambda>r. holds (w_db w') r ?p) (w_db w' events_table) = []" by (simp add: filter_empty_conv)
  then show ?thesis
    using assms(1)
    by (cases "ev_fault E (w_step w')")
      (simp_all add: claim_event_def guarded_update_def update_set_def statement_def Let_def update_rows_def)
qed

section \<open>Fenced events\<close>

text \<open>
  An event whose row is fenced by an erasure triggers nothing, whoever processes it and whatever
  the mapping: no external call is made, for all faults and as long as other processes leave the
  fence in place.
\<close>

theorem fenced_event_triggers_nobody:
  assumes "\<And>n d. fenced d (evt_WorkspaceID event) ''row'' events_table (evt_ID event) \<Longrightarrow>
      fenced (ev_others E n d) (evt_WorkspaceID event) ''row'' events_table (evt_ID event)"
    and "fenced (w_db w) (evt_WorkspaceID event) ''row'' events_table (evt_ID event)" and "evt_ID event \<noteq> []"
  shows "w_calls (snd (processEvent E event external w)) = w_calls w"
proof -
  let ?P = "\<lambda>d. fenced d (evt_WorkspaceID event) ''row'' events_table (evt_ID event)"
  have "evolution.within (quiet_where ?P E) (seq (try_op (guardSubjectWrite E (evt_WorkspaceID event)
      [(''row'', events_table, evt_ID event), (''subject'', [], who)])) (\<lambda>r. case r of Inl e \<Rightarrow> ret (event, Some e) | Inr _ \<Rightarrow> f))"
    for who and f :: "(Event \<times> err option) dbop"
    by (rule within_after_stop_try [OF fence_quiet.within_guard])
      (use assms(3) in \<open>auto intro!: guard_stops quiet_where.within_intros\<close>)
  note stop = this
  have "evolution.within (quiet_where ?P E) (processEvent E event external)"
    unfolding processEvent_def
    by (intro stop fence_quiet.within_inbound) (simp_all add: settled_status_def)
  then show ?thesis
    using assms(1,2) unfolding evolution.within_def [OF quiet_where_evolution] quiet_where_def stable_def by blast
qed

section \<open>Outcomes and leases\<close>

text \<open>
  The outcome of an attempt is recorded whoever holds the event: the statement looks at neither
  the lease nor the fencing token. A worker whose lease ran out and was taken over, and whose
  event has been processed meanwhile, still turns the row back to failed (or dead-lettered), so
  that it is triggered again.
\<close>

theorem stale_outcome_recorded:
  assumes "calm E" and "ev_scope E = None" and "r \<in> set (w_db w events_table)" and "\<not> row_fenced (w_db w) events_table r"
    and "r ''id'' = Text (evt_ID event)" and "r ''workspace_id'' = Text (trim_space (evt_WorkspaceID event))"
  shows "\<exists>q \<in> set (w_db (snd (updateEventStatus E event ''failed'' text w)) events_table).
    q ''id'' = r ''id'' \<and> q ''fencing_token'' = r ''fencing_token'' \<and>
    q ''status'' = Text (if evt_AttemptCount event < 4 then ''failed'' else ''dead_letter'') \<and>
    q ''attempt_count'' = Num (int (evt_AttemptCount event + 1))"
proof -
  let ?cs = "outcome_columns (ev_clock E (w_step w)) (evt_AttemptCount event) ''failed'' text"
  let ?p = "And [Equal ''workspace_id'' (Text (trim_space (evt_WorkspaceID event))), Equal ''id'' (Text (evt_ID event))]"
  have p: "event_where E (evt_WorkspaceID event) (evt_ID event) = Inr ?p"
    using assms(2) by (simp add: event_where_def scopedWhere_def Let_def)
  let ?w = "w\<lparr>w_db := snd (update_rows events_table (set_columns ?cs) (And [subjectRowWriteAllowed events_table, ?p]) (w_db w)),
             w_step := Suc (w_step w)\<rparr>"
  obtain x v where rd: "GetEvent E (evt_WorkspaceID event) (evt_ID event) ?w = (x, v)" by fastforce
  have "w_db v = w_db ?w" using unchanged_D [OF untouched.within_GetEvent calm_alone [OF assms(1)] rd] by simp
  then have "w_db (snd (updateEventStatus E event ''failed'' text w)) = w_db ?w"
    using assms(1) rd
    by (cases x) (simp_all add: updateEventStatus_def p seq_def now_def try_op_def calm_guarded_update update_rows_def)
  moreover have "holds (w_db w) r (And [subjectRowWriteAllowed events_table, ?p])"
    using assms(4-6) by (simp add: where_simps)
  then have "set_columns ?cs r \<in> set (w_db ?w events_table)" using assms(3) by (force simp: update_rows_def)
  moreover have "set_columns ?cs r ''id'' = r ''id''" "set_columns ?cs r ''fencing_token'' = r ''fencing_token''"
    "set_columns ?cs r ''status'' = Text (if evt_AttemptCount event < 4 then ''failed'' else ''dead_letter'')"
    "set_columns ?cs r ''attempt_count'' = Num (int (evt_AttemptCount event + 1))"
    by (simp_all add: outcome_columns_def Let_def)
  ultimately show ?thesis by metis
qed

text \<open>A row whose lease ends at an instant.\<close>

definition leased_row :: "time \<Rightarrow> row" where
  "leased_row t = row_of [(''id'', Text ''event:1''), (''status'', Text ''processing''), (''lease_expires_at'', timestamp t)]"

text \<open>
  A lease can be taken over before it ends: the worker compares the texts of the instants, and
  with trailing zeroes left out the text of a later instant can sort before that of an earlier
  one. A lease until half a second after the full second counts as expired at the full second.
\<close>

theorem lease_taken_early:
  assumes "t mod second = 0" and "0 < e" and "e < second"
  shows "t < t + e \<and> holds d (leased_row (t + e)) (due_events (format_rfc3339nano t))"
proof -
  have "secs_of (t + e) = secs_of t" using assms by (auto simp: secs_of_def second_def div_add1_eq)
  moreover have "nanos_of t = 0" using assms(1) by (simp add: nanos_of_def second_def)
  moreover have "nanos_of (t + e) \<noteq> 0" using assms by (simp add: nanos_of_def second_def mod_add_eq [symmetric])
  ultimately have "format_rfc3339nano (t + e) < format_rfc3339nano t"
    by (simp add: format_rfc3339nano_def format_fraction_def append_less_append)
  then have "format_rfc3339nano (t + e) \<le> format_rfc3339nano t" by (rule less_imp_le)
  then show ?thesis using assms(2) by (simp add: holds_Or holds_And holds_Equal holds_LessThanOrEqual due_events_def leased_row_def timestamp_def)
qed

theorem lease_taken_early_witness:
  "holds (\<lambda>_. []) (leased_row (2 * second + 900000000)) (due_events (format_rfc3339nano (2 * second)))"
  using lease_taken_early [of "2 * second" 900000000 "\<lambda>_. []"] by (simp add: second_def)

text \<open>
  A verified event whose payload is the JSON value \<open>null\<close> passes the completeness check and
  panics: decoding it leaves a nil map, to which the connection is then added.
\<close>

theorem null_payload_panics:
  assumes "raw_value (vw_Payload verified) = Some JNull" and "\<not> blank (vw_EventType verified)" and "\<not> blank (vw_ExternalID verified)"
  shows "prepare_inbound E request pk verified w = (Inl nil_map, w)"
  using assms by (simp add: prepare_inbound_def json_valid_def seq_def check_apply of_result_apply integrationWebhookEventPayload_def)

section \<open>Inbound operations in a calm environment\<close>

text \<open>A provider \<open>echo\<close> whose webhooks are verified to be one event, and a runtime that accepts it.\<close>

definition hook_verified :: "json \<Rightarrow> VerifiedWebhook" where
  "hook_verified payload =
    \<lparr>vw_EventType = ''message'', vw_ExternalID = ''x1'', vw_Payload = marshal payload, vw_Challenge = [],
     vw_ChallengeFormat = [], vw_Security = Some \<lparr>wsec_SignatureVerified = True, wsec_Nonce = []\<rparr>, vw_ExternalIdentity = None\<rparr>"

definition hook_provider :: provider where
  "hook_provider = (echo_provider EffectWrite)
    \<lparr>pv_VerifyWebhook := Some (\<lambda>q. Inr (hook_verified (JObj [(''text'', JStr ''hello'')])))\<rparr>"

definition hook_receipt :: RuntimeExecutionReceipt where
  "hook_receipt =
    \<lparr>rer_EventID = ''e1'', rer_MappingKey = ''inbox'', rer_ExecutionID = ''x'', rer_TargetType = ''workflow'',
     rer_Status = ''accepted'', rer_ErrorCode = [], rer_CompletedAt = []\<rparr>"

definition hook_env :: env where
  "hook_env = calm_env\<lparr>ev_Provider := (\<lambda>c p. if p = ''echo'' then Some hook_provider else None),
                       ev_Trigger := Some (\<lambda>n q. (hook_receipt, None))\<rparr>"

lemma hook_env_simps [simp]:
  "calm hook_env" "alone hook_env" "ev_scope hook_env = None" "ev_Secrets hook_env = MaterialResolver"
  "ev_sha256 hook_env s = s" "ev_sha256_json hook_env j = sprint j" "ev_clock hook_env n = ev_clock calm_env 0"
  "ev_ctx_err hook_env n = False"
  by (simp_all add: hook_env_def calm_env_def calm_def alone_def)

definition hook_request :: WebhookRequest where
  "hook_request =
    \<lparr>wq_WorkspaceID = ''w1'', wq_ConnectorKey = ''crm'', wq_ConnectionKey = ''main'', wq_Headers = [], wq_Query = [],
     wq_Body = [], wq_ReceivedAt = 0\<rparr>"

definition hook_mapping :: row where
  "hook_mapping = row_of
    [(''id'', Text ''m1''), (''resource_key'', Text ''w1:inbox''), (''object_key'', Text ''w1''),
     (''payload_json'', Doc (marshal (mapping_json demo_mapping)))]"

definition hook_db :: database where
  "hook_db = (\<lambda>t. if t = connections_table then [crm_connection] else if t = mappings_table then [hook_mapping] else [])"

definition hook_event :: Event where
  "hook_event = zero_event\<lparr>evt_ID := ''event:1'', evt_WorkspaceID := ''w1'', evt_Provider := ''echo'', evt_EventType := ''message'',
     evt_Payload := marshal (JObj [(''text'', JStr ''hello'')]), evt_AttemptCount := 1\<rparr>"

lemma hook_delivers: "delivers (webhook_event_id hook_env ''w1'' ''echo'' ''x1'') hook_env hook_request"
  by (auto simp: delivers_def verify_webhook_def op_Inr case_Inr find_provider_def hook_env_def hook_provider_def hook_verified_def
      hook_request_def split: if_splits)

theorem webhook_triggers_at_most_once_witness:
  "\<exists>cs. w_calls (fold (\<lambda>(E, request) w. snd (AcceptWebhook E request w))
     [(hook_env, hook_request), (hook_env, hook_request)] (world_of hook_db)) = cs \<and> length cs \<le> 1"
proof -
  let ?runs = "[(hook_env, hook_request), (hook_env, hook_request)]"
  have "stable (has_id events_table (webhook_event_id hook_env ''w1'' ''echo'' ''x1'')) hook_env"
    using hook_env_simps(2) unfolding alone_def stable_def by simp
  with hook_delivers have "list_all (\<lambda>(E, request). delivers (webhook_event_id hook_env ''w1'' ''echo'' ''x1'') E request \<and>
      stable (has_id events_table (webhook_event_id hook_env ''w1'' ''echo'' ''x1'')) E) ?runs" by simp
  from webhook_triggers_at_most_once [OF this, of "world_of hook_db"] show ?thesis by (simp add: world_of_def)
qed

lemma hook_keeps_rows: "keeps_event_rows hook_env"
  using hook_env_simps(2) unfolding alone_def keeps_event_rows_def by simp

theorem event_rows_wellformed_witness:
  "all_rows events_table event_row_ok (w_db (fold (\<lambda>(E, step). run_inbound E step)
     [(hook_env, Webhook hook_request), (hook_env, WorkerPass ''worker'' 10)] (world_of hook_db)))"
  by (rule event_rows_wellformed) (simp_all add: hook_keeps_rows all_rows_def world_of_def hook_db_def events_table_def
      connections_table_def mappings_table_def)

definition event_fence :: row where
  "event_fence = row_of
    [(''id'', Text ''f1''), (''workspace_id'', Text ''w1''), (''kind'', Text ''row''), (''object_key'', Text events_table),
     (''resource_id'', Text ''event:1''), (''request_id'', Text ''r1'')]"

theorem fenced_event_triggers_nobody_witness:
  "w_calls (snd (processEvent hook_env hook_event None (world_of (hook_db(fences := [event_fence]))))) = []"
proof -
  let ?w = "world_of (hook_db(fences := [event_fence]))"
  have "w_calls (snd (processEvent hook_env hook_event None ?w)) = w_calls ?w"
    by (rule fenced_event_triggers_nobody)
      (use hook_env_simps(2) in \<open>simp_all add: alone_def world_of_def hook_event_def fenced_def is_fence_def event_fence_def\<close>)
  then show ?thesis by (simp add: world_of_def)
qed

definition processed_event :: row where
  "processed_event = row_of
    [(''id'', Text ''event:1''), (''workspace_id'', Text ''w1''), (''status'', Text ''processed''), (''attempt_count'', Num 1),
     (''fencing_token'', Num 2), (''lease_owner'', Text ''other'')]"

theorem stale_outcome_recorded_witness:
  "\<exists>q \<in> set (w_db (snd (updateEventStatus hook_env hook_event ''failed'' ''timeout''
     (world_of (\<lambda>t. if t = events_table then [processed_event] else [])))) events_table).
     q ''fencing_token'' = Num 2 \<and> q ''status'' = Text ''failed''"
proof -
  let ?w = "world_of (\<lambda>t. if t = events_table then [processed_event] else [])"
  have "trim_space ''w1'' = ''w1''" by code_simp
  then have "\<exists>q \<in> set (w_db (snd (updateEventStatus hook_env hook_event ''failed'' ''timeout'' ?w)) events_table).
    q ''id'' = processed_event ''id'' \<and> q ''fencing_token'' = processed_event ''fencing_token'' \<and>
    q ''status'' = Text (if evt_AttemptCount hook_event < 4 then ''failed'' else ''dead_letter'') \<and>
    q ''attempt_count'' = Num (int (evt_AttemptCount hook_event + 1))"
    by (intro stale_outcome_recorded)
      (simp_all add: world_of_def row_fenced_def, simp_all add: hook_event_def processed_event_def)
  then show ?thesis by (auto simp: processed_event_def hook_event_def)
qed

theorem null_payload_panics_witness:
  "prepare_inbound hook_env hook_request ''echo'' (hook_verified JNull) (world_of hook_db) = (Inl nil_map, world_of hook_db)"
proof -
  have "trim_space ''message'' = ''message''" "trim_space ''x1'' = ''x1''" by code_simp+
  then show ?thesis by (intro null_payload_panics) (simp_all add: hook_verified_def blank_def)
qed

lemma hook_pass: "\<exists>n e w'. ProcessDueEvents hook_env ''worker'' 10 (world_of hook_db) = (Inr (n, e), w')"
proof -
  have "trim_space ''worker'' = ''worker''" by code_simp
  then show ?thesis
    by (simp add: ProcessDueEvents_def blank_def run_steps Let_def select_rows_def world_of_def hook_db_def events_table_def
        connections_table_def mappings_table_def ascending_def)
qed

theorem worker_pass_bounded_witness:
  "\<exists>n e w'. ProcessDueEvents hook_env ''worker'' 10 (world_of hook_db) = (Inr (n, e), w') \<and> int n \<le> 10"
  using hook_pass worker_pass_bounded [of hook_env "''worker''" 10 "world_of hook_db"] by fastforce

definition due_candidate :: event_candidate where
  "due_candidate = \<lparr>ec_id = ''event:1'', ec_workspaceID = ''w1'', ec_status = ''processed'', ec_fencingToken = 2\<rparr>"

theorem event_claim_exclusive_witness:
  "\<exists>w'. claim_event hook_env ''a'' 0 due_candidate (world_of (\<lambda>t. if t = events_table then [processed_event] else [])) = (Inr 1, w') \<and>
     fst (claim_event hook_env ''b'' 1 due_candidate w') \<in> {Inr 0, Inl StorageErr}"
proof -
  let ?w = "world_of (\<lambda>t. if t = events_table then [processed_event] else [])"
  obtain w' where c: "claim_event hook_env ''a'' 0 due_candidate ?w = (Inr 1, w')"
    by (simp add: claim_event_def run_steps update_rows_def where_simps row_fenced_def world_of_def due_candidate_def processed_event_def)
  have "keyed (w_db ?w) events_table" by (simp add: keyed_def world_of_def)
  from event_claim_exclusive [OF hook_env_simps(2) this c] c show ?thesis by auto
qed

section \<open>Retries come to an end\<close>

lemma recorded_failure:
  assumes "alone E" and "ev_scope E = None" and "trim_space (evt_WorkspaceID event) = evt_WorkspaceID event"
    and "trim_space (evt_ID event) = evt_ID event"
    and "\<not> fenced (w_db w) (evt_WorkspaceID event) ''row'' events_table (evt_ID event)"
    and "updateEventStatus E event ''failed'' msg w = (Inr (event', None), w')"
  shows "evt_WorkspaceID event' = evt_WorkspaceID event \<and> evt_ID event' = evt_ID event \<and>
    evt_AttemptCount event' = evt_AttemptCount event + 1 \<and>
    evt_Status event' = (if evt_AttemptCount event + 1 \<ge> 5 then ''dead_letter'' else ''failed'') \<and>
    (evt_AttemptCount event + 1 \<ge> 5 \<longrightarrow> evt_NextRetryAt event' = [])"
proof -
  let ?cs = "outcome_columns (ev_clock E (w_step w)) (evt_AttemptCount event) ''failed'' msg"
  let ?p = "And [Equal ''workspace_id'' (Text (evt_WorkspaceID event)), Equal ''id'' (Text (evt_ID event))]"
  have p: "event_where E (evt_WorkspaceID event) (evt_ID event) = Inr ?p"
    using assms(2,3) by (simp add: event_where_def scopedWhere_def Let_def)
  from assms(6) obtain n u where upd: "guarded_update E events_table ?cs ?p w = (Inr n, u)"
    and get: "GetEvent E (evt_WorkspaceID event) (evt_ID event) u = (Inr event', w')"
    by (auto simp: updateEventStatus_def p seq_Inr now_Inr ret_Inr case_Inr)
  from guarded_update_Inr [OF assms(1) upd]
  have d: "w_db u events_table = map (\<lambda>r. if holds (w_db w) r (And [subjectRowWriteAllowed events_table, ?p]) then set_columns ?cs r else r)
      (w_db w events_table)"
    by (auto dest: update_rows_result)
  from get obtain r x where sel: "select_row E events_table ?p u = (Inr (Some r), x)"
    and scan: "seq (scanEvent r) (with_execution E) x = (Inr event', w')"
    by (auto simp: GetEvent_def assms(3,4) p seq_Inr of_result_apply throw_Inr split: option.splits)
  from select_row_Inr [OF assms(1) sel] have r: "r \<in> set (w_db u events_table)" "holds (w_db u) r ?p"
    by (auto simp: select_rows_def split: list.splits dest!: arg_cong [of "filter _ _" _ set])
  from r(1) have "\<exists>q. r = (if holds (w_db w) q (And [subjectRowWriteAllowed events_table, ?p]) then set_columns ?cs q else q)"
    unfolding d by (simp only: set_map image_iff) blast
  then obtain q where q: "r = (if holds (w_db w) q (And [subjectRowWriteAllowed events_table, ?p]) then set_columns ?cs q else q)"
    by blast
  with r(2) have keys: "q ''workspace_id'' = Text (evt_WorkspaceID event)" "q ''id'' = Text (evt_ID event)"
    by (auto simp: where_simps outcome_columns_def Let_def split: if_splits)
  then have "holds (w_db w) q (And [subjectRowWriteAllowed events_table, ?p])"
    using assms(5) by (simp add: where_simps row_fenced_iff_fenced)
  with q have rr: "r = set_columns ?cs q" by (simp only: if_True)
  from scan obtain x where "event' = (zero_event
      \<lparr>evt_ID := text_of (r ''id''), evt_WorkspaceID := text_of (r ''workspace_id''),
       evt_Provider := text_of (r ''provider''), evt_EventType := text_of (r ''event_type''),
       evt_ExternalID := text_of (r ''external_id''), evt_Status := text_of (r ''status''),
       evt_Payload := doc_of (r ''payload_json''), evt_Error := text_of (r ''error''),
       evt_AttemptCount := nat (int_of_sql (r ''attempt_count'')), evt_NextRetryAt := text_of (r ''next_retry_at''),
       evt_LastAttemptAt := text_of (r ''last_attempt_at''), evt_ReceivedAt := text_of (r ''received_at''),
       evt_UpdatedAt := text_of (r ''updated_at'')\<rparr>)\<lparr>evt_Execution := x\<rparr>"
    by (auto simp: scanEvent_def with_execution_def op_Inr)
  then show ?thesis by (simp add: rr keys outcome_columns_def Let_def)
qed

text \<open>An event whose attempts fail one after the other, each failure recorded: how often, and what it becomes.\<close>

inductive retries :: "nat \<Rightarrow> Event \<Rightarrow> Event \<Rightarrow> bool" where
  retries_none: "retries 0 event event"
| retries_more: "retries n event event' \<Longrightarrow> evt_Status event' \<noteq> ''dead_letter'' \<Longrightarrow> alone E \<Longrightarrow> ev_scope E = None \<Longrightarrow>
    \<not> fenced (w_db w) (evt_WorkspaceID event') ''row'' events_table (evt_ID event') \<Longrightarrow>
    updateEventStatus E event' ''failed'' msg w = (Inr (event'', None), w') \<Longrightarrow> retries (Suc n) event event''"

lemma retries_count:
  "retries n event event' \<Longrightarrow> trim_space (evt_WorkspaceID event) = evt_WorkspaceID event \<Longrightarrow>
    trim_space (evt_ID event) = evt_ID event \<Longrightarrow>
    evt_WorkspaceID event' = evt_WorkspaceID event \<and> evt_ID event' = evt_ID event \<and>
    evt_AttemptCount event' = evt_AttemptCount event + n \<and>
    (0 < n \<longrightarrow> evt_Status event' = (if evt_AttemptCount event' \<ge> 5 then ''dead_letter'' else ''failed'') \<and>
      (evt_AttemptCount event' \<ge> 5 \<longrightarrow> evt_NextRetryAt event' = []))"
proof (induction rule: retries.induct)
  case (retries_more n event event' E w msg event'' w')
  then show ?case using recorded_failure [of E event' w msg event'' w'] by simp
qed simp

lemma dead_letter_not_due: "r ''status'' = Text ''dead_letter'' \<Longrightarrow> \<not> holds d r (due_events t)"
  by (simp add: due_events_def where_simps)

text \<open>
  C33. An event that keeps failing is not retried for ever: from the first attempt on, at most five failures are
  recorded, whatever the clocks and the faults of the passes that record them (as long as nobody else writes in
  between and no erasure has fenced the row); the fifth gives the event up (dead-lettered, without a next
  attempt), and an earlier one does not. A dead-lettered row is not due.
\<close>

theorem retries_terminate:
  assumes "retries n event event'" and "evt_AttemptCount event = 0" and "evt_Status event \<noteq> ''dead_letter''"
    and "trim_space (evt_WorkspaceID event) = evt_WorkspaceID event" and "trim_space (evt_ID event) = evt_ID event"
  shows "n \<le> 5 \<and> evt_AttemptCount event' = n \<and> (evt_Status event' = ''dead_letter'' \<longleftrightarrow> n = 5) \<and>
    (n = 5 \<longrightarrow> evt_NextRetryAt event' = []) \<and>
    (\<forall>d r t. r ''status'' = Text ''dead_letter'' \<longrightarrow> \<not> holds d r (due_events t))"
proof -
  note count = retries_count [OF assms(1,4,5)]
  have "n \<le> 5"
    using assms(1)
  proof cases
    case (retries_more m e E w msg w')
    then have "0 < m \<Longrightarrow> m < 5" using retries_count [OF retries_more(2) assms(4,5)] assms(2) by (auto split: if_splits)
    with retries_more(1) show ?thesis by (cases m) auto
  qed simp
  moreover have "n = 0 \<Longrightarrow> event' = event" using assms(1) by (auto elim: retries.cases)
  ultimately show ?thesis using count assms(2,3) dead_letter_not_due by (cases "n = 0") auto
qed

definition fresh_event :: Event where
  "fresh_event = zero_event\<lparr>evt_ID := ''event:1'', evt_WorkspaceID := ''w1'', evt_Status := ''received''\<rparr>"

definition failing_row :: row where
  "failing_row = row_of
    [(''id'', Text ''event:1''), (''workspace_id'', Text ''w1''), (''provider'', Text ''echo''),
     (''event_type'', Text ''message''), (''external_id'', Text ''x1''), (''status'', Text ''received''),
     (''payload_json'', Text []), (''error'', Text []), (''attempt_count'', Num 0), (''next_retry_at'', Text []),
     (''last_attempt_at'', Text []), (''received_at'', Text []), (''updated_at'', Text [])]"

definition failing_db :: database where
  "failing_db = (\<lambda>t. if t = events_table then [failing_row] else [])"

lemma failing_row_scanned:
  "\<exists>event. scanEvent (set_columns (outcome_columns t n ''failed'' msg) failing_row) w = (Inr event, w)"
proof -
  have "\<not> has_null (set_columns (outcome_columns t n ''failed'' msg) failing_row)
      [''id'', ''workspace_id'', ''provider'', ''event_type'', ''external_id'', ''status'', ''payload_json'',
       ''attempt_count'', ''next_retry_at'', ''last_attempt_at'', ''received_at'', ''updated_at'']"
    by (simp add: outcome_columns_def Let_def timestamp_def failing_row_def)
  then show ?thesis by (simp add: scanEvent_def scan_texts_def seq_apply check_apply)
qed

lemma executed: "\<exists>x w'. with_execution hook_env event w = (Inr x, w')"
  by (auto simp: with_execution_def eventExecution_def seq_apply try_op_apply calm_select_row split: option.splits)

lemma fails_again:
  assumes "evt_WorkspaceID event = ''w1''" and "evt_ID event = ''event:1''"
  shows "\<exists>event' w'. updateEventStatus hook_env event ''failed'' [] (world_of failing_db) = (Inr (event', None), w')"
proof -
  have trim: "trim_space ''w1'' = ''w1''" "trim_space ''event:1'' = ''event:1''" by code_simp+
  let ?p = "And [Equal ''workspace_id'' (Text ''w1''), Equal ''id'' (Text ''event:1'')]"
  let ?cs = "outcome_columns (ev_clock calm_env 0) (evt_AttemptCount event) ''failed'' []"
  let ?r = "set_columns ?cs failing_row"
  have p: "event_where hook_env ''w1'' ''event:1'' = Inr ?p" by (simp add: event_where_def scopedWhere_def Let_def trim)
  have r: "holds d failing_row ?p" "holds d ?r ?p" for d
    by (simp_all add: where_simps failing_row_def outcome_columns_def Let_def)
  have old: "holds failing_db failing_row (And [subjectRowWriteAllowed events_table, ?p])"
    using r(1) by (simp add: holds_And holds_row_write_allowed row_fenced_def failing_db_def events_table_def fences_def)
  have upd: "guarded_update hook_env events_table ?cs ?p (world_of failing_db) =
      (Inr 1, (world_of failing_db)\<lparr>w_db := failing_db(events_table := [?r]), w_step := 1\<rparr>)" (is "_ = (_, ?u)")
    using old by (simp add: calm_guarded_update update_rows_def world_of_def failing_db_def)
  have "select_row hook_env events_table ?p ?u = (Inr (Some ?r), ?u\<lparr>w_step := 2\<rparr>)"
    using r(2) by (simp add: calm_select_row select_rows_def)
  moreover obtain event' where "scanEvent ?r (?u\<lparr>w_step := 2\<rparr>) = (Inr event', ?u\<lparr>w_step := 2\<rparr>)" using failing_row_scanned by blast
  ultimately have "\<exists>x w'. GetEvent hook_env ''w1'' ''event:1'' ?u = (Inr x, w')"
    using executed by (simp add: GetEvent_def trim p seq_apply of_result_apply)
  with upd p assms show ?thesis
    by (auto simp: updateEventStatus_def seq_apply calm_now try_op_apply world_of_def)
qed

lemma fresh_retries: "n \<le> 5 \<Longrightarrow> \<exists>event. retries n fresh_event event"
proof (induction n)
  case 0
  show ?case by (rule exI) (rule retries_none)
next
  case (Suc n)
  then obtain event where e: "retries n fresh_event event" by auto
  have trim: "trim_space (evt_WorkspaceID fresh_event) = evt_WorkspaceID fresh_event" "trim_space (evt_ID fresh_event) = evt_ID fresh_event"
    by code_simp+
  have keys: "evt_WorkspaceID event = ''w1''" "evt_ID event = ''event:1''"
    using retries_count [OF e trim] by (simp_all add: fresh_event_def)
  have "n = 0 \<Longrightarrow> event = fresh_event" using e by (auto elim: retries.cases)
  then have "evt_Status event \<noteq> ''dead_letter''"
    using retries_count [OF e trim] Suc.prems by (cases "n = 0") (simp_all add: fresh_event_def zero_event_def)
  moreover obtain event' w' where "updateEventStatus hook_env event ''failed'' [] (world_of failing_db) = (Inr (event', None), w')"
    using fails_again [OF keys] by blast
  moreover have "\<not> fenced (w_db (world_of failing_db)) (evt_WorkspaceID event) ''row'' events_table (evt_ID event)"
    by (simp add: fenced_def world_of_def failing_db_def)
  ultimately show ?case using retries_more [OF e _ hook_env_simps(2,3)] by blast
qed

theorem retries_terminate_witness: "\<exists>event. retries 5 fresh_event event \<and> evt_Status event = ''dead_letter''"
proof -
  from fresh_retries [of 5] obtain event where e: "retries 5 fresh_event event" by auto
  have "trim_space (evt_WorkspaceID fresh_event) = evt_WorkspaceID fresh_event" "trim_space (evt_ID fresh_event) = evt_ID fresh_event"
    by code_simp+
  with retries_terminate [OF e] e show ?thesis by (auto simp: fresh_event_def zero_event_def)
qed

end
