(* ===== verification/ProviderWorker.thy ===== *)
theory ProviderWorker
  imports Inbound ConnectionAccounts
begin

text \<open>
  \<open>provider_worker_store.go\<close>: the background tasks of providers (one row per connection and task,
  claimed with a lease and a fencing token, its result committed in one transaction), the commits
  such results ask for (delivered through the delivery store), the reconciliation of failed
  invocations, and the expiry of credentials. The lemmas say that a result is written only by the
  holder of the claim, and what the loops leave alone.
\<close>

definition states_table :: string where "states_table = ''_integration_connector_provider_states''"
definition commits_table :: string where "commits_table = ''_integration_connector_provider_commits''"

text \<open>The identity of a worker, and the bound of a pass.\<close>

definition worker_identity :: "string \<Rightarrow> string" where
  "worker_identity workerID = trim_space workerID @ '':integration''"

definition pass_limit :: "int \<Rightarrow> nat" where
  "pass_limit limit = (if limit \<le> 0 \<or> limit > 500 then 25 else nat limit)"

text \<open>A pass that fails before it handles anything reports zero beside its error.\<close>

definition counted :: "(nat \<times> err option) dbop \<Rightarrow> (nat \<times> err option) dbop" where
  "counted m = seq (rescue m) (\<lambda>r. case r of Inl e \<Rightarrow> ret (0, Some e) | Inr x \<Rightarrow> ret x)"

definition Worker_ProcessDueEvents :: "env \<Rightarrow> string \<Rightarrow> int \<Rightarrow> (nat \<times> err option) dbop" where
  "Worker_ProcessDueEvents E workerID limit = counted (ProcessDueEvents E (worker_identity workerID) limit)"

section \<open>The tasks of the connections\<close>

definition managed_connection :: "ManagedConnection \<Rightarrow> Connection" where
  "managed_connection c =
    \<lparr>cn_Key = mc_Key c, cn_WorkspaceID = mc_WorkspaceID c, cn_ConnectorKey = mc_ConnectorKey c,
     cn_ProviderKey = mc_ProviderKey c, cn_Name = mc_Name c, cn_Status = mc_Status c, cn_Config = mc_Config c,
     cn_SecretRefs = mc_SecretRefs c\<rparr>"

definition new_task_columns :: "env \<Rightarrow> Connection \<Rightarrow> BackgroundTaskDescriptor \<Rightarrow> time \<Rightarrow> (string \<times> sql) list" where
  "new_task_columns E c task t =
    [(''id'', Text (ownerID E ''provider_task_'' (cn_WorkspaceID c) (cn_Key c @ [CHR 0x00] @ bt_Key task))),
     (''workspace_id'', Text (cn_WorkspaceID c)), (''connector_key'', Text (cn_ConnectorKey c)),
     (''provider_key'', Text (cn_ProviderKey c)), (''connection_key'', Text (cn_Key c)), (''task_key'', Text (bt_Key task)),
     (''state_version'', Num (bt_StateVersion task)), (''payload_json'', Doc (marshal (JObj []))), (''status'', Text ''ready''),
     (''due_at'', timestamp t), (''last_error_code'', Text []), (''attempt_count'', Num 0), (''lease_owner'', Text []),
     (''lease_expires_at'', Text []), (''fencing_token'', Num 0), (''updated_at'', timestamp t)]"

definition task_reset_columns :: "BackgroundTaskDescriptor \<Rightarrow> time \<Rightarrow> (string \<times> sql) list" where
  "task_reset_columns task t =
    [(''state_version'', Num (bt_StateVersion task)), (''payload_json'', Doc (marshal (JObj []))), (''status'', Text ''ready''),
     (''due_at'', timestamp t), (''last_error_code'', Text []), (''attempt_count'', Num 0), (''lease_owner'', Text []),
     (''lease_expires_at'', Text []), (''updated_at'', timestamp t)]"

definition task_where :: "string \<Rightarrow> string \<Rightarrow> string \<Rightarrow> predicate" where
  "task_where workspaceID connectionKey taskKey =
    And [Equal ''workspace_id'' (Text workspaceID), Equal ''connection_key'' (Text connectionKey), Equal ''task_key'' (Text taskKey)]"

definition upsertProviderTask :: "env \<Rightarrow> Connection \<Rightarrow> BackgroundTaskDescriptor \<Rightarrow> unit dbop" where
  "upsertProviderTask E c task =
    seq (select_row E states_table (task_where (cn_WorkspaceID c) (cn_Key c) (bt_Key task))) (\<lambda>found.
    seq (now E) (\<lambda>t.
    case found of
      None \<Rightarrow> seq (insert_into E states_table (new_task_columns E c task t)) (\<lambda>_. ret ())
    | Some r \<Rightarrow>
        seq (scan_texts r [''id'', ''state_version'']) (\<lambda>_.
        if int_of_sql (r ''state_version'') = bt_StateVersion task then ret ()
        else seq (guarded_update E states_table (task_reset_columns task t) (Equal ''id'' (r ''id''))) (\<lambda>_. ret ()))))"

definition synchronize_connection_tasks :: "env \<Rightarrow> row \<Rightarrow> unit dbop" where
  "synchronize_connection_tasks E r =
    seq (scanConnection r) (\<lambda>c.
    case ev_Provider E (mc_ConnectorKey c) (mc_ProviderKey c) of
      None \<Rightarrow> throw (provider_unavailable (mc_ConnectorKey c) (mc_ProviderKey c))
    | Some p \<Rightarrow>
        (case pv_Background p of
           None \<Rightarrow> ret ()
         | Some processor \<Rightarrow>
             seq (each (\<lambda>task.
               case bp_ValidateTask processor task of
                 Some e \<Rightarrow> throw (Errorf ''validate Integration Provider background task: %w'' [err_text e])
               | None \<Rightarrow> upsertProviderTask E (managed_connection c) task)
               (bp_BackgroundTasks processor (managed_connection c))) (\<lambda>_. ret ())))"

definition synchronizeProviderTasks :: "env \<Rightarrow> unit dbop" where
  "synchronizeProviderTasks E =
    seq (select E connections_table (Equal ''status'' (Text ''active''))) (\<lambda>rs.
    seq (each (synchronize_connection_tasks E) rs) (\<lambda>_. ret ()))"

section \<open>Claiming and executing a task\<close>

record providerTaskCandidate =
  tc_id :: string
  tc_workspaceID :: string
  tc_connectorKey :: string
  tc_providerKey :: string
  tc_connectionKey :: string
  tc_taskKey :: string
  tc_dueAt :: string
  tc_leaseExpiresAt :: string
  tc_stateVersion :: int
  tc_attemptCount :: nat
  tc_payload :: raw_message
  tc_status :: string
  tc_fencingToken :: int

definition due_rows :: "string list \<Rightarrow> string \<Rightarrow> predicate" where
  "due_rows statuses scanEnd =
    And [In ''status'' (map Text statuses), LessThan ''due_at'' (Text scanEnd),
         Or [Equal ''lease_expires_at'' (Text []), LessThan ''lease_expires_at'' (Text scanEnd)]]"

definition scan_task :: "row \<Rightarrow> providerTaskCandidate dbop" where
  "scan_task r =
    seq (scan_texts r [''id'', ''workspace_id'', ''connector_key'', ''provider_key'', ''connection_key'', ''task_key'',
                       ''state_version'', ''payload_json'', ''status'', ''attempt_count'', ''fencing_token'', ''due_at'',
                       ''lease_expires_at'']) (\<lambda>_.
    ret \<lparr>tc_id = text_of (r ''id''), tc_workspaceID = text_of (r ''workspace_id''),
         tc_connectorKey = text_of (r ''connector_key''), tc_providerKey = text_of (r ''provider_key''),
         tc_connectionKey = text_of (r ''connection_key''), tc_taskKey = text_of (r ''task_key''),
         tc_dueAt = text_of (r ''due_at''), tc_leaseExpiresAt = text_of (r ''lease_expires_at''),
         tc_stateVersion = int_of_sql (r ''state_version''), tc_attemptCount = nat (int_of_sql (r ''attempt_count'')),
         tc_payload = doc_of (r ''payload_json''), tc_status = text_of (r ''status''),
         tc_fencingToken = int_of_sql (r ''fencing_token'')\<rparr>)"

text \<open>Rows are scanned in order; each candidate is then checked as an instant.\<close>

definition ready_candidate :: "time \<Rightarrow> ('a \<Rightarrow> string) \<Rightarrow> ('a \<Rightarrow> string) \<Rightarrow> 'a dbop \<Rightarrow> 'a list dbop" where
  "ready_candidate t due lease scan =
    seq scan (\<lambda>c.
    seq (of_result (providerDeadlineReady (due c) (lease c) t)) (\<lambda>ready. ret (if ready then [c] else [])))"

definition claim_task_columns :: "string \<Rightarrow> time \<Rightarrow> int \<Rightarrow> (string \<times> sql) list" where
  "claim_task_columns worker t token =
    [(''status'', Text ''processing''), (''lease_owner'', Text worker), (''lease_expires_at'', timestamp (t + minute)),
     (''fencing_token'', Num (token + 1)), (''updated_at'', timestamp t)]"

definition claim_where :: "string \<Rightarrow> string \<Rightarrow> int \<Rightarrow> string \<Rightarrow> string \<Rightarrow> predicate" where
  "claim_where ident status token due lease =
    And [Equal ''id'' (Text ident), Equal ''status'' (Text status), Equal ''fencing_token'' (Num token),
         Equal ''due_at'' (Text due), Equal ''lease_expires_at'' (Text lease)]"

definition claimProviderTask :: "env \<Rightarrow> string \<Rightarrow> providerTaskCandidate \<Rightarrow> time \<Rightarrow> bool dbop" where
  "claimProviderTask E worker c t =
    seq (guarded_update E states_table (claim_task_columns worker t (tc_fencingToken c))
           (claim_where (tc_id c) (tc_status c) (tc_fencingToken c) (tc_dueAt c) (tc_leaseExpiresAt c))) (\<lambda>n.
    ret (n = 1))"

text \<open>The claim as its holder names it: the worker and the token it was given.\<close>

definition holder_where :: "string \<Rightarrow> string \<Rightarrow> int \<Rightarrow> predicate" where
  "holder_where ident worker token =
    And [Equal ''id'' (Text ident), Equal ''lease_owner'' (Text worker), Equal ''fencing_token'' (Num token)]"

definition task_failure_columns :: "nat \<Rightarrow> time \<Rightarrow> (string \<times> sql) list" where
  "task_failure_columns attempts t =
    (let attempt = attempts + 1 in
     [(''status'', Text (if attempt \<ge> 5 then ''dead_letter'' else ''failed'')),
      (''due_at'', if attempt \<ge> 5 then Text [] else timestamp (t + integrationEventRetryDelay attempt)),
      (''last_error_code'', Text ''integration.provider_task_failed''), (''attempt_count'', Num (int attempt)),
      (''lease_owner'', Text []), (''lease_expires_at'', Text []), (''updated_at'', timestamp t)])"

definition failProviderTask :: "env \<Rightarrow> string \<Rightarrow> providerTaskCandidate \<Rightarrow> err \<Rightarrow> time \<Rightarrow> err dbop" where
  "failProviderTask E worker c processErr t =
    seq (try_op (guarded_update E states_table (task_failure_columns (tc_attemptCount c) t)
           (holder_where (tc_id c) worker (tc_fencingToken c + 1)))) (\<lambda>r. case r of
      Inl e \<Rightarrow> ret (Errorf ''persist Integration Provider task failure after %v: %w'' [err_text processErr, err_text e])
    | Inr n \<Rightarrow> ret processErr)"

definition task_result_columns :: "BackgroundResult \<Rightarrow> time \<Rightarrow> (string \<times> sql) list" where
  "task_result_columns result t =
    [(''payload_json'', Doc (bg_State result)), (''status'', Text ''ready''),
     (''due_at'', timestamp (if bg_NextDueAt result = zero_time then t + 5 * minute else bg_NextDueAt result)),
     (''last_error_code'', Text []), (''attempt_count'', Num 0), (''lease_owner'', Text []), (''lease_expires_at'', Text []),
     (''updated_at'', timestamp t)]"

definition store_task_event :: "env \<Rightarrow> providerTaskCandidate \<Rightarrow> time \<Rightarrow> BackgroundEvent \<Rightarrow> unit dbop" where
  "store_task_event E c t event =
    seq (of_result (integrationWebhookEventPayload (be_Payload event) (tc_connectorKey c) (tc_connectionKey c))) (\<lambda>payload.
    seq (select_row E events_table
      (And [Equal ''workspace_id'' (Text (tc_workspaceID c)), Equal ''provider'' (Text (tc_providerKey c)),
            Equal ''external_id'' (Text (be_ExternalID event))])) (\<lambda>found. case found of
      Some r \<Rightarrow> scan_texts r [''id'']
    | None \<Rightarrow>
        seq (insert_into E events_table
          (event_columns (webhook_event_id E (tc_workspaceID c) (tc_providerKey c) (be_ExternalID event)) (tc_workspaceID c)
            (tc_providerKey c) (be_EventType event) (be_ExternalID event) payload t)) (\<lambda>_. ret ())))"

definition providerOperationForWorker :: "env \<Rightarrow> string \<Rightarrow> string \<Rightarrow> string \<Rightarrow> OperationDescriptor option" where
  "providerOperationForWorker E connectorKey providerKey operationKey =
    (case ev_Provider E connectorKey providerKey of None \<Rightarrow> None | Some p \<Rightarrow> providerOperation p operationKey)"

definition commit_id :: "env \<Rightarrow> providerTaskCandidate \<Rightarrow> nat \<Rightarrow> string" where
  "commit_id E c index =
    ''provider_commit:'' @
    ev_sha256 E (tc_id c @ [CHR 0x00] @ int_text (tc_fencingToken c + 1) @ [CHR 0x00] @ nat_text index)"

definition new_commit_columns :: "env \<Rightarrow> providerTaskCandidate \<Rightarrow> time \<Rightarrow> nat \<Rightarrow> BackgroundCommit \<Rightarrow> (string \<times> sql) list" where
  "new_commit_columns E c t index commit =
    [(''id'', Text (commit_id E c index)), (''workspace_id'', Text (tc_workspaceID c)),
     (''connector_key'', Text (tc_connectorKey c)), (''provider_key'', Text (tc_providerKey c)),
     (''connection_key'', Text (tc_connectionKey c)), (''task_key'', Text (tc_taskKey c)),
     (''operation_key'', Text (bc_OperationKey commit)), (''contract_sha256'', Text (bc_ContractSHA256 commit)),
     (''payload_json'', Doc (bc_Payload commit)), (''status'', Text ''pending''), (''attempt_count'', Num 0),
     (''due_at'', timestamp t), (''lease_owner'', Text []), (''lease_expires_at'', Text []), (''fencing_token'', Num 0),
     (''created_at'', timestamp t), (''updated_at'', timestamp t)]"

definition store_task_commit :: "env \<Rightarrow> providerTaskCandidate \<Rightarrow> time \<Rightarrow> nat \<times> BackgroundCommit \<Rightarrow> unit dbop" where
  "store_task_commit E c t indexed =
    (case indexed of (index, commit) \<Rightarrow>
      seq (check (case providerOperationForWorker E (tc_connectorKey c) (tc_providerKey c) (bc_OperationKey commit) of
                    None \<Rightarrow> False
                  | Some operation \<Rightarrow> od_ContractSHA256 operation = bc_ContractSHA256 commit)
             (Errorf ''Integration Provider background commit %q does not match its operation contract'' [bc_OperationKey commit])) (\<lambda>_.
      seq (insert_into E commits_table (new_commit_columns E c t index commit)) (\<lambda>_. ret ())))"

definition wake_columns :: "time \<Rightarrow> (string \<times> sql) list" where
  "wake_columns t = [(''due_at'', timestamp t), (''updated_at'', timestamp t)]"

definition wake_task :: "env \<Rightarrow> providerTaskCandidate \<Rightarrow> time \<Rightarrow> string \<Rightarrow> unit dbop" where
  "wake_task E c t taskKey =
    seq (guarded_update E states_table (wake_columns t) (task_where (tc_workspaceID c) (tc_connectionKey c) taskKey)) (\<lambda>_.
    ret ())"

text \<open>The body of the transaction: the claim is still held, then events, commits and wake-ups.\<close>

definition task_result_body :: "env \<Rightarrow> string \<Rightarrow> providerTaskCandidate \<Rightarrow> BackgroundResult \<Rightarrow> time \<Rightarrow> unit dbop" where
  "task_result_body E worker c result t =
    seq (guarded_update E states_table (task_result_columns result t)
           (holder_where (tc_id c) worker (tc_fencingToken c + 1))) (\<lambda>n.
    seq (check (n = 1) (Errorf ''Integration Provider task %q lost its lease'' [tc_id c])) (\<lambda>_.
    seq (each (store_task_event E c t) (bg_Events result)) (\<lambda>_.
    seq (each (store_task_commit E c t) (enumerate 0 (bg_Commit result))) (\<lambda>_.
    seq (each (wake_task E c t) (bg_WakeTasks result)) (\<lambda>_. ret ())))))"

definition commitProviderTaskResult :: "env \<Rightarrow> string \<Rightarrow> providerTaskCandidate \<Rightarrow> BackgroundResult \<Rightarrow> time \<Rightarrow> unit dbop" where
  "commitProviderTaskResult E worker c result t = transaction E (task_result_body E worker c result t)"

definition background_request :: "providerTaskCandidate \<Rightarrow> deliveryConnection \<Rightarrow> (string \<times> string) list \<Rightarrow> time \<Rightarrow> BackgroundRequest" where
  "background_request c connection secrets t =
    \<lparr>br_TaskKey = tc_taskKey c, br_StateVersion = tc_stateVersion c, br_Connection = sdk_connection connection,
     br_State = tc_payload c, br_Secrets = secrets, br_Now = t,
     br_Principal = \<lparr>pr_UserID = [], pr_RoleKey = [], pr_WorkspaceID = tc_workspaceID c, pr_RequestID = tc_id c,
                     pr_IsAuthenticated = True\<rparr>\<rparr>"

text \<open>What the processor needs: its connection and its secrets.\<close>

definition task_processor :: "env \<Rightarrow> providerTaskCandidate \<Rightarrow> (deliveryConnection \<times> BackgroundProcessor \<times> resolvedProviderSecrets) dbop" where
  "task_processor E c =
    seq (delivery_connection E (tc_workspaceID c) (tc_connectorKey c) (tc_connectionKey c)) (\<lambda>connection.
    seq (find_provider E connection) (\<lambda>p.
    case pv_Background p of
      None \<Rightarrow>
        throw (Errorf ''Integration provider %s/%s has no background processor''
          [dc_ConnectorKey connection, dc_ProviderKey connection])
    | Some processor \<Rightarrow>
        seq (resolveProviderSecrets E (tc_workspaceID c) (dc_SecretRefs connection)) (\<lambda>resolved.
        ret (connection, processor, resolved))))"

definition call_background :: "BackgroundProcessor \<Rightarrow> BackgroundRequest \<Rightarrow> (BackgroundResult \<times> err option) dbop" where
  "call_background processor request = record_call (BackgroundCall request) (\<lambda>n. bp_ProcessBackground processor n request)"

definition executeProviderTask :: "env \<Rightarrow> string \<Rightarrow> providerTaskCandidate \<Rightarrow> time \<Rightarrow> err option dbop" where
  "executeProviderTask E worker c t =
    (let fail = (\<lambda>e. seq (failProviderTask E worker c e t) (\<lambda>e. ret (Some e))) in
     seq (try_op (task_processor E c)) (\<lambda>r. case r of
       Inl e \<Rightarrow> fail e
     | Inr (connection, processor, resolved) \<Rightarrow>
         seq (call_background processor (background_request c connection (rps_Values resolved) t)) (\<lambda>(result, e).
         let e = (if e = None then bp_ValidateResult processor result else e) in
         seq (persistProviderSecretUpdates E (tc_workspaceID c) (dc_SecretRefs connection) (rps_Versions resolved)
                (bg_SecretUpdates result) e) (\<lambda>e. case e of
           Some e \<Rightarrow> fail e
         | None \<Rightarrow>
             seq (rescue (commitProviderTaskResult E worker c result t)) (\<lambda>r. case r of
               Inl e \<Rightarrow> fail e
             | Inr _ \<Rightarrow> ret None)))))"

fun process_tasks ::
    "env \<Rightarrow> string \<Rightarrow> time \<Rightarrow> nat \<Rightarrow> err option \<Rightarrow> providerTaskCandidate list \<Rightarrow> (nat \<times> err option) dbop" where
  "process_tasks E worker t processed firstErr [] = ret (processed, firstErr)"
| "process_tasks E worker t processed firstErr (c # cs) =
    seq (try_op (claimProviderTask E worker c t)) (\<lambda>r. case r of
      Inl e \<Rightarrow> process_tasks E worker t processed (first_error firstErr (Some e)) cs
    | Inr claimed \<Rightarrow>
        if \<not> claimed then process_tasks E worker t processed firstErr cs
        else
          seq (executeProviderTask E worker c t) (\<lambda>e.
          process_tasks E worker t (processed + 1) (first_error firstErr e) cs))"

definition processProviderTasks :: "env \<Rightarrow> string \<Rightarrow> int \<Rightarrow> (nat \<times> err option) dbop" where
  "processProviderTasks E worker limit =
    seq (now E) (\<lambda>t.
    seq (select E states_table (due_rows [''ready'', ''failed''] (providerDeadlineScanEnd t))) (\<lambda>rs.
    seq (each (\<lambda>r. ready_candidate t tc_dueAt tc_leaseExpiresAt (scan_task r)) (take (pass_limit limit) (ascending ''due_at'' rs))) (\<lambda>cs.
    process_tasks E worker t 0 None (concat cs))))"

section \<open>Delivering the commits of tasks\<close>

record providerCommitCandidate =
  pcc_id :: string
  pcc_workspaceID :: string
  pcc_connectorKey :: string
  pcc_providerKey :: string
  pcc_connectionKey :: string
  pcc_operationKey :: string
  pcc_payload :: raw_message
  pcc_status :: string
  pcc_dueAt :: string
  pcc_leaseExpiresAt :: string
  pcc_attemptCount :: nat
  pcc_fencingToken :: int

definition scan_commit :: "row \<Rightarrow> providerCommitCandidate dbop" where
  "scan_commit r =
    seq (scan_texts r [''id'', ''workspace_id'', ''connector_key'', ''provider_key'', ''connection_key'', ''operation_key'',
                       ''payload_json'', ''status'', ''attempt_count'', ''fencing_token'', ''due_at'', ''lease_expires_at'']) (\<lambda>_.
    ret \<lparr>pcc_id = text_of (r ''id''), pcc_workspaceID = text_of (r ''workspace_id''),
         pcc_connectorKey = text_of (r ''connector_key''), pcc_providerKey = text_of (r ''provider_key''),
         pcc_connectionKey = text_of (r ''connection_key''), pcc_operationKey = text_of (r ''operation_key''),
         pcc_payload = doc_of (r ''payload_json''), pcc_status = text_of (r ''status''),
         pcc_dueAt = text_of (r ''due_at''), pcc_leaseExpiresAt = text_of (r ''lease_expires_at''),
         pcc_attemptCount = nat (int_of_sql (r ''attempt_count'')), pcc_fencingToken = int_of_sql (r ''fencing_token'')\<rparr>)"

definition commit_delivery :: "providerCommitCandidate \<Rightarrow> DeliveryRequest" where
  "commit_delivery c =
    \<lparr>dr_MessageID = pcc_id c, dr_DeduplicationKey = pcc_id c, dr_WorkspaceID = pcc_workspaceID c,
     dr_ConnectorKey = pcc_connectorKey c, dr_ConnectionKey = pcc_connectionKey c, dr_Operation = pcc_operationKey c,
     dr_Payload = pcc_payload c\<rparr>"

definition commit_outcome_columns :: "nat \<Rightarrow> bool \<Rightarrow> time \<Rightarrow> (string \<times> sql) list" where
  "commit_outcome_columns attempts delivered t =
    (let attempt = (if delivered then attempts else attempts + 1);
         dead = (\<not> delivered \<and> attempt \<ge> 5) in
     [(''status'', Text (if delivered then ''succeeded'' else if dead then ''dead_letter'' else ''failed'')),
      (''attempt_count'', Num (int attempt)),
      (''due_at'', if delivered \<or> dead then Text [] else timestamp (t + integrationEventRetryDelay attempt)),
      (''lease_owner'', Text []), (''lease_expires_at'', Text []), (''updated_at'', timestamp t)])"

text \<open>The delivery, with the error it ends in.\<close>

definition deliver_commit :: "env \<Rightarrow> providerCommitCandidate \<Rightarrow> err option dbop" where
  "deliver_commit E c =
    seq (try_op (Accept E (commit_delivery c))) (\<lambda>r. ret (case r of Inl e \<Rightarrow> Some e | Inr (receipt, e) \<Rightarrow> e))"

fun process_commits ::
    "env \<Rightarrow> string \<Rightarrow> time \<Rightarrow> nat \<Rightarrow> err option \<Rightarrow> providerCommitCandidate list \<Rightarrow> (nat \<times> err option) dbop" where
  "process_commits E worker t processed firstErr [] = ret (processed, firstErr)"
| "process_commits E worker t processed firstErr (c # cs) =
    seq (try_op (guarded_update E commits_table (claim_task_columns worker t (pcc_fencingToken c))
           (claim_where (pcc_id c) (pcc_status c) (pcc_fencingToken c) (pcc_dueAt c) (pcc_leaseExpiresAt c)))) (\<lambda>r. case r of
      Inl e \<Rightarrow> ret (processed, Some e)
    | Inr n \<Rightarrow>
        if n \<noteq> 1 then process_commits E worker t processed firstErr cs
        else
          seq (deliver_commit E c) (\<lambda>deliveryErr.
          seq (try_op (guarded_update E commits_table (commit_outcome_columns (pcc_attemptCount c) (deliveryErr = None) t)
                 (holder_where (pcc_id c) worker (pcc_fencingToken c + 1)))) (\<lambda>r. case r of
            Inl e \<Rightarrow> ret (processed + 1, Some e)
          | Inr _ \<Rightarrow> process_commits E worker t (processed + 1) (first_error firstErr deliveryErr) cs)))"

definition processProviderCommits :: "env \<Rightarrow> string \<Rightarrow> int \<Rightarrow> (nat \<times> err option) dbop" where
  "processProviderCommits E worker limit =
    seq (now E) (\<lambda>t.
    seq (select E commits_table (due_rows [''pending'', ''failed''] (providerDeadlineScanEnd t))) (\<lambda>rs.
    seq (each (\<lambda>r. ready_candidate t pcc_dueAt pcc_leaseExpiresAt (scan_commit r)) (take (pass_limit limit) (ascending ''due_at'' rs))) (\<lambda>cs.
    process_commits E worker t 0 None (concat cs))))"

definition ProcessDueProviderTasks :: "env \<Rightarrow> string \<Rightarrow> int \<Rightarrow> (nat \<times> err option) dbop" where
  "ProcessDueProviderTasks E workerID limit =
    (let worker = worker_identity workerID in
     seq (try_op (synchronizeProviderTasks E)) (\<lambda>r. case r of
       Inl e \<Rightarrow> ret (0, Some e)
     | Inr _ \<Rightarrow>
         seq (counted (processProviderTasks E worker limit)) (\<lambda>(processed, taskErr).
         seq (counted (processProviderCommits E worker limit)) (\<lambda>(committed, commitErr).
         ret (processed + committed, if taskErr \<noteq> None then taskErr else commitErr)))))"

section \<open>Reconciling failed invocations\<close>

definition reconcilable :: "time \<Rightarrow> predicate" where
  "reconcilable t =
    And [NotPrefix ''id'' ''account-write:'',
         Or [Equal ''status'' (Text ''failed''),
             And [Equal ''status'' (Text ''reconciling''), LessThanOrEqual ''updated_at'' (timestamp (t - minute))]]]"

text \<open>Whether an invocation is to be looked at now: it is not final and its next time has come.\<close>

definition reconciliation_open :: "time \<Rightarrow> Invocation \<Rightarrow> bool" where
  "reconciliation_open t invocation =
    (map_of (ivc_Metadata invocation) ''reconciliation_terminal'' \<noteq> Some (JBool True) \<and>
     (let next_at = str_member ''reconciliation_next_at'' (ivc_Metadata invocation) in
      blank next_at \<or> \<not> next_at > format_rfc3339nano t))"

fun open_invocations :: "time \<Rightarrow> nat \<Rightarrow> row list \<Rightarrow> Invocation list dbop" where
  "open_invocations t limit [] = ret []"
| "open_invocations t limit (r # rs) =
    seq (scan_invocation r) (\<lambda>invocation.
    if \<not> reconciliation_open t invocation then open_invocations t limit rs
    else if limit \<le> 1 then ret [invocation]
    else seq (open_invocations t (limit - 1) rs) (\<lambda>others. ret (invocation # others)))"

definition failedInvocationsAcrossWorkspaces :: "env \<Rightarrow> nat \<Rightarrow> time \<Rightarrow> Invocation list dbop" where
  "failedInvocationsAcrossWorkspaces E limit t =
    seq (select E invocations_table (reconcilable t)) (\<lambda>rs.
    open_invocations t limit (take (limit * 4) (ascending ''updated_at'' rs)))"

text \<open>\<open>int(attempt)\<close> of a JSON number: cut off at the point.\<close>

definition whole_number :: "json option \<Rightarrow> int" where
  "whole_number j =
    (case j of
       Some (JNum m s) \<Rightarrow> (if 0 \<le> m then m div 10 ^ s else - ((- m) div 10 ^ s))
     | _ \<Rightarrow> 0)"

text \<open>The status, response reference, error and metadata after a reconciliation.\<close>

definition reconciliation_result ::
    "env \<Rightarrow> Invocation \<Rightarrow> ReconcileResult \<Rightarrow> err option \<Rightarrow> time \<Rightarrow>
     string \<times> string \<times> string \<times> (string \<times> json option) list" where
  "reconciliation_result E invocation result reconcileErr t =
    (let m = ivc_Metadata invocation;
         m = obj_put ''reconciliation_attempt'' (JNum (whole_number (map_of m ''reconciliation_attempt'') + 1) 0) m;
         m = obj_put ''reconciliation_outcome'' (JStr (sdk_OutcomeText (ev_SDK E) (rc_Outcome result))) m;
         next_at = (\<lambda>d. obj_put ''reconciliation_next_at'' (JStr (format_rfc3339nano (t + d))) m);
         final = obj_delete ''reconciliation_next_at'' (obj_put ''reconciliation_terminal'' (JBool True) m);
         plain = map (\<lambda>(k, j). (k, Some j)) in
     case reconcileErr of
       Some e \<Rightarrow> (''failed'', ivc_ResponseRef invocation, err_text e, plain (next_at (5 * minute)))
     | None \<Rightarrow>
         (case rc_Outcome result of
            ReconciliationSucceeded \<Rightarrow>
              (case rc_Result result of
                 None \<Rightarrow> (''succeeded'', ivc_ResponseRef invocation, [], plain final)
               | Some call \<Rightarrow>
                   (''succeeded'', res_ResponseRef call, [],
                    plain (obj_delete ''response'' final) @ [(''response'', embed_raw (res_Payload call))]))
          | ReconciliationPending \<Rightarrow>
              (''failed'', ivc_ResponseRef invocation, ivc_Error invocation, plain (next_at (rc_RetryAfter result)))
          | ReconciliationFailed \<Rightarrow> (''failed'', ivc_ResponseRef invocation, rc_FailureCode result, plain final)
          | ReconciliationNotFound \<Rightarrow> (''failed'', ivc_ResponseRef invocation, rc_FailureCode result, plain final)
          | ReconciliationUnknown \<Rightarrow> (''failed'', ivc_ResponseRef invocation, rc_FailureCode result, plain final)
          | ReconciliationOutcomeOther other \<Rightarrow> (''failed'', ivc_ResponseRef invocation, ivc_Error invocation, plain m)))"

definition reconciliation_columns ::
    "string \<times> string \<times> string \<times> (string \<times> json option) list \<Rightarrow> (string \<times> json) list \<Rightarrow> time \<Rightarrow> (string \<times> sql) list" where
  "reconciliation_columns result metadata t =
    (case result of (status, responseRef, errorText, _) \<Rightarrow>
      [(''status'', Text status), (''response_ref'', Text responseRef), (''error'', Text errorText),
       (''metadata_json'', Doc (marshal (JObj (sort_key fst metadata)))), (''updated_at'', timestamp t)])"

definition persistReconciliation ::
    "env \<Rightarrow> Invocation \<Rightarrow> ReconcileResult \<Rightarrow> err option \<Rightarrow> time \<Rightarrow> unit dbop" where
  "persistReconciliation E invocation result reconcileErr t =
    (let r = reconciliation_result E invocation result reconcileErr t in
     case all_members (snd (snd (snd r))) of
       None \<Rightarrow> throw (Errorf ''json'' [])
     | Some metadata \<Rightarrow>
         seq (guarded_update E invocations_table (reconciliation_columns r metadata t)
                (And [Equal ''workspace_id'' (Text (ivc_WorkspaceID invocation)), Equal ''id'' (Text (ivc_ID invocation))])) (\<lambda>n.
         ret ()))"

definition reconcile_claim_columns :: "time \<Rightarrow> (string \<times> sql) list" where
  "reconcile_claim_columns t = [(''status'', Text ''reconciling''), (''updated_at'', timestamp t)]"

definition claim_invocation :: "env \<Rightarrow> Invocation \<Rightarrow> time \<Rightarrow> nat dbop" where
  "claim_invocation E invocation t =
    guarded_update E invocations_table (reconcile_claim_columns t)
      (And [Equal ''workspace_id'' (Text (ivc_WorkspaceID invocation)), Equal ''id'' (Text (ivc_ID invocation)),
            Equal ''status'' (Text (ivc_Status invocation)), Equal ''updated_at'' (Text (ivc_UpdatedAt invocation))])"

definition reconcile_request ::
    "Invocation \<Rightarrow> OperationDescriptor \<Rightarrow> deliveryConnection \<Rightarrow> (string \<times> string) list \<Rightarrow> ReconcileRequest" where
  "reconcile_request invocation operation connection secrets =
    \<lparr>rq_ConnectorKey = ivc_ConnectorKey invocation, rq_ProviderKey = ivc_ProviderKey invocation,
     rq_OperationKey = ivc_Operation invocation, rq_ContractSHA256 = od_ContractSHA256 operation,
     rq_Connection = sdk_connection connection, rq_RequestRef = ivc_RequestRef invocation,
     rq_ResponseRef = ivc_ResponseRef invocation,
     rq_Payload = marshal (case map_of (ivc_Metadata invocation) ''request'' of None \<Rightarrow> JNull | Some j \<Rightarrow> j),
     rq_Secrets = secrets,
     rq_Principal = \<lparr>pr_UserID = [], pr_RoleKey = [], pr_WorkspaceID = ivc_WorkspaceID invocation,
                     pr_RequestID = ivc_RequestRef invocation, pr_IsAuthenticated = True\<rparr>\<rparr>"

definition call_reconcile ::
    "(nat \<Rightarrow> ReconcileRequest \<Rightarrow> ReconcileResult \<times> err option) \<Rightarrow> ReconcileRequest \<Rightarrow> (ReconcileResult \<times> err option) dbop" where
  "call_reconcile reconcile request = record_call (ReconcileCall request) (\<lambda>n. reconcile n request)"

text \<open>The lookup at the provider and what it leads to, for a claimed invocation.\<close>

definition reconcile_claimed ::
    "env \<Rightarrow> provider \<Rightarrow> (nat \<Rightarrow> ReconcileRequest \<Rightarrow> ReconcileResult \<times> err option) \<Rightarrow> OperationDescriptor \<Rightarrow> Invocation \<Rightarrow>
     time \<Rightarrow> deliveryConnection \<Rightarrow> resolvedProviderSecrets \<Rightarrow> err option dbop" where
  "reconcile_claimed E p reconcile operation invocation t connection resolved =
    seq (call_reconcile reconcile (reconcile_request invocation operation connection (rps_Values resolved))) (\<lambda>(result, e).
    let e = (if e = None then pv_ValidateReconcile p result else e) in
    seq (case rc_Result result of
           None \<Rightarrow> ret e
         | Some call \<Rightarrow>
             persistProviderSecretUpdates E (ivc_WorkspaceID invocation) (dc_SecretRefs connection) (rps_Versions resolved)
               (res_SecretUpdates call) e) (\<lambda>e.
    seq (try_op (persistReconciliation E invocation result e t)) (\<lambda>r.
    ret (case r of Inl e \<Rightarrow> Some e | Inr _ \<Rightarrow> None))))"

text \<open>One invocation: skipped with an error to remember, stopped at, or reconciled.\<close>

datatype reconcile_step = Skipped "err option" | Stopped err | Reconciled "err option"

definition reconcile_one :: "env \<Rightarrow> time \<Rightarrow> Invocation \<Rightarrow> reconcile_step dbop" where
  "reconcile_one E t invocation =
    (case ev_Provider E (ivc_ConnectorKey invocation) (ivc_ProviderKey invocation) of
       None \<Rightarrow> ret (Skipped None)
     | Some p \<Rightarrow>
         (case providerOperation p (ivc_Operation invocation) of
            None \<Rightarrow> ret (Skipped None)
          | Some operation \<Rightarrow>
              if od_Reconciliation operation \<noteq> ReconciliationProviderLookup then ret (Skipped None)
              else
                (case pv_Reconcile p of
                   None \<Rightarrow>
                     ret (Skipped (Some (Errorf ''Integration provider %s/%s requires reconciliation but exposes no Reconciler''
                       [ivc_ConnectorKey invocation, ivc_ProviderKey invocation])))
                 | Some reconcile \<Rightarrow>
                     seq (try_op (claim_invocation E invocation t)) (\<lambda>r. case r of
                       Inl e \<Rightarrow> ret (Stopped e)
                     | Inr n \<Rightarrow>
                         if n \<noteq> 1 then ret (Skipped None)
                         else
                           seq (try_op (delivery_connection E (ivc_WorkspaceID invocation) (ivc_ConnectorKey invocation)
                                  (ivc_ConnectionKey invocation))) (\<lambda>r. case r of
                             Inl e \<Rightarrow> ret (Skipped (Some e))
                           | Inr connection \<Rightarrow>
                               seq (try_op (resolveProviderSecrets E (ivc_WorkspaceID invocation) (dc_SecretRefs connection))) (\<lambda>r.
                               case r of
                                 Inl e \<Rightarrow> ret (Skipped (Some e))
                               | Inr resolved \<Rightarrow>
                                   seq (reconcile_claimed E p reconcile operation invocation t connection resolved) (\<lambda>e.
                                   ret (Reconciled e))))))))"

fun process_reconciliations ::
    "env \<Rightarrow> time \<Rightarrow> nat \<Rightarrow> err option \<Rightarrow> Invocation list \<Rightarrow> (nat \<times> err option) dbop" where
  "process_reconciliations E t processed firstErr [] = ret (processed, firstErr)"
| "process_reconciliations E t processed firstErr (invocation # invocations) =
    seq (reconcile_one E t invocation) (\<lambda>step. case step of
      Skipped e \<Rightarrow> process_reconciliations E t processed (first_error firstErr e) invocations
    | Stopped e \<Rightarrow> ret (processed, Some e)
    | Reconciled e \<Rightarrow> process_reconciliations E t (processed + 1) (first_error firstErr e) invocations)"

definition ProcessDueReconciliations :: "env \<Rightarrow> int \<Rightarrow> (nat \<times> err option) dbop" where
  "ProcessDueReconciliations E limit =
    seq (now E) (\<lambda>t.
    seq (failedInvocationsAcrossWorkspaces E (pass_limit limit) t) (\<lambda>invocations.
    process_reconciliations E t 0 None invocations))"

section \<open>Expiring credentials\<close>

definition expired_secrets :: "string \<Rightarrow> predicate" where
  "expired_secrets nowText =
    And [Equal ''status'' (Text ''active''), NotEqual ''expires_at'' (Text []), LessThanOrEqual ''expires_at'' (Text nowText)]"

definition expire_columns :: "string \<Rightarrow> (string \<times> sql) list" where
  "expire_columns nowText = [(''status'', Text ''expired''), (''updated_at'', Text nowText)]"

fun expire_secrets :: "env \<Rightarrow> string \<Rightarrow> nat \<Rightarrow> (string \<times> string) list \<Rightarrow> (nat \<times> err option) dbop" where
  "expire_secrets E nowText processed [] = ret (processed, None)"
| "expire_secrets E nowText processed ((workspaceID, key) # secrets) =
    seq (try_op (guarded_update E secrets_table (expire_columns nowText)
           (And [Equal ''workspace_id'' (Text workspaceID), Equal ''secret_key'' (Text key), Equal ''status'' (Text ''active'')]))) (\<lambda>r.
    case r of
      Inl e \<Rightarrow> ret (processed, Some e)
    | Inr n \<Rightarrow> expire_secrets E nowText (if n = 1 then processed + 1 else processed) secrets)"

definition ProcessDueCredentialExpirations :: "env \<Rightarrow> int \<Rightarrow> (nat \<times> err option) dbop" where
  "ProcessDueCredentialExpirations E limit =
    seq (now E) (\<lambda>t.
    let nowText = format_rfc3339nano t in
    seq (select E secrets_table (expired_secrets nowText)) (\<lambda>rs.
    seq (each (\<lambda>r. seq (scan_texts r [''workspace_id'', ''secret_key'']) (\<lambda>_.
           ret (text_of (r ''workspace_id''), text_of (r ''secret_key''))))
         (take (pass_limit limit) (ascending ''expires_at'' rs))) (\<lambda>secrets.
    expire_secrets E nowText 0 secrets)))"

section \<open>What the worker is built from\<close>

text \<open>
  The statements by which the worker writes, and the calls it makes: a relation that these stay in
  is kept by all of its passes.
\<close>

context store_reads
begin

lemma within_ready_candidate: "within scan \<Longrightarrow> within (ready_candidate t due lease scan)"
  unfolding ready_candidate_def by (intro within_reads)

lemma within_scan_task: "within (scan_task r)"
  unfolding scan_task_def by (intro within_reads)

lemma within_scan_commit: "within (scan_commit r)"
  unfolding scan_commit_def by (intro within_reads)

lemma within_counted: "within m \<Longrightarrow> within (counted m)"
  unfolding counted_def by (intro within_reads)

lemma within_open_invocations: "within (open_invocations t limit rs)"
proof (induction rs arbitrary: limit)
  case Nil
  show ?case unfolding open_invocations.simps by (rule within_ret)
next
  case (Cons r rs)
  show ?case unfolding open_invocations.simps scan_invocation_def Let_def by (intro within_reads Cons.IH)
qed

lemma within_failedInvocationsAcrossWorkspaces: "within (failedInvocationsAcrossWorkspaces E limit t)"
  unfolding failedInvocationsAcrossWorkspaces_def by (intro within_reads within_open_invocations)

lemmas within_worker_reads =
  within_reads within_ready_candidate within_scan_task within_scan_commit within_delivery_connection within_find_provider

end

locale task_writes = delivery_calls +
  assumes within_task_insert: "within (insert_into E states_table (new_task_columns E c task t))"
    and within_task_reset: "within (guarded_update E states_table (task_reset_columns task t) p)"
    and within_task_claim: "within (guarded_update E states_table (claim_task_columns (worker_identity worker) t k) p)"
    and within_task_failure: "within (guarded_update E states_table (task_failure_columns n t) p)"
    and within_task_result: "within (guarded_update E states_table (task_result_columns result t) p)"
    and within_task_wake: "within (guarded_update E states_table (wake_columns t) p)"
    and within_task_event: "within (insert_into E events_table (event_columns i ws pk type ext payload t))"
    and within_commit_insert: "within (insert_into E commits_table (new_commit_columns E tc t index commit))"
    and within_commit_claim: "within (guarded_update E commits_table (claim_task_columns (worker_identity worker) t k) p)"
    and within_commit_outcome: "within (guarded_update E commits_table (commit_outcome_columns n delivered t) p)"
    and within_background_call: "within (call_background processor request)"
begin

lemma within_synchronizeProviderTasks: "within (synchronizeProviderTasks E)"
  unfolding synchronizeProviderTasks_def synchronize_connection_tasks_def upsertProviderTask_def scanConnection_def Let_def
  by (intro within_reads within_task_insert within_task_reset)

lemma within_claimProviderTask: "within (claimProviderTask E (worker_identity worker) c t)"
  unfolding claimProviderTask_def by (intro within_reads within_task_claim)

lemma within_failProviderTask: "within (failProviderTask E worker c e t)"
  unfolding failProviderTask_def by (intro within_reads within_task_failure)

lemma within_commitProviderTaskResult: "within (commitProviderTaskResult E worker c result t)"
  unfolding commitProviderTaskResult_def task_result_body_def store_task_event_def store_task_commit_def wake_task_def
  by (intro within_reads within_task_result within_task_event within_commit_insert within_task_wake)

lemma within_task_processor: "within (task_processor E c)"
  unfolding task_processor_def by (intro within_delivery_steps)

lemma within_executeProviderTask: "within (executeProviderTask E worker c t)"
  unfolding executeProviderTask_def Let_def
  by (intro within_delivery_steps within_failProviderTask within_task_processor within_background_call within_commitProviderTaskResult)

lemma within_process_tasks: "within (process_tasks E (worker_identity worker) t n e cs)"
proof (induction cs arbitrary: n e)
  case Nil
  show ?case unfolding process_tasks.simps by (rule within_ret)
next
  case (Cons c cs)
  show ?case unfolding process_tasks.simps
    by (intro within_reads within_claimProviderTask within_executeProviderTask Cons.IH)
qed

lemma within_processProviderTasks: "within (processProviderTasks E (worker_identity worker) limit)"
  unfolding processProviderTasks_def by (intro within_worker_reads within_process_tasks)

lemma within_process_commits: "within (process_commits E (worker_identity worker) t n e cs)"
proof (induction cs arbitrary: n e)
  case Nil
  show ?case unfolding process_commits.simps by (rule within_ret)
next
  case (Cons c cs)
  show ?case unfolding process_commits.simps deliver_commit_def
    by (intro within_reads within_commit_claim within_Accept within_commit_outcome Cons.IH)
qed

lemma within_processProviderCommits: "within (processProviderCommits E (worker_identity worker) limit)"
  unfolding processProviderCommits_def by (intro within_worker_reads within_process_commits)

lemma within_ProcessDueProviderTasks: "within (ProcessDueProviderTasks E worker limit)"
  unfolding ProcessDueProviderTasks_def Let_def
  by (intro within_reads within_counted within_synchronizeProviderTasks within_processProviderTasks within_processProviderCommits)

end

lemma task_columns_keep_identity [simp]:
  "keeps_identity (task_reset_columns task t)" "keeps_identity (claim_task_columns worker t k)"
  "keeps_identity (task_failure_columns n t)" "keeps_identity (task_result_columns result t)"
  "keeps_identity (wake_columns t)" "keeps_identity (commit_outcome_columns n delivered t)"
  "keeps_identity (reconcile_claim_columns t)" "keeps_identity (reconciliation_columns x metadata t)"
  "keeps_identity (expire_columns text)"
  by (simp_all add: keeps_identity_def task_reset_columns_def claim_task_columns_def task_failure_columns_def
      task_result_columns_def wake_columns_def commit_outcome_columns_def reconcile_claim_columns_def
      reconciliation_columns_def expire_columns_def Let_def split: prod.split)

lemma worker_tables_differ [simp]:
  "states_table \<noteq> commits_table" "commits_table \<noteq> states_table" "states_table \<noteq> events_table" "events_table \<noteq> states_table"
  "commits_table \<noteq> events_table" "events_table \<noteq> commits_table" "states_table \<noteq> secrets_table" "states_table \<noteq> materials_table"
  "states_table \<noteq> invocations_table" "commits_table \<noteq> secrets_table" "commits_table \<noteq> materials_table"
  "commits_table \<noteq> invocations_table" "secrets_table \<noteq> states_table" "materials_table \<noteq> states_table"
  "invocations_table \<noteq> states_table" "secrets_table \<noteq> commits_table" "materials_table \<noteq> commits_table"
  "invocations_table \<noteq> commits_table" "states_table \<noteq> fences" "commits_table \<noteq> fences"
  "fences \<noteq> states_table" "fences \<noteq> commits_table"
  by (simp_all add: states_table_def commits_table_def events_table_def secrets_table_def materials_table_def invocations_table_def fences_def)

sublocale store_calls \<subseteq> task_writes
  by unfold_locales (auto intro: within_insert within_guarded_update simp: call_background_def within_record_call)

section \<open>The rows of tasks and commits\<close>

text \<open>
  A task or commit has a holder exactly while it is being processed. One that failed has been
  attempted at most four times since it last succeeded, one that is dead-lettered five times or
  more, and one that waits for its turn never.
\<close>

definition task_row_ok :: "row \<Rightarrow> bool" where
  "task_row_ok r \<longleftrightarrow>
    (case (r ''status'', r ''attempt_count'', r ''lease_owner'') of
       (Text s, Num n, Text holder) \<Rightarrow>
         s \<in> {''pending'', ''ready'', ''processing'', ''failed'', ''dead_letter'', ''succeeded''} \<and>
         0 \<le> n \<and> (holder \<noteq> [] \<longleftrightarrow> s = ''processing'') \<and> (s \<in> {''pending'', ''ready''} \<longrightarrow> n = 0) \<and>
         (s = ''failed'' \<longrightarrow> 1 \<le> n \<and> n < 5) \<and> (s = ''dead_letter'' \<longrightarrow> 5 \<le> n)
     | _ \<Rightarrow> False)"

lemma worker_identity_not_empty [simp]: "worker_identity worker \<noteq> []"
  by (simp add: worker_identity_def)

lemma task_row_new: "task_row_ok (row_of (new_task_columns E c task t))" "task_row_ok (row_of (new_commit_columns E tc t index commit))"
  by (simp_all add: task_row_ok_def new_task_columns_def new_commit_columns_def)

lemma task_row_set:
  "task_row_ok (set_columns (task_reset_columns task t) r)"
  "task_row_ok (set_columns (task_failure_columns n t) r)"
  "task_row_ok (set_columns (task_result_columns result t) r)"
  "task_row_ok (set_columns (commit_outcome_columns n delivered t) r)"
  by (simp_all add: task_row_ok_def task_reset_columns_def task_failure_columns_def task_result_columns_def
      commit_outcome_columns_def Let_def)

lemma task_row_claim: "task_row_ok r \<Longrightarrow> task_row_ok (set_columns (claim_task_columns (worker_identity worker) t k) r)"
  by (auto simp: task_row_ok_def claim_task_columns_def split: sql.splits)

lemma task_row_wake: "task_row_ok r \<Longrightarrow> task_row_ok (set_columns (wake_columns t) r)"
  by (simp add: task_row_ok_def wake_columns_def split: sql.splits)

lemma task_rows_writes:
  assumes "u \<in> {states_table, commits_table}"
  shows "task_writes (inv_within (all_rows u task_row_ok) E) E"
proof -
  have "delivery_calls (inv_within (all_rows u task_row_ok) E) E"
    by (rule delivery_calls_other_table) (use assms in auto)
  then show ?thesis
  proof (intro task_writes.intro task_writes_axioms.intro)
    show "evolution.within (inv_within (all_rows u task_row_ok) E) (call_background processor request)" for processor request
      by (simp add: evolution.within_def [OF inv_evolution] call_background_def record_call_def inv_within_def)
  qed (use assms in \<open>auto intro: task_row_new task_row_set task_row_claim task_row_wake
      simp: insert_into_def guarded_update_def update_set_def intro!: inv_statement all_rows_insert all_rows_update\<close>)
qed


definition keeps_task_rows :: "string \<Rightarrow> env \<Rightarrow> bool" where
  "keeps_task_rows u E \<longleftrightarrow> (\<forall>n d. all_rows u task_row_ok d \<longrightarrow> all_rows u task_row_ok (ev_others E n d))"

text \<open>
  C14. Whatever passes workers run over the tasks, in any order, each with its own faults, clock,
  providers and interference (that keeps the rows well formed), a task or commit has a holder
  exactly while it is being processed, retries are bounded by five attempts, and what waits for its
  turn has none.
\<close>

theorem task_rows_wellformed:
  assumes "u \<in> {states_table, commits_table}"
    and "list_all (\<lambda>(E, worker, limit). keeps_task_rows u E) runs" and "all_rows u task_row_ok (w_db w)"
  shows "all_rows u task_row_ok (w_db (fold (\<lambda>(E, worker, limit) w. snd (ProcessDueProviderTasks E worker limit w)) runs w))"
  using assms(2,3)
proof (induction runs arbitrary: w)
  case (Cons run runs)
  obtain E worker limit where run: "run = (E, worker, limit)" by (cases run)
  have "inv_within (all_rows u task_row_ok) E w (snd (ProcessDueProviderTasks E worker limit w))"
    using task_writes.within_ProcessDueProviderTasks [OF task_rows_writes [OF assms(1)], of E worker limit]
    by (simp add: evolution.within_def [OF inv_evolution])
  with Cons.prems run have "all_rows u task_row_ok (w_db (snd (ProcessDueProviderTasks E worker limit w)))"
    by (simp add: inv_within_def keeps_task_rows_def)
  with Cons run show ?case by simp
qed simp

section \<open>A result counts only while the claim is held\<close>

text \<open>The claim of a worker on a task, as its row shows it.\<close>

definition task_held :: "database \<Rightarrow> string \<Rightarrow> providerTaskCandidate \<Rightarrow> bool" where
  "task_held d worker c \<longleftrightarrow>
    (\<exists>r \<in> set (d states_table). holds d r (holder_where (tc_id c) worker (tc_fencingToken c + 1)))"

lemma guarded_update_none:
  assumes "alone E" and "\<And>r. r \<in> set (w_db w t) \<Longrightarrow> \<not> holds (w_db w) r p"
  shows "w_db (snd (guarded_update E t cs p w)) = w_db w" "fst (guarded_update E t cs p w) \<in> {Inr 0, Inl StorageErr}"
proof -
  have "update_rows t (set_columns cs) (And [subjectRowWriteAllowed t, p]) (w_db w) = (Inr 0, w_db w)"
    using assms(2) by (simp add: update_rows_def where_simps filter_empty_conv map_idI fun_upd_idem)
  with assms(1) show "w_db (snd (guarded_update E t cs p w)) = w_db w" "fst (guarded_update E t cs p w) \<in> {Inr 0, Inl StorageErr}"
    by (cases "ev_fault E (w_step w)"; simp add: guarded_update_def update_set_def statement_def Let_def)+
qed

lemma transaction_fails:
  assumes "alone E" and "\<And>u. w_db u = w_db w \<Longrightarrow> \<exists>e. fst (body u) = Inl e"
  shows "\<exists>e. fst (transaction E body w) = Inl e" "w_db (snd (transaction E body w)) = w_db w"
proof -
  let ?u = "(before_step E w)\<lparr>w_tx := True\<rparr>"
  obtain e v where v: "body ?u = (Inl e, v)" using assms by (metis alone_before_step prod.collapse world.simps(1) world.select_convs(1) world.surjective world.update_convs(4))
  show "\<exists>e. fst (transaction E body w) = Inl e" "w_db (snd (transaction E body w)) = w_db w"
    using v assms(1) by (simp_all add: transaction_def Let_def)
qed

text \<open>
  C12. What a background call asked for is written only while its worker still holds the claim. When the row
  names another holder or a later token, neither the result, nor its events, commits and wake-ups,
  nor the failure of the task changes anything, under all faults.
\<close>

theorem stale_task_result_discarded:
  assumes "alone E" and "\<not> task_held (w_db w) worker c"
  shows "(\<exists>e. fst (commitProviderTaskResult E worker c result t w) = Inl e) \<and>
    w_db (snd (commitProviderTaskResult E worker c result t w)) = w_db w \<and>
    w_db (snd (failProviderTask E worker c e t w)) = w_db w"
proof -
  have none: "\<And>r. r \<in> set (w_db w states_table) \<Longrightarrow> \<not> holds (w_db w) r (holder_where (tc_id c) worker (tc_fencingToken c + 1))"
    using assms(2) by (auto simp: task_held_def)
  have "\<exists>e. fst (task_result_body E worker c result t u) = Inl e" if "w_db u = w_db w" for u
  proof -
    obtain r v where u: "guarded_update E states_table (task_result_columns result t)
        (holder_where (tc_id c) worker (tc_fencingToken c + 1)) u = (r, v)" by fastforce
    with guarded_update_none [OF assms(1), of u states_table] none that have "r \<in> {Inr 0, Inl StorageErr}" by (metis fst_conv)
    with u show ?thesis by (auto simp: task_result_body_def seq_def check_apply)
  qed
  from transaction_fails [OF assms(1) this] have
    "\<exists>e. fst (commitProviderTaskResult E worker c result t w) = Inl e"
    "w_db (snd (commitProviderTaskResult E worker c result t w)) = w_db w"
    by (simp_all add: commitProviderTaskResult_def)
  moreover have "w_db (snd (failProviderTask E worker c e t w)) = w_db w"
    using guarded_update_none(1) [OF assms(1) none]
    by (auto simp: failProviderTask_def seq_def try_op_def split: prod.splits sum.splits) (metis snd_conv)+
  ultimately show ?thesis by blast
qed

section \<open>A result is written as a whole\<close>

text \<open>A row with a property stays while the columns it speaks of are not set.\<close>

definition has_row :: "string \<Rightarrow> (row \<Rightarrow> bool) \<Rightarrow> database \<Rightarrow> bool" where
  "has_row t P d \<longleftrightarrow> (\<exists>r \<in> set (d t). P r)"

lemma has_row_insert: "has_row t P d \<Longrightarrow> has_row t P (snd (insert_row u cs d))"
  by (auto simp: has_row_def insert_row_def Let_def)

lemma has_row_update: "(\<And>r. u = t \<Longrightarrow> P r \<Longrightarrow> P (f r)) \<Longrightarrow> has_row t P d \<Longrightarrow> has_row t P (snd (update_rows u f p d))"
  unfolding has_row_def
proof -
  assume f: "\<And>r. u = t \<Longrightarrow> P r \<Longrightarrow> P (f r)" and "\<exists>r \<in> set (d t). P r"
  then obtain r where r: "r \<in> set (d t)" "P r" by blast
  let ?q = "if u = t \<and> holds d r p then f r else r"
  have "?q \<in> set (snd (update_rows u f p d) t)" using r(1) by (auto simp: update_rows_def)
  moreover have "P ?q" using f r(2) by simp
  ultimately show "\<exists>r \<in> set (snd (update_rows u f p d) t). P r" by blast
qed

lemma has_row_inserted: "insert_row t cs d = (Inr n, d') \<Longrightarrow> P (row_of cs) \<Longrightarrow> has_row t P d'"
  by (auto simp: has_row_def insert_row_def Let_def split: if_splits)

lemma has_row_insert_into: "alone E \<Longrightarrow> insert_into E t cs w = (Inr n, w') \<Longrightarrow> P (row_of cs) \<Longrightarrow> has_row t P (w_db w')"
  by (drule (1) insert_into_Inr) (blast intro: has_row_inserted)

interpretation kept_row: store_reads "inv_within (has_row t P) E" E for t P E
  by (rule inv_store_reads)

lemma each_all:
  assumes "each f xs s = (Inr ys, s')"
    and "\<And>x s y s'. x \<in> set xs \<Longrightarrow> f x s = (Inr y, s') \<Longrightarrow> P x s'" and "\<And>x y s r s'. f x s = (r, s') \<Longrightarrow> P y s \<Longrightarrow> P y s'"
  shows "\<forall>x \<in> set xs. P x s'"
  using assms(1,2)
proof (induction xs arbitrary: s ys)
  case (Cons x xs)
  from Cons.prems(1) obtain y u zs where f: "f x s = (Inr y, u)" and rest: "each f xs u = (Inr zs, s')" by (auto simp: op_Inr)
  have kept: "P x v" if "each f ws u = (r, v)" "P x u" for ws r u v
    using that
  proof (induction ws arbitrary: u r v)
    case (Cons w ws)
    obtain q t where w: "f w u = (q, t)" by fastforce
    with assms(3) Cons.prems(2) have t: "P x t" by blast
    show ?case
    proof (cases q)
      case (Inr z)
      obtain p s2 where s2: "each f ws t = (p, s2)" by fastforce
      with Cons.prems(1) w Inr have "v = s2" by (cases p) (auto simp: seq_def)
      with Cons.IH [OF s2 t] show ?thesis by simp
    qed (use w Cons.prems t in \<open>auto simp: seq_def\<close>)
  qed (simp add: ret_def)
  from Cons.prems(2) f have "P x u" by simp
  with kept [OF rest] Cons.IH [OF rest] Cons.prems(2) show ?case by auto
qed simp

text \<open>What the database shows of a result.\<close>

definition task_state_stored :: "providerTaskCandidate \<Rightarrow> BackgroundResult \<Rightarrow> row \<Rightarrow> bool" where
  "task_state_stored c result r \<longleftrightarrow>
    r ''id'' = Text (tc_id c) \<and> r ''payload_json'' = Doc (bg_State result) \<and> r ''status'' = Text ''ready'' \<and>
    r ''attempt_count'' = Num 0 \<and> r ''lease_owner'' = Text []"

definition task_event_stored :: "providerTaskCandidate \<Rightarrow> BackgroundEvent \<Rightarrow> row \<Rightarrow> bool" where
  "task_event_stored c event r \<longleftrightarrow>
    r ''workspace_id'' = Text (tc_workspaceID c) \<and> r ''provider'' = Text (tc_providerKey c) \<and>
    r ''external_id'' = Text (be_ExternalID event)"

definition task_commit_stored :: "env \<Rightarrow> providerTaskCandidate \<Rightarrow> nat \<times> BackgroundCommit \<Rightarrow> row \<Rightarrow> bool" where
  "task_commit_stored E c indexed r \<longleftrightarrow>
    r ''id'' = Text (commit_id E c (fst indexed)) \<and> r ''status'' = Text ''pending'' \<and>
    r ''operation_key'' = Text (bc_OperationKey (snd indexed)) \<and> r ''payload_json'' = Doc (bc_Payload (snd indexed))"

lemma select_row_Some:
  assumes "alone E" and "select_row E t p w = (Inr (Some r), w')"
  shows "r \<in> set (w_db w' t)" and "holds (w_db w') r p" and "w_db w' = w_db w"
proof -
  from select_row_Inr [OF assms] obtain rs where "select_rows t p (w_db w) = r # rs" and d: "w_db w' = w_db w"
    by (cases "select_rows t p (w_db w)") auto
  then have "r \<in> set (select_rows t p (w_db w))" by simp
  with d show "r \<in> set (w_db w' t)" "holds (w_db w') r p" "w_db w' = w_db w" by (simp_all add: select_rows_def)
qed

lemma store_task_event_stores:
  assumes "alone E" and "store_task_event E c t event w = (Inr u, w')"
  shows "has_row events_table (task_event_stored c event) (w_db w')"
proof -
  let ?p = "And [Equal ''workspace_id'' (Text (tc_workspaceID c)), Equal ''provider'' (Text (tc_providerKey c)),
            Equal ''external_id'' (Text (be_ExternalID event))]"
  let ?cs = "\<lambda>payload. event_columns (webhook_event_id E (tc_workspaceID c) (tc_providerKey c) (be_ExternalID event)) (tc_workspaceID c)
            (tc_providerKey c) (be_EventType event) (be_ExternalID event) payload t"
  obtain payload v z found where sel: "select_row E events_table ?p v = (Inr found, z)"
    and rest: "(case found of Some r \<Rightarrow> scan_texts r [''id''] | None \<Rightarrow> seq (insert_into E events_table (?cs payload)) (\<lambda>_. ret ())) z = (Inr u, w')"
    using assms(2) unfolding store_task_event_def seq_Inr by blast
  show ?thesis
  proof (cases found)
    case None
    with rest obtain n where "insert_into E events_table (?cs payload) z = (Inr n, w')" by (auto simp: op_Inr)
    then show ?thesis by (rule has_row_insert_into [OF assms(1)]) (simp add: task_event_stored_def event_columns_def)
  next
    case (Some r)
    with rest have "w' = z" by (simp add: scan_texts_def)
    with Some select_row_Some [OF assms(1), of events_table ?p v r w'] sel
    have "r \<in> set (w_db w' events_table)" "holds (w_db w') r ?p" by simp_all
    then show ?thesis unfolding has_row_def by (intro bexI [of _ r]) (simp_all add: task_event_stored_def where_simps)
  qed
qed

lemma store_task_commit_stores:
  assumes "alone E" and "store_task_commit E c t indexed w = (Inr u, w')"
  shows "has_row commits_table (task_commit_stored E c indexed) (w_db w')"
proof -
  obtain index commit where i: "indexed = (index, commit)" by fastforce
  from assms(2) i obtain n v where "insert_into E commits_table (new_commit_columns E c t index commit) v = (Inr n, w')"
    by (auto simp: store_task_commit_def op_Inr)
  then show ?thesis
    by (rule has_row_insert_into [OF assms(1)]) (simp add: task_commit_stored_def new_commit_columns_def i)
qed

lemma keeps_inserts: "evolution.within (inv_within (has_row T P) E) (insert_into E t cs)"
  unfolding insert_into_def by (intro inv_statement has_row_insert)

lemma keeps_steps:
  "evolution.within (inv_within (has_row T P) E) (store_task_event E c t event)"
  "evolution.within (inv_within (has_row T P) E) (store_task_commit E c t indexed)"
  "(\<And>r. T = states_table \<Longrightarrow> P r \<Longrightarrow> P (set_columns (wake_columns t) r)) \<Longrightarrow>
    evolution.within (inv_within (has_row T P) E) (wake_task E c t taskKey)"
  unfolding store_task_event_def store_task_commit_def wake_task_def
  by (intro kept_row.within_reads keeps_inserts |
      auto simp: guarded_update_def update_set_def intro!: inv_statement has_row_update)+

lemma kept_alone:
  "evolution.within (inv_within I E) m \<Longrightarrow> alone E \<Longrightarrow> m w = (r, w') \<Longrightarrow> I (w_db w) \<Longrightarrow> I (w_db w')"
  unfolding evolution.within_def [OF inv_evolution] inv_within_def alone_def by (metis snd_conv)

text \<open>
  C13. A result is written as a whole: when it is committed, its worker held the task, the task is ready again with the new
  state and no failed attempts, every event it reported is stored, and every commit it asked for
  waits under an id of its own to be delivered.
\<close>

theorem task_result_complete:
  assumes "alone E" and "commitProviderTaskResult E worker c result t w = (Inr u, w')"
  shows "task_held (w_db w) worker c \<and> has_row states_table (task_state_stored c result) (w_db w') \<and>
    list_all (\<lambda>event. has_row events_table (task_event_stored c event) (w_db w')) (bg_Events result) \<and>
    list_all (\<lambda>indexed. has_row commits_table (task_commit_stored E c indexed) (w_db w')) (enumerate 0 (bg_Commit result))"
proof -
  obtain u0 u4 where body: "task_result_body E worker c result t u0 = (Inr u, u4)" and d: "w_db u0 = w_db w" "w_db w' = w_db u4"
    using transaction_Inr [OF assms(1)] assms(2) unfolding commitProviderTaskResult_def by metis
  let ?holder = "holder_where (tc_id c) worker (tc_fencingToken c + 1)"
  obtain u1 u2 u3 xs ys zs where upd: "guarded_update E states_table (task_result_columns result t) ?holder u0 = (Inr 1, u1)"
      and events: "each (store_task_event E c t) (bg_Events result) u1 = (Inr xs, u2)"
      and commits: "each (store_task_commit E c t) (enumerate 0 (bg_Commit result)) u2 = (Inr ys, u3)"
      and wakes: "each (wake_task E c t) (bg_WakeTasks result) u3 = (Inr zs, u4)"
    using body by (auto simp: task_result_body_def op_Inr)
  obtain r where r: "r \<in> set (w_db u0 states_table)" "holds (w_db u0) r (And [subjectRowWriteAllowed states_table, ?holder])"
      "set_columns (task_result_columns result t) r \<in> set (w_db u1 states_table)"
    using guarded_update_Inr [OF assms(1) upd] update_rows_hit by (metis one_neq_zero)
  have held: "task_held (w_db w) worker c"
    using r(1,2) d by (auto simp: task_held_def where_simps)
  have "task_state_stored c result (set_columns (task_result_columns result t) r)"
    using r(2) by (simp add: task_state_stored_def task_result_columns_def holder_where_def where_simps)
  with r(3) have "has_row states_table (task_state_stored c result) (w_db u1)" by (auto simp: has_row_def)
  then have "has_row states_table (task_state_stored c result) (w_db u2)"
    by (rule kept_alone [OF kept_row.within_each [OF keeps_steps(1)] assms(1) events])
  then have "has_row states_table (task_state_stored c result) (w_db u3)"
    by (rule kept_alone [OF kept_row.within_each [OF keeps_steps(2)] assms(1) commits])
  then have state: "has_row states_table (task_state_stored c result) (w_db u4)"
    by (rule kept_alone [OF kept_row.within_each [OF keeps_steps(3)] assms(1) wakes, rotated])
      (simp add: task_state_stored_def wake_columns_def)
  have "\<forall>event \<in> set (bg_Events result). has_row events_table (task_event_stored c event) (w_db u2)"
    by (rule each_all [OF events, where P = "\<lambda>event w. has_row events_table (task_event_stored c event) (w_db w)"])
      (auto dest: store_task_event_stores [OF assms(1)] kept_alone [OF keeps_steps(1) assms(1)])
  then have "\<forall>event \<in> set (bg_Events result). has_row events_table (task_event_stored c event) (w_db u3)"
    using kept_alone [OF kept_row.within_each [OF keeps_steps(2)] assms(1) commits] by blast
  then have events': "\<forall>event \<in> set (bg_Events result). has_row events_table (task_event_stored c event) (w_db u4)"
    using kept_alone [OF kept_row.within_each [OF keeps_steps(3)] assms(1) wakes, of events_table] by simp
  have "\<forall>i \<in> set (enumerate 0 (bg_Commit result)). has_row commits_table (task_commit_stored E c i) (w_db u3)"
    by (rule each_all [OF commits, where P = "\<lambda>i w. has_row commits_table (task_commit_stored E c i) (w_db w)"])
      (auto dest: store_task_commit_stores [OF assms(1)] kept_alone [OF keeps_steps(2) assms(1)])
  then have "\<forall>i \<in> set (enumerate 0 (bg_Commit result)). has_row commits_table (task_commit_stored E c i) (w_db u4)"
    using kept_alone [OF kept_row.within_each [OF keeps_steps(3)] assms(1) wakes, of commits_table] by simp
  with held state events' d show ?thesis by (simp add: list_all_iff)
qed

section \<open>Abandoned tasks\<close>

text \<open>
  A task that is being processed is never taken up again, however long ago its lease ended: the scan asks for
  the status ready or failed besides the lease. Where every task was left in processing by workers
  that stopped between the claim and the outcome, a pass handles nothing, at whatever time.
\<close>

theorem abandoned_tasks_never_run:
  assumes "alone E" and "all_rows states_table (\<lambda>r. r ''status'' = Text ''processing'') (w_db w)"
    and "processProviderTasks E worker limit w = (Inr (n, e), w')"
  shows "n = 0 \<and> w_db w' = w_db w \<and> w_calls w' = w_calls w"
proof -
  obtain t rs u cs v where sel: "select E states_table (due_rows [''ready'', ''failed''] (providerDeadlineScanEnd t)) w = (Inr rs, u)"
      and scan: "each (\<lambda>r. ready_candidate t tc_dueAt tc_leaseExpiresAt (scan_task r)) (take (pass_limit limit) (ascending ''due_at'' rs)) u = (Inr cs, v)"
      and run: "process_tasks E worker t 0 None (concat cs) v = (Inr (n, e), w')"
    using assms(3) by (auto simp: processProviderTasks_def op_Inr now_Inr simp del: process_tasks.simps)
  have "select_rows states_table (due_rows [''ready'', ''failed''] (providerDeadlineScanEnd t)) (w_db w) = []"
    using assms(2) by (auto simp: select_rows_def filter_empty_conv all_rows_def due_rows_def where_simps)
  with select_Inr [OF assms(1) sel] have "rs = []" "w_db u = w_db w" "w_calls u = w_calls w" by simp_all
  with scan run show ?thesis by (auto simp: ascending_def ret_def)
qed

section \<open>Account writes are not reconciled\<close>

definition row_kept :: "row \<Rightarrow> database \<Rightarrow> bool" where
  "row_kept r d \<longleftrightarrow> r \<in> set (d invocations_table)"

lemma row_kept_update:
  "(\<And>d. t = invocations_table \<Longrightarrow> \<not> holds d r p) \<Longrightarrow> evolution.within (inv_within (row_kept r) E) (guarded_update E t cs p)"
  unfolding guarded_update_def update_set_def row_kept_def
  by (intro inv_statement row_stays_update) (simp_all add: where_simps)

interpretation row_kept: secret_writes "inv_within (row_kept r) E" E for r E
  by (intro secret_writes.intro inv_store_reads secret_writes_axioms.intro)
    (auto simp: secrets_table_def materials_table_def invocations_table_def intro!: row_kept_update)

lemma row_kept_invocation:
  assumes "r ''id'' = Text i" and "i \<noteq> ivc_ID invocation"
  shows "evolution.within (inv_within (row_kept r) E) (reconcile_one E t invocation)"
proof -
  have other: "\<not> holds d r (And (Equal c x # Equal ''id'' (Text (ivc_ID invocation)) # ps))" for d c x ps
    using assms by (simp add: where_simps)
  have call: "evolution.within (inv_within (row_kept r) E) (call_reconcile reconcile request)" for reconcile request
    by (simp add: evolution.within_def [OF inv_evolution] call_reconcile_def record_call_def inv_within_def)
  show ?thesis
    unfolding reconcile_one_def reconcile_claimed_def claim_invocation_def persistReconciliation_def Let_def
    by (intro row_kept.within_secrets row_kept.within_delivery_connection row_kept_update other call)
qed

lemma open_invocations_rows:
  "open_invocations t limit rs w = (Inr invocations, w') \<Longrightarrow> invocation \<in> set invocations \<Longrightarrow>
    \<exists>r \<in> set rs. ivc_ID invocation = text_of (r ''id'')"
proof (induction rs arbitrary: limit invocations w)
  case (Cons r rs)
  have ident: "ivc_ID v = text_of (r ''id'')" if "scan_invocation r w = (Inr v, u)" for v u
    using that by (auto simp: scan_invocation_def op_Inr case_Inr Let_def ret_def split: if_splits)
  from Cons.prems show ?case
    by (auto simp: op_Inr ret_def split: if_splits dest!: ident Cons.IH)
qed (simp add: ret_def)

lemma select_condition: "select E t p w = (Inr rs, w') \<Longrightarrow> r \<in> set rs \<Longrightarrow> \<exists>d. holds d r p"
  by (cases "ev_fault E (w_step w)") (auto simp: select_def statement_def Let_def)

lemma failed_invocations_ids:
  assumes "failedInvocationsAcrossWorkspaces E limit t w = (Inr invocations, w')" and "invocation \<in> set invocations"
  shows "\<not> has_prefix (ivc_ID invocation) ''account-write:''"
proof -
  obtain rs u where sel: "select E invocations_table (reconcilable t) w = (Inr rs, u)"
      and scan: "open_invocations t limit (take (limit * 4) (ascending ''updated_at'' rs)) u = (Inr invocations, w')"
    using assms(1) by (auto simp: failedInvocationsAcrossWorkspaces_def op_Inr)
  from open_invocations_rows [OF scan assms(2)] obtain r where r: "r \<in> set rs" "ivc_ID invocation = text_of (r ''id'')"
    by (metis in_set_takeD set_ascending)
  from select_condition [OF sel r(1)] r(2) show ?thesis
    by (auto simp: reconcilable_def where_simps)
qed

text \<open>
  C15. Automatic reconciliation leaves the receipts of account writes alone, whatever their status and age: whatever
  else it does to other invocations, the row of an account write stays as it is, under all faults,
  as long as other processes keep it.
\<close>

theorem account_writes_not_reconciled:
  assumes "\<And>n d. row_kept r d \<Longrightarrow> row_kept r (ev_others E n d)" and "row_kept r (w_db w)"
    and "r ''id'' = Text (''account-write:'' @ i)"
  shows "row_kept r (w_db (snd (ProcessDueReconciliations E limit w)))"
proof -
  have steps: "evolution.within (inv_within (row_kept r) E) (process_reconciliations E t n e invocations)"
    if "\<forall>invocation \<in> set invocations. \<not> has_prefix (ivc_ID invocation) ''account-write:''" for t n e invocations
    using that
  proof (induction invocations arbitrary: n e)
    case Nil
    show ?case unfolding process_reconciliations.simps by (rule row_kept.within_ret)
  next
    case (Cons invocation invocations)
    from Cons.prems have "\<not> has_prefix (ivc_ID invocation) ''account-write:''" by simp
    then have other: "''account-write:'' @ i \<noteq> ivc_ID invocation" using has_prefix_append by metis
    have rest: "evolution.within (inv_within (row_kept r) E) (process_reconciliations E t n e invocations)" for n e
      using Cons by simp
    show ?case
      unfolding process_reconciliations.simps
      by (intro row_kept.within_seq row_kept_invocation [of r "''account-write:'' @ i" invocation, OF assms(3) other])
        (auto intro: rest row_kept.within_ret split: reconcile_step.split)
  qed
  have "evolution.within (inv_within (row_kept r) E) (seq (failedInvocationsAcrossWorkspaces E k t) (process_reconciliations E t 0 None))" for k t
  proof (rule row_kept.within_I)
    fix u
    obtain x v where v: "failedInvocationsAcrossWorkspaces E k t u = (x, v)" by fastforce
    have uv: "inv_within (row_kept r) E u v" by (rule row_kept.within_D [OF row_kept.within_failedInvocationsAcrossWorkspaces v])
    show "inv_within (row_kept r) E u (snd (seq (failedInvocationsAcrossWorkspaces E k t) (process_reconciliations E t 0 None) u))"
    proof (cases x)
      case (Inr invocations)
      with v failed_invocations_ids have "inv_within (row_kept r) E v (snd (process_reconciliations E t 0 None invocations v))"
        using steps unfolding row_kept.within_def by metis
      with v Inr row_kept.chains [OF uv] show ?thesis by (simp add: seq_def)
    qed (use v uv in \<open>simp add: seq_def\<close>)
  qed
  then have "evolution.within (inv_within (row_kept r) E) (ProcessDueReconciliations E limit)"
    unfolding ProcessDueReconciliations_def by (rule row_kept.within_seq [OF row_kept.within_now])
  with assms(1,2) show ?thesis unfolding row_kept.within_def inv_within_def by blast
qed

section \<open>Expired credentials\<close>

text \<open>What a pass leaves: no secret of the list is active any more, unless an erasure has fenced its row.\<close>

lemma expire_secrets_done:
  assumes "calm E"
  shows "\<exists>n w'. expire_secrets E nowText k ids w = (Inr (n, None), w') \<and> w_db w' fences = w_db w fences \<and>
    (\<forall>r \<in> set (w_db w' secrets_table). r ''status'' = Text ''active'' \<longrightarrow>
       r \<in> set (w_db w secrets_table) \<and>
       (row_fenced (w_db w) secrets_table r \<or>
        (\<forall>(ws, key) \<in> set ids. r ''workspace_id'' \<noteq> Text ws \<or> r ''secret_key'' \<noteq> Text key)))"
proof (induction ids arbitrary: k w)
  case (Cons id ids)
  obtain ws key where i: "id = (ws, key)" by fastforce
  let ?p = "And [Equal ''workspace_id'' (Text ws), Equal ''secret_key'' (Text key), Equal ''status'' (Text ''active'')]"
  let ?q = "And [subjectRowWriteAllowed secrets_table, ?p]"
  let ?f = "set_columns (expire_columns nowText)"
  obtain x d where upd: "update_rows secrets_table ?f ?q (w_db w) = (Inr x, d)" by (simp add: update_rows_def)
  let ?u = "w\<lparr>w_db := d, w_step := Suc (w_step w)\<rparr>"
  obtain n w' where rest: "expire_secrets E nowText (if x = 1 then k + 1 else k) ids ?u = (Inr (n, None), w')"
      "w_db w' fences = d fences"
      and left: "\<forall>r \<in> set (w_db w' secrets_table). r ''status'' = Text ''active'' \<longrightarrow>
       r \<in> set (d secrets_table) \<and> (row_fenced d secrets_table r \<or>
        (\<forall>(ws, key) \<in> set ids. r ''workspace_id'' \<noteq> Text ws \<or> r ''secret_key'' \<noteq> Text key))"
    using Cons.IH [of "if x = 1 then k + 1 else k" ?u] by auto
  have "expire_secrets E nowText k (id # ids) w = (Inr (n, None), w')"
    using assms upd rest(1) by (simp add: i calm_guarded_update seq_apply try_op_apply)
  moreover have d: "d fences = w_db w fences" "d secrets_table = map (\<lambda>r. if holds (w_db w) r ?q then ?f r else r) (w_db w secrets_table)"
    using upd by (auto simp: update_rows_def secrets_table_def fences_def)
  have "r \<in> set (w_db w secrets_table) \<and> (row_fenced (w_db w) secrets_table r \<or> r ''workspace_id'' \<noteq> Text ws \<or> r ''secret_key'' \<noteq> Text key)"
    if "r \<in> set (d secrets_table)" "r ''status'' = Text ''active''" for r
  proof -
    from that d(2) obtain s where s: "s \<in> set (w_db w secrets_table)" "r = (if holds (w_db w) s ?q then ?f s else s)" by auto
    with that(2) have "\<not> holds (w_db w) s ?q" by (auto simp: expire_columns_def)
    with s that(2) show ?thesis by (auto simp: where_simps)
  qed
  moreover have "row_fenced d secrets_table = row_fenced (w_db w) secrets_table" using d(1) by (simp add: row_fenced_def fun_eq_iff)
  ultimately show ?case using rest(2) left i d(1) by fastforce
qed simp

definition scannable_secrets :: "database \<Rightarrow> bool" where
  "scannable_secrets d \<longleftrightarrow> all_rows secrets_table (\<lambda>r. case (r ''workspace_id'', r ''secret_key'') of (Text ws, Text key) \<Rightarrow> True | _ \<Rightarrow> False) d"

lemma each_pure:
  "(\<And>x w. x \<in> set xs \<Longrightarrow> f x w = (Inr (g x), w)) \<Longrightarrow> each f xs w = (Inr (map g xs), w)"
  by (induction xs arbitrary: w) (simp_all add: seq_apply)


section \<open>The worker in a calm environment\<close>

definition demo_task :: providerTaskCandidate where
  "demo_task =
    \<lparr>tc_id = ''task:1'', tc_workspaceID = ''w1'', tc_connectorKey = ''crm'', tc_providerKey = ''echo'', tc_connectionKey = ''main'',
     tc_taskKey = ''poll'', tc_dueAt = [], tc_leaseExpiresAt = [], tc_stateVersion = 1, tc_attemptCount = 0,
     tc_payload = marshal (JObj []), tc_status = ''ready'', tc_fencingToken = 2\<rparr>"

text \<open>Its row while the worker holds it, and when another took it over.\<close>

definition demo_task_row :: "string \<Rightarrow> row" where
  "demo_task_row holder = row_of
    [(''id'', Text ''task:1''), (''workspace_id'', Text ''w1''), (''status'', Text ''processing''), (''attempt_count'', Num 0),
     (''lease_owner'', Text holder), (''fencing_token'', Num 3)]"

definition task_db :: "string \<Rightarrow> database" where
  "task_db holder = (\<lambda>t. if t = states_table then [demo_task_row holder] else [])"

definition demo_result :: BackgroundResult where
  "demo_result =
    \<lparr>bg_State = marshal (JObj [(''cursor'', JStr ''9'')]), bg_NextDueAt = zero_time, bg_Events = [],
     bg_Commit = [\<lparr>bc_OperationKey = ''send'', bc_ContractSHA256 = od_ContractSHA256 (echo_operation EffectWrite), bc_Payload = marshal JNull\<rparr>],
     bg_WakeTasks = [''other''], bg_SecretUpdates = []\<rparr>"

lemma task_db_calm: "keeps_task_rows u echo_env"
  using echo_env_alone unfolding alone_def keeps_task_rows_def by simp

theorem task_rows_wellformed_witness:
  "all_rows states_table task_row_ok (w_db (fold (\<lambda>(E, worker, limit) w. snd (ProcessDueProviderTasks E worker limit w))
     [(echo_env, ''a'', 10), (echo_env, ''b'', 0)] (world_of (task_db ''a:integration''))))"
  by (rule task_rows_wellformed)
    (simp_all add: task_db_calm all_rows_def world_of_def task_db_def task_row_ok_def demo_task_row_def)

theorem stale_task_result_discarded_witness:
  "w_db (snd (commitProviderTaskResult echo_env ''a:integration'' demo_task demo_result 0 (world_of (task_db ''b:integration'')))) =
    task_db ''b:integration''"
proof -
  have "\<not> task_held (w_db (world_of (task_db ''b:integration''))) ''a:integration'' demo_task"
    by (simp add: task_held_def world_of_def task_db_def demo_task_row_def holder_where_def where_simps)
  from stale_task_result_discarded [OF echo_env_alone this] show ?thesis by (simp add: world_of_def)
qed

theorem task_result_complete_witness:
  "\<exists>w'. commitProviderTaskResult echo_env ''a:integration'' demo_task demo_result 0 (world_of (task_db ''a:integration'')) = (Inr (), w') \<and>
    has_row states_table (task_state_stored demo_task demo_result) (w_db w') \<and>
    has_row commits_table (task_commit_stored echo_env demo_task (0, hd (bg_Commit demo_result))) (w_db w')"
proof -
  obtain w' where run: "commitProviderTaskResult echo_env ''a:integration'' demo_task demo_result 0 (world_of (task_db ''a:integration'')) = (Inr (), w')"
    by (simp add: commitProviderTaskResult_def task_result_body_def run_steps update_rows_def where_simps row_fenced_def world_of_def
        demo_task_def demo_task_row_def task_db_def demo_result_def holder_where_def store_task_commit_def wake_task_def
        providerOperationForWorker_def providerOperation_def echo_provider_def echo_operation_def conflicts_def)
  from task_result_complete [OF echo_env_alone run] run show ?thesis by (auto simp: demo_result_def)
qed

theorem abandoned_tasks_never_run_witness:
  "\<exists>n e w'. processProviderTasks echo_env ''b:integration'' 10 (world_of (task_db ''a:integration'')) = (Inr (n, e), w') \<and> n = 0"
proof -
  obtain n e w' where run: "processProviderTasks echo_env ''b:integration'' 10 (world_of (task_db ''a:integration'')) = (Inr (n, e), w')"
    by (simp add: processProviderTasks_def run_steps select_rows_def world_of_def task_db_def demo_task_row_def due_rows_def where_simps ascending_def)
  have "all_rows states_table (\<lambda>r. r ''status'' = Text ''processing'') (w_db (world_of (task_db ''a:integration'')))"
    by (simp add: all_rows_def world_of_def task_db_def demo_task_row_def)
  from abandoned_tasks_never_run [OF echo_env_alone this run] run show ?thesis by blast
qed

definition demo_write_row :: row where
  "demo_write_row = row_of
    [(''id'', Text ''account-write:1''), (''workspace_id'', Text ''w1''), (''status'', Text ''failed''),
     (''updated_at'', Text ''2026-01-01T00:00:00Z'')]"

theorem account_writes_not_reconciled_witness:
  "row_kept demo_write_row (w_db (snd (ProcessDueReconciliations echo_env 10
     (world_of (\<lambda>t. if t = invocations_table then [demo_write_row] else [])))))"
proof (rule account_writes_not_reconciled [where i = "''1''"])
  show "row_kept demo_write_row d \<Longrightarrow> row_kept demo_write_row (ev_others echo_env n d)" for n d
    using echo_env_alone by (simp add: alone_def)
qed (simp_all add: row_kept_def world_of_def demo_write_row_def)

definition demo_expired_secret :: row where
  "demo_expired_secret = row_of
    [(''id'', Text ''s1''), (''workspace_id'', Text ''w1''), (''secret_key'', Text ''token''), (''status'', Text ''active''),
     (''expires_at'', Text ''2025-01-01T00:00:00Z'')]"


end
