(* ===== verification/SubjectErasure.thy ===== *)
theory SubjectErasure
  imports ProviderWorker "HOL-Library.Product_Lexorder"
begin

text \<open>
  \<open>subject_erasure.go\<close>, \<open>subject_event_provenance.go\<close> and the service in front: the erasure of a subject
  in two steps, each one serializable transaction. The preparation collects what belongs to the
  subject into a plan, puts up the fences that the other stores respect, and saves the plan with a
  receipt; the erasure deletes or anonymizes the rows of that plan. The lemmas say what is left
  afterwards, and what is not touched.
\<close>

definition receipts_table :: string where "receipts_table = ''_integration_subject_erasure_receipts''"
definition leases_table :: string where "leases_table = ''_integration_credential_refresh_leases''"
definition sessions_table :: string where "sessions_table = ''_integration_oauth_sessions''"
definition api_keys_table :: string where "api_keys_table = ''_integration_api_keys''"

section \<open>The plan and its stored form\<close>

record subjectRow =
  sr_Table :: string
  sr_ID :: string

record subjectExternalFence =
  sef_Provider :: string
  sef_SubjectSHA256 :: string

record subjectPlan =
  spl_Request :: SubjectErasureRequest
  spl_ConnectionKeys :: "string list"
  spl_SecretKeys :: "string list"
  spl_ExternalFences :: "subjectExternalFence list"
  spl_Rows :: "subjectRow list"

text \<open>
  The request as it is compared and saved: without legal holds, its lists sorted and without
  repetitions.
\<close>

definition normalizeSubjectRequest :: "SubjectErasureRequest \<Rightarrow> SubjectErasureRequest" where
  "normalizeSubjectRequest r =
    r\<lparr>ser_LegalHolds := raw_nil,
      ser_Resources := map (\<lambda>(object, record). \<lparr>ref_ObjectKey = object, ref_RecordID = record\<rparr>)
        (sort (remdups (map (\<lambda>ref. (ref_ObjectKey ref, ref_RecordID ref)) (ser_Resources r)))),
      ser_PublicationMessageIDs := sort (remdups (ser_PublicationMessageIDs r)),
      ser_EventIDs := sort (remdups (ser_EventIDs r))\<rparr>"

definition reference_json :: "SubjectRecordReference \<Rightarrow> json" where
  "reference_json ref = JObj [(''object_key'', JStr (ref_ObjectKey ref)), (''record_id'', JStr (ref_RecordID ref))]"

definition texts_json :: "string list \<Rightarrow> json" where
  "texts_json ts = JArr (map JStr ts)"

definition request_json :: "SubjectErasureRequest \<Rightarrow> json" where
  "request_json r = JObj
    ([(''workspace_id'', JStr (ser_WorkspaceID r)), (''subject_id'', JStr (ser_SubjectID r))] @
     entry_if (ser_RequestID r \<noteq> []) ''request_id'' (JStr (ser_RequestID r)) @
     entry_if (ser_Resources r \<noteq> []) ''resources'' (JArr (map reference_json (ser_Resources r))) @
     entry_if (ser_PublicationMessageIDs r \<noteq> []) ''publication_message_ids'' (texts_json (ser_PublicationMessageIDs r)) @
     entry_if (ser_EventIDs r \<noteq> []) ''event_ids'' (texts_json (ser_EventIDs r)) @
     (case raw_value (ser_LegalHolds r) of None \<Rightarrow> [] | Some j \<Rightarrow> [(''legal_holds'', j)]))"

definition external_fence_json :: "subjectExternalFence \<Rightarrow> json" where
  "external_fence_json f = JObj [(''provider'', JStr (sef_Provider f)), (''subject_sha256'', JStr (sef_SubjectSHA256 f))]"

definition subject_row_json :: "subjectRow \<Rightarrow> json" where
  "subject_row_json r = JObj [(''table'', JStr (sr_Table r)), (''id'', JStr (sr_ID r))]"

definition plan_json :: "subjectPlan \<Rightarrow> json" where
  "plan_json p = JObj
    [(''request'', request_json (spl_Request p)), (''connection_keys'', texts_json (spl_ConnectionKeys p)),
     (''secret_keys'', texts_json (spl_SecretKeys p)),
     (''external_fences'', JArr (map external_fence_json (spl_ExternalFences p))),
     (''rows'', JArr (map subject_row_json (spl_Rows p)))]"

definition member_texts :: "(string \<times> json) list \<Rightarrow> string \<Rightarrow> string list option" where
  "member_texts m k = (case member_list m k of None \<Rightarrow> None | Some js \<Rightarrow> decode_strings js)"

text \<open>A list of structs with two text members.\<close>

fun decode_pairs :: "string \<Rightarrow> string \<Rightarrow> json list \<Rightarrow> (string \<times> string) list option" where
  "decode_pairs a b [] = Some []"
| "decode_pairs a b (j # js) =
    (case members j of
       None \<Rightarrow> None
     | Some m \<Rightarrow>
         (case (member_text m a, member_text m b, decode_pairs a b js) of
            (Some x, Some y, Some ps) \<Rightarrow> Some ((x, y) # ps)
          | _ \<Rightarrow> None))"

definition member_pairs :: "(string \<times> json) list \<Rightarrow> string \<Rightarrow> string \<Rightarrow> string \<Rightarrow> (string \<times> string) list option" where
  "member_pairs m k a b = (case member_list m k of None \<Rightarrow> None | Some js \<Rightarrow> decode_pairs a b js)"

definition decode_request :: "(string \<times> json) list \<Rightarrow> SubjectErasureRequest option" where
  "decode_request m =
    (case (member_text m ''workspace_id'', member_text m ''subject_id'', member_text m ''request_id'',
           member_pairs m ''resources'' ''object_key'' ''record_id'', member_texts m ''publication_message_ids'',
           member_texts m ''event_ids'') of
       (Some ws, Some subject, Some request, Some resources, Some messages, Some events) \<Rightarrow>
         Some \<lparr>ser_WorkspaceID = ws, ser_SubjectID = subject, ser_RequestID = request,
               ser_Resources = map (\<lambda>(object, record). \<lparr>ref_ObjectKey = object, ref_RecordID = record\<rparr>) resources,
               ser_PublicationMessageIDs = messages, ser_EventIDs = events,
               ser_LegalHolds = (case map_of m ''legal_holds'' of None \<Rightarrow> raw_nil | Some j \<Rightarrow> marshal j)\<rparr>
     | _ \<Rightarrow> None)"

definition decode_plan :: "raw_message \<Rightarrow> subjectPlan option" where
  "decode_plan raw =
    (case decode_object raw of
       None \<Rightarrow> None
     | Some m \<Rightarrow>
         (case (case member_object m ''request'' of None \<Rightarrow> None | Some ms \<Rightarrow> decode_request ms,
                member_texts m ''connection_keys'', member_texts m ''secret_keys'',
                member_pairs m ''external_fences'' ''provider'' ''subject_sha256'', member_pairs m ''rows'' ''table'' ''id'') of
            (Some request, Some connections, Some secrets, Some external, Some rows) \<Rightarrow>
              Some \<lparr>spl_Request = request, spl_ConnectionKeys = connections, spl_SecretKeys = secrets,
                    spl_ExternalFences = map (\<lambda>(p, s). \<lparr>sef_Provider = p, sef_SubjectSHA256 = s\<rparr>) external,
                    spl_Rows = map (\<lambda>(t, i). \<lparr>sr_Table = t, sr_ID = i\<rparr>) rows\<rparr>
          | _ \<Rightarrow> None))"

section \<open>What is erased, and how\<close>

text \<open>
  One entry per table: the column that says whether a row is in use and the values for which it
  is, whether rows are deleted or set to the given values, and whether a claim on the row is
  taken away by raising its fencing token.
\<close>

record subjectSpec =
  sps_table :: string
  sps_status :: string
  sps_busy :: "string list"
  sps_erase :: bool
  sps_token :: bool
  sps_values :: "(string \<times> sql) list"

definition erase_spec :: "string \<Rightarrow> string \<Rightarrow> string list \<Rightarrow> subjectSpec" where
  "erase_spec t status busy =
    \<lparr>sps_table = t, sps_status = status, sps_busy = busy, sps_erase = True, sps_token = False, sps_values = []\<rparr>"

definition anonymize_spec :: "string \<Rightarrow> string \<Rightarrow> string list \<Rightarrow> bool \<Rightarrow> (string \<times> sql) list \<Rightarrow> subjectSpec" where
  "anonymize_spec t status busy token vs =
    \<lparr>sps_table = t, sps_status = status, sps_busy = busy, sps_erase = False, sps_token = token, sps_values = vs\<rparr>"

definition empty_object :: sql where "empty_object = Doc (marshal (JObj []))"

definition subjectSpecs :: "subjectSpec list" where
  "subjectSpecs =
    [anonymize_spec accounts_table [] [] False [(''created_by'', Text ''anonymous'')],
     anonymize_spec connections_table ''status'' [] False
       [(''name'', Text []), (''config_json'', empty_object), (''secret_refs_json'', empty_object),
        (''created_by'', Text ''anonymous''), (''status'', Text ''revoked'')],
     erase_spec account_secrets_table [] [],
     erase_spec grants_table [] [],
     anonymize_spec states_table ''status'' [''processing'', ''running''] True
       [(''payload_json'', empty_object), (''status'', Text ''cancelled''), (''lease_owner'', Text []),
        (''lease_expires_at'', Text []), (''due_at'', Text []), (''last_error_code'', Text ''integration.subject_erased'')],
     anonymize_spec commits_table ''status'' [''processing'', ''running''] True
       [(''payload_json'', empty_object), (''status'', Text ''cancelled''), (''lease_owner'', Text []),
        (''lease_expires_at'', Text []), (''due_at'', Text [])],
     erase_spec leases_table ''lease_expires_at'' [],
     anonymize_spec ''_integration_webhook_subscriptions'' ''status'' [] False
       [(''name'', Text []), (''description'', Text []), (''event_types_json'', Doc (marshal (JArr []))),
        (''created_by'', Text ''anonymous''), (''status'', Text ''disabled'')],
     erase_spec sessions_table ''status'' [''exchanging''],
     erase_spec push_table ''status'' [],
     erase_spec api_keys_table ''status'' [],
     erase_spec identities_table ''status'' [],
     erase_spec secrets_table ''status'' [],
     erase_spec materials_table [] [],
     anonymize_spec invocations_table ''status'' [''running'', ''processing'', ''reconciling''] False
       [(''metadata_json'', empty_object), (''request_ref'', Text []), (''response_ref'', Text []), (''error'', Text []),
        (''status'', Text ''failed'')],
     anonymize_spec events_table ''status'' [''processing'', ''running''] True
       [(''payload_json'', empty_object), (''error'', Text []), (''status'', Text ''cancelled''), (''next_retry_at'', Text []),
        (''lease_owner'', Text []), (''lease_expires_at'', Text [])],
     anonymize_spec intents_table ''status'' [] False [(''payload_json'', empty_object), (''status'', Text ''cancelled'')]]"

section \<open>Collecting the plan\<close>

text \<open>Selections and updates of one workspace.\<close>

definition workspace_where :: "string \<Rightarrow> predicate \<Rightarrow> predicate" where
  "workspace_where ws p = And [Equal ''workspace_id'' (Text ws), p]"

definition subjectIn :: "string \<Rightarrow> string list \<Rightarrow> predicate" where
  "subjectIn column ids = (if ids = [] then AlwaysFalse else In column (map Text ids))"

definition subjectResources :: "SubjectRecordReference list \<Rightarrow> predicate" where
  "subjectResources refs =
    Or (AlwaysFalse # map (\<lambda>ref. And [Equal ''object_key'' (Text (ref_ObjectKey ref)), Equal ''record_id'' (Text (ref_RecordID ref))]) refs)"

definition inventory_limit :: nat where "inventory_limit = 10000"

definition limit_exceeded :: err where "limit_exceeded = Errorf ''Integration subject inventory exceeds limit'' []"

definition busy_error :: "string \<Rightarrow> err" where "busy_error t = Errorf ''integration.subject_busy: %s'' [t]"

definition refresh_busy :: err where "refresh_busy = Errorf ''integration.subject_busy: credential refresh'' []"

text \<open>A refresh lease that has not ended, or whose end cannot be read, is busy.\<close>

definition lease_check :: "env \<Rightarrow> subjectSpec \<Rightarrow> string \<Rightarrow> unit dbop" where
  "lease_check E sp status =
    (if sps_table sp = leases_table \<and> status \<noteq> [] then
       (case parse_rfc3339 status of
          None \<Rightarrow> throw refresh_busy
        | Some deadline \<Rightarrow> seq (now E) (\<lambda>t. check (\<not> deadline > t) refresh_busy))
     else ret ())"

fun scan_subject_rows :: "env \<Rightarrow> subjectSpec \<Rightarrow> bool \<Rightarrow> nat \<Rightarrow> row list \<Rightarrow> subjectRow list dbop" where
  "scan_subject_rows E sp prep n [] = ret []"
| "scan_subject_rows E sp prep n (r # rs) =
    (let status = (if sps_status sp = [] then [] else text_of (r (sps_status sp))) in
     seq (scan_texts r [''id'']) (\<lambda>_.
     seq (check (\<not> (prep \<and> status \<in> set (sps_busy sp))) (busy_error (sps_table sp))) (\<lambda>_.
     seq (if prep then lease_check E sp status else ret ()) (\<lambda>_.
     seq (check (n + 1 \<le> inventory_limit) limit_exceeded) (\<lambda>_.
     seq (scan_subject_rows E sp prep (n + 1) rs) (\<lambda>found.
     ret (\<lparr>sr_Table = sps_table sp, sr_ID = text_of (r ''id'')\<rparr> # found)))))))"

definition selectIDs :: "env \<Rightarrow> SubjectErasureRequest \<Rightarrow> subjectSpec \<Rightarrow> predicate \<Rightarrow> bool \<Rightarrow> subjectRow list dbop" where
  "selectIDs E r sp p prep =
    seq (select E (sps_table sp) (workspace_where (ser_WorkspaceID r) p)) (\<lambda>rs.
    scan_subject_rows E sp prep 0 (ascending ''id'' rs))"

text \<open>The secrets that connections refer to: those of the given connections, and those of others.\<close>

definition secret_names :: "(string \<times> string) list \<Rightarrow> string list" where
  "secret_names refs =
    map (\<lambda>(k, ref). trim_prefix ref ''secret:'') (filter (\<lambda>(k, ref). has_prefix ref ''secret:'') refs)"

definition connection_secrets :: "string list \<Rightarrow> row \<Rightarrow> (bool \<times> string list) dbop" where
  "connection_secrets connections r =
    seq (scan_texts r [''connection_key'', ''secret_refs_json'']) (\<lambda>_.
    case decode_string_map (doc_of (r ''secret_refs_json'')) of
      None \<Rightarrow> throw (Errorf ''Integration connection secret references invalid'' [])
    | Some refs \<Rightarrow> ret (text_of (r ''connection_key'') \<in> set connections, secret_names refs))"

definition private_secrets :: "(bool \<times> string list) list \<Rightarrow> string list \<Rightarrow> string list" where
  "private_secrets found reserved =
    (let owned = concat (map snd (filter fst found)) @ reserved;
         shared = concat (map snd (filter (\<lambda>x. \<not> fst x) found)) in
     sort (remdups (filter (\<lambda>key. key \<notin> set shared) owned)))"

text \<open>The external identities of the subject, and whether an event is about the subject.\<close>

definition external_fence :: "env \<Rightarrow> row \<Rightarrow> subjectExternalFence dbop" where
  "external_fence E r =
    seq (scan_texts r [''provider'', ''external_subject'']) (\<lambda>_.
    ret \<lparr>sef_Provider = text_of (r ''provider''),
         sef_SubjectSHA256 = ev_sha256 E (trim_space (text_of (r ''external_subject'')))\<rparr>)"

definition sorted_fences :: "subjectExternalFence list \<Rightarrow> subjectExternalFence list" where
  "sorted_fences fs =
    map (\<lambda>(p, s). \<lparr>sef_Provider = p, sef_SubjectSHA256 = s\<rparr>)
      (sort (remdups (map (\<lambda>f. (sef_Provider f, sef_SubjectSHA256 f)) fs)))"

definition scan_mapping :: "row \<Rightarrow> EventMappingRequirement dbop" where
  "scan_mapping r =
    seq (scan_texts r [''payload_json'']) (\<lambda>_.
    case (case raw_value (doc_of (r ''payload_json'')) of None \<Rightarrow> None | Some j \<Rightarrow> decode_mapping j) of
      None \<Rightarrow> throw (Errorf ''json'' [])
    | Some mapping \<Rightarrow> ret mapping)"

definition given_or_path :: "(string \<times> json) list \<Rightarrow> string \<Rightarrow> string \<Rightarrow> string" where
  "given_or_path payload v path =
    (if v = [] \<and> path \<noteq> [] then
       (case integrationPayloadPath payload path of None \<Rightarrow> [] | Some j \<Rightarrow> trim_space (sprint j))
     else v)"

definition event_covered ::
    "env \<Rightarrow> SubjectErasureRequest \<Rightarrow> string list \<Rightarrow> subjectExternalFence list \<Rightarrow> EventMappingRequirement list \<Rightarrow>
     Event \<Rightarrow> (string \<times> json) list \<Rightarrow> bool" where
  "event_covered E r connections owned mappings event payload =
    (let connection = (case integrationPayloadPath payload ''_integration_context.connection_key'' of None \<Rightarrow> JNull | Some j \<Rightarrow> j);
         verified = (case integrationPayloadPath payload ''_integration_context.verified_external_subject'' of
                       Some (JStr s) \<Rightarrow> s | _ \<Rightarrow> []);
         owns = (\<lambda>provider subject. \<lparr>sef_Provider = provider, sef_SubjectSHA256 = ev_sha256 E subject\<rparr> \<in> set owned) in
     trim_space (sprint connection) \<in> set connections \<or>
     verified \<noteq> [] \<and> owns (evt_Provider event) (trim_space verified) \<or>
     (case find (\<lambda>mapping. eventMappingMatches mapping event) mappings of
        None \<Rightarrow> False
      | Some mapping \<Rightarrow>
          (let (provider, subject) = mappedSubject mapping event;
               subject = (if trim_space verified \<noteq> [] then trim_space verified else subject);
               object = given_or_path payload (em_ObjectKey mapping) (em_ObjectKeyPath mapping);
               record = given_or_path payload (em_RecordID mapping) (em_RecordIDPath mapping) in
           subject \<noteq> [] \<and> owns provider subject \<or>
           \<lparr>ref_ObjectKey = object, ref_RecordID = record\<rparr> \<in> set (ser_Resources r))))"

definition provenance_event :: "row \<Rightarrow> Event" where
  "provenance_event r =
    zero_event\<lparr>evt_ID := text_of (r ''id''), evt_Provider := text_of (r ''provider''),
               evt_EventType := text_of (r ''event_type''), evt_Payload := doc_of (r ''payload_json'')\<rparr>"

fun add_events :: "(Event \<Rightarrow> (string \<times> json) list \<Rightarrow> bool) \<Rightarrow> string list \<Rightarrow> row list \<Rightarrow> string list dbop" where
  "add_events covered ids [] = ret ids"
| "add_events covered ids (r # rs) =
    seq (scan_texts r [''id'', ''provider'', ''event_type'', ''payload_json'']) (\<lambda>_.
    let event = provenance_event r in
    case decode_object (evt_Payload event) of
      None \<Rightarrow> add_events covered ids rs
    | Some payload \<Rightarrow>
        if covered event payload \<and> evt_ID event \<notin> set ids then
          seq (check (length ids + 1 \<le> inventory_limit) (Errorf ''Integration subject events exceed limit'' [])) (\<lambda>_.
          add_events covered (ids @ [evt_ID event]) rs)
        else add_events covered ids rs)"

definition subjectEvents :: "env \<Rightarrow> SubjectErasureRequest \<Rightarrow> string list \<Rightarrow> (string list \<times> subjectExternalFence list) dbop" where
  "subjectEvents E r connections =
    seq (select E identities_table (workspace_where (ser_WorkspaceID r) (Equal ''actor_id'' (Text (ser_SubjectID r))))) (\<lambda>rs.
    seq (each (external_fence E) rs) (\<lambda>owned.
    seq (select E mappings_table (And [Equal ''object_key'' (Text (ser_WorkspaceID r)), IsNull ''disabled_at''])) (\<lambda>rs.
    seq (each scan_mapping (ascending ''resource_key'' rs)) (\<lambda>mappings.
    seq (select E events_table (Equal ''workspace_id'' (Text (ser_WorkspaceID r)))) (\<lambda>rs.
    seq (add_events (event_covered E r connections owned mappings) (ser_EventIDs r) rs) (\<lambda>ids.
    ret (sort (remdups ids), sorted_fences owned)))))))"

text \<open>The typed actor and source in the metadata of an invocation.\<close>

definition invocation_covered :: "SubjectErasureRequest \<Rightarrow> raw_message \<Rightarrow> bool" where
  "invocation_covered r metadata =
    (case decode_object metadata of
       None \<Rightarrow> False
     | Some m \<Rightarrow>
         (case (member_text m ''kind'', member_text m ''actor_id'', member_object m ''source'') of
            (Some kind, Some actor, Some source) \<Rightarrow>
              (case (member_text source ''execution_id'', member_text source ''object_key'', member_text source ''record_id'') of
                 (Some execution, Some object, Some record) \<Rightarrow>
                   kind \<in> {''account-write-v1'', ''operation-v1''} \<and>
                   (actor = ser_SubjectID r \<or>
                    kind = ''operation-v1'' \<and> \<lparr>ref_ObjectKey = object, ref_RecordID = record\<rparr> \<in> set (ser_Resources r))
               | _ \<Rightarrow> False)
          | _ \<Rightarrow> False))"

text \<open>The rows of one table that belong to the subject.\<close>

definition subject_predicate ::
    "SubjectErasureRequest \<Rightarrow> string list \<Rightarrow> string list \<Rightarrow> string list \<Rightarrow> string list \<Rightarrow> string \<Rightarrow> predicate" where
  "subject_predicate r connections secrets events invocations t =
    (if t = sessions_table \<or> t = push_table then Equal ''user_id'' (Text (ser_SubjectID r))
     else if t = api_keys_table \<or> t = identities_table then Equal ''actor_id'' (Text (ser_SubjectID r))
     else if t = secrets_table \<or> t = materials_table then subjectIn ''secret_key'' secrets
     else if t = invocations_table then
       Or [subjectIn ''connection_key'' connections, subjectIn ''id'' invocations,
           subjectIn ''request_ref'' (ser_PublicationMessageIDs r), subjectIn ''event_id'' events,
           subjectResources (ser_Resources r)]
     else if t = events_table then subjectIn ''id'' events
     else if t = intents_table then subjectIn ''event_id'' events
     else subjectIn ''connection_key'' connections)"

fun collect_rows :: "env \<Rightarrow> SubjectErasureRequest \<Rightarrow> (string \<Rightarrow> predicate) \<Rightarrow> bool \<Rightarrow> nat \<Rightarrow> subjectSpec list \<Rightarrow> subjectRow list dbop" where
  "collect_rows E r p prep n [] = ret []"
| "collect_rows E r p prep n (sp # sps) =
    seq (selectIDs E r sp (p (sps_table sp)) prep) (\<lambda>found.
    seq (check (n + length found \<le> inventory_limit) limit_exceeded) (\<lambda>_.
    seq (collect_rows E r p prep (n + length found) sps) (\<lambda>more_rows. ret (found @ more_rows))))"

definition scan_key :: "string \<Rightarrow> row \<Rightarrow> string dbop" where
  "scan_key c r = seq (scan_texts r [c]) (\<lambda>_. ret (text_of (r c)))"

definition subject_collect :: "env \<Rightarrow> SubjectErasureRequest \<Rightarrow> bool \<Rightarrow> subjectPlan dbop" where
  "subject_collect E r prep =
    (let ws = ser_WorkspaceID r in
     seq (select E accounts_table (workspace_where ws
            (And [Equal ''scope'' (Text ''personal''), Equal ''owner_user_id'' (Text (ser_SubjectID r))]))) (\<lambda>rs.
     seq (each (scan_key ''connection_key'') (ascending ''connection_key'' rs)) (\<lambda>connections.
     seq (select E connections_table (Equal ''workspace_id'' (Text ws))) (\<lambda>rs.
     seq (each (connection_secrets connections) rs) (\<lambda>referenced.
     seq (select E account_secrets_table (workspace_where ws (subjectIn ''connection_key'' connections))) (\<lambda>rs.
     seq (each (scan_key ''secret_key'') rs) (\<lambda>reserved.
     let secrets = private_secrets referenced reserved in
     seq (subjectEvents E r connections) (\<lambda>(events, external).
     seq (select E invocations_table (Equal ''workspace_id'' (Text ws))) (\<lambda>rs.
     seq (each (\<lambda>q. seq (scan_texts q [''id'', ''metadata_json'']) (\<lambda>_.
            ret (if invocation_covered r (doc_of (q ''metadata_json'')) then [text_of (q ''id'')] else []))) rs) (\<lambda>invocations.
     seq (collect_rows E r (subject_predicate r connections secrets events (concat invocations)) prep 0 subjectSpecs) (\<lambda>rows.
     ret \<lparr>spl_Request = normalizeSubjectRequest r, spl_ConnectionKeys = connections, spl_SecretKeys = secrets,
          spl_ExternalFences = external, spl_Rows = rows\<rparr>)))))))))))"

section \<open>Preview, preparation, erasure\<close>

text \<open>A transaction that is only rolled back: the preview commits nothing.\<close>

definition rolled_back :: "env \<Rightarrow> 'a dbop \<Rightarrow> 'a dbop" where
  "rolled_back E body = (\<lambda>w.
    let u = before_step E w in
    if ev_fault E (w_step w) \<noteq> Fine then (Inl StorageErr, u)
    else (case body (u\<lparr>w_tx := True\<rparr>) of (x, v) \<Rightarrow> (x, v\<lparr>w_db := w_db u, w_tx := w_tx w\<rparr>)))"

definition PreviewSubject :: "env \<Rightarrow> SubjectErasureRequest \<Rightarrow> raw_message dbop" where
  "PreviewSubject E r =
    rolled_back E
      (seq (subject_collect E r False) (\<lambda>p.
       ret (marshal (JObj
         [(''owner'', JStr ''integration''), (''personal_connections'', JNum (int (length (spl_ConnectionKeys p))) 0),
          (''private_credentials'', JNum (int (length (spl_SecretKeys p))) 0),
          (''records'', JNum (int (length (spl_Rows p))) 0)]))))"

text \<open>The receipt of a request: its plan and its result, or nothing where there is none.\<close>

definition subject_receipt :: "env \<Rightarrow> SubjectErasureRequest \<Rightarrow> (raw_message \<times> raw_message) option dbop" where
  "subject_receipt E r =
    seq (select_row E receipts_table (workspace_where (ser_WorkspaceID r) (Equal ''request_id'' (Text (ser_RequestID r))))) (\<lambda>found.
    case found of
      None \<Rightarrow> ret None
    | Some q \<Rightarrow>
        seq (scan_texts q [''subject_id'', ''plan_json'', ''result_json'']) (\<lambda>_.
        seq (check (text_of (q ''subject_id'') = ser_SubjectID r) (Errorf ''Integration erasure receipt subject mismatch'' [])) (\<lambda>_.
        ret (Some (doc_of (q ''plan_json''), doc_of (q ''result_json''))))))"

definition subjectReceiptPlan :: "SubjectErasureRequest \<Rightarrow> raw_message \<Rightarrow> raw_message dbop" where
  "subjectReceiptPlan r saved =
    (case decode_plan saved of
       None \<Rightarrow> throw (Errorf ''Integration source receipt invalid'' [])
     | Some p \<Rightarrow>
         seq (check (request_json (normalizeSubjectRequest r) = request_json (spl_Request p))
                (Errorf ''Integration erasure request provenance conflicts'' [])) (\<lambda>_.
         ret saved))"

definition fence_id :: "env \<Rightarrow> string \<Rightarrow> string \<Rightarrow> string \<Rightarrow> string \<Rightarrow> string" where
  "fence_id E ws kind object ident = ownerID E ''erasure-fence:'' ws (kind @ [CHR 0x00] @ object @ [CHR 0x00] @ ident)"

definition put_fence :: "env \<Rightarrow> SubjectErasureRequest \<Rightarrow> string \<times> string \<times> string \<Rightarrow> unit dbop" where
  "put_fence E r fence =
    (case fence of (kind, object, ident) \<Rightarrow>
      seq (select_row E fences (workspace_where (ser_WorkspaceID r)
             (And [Equal ''kind'' (Text kind), Equal ''object_key'' (Text object), Equal ''resource_id'' (Text ident)]))) (\<lambda>found.
      case found of
        Some q \<Rightarrow> scan_texts q [''id'']
      | None \<Rightarrow>
          seq (insert_into E fences
            [(''workspace_id'', Text (ser_WorkspaceID r)), (''id'', Text (fence_id E (ser_WorkspaceID r) kind object ident)),
             (''kind'', Text kind), (''object_key'', Text object), (''resource_id'', Text ident),
             (''request_id'', Text (ser_RequestID r))]) (\<lambda>_. ret ())))"

text \<open>The fences of a plan, in the order they are put up.\<close>

definition plan_fences :: "SubjectErasureRequest \<Rightarrow> subjectPlan \<Rightarrow> (string \<times> string \<times> string) list" where
  "plan_fences r p =
    [(''subject'', [], ser_SubjectID r)] @
    map (\<lambda>key. (''connection'', [], key)) (spl_ConnectionKeys p) @
    map (\<lambda>key. (''secret'', [], key)) (spl_SecretKeys p) @
    map (\<lambda>i. (''message'', [], i)) (ser_PublicationMessageIDs r) @
    map (\<lambda>ref. (''resource'', ref_ObjectKey ref, ref_RecordID ref)) (ser_Resources r) @
    map (\<lambda>f. (''external'', sef_Provider f, sef_SubjectSHA256 f)) (spl_ExternalFences p)"

text \<open>The row is marked, and a claim on it is taken away.\<close>

definition mark_row :: "subjectSpec \<Rightarrow> row \<Rightarrow> row" where
  "mark_row sp r =
    set_columns ((sps_status sp, Text ''erasing'') #
      (if sps_token sp then
         [(''fencing_token'', case r ''fencing_token'' of Num n \<Rightarrow> Num (n + 1) | _ \<Rightarrow> Null), (''lease_owner'', Text []),
          (''lease_expires_at'', Text [])]
       else [])) r"

definition mark_erasing :: "env \<Rightarrow> SubjectErasureRequest \<Rightarrow> subjectRow \<Rightarrow> subjectSpec \<Rightarrow> unit dbop" where
  "mark_erasing E r row sp =
    (if sps_table sp \<noteq> sr_Table row \<or> sps_status sp = [] \<or> sps_table sp = leases_table then ret ()
     else
       seq (statement E (update_rows (sps_table sp) (mark_row sp)
              (workspace_where (ser_WorkspaceID r) (Equal ''id'' (Text (sr_ID row)))))) (\<lambda>_. ret ()))"

definition prepare_row :: "env \<Rightarrow> SubjectErasureRequest \<Rightarrow> subjectRow \<Rightarrow> unit dbop" where
  "prepare_row E r row =
    seq (put_fence E r (''row'', sr_Table row, sr_ID row)) (\<lambda>_.
    seq (each (mark_erasing E r row) subjectSpecs) (\<lambda>_. ret ()))"

definition receipt_columns :: "env \<Rightarrow> SubjectErasureRequest \<Rightarrow> subjectPlan \<Rightarrow> (string \<times> sql) list" where
  "receipt_columns E r p =
    [(''workspace_id'', Text (ser_WorkspaceID r)),
     (''id'', Text (ownerID E ''erasure-receipt:'' (ser_WorkspaceID r) (ser_RequestID r))),
     (''request_id'', Text (ser_RequestID r)), (''subject_id'', Text (ser_SubjectID r)),
     (''plan_json'', Doc (marshal (plan_json p))), (''result_json'', Doc raw_nil)]"

definition prepare_body :: "env \<Rightarrow> SubjectErasureRequest \<Rightarrow> raw_message dbop" where
  "prepare_body E r =
    seq (subject_receipt E r) (\<lambda>saved. case saved of
      Some (plan, result) \<Rightarrow> subjectReceiptPlan r plan
    | None \<Rightarrow>
        seq (subject_collect E r True) (\<lambda>p.
        seq (each (put_fence E r) (plan_fences r p)) (\<lambda>_.
        seq (each (prepare_row E r) (spl_Rows p)) (\<lambda>_.
        seq (insert_into E receipts_table (receipt_columns E r p)) (\<lambda>_.
        ret (marshal (plan_json p)))))))"

definition PrepareSubjectErasure :: "env \<Rightarrow> SubjectErasureRequest \<Rightarrow> raw_message dbop" where
  "PrepareSubjectErasure E r =
    seq (subject_receipt E r) (\<lambda>saved. case saved of
      Some (plan, result) \<Rightarrow> subjectReceiptPlan r plan
    | None \<Rightarrow> transaction E (prepare_body E r))"

definition spec_of :: "string \<Rightarrow> subjectSpec option" where
  "spec_of t = find (\<lambda>sp. sps_table sp = t) subjectSpecs"

definition erase_columns :: "subjectSpec \<Rightarrow> string \<Rightarrow> (string \<times> sql) list" where
  "erase_columns sp stamp = (''updated_at'', Text stamp) # sort_key fst (sps_values sp)"

definition erase_row :: "env \<Rightarrow> SubjectErasureRequest \<Rightarrow> subjectRow \<Rightarrow> unit dbop" where
  "erase_row E r row =
    (case spec_of (sr_Table row) of
       None \<Rightarrow> throw (Errorf ''Integration erasure table invalid'' [])
     | Some sp \<Rightarrow>
         let p = workspace_where (ser_WorkspaceID r) (Equal ''id'' (Text (sr_ID row))) in
         if sps_erase sp then seq (delete_from E (sr_Table row) p) (\<lambda>_. ret ())
         else
           seq (ownerNow E) (\<lambda>stamp.
           seq (update_set E (sr_Table row) (erase_columns sp stamp) p) (\<lambda>_. ret ())))"

definition erase_body :: "env \<Rightarrow> SubjectErasureRequest \<Rightarrow> raw_message \<Rightarrow> subjectPlan \<Rightarrow> raw_message dbop" where
  "erase_body E r raw p =
    seq (subject_receipt E r) (\<lambda>found. case found of
      None \<Rightarrow> throw no_rows
    | Some (saved, result) \<Rightarrow>
        seq (check (saved = raw) (Errorf ''Integration erasure plan differs from source receipt'' [])) (\<lambda>_.
        if raw_length result \<noteq> 0 then ret result
        else
          seq (each (erase_row E r) (spl_Rows p)) (\<lambda>_.
          let out = marshal (JObj [(''erased'', JBool True), (''owner'', JStr ''integration''),
                                   (''records'', JNum (int (length (spl_Rows p))) 0)]) in
          seq (update_set E receipts_table [(''result_json'', Doc out)]
                 (workspace_where (ser_WorkspaceID r) (Equal ''request_id'' (Text (ser_RequestID r))))) (\<lambda>_.
          ret out))))"

definition ErasePreparedSubject :: "env \<Rightarrow> SubjectErasureRequest \<Rightarrow> raw_message \<Rightarrow> raw_message dbop" where
  "ErasePreparedSubject E r raw =
    (case decode_plan raw of
       None \<Rightarrow> throw (Errorf ''Integration erasure plan invalid'' [])
     | Some p \<Rightarrow>
         let q = spl_Request p in
         seq (check (ser_WorkspaceID q = ser_WorkspaceID r \<and> ser_SubjectID q = ser_SubjectID r \<and> ser_RequestID q = ser_RequestID r)
                (Errorf ''Integration erasure plan scope mismatch'' [])) (\<lambda>_.
         seq (check (request_json (normalizeSubjectRequest r) = request_json q)
                (Errorf ''Integration erasure provenance mismatch'' [])) (\<lambda>_.
         transaction E (erase_body E r raw p))))"

section \<open>The service\<close>

definition lifecycle_validate :: "string \<Rightarrow> SubjectErasureRequest \<Rightarrow> bool \<Rightarrow> unit dbop" where
  "lifecycle_validate ctx_workspace r erase =
    (case SubjectErasure_Validate erase r of
       Some e \<Rightarrow> throw e
     | None \<Rightarrow> check (ctx_workspace = ser_WorkspaceID r) (Errorf ''Integration subject lifecycle scope mismatch'' []))"

definition Lifecycle_PreviewSubject :: "env \<Rightarrow> string \<Rightarrow> SubjectErasureRequest \<Rightarrow> raw_message dbop" where
  "Lifecycle_PreviewSubject E ctx r = seq (lifecycle_validate ctx r False) (\<lambda>_. PreviewSubject E r)"

definition Lifecycle_ExportSubject :: "env \<Rightarrow> string \<Rightarrow> SubjectErasureRequest \<Rightarrow> raw_message dbop" where
  "Lifecycle_ExportSubject E ctx r = Lifecycle_PreviewSubject E ctx r"

definition Lifecycle_PrepareSubjectErasure :: "env \<Rightarrow> string \<Rightarrow> SubjectErasureRequest \<Rightarrow> raw_message dbop" where
  "Lifecycle_PrepareSubjectErasure E ctx r = seq (lifecycle_validate ctx r True) (\<lambda>_. PrepareSubjectErasure E r)"

definition Lifecycle_ErasePreparedSubject :: "env \<Rightarrow> string \<Rightarrow> SubjectErasureRequest \<Rightarrow> raw_message \<Rightarrow> raw_message dbop" where
  "Lifecycle_ErasePreparedSubject E ctx r p = seq (lifecycle_validate ctx r True) (\<lambda>_. ErasePreparedSubject E r p)"

section \<open>A saved plan reads back\<close>

lemma decode_pairs_references [simp]:
  "decode_pairs ''object_key'' ''record_id'' (map reference_json refs) = Some (map (\<lambda>ref. (ref_ObjectKey ref, ref_RecordID ref)) refs)"
  "decode_pairs ''provider'' ''subject_sha256'' (map external_fence_json fs) = Some (map (\<lambda>f. (sef_Provider f, sef_SubjectSHA256 f)) fs)"
  "decode_pairs ''table'' ''id'' (map subject_row_json rows) = Some (map (\<lambda>r. (sr_Table r, sr_ID r)) rows)"
  by (induction refs, simp_all add: reference_json_def members_def, induction fs, simp_all add: external_fence_json_def members_def,
      induction rows, simp_all add: subject_row_json_def members_def)

lemma map_records [simp]:
  "map ((\<lambda>(object, record). \<lparr>ref_ObjectKey = object, ref_RecordID = record\<rparr>) \<circ> (\<lambda>ref. (ref_ObjectKey ref, ref_RecordID ref))) refs = refs"
  "map ((\<lambda>(p, s). \<lparr>sef_Provider = p, sef_SubjectSHA256 = s\<rparr>) \<circ> (\<lambda>f. (sef_Provider f, sef_SubjectSHA256 f))) fs = fs"
  "map ((\<lambda>(t, i). \<lparr>sr_Table = t, sr_ID = i\<rparr>) \<circ> (\<lambda>r. (sr_Table r, sr_ID r))) rows = rows"
  by (auto intro!: map_idI)

lemma entry_lists [simp]:
  "member_list (entry_if b k (JArr js) @ m) k' = (if b \<and> k = k' then Some js else member_list m k')"
  "member_list ((k, JArr js) # m) k' = (if k = k' then Some js else member_list m k')"
  "member_list ((k, JStr s) # m) k' = (if k = k' then None else member_list m k')"
  "member_list (entry_if b k (JStr s) @ m) k' = (if b \<and> k = k' then None else member_list m k')"
  "member_list ((k, JObj ms) # m) k' = (if k = k' then None else member_list m k')"
  "member_list (entry_if b k (JArr js)) k' = (if b \<and> k = k' then Some js else Some [])"
  "member_list [] k' = Some []"
  by (simp_all add: member_list_def del: map_of_append)

lemma decode_request_json:
  assumes "ser_LegalHolds r = raw_nil" and "request_json r = JObj m"
  shows "decode_request m = Some r"
proof -
  have "m = [(''workspace_id'', JStr (ser_WorkspaceID r)), (''subject_id'', JStr (ser_SubjectID r))] @
     entry_if (ser_RequestID r \<noteq> []) ''request_id'' (JStr (ser_RequestID r)) @
     entry_if (ser_Resources r \<noteq> []) ''resources'' (JArr (map reference_json (ser_Resources r))) @
     entry_if (ser_PublicationMessageIDs r \<noteq> []) ''publication_message_ids'' (texts_json (ser_PublicationMessageIDs r)) @
     entry_if (ser_EventIDs r \<noteq> []) ''event_ids'' (texts_json (ser_EventIDs r))"
    using assms by (simp add: request_json_def raw_nil_def)
  then show ?thesis
    using assms(1)
    by (cases r) (simp add: decode_request_def member_texts_def member_pairs_def texts_json_def del: map_of_append)
qed

lemma plan_roundtrip:
  assumes "ser_LegalHolds (spl_Request p) = raw_nil"
  shows "decode_plan (marshal (plan_json p)) = Some p"
proof -
  obtain m where m: "request_json (spl_Request p) = JObj m" by (simp add: request_json_def)
  from decode_request_json [OF assms m] m show ?thesis
    by (cases p) (simp add: decode_plan_def plan_json_def member_texts_def member_pairs_def texts_json_def member_object_def)
qed

lemma normalized_holds [simp]: "ser_LegalHolds (normalizeSubjectRequest r) = raw_nil"
  by (simp add: normalizeSubjectRequest_def)

lemma normalized_scope [simp]:
  "ser_WorkspaceID (normalizeSubjectRequest r) = ser_WorkspaceID r" "ser_SubjectID (normalizeSubjectRequest r) = ser_SubjectID r"
  "ser_RequestID (normalizeSubjectRequest r) = ser_RequestID r"
  by (simp_all add: normalizeSubjectRequest_def)

section \<open>What the erasure is built from\<close>

lemma spec_tables:
  assumes "sp \<in> set subjectSpecs"
  shows "sps_table sp \<noteq> fences" "sps_table sp \<noteq> receipts_table"
  using assms
  by (auto simp: subjectSpecs_def anonymize_spec_def erase_spec_def fences_def receipts_table_def accounts_table_def connections_table_def
      account_secrets_table_def grants_table_def states_table_def commits_table_def leases_table_def sessions_table_def push_table_def
      api_keys_table_def identities_table_def secrets_table_def materials_table_def invocations_table_def events_table_def intents_table_def)

lemma spec_of_in: "spec_of t = Some sp \<Longrightarrow> sp \<in> set subjectSpecs \<and> sps_table sp = t"
  by (auto simp: spec_of_def find_Some_iff)

locale fencing_writes = store_reads +
  fixes r :: SubjectErasureRequest
  assumes within_fence_insert: "within (insert_into E fences ((''workspace_id'', Text (ser_WorkspaceID r)) # cs))"
    and within_mark: "sp \<in> set subjectSpecs \<Longrightarrow> sps_status sp \<noteq> [] \<Longrightarrow> sps_table sp \<noteq> leases_table \<Longrightarrow>
      within (statement E (update_rows (sps_table sp) (mark_row sp) (workspace_where (ser_WorkspaceID r) p)))"
begin

lemma within_put_fence: "within (put_fence E r fence)"
  unfolding put_fence_def by (intro within_reads within_fence_insert)

lemma within_mark_erasing: "sp \<in> set subjectSpecs \<Longrightarrow> within (mark_erasing E r row sp)"
  unfolding mark_erasing_def by (intro within_reads within_mark) simp_all

lemma within_prepare_row: "within (prepare_row E r row)"
  unfolding prepare_row_def by (intro within_reads within_put_fence within_mark_erasing)

end

locale preparation_writes = fencing_writes +
  assumes within_receipt_insert: "within (insert_into E receipts_table (receipt_columns E r pl))"

locale erasure_writes = preparation_writes +
  assumes within_row_delete: "sp \<in> set subjectSpecs \<Longrightarrow> sps_erase sp \<Longrightarrow>
      within (delete_from E (sps_table sp) (workspace_where (ser_WorkspaceID r) p))"
    and within_row_anonymize: "sp \<in> set subjectSpecs \<Longrightarrow> \<not> sps_erase sp \<Longrightarrow>
      within (update_set E (sps_table sp) (erase_columns sp stamp) (workspace_where (ser_WorkspaceID r) p))"
    and within_result: "within (update_set E receipts_table [(''result_json'', Doc out)] (workspace_where (ser_WorkspaceID r) p))"
begin

lemma within_ownerNow: "within (ownerNow E)"
  unfolding ownerNow_def by (intro within_reads)

lemma within_erase_row: "within (erase_row E r row)"
  unfolding erase_row_def Let_def
  by (intro within_option within_throw within_if within_seq within_ret within_ownerNow)
    (auto dest!: spec_of_in, metis within_row_delete, metis within_row_anonymize)

end

text \<open>The scans change nothing, so any relation is kept by them.\<close>

context store_reads
begin

lemma within_scan_subject_rows: "within (scan_subject_rows E sp prep n rs)"
proof (induction rs arbitrary: n)
  case Nil
  show ?case unfolding scan_subject_rows.simps by (rule within_ret)
next
  case (Cons r rs)
  show ?case unfolding scan_subject_rows.simps Let_def lease_check_def by (intro within_reads Cons.IH)
qed

lemma within_add_events: "within (add_events covered ids rs)"
proof (induction rs arbitrary: ids)
  case Nil
  show ?case unfolding add_events.simps by (rule within_ret)
next
  case (Cons r rs)
  show ?case unfolding add_events.simps Let_def by (intro within_reads Cons.IH)
qed

lemma within_collect_rows: "within (collect_rows E r p prep n sps)"
proof (induction sps arbitrary: n)
  case Nil
  show ?case unfolding collect_rows.simps by (rule within_ret)
next
  case (Cons sp sps)
  show ?case unfolding collect_rows.simps selectIDs_def by (intro within_reads within_scan_subject_rows Cons.IH)
qed

lemma within_subjectEvents: "within (subjectEvents E r connections)"
  unfolding subjectEvents_def external_fence_def scan_mapping_def by (intro within_reads within_add_events)

lemma within_subject_collect: "within (subject_collect E r prep)"
  unfolding subject_collect_def scan_key_def connection_secrets_def Let_def
  by (intro within_reads within_subjectEvents within_collect_rows)

lemma within_subject_receipt: "within (subject_receipt E r)"
  unfolding subject_receipt_def by (intro within_reads)

lemma within_subjectReceiptPlan: "within (subjectReceiptPlan r saved)"
  unfolding subjectReceiptPlan_def by (intro within_reads)

lemma within_rolled_back:
  assumes "within body"
  shows "within (rolled_back E body)"
proof (rule within_I)
  fix w
  let ?u = "before_step E w"
  let ?v = "snd (body (?u\<lparr>w_tx := True\<rparr>))"
  have "R ?u ?v" using assms flags chains unfolding within_def by blast
  then have "R ?u (?v\<lparr>w_db := w_db ?u, w_tx := b\<rparr>)" for b using chains [OF rolls_back flags] by simp
  then have "R w (?v\<lparr>w_db := w_db ?u, w_tx := b\<rparr>)" for b by (rule chains [OF begins])
  then show "R w (snd (rolled_back E body w))"
    using begins by (auto simp: rolled_back_def Let_def split: prod.splits)
qed

lemma within_PreviewSubject: "within (PreviewSubject E r)"
  unfolding PreviewSubject_def by (intro within_rolled_back within_reads within_subject_collect)

lemmas within_erasure_reads = within_reads within_subject_collect within_subject_receipt within_subjectReceiptPlan

end

context preparation_writes
begin

lemma within_PrepareSubjectErasure: "within (PrepareSubjectErasure E r)"
  unfolding PrepareSubjectErasure_def prepare_body_def
  by (intro within_erasure_reads within_put_fence within_prepare_row within_receipt_insert)

end

context erasure_writes
begin

lemma within_ErasePreparedSubject: "within (ErasePreparedSubject E r raw)"
  unfolding ErasePreparedSubject_def erase_body_def Let_def
  by (intro within_erasure_reads within_erase_row within_result)

end

section \<open>Other workspaces\<close>

lemma kept_by_all:
  "evolution.within (inv_within I E) m \<Longrightarrow> (\<And>n d. I d \<Longrightarrow> I (ev_others E n d)) \<Longrightarrow> I (w_db w) \<Longrightarrow> I (w_db (snd (m w)))"
  unfolding evolution.within_def [OF inv_evolution] inv_within_def by blast

definition stays_in :: "string \<Rightarrow> row \<Rightarrow> database \<Rightarrow> bool" where
  "stays_in t q d \<longleftrightarrow> q \<in> set (d t)"

lemma stays_in_statements:
  assumes "\<And>d. \<not> holds d q p"
  shows "evolution.within (inv_within (stays_in t q) E) (statement E (update_rows u f p))"
    "evolution.within (inv_within (stays_in t q) E) (statement E (delete_rows u p))"
    "evolution.within (inv_within (stays_in t q) E) (statement E (insert_row u cs))"
proof -
  show "evolution.within (inv_within (stays_in t q) E) (statement E (update_rows u f p))"
    unfolding stays_in_def by (intro inv_statement row_stays_update assms)
  show "evolution.within (inv_within (stays_in t q) E) (statement E (delete_rows u p))"
    unfolding stays_in_def by (intro inv_statement) (auto simp: delete_rows_def assms)
  show "evolution.within (inv_within (stays_in t q) E) (statement E (insert_row u cs))"
    unfolding stays_in_def by (intro inv_statement row_stays_insert)
qed

lemma other_workspace_writes:
  assumes "q ''workspace_id'' \<noteq> Text (ser_WorkspaceID r)"
  shows "erasure_writes (inv_within (stays_in t q) E) E r"
proof (intro erasure_writes.intro erasure_writes_axioms.intro preparation_writes.intro preparation_writes_axioms.intro
      fencing_writes.intro fencing_writes_axioms.intro inv_store_reads)
  have "\<not> holds d q (workspace_where (ser_WorkspaceID r) p)" for d p
    using assms by (simp add: workspace_where_def where_simps)
  note keeps = stays_in_statements [OF this]
  show "evolution.within (inv_within (stays_in t q) E) (insert_into E fences ((''workspace_id'', Text (ser_WorkspaceID r)) # cs))"
    "evolution.within (inv_within (stays_in t q) E) (insert_into E receipts_table (receipt_columns E r pl))"
    "evolution.within (inv_within (stays_in t q) E) (statement E (update_rows (sps_table sp) (mark_row sp) (workspace_where (ser_WorkspaceID r) p)))"
    "evolution.within (inv_within (stays_in t q) E) (delete_from E (sps_table sp) (workspace_where (ser_WorkspaceID r) p))"
    "evolution.within (inv_within (stays_in t q) E) (update_set E (sps_table sp) (erase_columns sp stamp) (workspace_where (ser_WorkspaceID r) p))"
    "evolution.within (inv_within (stays_in t q) E) (update_set E receipts_table [(''result_json'', Doc out)] (workspace_where (ser_WorkspaceID r) p))"
    for sp p stamp out cs pl
    unfolding update_set_def delete_from_def insert_into_def by (rule keeps)+
qed

text \<open>
  C21. An erasure stays in its workspace: whatever the preview, the preparation and the erasure of a request do, under
  all faults, a row of another workspace stays as it is, as long as other processes keep it.
\<close>

theorem erasure_keeps_other_workspaces:
  assumes "q ''workspace_id'' \<noteq> Text (ser_WorkspaceID r)"
    and "\<And>n d. stays_in t q d \<Longrightarrow> stays_in t q (ev_others E n d)" and "stays_in t q (w_db w)"
  shows "stays_in t q (w_db (snd (PreviewSubject E r w))) \<and> stays_in t q (w_db (snd (PrepareSubjectErasure E r w))) \<and>
    stays_in t q (w_db (snd (ErasePreparedSubject E r raw w)))"
proof -
  note writes = other_workspace_writes [of q r t E, OF assms(1)]
  note prep = preparation_writes.within_PrepareSubjectErasure [OF erasure_writes.axioms(1) [OF writes]]
    and erase = erasure_writes.within_ErasePreparedSubject [OF writes, of raw]
  show ?thesis
    using kept_by_all [OF store_reads.within_PreviewSubject [OF inv_store_reads] assms(2,3), of r]
      kept_by_all [OF prep assms(2,3)] kept_by_all [OF erase assms(2,3)] by simp
qed

section \<open>The fences of a plan\<close>

lemma fence_writes: "erasure_writes (inv_within (has_row fences P) E) E r"
proof (intro erasure_writes.intro erasure_writes_axioms.intro preparation_writes.intro preparation_writes_axioms.intro
      fencing_writes.intro fencing_writes_axioms.intro inv_store_reads)
  have update: "evolution.within (inv_within (has_row fences P) E) (statement E (update_rows u f p))" if "u \<noteq> fences" for u f p
    using that by (intro inv_statement has_row_update) simp_all
  show "evolution.within (inv_within (has_row fences P) E) (insert_into E fences ((''workspace_id'', Text (ser_WorkspaceID r)) # cs))"
    "evolution.within (inv_within (has_row fences P) E) (insert_into E receipts_table (receipt_columns E r pl))" for cs pl
    by (rule keeps_inserts)+
  show "evolution.within (inv_within (has_row fences P) E) (update_set E receipts_table [(''result_json'', Doc out)] (workspace_where (ser_WorkspaceID r) p))" for out p
    unfolding update_set_def by (rule update) (simp add: receipts_table_def fences_def)
  fix sp p stamp
  assume sp: "sp \<in> set subjectSpecs"
  show "evolution.within (inv_within (has_row fences P) E) (statement E (update_rows (sps_table sp) (mark_row sp) (workspace_where (ser_WorkspaceID r) p)))"
    "evolution.within (inv_within (has_row fences P) E) (update_set E (sps_table sp) (erase_columns sp stamp) (workspace_where (ser_WorkspaceID r) p))"
    unfolding update_set_def by (intro update spec_tables(1) sp)+
  show "evolution.within (inv_within (has_row fences P) E) (delete_from E (sps_table sp) (workspace_where (ser_WorkspaceID r) p))"
    unfolding delete_from_def using spec_tables(1) [OF sp] by (intro inv_statement) (simp add: delete_rows_def has_row_def)
qed

interpretation fence_rows: erasure_writes "inv_within (has_row fences P) E" E r for P E r
  by (rule fence_writes)

definition fence_row :: "string \<Rightarrow> string \<times> string \<times> string \<Rightarrow> row \<Rightarrow> bool" where
  "fence_row ws fence q = (case fence of (kind, object, ident) \<Rightarrow> is_fence q ws kind object ident)"

lemma fenced_has_row: "fenced d ws kind object ident \<longleftrightarrow> has_row fences (fence_row ws (kind, object, ident)) d"
  by (simp add: fenced_def has_row_def fence_row_def list_ex_iff)

lemma put_fence_fences:
  assumes "alone E" and "put_fence E r fence w = (Inr u, w')"
  shows "has_row fences (fence_row (ser_WorkspaceID r) fence) (w_db w')"
proof -
  obtain kind object ident where f: "fence = (kind, object, ident)" by (cases fence)
  let ?p = "workspace_where (ser_WorkspaceID r)
    (And [Equal ''kind'' (Text kind), Equal ''object_key'' (Text object), Equal ''resource_id'' (Text ident)])"
  let ?cs = "[(''workspace_id'', Text (ser_WorkspaceID r)), (''id'', Text (fence_id E (ser_WorkspaceID r) kind object ident)),
    (''kind'', Text kind), (''object_key'', Text object), (''resource_id'', Text ident), (''request_id'', Text (ser_RequestID r))]"
  obtain found v where sel: "select_row E fences ?p w = (Inr found, v)"
    and rest: "(case found of Some q \<Rightarrow> scan_texts q [''id''] | None \<Rightarrow> seq (insert_into E fences ?cs) (\<lambda>_. ret ())) v = (Inr u, w')"
    using assms(2) unfolding put_fence_def f prod.case seq_Inr by blast
  show ?thesis
  proof (cases found)
    case None
    with rest obtain n where "insert_into E fences ?cs v = (Inr n, w')" by (auto simp: op_Inr)
    then show ?thesis by (rule has_row_insert_into [OF assms(1)]) (simp add: fence_row_def is_fence_def f)
  next
    case (Some q)
    with rest have "w' = v" by (simp add: scan_texts_def)
    with Some select_row_Some [OF assms(1), of fences ?p w q w'] sel have "q \<in> set (w_db w' fences)" "holds (w_db w') q ?p" by simp_all
    then show ?thesis
      unfolding has_row_def by (intro bexI [of _ q]) (simp_all add: fence_row_def is_fence_def f workspace_where_def where_simps)
  qed
qed

text \<open>No receipt of the request yet: neither outside nor inside the transaction one is found.\<close>

definition no_receipt :: "SubjectErasureRequest \<Rightarrow> database \<Rightarrow> bool" where
  "no_receipt r = all_rows receipts_table
    (\<lambda>q. \<not> (q ''workspace_id'' = Text (ser_WorkspaceID r) \<and> q ''request_id'' = Text (ser_RequestID r)))"

lemma subject_receipt_none:
  assumes "alone E" and "no_receipt r (w_db w)" and "subject_receipt E r w = (Inr x, w')"
  shows "x = None" and "w_db w' = w_db w"
proof -
  obtain found v where sel: "select_row E receipts_table (workspace_where (ser_WorkspaceID r) (Equal ''request_id'' (Text (ser_RequestID r)))) w = (Inr found, v)"
    and rest: "(case found of None \<Rightarrow> ret None
      | Some q \<Rightarrow> seq (scan_texts q [''subject_id'', ''plan_json'', ''result_json'']) (\<lambda>_.
        seq (check (text_of (q ''subject_id'') = ser_SubjectID r) (Errorf ''Integration erasure receipt subject mismatch'' [])) (\<lambda>_.
        ret (Some (doc_of (q ''plan_json''), doc_of (q ''result_json'')))))) v = (Inr x, w')"
    using assms(3) unfolding subject_receipt_def seq_Inr by blast
  have "select_rows receipts_table (workspace_where (ser_WorkspaceID r) (Equal ''request_id'' (Text (ser_RequestID r)))) (w_db w) = []"
    using assms(2) by (auto simp: select_rows_def filter_empty_conv no_receipt_def all_rows_def workspace_where_def where_simps)
  with select_row_Inr [OF assms(1) sel] have "found = None" "w_db v = w_db w" by simp_all
  with rest show "x = None" "w_db w' = w_db w" by simp_all
qed

text \<open>A fresh preparation, taken apart.\<close>

lemma fresh_preparation:
  assumes "alone E" and "no_receipt r (w_db w)" and "PrepareSubjectErasure E r w = (Inr raw, w')"
  shows "\<exists>p u0 u1 u2 u3 u4 xs ys n. w_db u0 = w_db w \<and> subject_collect E r True u0 = (Inr p, u1) \<and>
    each (put_fence E r) (plan_fences r p) u1 = (Inr xs, u2) \<and> each (prepare_row E r) (spl_Rows p) u2 = (Inr ys, u3) \<and>
    insert_into E receipts_table (receipt_columns E r p) u3 = (Inr n, u4) \<and> w_db w' = w_db u4 \<and> raw = marshal (plan_json p)"
proof -
  obtain saved v where s: "subject_receipt E r w = (Inr saved, v)"
    and rest: "(case saved of Some (plan, result) \<Rightarrow> subjectReceiptPlan r plan | None \<Rightarrow> transaction E (prepare_body E r)) v = (Inr raw, w')"
    using assms(3) unfolding PrepareSubjectErasure_def seq_Inr by blast
  from subject_receipt_none [OF assms(1,2) s] rest have v: "w_db v = w_db w" "transaction E (prepare_body E r) v = (Inr raw, w')" by simp_all
  from transaction_Inr [OF assms(1) v(2)] obtain u z where u: "w_db u = w_db w" "prepare_body E r u = (Inr raw, z)" "w_db w' = w_db z"
    using v(1) by auto
  from u(2) obtain saved u0 where s0: "subject_receipt E r u = (Inr saved, u0)"
    and rest0: "(case saved of Some (plan, result) \<Rightarrow> subjectReceiptPlan r plan
      | None \<Rightarrow> seq (subject_collect E r True) (\<lambda>p. seq (each (put_fence E r) (plan_fences r p)) (\<lambda>_.
          seq (each (prepare_row E r) (spl_Rows p)) (\<lambda>_. seq (insert_into E receipts_table (receipt_columns E r p)) (\<lambda>_.
          ret (marshal (plan_json p))))))) u0 = (Inr raw, z)"
    unfolding prepare_body_def seq_Inr by blast
  have "no_receipt r (w_db u)" using assms(2) u(1) by simp
  note none = subject_receipt_none [OF assms(1) this s0]
  from rest0 none(1) obtain p u1 u2 u3 xs ys n where
    "subject_collect E r True u0 = (Inr p, u1)" "each (put_fence E r) (plan_fences r p) u1 = (Inr xs, u2)"
    "each (prepare_row E r) (spl_Rows p) u2 = (Inr ys, u3)" "insert_into E receipts_table (receipt_columns E r p) u3 = (Inr n, z)"
    "raw = marshal (plan_json p)"
    by (auto simp: op_Inr)
  with none(2) u show ?thesis by metis
qed

lemma collected_request: "subject_collect E r prep w = (Inr p, w') \<Longrightarrow> spl_Request p = normalizeSubjectRequest r"
  by (auto simp: subject_collect_def Let_def op_Inr)

definition all_fenced :: "database \<Rightarrow> string \<Rightarrow> (string \<times> string \<times> string) list \<Rightarrow> bool" where
  "all_fenced d ws fs \<longleftrightarrow> list_all (\<lambda>(kind, object, ident). fenced d ws kind object ident) fs"

lemma all_fenced_rows: "all_fenced d ws fs \<longleftrightarrow> (\<forall>f \<in> set fs. has_row fences (fence_row ws f) d)"
  by (auto simp: all_fenced_def list_all_iff fenced_has_row)

definition row_fence :: "subjectRow \<Rightarrow> string \<times> string \<times> string" where
  "row_fence row = (''row'', sr_Table row, sr_ID row)"

text \<open>
  C19. After a first preparation everything of the plan is fenced: the subject, its connections, secrets, messages,
  resources and external identities, and every row of the plan; and the plan that is returned is
  the one that is saved, and reads back.
\<close>

theorem preparation_fences:
  assumes "alone E" and "no_receipt r (w_db w)" and "PrepareSubjectErasure E r w = (Inr raw, w')"
  shows "case decode_plan raw of None \<Rightarrow> False
    | Some p \<Rightarrow> spl_Request p = normalizeSubjectRequest r \<and>
        all_fenced (w_db w') (ser_WorkspaceID r) (plan_fences r p @ map row_fence (spl_Rows p)) \<and>
        has_row receipts_table (\<lambda>q. q = row_of (receipt_columns E r p)) (w_db w')"
proof -
  obtain p u0 u1 u2 u3 u4 xs ys n where c: "subject_collect E r True u0 = (Inr p, u1)"
    and f: "each (put_fence E r) (plan_fences r p) u1 = (Inr xs, u2)" and m: "each (prepare_row E r) (spl_Rows p) u2 = (Inr ys, u3)"
    and i: "insert_into E receipts_table (receipt_columns E r p) u3 = (Inr n, u4)" and w': "w_db w' = w_db u4" and raw: "raw = marshal (plan_json p)"
    using fresh_preparation [OF assms] by blast
  let ?ws = "ser_WorkspaceID r"
  have "\<forall>fence \<in> set (plan_fences r p). has_row fences (fence_row ?ws fence) (w_db u2)"
    by (rule each_all [OF f, where P = "\<lambda>fence w. has_row fences (fence_row ?ws fence) (w_db w)"])
      (auto dest: put_fence_fences [OF assms(1)] kept_alone [OF fence_rows.within_put_fence assms(1)])
  then have plan: "\<forall>fence \<in> set (plan_fences r p). has_row fences (fence_row ?ws fence) (w_db u3)"
    using kept_alone [OF kept_row.within_each [OF fence_rows.within_prepare_row] assms(1) m] by blast
  have row: "has_row fences (fence_row ?ws (row_fence row)) (w_db z)" if prepared: "prepare_row E r row y = (Inr u, z)" for row u y z
  proof -
    obtain v x us where put: "put_fence E r (''row'', sr_Table row, sr_ID row) y = (Inr x, v)"
      and marks: "each (mark_erasing E r row) subjectSpecs v = (Inr us, z)"
      using prepared unfolding prepare_row_def op_Inr by blast
    from put_fence_fences [OF assms(1) put] have "has_row fences (fence_row ?ws (row_fence row)) (w_db v)" by (simp add: row_fence_def)
    then show ?thesis by (rule kept_alone [OF kept_row.within_each [OF fence_rows.within_mark_erasing] assms(1) marks, rotated])
  qed
  have "\<forall>row \<in> set (spl_Rows p). has_row fences (fence_row ?ws (row_fence row)) (w_db u3)"
    by (rule each_all [OF m, where P = "\<lambda>row w. has_row fences (fence_row ?ws (row_fence row)) (w_db w)"])
      (auto dest: row kept_alone [OF fence_rows.within_prepare_row assms(1)])
  with plan have "\<forall>fence \<in> set (plan_fences r p @ map row_fence (spl_Rows p)). has_row fences (fence_row ?ws fence) (w_db u3)" by auto
  then have "all_fenced (w_db w') ?ws (plan_fences r p @ map row_fence (spl_Rows p))"
    using kept_alone [OF fence_rows.within_receipt_insert assms(1) i] w' unfolding all_fenced_rows by simp
  moreover have "has_row receipts_table (\<lambda>q. q = row_of (receipt_columns E r p)) (w_db w')"
    unfolding w' by (rule has_row_insert_into [OF assms(1) i]) simp
  moreover have "decode_plan raw = Some p" unfolding raw using collected_request [OF c] by (intro plan_roundtrip) simp
  ultimately show ?thesis using collected_request [OF c] by simp
qed

section \<open>The erasure carries the plan out\<close>

text \<open>No row is left, or only a row with the anonymous values of its table.\<close>

definition row_erased :: "string \<Rightarrow> subjectRow \<Rightarrow> database \<Rightarrow> bool" where
  "row_erased ws row d =
    (case spec_of (sr_Table row) of
       None \<Rightarrow> False
     | Some sp \<Rightarrow> all_rows (sr_Table row) (\<lambda>q. q ''workspace_id'' = Text ws \<and> q ''id'' = Text (sr_ID row) \<longrightarrow>
         \<not> sps_erase sp \<and> list_all (\<lambda>(c, v). q c = v) (sps_values sp)) d)"

lemma spec_keys:
  "list_all (\<lambda>sp. distinct (''updated_at'' # ''id'' # ''workspace_id'' # map fst (sps_values sp))) subjectSpecs"
  by (simp add: subjectSpecs_def anonymize_spec_def erase_spec_def)

lemma spec_columns:
  assumes "sp \<in> set subjectSpecs"
  shows "list_all (\<lambda>(c, v). set_columns (erase_columns sp stamp) q c = v) (sps_values sp)"
    and "set_columns (erase_columns sp stamp) q ''id'' = q ''id''"
    and "set_columns (erase_columns sp stamp) q ''workspace_id'' = q ''workspace_id''"
proof -
  have keys: "distinct (''updated_at'' # ''id'' # ''workspace_id'' # map fst (sps_values sp))"
    using assms spec_keys unfolding list_all_iff by blast
  then have "distinct (map fst (sort_key fst (sps_values sp)))" by (simp add: distinct_map)
  with keys have dist: "distinct (map fst (erase_columns sp stamp))" by (auto simp: erase_columns_def)
  have "set_columns (erase_columns sp stamp) q c = v" if "(c, v) \<in> set (sps_values sp)" for c v
    using that by (intro set_columns_get [OF dist]) (simp add: erase_columns_def)
  then show "list_all (\<lambda>(c, v). set_columns (erase_columns sp stamp) q c = v) (sps_values sp)"
    by (auto simp: list_all_iff)
  have "fst ` set (erase_columns sp stamp) = insert ''updated_at'' (fst ` set (sps_values sp))" by (simp add: erase_columns_def)
  with keys have "''id'' \<notin> fst ` set (erase_columns sp stamp)" "''workspace_id'' \<notin> fst ` set (erase_columns sp stamp)" by simp_all
  then show "set_columns (erase_columns sp stamp) q ''id'' = q ''id''"
    "set_columns (erase_columns sp stamp) q ''workspace_id'' = q ''workspace_id''"
    by (simp_all add: set_columns_other)
qed

lemma row_erased_statements:
  assumes "sp \<in> set subjectSpecs"
  shows "row_erased ws row d \<Longrightarrow> row_erased ws row (snd (update_rows (sps_table sp) (set_columns (erase_columns sp stamp)) p d))"
    and "row_erased ws row d \<Longrightarrow> row_erased ws row (snd (delete_rows (sps_table sp) p d))"
proof -
  show "row_erased ws row (snd (update_rows (sps_table sp) (set_columns (erase_columns sp stamp)) p d))" if e: "row_erased ws row d"
  proof (cases "spec_of (sr_Table row)")
    case (Some own)
    have "own = sp" if "sps_table sp = sr_Table row"
    proof -
      have "distinct (map sps_table subjectSpecs)" by code_simp
      with spec_of_in [OF Some] assms that show ?thesis by (metis distinct_map inj_on_def)
    qed
    with e Some spec_columns [OF assms] show ?thesis by (auto simp: row_erased_def intro!: all_rows_update)
  qed (use e in \<open>simp add: row_erased_def\<close>)
  show "row_erased ws row (snd (delete_rows (sps_table sp) p d))" if "row_erased ws row d"
    using that by (auto simp: row_erased_def intro: all_rows_delete split: option.splits)
qed

lemma row_erased_kept: "evolution.within (inv_within (row_erased ws row) E) (erase_row E r other)"
proof -
  have reads: "store_reads (inv_within (row_erased ws row) E) E" by (rule inv_store_reads)
  have now: "evolution.within (inv_within (row_erased ws row) E) (ownerNow E)"
    unfolding ownerNow_def by (intro store_reads.within_reads [OF reads])
  have writes: "evolution.within (inv_within (row_erased ws row) E) (update_set E (sr_Table other) (erase_columns sp stamp) p)"
    "evolution.within (inv_within (row_erased ws row) E) (delete_from E (sr_Table other) p)"
    if "spec_of (sr_Table other) = Some sp" for sp stamp p
    using spec_of_in [OF that] row_erased_statements [of sp] unfolding update_set_def delete_from_def
    by (auto intro!: inv_statement)
  show ?thesis
    unfolding erase_row_def Let_def by (intro store_reads.within_reads [OF reads] now writes)
qed

lemma erase_row_erases:
  assumes "alone E" and "erase_row E r row w = (Inr u, w')"
  shows "row_erased (ser_WorkspaceID r) row (w_db w')"
proof (cases "spec_of (sr_Table row)")
  case (Some sp)
  note sp = spec_of_in [OF Some]
  let ?p = "workspace_where (ser_WorkspaceID r) (Equal ''id'' (Text (sr_ID row)))"
  have hit: "holds d q ?p \<longleftrightarrow> q ''workspace_id'' = Text (ser_WorkspaceID r) \<and> q ''id'' = Text (sr_ID row)" for d q
    by (simp add: workspace_where_def where_simps)
  show ?thesis
  proof (cases "sps_erase sp")
    case True
    with assms(2) Some obtain n v where "delete_from E (sr_Table row) ?p w = (Inr n, w')" by (auto simp: erase_row_def op_Inr)
    from delete_rows_result [OF delete_from_Inr [OF assms(1) this]] show ?thesis
      using Some hit by (auto simp: row_erased_def all_rows_def)
  next
    case False
    with assms(2) Some obtain n stamp v where "update_set E (sr_Table row) (erase_columns sp stamp) ?p v = (Inr n, w')"
      by (auto simp: erase_row_def op_Inr)
    from update_rows_result [OF update_set_Inr [OF assms(1) this]] show ?thesis
      using Some False hit spec_columns [OF conjunct1 [OF sp]] by (auto simp: row_erased_def all_rows_def)
  qed
qed (use assms(2) in \<open>simp add: erase_row_def\<close>)

text \<open>The erasure of a plan whose receipt has no result yet, taken apart.\<close>

definition open_receipt :: "SubjectErasureRequest \<Rightarrow> database \<Rightarrow> bool" where
  "open_receipt r = all_rows receipts_table
    (\<lambda>q. q ''workspace_id'' = Text (ser_WorkspaceID r) \<and> q ''request_id'' = Text (ser_RequestID r) \<longrightarrow> raw_length (doc_of (q ''result_json'')) = 0)"

lemma subject_receipt_open:
  assumes "alone E" and "open_receipt r (w_db w)" and "subject_receipt E r w = (Inr (Some (saved, result)), w')"
  shows "raw_length result = 0" and "w_db w' = w_db w"
proof -
  let ?p = "workspace_where (ser_WorkspaceID r) (Equal ''request_id'' (Text (ser_RequestID r)))"
  obtain found v where sel: "select_row E receipts_table ?p w = (Inr found, v)"
    and rest: "(case found of None \<Rightarrow> ret None
      | Some q \<Rightarrow> seq (scan_texts q [''subject_id'', ''plan_json'', ''result_json'']) (\<lambda>_.
        seq (check (text_of (q ''subject_id'') = ser_SubjectID r) (Errorf ''Integration erasure receipt subject mismatch'' [])) (\<lambda>_.
        ret (Some (doc_of (q ''plan_json''), doc_of (q ''result_json'')))))) v = (Inr (Some (saved, result)), w')"
    using assms(3) unfolding subject_receipt_def seq_Inr by blast
  from rest obtain q where q: "found = Some q" "result = doc_of (q ''result_json'')" "w' = v"
    by (cases found) (auto simp: op_Inr scan_texts_def)
  have at: "q \<in> set (w_db v receipts_table)" "holds (w_db v) q ?p" "w_db v = w_db w"
    using select_row_Some [OF assms(1) sel [unfolded q(1)]] by simp_all
  with assms(2) q show "raw_length result = 0" "w_db w' = w_db w"
    by (auto simp: open_receipt_def all_rows_def workspace_where_def where_simps)
qed

lemma open_erasure:
  assumes "alone E" and "open_receipt r (w_db w)" and "ErasePreparedSubject E r raw w = (Inr out, w')"
  shows "\<exists>p u0 u1 xs n u2. decode_plan raw = Some p \<and> w_db u0 = w_db w \<and> each (erase_row E r) (spl_Rows p) u0 = (Inr xs, u1) \<and>
    update_set E receipts_table [(''result_json'', Doc out)] (workspace_where (ser_WorkspaceID r) (Equal ''request_id'' (Text (ser_RequestID r)))) u1 =
      (Inr n, u2) \<and> w_db w' = w_db u2"
proof -
  from assms(3) obtain p where p: "decode_plan raw = Some p" and tx: "transaction E (erase_body E r raw p) w = (Inr out, w')"
    by (cases "decode_plan raw") (auto simp: ErasePreparedSubject_def Let_def op_Inr)
  from transaction_Inr [OF assms(1) tx] obtain u z where u: "w_db u = w_db w" "erase_body E r raw p u = (Inr out, z)" "w_db w' = w_db z" by auto
  from u(2) obtain saved result u0 where rec: "subject_receipt E r u = (Inr (Some (saved, result)), u0)"
    and rest: "(if raw_length result \<noteq> 0 then ret result
        else
          seq (each (erase_row E r) (spl_Rows p)) (\<lambda>_.
          let out = marshal (JObj [(''erased'', JBool True), (''owner'', JStr ''integration''),
                                   (''records'', JNum (int (length (spl_Rows p))) 0)]) in
          seq (update_set E receipts_table [(''result_json'', Doc out)]
                 (workspace_where (ser_WorkspaceID r) (Equal ''request_id'' (Text (ser_RequestID r))))) (\<lambda>_.
          ret out))) u0 = (Inr out, z)"
    by (auto simp: erase_body_def op_Inr case_Inr split del: if_split)
  have "open_receipt r (w_db u)" using assms(2) u(1) by simp
  note fresh = subject_receipt_open [OF assms(1) this rec]
  from rest fresh obtain xs u1 n where "each (erase_row E r) (spl_Rows p) u0 = (Inr xs, u1)"
    "update_set E receipts_table [(''result_json'', Doc out)] (workspace_where (ser_WorkspaceID r) (Equal ''request_id'' (Text (ser_RequestID r)))) u1 =
      (Inr n, z)"
    by (auto simp: Let_def op_Inr)
  with p u fresh show ?thesis by metis
qed

text \<open>
  C18. When an erasure returns its result, every row of its plan is gone or anonymous: none is left in the tables of
  credentials, sessions, identities and grants, and a row that stays holds the anonymous values of its table.
\<close>

theorem erasure_executes_plan:
  assumes "alone E" and "open_receipt r (w_db w)" and "ErasePreparedSubject E r raw w = (Inr out, w')"
  shows "case decode_plan raw of None \<Rightarrow> False
    | Some p \<Rightarrow> list_all (\<lambda>row. row_erased (ser_WorkspaceID r) row (w_db w')) (spl_Rows p)"
proof -
  obtain p u0 u1 xs n u2 where p: "decode_plan raw = Some p" and rows: "each (erase_row E r) (spl_Rows p) u0 = (Inr xs, u1)"
    and upd: "update_set E receipts_table [(''result_json'', Doc out)] (workspace_where (ser_WorkspaceID r) (Equal ''request_id'' (Text (ser_RequestID r)))) u1 =
      (Inr n, u2)" and w': "w_db w' = w_db u2"
    using open_erasure [OF assms] by blast
  have "\<forall>row \<in> set (spl_Rows p). row_erased (ser_WorkspaceID r) row (w_db u1)"
    by (rule each_all [OF rows, where P = "\<lambda>row w. row_erased (ser_WorkspaceID r) row (w_db w)"])
      (auto dest: erase_row_erases [OF assms(1)] kept_alone [OF row_erased_kept assms(1)])
  moreover have "row_erased ws row (w_db u2)" if e: "row_erased ws row (w_db u1)" for ws row
  proof -
    from e obtain sp where sp: "spec_of (sr_Table row) = Some sp" by (cases "spec_of (sr_Table row)") (simp_all add: row_erased_def)
    from spec_of_in [OF sp] spec_tables(2) [of sp] have "sr_Table row \<noteq> receipts_table" by simp
    then have "w_db u2 (sr_Table row) = w_db u1 (sr_Table row)" by (rule update_rows_other [OF update_set_Inr [OF assms(1) upd]])
    with e sp show ?thesis by (simp add: row_erased_def all_rows_def)
  qed
  ultimately have "\<forall>row \<in> set (spl_Rows p). row_erased (ser_WorkspaceID r) row (w_db u2)" by blast
  with p w' show ?thesis by (simp add: list_all_iff)
qed

section \<open>Nothing of the subject is left\<close>

text \<open>The plan covers every row that the predicate of its table selects.\<close>

lemma scan_subject_rows_Inr:
  "scan_subject_rows E sp prep n rs w = (Inr found, w') \<Longrightarrow>
    found = map (\<lambda>q. \<lparr>sr_Table = sps_table sp, sr_ID = text_of (q ''id'')\<rparr>) rs"
  by (induction rs arbitrary: n found w) (auto simp: Let_def op_Inr simp del: scan_subject_rows.simps(2) simp: scan_subject_rows.simps(2))

lemma selectIDs_complete:
  assumes "alone E" and "selectIDs E r sp p prep w = (Inr found, w')"
    and "q \<in> set (w_db w (sps_table sp))" and "holds (w_db w) q (workspace_where (ser_WorkspaceID r) p)"
  shows "\<lparr>sr_Table = sps_table sp, sr_ID = text_of (q ''id'')\<rparr> \<in> set found"
proof -
  obtain rs v where sel: "select E (sps_table sp) (workspace_where (ser_WorkspaceID r) p) w = (Inr rs, v)"
    and scan: "scan_subject_rows E sp prep 0 (ascending ''id'' rs) v = (Inr found, w')"
    using assms(2) by (auto simp: selectIDs_def op_Inr)
  have "q \<in> set rs" using select_Inr [OF assms(1) sel] assms(3,4) by simp
  with scan_subject_rows_Inr [OF scan] show ?thesis by simp
qed

context store_reads
begin

lemma within_selectIDs: "within (selectIDs E r sp p prep)"
  unfolding selectIDs_def by (intro within_reads within_scan_subject_rows)

end

lemma collect_rows_complete:
  assumes "alone E" and "collect_rows E r p prep n sps w = (Inr rows, w')" and "sp \<in> set sps"
    and "q \<in> set (w_db w (sps_table sp))" and "holds (w_db w) q (workspace_where (ser_WorkspaceID r) (p (sps_table sp)))"
  shows "\<lparr>sr_Table = sps_table sp, sr_ID = text_of (q ''id'')\<rparr> \<in> set rows"
  using assms(2-5)
proof (induction sps arbitrary: n rows w)
  case (Cons s sps)
  from Cons.prems(1) obtain found others v where sel: "selectIDs E r s (p (sps_table s)) prep w = (Inr found, v)"
    and rest: "collect_rows E r p prep (n + length found) sps v = (Inr others, w')" and rows: "rows = found @ others"
    by (auto simp: op_Inr)
  have v: "w_db v = w_db w"
    using unchanged_D [OF untouched.within_selectIDs assms(1) sel] by simp
  show ?case
  proof (cases "sp = s")
    case True
    with selectIDs_complete [OF assms(1) sel] Cons.prems(3,4) rows show ?thesis by simp
  next
    case False
    with Cons.prems(2) have "sp \<in> set sps" by simp
    from Cons.IH [OF rest this] Cons.prems(3,4) v rows show ?thesis by simp
  qed
qed simp

lemma collect_complete:
  assumes "alone E" and "subject_collect E r prep w = (Inr p, w')"
  shows "\<exists>connections secrets events invocations. \<forall>sp \<in> set subjectSpecs. \<forall>q \<in> set (w_db w (sps_table sp)).
    holds (w_db w) q (workspace_where (ser_WorkspaceID r) (subject_predicate r connections secrets events invocations (sps_table sp))) \<longrightarrow>
    \<lparr>sr_Table = sps_table sp, sr_ID = text_of (q ''id'')\<rparr> \<in> set (spl_Rows p)"
proof -
  obtain connections secrets events invocations u rows where
    rows: "collect_rows E r (subject_predicate r connections secrets events invocations) prep 0 subjectSpecs u = (Inr rows, w')"
    and p: "spl_Rows p = rows"
    using assms(2) unfolding subject_collect_def Let_def op_Inr case_prod_beta by force
  have "w_db u = w_db w"
    using unchanged_D [OF untouched.within_subject_collect assms] unchanged_D [OF untouched.within_collect_rows assms(1) rows] by simp
  with collect_rows_complete [OF assms(1) rows] p show ?thesis
    by (intro exI [of _ connections] exI [of _ secrets] exI [of _ events] exI [of _ invocations]) auto
qed

text \<open>Rows come from rows that agree on some columns.\<close>

definition derived :: "string \<Rightarrow> string set \<Rightarrow> database \<Rightarrow> database \<Rightarrow> bool" where
  "derived t cs d d' \<longleftrightarrow> (\<forall>q' \<in> set (d' t). \<exists>q \<in> set (d t). \<forall>c \<in> cs. q' c = q c)"

definition derived_within :: "string \<Rightarrow> string set \<Rightarrow> env \<Rightarrow> world \<Rightarrow> world \<Rightarrow> bool" where
  "derived_within t cs E s s' \<longleftrightarrow> (alone E \<longrightarrow> derived t cs (w_db s) (w_db s'))"

lemma derived_refl: "derived t cs d d"
  by (auto simp: derived_def)

lemma derived_trans:
  assumes "derived t cs a b" and "derived t cs b c"
  shows "derived t cs a c"
  unfolding derived_def
proof
  fix q assume "q \<in> set (c t)"
  with assms(2) obtain p where p: "p \<in> set (b t)" "\<forall>x \<in> cs. q x = p x" unfolding derived_def by blast
  with assms(1) obtain s where "s \<in> set (a t)" "\<forall>x \<in> cs. p x = s x" unfolding derived_def by blast
  with p(2) show "\<exists>s \<in> set (a t). \<forall>x \<in> cs. q x = s x" by (intro bexI [of _ s]) auto
qed

lemma derived_same: "d' t = d t \<Longrightarrow> derived t cs d d'"
  by (auto simp: derived_def)

lemma derived_update:
  assumes "\<And>q c. c \<in> cs \<Longrightarrow> u = t \<Longrightarrow> f q c = q c"
  shows "derived t cs d (snd (update_rows u f p d))"
proof (cases "u = t")
  case True
  show ?thesis
    unfolding derived_def
  proof
    fix q' assume "q' \<in> set (snd (update_rows u f p d) t)"
    then obtain q where "q \<in> set (d t)" "q' = (if holds d q p then f q else q)" using True by (auto simp: update_rows_def)
    then show "\<exists>q \<in> set (d t). \<forall>c \<in> cs. q' c = q c" using assms True by (intro bexI [of _ q]) auto
  qed
qed (auto simp: update_rows_def intro: derived_same)

lemma derived_evolution: "evolution (derived_within t cs E)"
  by unfold_locales (auto simp: derived_within_def intro: derived_refl derived_trans)

lemma derived_statement:
  assumes "\<And>d. derived t cs d (snd (f d))"
  shows "evolution.within (derived_within t cs E) (statement E f)"
  unfolding evolution.within_def [OF derived_evolution]
proof
  fix w
  show "derived_within t cs E w (snd (statement E f w))"
    using assms [of "w_db w"] derived_refl [of t cs "w_db w"]
    by (cases "f (w_db w)"; cases "ev_fault E (w_step w)") (auto simp: derived_within_def statement_def Let_def)
qed

lemma derived_store_reads: "store_reads (derived_within t cs E) E"
proof (intro store_reads.intro derived_evolution store_reads_axioms.intro)
  show "evolution.within (derived_within t cs E) (select E u p)" for u p
    unfolding select_def by (intro derived_statement) (simp add: derived_refl)
qed (auto simp: derived_within_def derived_refl)

text \<open>A table whose rows are deleted, never anonymized, and the columns that no preparation sets.\<close>

lemma derived_writes:
  assumes "\<And>sp. sp \<in> set subjectSpecs \<Longrightarrow> sps_table sp = t \<Longrightarrow> sps_erase sp \<and> sps_status sp \<notin> cs"
    and "cs \<inter> {''fencing_token'', ''lease_owner'', ''lease_expires_at''} = {}" and "t \<noteq> fences" and "t \<noteq> receipts_table"
  shows "erasure_writes (derived_within t cs E) E r"
proof (intro erasure_writes.intro erasure_writes_axioms.intro preparation_writes.intro preparation_writes_axioms.intro
      fencing_writes.intro fencing_writes_axioms.intro derived_store_reads)
  have insert: "derived t cs d (snd (insert_row u columns d))" if "u \<noteq> t" for u columns d
    using that by (intro derived_same) (simp add: insert_row_def Let_def)
  show "evolution.within (derived_within t cs E) (insert_into E fences ((''workspace_id'', Text (ser_WorkspaceID r)) # columns))"
    "evolution.within (derived_within t cs E) (insert_into E receipts_table (receipt_columns E r pl))" for columns pl
    unfolding insert_into_def using assms(3,4) by (auto intro!: derived_statement insert)
  show "evolution.within (derived_within t cs E) (update_set E receipts_table [(''result_json'', Doc out)] (workspace_where (ser_WorkspaceID r) p))" for out p
    unfolding update_set_def using assms(4) by (intro derived_statement derived_update) simp
  fix sp p stamp
  assume sp: "sp \<in> set subjectSpecs"
  show "evolution.within (derived_within t cs E) (statement E (update_rows (sps_table sp) (mark_row sp) (workspace_where (ser_WorkspaceID r) p)))"
  proof (intro derived_statement derived_update)
    fix q c assume "c \<in> cs" "sps_table sp = t"
    with assms(1) [OF sp] assms(2) show "mark_row sp q c = q c"
      unfolding mark_row_def by (intro set_columns_other) auto
  qed
  show "evolution.within (derived_within t cs E) (delete_from E (sps_table sp) (workspace_where (ser_WorkspaceID r) p))"
    unfolding delete_from_def by (intro derived_statement) (auto simp: derived_def delete_rows_def)
  show "evolution.within (derived_within t cs E) (update_set E (sps_table sp) (erase_columns sp stamp) (workspace_where (ser_WorkspaceID r) p))"
    if "\<not> sps_erase sp"
    unfolding update_set_def using assms(1) [OF sp] that by (intro derived_statement derived_update) simp
qed

text \<open>The tables whose rows name their user.\<close>

definition subject_columns :: "(string \<times> string) list" where
  "subject_columns =
    [(sessions_table, ''user_id''), (push_table, ''user_id''), (api_keys_table, ''actor_id''), (identities_table, ''actor_id'')]"

definition deleted_table :: "string \<times> string \<Rightarrow> bool" where
  "deleted_table x \<longleftrightarrow>
    (case x of (t, c) \<Rightarrow> list_ex (\<lambda>sp. sps_table sp = t) subjectSpecs \<and> t \<noteq> fences \<and> t \<noteq> receipts_table \<and>
      list_all (\<lambda>sp. sps_table sp = t \<longrightarrow> sps_erase sp \<and> sps_status sp = ''status'') subjectSpecs \<and>
      (c = ''user_id'' \<or> c = ''actor_id''))"

lemma subject_tables:
  assumes "(t, c) \<in> set subject_columns"
  shows "\<exists>sp \<in> set subjectSpecs. sps_table sp = t" and "t \<noteq> fences" and "t \<noteq> receipts_table"
    and "\<And>sp. sp \<in> set subjectSpecs \<Longrightarrow> sps_table sp = t \<Longrightarrow> sps_erase sp \<and> sps_status sp = ''status''"
    and "c \<in> {''user_id'', ''actor_id''}"
    and "subject_predicate r connections secrets events invocations t = Equal c (Text (ser_SubjectID r))"
proof -
  have "list_all deleted_table subject_columns" by code_simp
  with assms have "deleted_table (t, c)" by (auto simp only: list_all_iff)
  then show "\<exists>sp \<in> set subjectSpecs. sps_table sp = t" "t \<noteq> fences" "t \<noteq> receipts_table"
    "\<And>sp. sp \<in> set subjectSpecs \<Longrightarrow> sps_table sp = t \<Longrightarrow> sps_erase sp \<and> sps_status sp = ''status''" "c \<in> {''user_id'', ''actor_id''}"
    by (simp_all add: deleted_table_def list_all_iff list_ex_iff)
  have differ: "api_keys_table \<notin> {sessions_table, push_table}" "identities_table \<notin> {sessions_table, push_table}" by code_simp+
  consider "t = sessions_table \<and> c = ''user_id''" | "t = push_table \<and> c = ''user_id''" | "t = api_keys_table \<and> c = ''actor_id''"
      | "t = identities_table \<and> c = ''actor_id''"
    using assms unfolding subject_columns_def by force
  then show "subject_predicate r connections secrets events invocations t = Equal c (Text (ser_SubjectID r))"
    by cases (insert differ, simp_all add: subject_predicate_def)
qed


lemma fresh_receipt_open:
  assumes "alone E" and "no_receipt r (w_db w)" and "PrepareSubjectErasure E r w = (Inr raw, w')"
  shows "open_receipt r (w_db w')"
proof -
  have other: "sps_table sp \<noteq> receipts_table" if "sp \<in> set subjectSpecs" for sp using spec_tables(2) [OF that] .
  have "preparation_writes (inv_within (open_receipt r) E) E r"
  proof (intro preparation_writes.intro preparation_writes_axioms.intro
      fencing_writes.intro fencing_writes_axioms.intro inv_store_reads)
    show "evolution.within (inv_within (open_receipt r) E) (insert_into E fences ((''workspace_id'', Text (ser_WorkspaceID r)) # cs))"
      "evolution.within (inv_within (open_receipt r) E) (insert_into E receipts_table (receipt_columns E r pl))" for cs pl
      unfolding insert_into_def open_receipt_def
      by (auto intro!: inv_statement all_rows_insert simp: receipts_table_def fences_def receipt_columns_def raw_nil_def)
    show "evolution.within (inv_within (open_receipt r) E) (statement E (update_rows (sps_table sp) (mark_row sp) (workspace_where (ser_WorkspaceID r) p)))"
      if "sp \<in> set subjectSpecs" for sp p
      unfolding open_receipt_def using other [OF that] by (auto intro!: inv_statement all_rows_update)
  qed
  moreover have "open_receipt r (w_db w)" using assms(2) by (auto simp: open_receipt_def no_receipt_def all_rows_def)
  ultimately show ?thesis
    using kept_alone [OF preparation_writes.within_PrepareSubjectErasure assms(1,3)] by blast
qed

text \<open>
  C17. Nothing of the subject is left: when a request is prepared for the first time and then erased (with no other process
  at work), no session, push subscription, API key or external identity of the workspace names
  the subject any more.
\<close>

theorem erased_subject_gone:
  assumes "alone E" and "no_receipt r (w_db w)" and "PrepareSubjectErasure E r w = (Inr raw, w1)"
    and "alone E'" and "ErasePreparedSubject E' r raw w1 = (Inr out, w2)"
    and "(t, c) \<in> set subject_columns" and "all_rows t (\<lambda>q. \<exists>i. q ''id'' = Text i) (w_db w)"
  shows "all_rows t (\<lambda>q. \<not> (q ''workspace_id'' = Text (ser_WorkspaceID r) \<and> q c = Text (ser_SubjectID r))) (w_db w2)"
proof -
  note table = subject_tables [OF assms(6)]
  obtain p u0 u1 where u0: "w_db u0 = w_db w" and collect: "subject_collect E r True u0 = (Inr p, u1)" and raw: "raw = marshal (plan_json p)"
    using fresh_preparation [OF assms(1-3)] by blast
  obtain connections secrets events invocations where cover: "\<forall>sp \<in> set subjectSpecs. \<forall>q \<in> set (w_db u0 (sps_table sp)).
    holds (w_db u0) q (workspace_where (ser_WorkspaceID r) (subject_predicate r connections secrets events invocations (sps_table sp))) \<longrightarrow>
    \<lparr>sr_Table = sps_table sp, sr_ID = text_of (q ''id'')\<rparr> \<in> set (spl_Rows p)"
    using collect_complete [OF assms(1) collect] by blast
  have "decode_plan raw = Some p" unfolding raw using collected_request [OF collect] by (intro plan_roundtrip) simp
  with erasure_executes_plan [OF assms(4) fresh_receipt_open [OF assms(1-3)] assms(5)]
  have erased: "\<forall>row \<in> set (spl_Rows p). row_erased (ser_WorkspaceID r) row (w_db w2)" by (simp add: list_all_iff)
  let ?cs = "{''id'', ''workspace_id'', c}"
  have writes: "erasure_writes (derived_within t ?cs F) F r" for F
    using table(4,5) by (intro derived_writes table(2,3)) auto
  have "derived t ?cs (w_db w) (w_db w1)" "derived t ?cs (w_db w1) (w_db w2)"
    using evolution.within_D [OF derived_evolution preparation_writes.within_PrepareSubjectErasure [OF erasure_writes.axioms(1) [OF writes]] assms(3)] assms(1)
      evolution.within_D [OF derived_evolution erasure_writes.within_ErasePreparedSubject [OF writes] assms(5)] assms(4)
    by (simp_all add: derived_within_def)
  then have derived: "derived t ?cs (w_db w) (w_db w2)" by (rule derived_trans)
  obtain sp where sp: "sp \<in> set subjectSpecs" "sps_table sp = t" using table(1) by blast
  show ?thesis
    unfolding all_rows_def
  proof (intro ballI notI)
    fix q assume q: "q \<in> set (w_db w2 t)" and named: "q ''workspace_id'' = Text (ser_WorkspaceID r) \<and> q c = Text (ser_SubjectID r)"
    obtain s where s: "s \<in> set (w_db w t)" "\<forall>x \<in> ?cs. q x = s x" using derived q unfolding derived_def by blast
    obtain i where i: "s ''id'' = Text i" using assms(7) s(1) unfolding all_rows_def by blast
    have "holds (w_db u0) s (workspace_where (ser_WorkspaceID r) (subject_predicate r connections secrets events invocations t))"
    proof -
      have "s ''workspace_id'' = Text (ser_WorkspaceID r)" "s c = Text (ser_SubjectID r)" using s(2) named by auto
      then show ?thesis by (simp add: table(6) [of r] workspace_where_def where_simps)
    qed
    with cover sp s(1) u0 i have "\<lparr>sr_Table = t, sr_ID = i\<rparr> \<in> set (spl_Rows p)" by fastforce
    with erased have "row_erased (ser_WorkspaceID r) \<lparr>sr_Table = t, sr_ID = i\<rparr> (w_db w2)" by blast
    moreover have "q ''id'' = Text i" using s(2) i by simp
    ultimately show False
      using q named table(4) spec_of_in [of t] by (auto simp: row_erased_def all_rows_def split: option.splits)
  qed
qed

section \<open>A credential that is shared under a padded name\<close>

text \<open>
  A credential is erased although another connection uses it: the preparation takes the text after
  \<open>secret:\<close> as the name of the credential, while the resolver trims it. A connection of the workspace
  that refers to it with a space in between resolves the same credential, but does not count as
  sharing it, so the credential is private to the subject's connection and is erased.
\<close>

theorem shared_secret_missed:
  "resolveReferenceSnapshot E ws (''secret: '' @ key) = resolveReferenceSnapshot E ws (''secret:'' @ key) \<and>
   private_secrets [(True, secret_names [(a, ''secret:'' @ key)]), (False, secret_names [(b, ''secret: '' @ key)])] [] = [key]"
proof -
  have "find (\<lambda>p. p \<noteq> [] \<and> has_prefix (CHR '' '' # key) p) go_spaces = Some '' ''"
    by (simp add: go_spaces_def)
  then have "trim_space (CHR '' '' # key) = trim_space key"
    by (simp add: trim_space_def trim_front.simps [of go_spaces "CHR '' '' # key"])
  then show ?thesis
    by (simp add: resolveReferenceSnapshot_def private_secrets_def secret_names_def trim_prefix_def Let_def)
qed

section \<open>What was prepared can be erased\<close>

lemma collected_tables:
  "collect_rows E r p prep n sps w = (Inr rows, w') \<Longrightarrow> row \<in> set rows \<Longrightarrow> \<exists>sp \<in> set sps. sps_table sp = sr_Table row"
proof (induction sps arbitrary: n rows w)
  case (Cons sp sps)
  from Cons.prems(1) obtain found others u v m where sel: "selectIDs E r sp (p (sps_table sp)) prep w = (Inr found, u)"
    and rest: "collect_rows E r p prep m sps v = (Inr others, w')" and rows: "rows = found @ others"
    by (auto simp: op_Inr)
  have scan: "scan_subject_rows E sp prep k qs u = (Inr found, v) \<Longrightarrow> \<forall>x \<in> set found. sr_Table x = sps_table sp" for k qs u v found
    by (induction qs arbitrary: k u found) (auto simp: op_Inr Let_def)
  from sel have "\<forall>x \<in> set found. sr_Table x = sps_table sp" by (auto simp: selectIDs_def op_Inr dest: scan)
  with Cons.IH [OF rest] Cons.prems(2) rows show ?case by auto
qed simp

text \<open>After a first preparation the plan is the only one of its request.\<close>

lemma fresh_receipt:
  assumes "alone E" and "no_receipt r (w_db w)" and "PrepareSubjectErasure E r w = (Inr raw, w')"
  shows "\<exists>p. raw = marshal (plan_json p) \<and> spl_Request p = normalizeSubjectRequest r \<and>
    (\<forall>row \<in> set (spl_Rows p). spec_of (sr_Table row) \<noteq> None) \<and>
    select_rows receipts_table (workspace_where (ser_WorkspaceID r) (Equal ''request_id'' (Text (ser_RequestID r)))) (w_db w') =
      [row_of (receipt_columns E r p)]"
proof -
  obtain p u0 u1 u2 u3 u4 xs ys n where u0: "w_db u0 = w_db w" and c: "subject_collect E r True u0 = (Inr p, u1)"
    and f: "each (put_fence E r) (plan_fences r p) u1 = (Inr xs, u2)" and m: "each (prepare_row E r) (spl_Rows p) u2 = (Inr ys, u3)"
    and i: "insert_into E receipts_table (receipt_columns E r p) u3 = (Inr n, u4)" and w': "w_db w' = w_db u4" and raw: "raw = marshal (plan_json p)"
    using fresh_preparation [OF assms] by blast
  have other: "sps_table sp \<noteq> receipts_table" if "sp \<in> set subjectSpecs" for sp using spec_tables(2) [OF that] .
  have writes: "fencing_writes (inv_within (no_receipt r) E) E r"
  proof (intro fencing_writes.intro fencing_writes_axioms.intro inv_store_reads)
    show "evolution.within (inv_within (no_receipt r) E) (insert_into E fences ((''workspace_id'', Text (ser_WorkspaceID r)) # cs))" for cs
      unfolding insert_into_def no_receipt_def
      by (auto intro!: inv_statement all_rows_insert simp: receipts_table_def fences_def)
    show "evolution.within (inv_within (no_receipt r) E) (statement E (update_rows (sps_table sp) (mark_row sp) (workspace_where (ser_WorkspaceID r) p)))"
      if "sp \<in> set subjectSpecs" for sp p
      unfolding no_receipt_def using other [OF that] by (auto intro!: inv_statement all_rows_update)
  qed
  have "w_db u1 = w_db w" using unchanged_D [OF untouched.within_subject_collect assms(1) c] u0 by simp
  with assms(2) have "no_receipt r (w_db u1)" by simp
  then have "no_receipt r (w_db u2)"
    by (rule kept_alone [OF evolution.within_each [OF inv_evolution fencing_writes.within_put_fence [OF writes]] assms(1) f])
  then have none: "no_receipt r (w_db u3)"
    by (rule kept_alone [OF evolution.within_each [OF inv_evolution fencing_writes.within_prepare_row [OF writes]] assms(1) m])
  have "w_db w' receipts_table = w_db u3 receipts_table @ [row_of (receipt_columns E r p)]"
  proof -
    have "fst (insert_row receipts_table (receipt_columns E r p) (w_db u3)) = Inr n"
      "w_db w' = snd (insert_row receipts_table (receipt_columns E r p) (w_db u3))"
      using insert_into_Inr [OF assms(1) i] w' by simp_all
    then show ?thesis by (simp add: insert_row_def Let_def split: if_splits)
  qed
  with none have "select_rows receipts_table (workspace_where (ser_WorkspaceID r) (Equal ''request_id'' (Text (ser_RequestID r)))) (w_db w') =
      [row_of (receipt_columns E r p)]"
    by (auto simp: select_rows_def filter_empty_conv no_receipt_def all_rows_def workspace_where_def where_simps receipt_columns_def)
  moreover have "spec_of (sr_Table row) \<noteq> None" if "row \<in> set (spl_Rows p)" for row
  proof -
    from c obtain q k u v rows where "collect_rows E r q True k subjectSpecs u = (Inr rows, v)" "spl_Rows p = rows"
      unfolding subject_collect_def Let_def op_Inr case_prod_beta by force
    with collected_tables that obtain sp where "sp \<in> set subjectSpecs" "sps_table sp = sr_Table row" by blast
    then show ?thesis by (auto simp: spec_of_def find_None_iff)
  qed
  ultimately show ?thesis using raw collected_request [OF c] by blast
qed

lemma erase_row_runs:
  assumes "calm E" and "spec_of (sr_Table row) = Some sp"
  shows "\<exists>w'. erase_row E r row w = (Inr (), w') \<and> w_db w' receipts_table = w_db w receipts_table"
  using assms(1,2) spec_of_in [OF assms(2)] spec_tables(2) [of sp]
  by (cases "sps_erase sp")
    (auto simp add: erase_row_def Let_def calm_delete seq_apply ownerNow_def now_def update_set_def calm_statement update_rows_def delete_rows_def)

lemma each_runs:
  assumes "\<And>x w. x \<in> set xs \<Longrightarrow> \<exists>w'. f x w = (Inr (), w') \<and> w_db w' t = w_db w t"
  shows "\<exists>ys w'. each f xs w = (Inr ys, w') \<and> w_db w' t = w_db w t"
  using assms
proof (induction xs arbitrary: w)
  case (Cons x xs)
  obtain u where u: "f x w = (Inr (), u)" "w_db u t = w_db w t" using Cons.prems [of x w] by auto
  moreover obtain ys v where "each f xs u = (Inr ys, v)" "w_db v t = w_db u t" using Cons.IH [of u] Cons.prems by auto
  ultimately show ?case by (simp add: seq_apply)
qed simp

definition receipt_where :: "SubjectErasureRequest \<Rightarrow> predicate" where
  "receipt_where r = workspace_where (ser_WorkspaceID r) (Equal ''request_id'' (Text (ser_RequestID r)))"

lemma receipt_where_local [simp]: "holds d' q (receipt_where r) \<longleftrightarrow> holds d q (receipt_where r)"
  by (simp add: receipt_where_def workspace_where_def where_simps)

text \<open>The receipt that the preparation leaves, and what an erasure makes of it.\<close>

definition receipt_is :: "SubjectErasureRequest \<Rightarrow> raw_message \<Rightarrow> raw_message \<Rightarrow> database \<Rightarrow> bool" where
  "receipt_is r plan result d \<longleftrightarrow>
    (\<exists>q. select_rows receipts_table (receipt_where r) d = [q] \<and> q ''subject_id'' = Text (ser_SubjectID r) \<and>
      q ''plan_json'' = Doc plan \<and> q ''result_json'' = Doc result)"

lemma subject_receipt_runs:
  assumes "calm E" and "receipt_is r plan result (w_db w)"
  shows "subject_receipt E r w = (Inr (Some (plan, result)), w\<lparr>w_step := Suc (w_step w)\<rparr>)"
  using assms unfolding receipt_is_def receipt_where_def
  by (auto simp: subject_receipt_def run_steps)

lemma select_rows_same: "d' t = d t \<Longrightarrow> (\<And>q. holds d' q p = holds d q p) \<Longrightarrow> select_rows t p d' = select_rows t p d"
  by (simp add: select_rows_def)

lemma receipt_updated:
  assumes "receipt_is r plan old d"
  shows "receipt_is r plan new (snd (update_rows receipts_table (set_columns [(''result_json'', Doc new)]) (receipt_where r) d))"
proof -
  obtain q where q: "select_rows receipts_table (receipt_where r) d = [q]" "q ''subject_id'' = Text (ser_SubjectID r)"
    "q ''plan_json'' = Doc plan" using assms unfolding receipt_is_def by blast
  let ?f = "\<lambda>x. if holds d x (receipt_where r) then set_columns [(''result_json'', Doc new)] x else x"
  have same: "holds d' (?f x) (receipt_where r) = holds d x (receipt_where r)" for d' x
    by (simp add: receipt_where_def workspace_where_def where_simps)
  have "filter (\<lambda>x. holds d' x (receipt_where r)) (map ?f xs) = map ?f (filter (\<lambda>x. holds d x (receipt_where r)) xs)" for d' xs
    by (simp add: filter_map o_def same del: receipt_where_local)
  then have "select_rows receipts_table (receipt_where r) (snd (update_rows receipts_table (set_columns [(''result_json'', Doc new)]) (receipt_where r) d)) =
      map ?f (select_rows receipts_table (receipt_where r) d)"
    by (simp add: update_rows_def select_rows_def)
  moreover have "holds d q (receipt_where r)"
  proof -
    have "q \<in> set (select_rows receipts_table (receipt_where r) d)" using q(1) by simp
    then show ?thesis by (simp add: select_rows_def)
  qed
  ultimately show ?thesis unfolding receipt_is_def using q by simp
qed

lemma erasure_runs:
  assumes "calm E" and "receipt_is r raw raw_nil (w_db w)" and "raw = marshal (plan_json p)"
    and "spl_Request p = normalizeSubjectRequest r" and "\<forall>row \<in> set (spl_Rows p). spec_of (sr_Table row) \<noteq> None"
  shows "\<exists>out w'. ErasePreparedSubject E r raw w = (Inr out, w') \<and> receipt_is r raw out (w_db w') \<and> raw_length out \<noteq> 0"
proof -
  have decoded: "decode_plan raw = Some p" unfolding assms(3) using assms(4) by (intro plan_roundtrip) simp
  let ?u = "w\<lparr>w_step := Suc (Suc (w_step w)), w_tx := True\<rparr>"
  have found: "subject_receipt E r (w\<lparr>w_step := Suc (w_step w), w_tx := True\<rparr>) = (Inr (Some (raw, raw_nil)), ?u)"
    using subject_receipt_runs [OF assms(1), of r raw raw_nil "w\<lparr>w_step := Suc (w_step w), w_tx := True\<rparr>"] assms(2) by simp
  have "\<exists>v. erase_row E r row u = (Inr (), v) \<and> w_db v receipts_table = w_db u receipts_table" if "row \<in> set (spl_Rows p)" for row u
    using assms(5) that erase_row_runs [OF assms(1), of row _ r u] by auto
  then obtain xs u where rows: "each (erase_row E r) (spl_Rows p) ?u = (Inr xs, u)" "w_db u receipts_table = w_db w receipts_table"
    using each_runs [of "spl_Rows p" "erase_row E r" receipts_table ?u] by auto
  have "receipt_is r raw raw_nil (w_db u)"
    using assms(2) select_rows_same [of "w_db u" receipts_table "w_db w" "receipt_where r"] rows(2) by (simp add: receipt_is_def)
  note updated = receipt_updated [OF this]
  then show ?thesis
    using assms(1,4) decoded found rows(1)
    by (auto simp: ErasePreparedSubject_def Let_def run_steps erase_body_def raw_nil_def update_set_def calm_statement
        update_rows_def receipt_where_def [symmetric] marshal_def)
qed

lemma repeated_erasure:
  assumes "calm E" and "receipt_is r raw out (w_db w)" and "raw_length out \<noteq> 0" and "raw = marshal (plan_json p)"
    and "spl_Request p = normalizeSubjectRequest r"
  shows "\<exists>w'. ErasePreparedSubject E r raw w = (Inr out, w') \<and> w_db w' = w_db w"
proof -
  have "decode_plan raw = Some p" unfolding assms(4) using assms(5) by (intro plan_roundtrip) simp
  moreover have "subject_receipt E r (w\<lparr>w_step := Suc (w_step w), w_tx := True\<rparr>) =
      (Inr (Some (raw, out)), w\<lparr>w_step := Suc (Suc (w_step w)), w_tx := True\<rparr>)"
    using subject_receipt_runs [OF assms(1), of r raw out "w\<lparr>w_step := Suc (w_step w), w_tx := True\<rparr>"] assms(2) by simp
  ultimately show ?thesis
    using assms(1,3,5) by (simp add: ErasePreparedSubject_def Let_def run_steps erase_body_def)
qed

lemma prepared_receipt:
  assumes "alone E" and "no_receipt r (w_db w)" and "PrepareSubjectErasure E r w = (Inr raw, w1)"
  shows "\<exists>p. raw = marshal (plan_json p) \<and> spl_Request p = normalizeSubjectRequest r \<and>
    (\<forall>row \<in> set (spl_Rows p). spec_of (sr_Table row) \<noteq> None) \<and> receipt_is r raw raw_nil (w_db w1)"
  using fresh_receipt [OF assms] unfolding receipt_is_def receipt_where_def [symmetric] by (auto simp: receipt_columns_def)

text \<open>
  C20. A request that was prepared can be erased, once: when its first preparation (with no other process at work)
  returns a plan, the erasure with that plan returns a result in a calm environment, and the same erasure again
  returns the same result and changes nothing.
\<close>

theorem prepared_erasure_completes:
  assumes "alone E" and "no_receipt r (w_db w)" and "PrepareSubjectErasure E r w = (Inr raw, w1)" and "calm E'"
  shows "\<exists>out w2 w3. ErasePreparedSubject E' r raw w1 = (Inr out, w2) \<and>
    ErasePreparedSubject E' r raw w2 = (Inr out, w3) \<and> w_db w3 = w_db w2"
proof -
  obtain p where p: "raw = marshal (plan_json p)" "spl_Request p = normalizeSubjectRequest r"
      "\<forall>row \<in> set (spl_Rows p). spec_of (sr_Table row) \<noteq> None" "receipt_is r raw raw_nil (w_db w1)"
    using prepared_receipt [OF assms(1-3)] by blast
  from erasure_runs [OF assms(4) p(4,1-3)] repeated_erasure [OF assms(4) _ _ p(1,2)] show ?thesis by blast
qed

section \<open>An erasure in a calm environment\<close>

definition demo_erasure :: SubjectErasureRequest where
  "demo_erasure =
    \<lparr>ser_WorkspaceID = ''w1'', ser_SubjectID = ''u1'', ser_RequestID = ''e1'', ser_Resources = [], ser_PublicationMessageIDs = [],
     ser_EventIDs = [], ser_LegalHolds = raw_nil\<rparr>"

definition demo_session :: row where
  "demo_session = row_of
    [(''id'', Text ''s1''), (''workspace_id'', Text ''w1''), (''user_id'', Text ''u1''), (''status'', Text ''pending'')]"

definition stranger_row :: row where
  "stranger_row = row_of
    [(''id'', Text ''s2''), (''workspace_id'', Text ''w2''), (''user_id'', Text ''u1''), (''status'', Text ''pending'')]"

definition erasure_db :: database where
  "erasure_db = (\<lambda>t. if t = sessions_table then [demo_session, stranger_row] else [])"

lemma demo_prepared:
  "case fst (PrepareSubjectErasure calm_env demo_erasure (world_of erasure_db)) of Inl _ \<Rightarrow> False | Inr _ \<Rightarrow> True"
  by code_simp

lemma demo_unprepared: "no_receipt demo_erasure (w_db (world_of erasure_db))"
  by code_simp

lemma demo_preparation:
  obtains raw w1 where "PrepareSubjectErasure calm_env demo_erasure (world_of erasure_db) = (Inr raw, w1)"
  using demo_prepared by (cases "PrepareSubjectErasure calm_env demo_erasure (world_of erasure_db)") (auto split: sum.splits)

theorem prepared_erasure_completes_witness:
  "\<exists>raw w1 out w2 w3. PrepareSubjectErasure calm_env demo_erasure (world_of erasure_db) = (Inr raw, w1) \<and>
    ErasePreparedSubject calm_env demo_erasure raw w1 = (Inr out, w2) \<and> ErasePreparedSubject calm_env demo_erasure raw w2 = (Inr out, w3)"
proof -
  obtain raw w1 where step: "PrepareSubjectErasure calm_env demo_erasure (world_of erasure_db) = (Inr raw, w1)"
    by (rule demo_preparation)
  with prepared_erasure_completes [OF calm_alone [OF calm_env_calm] demo_unprepared step calm_env_calm] show ?thesis by blast
qed

lemma demo_steps:
  obtains raw w1 out w2 where "PrepareSubjectErasure calm_env demo_erasure (world_of erasure_db) = (Inr raw, w1)"
    and "ErasePreparedSubject calm_env demo_erasure raw w1 = (Inr out, w2)"
proof -
  obtain raw w1 where step: "PrepareSubjectErasure calm_env demo_erasure (world_of erasure_db) = (Inr raw, w1)"
    by (rule demo_preparation)
  obtain p where p: "raw = marshal (plan_json p)" "spl_Request p = normalizeSubjectRequest demo_erasure"
      "\<forall>row \<in> set (spl_Rows p). spec_of (sr_Table row) \<noteq> None" "receipt_is demo_erasure raw raw_nil (w_db w1)"
    using prepared_receipt [OF calm_alone [OF calm_env_calm] demo_unprepared step] by blast
  from erasure_runs [OF calm_env_calm p(4,1-3)] step that show ?thesis by blast
qed

theorem erased_subject_gone_witness:
  "\<exists>raw w1 out w2. PrepareSubjectErasure calm_env demo_erasure (world_of erasure_db) = (Inr raw, w1) \<and>
    ErasePreparedSubject calm_env demo_erasure raw w1 = (Inr out, w2) \<and>
    all_rows sessions_table (\<lambda>q. \<not> (q ''workspace_id'' = Text ''w1'' \<and> q ''user_id'' = Text ''u1'')) (w_db w2)"
proof -
  obtain raw w1 out w2 where steps: "PrepareSubjectErasure calm_env demo_erasure (world_of erasure_db) = (Inr raw, w1)"
    "ErasePreparedSubject calm_env demo_erasure raw w1 = (Inr out, w2)"
    by (rule demo_steps)
  note alone = calm_alone [OF calm_env_calm]
  have keyed: "all_rows sessions_table (\<lambda>q. \<exists>i. q ''id'' = Text i) (w_db (world_of erasure_db))"
    by (simp add: all_rows_def erasure_db_def demo_session_def stranger_row_def world_of_def)
  have named: "(sessions_table, ''user_id'') \<in> set subject_columns" by (simp add: subject_columns_def)
  show ?thesis
    using erased_subject_gone [OF alone demo_unprepared steps(1) alone steps(2) named keyed] steps
    by (auto simp: demo_erasure_def)
qed

theorem erasure_executes_plan_witness:
  "\<exists>raw w1 out w2. ErasePreparedSubject calm_env demo_erasure raw w1 = (Inr out, w2) \<and>
    (case decode_plan raw of None \<Rightarrow> False | Some p \<Rightarrow> list_all (\<lambda>row. row_erased (ser_WorkspaceID demo_erasure) row (w_db w2)) (spl_Rows p))"
proof -
  obtain raw w1 out w2 where steps: "PrepareSubjectErasure calm_env demo_erasure (world_of erasure_db) = (Inr raw, w1)"
    "ErasePreparedSubject calm_env demo_erasure raw w1 = (Inr out, w2)"
    by (rule demo_steps)
  note alone = calm_alone [OF calm_env_calm]
  show ?thesis
    using erasure_executes_plan [OF alone fresh_receipt_open [OF alone demo_unprepared steps(1)] steps(2)] steps(2) by blast
qed

theorem preparation_fences_witness:
  "\<exists>raw w1. PrepareSubjectErasure calm_env demo_erasure (world_of erasure_db) = (Inr raw, w1) \<and>
    (case decode_plan raw of None \<Rightarrow> False
     | Some p \<Rightarrow> spl_Request p = normalizeSubjectRequest demo_erasure \<and>
         all_fenced (w_db w1) (ser_WorkspaceID demo_erasure) (plan_fences demo_erasure p @ map row_fence (spl_Rows p)) \<and>
         has_row receipts_table (\<lambda>q. q = row_of (receipt_columns calm_env demo_erasure p)) (w_db w1))"
proof -
  obtain raw w1 out w2 where step: "PrepareSubjectErasure calm_env demo_erasure (world_of erasure_db) = (Inr raw, w1)"
    by (rule demo_steps)
  show ?thesis using preparation_fences [OF calm_alone [OF calm_env_calm] demo_unprepared step] step by blast
qed

theorem erasure_keeps_other_workspaces_witness:
  "stays_in sessions_table stranger_row (w_db (snd (ErasePreparedSubject calm_env demo_erasure raw_nil (world_of erasure_db))))"
  using erasure_keeps_other_workspaces [of stranger_row demo_erasure sessions_table calm_env "world_of erasure_db" raw_nil]
  by (simp add: stranger_row_def demo_erasure_def stays_in_def erasure_db_def calm_env_def world_of_def)

end
