(* ===== verification/Authorization.thy ===== *)
theory Authorization
  imports AccessScope Timestamps
begin

text \<open>
  \<open>authorization.go\<close>: from a principal's access bundle to the access scope of one permission. A
  function grant and a data policy of exactly that permission must agree; the data scopes of the
  policies become the users and organizations whose rows are allowed and denied. The lemmas say
  which rows the stores then let through.
\<close>

section \<open>The identity SDK's bundle\<close>

datatype effect = EffectAllow | EffectDeny | EffectOther string

datatype data_scope = DataScopeAll | DataScopeOwner | DataScopeOrg | DataScopeOrgChild | DataScopeTargetOrg | DataScopeOther string

datatype predicate_operator = OperatorEqual | OperatorIn | OperatorOther string

text \<open>A predicate of a policy; \<^const>\<open>JNull\<close> is the value \<open>nil\<close>.\<close>

datatype policy_predicate =
  Predicate (pp_Fact: string) (pp_Path: "string list") (pp_Operator: predicate_operator) (pp_Value: json)
    (pp_All: "policy_predicate list") (pp_Any: "policy_predicate list") (pp_Not: "policy_predicate option")

record Subject =
  isub_WorkspaceID :: string
  isub_SubjectID :: string
  isub_OrgID :: string
  isub_OrgScopeIDs :: "string list"
  isub_SupportOrgScopeIDs :: "string list"

record FunctionGrant =
  fg_Resource :: string
  fg_Action :: string
  fg_Effect :: effect

record DataPolicy =
  dp_Resource :: string
  dp_Action :: string
  dp_Effect :: effect
  dp_DataScopes :: "data_scope list"
  dp_Predicate :: policy_predicate

record Guardrail =
  gr_Resource :: string
  gr_Action :: string
  gr_Effect :: effect
  gr_Field :: string
  gr_Predicate :: "policy_predicate option"

record AccessBundle =
  ab_Subject :: Subject
  ab_FunctionGrants :: "FunctionGrant list"
  ab_DataPolicies :: "DataPolicy list"
  ab_Guardrails :: "Guardrail list"

record IdentityPrincipal =
  ip_Known :: bool
  ip_WorkspaceID :: string
  ip_UserID :: string
  ip_AccessBundle :: "AccessBundle option"

text \<open>What the SDK checks: a bundle at an instant, a data scope (and its text), and whether a predicate is empty.\<close>

record identity_sdk =
  isdk_BundleValidate :: "AccessBundle \<Rightarrow> time \<Rightarrow> err option"
  isdk_ScopeValid :: "data_scope \<Rightarrow> bool"
  isdk_ScopeText :: "data_scope \<Rightarrow> string"
  isdk_IsZero :: "policy_predicate \<Rightarrow> bool"

section \<open>Predicates that say no more than a data scope\<close>

definition predicateLeafOnly :: "policy_predicate \<Rightarrow> bool" where
  "predicateLeafOnly p \<longleftrightarrow> \<not> blank (pp_Fact p) \<and> pp_Path p = [] \<and> pp_All p = [] \<and> pp_Any p = [] \<and> pp_Not p = None"

definition predicateContainerOnly :: "policy_predicate \<Rightarrow> bool" where
  "predicateContainerOnly p \<longleftrightarrow>
    blank (pp_Fact p) \<and> pp_Path p = [] \<and> pp_Operator p = OperatorOther [] \<and> pp_Value p = JNull \<and> pp_All p = [] \<and> pp_Not p = None"

definition predicateMatchesDataScope :: "policy_predicate \<Rightarrow> data_scope \<Rightarrow> bool" where
  "predicateMatchesDataScope p ds \<longleftrightarrow>
    predicateLeafOnly p \<and>
    (case pp_Value p of
       JStr v \<Rightarrow>
         (case ds of
            DataScopeOwner \<Rightarrow> pp_Fact p = ''owner_user_id'' \<and> pp_Operator p = OperatorEqual \<and> v = ''$subject.id''
          | DataScopeOrg \<Rightarrow> pp_Fact p = ''owner_org_id'' \<and> pp_Operator p = OperatorEqual \<and> v = ''$subject.org_id''
          | DataScopeOrgChild \<Rightarrow> pp_Fact p = ''owner_org_id'' \<and> pp_Operator p = OperatorIn \<and> v = ''$subject.org_scope_ids''
          | DataScopeTargetOrg \<Rightarrow>
              pp_Fact p = ''owner_org_id'' \<and> pp_Operator p = OperatorIn \<and> v = ''$subject.support_org_scope_ids''
          | _ \<Rightarrow> False)
     | _ \<Rightarrow> False)"

text \<open>The first predicate not used yet that matches a data scope is used up by it.\<close>

fun use_first :: "data_scope \<Rightarrow> policy_predicate list \<Rightarrow> policy_predicate list option" where
  "use_first ds [] = None"
| "use_first ds (p # ps) =
    (if predicateMatchesDataScope p ds then Some ps
     else (case use_first ds ps of None \<Rightarrow> None | Some qs \<Rightarrow> Some (p # qs)))"

fun each_used :: "policy_predicate list \<Rightarrow> data_scope list \<Rightarrow> bool" where
  "each_used ps [] = True"
| "each_used ps (ds # dss) = (case use_first ds ps of None \<Rightarrow> False | Some qs \<Rightarrow> each_used qs dss)"

definition predicateMatchesDataScopes :: "identity_sdk \<Rightarrow> policy_predicate \<Rightarrow> data_scope list \<Rightarrow> bool" where
  "predicateMatchesDataScopes I p dss =
    (case dss of
       [ds] \<Rightarrow> if ds = DataScopeAll then isdk_IsZero I p else predicateMatchesDataScope p ds
     | _ \<Rightarrow> predicateContainerOnly p \<and> length (pp_Any p) = length dss \<and> each_used (pp_Any p) dss)"

section \<open>From data scopes to an access scope\<close>

definition appendScopeValue :: "bool \<Rightarrow> string \<Rightarrow> bool \<Rightarrow> AccessScope \<Rightarrow> AccessScope" where
  "appendScopeValue denied v organization scope =
    (let v = trim_space v in
     if v = [] then scope
     else if organization then
       (if denied then scope\<lparr>as_DeniedOrgIDs := as_DeniedOrgIDs scope @ [v]\<rparr>
        else scope\<lparr>as_AllowedOrgIDs := as_AllowedOrgIDs scope @ [v]\<rparr>)
     else
       (if denied then scope\<lparr>as_DeniedUserIDs := as_DeniedUserIDs scope @ [v]\<rparr>
        else scope\<lparr>as_AllowedUserIDs := as_AllowedUserIDs scope @ [v]\<rparr>))"

definition applyDataScope :: "effect \<Rightarrow> data_scope \<Rightarrow> Subject \<Rightarrow> AccessScope \<Rightarrow> AccessScope" where
  "applyDataScope e ds subject scope =
    (let denied = (e = EffectDeny) in
     case ds of
       DataScopeAll \<Rightarrow> if denied then scope\<lparr>as_DeniedAll := True\<rparr> else scope\<lparr>as_Unrestricted := True\<rparr>
     | DataScopeOwner \<Rightarrow> appendScopeValue denied (isub_SubjectID subject) False scope
     | DataScopeOrg \<Rightarrow> appendScopeValue denied (isub_OrgID subject) True scope
     | DataScopeOrgChild \<Rightarrow> fold (\<lambda>id. appendScopeValue denied id True) (isub_OrgScopeIDs subject) scope
     | DataScopeTargetOrg \<Rightarrow> fold (\<lambda>id. appendScopeValue denied id True) (isub_SupportOrgScopeIDs subject) scope
     | DataScopeOther _ \<Rightarrow> scope)"

definition uniqueSorted :: "string list \<Rightarrow> string list" where
  "uniqueSorted vs = sort (remdups (filter (\<lambda>v. v \<noteq> []) (map trim_space vs)))"

fun last_index :: "char \<Rightarrow> string \<Rightarrow> nat option" where
  "last_index c [] = None"
| "last_index c (d # s) =
    (case last_index c s of Some i \<Rightarrow> Some (Suc i) | None \<Rightarrow> if d = c then Some 0 else None)"

text \<open>The data scopes of one policy, then the policies of the permission, in order.\<close>

fun apply_scopes :: "identity_sdk \<Rightarrow> string \<Rightarrow> effect \<Rightarrow> Subject \<Rightarrow> data_scope list \<Rightarrow> AccessScope \<Rightarrow> err + AccessScope" where
  "apply_scopes I key e subject [] scope = Inr scope"
| "apply_scopes I key e subject (ds # dss) scope =
    (if \<not> isdk_ScopeValid I ds then Inl (Errorf ''Integration permission %q has unsupported data scope %q'' [key, isdk_ScopeText I ds])
     else apply_scopes I key e subject dss (applyDataScope e ds subject scope))"

definition of_permission :: "string \<Rightarrow> string \<Rightarrow> string \<Rightarrow> string \<Rightarrow> bool" where
  "of_permission resource action r a \<longleftrightarrow> trim_space r = resource \<and> trim_space a = action"

fun apply_policies ::
    "identity_sdk \<Rightarrow> string \<Rightarrow> string \<Rightarrow> string \<Rightarrow> Subject \<Rightarrow> DataPolicy list \<Rightarrow> bool \<Rightarrow> AccessScope \<Rightarrow> err + bool \<times> AccessScope" where
  "apply_policies I key resource action subject [] matched scope = Inr (matched, scope)"
| "apply_policies I key resource action subject (p # ps) matched scope =
    (if \<not> of_permission resource action (dp_Resource p) (dp_Action p)
     then apply_policies I key resource action subject ps matched scope
     else if dp_DataScopes p = [] then Inl (Errorf ''Integration permission %q has no canonical data scope'' [key])
     else if \<not> predicateMatchesDataScopes I (dp_Predicate p) (dp_DataScopes p)
     then Inl (Errorf ''Integration permission %q has a predicate outside the closed data-scope contract'' [key])
     else
       (case apply_scopes I key (dp_Effect p) subject (dp_DataScopes p) scope of
          Inl e \<Rightarrow> Inl e
        | Inr scope' \<Rightarrow> apply_policies I key resource action subject ps True scope'))"

definition function_allowed :: "string \<Rightarrow> string \<Rightarrow> string \<Rightarrow> FunctionGrant list \<Rightarrow> err option" where
  "function_allowed key resource action grants =
    (let exact = filter (\<lambda>g. of_permission resource action (fg_Resource g) (fg_Action g)) grants in
     if list_ex (\<lambda>g. fg_Effect g = EffectDeny) exact then Some (Errorf ''Integration permission %q is denied'' [key])
     else if list_ex (\<lambda>g. fg_Effect g = EffectAllow) exact then None
     else Some (Errorf ''Integration permission %q is not granted'' [key]))"

definition wildcard_matches :: "string \<Rightarrow> string \<Rightarrow> bool" where
  "wildcard_matches pattern v \<longleftrightarrow> trim_space pattern = [] \<or> trim_space pattern = ''*'' \<or> trim_space pattern = v"

definition record_guardrail :: "string \<Rightarrow> string \<Rightarrow> Guardrail \<Rightarrow> bool" where
  "record_guardrail resource action g \<longleftrightarrow>
    wildcard_matches (gr_Resource g) resource \<and> wildcard_matches (gr_Action g) action \<and>
    gr_Effect g = EffectDeny \<and> blank (gr_Field g)"

definition apply_guardrails :: "string \<Rightarrow> string \<Rightarrow> string \<Rightarrow> Guardrail list \<Rightarrow> AccessScope \<Rightarrow> err + AccessScope" where
  "apply_guardrails key resource action guardrails scope =
    (let hits = filter (record_guardrail resource action) guardrails in
     if list_ex (\<lambda>g. gr_Predicate g \<noteq> None) hits
     then Inl (Errorf ''Integration permission %q has a data guardrail that cannot be expressed by the closed data-scope contract'' [key])
     else Inr (if hits \<noteq> [] then scope\<lparr>as_DeniedAll := True\<rparr> else scope))"

definition sorted_scope :: "AccessScope \<Rightarrow> AccessScope" where
  "sorted_scope scope =
    scope\<lparr>as_AllowedUserIDs := uniqueSorted (as_AllowedUserIDs scope), as_AllowedOrgIDs := uniqueSorted (as_AllowedOrgIDs scope),
          as_DeniedUserIDs := uniqueSorted (as_DeniedUserIDs scope), as_DeniedOrgIDs := uniqueSorted (as_DeniedOrgIDs scope)\<rparr>"

definition initial_scope :: "string \<Rightarrow> IdentityPrincipal \<Rightarrow> Subject \<Rightarrow> AccessScope" where
  "initial_scope key p subject =
    \<lparr>as_WorkspaceID = trim_space (ip_WorkspaceID p), as_PermissionKey = key, as_ActorID = trim_space (ip_UserID p),
     as_ActorOrgID = trim_space (isub_OrgID subject), as_Unrestricted = False, as_AllowedUserIDs = [], as_AllowedOrgIDs = [],
     as_DeniedAll = False, as_DeniedUserIDs = [], as_DeniedOrgIDs = []\<rparr>"

text \<open>The scope of a bundle for the permission \<open>resource.action\<close>.\<close>

definition bundle_scope :: "identity_sdk \<Rightarrow> IdentityPrincipal \<Rightarrow> AccessBundle \<Rightarrow> string \<Rightarrow> string \<Rightarrow> string \<Rightarrow> err + AccessScope" where
  "bundle_scope I p bundle key resource action =
    (case function_allowed key resource action (ab_FunctionGrants bundle) of
       Some e \<Rightarrow> Inl e
     | None \<Rightarrow>
         (case apply_policies I key resource action (ab_Subject bundle) (ab_DataPolicies bundle) False
                 (initial_scope key p (ab_Subject bundle)) of
            Inl e \<Rightarrow> Inl e
          | Inr (matched, scope) \<Rightarrow>
              if \<not> matched \<or> \<not> AccessScope_Valid scope
              then Inl (Errorf ''Integration permission %q has no usable data policy'' [key])
              else
                (case apply_guardrails key resource action (ab_Guardrails bundle) scope of
                   Inl e \<Rightarrow> Inl e
                 | Inr scope' \<Rightarrow> Inr (sorted_scope scope'))))"

text \<open>The parts of a permission key around its last dot, where neither is empty.\<close>

definition permission_parts :: "string \<Rightarrow> (string \<times> string) option" where
  "permission_parts key =
    (case last_index (CHR ''.'') key of
       None \<Rightarrow> None
     | Some separator \<Rightarrow>
         if separator = 0 \<or> separator + 1 = length key then None
         else Some (take separator key, drop (separator + 1) key))"

definition AuthorizeDataAccess :: "identity_sdk \<Rightarrow> time \<Rightarrow> IdentityPrincipal \<Rightarrow> string \<Rightarrow> err + AccessScope" where
  "AuthorizeDataAccess I t p permissionKey =
    (let key = trim_space permissionKey in
     case permission_parts key of
       None \<Rightarrow> Inl (Errorf ''Integration permission key is invalid'' [])
     | Some (resource, action) \<Rightarrow>
         if \<not> ip_Known p \<or> blank (ip_WorkspaceID p) \<or> blank (ip_UserID p)
         then Inl (Errorf ''Integration access principal is unavailable'' [])
         else
           (case ip_AccessBundle p of
              None \<Rightarrow> Inl (Errorf ''Integration access principal is unavailable'' [])
            | Some bundle \<Rightarrow>
                (case isdk_BundleValidate I bundle t of
                   Some e \<Rightarrow> Inl (Errorf ''Integration access bundle is invalid: %w'' [err_text e])
                 | None \<Rightarrow>
                     if trim_space (isub_WorkspaceID (ab_Subject bundle)) \<noteq> trim_space (ip_WorkspaceID p) \<or>
                        trim_space (isub_SubjectID (ab_Subject bundle)) \<noteq> trim_space (ip_UserID p)
                     then Inl (Errorf ''Integration access bundle subject does not match the principal'' [])
                     else bundle_scope I p bundle key resource action)))"

section \<open>What a bundle entitles to\<close>

text \<open>The users and organizations that a data scope of a subject stands for.\<close>

definition given :: "string list \<Rightarrow> string list" where
  "given vs = filter (\<lambda>v. v \<noteq> []) (map trim_space vs)"

fun scope_users :: "Subject \<Rightarrow> data_scope \<Rightarrow> string list" where
  "scope_users subject DataScopeOwner = given [isub_SubjectID subject]"
| "scope_users subject ds = []"

fun scope_orgs :: "Subject \<Rightarrow> data_scope \<Rightarrow> string list" where
  "scope_orgs subject DataScopeOrg = given [isub_OrgID subject]"
| "scope_orgs subject DataScopeOrgChild = given (isub_OrgScopeIDs subject)"
| "scope_orgs subject DataScopeTargetOrg = given (isub_SupportOrgScopeIDs subject)"
| "scope_orgs subject ds = []"

text \<open>A row, with an owner in column \<open>u\<close> and an organization in column \<open>g\<close>, that a data scope covers.\<close>

definition scope_covers :: "Subject \<Rightarrow> string \<Rightarrow> string \<Rightarrow> row \<Rightarrow> data_scope \<Rightarrow> bool" where
  "scope_covers subject u g r ds \<longleftrightarrow>
    ds = DataScopeAll \<or>
    u \<noteq> [] \<and> r u \<in> Text ` set (scope_users subject ds) \<or>
    g \<noteq> [] \<and> r g \<in> Text ` set (scope_orgs subject ds)"

text \<open>The data scopes that a permission's policies allow, or deny, and the rows they cover.\<close>

definition permission_scopes :: "string \<Rightarrow> string \<Rightarrow> bool \<Rightarrow> DataPolicy list \<Rightarrow> data_scope list" where
  "permission_scopes resource action denied ps =
    concat (map dp_DataScopes
      (filter (\<lambda>p. of_permission resource action (dp_Resource p) (dp_Action p) \<and> (dp_Effect p = EffectDeny) = denied) ps))"

definition policy_covers :: "AccessBundle \<Rightarrow> string \<Rightarrow> string \<Rightarrow> bool \<Rightarrow> string \<Rightarrow> string \<Rightarrow> row \<Rightarrow> bool" where
  "policy_covers b resource action denied u g r \<longleftrightarrow>
    list_ex (scope_covers (ab_Subject b) u g r) (permission_scopes resource action denied (ab_DataPolicies b))"

definition entitled :: "AccessBundle \<Rightarrow> string \<Rightarrow> string \<Rightarrow> string \<Rightarrow> string \<Rightarrow> row \<Rightarrow> bool" where
  "entitled b resource action u g r \<longleftrightarrow>
    list_ex (\<lambda>f. of_permission resource action (fg_Resource f) (fg_Action f) \<and> fg_Effect f = EffectAllow) (ab_FunctionGrants b) \<and>
    \<not> list_ex (\<lambda>f. of_permission resource action (fg_Resource f) (fg_Action f) \<and> fg_Effect f = EffectDeny) (ab_FunctionGrants b) \<and>
    policy_covers b resource action False u g r \<and> \<not> policy_covers b resource action True u g r \<and>
    \<not> list_ex (record_guardrail resource action) (ab_Guardrails b)"

section \<open>What the scope collects\<close>

lemma appended_values:
  "as_AllowedUserIDs (appendScopeValue d v b s) = as_AllowedUserIDs s @ (if \<not> d \<and> \<not> b then given [v] else [])"
  "as_DeniedUserIDs (appendScopeValue d v b s) = as_DeniedUserIDs s @ (if d \<and> \<not> b then given [v] else [])"
  "as_AllowedOrgIDs (appendScopeValue d v b s) = as_AllowedOrgIDs s @ (if \<not> d \<and> b then given [v] else [])"
  "as_DeniedOrgIDs (appendScopeValue d v b s) = as_DeniedOrgIDs s @ (if d \<and> b then given [v] else [])"
  "as_Unrestricted (appendScopeValue d v b s) = as_Unrestricted s" "as_DeniedAll (appendScopeValue d v b s) = as_DeniedAll s"
  "as_WorkspaceID (appendScopeValue d v b s) = as_WorkspaceID s" "as_PermissionKey (appendScopeValue d v b s) = as_PermissionKey s"
  "as_ActorID (appendScopeValue d v b s) = as_ActorID s" "as_ActorOrgID (appendScopeValue d v b s) = as_ActorOrgID s"
  by (auto simp: appendScopeValue_def given_def Let_def)

lemma given_simps [simp]:
  "given [] = []" "given (v # vs) = (if trim_space v = [] then given vs else trim_space v # given vs)"
  by (simp_all add: given_def)

lemma appended_all:
  "as_AllowedUserIDs (fold (\<lambda>v. appendScopeValue d v b) vs s) = as_AllowedUserIDs s @ (if \<not> d \<and> \<not> b then given vs else [])"
  "as_DeniedUserIDs (fold (\<lambda>v. appendScopeValue d v b) vs s) = as_DeniedUserIDs s @ (if d \<and> \<not> b then given vs else [])"
  "as_AllowedOrgIDs (fold (\<lambda>v. appendScopeValue d v b) vs s) = as_AllowedOrgIDs s @ (if \<not> d \<and> b then given vs else [])"
  "as_DeniedOrgIDs (fold (\<lambda>v. appendScopeValue d v b) vs s) = as_DeniedOrgIDs s @ (if d \<and> b then given vs else [])"
  "as_Unrestricted (fold (\<lambda>v. appendScopeValue d v b) vs s) = as_Unrestricted s"
  "as_DeniedAll (fold (\<lambda>v. appendScopeValue d v b) vs s) = as_DeniedAll s"
  "as_WorkspaceID (fold (\<lambda>v. appendScopeValue d v b) vs s) = as_WorkspaceID s"
  "as_PermissionKey (fold (\<lambda>v. appendScopeValue d v b) vs s) = as_PermissionKey s"
  "as_ActorID (fold (\<lambda>v. appendScopeValue d v b) vs s) = as_ActorID s"
  "as_ActorOrgID (fold (\<lambda>v. appendScopeValue d v b) vs s) = as_ActorOrgID s"
  by (induction vs arbitrary: s) (simp_all add: appended_values)

lemma scope_values:
  "as_AllowedUserIDs (applyDataScope e ds subject s) = as_AllowedUserIDs s @ (if e = EffectDeny then [] else scope_users subject ds)"
  "as_DeniedUserIDs (applyDataScope e ds subject s) = as_DeniedUserIDs s @ (if e = EffectDeny then scope_users subject ds else [])"
  "as_AllowedOrgIDs (applyDataScope e ds subject s) = as_AllowedOrgIDs s @ (if e = EffectDeny then [] else scope_orgs subject ds)"
  "as_DeniedOrgIDs (applyDataScope e ds subject s) = as_DeniedOrgIDs s @ (if e = EffectDeny then scope_orgs subject ds else [])"
  "as_Unrestricted (applyDataScope e ds subject s) \<longleftrightarrow> as_Unrestricted s \<or> e \<noteq> EffectDeny \<and> ds = DataScopeAll"
  "as_DeniedAll (applyDataScope e ds subject s) \<longleftrightarrow> as_DeniedAll s \<or> e = EffectDeny \<and> ds = DataScopeAll"
  "as_WorkspaceID (applyDataScope e ds subject s) = as_WorkspaceID s" "as_PermissionKey (applyDataScope e ds subject s) = as_PermissionKey s"
  "as_ActorID (applyDataScope e ds subject s) = as_ActorID s" "as_ActorOrgID (applyDataScope e ds subject s) = as_ActorOrgID s"
  by (cases ds, simp_all add: applyDataScope_def appended_values appended_all Let_def)+

text \<open>A scope that has collected the given values on top of another.\<close>

definition collected :: "AccessScope \<Rightarrow> AccessScope \<Rightarrow> (bool \<Rightarrow> string list) \<Rightarrow> (bool \<Rightarrow> string list) \<Rightarrow> (bool \<Rightarrow> bool) \<Rightarrow> bool" where
  "collected s s' users orgs every \<longleftrightarrow>
    as_AllowedUserIDs s' = as_AllowedUserIDs s @ users False \<and> as_DeniedUserIDs s' = as_DeniedUserIDs s @ users True \<and>
    as_AllowedOrgIDs s' = as_AllowedOrgIDs s @ orgs False \<and> as_DeniedOrgIDs s' = as_DeniedOrgIDs s @ orgs True \<and>
    as_Unrestricted s' = (as_Unrestricted s \<or> every False) \<and> as_DeniedAll s' = (as_DeniedAll s \<or> every True) \<and>
    as_WorkspaceID s' = as_WorkspaceID s \<and> as_PermissionKey s' = as_PermissionKey s \<and> as_ActorID s' = as_ActorID s \<and>
    as_ActorOrgID s' = as_ActorOrgID s"

lemma apply_scopes_collects:
  "apply_scopes I key e subject dss s = Inr s' \<Longrightarrow>
    collected s s' (\<lambda>d. if (e = EffectDeny) = d then concat (map (scope_users subject) dss) else [])
      (\<lambda>d. if (e = EffectDeny) = d then concat (map (scope_orgs subject) dss) else [])
      (\<lambda>d. (e = EffectDeny) = d \<and> DataScopeAll \<in> set dss)"
proof (induction dss arbitrary: s)
  case Nil
  then show ?case by (simp add: collected_def)
next
  case (Cons ds dss)
  then have "apply_scopes I key e subject dss (applyDataScope e ds subject s) = Inr s'" by (simp split: if_splits)
  from Cons.IH [OF this] show ?case by (cases "e = EffectDeny") (simp_all add: collected_def scope_values disj_assoc eq_commute [of DataScopeAll])
qed

lemma apply_policies_collects:
  "apply_policies I key resource action subject ps m s = Inr (m', s') \<Longrightarrow>
    collected s s' (\<lambda>d. concat (map (scope_users subject) (permission_scopes resource action d ps)))
      (\<lambda>d. concat (map (scope_orgs subject) (permission_scopes resource action d ps)))
      (\<lambda>d. DataScopeAll \<in> set (permission_scopes resource action d ps))"
proof (induction ps arbitrary: m s)
  case Nil
  then show ?case by (simp add: collected_def permission_scopes_def)
next
  case (Cons p ps)
  show ?case
  proof (cases "of_permission resource action (dp_Resource p) (dp_Action p)")
    case False
    with Cons.prems have "apply_policies I key resource action subject ps m s = Inr (m', s')" by simp
    from Cons.IH [OF this] False show ?thesis by (simp add: permission_scopes_def)
  next
    case True
    with Cons.prems obtain s1 where scopes: "apply_scopes I key (dp_Effect p) subject (dp_DataScopes p) s = Inr s1"
      and rest: "apply_policies I key resource action subject ps True s1 = Inr (m', s')"
      by (auto split: if_splits sum.splits)
    from apply_scopes_collects [OF scopes] Cons.IH [OF rest] True show ?thesis
      by (auto simp: collected_def permission_scopes_def)
  qed
qed

definition bundle_collected :: "string \<Rightarrow> IdentityPrincipal \<Rightarrow> AccessBundle \<Rightarrow> string \<Rightarrow> string \<Rightarrow> AccessScope \<Rightarrow> bool" where
  "bundle_collected key p b resource action s \<longleftrightarrow>
    collected (initial_scope key p (ab_Subject b)) s
      (\<lambda>d. concat (map (scope_users (ab_Subject b)) (permission_scopes resource action d (ab_DataPolicies b))))
      (\<lambda>d. concat (map (scope_orgs (ab_Subject b)) (permission_scopes resource action d (ab_DataPolicies b))))
      (\<lambda>d. DataScopeAll \<in> set (permission_scopes resource action d (ab_DataPolicies b)))"

text \<open>What a successful authorization has checked, and the scope before it is sorted.\<close>

lemma authorized:
  assumes "AuthorizeDataAccess I t p key = Inr scope"
  obtains b resource action s where "permission_parts (trim_space key) = Some (resource, action)"
    and "ip_AccessBundle p = Some b" and "ip_Known p" and "\<not> blank (ip_WorkspaceID p)" and "\<not> blank (ip_UserID p)"
    and "function_allowed (trim_space key) resource action (ab_FunctionGrants b) = None"
    and "bundle_collected (trim_space key) p b resource action s"
    and "AccessScope_Valid s"
    and "scope = sorted_scope (if list_ex (record_guardrail resource action) (ab_Guardrails b) then s\<lparr>as_DeniedAll := True\<rparr> else s)"
proof -
  from assms obtain resource action b where parts: "permission_parts (trim_space key) = Some (resource, action)"
    and b: "ip_AccessBundle p = Some b" "ip_Known p" "\<not> blank (ip_WorkspaceID p)" "\<not> blank (ip_UserID p)"
    and scope: "bundle_scope I p b (trim_space key) resource action = Inr scope"
    by (auto simp: AuthorizeDataAccess_def Let_def split: option.splits prod.splits if_splits)
  from scope obtain m s where f: "function_allowed (trim_space key) resource action (ab_FunctionGrants b) = None"
    and policies: "apply_policies I (trim_space key) resource action (ab_Subject b) (ab_DataPolicies b) False
      (initial_scope (trim_space key) p (ab_Subject b)) = Inr (m, s)"
    and valid: "AccessScope_Valid s"
    and guarded: "(case apply_guardrails (trim_space key) resource action (ab_Guardrails b) s of
      Inl e \<Rightarrow> Inl e | Inr scope' \<Rightarrow> Inr (sorted_scope scope')) = Inr scope"
    by (auto simp: bundle_scope_def split: option.splits sum.splits if_splits prod.splits)
  have "scope = sorted_scope (if list_ex (record_guardrail resource action) (ab_Guardrails b) then s\<lparr>as_DeniedAll := True\<rparr> else s)"
    using guarded by (auto simp: apply_guardrails_def Let_def list_ex_iff filter_empty_conv split: if_splits)
  with that [OF parts b f apply_policies_collects [OF policies, folded bundle_collected_def] valid] show ?thesis .
qed

lemma set_uniqueSorted: "set (uniqueSorted vs) = set (given vs)"
  by (simp add: uniqueSorted_def given_def)

lemma given_given [simp]: "given (given vs) = given vs"
  by (induction vs) simp_all

lemma given_append [simp]: "given (xs @ ys) = given xs @ given ys"
  by (induction xs) simp_all

lemma given_scopes [simp]: "given (scope_users subject ds) = scope_users subject ds" "given (scope_orgs subject ds) = scope_orgs subject ds"
  by (cases ds; simp)+

lemma given_concat_scopes [simp]:
  "given (concat (map (scope_users subject) dss)) = concat (map (scope_users subject) dss)"
  "given (concat (map (scope_orgs subject) dss)) = concat (map (scope_orgs subject) dss)"
  by (induction dss) simp_all

lemma covers_list:
  "list_ex (scope_covers subject u g r) dss \<longleftrightarrow>
    DataScopeAll \<in> set dss \<or>
    u \<noteq> [] \<and> r u \<in> Text ` set (concat (map (scope_users subject) dss)) \<or>
    g \<noteq> [] \<and> r g \<in> Text ` set (concat (map (scope_orgs subject) dss))"
  by (induction dss) (auto simp: scope_covers_def)

section \<open>The authorized scope\<close>

lemma uniqueSorted_given: "uniqueSorted vs = sort (remdups (given vs))"
  by (simp add: uniqueSorted_def given_def)

lemma uniqueSorted_Nil: "uniqueSorted vs = [] \<longleftrightarrow> given vs = []"
  by (metis set_uniqueSorted set_empty)

definition sorted_ids :: "string list \<Rightarrow> bool" where
  "sorted_ids vs \<longleftrightarrow> sorted vs \<and> distinct vs \<and> list_all (\<lambda>v. v \<noteq> [] \<and> trim_space v = v) vs"

lemma sorted_ids_uniqueSorted: "sorted_ids (uniqueSorted vs)"
  by (auto simp: sorted_ids_def uniqueSorted_def list_all_iff)

text \<open>A well-formed scope is valid, and lists trimmed identifiers in order, each once.\<close>

definition scope_wellformed :: "AccessScope \<Rightarrow> bool" where
  "scope_wellformed scope \<longleftrightarrow>
    AccessScope_Valid scope \<and> sorted_ids (as_AllowedUserIDs scope) \<and> sorted_ids (as_AllowedOrgIDs scope) \<and>
    sorted_ids (as_DeniedUserIDs scope) \<and> sorted_ids (as_DeniedOrgIDs scope)"

lemma collected_initial:
  assumes "bundle_collected key p b resource action s"
  shows "as_AllowedUserIDs s = concat (map (scope_users (ab_Subject b)) (permission_scopes resource action False (ab_DataPolicies b)))"
    "as_DeniedUserIDs s = concat (map (scope_users (ab_Subject b)) (permission_scopes resource action True (ab_DataPolicies b)))"
    "as_AllowedOrgIDs s = concat (map (scope_orgs (ab_Subject b)) (permission_scopes resource action False (ab_DataPolicies b)))"
    "as_DeniedOrgIDs s = concat (map (scope_orgs (ab_Subject b)) (permission_scopes resource action True (ab_DataPolicies b)))"
    "as_Unrestricted s \<longleftrightarrow> DataScopeAll \<in> set (permission_scopes resource action False (ab_DataPolicies b))"
    "as_DeniedAll s \<longleftrightarrow> DataScopeAll \<in> set (permission_scopes resource action True (ab_DataPolicies b))"
    "as_WorkspaceID s = trim_space (ip_WorkspaceID p)" "as_PermissionKey s = key" "as_ActorID s = trim_space (ip_UserID p)"
  using assms by (simp_all add: bundle_collected_def collected_def initial_scope_def)

lemma sorted_valid:
  assumes "bundle_collected key p b resource action s" and "AccessScope_Valid s"
  shows "AccessScope_Valid (sorted_scope (if x then s\<lparr>as_DeniedAll := True\<rparr> else s))"
proof -
  have "uniqueSorted (as_AllowedUserIDs s) = [] \<longleftrightarrow> as_AllowedUserIDs s = []" "uniqueSorted (as_AllowedOrgIDs s) = [] \<longleftrightarrow> as_AllowedOrgIDs s = []"
    using collected_initial [OF assms(1)] by (simp_all only: uniqueSorted_Nil given_concat_scopes)
  with assms(2) show ?thesis by (simp add: AccessScope_Valid_def sorted_scope_def)
qed

text \<open>
  C24. A scope that authorization returns is well formed: valid, for the principal's workspace and user and
  the permission that was asked for, with its identifiers trimmed, sorted and without repetition.
\<close>

theorem authorized_scope_wellformed:
  assumes "AuthorizeDataAccess I t p key = Inr scope"
  shows "scope_wellformed scope \<and> as_WorkspaceID scope = trim_space (ip_WorkspaceID p) \<and>
    as_ActorID scope = trim_space (ip_UserID p) \<and> as_PermissionKey scope = trim_space key"
proof -
  from assms obtain b resource action s where s: "bundle_collected (trim_space key) p b resource action s"
    and valid: "AccessScope_Valid s"
    and scope: "scope = sorted_scope (if list_ex (record_guardrail resource action) (ab_Guardrails b) then s\<lparr>as_DeniedAll := True\<rparr> else s)"
    by (rule authorized) (rule that)
  have "AccessScope_Valid scope" unfolding scope by (rule sorted_valid [OF s valid])
  with collected_initial [OF s] show ?thesis
    by (simp add: scope_wellformed_def scope sorted_scope_def sorted_ids_uniqueSorted)
qed

lemma authorized_access:
  assumes "AuthorizeDataAccess I t p key = Inr scope" and "permission_parts (trim_space key) = Some (resource, action)"
    and "ip_AccessBundle p = Some b"
  shows "row_allowed scope u g r \<longleftrightarrow> policy_covers b resource action False u g r"
    and "row_not_denied scope u g r \<Longrightarrow> \<not> policy_covers b resource action True u g r \<and> \<not> list_ex (record_guardrail resource action) (ab_Guardrails b)"
    and "\<not> policy_covers b resource action True u g r \<Longrightarrow> \<not> list_ex (record_guardrail resource action) (ab_Guardrails b) \<Longrightarrow>
      u \<noteq> [] \<Longrightarrow> g \<noteq> [] \<Longrightarrow> r u \<noteq> Null \<Longrightarrow> r g \<noteq> Null \<Longrightarrow> row_not_denied scope u g r"
    and "function_allowed (trim_space key) resource action (ab_FunctionGrants b) = None"
proof -
  from assms(1) obtain b' resource' action' s where parts: "permission_parts (trim_space key) = Some (resource', action')"
    "ip_AccessBundle p = Some b'" "function_allowed (trim_space key) resource' action' (ab_FunctionGrants b') = None"
    and s: "bundle_collected (trim_space key) p b' resource' action' s"
    and scope: "scope = sorted_scope (if list_ex (record_guardrail resource' action') (ab_Guardrails b') then s\<lparr>as_DeniedAll := True\<rparr> else s)"
    by (rule authorized) (rule that)
  from parts assms(2,3) have same: "b' = b" "resource' = resource" "action' = action" by simp_all
  note s = collected_initial [OF s, unfolded same]
  have ids: "set (as_AllowedUserIDs scope) = set (as_AllowedUserIDs s)" "set (as_AllowedOrgIDs scope) = set (as_AllowedOrgIDs s)"
    "set (as_DeniedUserIDs scope) = set (as_DeniedUserIDs s)" "set (as_DeniedOrgIDs scope) = set (as_DeniedOrgIDs s)"
    "as_Unrestricted scope = as_Unrestricted s"
    "as_DeniedAll scope \<longleftrightarrow> as_DeniedAll s \<or> list_ex (record_guardrail resource action) (ab_Guardrails b)"
    unfolding scope same sorted_scope_def by (simp_all add: set_uniqueSorted s del: set_concat)
  show "function_allowed (trim_space key) resource action (ab_FunctionGrants b) = None" using parts(3) same by simp
  show "row_allowed scope u g r \<longleftrightarrow> policy_covers b resource action False u g r"
    unfolding row_allowed_def policy_covers_def covers_list ids s ..
  have nonempty: "as_DeniedUserIDs scope \<noteq> [] \<longleftrightarrow> set (as_DeniedUserIDs s) \<noteq> {}" "as_DeniedOrgIDs scope \<noteq> [] \<longleftrightarrow> set (as_DeniedOrgIDs s) \<noteq> {}"
    using ids by (metis set_empty)+
  have covers: "policy_covers b resource action True u g r \<longleftrightarrow>
      as_DeniedAll s \<or> u \<noteq> [] \<and> r u \<in> Text ` set (as_DeniedUserIDs s) \<or> g \<noteq> [] \<and> r g \<in> Text ` set (as_DeniedOrgIDs s)"
    unfolding policy_covers_def covers_list s ..
  show "\<not> policy_covers b resource action True u g r \<and> \<not> list_ex (record_guardrail resource action) (ab_Guardrails b)"
    if "row_not_denied scope u g r"
    using that unfolding covers row_not_denied_def ids nonempty by auto
  show "row_not_denied scope u g r" if "\<not> policy_covers b resource action True u g r"
    "\<not> list_ex (record_guardrail resource action) (ab_Guardrails b)" "u \<noteq> []" "g \<noteq> []" "r u \<noteq> Null" "r g \<noteq> Null"
    using that unfolding covers row_not_denied_def ids nonempty by auto
qed

lemma function_allowed_None:
  "function_allowed key resource action grants = None \<longleftrightarrow>
    list_ex (\<lambda>f. of_permission resource action (fg_Resource f) (fg_Action f) \<and> fg_Effect f = EffectAllow) grants \<and>
    \<not> list_ex (\<lambda>f. of_permission resource action (fg_Resource f) (fg_Action f) \<and> fg_Effect f = EffectDeny) grants"
  by (auto simp: function_allowed_def Let_def list_ex_iff split: if_splits)


section \<open>A member that reads its own rows\<close>

definition open_identity :: identity_sdk where
  "open_identity =
    \<lparr>isdk_BundleValidate = (\<lambda>b t. None), isdk_ScopeValid = (\<lambda>ds. True), isdk_ScopeText = (\<lambda>ds. []), isdk_IsZero = (\<lambda>p. pp_Fact p = [])\<rparr>"

definition owner_predicate :: policy_predicate where
  "owner_predicate = Predicate ''owner_user_id'' [] OperatorEqual (JStr ''$subject.id'') [] [] None"

definition member_bundle :: AccessBundle where
  "member_bundle =
    \<lparr>ab_Subject = \<lparr>isub_WorkspaceID = ''w1'', isub_SubjectID = ''u1'', isub_OrgID = ''o1'', isub_OrgScopeIDs = [], isub_SupportOrgScopeIDs = []\<rparr>,
     ab_FunctionGrants = [\<lparr>fg_Resource = ''integration.push'', fg_Action = ''read'', fg_Effect = EffectAllow\<rparr>],
     ab_DataPolicies = [\<lparr>dp_Resource = ''integration.push'', dp_Action = ''read'', dp_Effect = EffectAllow,
       dp_DataScopes = [DataScopeOwner], dp_Predicate = owner_predicate\<rparr>],
     ab_Guardrails = []\<rparr>"

definition member_principal :: IdentityPrincipal where
  "member_principal = \<lparr>ip_Known = True, ip_WorkspaceID = ''w1'', ip_UserID = '' u1 '', ip_AccessBundle = Some member_bundle\<rparr>"

definition own_scope :: AccessScope where
  "own_scope =
    \<lparr>as_WorkspaceID = ''w1'', as_PermissionKey = ''integration.push.read'', as_ActorID = ''u1'', as_ActorOrgID = ''o1'',
     as_Unrestricted = False, as_AllowedUserIDs = [''u1''], as_AllowedOrgIDs = [], as_DeniedAll = False,
     as_DeniedUserIDs = [], as_DeniedOrgIDs = []\<rparr>"

lemma member_authorized: "AuthorizeDataAccess open_identity 0 member_principal ''integration.push.read'' = Inr own_scope"
  by code_simp

theorem authorized_scope_wellformed_witness: "scope_wellformed own_scope"
  using authorized_scope_wellformed [OF member_authorized] by blast

definition row_of_user :: "string \<Rightarrow> row" where
  "row_of_user u = row_of [(''workspace_id'', Text ''w1''), (''user_id'', Text u), (''owner_org_id'', Text [])]"


end
