(* ===== verification/AccountReads.thy ===== *)
theory AccountReads
  imports AccountWrites Inbound
begin

text \<open>
  The account reads: \<open>connection_account_reads.go\<close> of the application, the service over its two ports,
  and of the database layer, the authority behind the first port; the second port is the domain
  service's provider call. The lemmas say what a read may call.
\<close>

section \<open>The authority\<close>

definition read_operation :: "provider \<Rightarrow> ConnectionAccountReadOperation \<Rightarrow> OperationDescriptor option" where
  "read_operation p request =
    (case providerOperation p (ro_Operation request) of
       None \<Rightarrow> None
     | Some operation \<Rightarrow>
         if od_Mode operation \<noteq> ModeCall \<or> od_Effect operation \<noteq> EffectRead \<or>
            od_ContractSHA256 operation \<noteq> ro_ContractSHA256 request
         then None else Some operation)"

definition AuthorizeConnectionAccountRead ::
    "env \<Rightarrow> ConnectionAccountSubject \<Rightarrow> string \<Rightarrow> ConnectionAccountReadOperation \<Rightarrow> ConnectionAccountReadAccess dbop" where
  "AuthorizeConnectionAccountRead E subject key request =
    (case ReadOperation_Validate request of
       Some e \<Rightarrow> throw e
     | None \<Rightarrow>
         seq (GetConnectionAccount E subject key) (\<lambda>a.
         case ca_Readiness a of
           None \<Rightarrow> throw (Errorf ''Integration connection account is unavailable'' [])
         | Some readiness \<Rightarrow>
             seq (check (ca_Status a = ''active'' \<and> rd_Available readiness \<and> ca_UpdatedAt a \<noteq> [])
                    (Errorf ''Integration connection account is unavailable'' [])) (\<lambda>_.
             case ev_Provider E (ca_ConnectorKey a) (ca_ProviderKey a) of
               None \<Rightarrow> throw (Errorf ''Integration account read provider is unavailable'' [])
             | Some p \<Rightarrow>
                 (case read_operation p request of
                    None \<Rightarrow> throw (Errorf ''Integration account read operation is unavailable'' [])
                  | Some operation \<Rightarrow>
                      (case pv_OperationScopes p (od_Key operation) of
                         None \<Rightarrow> throw (Errorf ''Integration account read scope is not granted'' [])
                       | Some alternatives \<Rightarrow>
                           if OAuthScopeState (rd_GrantedScopes readiness) (rd_GrantedScopes readiness \<noteq> []) alternatives \<noteq> ''ready''
                           then throw (Errorf ''Integration account read scope is not granted'' [])
                           else ret
                             \<lparr>ra_Source = \<lparr>rs_WorkspaceID = ca_WorkspaceID a, rs_ConnectionKey = ca_Key a,
                                rs_ConnectorKey = ca_ConnectorKey a, rs_ProviderKey = ca_ProviderKey a,
                                rs_AccountUpdatedAt = ca_UpdatedAt a, rs_Operation = od_Key operation,
                                rs_ContractSHA256 = od_ContractSHA256 operation\<rparr>,
                              ra_ScopeAlternatives = alternatives\<rparr>)))))"

section \<open>The service\<close>

text \<open>The ports; the calls see the access scope that the service puts into their context.\<close>

record AccountReadService =
  rv_authority :: "ConnectionAccountSubject \<Rightarrow> string \<Rightarrow> ConnectionAccountReadOperation \<Rightarrow> ConnectionAccountReadAccess dbop"
  rv_calls :: "AccessScope \<Rightarrow> ProviderCallRequest \<Rightarrow> (ProviderCallResult \<times> err option) dbop"

definition Service_AuthorizeRead ::
    "AccountReadService \<Rightarrow> ConnectionAccountSubject \<Rightarrow> string \<Rightarrow> ConnectionAccountReadOperation \<Rightarrow> ConnectionAccountReadAccess dbop" where
  "Service_AuthorizeRead s subject key operation =
    (case first_err [Subject_Validate subject, ReadOperation_Validate operation] of
       Some e \<Rightarrow> throw e
     | None \<Rightarrow> rv_authority s subject key operation)"

definition read_source_json :: "ConnectionAccountReadSource \<Rightarrow> json" where
  "read_source_json s =
    JObj [(''workspace_id'', JStr (rs_WorkspaceID s)), (''connection_key'', JStr (rs_ConnectionKey s)),
          (''connector_key'', JStr (rs_ConnectorKey s)), (''provider_key'', JStr (rs_ProviderKey s)),
          (''account_updated_at'', JStr (rs_AccountUpdatedAt s)), (''operation'', JStr (rs_Operation s)),
          (''contract_sha256'', JStr (rs_ContractSHA256 s))]"

text \<open>The identity of a read: the digest of its user, its source and its request.\<close>

definition read_request_id ::
    "env \<Rightarrow> ConnectionAccountSubject \<Rightarrow> ConnectionAccountReadSource \<Rightarrow> ConnectionAccountReadRequest \<Rightarrow> string" where
  "read_request_id E subject source request =
    ''account-read:'' @
    (case embed_raw (rr_Payload request) of
       None \<Rightarrow> ev_sha256 E []
     | Some payload \<Rightarrow> ev_sha256_json E
         (JObj [(''Subject'', JStr (sub_UserID subject)), (''Source'', read_source_json source),
                (''Request'', JObj [(''request_id'', JStr (rr_RequestID request)), (''operation'', JStr (rr_Operation request)),
                                    (''contract_sha256'', JStr (rr_ContractSHA256 request)), (''payload'', payload)])]))"

definition trusted_scope :: "ConnectionAccountSubject \<Rightarrow> AccessScope" where
  "trusted_scope subject =
    \<lparr>as_WorkspaceID = sub_WorkspaceID subject, as_PermissionKey = ''integration.connection_accounts.read'',
     as_ActorID = sub_UserID subject, as_ActorOrgID = [], as_Unrestricted = True, as_AllowedUserIDs = [],
     as_AllowedOrgIDs = [], as_DeniedAll = False, as_DeniedUserIDs = [], as_DeniedOrgIDs = []\<rparr>"

definition read_call_request ::
    "env \<Rightarrow> ConnectionAccountSubject \<Rightarrow> ConnectionAccountReadSource \<Rightarrow> ConnectionAccountReadRequest \<Rightarrow> ProviderCallRequest" where
  "read_call_request E subject source request =
    \<lparr>pc_Source = \<lparr>src_ExecutionID = [], src_ObjectKey = [], src_RecordID = []\<rparr>,
     pc_ReadExpectation = Some \<lparr>pre_ConnectionUpdatedAt = rs_AccountUpdatedAt source, pre_ProviderKey = rs_ProviderKey source,
                                pre_ContractSHA256 = rs_ContractSHA256 source\<rparr>,
     pc_RequestID = read_request_id E subject source request, pc_WorkspaceID = sub_WorkspaceID subject,
     pc_ConnectorKey = rs_ConnectorKey source, pc_ConnectionKey = rs_ConnectionKey source, pc_Operation = rr_Operation request,
     pc_Payload = rr_Payload request, pc_PersistenceMode = PersistenceSensitive, pc_MaskedDestination = ''authorized-account'',
     pc_ActorID = sub_UserID subject, pc_RoleKey = []\<rparr>"

definition ReadConnectionAccount ::
    "env \<Rightarrow> AccountReadService \<Rightarrow> ConnectionAccountSubject \<Rightarrow> string \<Rightarrow> ConnectionAccountReadRequest \<Rightarrow>
     ConnectionAccountReadResult dbop" where
  "ReadConnectionAccount E s subject key request =
    (case ReadRequest_Validate request of
       Some e \<Rightarrow> throw e
     | None \<Rightarrow>
         seq (Service_AuthorizeRead s subject key (ReadRequest_OperationContract request)) (\<lambda>access.
         seq (try_op (rv_calls s (trusted_scope subject) (read_call_request E subject (ra_Source access) request))) (\<lambda>called.
         case called of
           Inl e \<Rightarrow> throw (Errorf ''Integration account read failed'' [])
         | Inr (result, callErr) \<Rightarrow>
             seq (check (callErr = None) (Errorf ''Integration account read failed'' [])) (\<lambda>_.
             seq (try_op (Service_AuthorizeRead s subject key (ReadRequest_OperationContract request))) (\<lambda>current.
             case current of
               Inl e \<Rightarrow> throw (Errorf ''Integration account read authorization changed'' [])
             | Inr again \<Rightarrow>
                 seq (check (ra_Source again = ra_Source access) (Errorf ''Integration account read authorization changed'' [])) (\<lambda>_.
                 seq (check (ivc_Status (pcr_Invocation result) = ''succeeded'' \<and> raw_length (pcr_Response result) \<le> 4194304 \<and>
                             (raw_length (pcr_Response result) > 0 \<longrightarrow> json_valid (pcr_Response result)))
                        (Errorf ''Integration account read result is invalid'' [])) (\<lambda>_.
                 ret \<lparr>rres_Source = ra_Source again, rres_InvocationID = ivc_ID (pcr_Invocation result),
                      rres_ReadAt = ivc_CreatedAt (pcr_Invocation result),
                      rres_PayloadAvailable = (raw_length (pcr_Response result) > 0), rres_Payload = pcr_Response result\<rparr>)))))))"

text \<open>The service as the module assembles it.\<close>

definition owner_reads :: "env \<Rightarrow> AccountReadService" where
  "owner_reads E =
    \<lparr>rv_authority = AuthorizeConnectionAccountRead E, rv_calls = (\<lambda>scope. Service_Call (E\<lparr>ev_scope := Some scope\<rparr>))\<rparr>"

section \<open>Operations that make at most one call, of a kind\<close>

definition calls_within :: "(external_call \<Rightarrow> bool) \<Rightarrow> 'a dbop \<Rightarrow> bool" where
  "calls_within ok m \<longleftrightarrow>
    (\<forall>w. w_calls (snd (m w)) = w_calls w \<or> (\<exists>c. w_calls (snd (m w)) = w_calls w @ [c] \<and> ok c))"

lemma calls_within_quiet: "evolution.within quiet m \<Longrightarrow> calls_within ok m"
  unfolding calls_within_def using quiet_D by (metis prod.collapse)

lemma calls_within_seq:
  assumes "evolution.within quiet m" and "\<And>w x w'. m w = (Inr x, w') \<Longrightarrow> calls_within ok (f x)"
  shows "calls_within ok (seq m f)"
  unfolding calls_within_def
proof
  fix w
  obtain r u where m: "m w = (r, u)" by fastforce
  show "w_calls (snd (seq m f w)) = w_calls w \<or> (\<exists>c. w_calls (snd (seq m f w)) = w_calls w @ [c] \<and> ok c)"
  proof (cases r)
    case (Inr x)
    with m have "calls_within ok (f x)" by (intro assms(2)) simp
    then have "w_calls (snd (f x u)) = w_calls u \<or> (\<exists>c. w_calls (snd (f x u)) = w_calls u @ [c] \<and> ok c)"
      unfolding calls_within_def ..
    with Inr m quiet_D [OF assms(1) m] show ?thesis by (simp add: seq_def)
  qed (use m quiet_D [OF assms(1) m] in \<open>simp add: seq_def\<close>)
qed

lemma calls_within_then:
  assumes "calls_within ok m" and "\<And>x. evolution.within quiet (f x)"
  shows "calls_within ok (seq m f)"
  unfolding calls_within_def
proof
  fix w
  obtain r u where m: "m w = (r, u)" by fastforce
  have "w_calls (snd (f x u)) = w_calls u" for x using quiet_D [OF assms(2)] by (metis prod.collapse)
  with m assms(1) show
    "w_calls (snd (seq m f w)) = w_calls w \<or> (\<exists>c. w_calls (snd (seq m f w)) = w_calls w @ [c] \<and> ok c)"
    unfolding calls_within_def by (cases r) (auto simp: seq_def split: sum.splits dest!: spec [of _ w])
qed

lemma calls_within_record: "ok c \<Longrightarrow> calls_within ok (record_call c answer)"
  by (simp add: calls_within_def record_call_def)

lemma calls_within_try: "calls_within ok m \<Longrightarrow> calls_within ok (try_op m)"
  by (simp add: calls_within_def try_op_apply)

lemma calls_within_weaken: "calls_within ok m \<Longrightarrow> (\<And>c. ok c \<Longrightarrow> ok' c) \<Longrightarrow> calls_within ok' m"
  unfolding calls_within_def by metis

section \<open>The ports and their contracts\<close>

text \<open>A call as a read request with its expectation allows it.\<close>

definition read_only_call :: "env \<Rightarrow> ProviderCallRequest \<Rightarrow> external_call \<Rightarrow> bool" where
  "read_only_call E request call \<longleftrightarrow>
    (case (call, pc_ReadExpectation request) of
       (ProviderCall c, Some expected) \<Rightarrow>
         pr_UserID (cr_Principal c) = pc_ActorID request \<and> pr_WorkspaceID (cr_Principal c) = pc_WorkspaceID request \<and>
         cr_Payload c = pc_Payload request \<and> cr_OperationKey c = pc_Operation request \<and>
         cr_ProviderKey c = pre_ProviderKey expected \<and> cr_ContractSHA256 c = pre_ContractSHA256 expected \<and>
         (case ev_Provider E (cr_ConnectorKey c) (cr_ProviderKey c) of
            None \<Rightarrow> False
          | Some p \<Rightarrow>
              (case providerOperation p (cr_OperationKey c) of
                 None \<Rightarrow> False
               | Some operation \<Rightarrow> od_Effect operation = EffectRead \<and> od_ContractSHA256 operation = cr_ContractSHA256 c))
     | _ \<Rightarrow> False)"

text \<open>
  The authority calls nobody and binds the operation and its contract; a call with an expectation is a
  single one, of a read operation.
\<close>

locale account_reads =
  fixes E :: env and s :: AccountReadService
  assumes authority_quiet: "evolution.within quiet (rv_authority s subject key operation)"
    and authority_binds: "rv_authority s subject key operation w = (Inr access, w') \<Longrightarrow>
      rs_ContractSHA256 (ra_Source access) = ro_ContractSHA256 operation"
    and calls_checked: "pc_ReadExpectation request = Some expected \<Longrightarrow>
      calls_within (read_only_call E request) (rv_calls s scope request)"
begin

lemma authorize_quiet: "evolution.within quiet (Service_AuthorizeRead s subject key operation)"
  unfolding Service_AuthorizeRead_def by (intro quiet.within_reads authority_quiet)

lemma authorize_binds:
  "Service_AuthorizeRead s subject key operation w = (Inr access, w') \<Longrightarrow>
    rs_ContractSHA256 (ra_Source access) = ro_ContractSHA256 operation"
  by (auto simp: Service_AuthorizeRead_def split: option.splits dest: authority_binds)

lemma read_calls:
  "calls_within (\<lambda>call. \<exists>source. rs_ContractSHA256 source = rr_ContractSHA256 request \<and>
     read_only_call E (read_call_request E subject source request) call) (ReadConnectionAccount E s subject key request)"
proof (cases "ReadRequest_Validate request")
  case (Some e)
  then show ?thesis by (simp add: ReadConnectionAccount_def) (intro calls_within_quiet quiet.within_throw)
next
  case None
  show ?thesis
    unfolding ReadConnectionAccount_def None option.case
  proof (rule calls_within_seq [OF authorize_quiet], rule calls_within_then)
    fix w access w'
    assume "Service_AuthorizeRead s subject key (ReadRequest_OperationContract request) w = (Inr access, w')"
    from authorize_binds [OF this] have contract: "rs_ContractSHA256 (ra_Source access) = rr_ContractSHA256 request"
      by (simp add: ReadRequest_OperationContract_def)
    show "calls_within (\<lambda>call. \<exists>source. rs_ContractSHA256 source = rr_ContractSHA256 request \<and>
        read_only_call E (read_call_request E subject source request) call)
      (try_op (rv_calls s (trusted_scope subject) (read_call_request E subject (ra_Source access) request)))"
    proof (intro calls_within_try calls_within_weaken [OF calls_checked])
      show "pc_ReadExpectation (read_call_request E subject (ra_Source access) request) =
          Some \<lparr>pre_ConnectionUpdatedAt = rs_AccountUpdatedAt (ra_Source access), pre_ProviderKey = rs_ProviderKey (ra_Source access),
            pre_ContractSHA256 = rs_ContractSHA256 (ra_Source access)\<rparr>" by (simp add: read_call_request_def)
    qed (use contract in blast)
  qed (intro quiet.within_reads authorize_quiet)
qed

end

section \<open>The owner's ports keep the contracts\<close>

context store_reads
begin

lemma within_AuthorizeConnectionAccountRead: "within (AuthorizeConnectionAccountRead E subject key operation)"
  unfolding AuthorizeConnectionAccountRead_def Let_def by (intro within_account_reads)

end

lemma find_provider_calls:
  "(\<And>p. ev_Provider E (dc_ConnectorKey c) (dc_ProviderKey c) = Some p \<Longrightarrow> calls_within ok (f p)) \<Longrightarrow> calls_within ok (seq (find_provider E c) f)"
  by (auto simp: find_provider_def calls_within_def split: option.splits)

lemma find_operation_calls:
  "(\<And>operation. providerOperation p key = Some operation \<Longrightarrow> calls_within ok (f operation)) \<Longrightarrow> calls_within ok (seq (find_operation p c key) f)"
  by (auto simp: find_operation_def calls_within_def split: option.splits)

lemma check_calls: "(b \<Longrightarrow> calls_within ok (f ())) \<Longrightarrow> calls_within ok (seq (check b e) f)"
  by (auto simp: calls_within_def seq_apply check_apply)

lemma call_provider_calls:
  "ok (ProviderCall c) \<Longrightarrow> (\<And>x. evolution.within quiet (f x)) \<Longrightarrow> calls_within ok (seq (call_provider p c) f)"
  unfolding call_provider_def by (intro calls_within_then calls_within_record)

lemma quiet_calls: "evolution.within quiet m \<Longrightarrow> (\<And>x. calls_within ok (f x)) \<Longrightarrow> calls_within ok (seq m f)"
  by (rule calls_within_seq)

lemma calls_within_if:
  "(b \<Longrightarrow> calls_within ok m) \<Longrightarrow> (\<not> b \<Longrightarrow> calls_within ok n) \<Longrightarrow> calls_within ok (if b then m else n)"
  by simp

lemma calls_within_sum:
  "(\<And>e. x = Inl e \<Longrightarrow> calls_within ok (g e)) \<Longrightarrow> (\<And>y. x = Inr y \<Longrightarrow> calls_within ok (f y)) \<Longrightarrow>
   calls_within ok (case x of Inl e \<Rightarrow> g e | Inr y \<Rightarrow> f y)"
  by (cases x) auto

lemma call_uncached_reads:
  assumes "pc_ReadExpectation request = Some expected"
  shows "calls_within (read_only_call E request) (call_uncached E request i)"
proof -
  have "read_only_call E request (ProviderCall (operation_call request c operation secrets))"
    if "ev_Provider E (dc_ConnectorKey c) (dc_ProviderKey c) = Some p" "providerOperation p (pc_Operation request) = Some operation"
      "read_expectation_met (pc_ReadExpectation request) c operation" for c p operation secrets
    using that assms by (simp add: read_only_call_def operation_call_def read_expectation_met_def)
  then show ?thesis
    unfolding call_uncached_def
    by (intro find_provider_calls find_operation_calls check_calls call_provider_calls quiet_calls quiet.within_operations) assumption
qed

lemma Call_reads:
  assumes "pc_ReadExpectation request = Some expected"
  shows "calls_within (read_only_call E request) (Service_Call (E\<lparr>ev_scope := scope\<rparr>) request)"
proof -
  have "calls_within (read_only_call F request) (Service_Call F request)" for F
  proof (cases "validate_call request")
    case None
    show ?thesis
      unfolding Service_Call_def Call_def Let_def None option.case
      by (intro quiet_calls calls_within_if calls_within_sum call_uncached_reads [OF assms] quiet.within_operations;
          intro calls_within_quiet quiet.within_ret)
  qed (simp add: Service_Call_def calls_within_def)
  from this [of "E\<lparr>ev_scope := scope\<rparr>"] have "calls_within (read_only_call (E\<lparr>ev_scope := scope\<rparr>) request) (Service_Call (E\<lparr>ev_scope := scope\<rparr>) request)" .
  moreover have "read_only_call (E\<lparr>ev_scope := scope\<rparr>) request = read_only_call E request"
  proof (intro ext)
    show "read_only_call (E\<lparr>ev_scope := scope\<rparr>) request call = read_only_call E request call" for call
      by (cases call; cases "pc_ReadExpectation request") (simp_all add: read_only_call_def)
  qed
  ultimately show ?thesis by simp
qed

lemma read_operation_contract: "read_operation p request = Some operation \<Longrightarrow> od_ContractSHA256 operation = ro_ContractSHA256 request"
  by (auto simp: read_operation_def split: option.splits if_splits)

lemma authority_contract:
  "AuthorizeConnectionAccountRead E subject key operation w = (Inr access, w') \<Longrightarrow>
    rs_ContractSHA256 (ra_Source access) = ro_ContractSHA256 operation"
  by (auto simp: AuthorizeConnectionAccountRead_def op_Inr case_Inr read_operation_contract split: if_splits)

interpretation reads: account_reads E "owner_reads E" for E
  by unfold_locales
    (auto simp: owner_reads_def authority_contract intro!: quiet.within_AuthorizeConnectionAccountRead Call_reads)

section \<open>What a read may call\<close>

text \<open>
  A call made for a read: as the subject, with the request's payload, of the operation that the request names
  and the provider declares as a read with the request's contract.
\<close>

definition account_read_call :: "env \<Rightarrow> ConnectionAccountSubject \<Rightarrow> ConnectionAccountReadRequest \<Rightarrow> external_call \<Rightarrow> bool" where
  "account_read_call E subject request call \<longleftrightarrow>
    (case call of
       ProviderCall c \<Rightarrow>
         pr_UserID (cr_Principal c) = sub_UserID subject \<and> pr_WorkspaceID (cr_Principal c) = sub_WorkspaceID subject \<and>
         cr_Payload c = rr_Payload request \<and> cr_OperationKey c = rr_Operation request \<and>
         (case ev_Provider E (cr_ConnectorKey c) (cr_ProviderKey c) of
            None \<Rightarrow> False
          | Some p \<Rightarrow>
              (case providerOperation p (rr_Operation request) of
                 None \<Rightarrow> False
               | Some operation \<Rightarrow> od_Effect operation = EffectRead \<and> od_ContractSHA256 operation = rr_ContractSHA256 request))
     | _ \<Rightarrow> False)"


end
