(* ===== verification/ConfigValidation.thy ===== *)
theory ConfigValidation
  imports Effects
begin

text \<open>
  \<open>connection_validation.go\<close>: the normalization and validation of a connection against the
  configuration and secret fields that its provider declares. The members of a configuration are
  what JSON decoding gives; the defaults are filled in by the connector SDK (a parameter), a regular
  expression is compiled by \<open>ev_Regexp\<close>.
\<close>

section \<open>Values\<close>

text \<open>\<open>len([]rune(text))\<close> of valid UTF-8: the bytes that do not continue a code point.\<close>

definition rune_count :: "string \<Rightarrow> nat" where
  "rune_count s = length (filter (\<lambda>c. \<not> (0x80 \<le> (of_char c :: nat) \<and> (of_char c :: nat) < 0xC0)) s)"

definition integrationEmptyValue :: "json \<Rightarrow> bool" where
  "integrationEmptyValue j = (case j of JNull \<Rightarrow> True | JStr s \<Rightarrow> blank s | _ \<Rightarrow> False)"

definition providerConfigNumber :: "json \<Rightarrow> (int \<times> nat) option" where
  "providerConfigNumber j = (case j of JNum m k \<Rightarrow> Some (m, k) | _ \<Rightarrow> None)"

definition decimal_less :: "int \<times> nat \<Rightarrow> int \<times> nat \<Rightarrow> bool" where
  "decimal_less x y \<longleftrightarrow> fst x * 10 ^ snd y < fst y * 10 ^ snd x"

text \<open>\<open>config[key]\<close>, where a missing member is \<open>nil\<close>.\<close>

definition config_value :: "(string \<times> json) list \<Rightarrow> string \<Rightarrow> json" where
  "config_value config key = (case map_of config key of None \<Rightarrow> JNull | Some j \<Rightarrow> j)"

definition of_config_type :: "config_type \<Rightarrow> json \<Rightarrow> bool" where
  "of_config_type t j =
    (case t of
       ConfigText \<Rightarrow> (case j of JStr _ \<Rightarrow> True | _ \<Rightarrow> False)
     | ConfigEmail \<Rightarrow> (case j of JStr _ \<Rightarrow> True | _ \<Rightarrow> False)
     | ConfigSelect \<Rightarrow> (case j of JStr _ \<Rightarrow> True | _ \<Rightarrow> False)
     | ConfigInteger \<Rightarrow> (case j of JNum m k \<Rightarrow> m mod 10 ^ k = 0 | _ \<Rightarrow> False)
     | ConfigDecimal \<Rightarrow> (case j of JNum _ _ \<Rightarrow> True | _ \<Rightarrow> False)
     | ConfigBoolean \<Rightarrow> (case j of JBool _ \<Rightarrow> True | _ \<Rightarrow> False)
     | ConfigJSON \<Rightarrow> (case j of JArr _ \<Rightarrow> True | JObj _ \<Rightarrow> True | _ \<Rightarrow> False)
     | ConfigOther _ \<Rightarrow> False)"

section \<open>One field\<close>

text \<open>The checks of a text: its length in code points, the pattern, the options.\<close>

definition text_error :: "env \<Rightarrow> ConfigField \<Rightarrow> string \<Rightarrow> err option" where
  "text_error E field s =
    (let v = cf_Validation field; len = int (rune_count s); pattern = trim_space (va_Pattern v) in
     if va_MinLength v > 0 \<and> len < va_MinLength v
     then Some (Errorf ''Integration Provider config field %q is shorter than %d'' [cf_Key field, int_text (va_MinLength v)])
     else if va_MaxLength v > 0 \<and> len > va_MaxLength v
     then Some (Errorf ''Integration Provider config field %q is longer than %d'' [cf_Key field, int_text (va_MaxLength v)])
     else if pattern \<noteq> [] \<and> (case ev_Regexp E pattern of None \<Rightarrow> True | Some matches \<Rightarrow> \<not> matches s)
     then Some (Errorf ''Integration Provider config field %q does not match its pattern'' [cf_Key field])
     else if va_Options v \<noteq> [] \<and> s \<notin> set (va_Options v)
     then Some (Errorf ''Integration Provider config field %q has an unsupported option'' [cf_Key field])
     else None)"

definition outside_range :: "ConfigValidation \<Rightarrow> json \<Rightarrow> bool" where
  "outside_range v j \<longleftrightarrow>
    (va_Min v \<noteq> None \<or> va_Max v \<noteq> None) \<and>
    (case providerConfigNumber j of
       None \<Rightarrow> True
     | Some n \<Rightarrow>
         (case va_Min v of None \<Rightarrow> False | Some lo \<Rightarrow> decimal_less n lo) \<or>
         (case va_Max v of None \<Rightarrow> False | Some hi \<Rightarrow> decimal_less hi n))"

definition validateProviderConfigValue :: "env \<Rightarrow> ConfigField \<Rightarrow> json \<Rightarrow> err option" where
  "validateProviderConfigValue E field j =
    (if \<not> of_config_type (cf_Type field) j
     then Some (Errorf ''Integration Provider config field %q must be %s''
                  [cf_Key field, sdk_ConfigTypeText (ev_SDK E) (cf_Type field)])
     else
       (case (case j of JStr s \<Rightarrow> text_error E field s | _ \<Rightarrow> None) of
          Some e \<Rightarrow> Some e
        | None \<Rightarrow>
            if outside_range (cf_Validation field) j
            then Some (Errorf ''Integration Provider config field %q is outside its allowed range'' [cf_Key field])
            else None))"

section \<open>A connection\<close>

fun find_error :: "('a \<Rightarrow> err option) \<Rightarrow> 'a list \<Rightarrow> err option" where
  "find_error f [] = None"
| "find_error f (x # xs) = (case f x of Some e \<Rightarrow> Some e | None \<Rightarrow> find_error f xs)"

lemma find_error_None [simp]: "find_error f xs = None \<longleftrightarrow> (\<forall>x \<in> set xs. f x = None)"
  by (induction xs) (auto split: option.splits)

text \<open>The declared field of a member: the last one with its key, as the map of fields keeps it.\<close>

definition declared_field :: "ConfigField list \<Rightarrow> string \<Rightarrow> ConfigField option" where
  "declared_field declared key = find (\<lambda>field. cf_Key field = trim_space key) (rev declared)"

definition member_error :: "env \<Rightarrow> ConfigField list \<Rightarrow> string \<times> json \<Rightarrow> err option" where
  "member_error E declared = (\<lambda>(key, j).
    case declared_field declared key of
      None \<Rightarrow> Some (Errorf ''Integration Provider config field %q is not declared'' [key])
    | Some field \<Rightarrow> validateProviderConfigValue E field j)"

definition field_error :: "(string \<times> json) list \<Rightarrow> bool \<Rightarrow> ConfigField \<Rightarrow> err option" where
  "field_error config requireReady field =
    (let empty = integrationEmptyValue (config_value config (cf_Key field)) in
     if requireReady \<and> cf_Required field \<and> empty
     then Some (Errorf ''Integration Provider config field %q is required'' [cf_Key field])
     else if empty then None
     else find_error (\<lambda>dependency.
       if integrationEmptyValue (config_value config dependency)
       then Some (Errorf ''Integration Provider config field %q requires %q'' [cf_Key field, dependency]) else None)
       (cf_RequiredWith field))"

definition reference_error :: "provider \<Rightarrow> string \<times> string \<Rightarrow> err option" where
  "reference_error p = (\<lambda>(key, reference).
    if trim_space key \<notin> fst ` set (pv_SecretFields p)
    then Some (Errorf ''Integration Provider secret field %q is not declared'' [key])
    else if blank reference then Some (Errorf ''Integration Provider secret reference %q is empty'' [key])
    else None)"

definition required_reference_error :: "(string \<times> string) list \<Rightarrow> string \<times> bool \<Rightarrow> err option" where
  "required_reference_error refs = (\<lambda>(key, required).
    if required \<and> (case map_of refs key of None \<Rightarrow> True | Some reference \<Rightarrow> blank reference)
    then Some (Errorf ''Integration Provider secret reference %q is required'' [key]) else None)"

text \<open>What must hold in addition before a connection is put to use.\<close>

definition ready_error :: "provider \<Rightarrow> Connection \<Rightarrow> err option" where
  "ready_error p connection =
    (case find_error (required_reference_error (cn_SecretRefs connection)) (pv_SecretFields p) of
       Some e \<Rightarrow> Some e
     | None \<Rightarrow>
         (case pv_ValidateConfig p of
            None \<Rightarrow> None
          | Some validate \<Rightarrow>
              (case validate connection of
                 None \<Rightarrow> None
               | Some e \<Rightarrow> Some (Errorf ''validate Integration Provider config: %w'' [err_text e]))))"

definition connection_error :: "env \<Rightarrow> provider \<Rightarrow> Connection \<Rightarrow> bool \<Rightarrow> err option" where
  "connection_error E p connection requireReady =
    (case find_error (member_error E (pv_ConfigFields p)) (cn_Config connection) of
       Some e \<Rightarrow> Some e
     | None \<Rightarrow>
         (case find_error (field_error (cn_Config connection) requireReady) (pv_ConfigFields p) of
            Some e \<Rightarrow> Some e
          | None \<Rightarrow>
              (case find_error (reference_error p) (cn_SecretRefs connection) of
                 Some e \<Rightarrow> Some e
               | None \<Rightarrow> if requireReady then ready_error p connection else None)))"

definition normalizeProviderConnection :: "env \<Rightarrow> provider option \<Rightarrow> Connection \<Rightarrow> bool \<Rightarrow> err + Connection" where
  "normalizeProviderConnection E adapter connection requireReady =
    (case adapter of
       None \<Rightarrow> Inl (Errorf ''Integration provider %s/%s is unavailable'' [cn_ConnectorKey connection, cn_ProviderKey connection])
     | Some p \<Rightarrow>
         if pv_ConnectorKey p \<noteq> trim_space (cn_ConnectorKey connection) \<or> pv_ProviderKey p \<noteq> trim_space (cn_ProviderKey connection)
         then Inl (Errorf ''Integration connection Provider identity does not match %s/%s'' [pv_ConnectorKey p, pv_ProviderKey p])
         else
           (case sdk_ApplyConfigDefaults (ev_SDK E) (pv_ConfigFields p) (cn_Config connection) of
              Inl e \<Rightarrow> Inl (Errorf ''apply Integration Provider config defaults: %w'' [err_text e])
            | Inr config \<Rightarrow>
                (let normalized = connection\<lparr>cn_Config := config\<rparr> in
                 case connection_error E p normalized requireReady of
                   Some e \<Rightarrow> Inl e
                 | None \<Rightarrow> Inr normalized)))"

definition ValidateProviderConnectionCandidate :: "env \<Rightarrow> provider option \<Rightarrow> Connection \<Rightarrow> bool \<Rightarrow> err option" where
  "ValidateProviderConnectionCandidate E adapter connection requireReady =
    (case normalizeProviderConnection E adapter connection requireReady of Inl e \<Rightarrow> Some e | Inr _ \<Rightarrow> None)"

end
