(* ===== verification/Transactions.thy ===== *)
theory Transactions
  imports Effects
begin

text \<open>
  What runs inside a transaction sees no other process: it behaves as in the environment without
  them. An operation is shown to agree with itself in that environment by the rules below, built from its
  statements; then a transaction of the store is its body run on the database of its beginning.
\<close>

definition solo :: "env \<Rightarrow> env" where
  "solo E = E\<lparr>ev_others := (\<lambda>n d. d)\<rparr>"

lemma solo_alone [simp]: "alone (solo E)"
  by (simp add: solo_def alone_def)

lemma solo_simps [simp]:
  "ev_fault (solo E) = ev_fault E" "ev_clock (solo E) = ev_clock E" "ev_ctx_err (solo E) = ev_ctx_err E"
  "ev_scope (solo E) = ev_scope E" "ev_sha256 (solo E) = ev_sha256 E" "ev_sha256_json (solo E) = ev_sha256_json E"
  "ev_getenv (solo E) = ev_getenv E" "ev_Cipher (solo E) = ev_Cipher E" "ev_Secrets (solo E) = ev_Secrets E"
  "ev_WebPush (solo E) = ev_WebPush E" "ev_Provider (solo E) = ev_Provider E" "ev_Trigger (solo E) = ev_Trigger E"
  "ev_SDK (solo E) = ev_SDK E" "ev_Regexp (solo E) = ev_Regexp E" "ev_Random (solo E) = ev_Random E"
  "ev_challenge (solo E) = ev_challenge E"
  by (simp_all add: solo_def)

lemma solo_scope: "solo (E\<lparr>ev_scope := x\<rparr>) = (solo E)\<lparr>ev_scope := x\<rparr>"
  by (simp add: solo_def)

definition agree :: "'a dbop \<Rightarrow> 'a dbop \<Rightarrow> bool" where
  "agree m m' \<longleftrightarrow> (\<forall>w. w_tx w \<longrightarrow> m w = m' w \<and> w_tx (snd (m' w)))"

lemma agree_D: "agree m m' \<Longrightarrow> w_tx w \<Longrightarrow> m w = m' w"
  by (simp add: agree_def)

lemma agree_statement: "agree (statement E f) (statement (solo E) f)"
  unfolding agree_def
proof (intro allI impI)
  fix w :: world
  assume "w_tx w"
  then have step: "before_step (solo E) w = before_step E w" "w_tx (before_step E w)" "w_db (before_step E w) = w_db w"
    by (simp_all add: before_step_def solo_def)
  show "statement E f w = statement (solo E) f w \<and> w_tx (snd (statement (solo E) f w))"
    by (cases "f (w_db w)"; cases "ev_fault E (w_step w)") (simp_all add: statement_def Let_def step)
qed

lemma agree_ret: "agree (ret x) (ret x)"
  by (simp add: agree_def)

lemma agree_throw: "agree (throw e) (throw e)"
  by (simp add: agree_def)

lemma agree_check: "agree (check b e) (check b e)"
  by (simp add: agree_def check_apply)

lemma agree_of_result: "agree (of_result r) (of_result r)"
  by (simp add: agree_def of_result_apply)

lemma agree_seq:
  assumes m: "agree m m'" and f: "\<And>x. agree (f x) (f' x)"
  shows "agree (seq m f) (seq m' f')"
  unfolding agree_def
proof (intro allI impI)
  fix w :: world
  assume "w_tx w"
  with m have m: "m w = m' w" "w_tx (snd (m' w))" by (simp_all add: agree_def)
  show "seq m f w = seq m' f' w \<and> w_tx (snd (seq m' f' w))"
  proof (cases "m' w")
    case (Pair r v)
    then show ?thesis using m f by (cases r) (simp_all add: seq_apply agree_def)
  qed
qed

lemma agree_try_op: "agree m m' \<Longrightarrow> agree (try_op m) (try_op m')"
  by (simp add: agree_def try_op_apply)

lemma agree_rescue: "agree m m' \<Longrightarrow> agree (rescue m) (rescue m')"
  by (auto simp: agree_def rescue_def split: prod.splits sum.splits err.splits)

lemma agree_if: "agree m m' \<Longrightarrow> agree n n' \<Longrightarrow> agree (if b then m else n) (if b then m' else n')"
  by simp

lemma agree_option:
  "agree m m' \<Longrightarrow> (\<And>y. agree (f y) (f' y)) \<Longrightarrow>
   agree (case x of None \<Rightarrow> m | Some y \<Rightarrow> f y) (case x of None \<Rightarrow> m' | Some y \<Rightarrow> f' y)"
  by (cases x) simp_all

lemma agree_sum:
  "(\<And>e. agree (g e) (g' e)) \<Longrightarrow> (\<And>y. agree (f y) (f' y)) \<Longrightarrow>
   agree (case x of Inl e \<Rightarrow> g e | Inr y \<Rightarrow> f y) (case x of Inl e \<Rightarrow> g' e | Inr y \<Rightarrow> f' y)"
  by (cases x) simp_all

lemma agree_prod:
  "(\<And>a b. agree (f a b) (f' a b)) \<Longrightarrow> agree (case x of (a, b) \<Rightarrow> f a b) (case x of (a, b) \<Rightarrow> f' a b)"
  by (cases x) simp

lemma agree_list:
  "agree m m' \<Longrightarrow> (\<And>y ys. agree (f y ys) (f' y ys)) \<Longrightarrow>
   agree (case xs of [] \<Rightarrow> m | y # ys \<Rightarrow> f y ys) (case xs of [] \<Rightarrow> m' | y # ys \<Rightarrow> f' y ys)"
  by (cases xs) simp_all

lemma agree_each: "(\<And>x. agree (f x) (f' x)) \<Longrightarrow> agree (each f xs) (each f' xs)"
  by (induction xs) (auto intro!: agree_ret agree_seq)

lemma agree_now: "agree (now E) (now (solo E))"
  by (simp add: agree_def now_def)

lemma agree_ctx_done: "agree (ctx_done E) (ctx_done (solo E))"
  by (simp add: agree_def ctx_done_def)

lemma agree_at_step: "agree (at_step f) (at_step f)"
  by (simp add: agree_def at_step_def)

lemma agree_record_call: "agree (record_call c f) (record_call c f)"
  by (simp add: agree_def record_call_def)

lemma agree_select: "agree (select E t p) (select (solo E) t p)"
  unfolding select_def by (rule agree_statement)

lemma agree_query_read: "agree (query_read E f) (query_read (solo E) f)"
  unfolding query_read_def by (rule agree_statement)

lemma agree_insert: "agree (insert_into E t cs) (insert_into (solo E) t cs)"
  unfolding insert_into_def by (rule agree_statement)

lemma agree_update: "agree (update_set E t cs p) (update_set (solo E) t cs p)"
  unfolding update_set_def by (rule agree_statement)

lemma agree_guarded_update: "agree (guarded_update E t cs p) (guarded_update (solo E) t cs p)"
  unfolding guarded_update_def by (rule agree_update)

lemma agree_delete: "agree (delete_from E t p) (delete_from (solo E) t p)"
  unfolding delete_from_def by (rule agree_statement)

lemma agree_select_row: "agree (select_row E t p) (select_row (solo E) t p)"
  unfolding select_row_def by (intro agree_seq agree_select agree_ret)

lemma agree_row_or_error: "agree (row_or_error E t p) (row_or_error (solo E) t p)"
  unfolding row_or_error_def by (intro agree_seq agree_select_row agree_option agree_throw agree_ret)

lemma agree_scan_texts: "agree (scan_texts r cs) (scan_texts r cs)"
  unfolding scan_texts_def by (rule agree_check)

lemma agree_guard: "agree (guardSubjectWrite E ws refs) (guardSubjectWrite (solo E) ws refs)"
  unfolding guardSubjectWrite_def by (intro agree_seq agree_select agree_if agree_throw agree_ret)

lemmas agree_intros =
  agree_ret agree_throw agree_check agree_of_result agree_seq agree_try_op agree_rescue agree_if agree_option agree_sum
  agree_prod agree_list agree_each agree_now agree_ctx_done agree_at_step agree_record_call agree_select agree_query_read
  agree_insert agree_update agree_guarded_update agree_delete agree_select_row agree_row_or_error agree_scan_texts agree_guard

text \<open>
  A transaction either leaves the database that it found, or its body succeeded on that database and what
  it left is committed (the caller may still see an error, when the acknowledgement is lost).
\<close>

lemma transaction_commits:
  assumes "agree body body'" and "transaction E body w = (r, w')"
  shows "w_db w' = w_db (before_step E w) \<and> (\<exists>e. r = Inl e) \<or>
    (\<exists>u x v. w_db u = w_db (before_step E w) \<and> w_calls u = w_calls w \<and> body' u = (Inr x, v) \<and>
      w_db w' = w_db v \<and> w_calls w' = w_calls v \<and> (\<forall>y. r = Inr y \<longrightarrow> y = x))"
proof -
  let ?u = "(before_step E w)\<lparr>w_tx := True\<rparr>"
  have u: "body ?u = body' ?u" by (rule agree_D [OF assms(1)]) simp
  have same: "w_db ?u = w_db (before_step E w)" "w_calls ?u = w_calls w" by (simp_all add: before_step_def)
  show ?thesis
  proof (cases "ev_fault E (w_step w) = Fine")
    case False
    with assms(2) show ?thesis by (auto simp: transaction_def Let_def)
  next
    case True
    show ?thesis
    proof (cases "body ?u")
      case (Pair q v)
      show ?thesis
      proof (cases q)
        case (Inl e)
        with True Pair assms(2) show ?thesis by (auto simp: transaction_def Let_def)
      next
        case (Inr x)
        with Pair u have run: "body' ?u = (Inr x, v)" by simp
        show ?thesis
        proof (cases "ev_fault E (w_step v) = Dropped")
          case dropped: True
          with True Pair Inr assms(2) show ?thesis by (auto simp: transaction_def Let_def)
        next
          case False
          with True Pair Inr assms(2) have "w_db w' = w_db v \<and> w_calls w' = w_calls v \<and> (\<forall>y. r = Inr y \<longrightarrow> y = x)"
            by (auto simp: transaction_def Let_def split: outcome.splits)
          with run same show ?thesis by blast
        qed
      qed
    qed
  qed
qed

text \<open>What a transaction that returns did.\<close>

lemma transaction_returns:
  assumes "transaction E body w = (Inr x, w')" and "agree body body'"
  obtains u v where "w_db u = w_db (before_step E w)" "w_calls u = w_calls w" "body' u = (Inr x, v)"
    "w_db w' = w_db v" "w_calls w' = w_calls v"
  using transaction_commits [OF assms(2,1)] by auto

text \<open>An invariant of the database that the body keeps is kept by the transaction.\<close>

lemma transaction_keeps:
  assumes "agree body body'" and "I (w_db (before_step E w))"
    and "\<And>u x v. I (w_db u) \<Longrightarrow> body' u = (Inr x, v) \<Longrightarrow> I (w_db v)"
  shows "I (w_db (snd (transaction E body w)))"
proof (cases "transaction E body w")
  case (Pair r w')
  from transaction_commits [OF assms(1) this] show ?thesis
  proof (elim disjE exE conjE)
    fix u x v
    assume "w_db u = w_db (before_step E w)" "body' u = (Inr x, v)" "w_db w' = w_db v"
    with assms(2,3) Pair show ?thesis by (metis snd_conv)
  qed (use assms(2) Pair in simp)
qed

end
