(* ===== verification/Management.thy ===== *)
theory Management
  imports ConfigValidation ConnectionAccounts Transactions
begin

text \<open>
  The owner's management of connections and secrets: the mutations of \<open>management_store.go\<close> and
  \<open>management_secret_store.go\<close>, which run under an access scope that covers the whole workspace and inside
  one transaction. Reading connections and secrets, and reserving the credentials of an account, are in
  \<open>ConnectionAccounts.thy\<close>; the connection tests are in \<open>ConnectionTests.thy\<close>.
\<close>

section \<open>Mutations\<close>

definition requireAll :: "env \<Rightarrow> string \<Rightarrow> unit dbop" where
  "requireAll E workspaceID =
    (case requireAllDataScope (ev_scope E) (trim_space workspaceID) of Some e \<Rightarrow> throw e | None \<Rightarrow> ret ())"

text \<open>
  A mutation called on the store opens a transaction and calls itself on the store of the transaction: the
  scope is required outside and inside, the rest runs inside. The rest is \<open>operation\<close>; it begins with the
  scope, as it may also be called inside a transaction that is already open.
\<close>

definition managed :: "env \<Rightarrow> string \<Rightarrow> 'a dbop \<Rightarrow> 'a dbop" where
  "managed E workspaceID operation = seq (requireAll E workspaceID) (\<lambda>_. transaction E operation)"

text \<open>\<open>fmt.Errorf("...: %w", err)\<close> around the error of a statement.\<close>

definition wrapped :: "string \<Rightarrow> 'a dbop \<Rightarrow> 'a dbop" where
  "wrapped f m = seq (try_op m) (\<lambda>r. case r of Inl e \<Rightarrow> throw (Errorf f [err_text e]) | Inr x \<Rightarrow> ret x)"

text \<open>The condition on the row of one key, for the workspace and the access scope.\<close>

definition scoped_key :: "env \<Rightarrow> string \<Rightarrow> string \<Rightarrow> string \<Rightarrow> predicate dbop" where
  "scoped_key E workspaceID column key =
    of_result (scopedWhere (ev_scope E) (trim_space workspaceID) [] [] [Equal column (Text (trim_space key))])"

definition requireScopedCandidate :: "env \<Rightarrow> string \<Rightarrow> string \<Rightarrow> string \<Rightarrow> string \<Rightarrow> unit dbop" where
  "requireScopedCandidate E t keyColumn workspaceID key =
    seq (scoped_key E workspaceID keyColumn key) (\<lambda>p.
    seq (select_row E t p) (\<lambda>found. case found of
      None \<Rightarrow> throw (Errorf ''Integration resource was not found'' [])
    | Some r \<Rightarrow> scan_texts r [''id'']))"

section \<open>Connections\<close>

definition validConnectionStatus :: "string \<Rightarrow> bool" where
  "validConnectionStatus status \<longleftrightarrow>
    trim_space status \<in> {''configured'', ''active'', ''inactive'', ''error'', ''revoked''}"

text \<open>The statuses for which a connection must be complete.\<close>

definition needs_ready :: "string \<Rightarrow> bool" where
  "needs_ready status \<longleftrightarrow> status = ''active'' \<or> status = ''inactive''"

definition sdk_managed :: "ManagedConnection \<Rightarrow> string \<Rightarrow> Connection" where
  "sdk_managed c status =
    \<lparr>cn_Key = mc_Key c, cn_WorkspaceID = mc_WorkspaceID c, cn_ConnectorKey = mc_ConnectorKey c,
     cn_ProviderKey = mc_ProviderKey c, cn_Name = mc_Name c, cn_Status = status, cn_Config = mc_Config c,
     cn_SecretRefs = mc_SecretRefs c\<rparr>"

text \<open>\<open>ownerJSON\<close> of a map; the nil map is stored as \<open>null\<close>, which is read back as the empty one.\<close>

definition config_json :: "(string \<times> json) list \<Rightarrow> sql" where
  "config_json config = Doc (marshal (JObj config))"

definition refs_json :: "(string \<times> string) list \<Rightarrow> sql" where
  "refs_json refs = Doc (marshal (JObj (map (\<lambda>(k, v). (k, JStr v)) refs)))"

record ConnectionInput =
  cni_ConnectorKey :: string
  cni_ProviderKey :: string
  cni_Name :: string
  cni_Status :: string
  cni_Config :: "(string \<times> json) list"
  cni_SecretRefs :: "(string \<times> string) list"

text \<open>The connection that an input describes, checked against its provider.\<close>

definition checked_connection :: "env \<Rightarrow> string \<Rightarrow> string \<Rightarrow> ConnectionInput \<Rightarrow> err + Connection" where
  "checked_connection E workspaceID key input =
    (case requiredOwnerValue ''connector key'' (cni_ConnectorKey input) of Inl e \<Rightarrow> Inl e | Inr connectorKey \<Rightarrow>
     case requiredOwnerValue ''provider key'' (cni_ProviderKey input) of Inl e \<Rightarrow> Inl e | Inr providerKey \<Rightarrow>
     let status = (if blank (cni_Status input) then ''configured'' else cni_Status input) in
     if \<not> validConnectionStatus status
     then Inl (Errorf ''Integration connection %q has invalid status %q'' [key, status])
     else
       (case ev_Provider E connectorKey providerKey of
          None \<Rightarrow> Inl (Errorf ''Integration provider %s/%s is unavailable'' [connectorKey, providerKey])
        | Some p \<Rightarrow>
            normalizeProviderConnection E (Some p)
              \<lparr>cn_Key = key, cn_WorkspaceID = workspaceID, cn_ConnectorKey = connectorKey, cn_ProviderKey = providerKey,
               cn_Name = cni_Name input, cn_Status = status, cn_Config = cni_Config input,
               cn_SecretRefs = cni_SecretRefs input\<rparr> (needs_ready status)))"

text \<open>Inserting or updating the row of a checked connection.\<close>

definition store_connection :: "env \<Rightarrow> string \<Rightarrow> Connection \<Rightarrow> string \<Rightarrow> predicate \<Rightarrow> row option \<Rightarrow> nat dbop" where
  "store_connection E actorID c stamp p found =
    (case found of
       None \<Rightarrow>
         wrapped ''insert Integration connection: %w'' (insert_into E connections_table
           [(''id'', Text (ownerID E ''connection_'' (cn_WorkspaceID c) (cn_Key c))), (''connection_key'', Text (cn_Key c)),
            (''workspace_id'', Text (cn_WorkspaceID c)), (''connector_key'', Text (cn_ConnectorKey c)),
            (''provider_key'', Text (cn_ProviderKey c)), (''name'', Text (cn_Name c)), (''status'', Text (cn_Status c)),
            (''config_json'', config_json (cn_Config c)), (''secret_refs_json'', refs_json (cn_SecretRefs c)),
            (''created_by'', Text (fst (scopeOwner (ev_scope E) actorID))), (''created_at'', Text stamp), (''updated_at'', Text stamp)])
     | Some r \<Rightarrow>
         seq (scan_texts r [''id'']) (\<lambda>_.
         wrapped ''update Integration connection: %w'' (guarded_update E connections_table
           [(''connector_key'', Text (cn_ConnectorKey c)), (''provider_key'', Text (cn_ProviderKey c)), (''name'', Text (cn_Name c)),
            (''status'', Text (cn_Status c)), (''config_json'', config_json (cn_Config c)),
            (''secret_refs_json'', refs_json (cn_SecretRefs c)), (''updated_at'', Text stamp)] p)))"

text \<open>The connection whose credentials are reserved after it was stored.\<close>

definition stored_connection :: "Connection \<Rightarrow> ManagedConnection" where
  "stored_connection c =
    \<lparr>mc_Key = cn_Key c, mc_WorkspaceID = cn_WorkspaceID c, mc_ConnectorKey = cn_ConnectorKey c,
     mc_ProviderKey = cn_ProviderKey c, mc_Name = cn_Name c, mc_Status = cn_Status c, mc_Config = cn_Config c,
     mc_SecretRefs = cn_SecretRefs c, mc_CreatedBy = [], mc_CreatedAt = [], mc_UpdatedAt = []\<rparr>"

definition upsert_connection :: "env \<Rightarrow> string \<Rightarrow> string \<Rightarrow> string \<Rightarrow> ConnectionInput \<Rightarrow> ManagedConnection dbop" where
  "upsert_connection E workspaceID key actorID input =
    seq (requireAll E workspaceID) (\<lambda>_.
    seq (guardSubjectWrite E workspaceID [(''connection'', [], key), (''subject'', [], actorID)]) (\<lambda>_.
    seq (of_result (requiredOwnerValue ''workspace ID'' workspaceID)) (\<lambda>workspaceID.
    seq (of_result (requiredOwnerValue ''connection key'' key)) (\<lambda>key.
    seq (of_result (checked_connection E workspaceID key input)) (\<lambda>c.
    seq (ownerNow E) (\<lambda>stamp.
    seq (scoped_key E workspaceID ''connection_key'' key) (\<lambda>p.
    seq (select_row E connections_table p) (\<lambda>found.
    seq (store_connection E actorID c stamp p found) (\<lambda>_.
    seq (syncConnectionAccountSecrets E (stored_connection c)) (\<lambda>_.
    GetConnection E workspaceID key))))))))))"

definition UpsertConnection :: "env \<Rightarrow> string \<Rightarrow> string \<Rightarrow> string \<Rightarrow> ConnectionInput \<Rightarrow> ManagedConnection dbop" where
  "UpsertConnection E workspaceID key actorID input =
    managed E workspaceID (upsert_connection E workspaceID key actorID input)"

definition account_where :: "string \<Rightarrow> string \<Rightarrow> predicate" where
  "account_where workspaceID key =
    And [Equal ''workspace_id'' (Text (trim_space workspaceID)), Equal ''connection_key'' (Text (trim_space key))]"

definition delete_connection :: "env \<Rightarrow> string \<Rightarrow> string \<Rightarrow> unit dbop" where
  "delete_connection E workspaceID key =
    seq (requireAll E workspaceID) (\<lambda>_.
    seq (requireScopedCandidate E connections_table ''connection_key'' workspaceID key) (\<lambda>_.
    seq (scoped_key E workspaceID ''connection_key'' key) (\<lambda>p.
    seq (delete_from E account_secrets_table (account_where workspaceID key)) (\<lambda>_.
    seq (delete_from E accounts_table (account_where workspaceID key)) (\<lambda>_.
    seq (wrapped ''delete Integration connection: %w'' (delete_from E connections_table p)) (\<lambda>n.
    check (n \<noteq> 0) (Errorf ''Integration connection %q was not found'' [key])))))))"

definition DeleteConnection :: "env \<Rightarrow> string \<Rightarrow> string \<Rightarrow> unit dbop" where
  "DeleteConnection E workspaceID key = managed E workspaceID (delete_connection E workspaceID key)"

text \<open>A connection that is put to use, or taken out of use for a while, must be complete.\<close>

definition require_ready :: "env \<Rightarrow> string \<Rightarrow> string \<Rightarrow> string \<Rightarrow> unit dbop" where
  "require_ready E workspaceID key status =
    (if needs_ready status then
       seq (GetConnection E workspaceID key) (\<lambda>c.
       case ev_Provider E (mc_ConnectorKey c) (mc_ProviderKey c) of
         None \<Rightarrow> throw (Errorf ''Integration provider %s/%s is unavailable'' [mc_ConnectorKey c, mc_ProviderKey c])
       | Some p \<Rightarrow>
           seq (of_result (normalizeProviderConnection E (Some p) (sdk_managed c status) True)) (\<lambda>_. ret ()))
     else ret ())"

definition set_connection_status :: "env \<Rightarrow> string \<Rightarrow> string \<Rightarrow> string \<Rightarrow> ManagedConnection dbop" where
  "set_connection_status E workspaceID key status =
    seq (requireAll E workspaceID) (\<lambda>_.
    seq (of_result (requiredOwnerValue ''connection status'' status)) (\<lambda>status.
    seq (check (validConnectionStatus status) (Errorf ''Integration connection %q has invalid status %q'' [key, status])) (\<lambda>_.
    seq (require_ready E workspaceID key status) (\<lambda>_.
    seq (scoped_key E workspaceID ''connection_key'' key) (\<lambda>p.
    seq (ownerNow E) (\<lambda>stamp.
    seq (wrapped ''update Integration connection status: %w''
           (guarded_update E connections_table [(''status'', Text status), (''updated_at'', Text stamp)] p)) (\<lambda>n.
    seq (check (n \<noteq> 0) (Errorf ''Integration connection %q was not found'' [key])) (\<lambda>_.
    GetConnection E workspaceID key))))))))"

definition SetConnectionStatus :: "env \<Rightarrow> string \<Rightarrow> string \<Rightarrow> string \<Rightarrow> ManagedConnection dbop" where
  "SetConnectionStatus E workspaceID key status =
    managed E workspaceID (set_connection_status E workspaceID key status)"

section \<open>Secrets\<close>

record SecretInput =
  sin_Kind :: string
  sin_Value :: string
  sin_Description :: string
  sin_ExpiresAt :: string

definition upsertSecretMaterial :: "env \<Rightarrow> string \<Rightarrow> string \<Rightarrow> string \<Rightarrow> string \<Rightarrow> unit dbop" where
  "upsertSecretMaterial E workspaceID key ciphertext stamp =
    seq (guardSubjectWrite E workspaceID [(''secret'', [], key)]) (\<lambda>_.
    seq (select_row E materials_table (secret_where workspaceID key)) (\<lambda>found. case found of
      None \<Rightarrow>
        seq (insert_into E materials_table
          [(''id'', Text (ownerID E ''secret_material_'' workspaceID key)), (''workspace_id'', Text workspaceID),
           (''secret_key'', Text key), (''ciphertext'', Text ciphertext), (''created_at'', Text stamp), (''updated_at'', Text stamp)])
          (\<lambda>_. ret ())
    | Some r \<Rightarrow>
        seq (scan_texts r [''id'']) (\<lambda>_.
        seq (guarded_update E materials_table [(''ciphertext'', Text ciphertext), (''updated_at'', Text stamp)]
               (secret_where workspaceID key)) (\<lambda>_. ret ()))))"

text \<open>The fingerprint, reference and ciphertext of new material; all empty where the input has none.\<close>

definition new_material :: "env \<Rightarrow> string \<Rightarrow> string \<Rightarrow> string \<Rightarrow> err + string \<times> string \<times> string" where
  "new_material E workspaceID key plaintext =
    (if plaintext = [] then Inr ([], [], [])
     else
       (case ev_Cipher E of
          None \<Rightarrow> Inl (Errorf ''Integration secret cipher is unavailable'' [])
        | Some c \<Rightarrow>
            (case ci_Encrypt c workspaceID key plaintext of
               Inl e \<Rightarrow> Inl (Errorf ''encrypt Integration secret material: %w'' [err_text e])
             | Inr ciphertext \<Rightarrow> Inr (ev_sha256 E plaintext, ''material:'' @ key, ciphertext))))"

definition store_secret ::
    "env \<Rightarrow> string \<Rightarrow> string \<Rightarrow> string \<Rightarrow> string \<Rightarrow> SecretInput \<Rightarrow> string \<Rightarrow> string \<Rightarrow> string \<Rightarrow> predicate \<Rightarrow> row option \<Rightarrow> nat dbop" where
  "store_secret E workspaceID key kind actorID input fingerprint valueRef stamp p found =
    (case found of
       None \<Rightarrow>
         wrapped ''insert Integration secret: %w'' (insert_into E secrets_table
           [(''id'', Text (ownerID E ''secret_'' workspaceID key)), (''secret_key'', Text key), (''workspace_id'', Text workspaceID),
            (''kind'', Text kind), (''status'', Text ''active''), (''description'', Text (sin_Description input)),
            (''value_ref'', Text valueRef), (''fingerprint'', Text fingerprint),
            (''created_by'', Text (fst (scopeOwner (ev_scope E) actorID))), (''created_at'', Text stamp), (''updated_at'', Text stamp),
            (''disabled_at'', Text []), (''expires_at'', Text (sin_ExpiresAt input)), (''rotated_at'', Text []),
            (''revoked_at'', Text []), (''last_tested_at'', Text []), (''last_test_status'', Text []), (''last_test_error'', Text [])])
     | Some r \<Rightarrow>
         wrapped ''update Integration secret: %w'' (guarded_update E secrets_table
           [(''kind'', Text kind), (''status'', Text ''active''), (''description'', Text (sin_Description input)),
            (''value_ref'', Text valueRef), (''fingerprint'', Text fingerprint), (''expires_at'', Text (sin_ExpiresAt input)),
            (''disabled_at'', Text []), (''revoked_at'', Text []), (''updated_at'', Text stamp)] p))"

definition upsert_secret :: "env \<Rightarrow> string \<Rightarrow> string \<Rightarrow> string \<Rightarrow> SecretInput \<Rightarrow> Secret dbop" where
  "upsert_secret E workspaceID key actorID input =
    seq (requireAll E workspaceID) (\<lambda>_.
    seq (guardSubjectWrite E workspaceID [(''secret'', [], key), (''subject'', [], actorID)]) (\<lambda>_.
    seq (of_result (requiredOwnerValue ''workspace ID'' workspaceID)) (\<lambda>workspaceID.
    seq (of_result (requiredOwnerValue ''secret key'' key)) (\<lambda>key.
    seq (of_result (requiredOwnerValue ''secret kind'' (sin_Kind input))) (\<lambda>kind.
    seq (ownerNow E) (\<lambda>stamp.
    seq (of_result (new_material E workspaceID key (sin_Value input))) (\<lambda>(fingerprint, valueRef, ciphertext).
    seq (scoped_key E workspaceID ''secret_key'' key) (\<lambda>p.
    seq (select_row E secrets_table p) (\<lambda>found.
    seq (case found of None \<Rightarrow> ret () | Some r \<Rightarrow> scan_texts r [''id'']) (\<lambda>_.
    let previous = (\<lambda>c. case found of None \<Rightarrow> [] | Some r \<Rightarrow> text_of (r c)) in
    seq (if sin_Value input \<noteq> [] then upsertSecretMaterial E workspaceID key ciphertext stamp else ret ()) (\<lambda>_.
    seq (store_secret E workspaceID key kind actorID input
           (if valueRef = [] then previous ''fingerprint'' else fingerprint)
           (if valueRef = [] then previous ''value_ref'' else valueRef) stamp p found) (\<lambda>_.
    getSecret E workspaceID key))))))))))))"

definition UpsertSecret :: "env \<Rightarrow> string \<Rightarrow> string \<Rightarrow> string \<Rightarrow> SecretInput \<Rightarrow> Secret dbop" where
  "UpsertSecret E workspaceID key actorID input = managed E workspaceID (upsert_secret E workspaceID key actorID input)"

definition secret_transition :: "string \<Rightarrow> string \<Rightarrow> (string \<times> sql) list option" where
  "secret_transition transition stamp =
    (if transition \<in> {''disable'', ''disabled''} then Some [(''status'', Text ''disabled''), (''disabled_at'', Text stamp)]
     else if transition \<in> {''expire'', ''expired''} then Some [(''status'', Text ''expired''), (''expires_at'', Text stamp)]
     else if transition \<in> {''revoke'', ''revoked''} then Some [(''status'', Text ''revoked''), (''revoked_at'', Text stamp)]
     else if transition \<in> {''rotate'', ''rotated''} then Some [(''status'', Text ''active''), (''rotated_at'', Text stamp)]
     else None)"

definition transition_secret :: "env \<Rightarrow> string \<Rightarrow> string \<Rightarrow> string \<Rightarrow> Secret dbop" where
  "transition_secret E workspaceID key transition =
    seq (requireAll E workspaceID) (\<lambda>_.
    seq (getSecret E workspaceID key) (\<lambda>_.
    seq (ownerNow E) (\<lambda>stamp.
    case secret_transition (trim_space transition) stamp of
      None \<Rightarrow> throw (Errorf ''Integration secret transition %q is unsupported'' [transition])
    | Some cs \<Rightarrow>
        seq (scoped_key E workspaceID ''secret_key'' key) (\<lambda>p.
        seq (guarded_update E secrets_table ((''updated_at'', Text stamp) # cs) p) (\<lambda>n.
        seq (check (n \<noteq> 0) (Errorf ''Integration secret %q was not found'' [key])) (\<lambda>_.
        getSecret E workspaceID key))))))"

definition TransitionSecret :: "env \<Rightarrow> string \<Rightarrow> string \<Rightarrow> string \<Rightarrow> Secret dbop" where
  "TransitionSecret E workspaceID key transition =
    managed E workspaceID (transition_secret E workspaceID key transition)"

text \<open>New material and the transition to it, in one transaction.\<close>

definition RotateSecret :: "env \<Rightarrow> string \<Rightarrow> string \<Rightarrow> string \<Rightarrow> SecretInput \<Rightarrow> Secret dbop" where
  "RotateSecret E workspaceID key actorID input =
    managed E workspaceID
      (seq (upsert_secret E workspaceID key actorID input) (\<lambda>s.
       transition_secret E workspaceID (sec_Key s) ''rotate''))"

end
