(* ===== verification/ManagedConnections.thy ===== *)
theory ManagedConnections
  imports Management Delivery
begin

text \<open>
  What the management of connections guarantees: every stored connection passes the validation of its
  provider, and a deleted connection leaves no account and no reserved credential behind (but the
  scopes granted to it). Every mutation is one transaction, taken apart by the rules of \<open>Transactions.thy\<close>.
\<close>

section \<open>Inside a transaction\<close>

lemma agree_ownerNow: "agree (ownerNow E) (ownerNow (solo E))"
  unfolding ownerNow_def by (intro agree_intros)

lemma agree_wrapped: "agree m m' \<Longrightarrow> agree (wrapped f m) (wrapped f m')"
  unfolding wrapped_def by (intro agree_intros)

lemma solo_scoped [simp]: "scoped_key (solo E) ws c k = scoped_key E ws c k" "requireAll (solo E) ws = requireAll E ws"
  by (simp_all add: scoped_key_def requireAll_def)

lemma agree_same: "agree (scoped_key E ws c k) (scoped_key E ws c k)" "agree (requireAll E ws) (requireAll E ws)"
  by (simp_all add: scoped_key_def requireAll_def agree_of_result agree_throw agree_ret split: option.splits)

lemma agree_scanConnection: "agree (scanConnection r) (scanConnection r)"
  unfolding scanConnection_def by (intro agree_intros)

lemma agree_GetConnection: "agree (GetConnection E ws k) (GetConnection (solo E) ws k)"
  unfolding GetConnection_def solo_simps by (intro agree_intros agree_scanConnection)

lemma agree_scanSecret: "agree (scanSecret r) (scanSecret r)"
  unfolding scanSecret_def by (intro agree_intros)

lemma agree_getSecret: "agree (getSecret E ws k) (getSecret (solo E) ws k)"
  unfolding getSecret_def solo_simps by (intro agree_intros agree_scanSecret)

lemma solo_ownerID [simp]: "ownerID (solo E) = ownerID E"
  by (simp add: fun_eq_iff ownerID_def)

lemma agree_sync: "agree (syncConnectionAccountSecrets E c) (syncConnectionAccountSecrets (solo E) c)"
  unfolding syncConnectionAccountSecrets_def rejectReservedAccountSecrets_def reserved_by_other_def
    rejectExistingCredentialAliases_def alias_check_def require_active_material_def reserve_secret_def Let_def solo_ownerID
  by (intro agree_intros agree_ownerNow)

lemmas agree_managed = agree_intros agree_ownerNow agree_wrapped agree_same agree_GetConnection agree_getSecret agree_sync

lemma solo_normalize [simp]: "normalizeProviderConnection (solo E) = normalizeProviderConnection E"
  by (intro ext) (simp only: normalizeProviderConnection_def connection_error_def member_error_def
      validateProviderConfigValue_def text_error_def solo_simps)

lemma solo_checked [simp]: "checked_connection (solo E) = checked_connection E"
  by (intro ext) (simp only: checked_connection_def solo_normalize solo_simps)

lemma agree_upsert_connection: "agree (upsert_connection E ws k a input) (upsert_connection (solo E) ws k a input)"
  unfolding upsert_connection_def store_connection_def solo_simps solo_scoped solo_checked solo_ownerID by (intro agree_managed)

lemma agree_delete_connection: "agree (delete_connection E ws k) (delete_connection (solo E) ws k)"
  unfolding delete_connection_def requireScopedCandidate_def solo_scoped by (intro agree_managed)

lemma agree_set_connection_status: "agree (set_connection_status E ws k s) (set_connection_status (solo E) ws k s)"
  unfolding set_connection_status_def require_ready_def solo_scoped solo_simps solo_normalize by (intro agree_managed)

section \<open>The rows of one key\<close>

definition keyed_row :: "string \<Rightarrow> string \<Rightarrow> string \<Rightarrow> row \<Rightarrow> bool" where
  "keyed_row workspaceID column key r \<longleftrightarrow> r ''workspace_id'' = Text (trim_space workspaceID) \<and> r column = Text (trim_space key)"

lemma scoped_key_holds:
  assumes "requireAllDataScope (ev_scope E) (trim_space ws) = None" and "scoped_key E ws c k w = (Inr p, w')"
  shows "w' = w \<and> holds d r p = keyed_row ws c k r"
proof (cases "ev_scope E")
  case None
  with assms(2) have "scopedWhere None (trim_space ws) [] [] [Equal c (Text (trim_space k))] = Inr p" "w' = w"
    by (simp_all add: scoped_key_def)
  then show ?thesis by (simp add: scopedWhere_holds_None where_simps keyed_row_def)
next
  case (Some scope)
  with assms(2) have p: "scopedWhere (Some scope) (trim_space ws) [] [] [Equal c (Text (trim_space k))] = Inr p" and "w' = w"
    by (simp_all add: scoped_key_def)
  have "AccessScope_Valid scope \<and> as_WorkspaceID scope = trim_space ws \<and> (\<forall>u g r. row_allowed scope u g r \<and> row_not_denied scope u g r)"
    using assms(1) require_all_scope_iff [of "ev_scope E" "trim_space ws"] Some by simp
  with \<open>w' = w\<close> show ?thesis
    unfolding scopedWhere_holds [OF p] by (simp add: where_simps keyed_row_def)
qed

lemma requireAll_Inr: "requireAll E ws w = (Inr u, w') \<longleftrightarrow> requireAllDataScope (ev_scope E) (trim_space ws) = None \<and> w' = w"
  by (auto simp: requireAll_def split: option.splits)

lemma wrapped_Inr: "wrapped f m w = (Inr x, w') \<longleftrightarrow> m w = (Inr x, w')"
  by (auto simp: wrapped_def seq_Inr case_Inr)

lemma guard_Inr:
  "alone E \<Longrightarrow> guardSubjectWrite E ws refs w = (Inr u, w') \<Longrightarrow> w_db w' = w_db w \<and> w_calls w' = w_calls w"
  by (rule unchanged_D [OF untouched.within_guard])


section \<open>Deletion\<close>

definition connection_gone :: "string \<Rightarrow> string \<Rightarrow> database \<Rightarrow> bool" where
  "connection_gone ws key d \<longleftrightarrow>
    list_all (\<lambda>t. all_rows t (\<lambda>r. \<not> keyed_row ws ''connection_key'' key r) d)
      [connections_table, accounts_table, account_secrets_table]"

lemma account_where_holds: "holds d r (account_where ws key) = keyed_row ws ''connection_key'' key r"
  by (auto simp: account_where_def keyed_row_def where_simps)

lemma tables_apart [simp]:
  "connections_table \<noteq> accounts_table" "accounts_table \<noteq> connections_table" "connections_table \<noteq> account_secrets_table"
  "account_secrets_table \<noteq> connections_table" "accounts_table \<noteq> account_secrets_table" "account_secrets_table \<noteq> accounts_table"
  by (simp_all add: connections_table_def accounts_table_def account_secrets_table_def)

lemma delete_from_rows: "alone E \<Longrightarrow> delete_from E t p w = (Inr n, w') \<Longrightarrow> w_db w' = (w_db w)(t := filter (\<lambda>r. \<not> holds (w_db w) r p) (w_db w t))"
  by (drule (1) delete_from_Inr) (auto simp: delete_rows_def)

lemma requireScopedCandidate_within: "evolution.within (unchanged E) (requireScopedCandidate E t c ws k)"
  unfolding requireScopedCandidate_def scoped_key_def by (intro untouched.within_reads)

lemma delete_connection_db:
  assumes "alone E" and "delete_connection E ws key w = (Inr u, w')"
  shows "w_db w' = (w_db w)(
    account_secrets_table := filter (\<lambda>r. \<not> keyed_row ws ''connection_key'' key r) (w_db w account_secrets_table),
    accounts_table := filter (\<lambda>r. \<not> keyed_row ws ''connection_key'' key r) (w_db w accounts_table),
    connections_table := filter (\<lambda>r. \<not> keyed_row ws ''connection_key'' key r) (w_db w connections_table))"
proof -
  from assms(2) obtain w1 p w2 n1 w3 n2 w4 n3 where
      scope: "requireAllDataScope (ev_scope E) (trim_space ws) = None"
    and found: "requireScopedCandidate E connections_table ''connection_key'' ws key w = (Inr (), w1)"
    and p: "scoped_key E ws ''connection_key'' key w1 = (Inr p, w2)"
    and del: "delete_from E account_secrets_table (account_where ws key) w2 = (Inr n1, w3)"
      "delete_from E accounts_table (account_where ws key) w3 = (Inr n2, w4)"
      "delete_from E connections_table p w4 = (Inr n3, w')"
    by (auto simp: delete_connection_def seq_Inr requireAll_Inr wrapped_Inr)
  have "w_db w1 = w_db w" using unchanged_D [OF requireScopedCandidate_within assms(1) found] by simp
  moreover have "w2 = w1" "\<And>d r. holds d r p = keyed_row ws ''connection_key'' key r"
    using scoped_key_holds [OF scope p] by simp_all
  ultimately show ?thesis
    using del [THEN delete_from_rows [OF assms(1)]] by (simp add: account_where_holds fun_upd_twist)
qed

text \<open>
  C30. A connection whose deletion returns without an error is gone with its account and every credential that
  was reserved for it, whatever other processes and storage do: no row of its key is left in the three tables.
\<close>

theorem deleted_connection_gone:
  assumes "DeleteConnection E ws key w = (Inr (), w')"
  shows "connection_gone ws key (w_db w')"
proof -
  from assms have "transaction E (delete_connection E ws key) w = (Inr (), w')"
    by (simp add: DeleteConnection_def managed_def seq_Inr requireAll_Inr)
  then obtain u v where "delete_connection (solo E) ws key u = (Inr (), v)" and w': "w_db w' = w_db v"
    by (rule transaction_returns [OF _ agree_delete_connection])
  from delete_connection_db [OF solo_alone this(1)] show ?thesis
    unfolding w' by (simp add: connection_gone_def all_rows_def)
qed

section \<open>Every stored connection passes its provider's validation\<close>

text \<open>The connection that a row holds, and the rows that normalization accepts as they are.\<close>

definition row_connection :: "row \<Rightarrow> Connection option" where
  "row_connection r =
    (case (decode_object (doc_of (r ''config_json'')), decode_string_map (doc_of (r ''secret_refs_json''))) of
       (Some config, Some refs) \<Rightarrow>
         Some \<lparr>cn_Key = text_of (r ''connection_key''), cn_WorkspaceID = text_of (r ''workspace_id''),
               cn_ConnectorKey = text_of (r ''connector_key''), cn_ProviderKey = text_of (r ''provider_key''),
               cn_Name = text_of (r ''name''), cn_Status = text_of (r ''status''), cn_Config = config, cn_SecretRefs = refs\<rparr>
     | _ \<Rightarrow> None)"

definition connection_valid :: "env \<Rightarrow> row \<Rightarrow> bool" where
  "connection_valid E r \<longleftrightarrow>
    (case row_connection r of
       None \<Rightarrow> False
     | Some c \<Rightarrow>
         validConnectionStatus (cn_Status c) \<and>
         (case ev_Provider E (cn_ConnectorKey c) (cn_ProviderKey c) of
            None \<Rightarrow> False
          | Some p \<Rightarrow> normalizeProviderConnection E (Some p) c (needs_ready (cn_Status c)) = Inr c))"

definition connections_valid :: "env \<Rightarrow> database \<Rightarrow> bool" where
  "connections_valid E d \<longleftrightarrow> keyed d connections_table \<and> all_rows connections_table (connection_valid E) d"

text \<open>The defaults of the connector SDK are settled: filling them in twice is filling them in once.\<close>

definition defaults_settled :: "env \<Rightarrow> bool" where
  "defaults_settled E \<longleftrightarrow>
    (\<forall>declared config config'. sdk_ApplyConfigDefaults (ev_SDK E) declared config = Inr config' \<longrightarrow>
      sdk_ApplyConfigDefaults (ev_SDK E) declared config' = Inr config')"

lemma decode_refs [simp]: "decode_members (map (\<lambda>(k, v). (k, JStr v)) refs) = Some refs"
  by (induction refs) (auto simp: decode_string_def)

lemma decode_stored [simp]:
  "decode_object (doc_of (config_json config)) = Some config" "decode_string_map (doc_of (refs_json refs)) = Some refs"
  by (simp_all add: config_json_def refs_json_def decode_string_map_def)

lemma connection_keys [simp]: "unique_keys connections_table = [[''id''], [''workspace_id'', ''connection_key'']]"
  by (simp add: unique_keys_def connections_table_def)

text \<open>A normalized connection is left as it is, and stays acceptable with a status that needs less.\<close>

lemma normalize_Inr:
  "normalizeProviderConnection E (Some p) c ready = Inr c' \<longleftrightarrow>
    pv_ConnectorKey p = trim_space (cn_ConnectorKey c) \<and> pv_ProviderKey p = trim_space (cn_ProviderKey c) \<and>
    (\<exists>config. sdk_ApplyConfigDefaults (ev_SDK E) (pv_ConfigFields p) (cn_Config c) = Inr config \<and>
      c' = c\<lparr>cn_Config := config\<rparr> \<and> connection_error E p c' ready = None)"
  by (auto simp: normalizeProviderConnection_def Let_def split: sum.splits option.splits)

lemma normalize_again:
  assumes "defaults_settled E" and "normalizeProviderConnection E (Some p) c ready = Inr c'"
  shows "normalizeProviderConnection E (Some p) c' ready = Inr c'"
proof -
  from assms(2) obtain config where config: "sdk_ApplyConfigDefaults (ev_SDK E) (pv_ConfigFields p) (cn_Config c) = Inr config"
    and rest: "pv_ConnectorKey p = trim_space (cn_ConnectorKey c)" "pv_ProviderKey p = trim_space (cn_ProviderKey c)"
      "c' = c\<lparr>cn_Config := config\<rparr>" "connection_error E p c' ready = None"
    by (auto simp: normalize_Inr)
  have "sdk_ApplyConfigDefaults (ev_SDK E) (pv_ConfigFields p) config = Inr config"
    using assms(1) config by (simp add: defaults_settled_def)
  with rest show ?thesis by (simp add: normalize_Inr)
qed

lemma field_error_relax: "field_error config ready field = None \<Longrightarrow> field_error config False field = None"
  by (auto simp: field_error_def Let_def split: if_splits)

lemma connection_error_None:
  "connection_error E p c ready = None \<longleftrightarrow>
    (\<forall>m \<in> set (cn_Config c). member_error E (pv_ConfigFields p) m = None) \<and>
    (\<forall>field \<in> set (pv_ConfigFields p). field_error (cn_Config c) ready field = None) \<and>
    (\<forall>ref \<in> set (cn_SecretRefs c). reference_error p ref = None) \<and> (ready \<longrightarrow> ready_error p c = None)"
  unfolding find_error_None [symmetric] connection_error_def by (auto simp del: find_error_None split: option.splits)

lemma connection_error_relax:
  "connection_error E p c ready = None \<Longrightarrow> connection_error E p (c\<lparr>cn_Status := s\<rparr>) False = None"
  by (auto simp: connection_error_None field_error_relax)

lemma normalize_relax:
  "normalizeProviderConnection E (Some p) c ready = Inr c \<Longrightarrow>
    normalizeProviderConnection E (Some p) (c\<lparr>cn_Status := s\<rparr>) False = Inr (c\<lparr>cn_Status := s\<rparr>)"
  unfolding normalize_Inr using connection_error_relax [of E p c ready s]
  by (cases c) auto

lemma keyed_set_columns:
  assumes "keyed d t" and "update_rows t' (set_columns cs) p d = (x, d')"
    and "\<forall>ks \<in> set (unique_keys t'). \<forall>c \<in> set ks. c \<notin> fst ` set cs"
  shows "keyed d' t"
proof -
  have "keyed (snd (update_rows t' (set_columns cs) p d)) t"
    by (rule keyed_update [OF assms(1)]) (use assms(3) in \<open>auto intro: set_columns_other\<close>)
  with assms(2) show ?thesis by simp
qed

text \<open>A checked connection is valid in the row that it is stored in.\<close>

lemma checked_valid:
  assumes "defaults_settled E" and "checked_connection E ws key input = Inr c"
  shows "cn_Key c = key \<and> cn_WorkspaceID c = ws \<and> validConnectionStatus (cn_Status c) \<and>
    (\<exists>p. ev_Provider E (cn_ConnectorKey c) (cn_ProviderKey c) = Some p \<and>
      normalizeProviderConnection E (Some p) c (needs_ready (cn_Status c)) = Inr c)"
proof -
  from assms(2) obtain ck pk status p where p: "ev_Provider E ck pk = Some p" "validConnectionStatus status"
    and c: "normalizeProviderConnection E (Some p)
      \<lparr>cn_Key = key, cn_WorkspaceID = ws, cn_ConnectorKey = ck, cn_ProviderKey = pk, cn_Name = cni_Name input,
       cn_Status = status, cn_Config = cni_Config input, cn_SecretRefs = cni_SecretRefs input\<rparr> (needs_ready status) = Inr c"
    unfolding checked_connection_def Let_def by (auto split: sum.splits if_splits option.splits)
  from c obtain config where "c =
      \<lparr>cn_Key = key, cn_WorkspaceID = ws, cn_ConnectorKey = ck, cn_ProviderKey = pk, cn_Name = cni_Name input,
       cn_Status = status, cn_Config = config, cn_SecretRefs = cni_SecretRefs input\<rparr>" by (auto simp: normalize_Inr)
  with normalize_again [OF assms(1) c] p show ?thesis by simp
qed

lemma row_connection_eq:
  assumes "r ''connection_key'' = Text (cn_Key c)" "r ''workspace_id'' = Text (cn_WorkspaceID c)"
    "r ''connector_key'' = Text (cn_ConnectorKey c)" "r ''provider_key'' = Text (cn_ProviderKey c)"
    "r ''name'' = Text (cn_Name c)" "r ''status'' = Text (cn_Status c)"
    "r ''config_json'' = config_json (cn_Config c)" "r ''secret_refs_json'' = refs_json (cn_SecretRefs c)"
  shows "row_connection r = Some c"
  using assms by (simp add: row_connection_def)

lemma store_connection_valid:
  assumes "alone E" and d: "connections_valid E (w_db u)" and ws: "trim_space ws = ws" "trim_space key = key"
    and run: "store_connection E actor c stamp p found u = (Inr n, v)"
    and key: "cn_Key c = key" "cn_WorkspaceID c = ws" and status: "validConnectionStatus (cn_Status c)"
    and ok: "ev_Provider E (cn_ConnectorKey c) (cn_ProviderKey c) = Some q"
      "normalizeProviderConnection E (Some q) c (needs_ready (cn_Status c)) = Inr c"
    and p: "\<And>d r. holds d r p = keyed_row ws ''connection_key'' key r"
  shows "connections_valid E (w_db v)"
proof (cases found)
  case None
  with run obtain cs where ins: "insert_row connections_table cs (w_db u) = (Inr n, w_db v)"
    and cs: "row_connection (row_of cs) = Some c"
    apply (simp add: store_connection_def wrapped_Inr)
    apply (drule insert_into_Inr [OF assms(1)], erule conjE, rule that, assumption)
    by (rule row_connection_eq) simp_all
  have "connection_valid E (row_of cs)" using cs status ok by (simp add: connection_valid_def)
  then show ?thesis
    using d ins keyed_insert [of "w_db u" connections_table connections_table cs]
      all_rows_insert [of connections_table connections_table "connection_valid E" cs "w_db u"]
    by (simp add: connections_valid_def)
next
  case (Some r)
  with run obtain cs where upd: "update_rows connections_table (set_columns cs) (And [subjectRowWriteAllowed connections_table, p]) (w_db u) = (Inr n, w_db v)"
    and cs: "\<And>r. keyed_row ws ''connection_key'' key r \<Longrightarrow> row_connection (set_columns cs r) = Some c"
      "''id'' \<notin> fst ` set cs" "''workspace_id'' \<notin> fst ` set cs" "''connection_key'' \<notin> fst ` set cs"
    apply (clarsimp simp add: store_connection_def wrapped_Inr seq_Inr scan_texts_def)
    apply (drule guarded_update_Inr [OF assms(1)], erule conjE, rule that, assumption)
    subgoal by (rule row_connection_eq) (simp_all add: keyed_row_def ws key)
    by auto
  have valid: "connection_valid E (set_columns cs r)" if "keyed_row ws ''connection_key'' key r" for r
    using cs(1) [OF that] status ok by (simp add: connection_valid_def)
  have "keyed (w_db v) connections_table"
    using d cs(2-4) by (intro keyed_set_columns [OF _ upd]) (simp_all add: connections_valid_def)
  moreover have "all_rows connections_table (connection_valid E) (w_db v)"
    using d valid unfolding update_rows_result [OF upd] all_rows_def by (auto simp: connections_valid_def all_rows_def where_simps p)
  ultimately show ?thesis by (simp add: connections_valid_def)
qed


text \<open>Reserving credentials changes only the table of reservations.\<close>

locale reservation_writes = store_reads +
  assumes within_reserve: "within (insert_into E account_secrets_table cs)"
    and within_release: "within (delete_from E account_secrets_table p)"
begin

lemma within_sync: "within (syncConnectionAccountSecrets E c)"
  unfolding syncConnectionAccountSecrets_def rejectReservedAccountSecrets_def reserved_by_other_def
    rejectExistingCredentialAliases_def alias_check_def require_active_material_def reserve_secret_def Let_def
  by (intro within_account_reads within_reserve within_release)

end

definition same_but :: "string \<Rightarrow> database \<Rightarrow> database \<Rightarrow> bool" where
  "same_but t d d' \<longleftrightarrow> (\<forall>u. u \<noteq> t \<longrightarrow> d' u = d u)"

interpretation reserving: reservation_writes "inv_within (same_but account_secrets_table d) E" E for d E
  by (intro reservation_writes.intro inv_store_reads reservation_writes_axioms.intro)
    (auto simp: insert_into_def delete_from_def same_but_def insert_row_def delete_rows_def Let_def intro!: inv_statement)

lemma sync_other_tables:
  "alone E \<Longrightarrow> syncConnectionAccountSecrets E c w = (r, w') \<Longrightarrow> same_but account_secrets_table (w_db w) (w_db w')"
  using reserving.within_sync [where d = "w_db w" and E = E and c = c]
  unfolding evolution.within_def [OF inv_evolution] inv_within_def by (force simp: alone_def same_but_def)

lemma connections_valid_same:
  "same_but account_secrets_table d d' \<Longrightarrow> connections_valid E d' = connections_valid E d"
  by (simp add: same_but_def connections_valid_def keyed_def all_rows_def)

lemma connections_valid_solo [simp]: "connections_valid (solo E) = connections_valid E"
  by (intro ext) (simp only: connections_valid_def connection_valid_def [abs_def] solo_normalize solo_simps)

section \<open>The mutations keep the connections valid\<close>

lemma upsert_connection_valid:
  assumes "defaults_settled E" and "alone E" and d: "connections_valid E (w_db w)"
    and run: "upsert_connection E ws key actor input w = (Inr m, w')"
  shows "connections_valid E (w_db w')"
proof -
  let ?ws = "trim_space ws" and ?key = "trim_space key"
  from run obtain w1 c stamp w2 p w3 found w4 n w5 w6 where
      scope: "requireAllDataScope (ev_scope E) ?ws = None"
    and guard: "guardSubjectWrite E ws [(''connection'', [], key), (''subject'', [], actor)] w = (Inr (), w1)"
    and c: "checked_connection E ?ws ?key input = Inr c"
    and now: "ownerNow E w1 = (Inr stamp, w2)"
    and p: "scoped_key E ?ws ''connection_key'' ?key w2 = (Inr p, w3)"
    and sel: "select_row E connections_table p w3 = (Inr found, w4)"
    and store: "store_connection E actor c stamp p found w4 = (Inr n, w5)"
    and sync: "syncConnectionAccountSecrets E (stored_connection c) w5 = (Inr (), w6)"
    and get: "GetConnection E ?ws ?key w6 = (Inr m, w')"
    by (auto simp: upsert_connection_def seq_Inr requireAll_Inr requiredOwnerValue_def split: if_splits)
  have "w_db w4 = w_db w"
    using guard_Inr [OF assms(2) guard] now scoped_key_holds [OF _ p] scope select_row_Inr [OF assms(2) sel]
    by (simp add: ownerNow_def op_Inr now_Inr)
  moreover have "holds d r p = keyed_row ?ws ''connection_key'' ?key r" for d r
    using scoped_key_holds [OF _ p] scope by simp
  moreover obtain q where "ev_Provider E (cn_ConnectorKey c) (cn_ProviderKey c) = Some q"
      "normalizeProviderConnection E (Some q) c (needs_ready (cn_Status c)) = Inr c"
    using checked_valid [OF assms(1) c] by blast
  ultimately have "connections_valid E (w_db w5)"
    using checked_valid [OF assms(1) c] d
    by (intro store_connection_valid [OF assms(2) _ _ _ store, where ws = ?ws and key = ?key and q = q]) simp_all
  moreover have "w_db w' = w_db w6" using unchanged_D [OF untouched.within_GetConnection(2) assms(2) get] by simp
  ultimately show ?thesis using connections_valid_same [OF sync_other_tables [OF assms(2) sync]] by simp
qed

lemma keyed_filter:
  assumes "keyed d t" and "d' t = filter P (d t)"
  shows "keyed d' t"
proof -
  have "keyed d t \<longleftrightarrow> sorted_wrt (\<lambda>q r. \<forall>cs \<in> set (unique_keys t). \<not> same_key r q cs) (d t)" for d
    unfolding keyed_def sorted_wrt_iff_nth_less by blast
  with assms show ?thesis by (simp add: sorted_wrt_filter)
qed

lemma delete_connection_valid:
  assumes "alone E" and d: "connections_valid E (w_db w)" and "delete_connection E ws key w = (Inr u, w')"
  shows "connections_valid E (w_db w')"
proof -
  have t: "w_db w' connections_table = filter (\<lambda>r. \<not> keyed_row ws ''connection_key'' key r) (w_db w connections_table)"
    unfolding delete_connection_db [OF assms(1,3)] by simp
  have "keyed (w_db w') connections_table" using d
    by (intro keyed_filter [where d = "w_db w" and d' = "w_db w'" and t = connections_table, OF _ t]) (simp add: connections_valid_def)
  with t d show ?thesis by (simp add: connections_valid_def all_rows_def)
qed

text \<open>The row that a connection was read from.\<close>

lemma GetConnection_row:
  assumes "alone E" and "requireAllDataScope (ev_scope E) (trim_space ws) = None" and "GetConnection E ws key w = (Inr m, w')"
  shows "\<exists>r \<in> set (w_db w connections_table). keyed_row ws ''connection_key'' key r \<and>
    row_connection r = Some (sdk_managed m (text_of (r ''status'')))"
proof -
  from assms(3) obtain p w1 r where p: "scoped_key E ws ''connection_key'' key w = (Inr p, w)"
    and sel: "select_row E connections_table p w = (Inr (Some r), w1)" and scan: "scanConnection r w1 = (Inr m, w')"
    by (auto simp: GetConnection_def scoped_key_def seq_Inr requiredOwnerValue_def split: if_splits option.splits)
  have "r \<in> set (w_db w connections_table)" "keyed_row ws ''connection_key'' key r"
    using select_row_Inr [OF assms(1) sel] scoped_key_holds [OF assms(2) p]
    by (auto simp: select_rows_def dest!: sym [of "Some r"] split: list.splits dest: filter_eq_ConsD)
  moreover have "row_connection r = Some (sdk_managed m (text_of (r ''status'')))"
    using scan by (auto simp: scanConnection_def row_connection_def sdk_managed_def op_Inr case_Inr scan_texts_def)
  ultimately show ?thesis by blast
qed

lemma status_row:
  "row_connection (set_columns [(''status'', Text s), (''updated_at'', Text stamp)] r) =
    map_option (\<lambda>c. c\<lparr>cn_Status := s\<rparr>) (row_connection r)"
  by (simp add: row_connection_def split: option.splits)

lemma require_ready_within: "evolution.within (unchanged E) (require_ready E ws key s)"
  unfolding require_ready_def by (intro untouched.within_reads untouched.within_GetConnection)

lemma set_status_row_valid:
  assumes "alone E" and d: "connections_valid E (w_db w)" and scope: "requireAllDataScope (ev_scope E) (trim_space ws) = None"
    and ready: "require_ready E ws key s w = (Inr (), w1)" and s: "validConnectionStatus s"
    and r: "r \<in> set (w_db w connections_table)" "keyed_row ws ''connection_key'' key r"
  shows "connection_valid E (set_columns [(''status'', Text s), (''updated_at'', Text stamp)] r)"
proof -
  from d r(1) have "connection_valid E r" by (simp add: connections_valid_def all_rows_def)
  then obtain c p where c: "row_connection r = Some c" and p: "ev_Provider E (cn_ConnectorKey c) (cn_ProviderKey c) = Some p"
    and ok: "normalizeProviderConnection E (Some p) c (needs_ready (cn_Status c)) = Inr c"
    by (auto simp: connection_valid_def split: option.splits)
  have "normalizeProviderConnection E (Some p) (c\<lparr>cn_Status := s\<rparr>) (needs_ready s) = Inr (c\<lparr>cn_Status := s\<rparr>)"
  proof (cases "needs_ready s")
    case False
    then show ?thesis using normalize_relax [OF ok] by simp
  next
    case True
    with ready obtain m w2 p' c' where get: "GetConnection E ws key w = (Inr m, w2)"
      and p': "ev_Provider E (mc_ConnectorKey m) (mc_ProviderKey m) = Some p'"
      and c': "normalizeProviderConnection E (Some p') (sdk_managed m s) True = Inr c'"
      by (auto simp: require_ready_def seq_Inr case_Inr throw_Inr)
    from GetConnection_row [OF assms(1) scope get] obtain r0 where r0: "r0 \<in> set (w_db w connections_table)"
      "keyed_row ws ''connection_key'' key r0" "row_connection r0 = Some (sdk_managed m (text_of (r0 ''status'')))" by blast
    have "r = r0"
      using d r r0 keyed_rows [of "w_db w" connections_table r r0 "[''workspace_id'', ''connection_key'']"]
      by (simp add: connections_valid_def same_key_def keyed_row_def)
    with c r0(3) have "c = sdk_managed m (text_of (r0 ''status''))" by simp
    then obtain t where m: "c = sdk_managed m t" by blast
    have same: "sdk_managed m s = c\<lparr>cn_Status := s\<rparr>" "p' = p" using p p' by (simp_all add: m sdk_managed_def)
    from c' ok have "c' = c\<lparr>cn_Status := s\<rparr>" unfolding same by (cases c) (auto simp: normalize_Inr)
    with c' same True show ?thesis by simp
  qed
  with c p s show ?thesis unfolding connection_valid_def status_row by simp
qed

lemma set_connection_status_valid:
  assumes "alone E" and d: "connections_valid E (w_db w)" and run: "set_connection_status E ws key status w = (Inr m, w')"
  shows "connections_valid E (w_db w')"
proof -
  let ?s = "trim_space status" and ?cs = "\<lambda>stamp. [(''status'', Text (trim_space status)), (''updated_at'', Text stamp)]"
  from run obtain w1 p w2 stamp w3 n w4 where
      scope: "requireAllDataScope (ev_scope E) (trim_space ws) = None" and valid: "validConnectionStatus ?s"
    and ready: "require_ready E ws key ?s w = (Inr (), w1)"
    and p: "scoped_key E ws ''connection_key'' key w1 = (Inr p, w2)" and now: "ownerNow E w2 = (Inr stamp, w3)"
    and upd: "guarded_update E connections_table (?cs stamp) p w3 = (Inr n, w4)"
    and get: "GetConnection E ws key w4 = (Inr m, w')"
    by (auto simp: set_connection_status_def seq_Inr requireAll_Inr requiredOwnerValue_def wrapped_Inr split: if_splits)
  have "w_db w3 = w_db w"
    using unchanged_D [OF require_ready_within assms(1) ready] scoped_key_holds [OF scope p] now
    by (simp add: ownerNow_def op_Inr now_Inr)
  then have upd: "update_rows connections_table (set_columns (?cs stamp)) (And [subjectRowWriteAllowed connections_table, p]) (w_db w)
      = (Inr n, w_db w4)"
    using guarded_update_Inr [OF assms(1) upd] by simp
  have "keyed (w_db w4) connections_table"
    by (rule keyed_set_columns [OF _ upd]) (use d in \<open>simp_all add: connections_valid_def\<close>)
  moreover have "all_rows connections_table (connection_valid E) (w_db w4)"
    unfolding update_rows_result [OF upd] all_rows_def
    using set_status_row_valid [OF assms(1) d scope ready valid] scoped_key_holds [OF scope p] d
    by (auto simp: connections_valid_def all_rows_def where_simps)
  moreover have "w_db w' = w_db w4" using unchanged_D [OF untouched.within_GetConnection(2) assms(1) get] by simp
  ultimately show ?thesis by (simp add: connections_valid_def)
qed


lemma managed_keeps:
  assumes "agree body body'" and "\<And>n d. I d \<Longrightarrow> I (ev_others E n d)" and "I (w_db w)"
    and "\<And>u x v. I (w_db u) \<Longrightarrow> body' u = (Inr x, v) \<Longrightarrow> I (w_db v)"
  shows "I (w_db (snd (managed E ws body w)))"
proof (cases "requireAllDataScope (ev_scope E) (trim_space ws)")
  case None
  have "I (w_db (before_step E w))" using assms(2,3) by (simp add: before_step_def)
  with None transaction_keeps [where I = I, OF assms(1) _ assms(4)] show ?thesis
    by (simp add: managed_def seq_apply requireAll_def)
qed (simp add: managed_def seq_apply requireAll_def assms(3))

text \<open>
  C29. Whatever is asked of the management, and whatever fails meanwhile, every stored connection passes the
  validation of its provider as it is (its configuration with the declared types and bounds; complete, and
  accepted by the provider, while it is active or inactive), and has one of the known statuses: as long as
  the SDK's defaults are settled and other processes keep it.
\<close>

theorem connections_stay_valid:
  assumes "defaults_settled E" and others: "\<And>n d. connections_valid E d \<Longrightarrow> connections_valid E (ev_others E n d)"
    and start: "connections_valid E (w_db w)"
  shows "connections_valid E (w_db (snd (UpsertConnection E ws key actor input w))) \<and>
    connections_valid E (w_db (snd (SetConnectionStatus E ws key status w))) \<and>
    connections_valid E (w_db (snd (DeleteConnection E ws key w)))"
proof -
  have settled: "defaults_settled (solo E)" using assms(1) by (simp add: defaults_settled_def)
  show ?thesis
    unfolding UpsertConnection_def SetConnectionStatus_def DeleteConnection_def
  proof (intro conjI)
    show "connections_valid E (w_db (snd (managed E ws (upsert_connection E ws key actor input) w)))"
      using upsert_connection_valid [OF settled solo_alone]
      by (intro managed_keeps [where I = "connections_valid E", OF agree_upsert_connection others start]) simp_all
    show "connections_valid E (w_db (snd (managed E ws (set_connection_status E ws key status) w)))"
      using set_connection_status_valid [OF solo_alone]
      by (intro managed_keeps [where I = "connections_valid E", OF agree_set_connection_status others start]) simp_all
    show "connections_valid E (w_db (snd (managed E ws (delete_connection E ws key) w)))"
      using delete_connection_valid [OF solo_alone]
      by (intro managed_keeps [where I = "connections_valid E", OF agree_delete_connection others start]) simp_all
  qed
qed


section \<open>A provider with two fields\<close>

definition any_value :: ConfigValidation where
  "any_value = \<lparr>va_MinLength = 0, va_MaxLength = 0, va_Pattern = [], va_Options = [], va_Min = None, va_Max = None\<rparr>"

definition crm_fields :: "ConfigField list" where
  "crm_fields =
    [\<lparr>cf_Key = ''url'', cf_Type = ConfigText, cf_Required = True, cf_RequiredWith = [], cf_Validation = any_value\<lparr>va_MaxLength := 20\<rparr>\<rparr>,
     \<lparr>cf_Key = ''retries'', cf_Type = ConfigInteger, cf_Required = False, cf_RequiredWith = [''url''],
      cf_Validation = any_value\<lparr>va_Min := Some (0, 0), va_Max := Some (5, 0)\<rparr>\<rparr>]"

definition crm_env :: env where
  "crm_env = calm_env\<lparr>ev_Provider := (\<lambda>c p. if c = ''c'' \<and> p = ''p''
     then Some (echo_provider EffectWrite\<lparr>pv_ConfigFields := crm_fields, pv_SecretFields := [(''token'', True)]\<rparr>) else None)\<rparr>"

definition crm_row :: "(string \<times> json) list \<Rightarrow> (string \<times> string) list \<Rightarrow> string \<Rightarrow> row" where
  "crm_row config refs status =
    row_of [(''id'', Text ''1''), (''workspace_id'', Text ''w1''), (''connection_key'', Text ''crm''), (''connector_key'', Text ''c''),
      (''provider_key'', Text ''p''), (''name'', Text ''CRM''), (''status'', Text status), (''config_json'', config_json config),
      (''secret_refs_json'', refs_json refs), (''created_by'', Text ''u1''), (''created_at'', Text ''t''), (''updated_at'', Text ''t'')]"

definition crm_db :: database where
  "crm_db = (\<lambda>_. [])(connections_table := [crm_row [(''url'', JStr ''https://crm''), (''retries'', JNum 30 1)] [(''token'', ''secret:k'')] ''configured''])"

lemma crm_env_calm [simp]: "calm crm_env" "alone crm_env"
  by (simp_all add: crm_env_def calm_def alone_def)

lemma crm_env_simps [simp]:
  "ev_scope crm_env = None" "ev_others crm_env n d = d" "ev_clock crm_env n = 63934444800000000000"
  "sdk_ApplyConfigDefaults (ev_SDK crm_env) declared config = Inr config"
  by (simp_all add: crm_env_def)

lemma crm_settled: "defaults_settled crm_env"
  by (simp add: defaults_settled_def)

lemma crm_row_valid:
  "connection_valid crm_env (crm_row [(''url'', JStr ''https://crm''), (''retries'', JNum 30 1)] [(''token'', ''secret:k'')] ''configured'')"
  "\<not> connection_valid crm_env (crm_row [(''retries'', JNum 30 1)] [(''token'', ''secret:k'')] ''active'')"
  "\<not> connection_valid crm_env (crm_row [(''url'', JStr ''https://crm''), (''retries'', JNum 25 1)] [] ''configured'')"
  by code_simp+

lemma crm_db_valid: "connections_valid crm_env crm_db"
  using crm_row_valid(1) by (simp add: connections_valid_def crm_db_def keyed_def all_rows_def)

theorem connections_stay_valid_witness:
  "connections_valid crm_env (w_db (snd (SetConnectionStatus crm_env ''w1'' ''crm'' ''active'' (world_of crm_db))))"
proof -
  have "connections_valid crm_env (w_db (world_of crm_db))" by (simp add: world_of_def crm_db_valid)
  moreover have "connections_valid crm_env (ev_others crm_env n d)" if "connections_valid crm_env d" for n d
    using that by simp
  ultimately show ?thesis using connections_stay_valid [OF crm_settled] by blast
qed

section \<open>What a deletion leaves\<close>

lemma deletion_db:
  assumes "DeleteConnection E ws key w = (Inr (), w')"
  shows "\<exists>u v. w_db u = w_db (before_step E w) \<and> w_db w' = w_db v \<and> delete_connection (solo E) ws key u = (Inr (), v)"
proof -
  from assms have "transaction E (delete_connection E ws key) w = (Inr (), w')"
    by (simp add: DeleteConnection_def managed_def seq_Inr requireAll_Inr)
  then show ?thesis by (rule transaction_returns [OF _ agree_delete_connection]) blast
qed

text \<open>
  The scopes granted to the connection stay: they are found again for a new connection that is given
  the same key.
\<close>

theorem deleted_connection_keeps_grant:
  assumes "alone E" and "DeleteConnection E ws key w = (Inr (), w')"
    and "g \<in> set (w_db w grants_table)" "keyed_row ws ''connection_key'' key g"
  shows "all_rows connections_table (\<lambda>r. \<not> keyed_row ws ''connection_key'' key r) (w_db w') \<and> g \<in> set (w_db w' grants_table)"
proof -
  from deletion_db [OF assms(2)] obtain u v where u: "w_db u = w_db w" "w_db w' = w_db v"
    and run: "delete_connection (solo E) ws key u = (Inr (), v)"
    using assms(1) by auto
  have "grants_table \<notin> {connections_table, accounts_table, account_secrets_table}"
    by (simp add: grants_table_def connections_table_def accounts_table_def account_secrets_table_def)
  with assms(3) u show ?thesis unfolding u delete_connection_db [OF solo_alone run] by (simp add: all_rows_def)
qed

section \<open>A deletion\<close>

lemma crm_deleted: "\<exists>w'. DeleteConnection crm_env ''w1'' ''crm'' (world_of crm_db) = (Inr (), w')"
proof -
  have "trim_space ''w1'' = ''w1''" "trim_space ''crm'' = ''crm''" by code_simp+
  then show ?thesis
    by (simp add: DeleteConnection_def delete_connection_def requireScopedCandidate_def managed_def requireAll_def requireAllDataScope_def
        scoped_key_def scopedWhere_def wrapped_def Let_def run_steps world_of_def crm_db_def crm_row_def account_where_def select_rows_def
        where_simps delete_rows_def connections_table_def accounts_table_def account_secrets_table_def)
qed

theorem deleted_connection_gone_witness:
  "\<exists>w'. DeleteConnection crm_env ''w1'' ''crm'' (world_of crm_db) = (Inr (), w') \<and> connection_gone ''w1'' ''crm'' (w_db w')"
  using crm_deleted deleted_connection_gone by blast

end
