(* ===== verification/ManagedSecrets.thy ===== *)
theory ManagedSecrets
  imports ManagedConnections
begin

text \<open>
  What the management of secrets guarantees: a rotated secret resolves to its new value, in the version
  with the new fingerprint.
\<close>

lemma agree_upsertSecretMaterial: "agree (upsertSecretMaterial E ws key ct stamp) (upsertSecretMaterial (solo E) ws key ct stamp)"
  unfolding upsertSecretMaterial_def solo_ownerID by (intro agree_managed)

lemma solo_new_material [simp]: "new_material (solo E) = new_material E"
  by (intro ext) (simp only: new_material_def solo_simps)

lemma agree_upsert_secret: "agree (upsert_secret E ws key actor input) (upsert_secret (solo E) ws key actor input)"
  unfolding upsert_secret_def store_secret_def Let_def solo_simps solo_scoped solo_ownerID solo_new_material
  by (intro agree_managed agree_upsertSecretMaterial)

lemma agree_transition_secret: "agree (transition_secret E ws key t) (transition_secret (solo E) ws key t)"
  unfolding transition_secret_def solo_scoped by (intro agree_managed)

lemma secret_tables_apart [simp]:
  "secrets_table \<noteq> materials_table" "materials_table \<noteq> secrets_table" "fences \<noteq> secrets_table" "fences \<noteq> materials_table"
  by (simp_all add: secrets_table_def materials_table_def fences_def)

lemma secret_where_holds: "trim_space ws = ws \<Longrightarrow> trim_space key = key \<Longrightarrow> holds d r (secret_where ws key) = keyed_row ws ''secret_key'' key r"
  by (auto simp: secret_where_def keyed_row_def where_simps)

section \<open>What a write leaves in the rows of one key\<close>

text \<open>After an insertion or a guarded update, every row of the key that is not fenced has the new columns.\<close>

definition rows_have :: "string \<Rightarrow> string \<Rightarrow> string \<Rightarrow> string \<Rightarrow> (string \<times> sql) list \<Rightarrow> database \<Rightarrow> bool" where
  "rows_have t c ws key cs d \<longleftrightarrow>
    all_rows t (\<lambda>r. keyed_row ws c key r \<and> \<not> row_fenced d t r \<longrightarrow> list_all (\<lambda>(c, v). r c = v) cs) d"

lemma row_fenced_update:
  assumes "update_rows t (set_columns cs) p d = (x, d')" and "t \<noteq> fences" and "keeps_identity cs"
  shows "row_fenced d' t (set_columns cs r) = row_fenced d t r" "row_fenced d' t r = row_fenced d t r"
proof -
  have "d' fences = d fences" using update_rows_other [OF assms(1)] assms(2) by simp
  with set_columns_identity [OF assms(3), of r] show "row_fenced d' t (set_columns cs r) = row_fenced d t r"
    "row_fenced d' t r = row_fenced d t r" by (simp_all add: row_fenced_def)
qed

lemma update_rows_have:
  assumes "update_rows t (set_columns cs) (And [subjectRowWriteAllowed t, p]) d = (x, d')" and "t \<noteq> fences"
    and "keeps_identity cs" "distinct (map fst cs)" "c \<notin> fst ` set cs"
    and p: "\<And>d r. holds d r p = keyed_row ws c key r"
  shows "rows_have t c ws key cs d'"
  unfolding rows_have_def all_rows_def update_rows_result [OF assms(1)]
proof (intro ballI impI, elim conjE)
  fix q
  let ?p = "And [subjectRowWriteAllowed t, p]"
  assume "q \<in> set (map (\<lambda>r. if holds d r ?p then set_columns cs r else r) (d t))"
    and k: "keyed_row ws c key q" and free: "\<not> row_fenced d' t q"
  then obtain r where q: "q = (if holds d r ?p then set_columns cs r else r)" by (subst (asm) set_map) blast
  have "\<not> row_fenced d t r" using free row_fenced_update [OF assms(1-3), of r] by (simp add: q split: if_splits)
  moreover have "keyed_row ws c key r"
    using k set_columns_identity [OF assms(3), of r] set_columns_other [OF assms(5), of r]
    by (simp add: q keyed_row_def split: if_splits)
  ultimately have "q = set_columns cs r" by (simp add: q where_simps p)
  then show "list_all (\<lambda>(c, v). q c = v) cs" using set_columns_get [OF assms(4)] by (auto simp: list_all_iff)
qed

lemma insert_row_db: "insert_row t cs d = (Inr n, d') \<Longrightarrow> d' = d(t := d t @ [row_of cs])"
  by (simp add: insert_row_def Let_def split: if_splits)

lemma insert_rows_have:
  assumes "insert_row t cs d = (Inr n, d')" and "\<And>r. r \<in> set (d t) \<Longrightarrow> \<not> keyed_row ws c key r"
    and "list_all (\<lambda>(c, v). row_of cs c = v) ds"
  shows "rows_have t c ws key ds d'"
  using assms by (auto simp: rows_have_def all_rows_def insert_row_def Let_def split: if_splits)


lemma rows_have_sub:
  assumes "rows_have t c ws key cs d" and "set ds \<subseteq> set cs"
  shows "rows_have t c ws key ds d"
proof -
  have "list_all (\<lambda>(c, v). r c = v) ds" if "list_all (\<lambda>(c, v). r c = v) cs" for r
    using that assms(2) by (auto simp: list_all_iff)
  with assms(1) show ?thesis by (simp add: rows_have_def all_rows_def)
qed

section \<open>Rotation\<close>

lemma upsertSecretMaterial_have:
  assumes "alone E" and "upsertSecretMaterial E ws key ct stamp w = (Inr u, w')" and "trim_space ws = ws" "trim_space key = key"
  shows "rows_have materials_table ''secret_key'' ws key [(''ciphertext'', Text ct)] (w_db w') \<and>
    (\<exists>m \<in> set (w_db w' materials_table). keyed_row ws ''secret_key'' key m) \<and>
    w_db w' fences = w_db w fences \<and> w_db w' secrets_table = w_db w secrets_table"
proof -
  let ?p = "secret_where ws key"
  note p = secret_where_holds [OF assms(3,4)]
  from assms(2) obtain w1 w2 found where guard: "guardSubjectWrite E ws [(''secret'', [], key)] w = (Inr (), w1)"
    and sel: "select_row E materials_table ?p w1 = (Inr found, w2)"
    and rest: "(case found of
      None \<Rightarrow>
        seq (insert_into E materials_table
          [(''id'', Text (ownerID E ''secret_material_'' ws key)), (''workspace_id'', Text ws),
           (''secret_key'', Text key), (''ciphertext'', Text ct), (''created_at'', Text stamp), (''updated_at'', Text stamp)])
          (\<lambda>_. ret ())
    | Some r \<Rightarrow>
        seq (scan_texts r [''id'']) (\<lambda>_.
        seq (guarded_update E materials_table [(''ciphertext'', Text ct), (''updated_at'', Text stamp)] ?p) (\<lambda>_. ret ()))) w2 = (Inr u, w')"
    by (auto simp: upsertSecretMaterial_def seq_Inr)
  have w2: "w_db w2 = w_db w" and found: "found = (case select_rows materials_table ?p (w_db w) of [] \<Rightarrow> None | r # _ \<Rightarrow> Some r)"
    using guard_Inr [OF assms(1) guard] select_row_Inr [OF assms(1) sel] by simp_all
  show ?thesis
  proof (cases found)
    case None
    with rest obtain n cs where ins: "insert_row materials_table cs (w_db w) = (Inr n, w_db w')"
      and cs: "keyed_row ws ''secret_key'' key (row_of cs)" "list_all (\<lambda>(c, v). row_of cs c = v) [(''ciphertext'', Text ct)]"
      apply (clarsimp simp add: op_Inr)
      apply (drule insert_into_Inr [OF assms(1)], erule conjE, rule that)
      by (simp add: w2, simp_all add: keyed_row_def assms(3,4))
    have "\<not> keyed_row ws ''secret_key'' key r" if "r \<in> set (w_db w materials_table)" for r
      using None found that by (auto simp: select_rows_def filter_empty_conv p split: list.splits)
    from insert_rows_have [OF ins this cs(2)] cs(1) show ?thesis unfolding insert_row_db [OF ins] by simp
  next
    case (Some r)
    let ?cs = "[(''ciphertext'', Text ct), (''updated_at'', Text stamp)]"
    from Some rest w2 obtain n where
        upd: "update_rows materials_table (set_columns ?cs) (And [subjectRowWriteAllowed materials_table, ?p]) (w_db w) = (Inr n, w_db w')"
      by (auto simp: op_Inr scan_texts_def dest!: guarded_update_Inr [OF assms(1)])
    from Some found have r: "r \<in> set (w_db w materials_table)" "keyed_row ws ''secret_key'' key r"
      by (auto simp: select_rows_def p split: list.splits dest!: filter_eq_ConsD)
    let ?q = "if holds (w_db w) r (And [subjectRowWriteAllowed materials_table, ?p]) then set_columns ?cs r else r"
    have "?q \<in> set (w_db w' materials_table)" unfolding update_rows_result [OF upd] using r(1) by simp
    moreover have "keyed_row ws ''secret_key'' key ?q" using r(2) by (simp add: keyed_row_def)
    moreover have "rows_have materials_table ''secret_key'' ws key ?cs (w_db w')"
      by (rule update_rows_have [OF upd _ _ _ _ p]) (simp_all add: keeps_identity_def)
    then have "rows_have materials_table ''secret_key'' ws key [(''ciphertext'', Text ct)] (w_db w')"
      by (rule rows_have_sub) simp
    moreover have "w_db w' fences = w_db w fences" "w_db w' secrets_table = w_db w secrets_table"
      by (rule update_rows_other [OF upd], simp)+
    ultimately show ?thesis by blast
  qed
qed


text \<open>The columns of a secret with new material.\<close>

definition material_columns :: "env \<Rightarrow> string \<Rightarrow> SecretInput \<Rightarrow> (string \<times> sql) list" where
  "material_columns E key input =
    [(''value_ref'', Text (''material:'' @ key)), (''fingerprint'', Text (ev_sha256 E (sin_Value input))),
     (''expires_at'', Text (sin_ExpiresAt input))]"

lemma store_secret_have:
  assumes "alone E" and run: "store_secret E ws key kind actor input fp ref stamp p found w = (Inr n, w')"
    and p: "\<And>d r. holds d r p = keyed_row ws ''secret_key'' key r"
    and found: "found = (case select_rows secrets_table p (w_db w) of [] \<Rightarrow> None | r # _ \<Rightarrow> Some r)"
  shows "rows_have secrets_table ''secret_key'' ws key
      [(''value_ref'', Text ref), (''fingerprint'', Text fp), (''expires_at'', Text (sin_ExpiresAt input))] (w_db w') \<and>
    (\<forall>t. t \<noteq> secrets_table \<longrightarrow> w_db w' t = w_db w t)"
proof (cases found)
  case None
  with run obtain cs where ins: "insert_row secrets_table cs (w_db w) = (Inr n, w_db w')"
    and cs: "list_all (\<lambda>(c, v). row_of cs c = v) [(''value_ref'', Text ref), (''fingerprint'', Text fp), (''expires_at'', Text (sin_ExpiresAt input))]"
    apply (simp add: store_secret_def wrapped_Inr)
    apply (drule insert_into_Inr [OF assms(1)], erule conjE, rule that, assumption)
    by simp
  have "\<not> keyed_row ws ''secret_key'' key r" if "r \<in> set (w_db w secrets_table)" for r
    using None found that by (auto simp: select_rows_def filter_empty_conv p split: list.splits)
  from insert_rows_have [OF ins this cs] show ?thesis unfolding insert_row_db [OF ins] by simp
next
  case (Some r)
  with run obtain cs where upd: "update_rows secrets_table (set_columns cs) (And [subjectRowWriteAllowed secrets_table, p]) (w_db w) = (Inr n, w_db w')"
    and cs: "keeps_identity cs" "distinct (map fst cs)" "''secret_key'' \<notin> fst ` set cs"
      "{(''value_ref'', Text ref), (''fingerprint'', Text fp), (''expires_at'', Text (sin_ExpiresAt input))} \<subseteq> set cs"
    apply (simp add: store_secret_def wrapped_Inr)
    apply (drule guarded_update_Inr [OF assms(1)], erule conjE, rule that, assumption)
    by (simp_all add: keeps_identity_def)
  have "rows_have secrets_table ''secret_key'' ws key cs (w_db w')"
    by (rule update_rows_have [OF upd _ cs(1-3) p]) simp
  from rows_have_sub [OF this] cs(4) update_rows_other [OF upd] show ?thesis by simp
qed

lemma getSecret_key:
  assumes "alone E" and "requireAllDataScope (ev_scope E) (trim_space ws) = None" and "getSecret E ws key w = (Inr s, w')"
  shows "sec_Key s = trim_space key \<and> w_db w' = w_db w"
proof -
  from assms(3) obtain p w1 r where p: "scoped_key E ws ''secret_key'' key w = (Inr p, w)"
    and sel: "select_row E secrets_table p w = (Inr (Some r), w1)" and scan: "scanSecret r w1 = (Inr s, w')"
    by (auto simp: getSecret_def scoped_key_def seq_Inr case_Inr throw_Inr)
  have "keyed_row ws ''secret_key'' key r"
    using select_row_Inr [OF assms(1) sel] scoped_key_holds [OF assms(2) p]
    by (auto simp: select_rows_def dest!: sym [of "Some r"] split: list.splits dest: filter_eq_ConsD)
  moreover have "sec_Key s = text_of (r ''secret_key'')" "w' = w1" using scan by (auto simp: scanSecret_def op_Inr scan_texts_def)
  ultimately show ?thesis using select_row_Inr [OF assms(1) sel] by (simp add: keyed_row_def)
qed

lemma upsert_secret_have:
  assumes "alone E" and run: "upsert_secret E ws key actor input w = (Inr s, w')" and new: "sin_Value input \<noteq> []"
  shows "\<exists>c ct. ev_Cipher E = Some c \<and> ci_Encrypt c (trim_space ws) (trim_space key) (sin_Value input) = Inr ct \<and>
    requireAllDataScope (ev_scope E) (trim_space ws) = None \<and> sec_Key s = trim_space key \<and>
    rows_have secrets_table ''secret_key'' ws key (material_columns E (trim_space key) input) (w_db w') \<and>
    rows_have materials_table ''secret_key'' ws key [(''ciphertext'', Text ct)] (w_db w') \<and>
    (\<exists>m \<in> set (w_db w' materials_table). keyed_row ws ''secret_key'' key m)"
proof -
  let ?ws = "trim_space ws" and ?key = "trim_space key"
  from run obtain w1 kind stamp w2 fp ref ct p w3 found w4 w5 w6 n w7 where
      scope: "requireAllDataScope (ev_scope E) ?ws = None"
    and guard: "guardSubjectWrite E ws [(''secret'', [], key), (''subject'', [], actor)] w = (Inr (), w1)"
    and now: "ownerNow E w1 = (Inr stamp, w2)" and new': "new_material E ?ws ?key (sin_Value input) = Inr (fp, ref, ct)"
    and p: "scoped_key E ?ws ''secret_key'' ?key w2 = (Inr p, w3)"
    and sel: "select_row E secrets_table p w3 = (Inr found, w4)"
    and w5: "w_db w5 = w_db w4"
    and mat: "upsertSecretMaterial E ?ws ?key ct stamp w5 = (Inr (), w6)"
    and store: "store_secret E ?ws ?key kind actor input
           (if ref = [] then (case found of None \<Rightarrow> [] | Some r \<Rightarrow> text_of (r ''fingerprint'')) else fp)
           (if ref = [] then (case found of None \<Rightarrow> [] | Some r \<Rightarrow> text_of (r ''value_ref'')) else ref) stamp p found w6 = (Inr n, w7)"
    and get: "getSecret E ?ws ?key w7 = (Inr s, w')"
    using new by (auto simp: upsert_secret_def seq_Inr requireAll_Inr requiredOwnerValue_def Let_def scan_texts_def case_Inr ret_Inr
        split: if_splits)
  have ws: "trim_space ?ws = ?ws" "trim_space ?key = ?key" by simp_all
  have same: "keyed_row ?ws c ?key = keyed_row ws c key" for c by (simp add: keyed_row_def fun_eq_iff)
  have holds_p: "holds d r p = keyed_row ?ws ''secret_key'' ?key r" for d r using scoped_key_holds [OF _ p] scope by simp
  from new new' obtain c where c: "ev_Cipher E = Some c" "ci_Encrypt c ?ws ?key (sin_Value input) = Inr ct"
    and fp: "fp = ev_sha256 E (sin_Value input)" "ref = ''material:'' @ ?key"
    by (auto simp: new_material_def split: option.splits sum.splits)
  note material = upsertSecretMaterial_have [OF assms(1) mat ws]
  have found: "found = (case select_rows secrets_table p (w_db w6) of [] \<Rightarrow> None | r # _ \<Rightarrow> Some r)"
    using select_row_Inr [OF assms(1) sel] w5 material by (simp add: select_rows_def holds_p)
  note stored = store_secret_have [OF assms(1) store holds_p found]
  have got: "sec_Key s = ?key" "w_db w' = w_db w7" using getSecret_key [OF assms(1) _ get] scope by simp_all
  have "row_fenced (w_db w7) materials_table = row_fenced (w_db w6) materials_table"
    using stored by (simp add: fun_eq_iff row_fenced_def)
  then have "rows_have materials_table ''secret_key'' ?ws ?key [(''ciphertext'', Text ct)] (w_db w7)"
    using material stored by (simp add: rows_have_def all_rows_def)
  with c scope got material stored fp show ?thesis by (simp add: material_columns_def rows_have_def same)
qed


lemma rotate_transition:
  assumes "alone E" and run: "transition_secret E ws key ''rotate'' w = (Inr s, w')"
    and kept: "rows_have secrets_table ''secret_key'' ws key cs (w_db w)"
    and cs: "fst ` set cs \<inter> {''updated_at'', ''status'', ''rotated_at''} = {}"
  shows "\<exists>r \<in> set (w_db w' secrets_table). keyed_row ws ''secret_key'' key r \<and> r ''status'' = Text ''active'' \<and>
    r ''updated_at'' \<noteq> Null \<and> list_all (\<lambda>(c, v). r c = v) cs"
    and "\<forall>t. t \<noteq> secrets_table \<longrightarrow> w_db w' t = w_db w t"
proof -
  let ?cs = "\<lambda>stamp. [(''updated_at'', Text stamp), (''status'', Text ''active''), (''rotated_at'', Text stamp)]"
  have "trim_space ''rotate'' = ''rotate''" by code_simp
  with run obtain s0 w1 stamp w2 p w3 n w4 where scope: "requireAllDataScope (ev_scope E) (trim_space ws) = None"
    and get: "getSecret E ws key w = (Inr s0, w1)" "getSecret E ws key w4 = (Inr s, w')"
    and now: "ownerNow E w1 = (Inr stamp, w2)" and p: "scoped_key E ws ''secret_key'' key w2 = (Inr p, w3)"
    and upd: "guarded_update E secrets_table (?cs stamp) p w3 = (Inr n, w4)" and n: "n \<noteq> 0"
    by (auto simp: transition_secret_def seq_Inr requireAll_Inr secret_transition_def)
  have "w_db w3 = w_db w"
    using getSecret_key [OF assms(1) scope get(1)] now scoped_key_holds [OF scope p] by (simp add: ownerNow_def op_Inr now_Inr)
  moreover have w': "w_db w' = w_db w4" using getSecret_key [OF assms(1) scope get(2)] by simp
  ultimately have upd: "update_rows secrets_table (set_columns (?cs stamp)) (And [subjectRowWriteAllowed secrets_table, p]) (w_db w) = (Inr n, w_db w')"
    using guarded_update_Inr [OF assms(1) upd] by simp
  from update_rows_hit [OF this n] obtain r where r: "r \<in> set (w_db w secrets_table)"
      "holds (w_db w) r (And [subjectRowWriteAllowed secrets_table, p])" "set_columns (?cs stamp) r \<in> set (w_db w' secrets_table)"
    by blast
  have keyed: "keyed_row ws ''secret_key'' key r" "\<not> row_fenced (w_db w) secrets_table r"
    using r(2) scoped_key_holds [OF scope p] by (simp_all add: where_simps)
  with kept r(1) have "list_all (\<lambda>(c, v). r c = v) cs" by (simp add: rows_have_def all_rows_def)
  then have "list_all (\<lambda>(c, v). set_columns (?cs stamp) r c = v) cs"
    using cs by (auto simp: list_all_iff disjoint_iff rev_image_eqI)
  with r(3) keyed(1) show "\<exists>r \<in> set (w_db w' secrets_table). keyed_row ws ''secret_key'' key r \<and> r ''status'' = Text ''active'' \<and>
    r ''updated_at'' \<noteq> Null \<and> list_all (\<lambda>(c, v). r c = v) cs"
    by (intro bexI [of _ "set_columns (?cs stamp) r"]) (auto simp: keyed_row_def)
  show "\<forall>t. t \<noteq> secrets_table \<longrightarrow> w_db w' t = w_db w t" using update_rows_other [OF upd] by blast
qed

text \<open>The environment without faults and other processes.\<close>

definition undisturbed :: "env \<Rightarrow> env" where
  "undisturbed E = (solo E)\<lparr>ev_fault := (\<lambda>n. Fine)\<rparr>"

lemma undisturbed_calm [simp]: "calm (undisturbed E)"
  by (simp add: undisturbed_def calm_def alone_def solo_def)

lemma undisturbed_simps [simp]: "ev_Cipher (undisturbed E) = ev_Cipher E" "ev_clock (undisturbed E) = ev_clock E"
  by (simp_all add: undisturbed_def)

lemma keyed_first:
  assumes "keyed d t" and "r \<in> set (d t)" "holds d r p" and "ks \<in> set (unique_keys t)"
    and "\<And>q. holds d q p \<Longrightarrow> same_key q r ks"
  shows "\<exists>rs. select_rows t p d = r # rs"
proof -
  have "r \<in> set (select_rows t p d)" using assms(2,3) by simp
  then obtain q rs where q: "select_rows t p d = q # rs" by (cases "select_rows t p d") auto
  have "q \<in> set (select_rows t p d)" unfolding q by simp
  then have "q = r" using assms by (intro keyed_rows [OF assms(1) _ assms(2) _ assms(4)]) simp_all
  with q show ?thesis by simp
qed

lemma resolve_material:
  assumes "calm E" and "trim_space key = key" and keyed: "keyed (w_db w) secrets_table" "keyed (w_db w) materials_table"
    and r: "r \<in> set (w_db w secrets_table)" "keyed_row ws ''secret_key'' key r" "r ''status'' = Text ''active''" "r ''updated_at'' \<noteq> Null"
      "r ''value_ref'' = Text (''material:'' @ key)" "r ''fingerprint'' = Text fp" "r ''expires_at'' = Text expiry"
    and unexpired: "expiry = [] \<or> (\<exists>e. parse_rfc3339 expiry = Some e \<and> (\<forall>n. ev_clock E n < e))"
    and m: "m \<in> set (w_db w materials_table)" "keyed_row ws ''secret_key'' key m" "m ''ciphertext'' = Text ct"
    and c: "ev_Cipher E = Some c" "ci_Decrypt c (trim_space ws) key ct = Inr v"
  shows "\<exists>ver u. resolveReferenceSnapshot E (trim_space ws) (''secret:'' @ key) w = (Inr (v, Some ver), u) \<and> ver_Fingerprint ver = fp"
proof -
  have keys: "[''workspace_id'', ''secret_key''] \<in> set (unique_keys secrets_table)" "[''workspace_id'', ''secret_key''] \<in> set (unique_keys materials_table)"
    by (simp_all add: unique_keys_def secrets_table_def materials_table_def)
  have where': "holds d q (secret_where (trim_space ws) key) = keyed_row ws ''secret_key'' key q" for d q
    using secret_where_holds [of "trim_space ws" key] assms(2) by (simp add: keyed_row_def)
  obtain rs ms where rs: "select_rows secrets_table (secret_where (trim_space ws) key) (w_db w) = r # rs"
    and ms: "select_rows materials_table (secret_where (trim_space ws) key) (w_db w) = m # ms"
    using keyed_first [OF keyed(1) r(1) _ keys(1), of "secret_where (trim_space ws) key"]
      keyed_first [OF keyed(2) m(1) _ keys(2), of "secret_where (trim_space ws) key"] r(2) m(2)
    by (auto simp: where' same_key_def keyed_row_def)
  have "trim_space (trim_prefix (''secret:'' @ key) ''secret:'') = key" using assms(2) by (subst trim_prefix_append) simp
  moreover have "has_prefix (''secret:'' @ key) ''secret:''" "\<not> has_prefix (''secret:'' @ key) ''env:''"
    "has_prefix (''material:'' @ key) ''material:''" "\<not> has_prefix (''material:'' @ key) ''env:''" by simp_all
  ultimately show ?thesis
    using unexpired r(3-) m(3) c
    by (auto simp: resolveReferenceSnapshot_def Let_def row_or_error_def run_steps assms(1) rs ms)
qed


text \<open>
  C31. A rotation that returns without an error, whatever other processes and storage did meanwhile, took effect
  as a whole: the reference to the secret resolves to the new value, in the version with the new fingerprint
  (where the cipher decrypts what it encrypted, the expiry is not past, and the material is not fenced by an erasure).
\<close>

theorem rotated_secret_resolves:
  assumes run: "RotateSecret E ws key actor input w = (Inr s, w')" and new: "sin_Value input \<noteq> []"
    and cipher: "\<And>c ct. ev_Cipher E = Some c \<Longrightarrow> ci_Encrypt c (trim_space ws) (trim_space key) (sin_Value input) = Inr ct \<Longrightarrow>
      ci_Decrypt c (trim_space ws) (trim_space key) ct = Inr (sin_Value input)"
    and keyed: "keyed (w_db w') secrets_table" "keyed (w_db w') materials_table"
    and free: "\<And>m. m \<in> set (w_db w' materials_table) \<Longrightarrow> keyed_row ws ''secret_key'' key m \<Longrightarrow>
      \<not> row_fenced (w_db w') materials_table m"
    and expiry: "sin_ExpiresAt input = [] \<or> (\<exists>e. parse_rfc3339 (sin_ExpiresAt input) = Some e \<and> (\<forall>n. ev_clock E n < e))"
  shows "\<exists>ver u. resolveReferenceSnapshot (undisturbed E) (trim_space ws) (''secret:'' @ trim_space key) w' =
      (Inr (sin_Value input, Some ver), u) \<and> ver_Fingerprint ver = ev_sha256 E (sin_Value input)"
proof -
  let ?key = "trim_space key"
  let ?body = "\<lambda>E. seq (upsert_secret E ws key actor input) (\<lambda>s. transition_secret E ws (sec_Key s) ''rotate'')"
  from run have "transaction E (?body E) w = (Inr s, w')"
    by (simp add: RotateSecret_def managed_def seq_Inr requireAll_Inr)
  moreover have "agree (?body E) (?body (solo E))" by (intro agree_seq agree_upsert_secret agree_transition_secret)
  ultimately obtain u v where "?body (solo E) u = (Inr s, v)" and v: "w_db w' = w_db v" by (rule transaction_returns)
  then obtain s0 u1 where up: "upsert_secret (solo E) ws key actor input u = (Inr s0, u1)"
    and rotate: "transition_secret (solo E) ws (sec_Key s0) ''rotate'' u1 = (Inr s, v)" by (auto simp: seq_Inr)
  from upsert_secret_have [OF solo_alone up new] obtain c ct m where c: "ev_Cipher E = Some c"
      "ci_Encrypt c (trim_space ws) ?key (sin_Value input) = Inr ct" and s0: "sec_Key s0 = ?key"
    and secrets: "rows_have secrets_table ''secret_key'' ws key (material_columns E ?key input) (w_db u1)"
    and materials: "rows_have materials_table ''secret_key'' ws key [(''ciphertext'', Text ct)] (w_db u1)"
    and m: "m \<in> set (w_db u1 materials_table)" "keyed_row ws ''secret_key'' key m"
    by (auto simp: material_columns_def)
  have same: "keyed_row ws c ?key = keyed_row ws c key" for c by (simp add: keyed_row_def fun_eq_iff)
  have kept: "rows_have secrets_table ''secret_key'' ws ?key (material_columns E ?key input) (w_db u1)"
    using secrets by (simp add: rows_have_def same)
  from rotate_transition [OF solo_alone rotate [unfolded s0] kept] obtain r where r: "r \<in> set (w_db v secrets_table)"
      "keyed_row ws ''secret_key'' key r" "r ''status'' = Text ''active''" "r ''updated_at'' \<noteq> Null"
      "list_all (\<lambda>(c, v). r c = v) (material_columns E ?key input)"
    and other: "\<And>t. t \<noteq> secrets_table \<Longrightarrow> w_db v t = w_db u1 t"
    by (auto simp: material_columns_def same)
  have "w_db w' materials_table = w_db u1 materials_table" "w_db w' fences = w_db u1 fences" by (simp_all add: v other)
  with free [of m] m materials have ct: "m \<in> set (w_db w' materials_table)" "m ''ciphertext'' = Text ct"
    by (simp_all add: rows_have_def all_rows_def row_fenced_def)
  show ?thesis
    by (rule resolve_material [where E = "undisturbed E" and w = w' and r = r and m = m and c = c and ct = ct
          and expiry = "sin_ExpiresAt input", OF undisturbed_calm trim_space_idem keyed])
      (use r ct m expiry c cipher [OF c] v same in \<open>simp_all add: material_columns_def\<close>)
qed

section \<open>A first secret\<close>

definition first_secret :: SecretInput where
  "first_secret = \<lparr>sin_Kind = ''token'', sin_Value = ''v1'', sin_Description = [], sin_ExpiresAt = []\<rparr>"

lemma first_trims [simp]:
  "trim_space ''w1'' = ''w1''" "trim_space ''k'' = ''k''" "trim_space ''token'' = ''token''"
  "trim_space ''rotate'' = ''rotate''" "trim_space ''u1'' = ''u1''"
  by code_simp+

lemma calm_cipher [simp]: "ev_Cipher calm_env = Some \<lparr>ci_Encrypt = (\<lambda>ws k s. Inr s), ci_Decrypt = (\<lambda>ws k s. Inr s)\<rparr>"
  by (simp add: calm_env_def)

lemmas run_management =
  run_steps Let_def managed_def requireAll_def requireAllDataScope_def requiredOwnerValue_def scoped_key_def scopedWhere_def
  ownerNow_def wrapped_def scopeOwner_def

lemmas run_secrets =
  run_management new_material_def upsertSecretMaterial_def store_secret_def getSecret_def scanSecret_def secret_where_def
  secret_transition_def

text \<open>The rows after the upsert, and the secret after the transition.\<close>

definition first_stamp :: string where "first_stamp = format_rfc3339nano 63934444800000000000"

definition first_material :: row where
  "first_material = row_of
    [(''id'', Text (ownerID calm_env ''secret_material_'' ''w1'' ''k'')), (''workspace_id'', Text ''w1''), (''secret_key'', Text ''k''),
     (''ciphertext'', Text ''v1''), (''created_at'', Text first_stamp), (''updated_at'', Text first_stamp)]"

definition first_row :: "sql \<Rightarrow> row" where
  "first_row rotated = row_of
    [(''id'', Text (ownerID calm_env ''secret_'' ''w1'' ''k'')), (''secret_key'', Text ''k''), (''workspace_id'', Text ''w1''),
     (''kind'', Text ''token''), (''status'', Text ''active''), (''description'', Text []), (''value_ref'', Text ''material:k''),
     (''fingerprint'', Text ''v1''), (''created_by'', Text ''u1''), (''created_at'', Text first_stamp), (''updated_at'', Text first_stamp),
     (''disabled_at'', Text []), (''expires_at'', Text []), (''rotated_at'', rotated), (''revoked_at'', Text []),
     (''last_tested_at'', Text []), (''last_test_status'', Text []), (''last_test_error'', Text [])]"

definition first_db :: "sql \<Rightarrow> database" where
  "first_db rotated = (\<lambda>_. [])(materials_table := [first_material], secrets_table := [first_row rotated])"

lemma first_upsert:
  "\<exists>s. upsert_secret calm_env ''w1'' ''k'' ''u1'' first_secret \<lparr>w_db = \<lambda>_. [], w_calls = [], w_step = n, w_tx = True\<rparr> =
    (Inr s, \<lparr>w_db = first_db (Text []), w_calls = [], w_step = n + 7, w_tx = True\<rparr>) \<and> sec_Key s = ''k''"
  by (simp add: upsert_secret_def first_secret_def run_secrets select_rows_def where_simps conflicts_def
      first_db_def first_material_def first_row_def first_stamp_def)

lemma first_row_columns: "set_columns [(''updated_at'', Text first_stamp), (''status'', Text ''active''), (''rotated_at'', Text first_stamp)]
    (first_row v) = first_row (Text first_stamp)"
  by (simp add: first_row_def fun_eq_iff)

lemma first_transition:
  "\<exists>s. transition_secret calm_env ''w1'' ''k'' ''rotate'' \<lparr>w_db = first_db (Text []), w_calls = [], w_step = n, w_tx = True\<rparr> =
    (Inr s, \<lparr>w_db = first_db (Text first_stamp), w_calls = [], w_step = n + 3, w_tx = True\<rparr>)"
proof -
  have [simp]: "first_row v ''workspace_id'' = Text ''w1''" "first_row v ''secret_key'' = Text ''k''" "first_row v ''kind'' = Text ''token''"
    "first_row v ''status'' = Text ''active''" "first_row v ''created_at'' = Text first_stamp" "first_row v ''updated_at'' = Text first_stamp" for v
    by (simp_all add: first_row_def)
  have [simp]: "\<not> row_fenced d t r" if "d fences = []" for d t r using that by (simp add: row_fenced_def)
  show ?thesis
    by (simp add: transition_secret_def run_secrets select_rows_def where_simps update_rows_def first_db_def first_row_columns
        first_stamp_def [symmetric] fun_upd_twist del: set_columns.simps)
qed


lemma first_rotation:
  "\<exists>s w'. RotateSecret calm_env ''w1'' ''k'' ''u1'' first_secret (world_of (\<lambda>_. [])) = (Inr s, w') \<and> w_db w' = first_db (Text first_stamp)"
proof -
  obtain s where up: "upsert_secret calm_env ''w1'' ''k'' ''u1'' first_secret \<lparr>w_db = \<lambda>_. [], w_calls = [], w_step = 1, w_tx = True\<rparr> =
    (Inr s, \<lparr>w_db = first_db (Text []), w_calls = [], w_step = 1 + 7, w_tx = True\<rparr>)" and s: "sec_Key s = ''k''"
    using first_upsert [of 1] by blast
  obtain s' where "transition_secret calm_env ''w1'' ''k'' ''rotate'' \<lparr>w_db = first_db (Text []), w_calls = [], w_step = 1 + 7, w_tx = True\<rparr> =
    (Inr s', \<lparr>w_db = first_db (Text first_stamp), w_calls = [], w_step = 1 + 7 + 3, w_tx = True\<rparr>)"
    using first_transition [of "1 + 7"] by blast
  with up s show ?thesis
    by (simp add: RotateSecret_def run_management world_of_def)
qed

theorem rotated_secret_resolves_witness:
  "\<exists>ver u w'. w_db w' = first_db (Text first_stamp) \<and>
    resolveReferenceSnapshot (undisturbed calm_env) ''w1'' ''secret:k'' w' = (Inr (''v1'', Some ver), u) \<and> ver_Fingerprint ver = ''v1''"
proof -
  obtain s w' where run: "RotateSecret calm_env ''w1'' ''k'' ''u1'' first_secret (world_of (\<lambda>_. [])) = (Inr s, w')"
    and w': "w_db w' = first_db (Text first_stamp)" using first_rotation by blast
  have "keyed (w_db w') secrets_table" "keyed (w_db w') materials_table" "\<not> row_fenced (w_db w') materials_table m" for m
    by (simp_all add: w' first_db_def keyed_def row_fenced_def)
  moreover have "ci_Decrypt c (trim_space ''w1'') (trim_space ''k'') ct = Inr (sin_Value first_secret)"
    if "ev_Cipher calm_env = Some c" "ci_Encrypt c (trim_space ''w1'') (trim_space ''k'') (sin_Value first_secret) = Inr ct" for c ct
    using that by auto
  moreover have "sin_Value first_secret = ''v1''" "sin_ExpiresAt first_secret = []" by (simp_all add: first_secret_def)
  ultimately have "\<exists>ver u. resolveReferenceSnapshot (undisturbed calm_env) (trim_space ''w1'') (''secret:'' @ trim_space ''k'') w' =
      (Inr (''v1'', Some ver), u) \<and> ver_Fingerprint ver = ev_sha256 calm_env ''v1''"
    using rotated_secret_resolves [OF run] by simp
  with w' show ?thesis by auto
qed

section \<open>A fence that a space evades\<close>

text \<open>
  The fences are looked up for the actor as given, the trimmed actor is stored: after the erasure of a subject,
  a write with a space before its id is accepted and names the erased subject as the creator.
\<close>

definition subject_fence :: row where
  "subject_fence = row_of
    [(''id'', Text ''f1''), (''workspace_id'', Text ''w1''), (''kind'', Text ''subject''), (''object_key'', Text []),
     (''resource_id'', Text ''u1'')]"

definition erased_db :: database where
  "erased_db = (\<lambda>_. [])(fences := [subject_fence])"

definition empty_secret :: SecretInput where
  "empty_secret = \<lparr>sin_Kind = ''token'', sin_Value = [], sin_Description = [], sin_ExpiresAt = []\<rparr>"

theorem padded_actor_evades_fence:
  "fst (UpsertSecret calm_env ''w1'' ''k'' ''u1'' empty_secret (world_of erased_db)) = Inl (Errorf ''integration.subject_erased'' []) \<and>
   (\<exists>s w'. UpsertSecret calm_env ''w1'' ''k'' '' u1'' empty_secret (world_of erased_db) = (Inr s, w') \<and> sec_CreatedBy s = ''u1'')"
proof -
  have [simp]: "trim_space '' u1'' = ''u1''" by code_simp
  have fence: "is_fence subject_fence ws k g i \<longleftrightarrow> ws = ''w1'' \<and> k = ''subject'' \<and> g = [] \<and> i = ''u1''" for ws k g i
    by (auto simp: subject_fence_def is_fence_def)
  have fence_rows: "erased_db fences = [subject_fence]" by (simp add: erased_db_def)
  have empty: "erased_db secrets_table = []" by (simp add: erased_db_def)
  show ?thesis
    by (simp add: UpsertSecret_def upsert_secret_def empty_secret_def run_secrets select_rows_def where_simps conflicts_def world_of_def
        guard_predicate_iff fence fence_rows empty)
qed

end
