(* ===== verification/ManagedKeys.thy ===== *)
theory ManagedKeys
  imports ManagedSecrets SubjectErasure
begin

text \<open>
  The API keys, \<open>management_api_key_store.go\<close>: a key is created with a token that is returned once, of
  which the row keeps the digest and a prefix, and is disabled or given a new token. The lemmas on the rows of
  one key (\<open>ManagedSecrets.thy\<close>) carry over to the other resources of the owner.
\<close>

section \<open>Reading API keys\<close>

record APIKey =
  ak_Key :: string
  ak_WorkspaceID :: string
  ak_Name :: string
  ak_TokenPrefix :: string
  ak_ActorID :: string
  ak_RoleKey :: string
  ak_Scopes :: "string list"
  ak_Status :: string
  ak_ExpiresAt :: string
  ak_LastUsedAt :: string
  ak_CreatedBy :: string
  ak_CreatedAt :: string
  ak_UpdatedAt :: string
  ak_DisabledAt :: string

definition scanAPIKey :: "row \<Rightarrow> APIKey dbop" where
  "scanAPIKey r =
    seq (scan_texts r [''api_key'', ''workspace_id'', ''token_prefix'', ''actor_id'', ''role_key'', ''scopes_json'', ''status'',
           ''created_at'', ''updated_at'']) (\<lambda>_.
    case decode_string_list (doc_of (r ''scopes_json'')) of
      None \<Rightarrow> throw (Errorf ''decode Integration API key scopes: %w'' [])
    | Some scopes \<Rightarrow>
        ret \<lparr>ak_Key = text_of (r ''api_key''), ak_WorkspaceID = text_of (r ''workspace_id''), ak_Name = text_of (r ''name''),
             ak_TokenPrefix = text_of (r ''token_prefix''), ak_ActorID = text_of (r ''actor_id''),
             ak_RoleKey = text_of (r ''role_key''), ak_Scopes = scopes, ak_Status = text_of (r ''status''),
             ak_ExpiresAt = text_of (r ''expires_at''), ak_LastUsedAt = text_of (r ''last_used_at''),
             ak_CreatedBy = text_of (r ''created_by''), ak_CreatedAt = text_of (r ''created_at''),
             ak_UpdatedAt = text_of (r ''updated_at''), ak_DisabledAt = text_of (r ''disabled_at'')\<rparr>)"

definition ListAPIKeys :: "env \<Rightarrow> string \<Rightarrow> APIKey list dbop" where
  "ListAPIKeys E workspaceID =
    seq (of_result (requiredOwnerValue ''workspace ID'' workspaceID)) (\<lambda>workspaceID.
    seq (of_result (scopedWhere (ev_scope E) workspaceID [] [] [])) (\<lambda>p.
    seq (wrapped ''list Integration API keys: %w'' (select E api_keys_table p)) (\<lambda>rs.
    each scanAPIKey (ascending ''api_key'' rs))))"

definition getAPIKey :: "env \<Rightarrow> string \<Rightarrow> string \<Rightarrow> APIKey dbop" where
  "getAPIKey E workspaceID key =
    seq (scoped_key E workspaceID ''api_key'' key) (\<lambda>p.
    seq (select_row E api_keys_table p) (\<lambda>found. case found of
      None \<Rightarrow> throw (Errorf ''Integration API key %q was not found'' [key])
    | Some r \<Rightarrow> scanAPIKey r))"

section \<open>Tokens\<close>

definition randomOwnerToken :: "env \<Rightarrow> string \<Rightarrow> string dbop" where
  "randomOwnerToken E prefix = seq (at_step (ev_Random E)) (\<lambda>t. ret (prefix @ t))"

text \<open>The key, the token and the digest of the token; a key that is not given is named after the digest.\<close>

definition newAPIKeyCredential :: "env \<Rightarrow> string \<Rightarrow> (string \<times> string \<times> string) dbop" where
  "newAPIKeyCredential E inputKey =
    seq (randomOwnerToken E ''itg_'') (\<lambda>token.
    let digest = ev_sha256 E token; key = trim_space inputKey in
    ret (if key = [] then ''key_'' @ take 16 digest else key, token, digest))"

record APIKeyInput =
  aki_Key :: string
  aki_Name :: string
  aki_ActorID :: string
  aki_RoleKey :: string
  aki_Scopes :: "string list"
  aki_ExpiresAt :: string

record APIKeyCredential =
  kc_APIKey :: APIKey
  kc_Token :: string

definition list_json :: "string list \<Rightarrow> sql" where
  "list_json ts = Doc (marshal (JArr (map JStr ts)))"

lemma decode_list_json [simp]: "decode_string_list (doc_of (list_json ts)) = Some ts"
  by (simp add: decode_string_list_def list_json_def marshal_def)

lemma list_json_not_null [simp]: "list_json ts \<noteq> Null"
  by (simp add: list_json_def)

section \<open>Mutations\<close>

definition create_api_key :: "env \<Rightarrow> string \<Rightarrow> string \<Rightarrow> APIKeyInput \<Rightarrow> APIKeyCredential dbop" where
  "create_api_key E workspaceID actorID input =
    seq (requireAll E workspaceID) (\<lambda>_.
    seq (guardSubjectWrite E workspaceID [(''subject'', [], aki_ActorID input)]) (\<lambda>_.
    seq (of_result (requiredOwnerValue ''workspace ID'' workspaceID)) (\<lambda>workspaceID.
    seq (of_result (requiredOwnerValue ''API key actor ID'' (aki_ActorID input))) (\<lambda>keyActor.
    seq (of_result (requiredOwnerValue ''API key role key'' (aki_RoleKey input))) (\<lambda>roleKey.
    seq (newAPIKeyCredential E (aki_Key input)) (\<lambda>(key, token, tokenHash).
    seq (ownerNow E) (\<lambda>stamp.
    seq (wrapped ''create Integration API key: %w'' (insert_into E api_keys_table
      [(''id'', Text (ownerID E ''api_key_'' workspaceID key)), (''api_key'', Text key), (''workspace_id'', Text workspaceID),
       (''name'', Text (aki_Name input)), (''token_prefix'', Text (take 12 token)), (''token_hash'', Text tokenHash),
       (''actor_id'', Text keyActor), (''role_key'', Text roleKey), (''scopes_json'', list_json (aki_Scopes input)),
       (''status'', Text ''active''), (''expires_at'', Text (aki_ExpiresAt input)), (''last_used_at'', Text []),
       (''created_by'', Text (fst (scopeOwner (ev_scope E) actorID))), (''created_at'', Text stamp), (''updated_at'', Text stamp),
       (''disabled_at'', Text [])])) (\<lambda>_.
    seq (getAPIKey E workspaceID key) (\<lambda>v.
    ret \<lparr>kc_APIKey = v, kc_Token = token\<rparr>)))))))))"

definition CreateAPIKey :: "env \<Rightarrow> string \<Rightarrow> string \<Rightarrow> APIKeyInput \<Rightarrow> APIKeyCredential dbop" where
  "CreateAPIKey E workspaceID actorID input = managed E workspaceID (create_api_key E workspaceID actorID input)"

definition disable_api_key :: "env \<Rightarrow> string \<Rightarrow> string \<Rightarrow> APIKey dbop" where
  "disable_api_key E workspaceID key =
    seq (requireAll E workspaceID) (\<lambda>_.
    seq (getAPIKey E workspaceID key) (\<lambda>_.
    seq (ownerNow E) (\<lambda>stamp.
    seq (scoped_key E workspaceID ''api_key'' key) (\<lambda>p.
    seq (guarded_update E api_keys_table
           [(''status'', Text ''disabled''), (''disabled_at'', Text stamp), (''updated_at'', Text stamp)] p) (\<lambda>n.
    seq (check (n \<noteq> 0) (Errorf ''Integration API key %q was not found'' [key])) (\<lambda>_.
    getAPIKey E workspaceID key))))))"

definition DisableAPIKey :: "env \<Rightarrow> string \<Rightarrow> string \<Rightarrow> APIKey dbop" where
  "DisableAPIKey E workspaceID key = managed E workspaceID (disable_api_key E workspaceID key)"

text \<open>The number of rows that the update changed is not looked at.\<close>

definition rotate_api_key :: "env \<Rightarrow> string \<Rightarrow> string \<Rightarrow> APIKeyCredential dbop" where
  "rotate_api_key E workspaceID key =
    seq (requireAll E workspaceID) (\<lambda>_.
    seq (getAPIKey E workspaceID key) (\<lambda>current.
    seq (newAPIKeyCredential E key) (\<lambda>(_, token, tokenHash).
    seq (ownerNow E) (\<lambda>stamp.
    seq (scoped_key E workspaceID ''api_key'' key) (\<lambda>p.
    seq (guarded_update E api_keys_table
           [(''token_prefix'', Text (take 12 token)), (''token_hash'', Text tokenHash), (''status'', Text ''active''),
            (''disabled_at'', Text []), (''updated_at'', Text stamp)] p) (\<lambda>_.
    ret \<lparr>kc_APIKey = current\<lparr>ak_TokenPrefix := take 12 token, ak_Status := ''active'', ak_DisabledAt := [], ak_UpdatedAt := stamp\<rparr>,
         kc_Token = token\<rparr>))))))"

definition RotateAPIKey :: "env \<Rightarrow> string \<Rightarrow> string \<Rightarrow> APIKeyCredential dbop" where
  "RotateAPIKey E workspaceID key = managed E workspaceID (rotate_api_key E workspaceID key)"

section \<open>Inside a transaction\<close>

lemma agree_getAPIKey: "agree (getAPIKey E ws k) (getAPIKey (solo E) ws k)"
  unfolding getAPIKey_def scanAPIKey_def solo_scoped by (intro agree_managed)

lemma agree_newAPIKeyCredential: "agree (newAPIKeyCredential E k) (newAPIKeyCredential (solo E) k)"
  unfolding newAPIKeyCredential_def randomOwnerToken_def Let_def solo_simps by (intro agree_managed)

lemmas agree_keys = agree_managed agree_getAPIKey agree_newAPIKeyCredential

lemma agree_create_api_key: "agree (create_api_key E ws a input) (create_api_key (solo E) ws a input)"
  unfolding create_api_key_def solo_scoped solo_ownerID solo_simps by (intro agree_keys)

lemma agree_disable_api_key: "agree (disable_api_key E ws k) (disable_api_key (solo E) ws k)"
  unfolding disable_api_key_def solo_scoped by (intro agree_keys)

lemma agree_rotate_api_key: "agree (rotate_api_key E ws k) (rotate_api_key (solo E) ws k)"
  unfolding rotate_api_key_def solo_scoped by (intro agree_keys)

lemma managed_Inr:
  assumes "managed E ws body w = (Inr x, w')" and "agree body body'"
  obtains u v where "w_db u = w_db (before_step E w)" "w_calls u = w_calls w" "body' u = (Inr x, v)"
    "w_db w' = w_db v" "w_calls w' = w_calls v"
proof -
  from assms(1) have "transaction E body w = (Inr x, w')" by (simp add: managed_def seq_Inr requireAll_Inr)
  with assms(2) that show ?thesis by (blast elim: transaction_returns)
qed

section \<open>The rows of one key after an update\<close>

lemma scoped_update_have:
  assumes "alone E" and scope: "requireAllDataScope (ev_scope E) (trim_space ws) = None"
    and p: "scoped_key E ws c key w = (Inr p, w1)" and upd: "guarded_update E t cs p w2 = (Inr n, w3)"
    and "t \<noteq> fences" "keeps_identity cs" "distinct (map fst cs)" "c \<notin> fst ` set cs"
  shows "rows_have t c ws key cs (w_db w3)"
    and "n \<noteq> 0 \<Longrightarrow> \<exists>r \<in> set (w_db w3 t). keyed_row ws c key r \<and> \<not> row_fenced (w_db w3) t r \<and> list_all (\<lambda>(c, v). r c = v) cs"
    and "\<forall>u. u \<noteq> t \<longrightarrow> w_db w3 u = w_db w2 u"
proof -
  have holds_p: "holds d r p = keyed_row ws c key r" for d r using scoped_key_holds [OF scope p] by simp
  note upd = guarded_update_Inr [OF assms(1) upd]
  then have rows: "update_rows t (set_columns cs) (And [subjectRowWriteAllowed t, p]) (w_db w2) = (Inr n, w_db w3)" by simp
  show "rows_have t c ws key cs (w_db w3)" by (rule update_rows_have [OF rows assms(5-8) holds_p])
  show "\<forall>u. u \<noteq> t \<longrightarrow> w_db w3 u = w_db w2 u" using update_rows_other [OF rows] by blast
  assume "n \<noteq> 0"
  from update_rows_hit [OF rows this] obtain r where r: "holds (w_db w2) r (And [subjectRowWriteAllowed t, p])"
      "set_columns cs r \<in> set (w_db w3 t)" by blast
  have "keyed_row ws c key (set_columns cs r)"
    using r(1) set_columns_identity [OF assms(6), of r] set_columns_other [OF assms(8), of r]
    by (simp add: where_simps holds_p keyed_row_def)
  moreover have "\<not> row_fenced (w_db w3) t (set_columns cs r)"
    using r(1) row_fenced_update [OF rows assms(5,6)] by (simp add: where_simps)
  moreover have "list_all (\<lambda>(c, v). set_columns cs r c = v) cs"
    using set_columns_get [OF assms(7)] by (auto simp: list_all_iff)
  ultimately show "\<exists>r \<in> set (w_db w3 t). keyed_row ws c key r \<and> \<not> row_fenced (w_db w3) t r \<and> list_all (\<lambda>(c, v). r c = v) cs"
    using r(2) by blast
qed

section \<open>Tokens and their digests\<close>

text \<open>The columns by which a token is recognized.\<close>

definition token_columns :: "env \<Rightarrow> string \<Rightarrow> (string \<times> sql) list" where
  "token_columns E token = [(''token_prefix'', Text (take 12 token)), (''token_hash'', Text (ev_sha256 E token)), (''status'', Text ''active'')]"

lemma api_keys_not_fences [simp]: "api_keys_table \<noteq> fences" "fences \<noteq> api_keys_table"
  by (simp_all add: api_keys_table_def fences_def)

lemma api_key_unique: "[''workspace_id'', ''api_key''] \<in> set (unique_keys api_keys_table)"
  by (simp add: unique_keys_def api_keys_table_def)

lemma insert_Inr_free:
  assumes "insert_row t cs d = (Inr n, d')" and "q \<in> set (d t)" "ks \<in> set (unique_keys t)"
  shows "\<not> same_key (row_of cs) q ks"
  using assms by (auto simp: insert_row_def Let_def conflicts_def split: if_splits)

text \<open>Digests are hexadecimal: a key named after one has no space around it.\<close>

definition digests_trimmed :: "env \<Rightarrow> bool" where
  "digests_trimmed E \<longleftrightarrow> (\<forall>s. trim_space (''key_'' @ take 16 (ev_sha256 E s)) = ''key_'' @ take 16 (ev_sha256 E s))"

lemma newAPIKeyCredential_Inr:
  "digests_trimmed E \<Longrightarrow> newAPIKeyCredential E k w = (Inr (key, token, digest), w') \<Longrightarrow>
    digest = ev_sha256 E token \<and> w_db w' = w_db w \<and> trim_space key = key"
  by (auto simp: newAPIKeyCredential_def randomOwnerToken_def Let_def op_Inr at_step_def digests_trimmed_def simp del: append.simps split: if_splits)

lemma getAPIKey_Inr:
  assumes "alone E" and "requireAllDataScope (ev_scope E) (trim_space ws) = None" and "getAPIKey E ws key w = (Inr k, w')"
  shows "ak_Key k = trim_space key \<and> w_db w' = w_db w \<and> (\<exists>r \<in> set (w_db w api_keys_table). keyed_row ws ''api_key'' key r)"
proof -
  from assms(3) obtain p w1 r where p: "scoped_key E ws ''api_key'' key w = (Inr p, w)"
    and sel: "select_row E api_keys_table p w = (Inr (Some r), w1)" and scan: "scanAPIKey r w1 = (Inr k, w')"
    using scoped_key_holds [OF assms(2)] by (fastforce simp: getAPIKey_def seq_Inr case_Inr throw_Inr)
  have "r \<in> set (w_db w api_keys_table) \<and> keyed_row ws ''api_key'' key r"
    using select_row_Inr [OF assms(1) sel] scoped_key_holds [OF assms(2) p]
    by (auto simp: select_rows_def dest!: sym [of "Some r"] split: list.splits dest: filter_eq_ConsD)
  moreover have "ak_Key k = text_of (r ''api_key'')" "w' = w1"
    using scan by (auto simp: scanAPIKey_def op_Inr scan_texts_def split: option.splits)
  ultimately show ?thesis using select_row_Inr [OF assms(1) sel] by (auto simp: keyed_row_def)
qed

lemma create_api_key_db:
  assumes "alone E" "digests_trimmed E" and run: "create_api_key E ws actor input w = (Inr c, w')"
  shows "rows_have api_keys_table ''api_key'' ws (ak_Key (kc_APIKey c)) (token_columns E (kc_Token c)) (w_db w') \<and>
    (\<exists>r \<in> set (w_db w' api_keys_table). keyed_row ws ''api_key'' (ak_Key (kc_APIKey c)) r \<and> list_all (\<lambda>(c, v). r c = v) (token_columns E (kc_Token c)))"
proof -
  let ?ws = "trim_space ws"
  from run obtain w1 key token digest w2 stamp w3 n w4 v where scope: "requireAllDataScope (ev_scope E) ?ws = None"
    and new: "newAPIKeyCredential E (aki_Key input) w1 = (Inr (key, token, digest), w2)"
    and ins: "insert_into E api_keys_table
      [(''id'', Text (ownerID E ''api_key_'' ?ws key)), (''api_key'', Text key), (''workspace_id'', Text ?ws),
       (''name'', Text (aki_Name input)), (''token_prefix'', Text (take 12 token)), (''token_hash'', Text digest),
       (''actor_id'', Text (trim_space (aki_ActorID input))), (''role_key'', Text (trim_space (aki_RoleKey input))),
       (''scopes_json'', list_json (aki_Scopes input)), (''status'', Text ''active''), (''expires_at'', Text (aki_ExpiresAt input)),
       (''last_used_at'', Text []), (''created_by'', Text (fst (scopeOwner (ev_scope E) actor))), (''created_at'', Text stamp),
       (''updated_at'', Text stamp), (''disabled_at'', Text [])] w3 = (Inr n, w4)"
    and get: "getAPIKey E ?ws key w4 = (Inr v, w')" and c: "c = \<lparr>kc_APIKey = v, kc_Token = token\<rparr>"
    by (auto simp: create_api_key_def seq_Inr requireAll_Inr requiredOwnerValue_def ret_Inr wrapped_Inr split: if_splits)
  define cs where "cs = [(''id'', Text (ownerID E ''api_key_'' ?ws key)), (''api_key'', Text key), (''workspace_id'', Text ?ws),
       (''name'', Text (aki_Name input)), (''token_prefix'', Text (take 12 token)), (''token_hash'', Text digest),
       (''actor_id'', Text (trim_space (aki_ActorID input))), (''role_key'', Text (trim_space (aki_RoleKey input))),
       (''scopes_json'', list_json (aki_Scopes input)), (''status'', Text ''active''), (''expires_at'', Text (aki_ExpiresAt input)),
       (''last_used_at'', Text []), (''created_by'', Text (fst (scopeOwner (ev_scope E) actor))), (''created_at'', Text stamp),
       (''updated_at'', Text stamp), (''disabled_at'', Text [])]"
  have row: "insert_row api_keys_table cs (w_db w3) = (Inr n, w_db w4)"
    using insert_into_Inr [OF assms(1) ins] by (simp add: cs_def)
  have got: "ak_Key v = trim_space key" "w_db w' = w_db w4" "\<exists>r \<in> set (w_db w4 api_keys_table). keyed_row ?ws ''api_key'' key r"
    using getAPIKey_Inr [OF assms(1) _ get] scope by simp_all
  have key: "digest = ev_sha256 E token" "trim_space key = key" using newAPIKeyCredential_Inr [OF assms(2) new] by simp_all
  have new_row: "keyed_row ws ''api_key'' key (row_of cs)" "list_all (\<lambda>(c, v). row_of cs c = v) (token_columns E token)"
    by (simp_all add: keyed_row_def cs_def key token_columns_def)
  have "\<not> keyed_row ws ''api_key'' key q" if "q \<in> set (w_db w3 api_keys_table)" for q
    using insert_Inr_free [OF row that api_key_unique] new_row(1) by (auto simp: same_key_def keyed_row_def)
  from insert_rows_have [OF row this new_row(2)] new_row insert_row_db [OF row]
  show ?thesis by (simp add: c got key)
qed

text \<open>
  A created API key is stored, active, with the digest of the token that is returned for it: the token that
  the caller holds is the one that the row recognizes.
\<close>

theorem created_key_recognizes_token:
  assumes "digests_trimmed E" and "CreateAPIKey E ws actor input w = (Inr c, w')"
  shows "\<exists>r \<in> set (w_db w' api_keys_table). keyed_row ws ''api_key'' (ak_Key (kc_APIKey c)) r \<and>
      r ''token_hash'' = Text (ev_sha256 E (kc_Token c)) \<and> r ''token_prefix'' = Text (take 12 (kc_Token c)) \<and> r ''status'' = Text ''active''"
proof -
  from assms(2) obtain u v where run: "create_api_key (solo E) ws actor input u = (Inr c, v)" and v: "w_db w' = w_db v"
    unfolding CreateAPIKey_def by (rule managed_Inr [OF _ agree_create_api_key])
  have "digests_trimmed (solo E)" using assms(1) by (simp add: digests_trimmed_def)
  from create_api_key_db [OF solo_alone this run] show ?thesis by (auto simp: v token_columns_def)
qed

text \<open>
  A rotated key recognizes the new token only, unless an erasure has fenced its row: then nothing is stored
  and the returned token is recognized by no row.
\<close>

theorem rotated_key_recognizes_token:
  assumes "digests_trimmed E" and "RotateAPIKey E ws key w = (Inr c, w')"
  shows "rows_have api_keys_table ''api_key'' ws key (token_columns E (kc_Token c)) (w_db w')"
proof -
  from assms(2) obtain u v where run: "rotate_api_key (solo E) ws key u = (Inr c, v)" and v: "w_db w' = w_db v"
    unfolding RotateAPIKey_def by (rule managed_Inr [OF _ agree_rotate_api_key])
  have plain: "digests_trimmed (solo E)" using assms(1) by (simp add: digests_trimmed_def)
  from run obtain w1 k token digest w2 stamp w3 p n w4 where scope: "requireAllDataScope (ev_scope E) (trim_space ws) = None"
    and new: "newAPIKeyCredential (solo E) key w1 = (Inr (k, token, digest), w2)"
    and p: "scoped_key (solo E) ws ''api_key'' key w3 = (Inr p, w4)"
    and upd: "guarded_update (solo E) api_keys_table
           [(''token_prefix'', Text (take 12 token)), (''token_hash'', Text digest), (''status'', Text ''active''),
            (''disabled_at'', Text []), (''updated_at'', Text stamp)] p w4 = (Inr n, v)"
    and c: "kc_Token c = token"
    by (auto simp: rotate_api_key_def seq_Inr requireAll_Inr ret_Inr)
  have "digest = ev_sha256 E token" using newAPIKeyCredential_Inr [OF plain new] by simp
  moreover have "requireAllDataScope (ev_scope (solo E)) (trim_space ws) = None" using scope by simp
  from scoped_update_have(1) [OF solo_alone this p upd]
  have "rows_have api_keys_table ''api_key'' ws key
      [(''token_prefix'', Text (take 12 token)), (''token_hash'', Text digest), (''status'', Text ''active''),
       (''disabled_at'', Text []), (''updated_at'', Text stamp)] (w_db v)"
    by (simp add: keeps_identity_def)
  ultimately show ?thesis by (auto simp: v c token_columns_def rows_have_def all_rows_def)
qed

text \<open>A disabled key: no row of it that an update can reach is active.\<close>

theorem disabled_key_inactive:
  assumes "DisableAPIKey E ws key w = (Inr k, w')" and "keyed (w_db w') api_keys_table"
  shows "all_rows api_keys_table (\<lambda>r. keyed_row ws ''api_key'' key r \<longrightarrow> r ''status'' = Text ''disabled'') (w_db w')"
proof -
  from assms(1) obtain u v where run: "disable_api_key (solo E) ws key u = (Inr k, v)" and v: "w_db w' = w_db v"
    unfolding DisableAPIKey_def by (rule managed_Inr [OF _ agree_disable_api_key])
  from run obtain stamp w1 p w2 n w3 where scope: "requireAllDataScope (ev_scope (solo E)) (trim_space ws) = None"
    and p: "scoped_key (solo E) ws ''api_key'' key w1 = (Inr p, w2)"
    and upd: "guarded_update (solo E) api_keys_table
           [(''status'', Text ''disabled''), (''disabled_at'', Text stamp), (''updated_at'', Text stamp)] p w2 = (Inr n, w3)"
    and n: "n \<noteq> 0" and get: "getAPIKey (solo E) ws key w3 = (Inr k, v)"
    by (auto simp: disable_api_key_def seq_Inr requireAll_Inr)
  have "w_db v = w_db w3" using getAPIKey_Inr [OF solo_alone scope get] by simp
  moreover have "\<exists>r \<in> set (w_db w3 api_keys_table). keyed_row ws ''api_key'' key r \<and> \<not> row_fenced (w_db w3) api_keys_table r \<and>
      list_all (\<lambda>(c, v). r c = v) [(''status'', Text ''disabled''), (''disabled_at'', Text stamp), (''updated_at'', Text stamp)]"
    by (rule scoped_update_have(2) [OF solo_alone scope p upd _ _ _ _ n]) (simp_all add: keeps_identity_def)
  ultimately obtain r where
      r: "r \<in> set (w_db w' api_keys_table)" "keyed_row ws ''api_key'' key r" "r ''status'' = Text ''disabled''"
    unfolding v by auto
  have "q = r" if q: "q \<in> set (w_db w' api_keys_table)" "keyed_row ws ''api_key'' key q" for q
  proof -
    have "same_key q r [''workspace_id'', ''api_key'']" using q(2) r(2) by (simp add: same_key_def keyed_row_def)
    from keyed_rows [OF assms(2) q(1) r(1) this api_key_unique] show ?thesis .
  qed
  with r(3) show ?thesis unfolding all_rows_def by blast
qed

section \<open>Examples\<close>

lemmas run_keys = run_management create_api_key_def rotate_api_key_def disable_api_key_def getAPIKey_def scanAPIKey_def
  newAPIKeyCredential_def randomOwnerToken_def at_step_def

lemma calm_random: "ev_Random calm_env n = Inr (''0123456789012345678901234567890123456789t'' @ nat_text n)"
  by (simp add: calm_env_def)

text \<open>A digest with two values.\<close>

definition key_env :: env where
  "key_env = calm_env\<lparr>ev_sha256 := (\<lambda>s. if has_prefix s ''itg_0'' then ''5f'' else ''0a'')\<rparr>"

lemma key_env_calm [simp]: "calm key_env"
  by (simp add: key_env_def calm_def alone_def)

lemma key_env_simps [simp]:
  "ev_scope key_env = None" "ev_clock key_env n = 63934444800000000000" "ev_Random key_env n = ev_Random calm_env n"
  "ev_sha256 key_env (''itg_0'' @ s) = ''5f''" "ev_sha256 key_env (CHR ''i'' # CHR ''t'' # CHR ''g'' # CHR ''_'' # CHR ''0'' # s) = ''5f''"
  by (simp_all add: key_env_def)

lemma key_env_digests: "digests_trimmed key_env"
proof -
  have "trim_space ''key_5f'' = ''key_5f''" "trim_space ''key_0a'' = ''key_0a''" by code_simp+
  then show ?thesis by (simp add: digests_trimmed_def key_env_def)
qed

definition new_key :: APIKeyInput where
  "new_key = \<lparr>aki_Key = [], aki_Name = ''K'', aki_ActorID = ''u1'', aki_RoleKey = ''r'', aki_Scopes = [''read''], aki_ExpiresAt = []\<rparr>"

lemma trimmed_examples: "trim_space ''w1'' = ''w1''" "trim_space ''k'' = ''k''" "trim_space ''u1'' = ''u1''" "trim_space ''r'' = ''r''"
  "trim_space ''key_5f'' = ''key_5f''" "trim_space [] = []"
  by code_simp+

lemma new_key_created: "\<exists>c w'. CreateAPIKey key_env ''w1'' ''u1'' new_key (world_of (\<lambda>_. [])) = (Inr c, w')"
  by (simp add: CreateAPIKey_def run_keys new_key_def world_of_def trimmed_examples select_rows_def where_simps conflicts_def calm_random)

theorem created_key_recognizes_token_witness:
  "\<exists>c w' r. CreateAPIKey key_env ''w1'' ''u1'' new_key (world_of (\<lambda>_. [])) = (Inr c, w') \<and> r \<in> set (w_db w' api_keys_table) \<and>
    r ''token_hash'' = Text (ev_sha256 key_env (kc_Token c))"
  using new_key_created created_key_recognizes_token [OF key_env_digests] by blast

text \<open>The row of the key, with a status and a token, and the same row under a fence.\<close>

definition key_db :: "row list \<Rightarrow> database" where
  "key_db fs = (\<lambda>_. [])
    (api_keys_table := [row_of
       [(''id'', Text ''k1''), (''api_key'', Text ''k''), (''workspace_id'', Text ''w1''), (''name'', Text ''K''), (''token_prefix'', Text ''itg_old''),
        (''token_hash'', Text ''0a''), (''actor_id'', Text ''u1''), (''role_key'', Text ''r''), (''scopes_json'', list_json []),
        (''status'', Text ''disabled''), (''expires_at'', Text []), (''last_used_at'', Text []), (''created_by'', Text ''u1''),
        (''created_at'', Text ''t''), (''updated_at'', Text ''t''), (''disabled_at'', Text ''t'')]],
     fences := fs)"

definition key_fence :: row where
  "key_fence = row_of [(''workspace_id'', Text ''w1''), (''kind'', Text ''row''), (''object_key'', Text api_keys_table), (''resource_id'', Text ''k1'')]"

lemma key_rotated:
  "\<exists>c w'. RotateAPIKey key_env ''w1'' ''k'' (world_of (key_db [])) = (Inr c, w')"
  "\<exists>c w'. RotateAPIKey key_env ''w1'' ''k'' (world_of (key_db [key_fence])) = (Inr c, w') \<and> ev_sha256 key_env (kc_Token c) = ''5f'' \<and> w_db w' = key_db [key_fence]"
  by (simp_all add: RotateAPIKey_def run_keys key_db_def key_fence_def world_of_def trimmed_examples select_rows_def where_simps calm_random
      update_rows_def row_fenced_def fun_eq_iff)

theorem rotated_key_recognizes_token_witness:
  "\<exists>c w'. RotateAPIKey key_env ''w1'' ''k'' (world_of (key_db [])) = (Inr c, w') \<and>
    rows_have api_keys_table ''api_key'' ''w1'' ''k'' (token_columns key_env (kc_Token c)) (w_db w')"
  using key_rotated(1) rotated_key_recognizes_token [OF key_env_digests] by blast

text \<open>A rotation of a key that an erasure has fenced returns a token that no row recognizes.\<close>

theorem fenced_rotation_unrecognized:
  "\<exists>c w'. RotateAPIKey key_env ''w1'' ''k'' (world_of (key_db [key_fence])) = (Inr c, w') \<and>
    all_rows api_keys_table (\<lambda>r. r ''token_hash'' \<noteq> Text (ev_sha256 key_env (kc_Token c))) (w_db w')"
proof -
  have "all_rows api_keys_table (\<lambda>r. r ''token_hash'' \<noteq> Text ''5f'') (key_db [key_fence])"
    by (simp add: all_rows_def key_db_def)
  with key_rotated(2) show ?thesis by auto
qed

lemma key_disabled:
  "\<exists>k w'. DisableAPIKey key_env ''w1'' ''k'' (world_of (key_db [])) = (Inr k, w') \<and> keyed (w_db w') api_keys_table"
  by (simp add: DisableAPIKey_def run_keys key_db_def world_of_def trimmed_examples select_rows_def where_simps
      update_rows_def row_fenced_def keyed_def)

theorem disabled_key_inactive_witness:
  "\<exists>k w'. DisableAPIKey key_env ''w1'' ''k'' (world_of (key_db [])) = (Inr k, w') \<and>
    all_rows api_keys_table (\<lambda>r. keyed_row ''w1'' ''api_key'' ''k'' r \<longrightarrow> r ''status'' = Text ''disabled'') (w_db w')"
  using key_disabled disabled_key_inactive by blast

end
