(* ===== verification/ManagedIdentities.thy ===== *)
theory ManagedIdentities
  imports ManagedKeys Inbound
begin

text \<open>
  The external identities, \<open>management_identity_store.go\<close>.
  The lemmas show that an identity is resolved only while it is active.
\<close>

section \<open>External identities\<close>

record ExternalIdentity =
  xi_Key :: string
  xi_WorkspaceID :: string
  xi_Provider :: string
  xi_ExternalSubject :: string
  xi_ExternalSubjectType :: string
  xi_ExternalName :: string
  xi_ExternalOrganization :: string
  xi_ExternalDepartment :: string
  xi_ExternalGroup :: string
  xi_ExternalBotID :: string
  xi_ActorID :: string
  xi_RoleKey :: string
  xi_Status :: string
  xi_LastResolvedAt :: string
  xi_CreatedBy :: string
  xi_CreatedAt :: string
  xi_UpdatedAt :: string
  xi_DisabledAt :: string

definition scanExternalIdentity :: "row \<Rightarrow> ExternalIdentity dbop" where
  "scanExternalIdentity r =
    seq (scan_texts r [''identity_key'', ''workspace_id'', ''provider'', ''external_subject'', ''actor_id'', ''role_key'', ''status'',
           ''created_at'', ''updated_at'']) (\<lambda>_.
    ret \<lparr>xi_Key = text_of (r ''identity_key''), xi_WorkspaceID = text_of (r ''workspace_id''), xi_Provider = text_of (r ''provider''),
         xi_ExternalSubject = text_of (r ''external_subject''), xi_ExternalSubjectType = text_of (r ''external_subject_type''),
         xi_ExternalName = text_of (r ''external_name''), xi_ExternalOrganization = text_of (r ''external_organization''),
         xi_ExternalDepartment = text_of (r ''external_department''), xi_ExternalGroup = text_of (r ''external_group''),
         xi_ExternalBotID = text_of (r ''external_bot_id''), xi_ActorID = text_of (r ''actor_id''),
         xi_RoleKey = text_of (r ''role_key''), xi_Status = text_of (r ''status''), xi_LastResolvedAt = text_of (r ''last_resolved_at''),
         xi_CreatedBy = text_of (r ''created_by''), xi_CreatedAt = text_of (r ''created_at''),
         xi_UpdatedAt = text_of (r ''updated_at''), xi_DisabledAt = text_of (r ''disabled_at'')\<rparr>)"

definition ListExternalIdentities :: "env \<Rightarrow> string \<Rightarrow> ExternalIdentity list dbop" where
  "ListExternalIdentities E workspaceID =
    seq (of_result (requiredOwnerValue ''workspace ID'' workspaceID)) (\<lambda>workspaceID.
    seq (of_result (scopedWhere (ev_scope E) workspaceID [] [] [])) (\<lambda>p.
    seq (wrapped ''list Integration external identities: %w'' (select E identities_table p)) (\<lambda>rs.
    each scanExternalIdentity (ascending ''identity_key'' rs))))"

definition getExternalIdentity :: "env \<Rightarrow> string \<Rightarrow> string \<Rightarrow> ExternalIdentity dbop" where
  "getExternalIdentity E workspaceID key =
    seq (scoped_key E workspaceID ''identity_key'' key) (\<lambda>p.
    seq (select_row E identities_table p) (\<lambda>found. case found of
      None \<Rightarrow> throw (Errorf ''Integration external identity %q was not found'' [key])
    | Some r \<Rightarrow> scanExternalIdentity r))"

record ExternalIdentityInput =
  xin_Provider :: string
  xin_ExternalSubject :: string
  xin_ExternalSubjectType :: string
  xin_ExternalName :: string
  xin_ExternalOrganization :: string
  xin_ExternalDepartment :: string
  xin_ExternalGroup :: string
  xin_ExternalBotID :: string
  xin_ActorID :: string
  xin_RoleKey :: string
  xin_Status :: string

text \<open>An input with its required values trimmed and its status set.\<close>

definition checked_identity :: "ExternalIdentityInput \<Rightarrow> err + ExternalIdentityInput" where
  "checked_identity input =
    (case requiredOwnerValue ''external identity provider'' (xin_Provider input) of Inl e \<Rightarrow> Inl e | Inr provider \<Rightarrow>
     case requiredOwnerValue ''external subject'' (xin_ExternalSubject input) of Inl e \<Rightarrow> Inl e | Inr subject \<Rightarrow>
     case requiredOwnerValue ''external identity actor ID'' (xin_ActorID input) of Inl e \<Rightarrow> Inl e | Inr actor \<Rightarrow>
     case requiredOwnerValue ''external identity role key'' (xin_RoleKey input) of Inl e \<Rightarrow> Inl e | Inr role \<Rightarrow>
       Inr (input\<lparr>xin_Provider := provider, xin_ExternalSubject := subject, xin_ActorID := actor, xin_RoleKey := role,
         xin_Status := (if blank (xin_Status input) then ''active'' else xin_Status input)\<rparr>))"

definition identity_columns :: "ExternalIdentityInput \<Rightarrow> (string \<times> sql) list" where
  "identity_columns i =
    [(''provider'', Text (xin_Provider i)), (''external_subject'', Text (xin_ExternalSubject i)),
     (''external_subject_type'', Text (xin_ExternalSubjectType i)), (''external_name'', Text (xin_ExternalName i)),
     (''external_organization'', Text (xin_ExternalOrganization i)), (''external_department'', Text (xin_ExternalDepartment i)),
     (''external_group'', Text (xin_ExternalGroup i)), (''external_bot_id'', Text (xin_ExternalBotID i)),
     (''actor_id'', Text (xin_ActorID i)), (''role_key'', Text (xin_RoleKey i)), (''status'', Text (xin_Status i))]"

definition upsert_external_identity :: "env \<Rightarrow> string \<Rightarrow> string \<Rightarrow> string \<Rightarrow> ExternalIdentityInput \<Rightarrow> ExternalIdentity dbop" where
  "upsert_external_identity E workspaceID key actorID input =
    seq (requireAll E workspaceID) (\<lambda>_.
    seq (guardSubjectWrite E workspaceID
           [(''subject'', [], xin_ActorID input),
            (''external'', trim_space (xin_Provider input), ev_sha256 E (trim_space (xin_ExternalSubject input)))]) (\<lambda>_.
    seq (of_result (requiredOwnerValue ''workspace ID'' workspaceID)) (\<lambda>workspaceID.
    seq (of_result (requiredOwnerValue ''external identity key'' key)) (\<lambda>key.
    seq (of_result (checked_identity input)) (\<lambda>input.
    seq (ownerNow E) (\<lambda>stamp.
    seq (scoped_key E workspaceID ''identity_key'' key) (\<lambda>p.
    seq (select_row E identities_table p) (\<lambda>found.
    seq (case found of
           None \<Rightarrow>
             wrapped ''insert Integration external identity: %w'' (insert_into E identities_table
               ([(''id'', Text (ownerID E ''external_identity_'' workspaceID key)), (''identity_key'', Text key),
                 (''workspace_id'', Text workspaceID)] @ identity_columns input @
                [(''last_resolved_at'', Text []), (''created_by'', Text (fst (scopeOwner (ev_scope E) actorID))),
                 (''created_at'', Text stamp), (''updated_at'', Text stamp), (''disabled_at'', Text [])]))
         | Some r \<Rightarrow>
             seq (scan_texts r [''id'']) (\<lambda>_.
             wrapped ''update Integration external identity: %w'' (guarded_update E identities_table
               (identity_columns input @ [(''disabled_at'', Text []), (''updated_at'', Text stamp)]) p))) (\<lambda>_.
    getExternalIdentity E workspaceID key)))))))))"

definition UpsertExternalIdentity :: "env \<Rightarrow> string \<Rightarrow> string \<Rightarrow> string \<Rightarrow> ExternalIdentityInput \<Rightarrow> ExternalIdentity dbop" where
  "UpsertExternalIdentity E workspaceID key actorID input =
    managed E workspaceID (upsert_external_identity E workspaceID key actorID input)"

definition disable_external_identity :: "env \<Rightarrow> string \<Rightarrow> string \<Rightarrow> ExternalIdentity dbop" where
  "disable_external_identity E workspaceID key =
    seq (requireAll E workspaceID) (\<lambda>_.
    seq (getExternalIdentity E workspaceID key) (\<lambda>_.
    seq (ownerNow E) (\<lambda>stamp.
    seq (scoped_key E workspaceID ''identity_key'' key) (\<lambda>p.
    seq (guarded_update E identities_table
           [(''status'', Text ''disabled''), (''disabled_at'', Text stamp), (''updated_at'', Text stamp)] p) (\<lambda>n.
    seq (check (n \<noteq> 0) (Errorf ''Integration external identity %q was not found'' [key])) (\<lambda>_.
    getExternalIdentity E workspaceID key))))))"

definition DisableExternalIdentity :: "env \<Rightarrow> string \<Rightarrow> string \<Rightarrow> ExternalIdentity dbop" where
  "DisableExternalIdentity E workspaceID key = managed E workspaceID (disable_external_identity E workspaceID key)"

definition resolve_external_identity :: "env \<Rightarrow> string \<Rightarrow> string \<Rightarrow> string \<Rightarrow> ExternalIdentity dbop" where
  "resolve_external_identity E workspaceID provider externalSubject =
    seq (requireAll E workspaceID) (\<lambda>_.
    seq (of_result (scopedWhere (ev_scope E) (trim_space workspaceID) [] []
           [Equal ''provider'' (Text (trim_space provider)), Equal ''external_subject'' (Text (trim_space externalSubject)),
            Equal ''status'' (Text ''active'')])) (\<lambda>p.
    seq (select_row E identities_table p) (\<lambda>found. case found of
      None \<Rightarrow> throw (Errorf ''Integration external identity was not found'' [])
    | Some r \<Rightarrow>
        seq (scanExternalIdentity r) (\<lambda>v.
        seq (ownerNow E) (\<lambda>stamp.
        seq (of_result (scopedWhere (ev_scope E) (trim_space workspaceID) [] [] [Equal ''identity_key'' (Text (xi_Key v))])) (\<lambda>q.
        seq (guarded_update E identities_table [(''last_resolved_at'', Text stamp), (''updated_at'', Text stamp)] q) (\<lambda>_.
        ret (v\<lparr>xi_LastResolvedAt := stamp, xi_UpdatedAt := stamp\<rparr>))))))))"

definition ResolveExternalIdentity :: "env \<Rightarrow> string \<Rightarrow> string \<Rightarrow> string \<Rightarrow> ExternalIdentity dbop" where
  "ResolveExternalIdentity E workspaceID provider externalSubject =
    managed E workspaceID (resolve_external_identity E workspaceID provider externalSubject)"

section \<open>Only active identities are resolved\<close>

lemma agree_getExternalIdentity: "agree (getExternalIdentity E ws k) (getExternalIdentity (solo E) ws k)"
  unfolding getExternalIdentity_def scanExternalIdentity_def solo_scoped by (intro agree_managed)

lemma agree_upsert_external_identity:
  "agree (upsert_external_identity E ws k a input) (upsert_external_identity (solo E) ws k a input)"
  unfolding upsert_external_identity_def solo_scoped solo_ownerID solo_simps by (intro agree_managed agree_getExternalIdentity)

lemma agree_disable_external_identity: "agree (disable_external_identity E ws k) (disable_external_identity (solo E) ws k)"
  unfolding disable_external_identity_def solo_scoped by (intro agree_managed agree_getExternalIdentity)

lemma agree_resolve_external_identity:
  "agree (resolve_external_identity E ws p s) (resolve_external_identity (solo E) ws p s)"
  unfolding resolve_external_identity_def scanExternalIdentity_def solo_scoped solo_simps by (intro agree_managed)

lemma scoped_get:
  assumes "alone E" and "requireAllDataScope (ev_scope E) (trim_space ws) = None"
    and p: "scoped_key E ws c key w = (Inr p, w1)" and sel: "select_row E t p w1 = (Inr (Some r), w2)"
  shows "r \<in> set (w_db w t) \<and> keyed_row ws c key r \<and> w_db w2 = w_db w"
  using select_row_Inr [OF assms(1) sel] scoped_key_holds [OF assms(2) p]
  by (auto simp: select_rows_def dest!: sym [of "Some r"] split: list.splits dest: filter_eq_ConsD)

text \<open>The identity that a row holds.\<close>

definition holds_identity :: "row \<Rightarrow> ExternalIdentity \<Rightarrow> bool" where
  "holds_identity r i \<longleftrightarrow> r ''identity_key'' = Text (xi_Key i) \<and> r ''provider'' = Text (xi_Provider i) \<and>
    r ''external_subject'' = Text (xi_ExternalSubject i) \<and> r ''status'' = Text (xi_Status i)"

definition identity_row :: "row \<Rightarrow> bool" where
  "identity_row r \<longleftrightarrow> (\<forall>c \<in> {''workspace_id'', ''identity_key'', ''provider'', ''external_subject'', ''status''}. \<exists>s. r c = Text s)"

lemma scan_identity:
  "scanExternalIdentity r w = (Inr i, w') \<Longrightarrow> identity_row r \<Longrightarrow> holds_identity r i \<and> w' = w"
  by (auto simp: scanExternalIdentity_def op_Inr scan_texts_def holds_identity_def identity_row_def text_of_def)

lemma getExternalIdentity_Inr:
  assumes "alone E" and "requireAllDataScope (ev_scope E) (trim_space ws) = None"
    and "getExternalIdentity E ws key w = (Inr i, w')" and rows: "all_rows identities_table identity_row (w_db w)"
  shows "w_db w' = w_db w \<and> (\<exists>r \<in> set (w_db w identities_table). keyed_row ws ''identity_key'' key r \<and> holds_identity r i)"
proof -
  from assms(3) obtain p w1 r w2 where p: "scoped_key E ws ''identity_key'' key w = (Inr p, w1)"
    and sel: "select_row E identities_table p w1 = (Inr (Some r), w2)" and scan: "scanExternalIdentity r w2 = (Inr i, w')"
    by (auto simp: getExternalIdentity_def seq_Inr case_Inr throw_Inr)
  note r = scoped_get [OF assms(1,2) p sel]
  with scan_identity [OF scan] rows show ?thesis by (auto simp: all_rows_def)
qed

lemma getExternalIdentity_db:
  "alone E \<Longrightarrow> requireAllDataScope (ev_scope E) (trim_space ws) = None \<Longrightarrow> getExternalIdentity E ws key w = (Inr i, w') \<Longrightarrow> w_db w' = w_db w"
  by (auto simp: getExternalIdentity_def scanExternalIdentity_def seq_Inr case_Inr throw_Inr ret_Inr scan_texts_def check_Inr dest: scoped_get)

lemma identities_not_fences [simp]: "identities_table \<noteq> fences" "fences \<noteq> identities_table"
  by (simp_all add: identities_table_def fences_def)

lemma identity_keys: "[''workspace_id'', ''identity_key''] \<in> set (unique_keys identities_table)"
    "[''workspace_id'', ''provider'', ''external_subject''] \<in> set (unique_keys identities_table)"
  by (simp_all add: unique_keys_def identities_table_def)

lemma disable_external_identity_db:
  assumes "alone E" and run: "disable_external_identity E ws key w = (Inr i, w')"
    and "keyed (w_db w') identities_table" "all_rows identities_table identity_row (w_db w')"
  shows "\<exists>r \<in> set (w_db w' identities_table). keyed_row ws ''identity_key'' key r \<and> holds_identity r i \<and> xi_Status i = ''disabled''"
proof -
  from run obtain stamp w1 p w2 n w3 where scope: "requireAllDataScope (ev_scope E) (trim_space ws) = None"
    and p: "scoped_key E ws ''identity_key'' key w1 = (Inr p, w2)"
    and upd: "guarded_update E identities_table
           [(''status'', Text ''disabled''), (''disabled_at'', Text stamp), (''updated_at'', Text stamp)] p w2 = (Inr n, w3)"
    and n: "n \<noteq> 0" and get: "getExternalIdentity E ws key w3 = (Inr i, w')"
    by (auto simp: disable_external_identity_def seq_Inr requireAll_Inr)
  have same: "w_db w' = w_db w3" by (rule getExternalIdentity_db [OF assms(1) scope get])
  with getExternalIdentity_Inr [OF assms(1) scope get] assms(4) obtain q where
      q: "q \<in> set (w_db w' identities_table)" "keyed_row ws ''identity_key'' key q" "holds_identity q i" by auto
  have "\<exists>r \<in> set (w_db w3 identities_table). keyed_row ws ''identity_key'' key r \<and> \<not> row_fenced (w_db w3) identities_table r \<and>
      list_all (\<lambda>(c, v). r c = v) [(''status'', Text ''disabled''), (''disabled_at'', Text stamp), (''updated_at'', Text stamp)]"
    by (rule scoped_update_have(2) [OF assms(1) scope p upd _ _ _ _ n]) (simp_all add: keeps_identity_def)
  then obtain r where r: "r \<in> set (w_db w' identities_table)" "keyed_row ws ''identity_key'' key r" "r ''status'' = Text ''disabled''"
    unfolding same by auto
  have "same_key q r [''workspace_id'', ''identity_key'']" using q(2) r(2) by (simp add: same_key_def keyed_row_def)
  from keyed_rows [OF assms(3) q(1) r(1) this identity_keys(1)] q r(3) show ?thesis by (auto simp: holds_identity_def)
qed

text \<open>What the two ways to resolve an identity find.\<close>

lemma inbound_resolved:
  assumes "alone E" and "resolveExternalIdentity E ws provider subject w = (Inr (Some x), w')"
  shows "\<exists>r \<in> set (w_db w identities_table). r ''workspace_id'' = Text ws \<and> r ''provider'' = Text provider \<and>
    r ''external_subject'' = Text subject \<and> r ''status'' = Text ''active''"
proof -
  let ?p = "And [Equal ''workspace_id'' (Text ws), Equal ''provider'' (Text provider),
            Equal ''external_subject'' (Text subject), Equal ''status'' (Text ''active'')]"
  from assms(2) obtain r w1 where sel: "select_row E identities_table ?p w = (Inr (Some r), w1)"
    by (auto simp: resolveExternalIdentity_def seq_Inr try_op_Inr case_Inr ret_Inr split: sum.splits option.splits)
  from select_row_Inr [OF assms(1) this] show ?thesis
    by (auto simp: select_rows_def where_simps dest!: sym [of "Some r"] filter_eq_ConsD split: list.splits)
qed

lemma managed_resolved:
  assumes "alone E" and run: "resolve_external_identity E ws provider subject w = (Inr j, w')"
    and rows: "all_rows identities_table identity_row (w_db w)"
  shows "\<exists>r \<in> set (w_db w identities_table). keyed_row ws ''provider'' provider r \<and> r ''external_subject'' = Text (trim_space subject) \<and>
    r ''identity_key'' = Text (xi_Key j) \<and> r ''status'' = Text ''active''"
proof -
  from run obtain p r w1 v w2 stamp where scope: "requireAllDataScope (ev_scope E) (trim_space ws) = None"
    and p: "scopedWhere (ev_scope E) (trim_space ws) [] [] [Equal ''provider'' (Text (trim_space provider)),
      Equal ''external_subject'' (Text (trim_space subject)), Equal ''status'' (Text ''active'')] = Inr p"
    and sel: "select_row E identities_table p w = (Inr (Some r), w1)"
    and scan: "scanExternalIdentity r w1 = (Inr v, w2)" and j: "xi_Key j = xi_Key v"
    by (auto simp: resolve_external_identity_def seq_Inr requireAll_Inr case_Inr throw_Inr ret_Inr)
  have "r \<in> set (w_db w identities_table)" "holds (w_db w) r p"
    using select_row_Inr [OF assms(1) sel] by (auto simp: select_rows_def dest!: sym [of "Some r"] filter_eq_ConsD split: list.splits)
  moreover from this have "r ''workspace_id'' = Text (trim_space ws) \<and> r ''provider'' = Text (trim_space provider) \<and>
      r ''external_subject'' = Text (trim_space subject) \<and> r ''status'' = Text ''active''"
    using p by (cases "ev_scope E") (auto simp: scopedWhere_holds_None scopedWhere_holds where_simps)
  moreover have "holds_identity r v" using scan_identity [OF scan] rows calculation(1) by (simp add: all_rows_def)
  ultimately show ?thesis by (auto simp: keyed_row_def j holds_identity_def)
qed

text \<open>
  An identity whose disabling returned without an error, whatever other processes and storage did, is resolved
  no more: the runtime's triggers find no actor for its provider and subject, and the owner's resolution
  never answers with its key.
\<close>

theorem disabled_identity_unresolved:
  assumes run: "DisableExternalIdentity E ws key w = (Inr i, w')"
    and keyed: "keyed (w_db w') identities_table" and rows: "all_rows identities_table identity_row (w_db w')"
    and later: "alone E'" "w_db u = w_db w'"
  shows "fst (resolveExternalIdentity E' (trim_space ws) (xi_Provider i) (xi_ExternalSubject i) u) \<noteq> Inr (Some x) \<and>
    (\<forall>provider subject j v. ResolveExternalIdentity E' ws provider subject u = (Inr j, v) \<longrightarrow> xi_Key j \<noteq> trim_space key)"
proof -
  from run obtain u0 v where run: "disable_external_identity (solo E) ws key u0 = (Inr i, v)" and v: "w_db w' = w_db v"
    unfolding DisableExternalIdentity_def by (rule managed_Inr [OF _ agree_disable_external_identity])
  from disable_external_identity_db [OF solo_alone run] keyed rows obtain r where
      r: "r \<in> set (w_db u identities_table)" "keyed_row ws ''identity_key'' key r" "holds_identity r i" "xi_Status i = ''disabled''"
    unfolding v later(2) by auto
  have unique: "q = r" if "q \<in> set (w_db u identities_table)" "same_key q r ks" "ks \<in> set (unique_keys identities_table)" for q ks
    using keyed_rows [of "w_db u"] keyed r(1) that unfolding later(2) by blast
  show ?thesis
  proof (intro conjI allI impI notI)
    assume "fst (resolveExternalIdentity E' (trim_space ws) (xi_Provider i) (xi_ExternalSubject i) u) = Inr (Some x)"
    then have "resolveExternalIdentity E' (trim_space ws) (xi_Provider i) (xi_ExternalSubject i) u =
        (Inr (Some x), snd (resolveExternalIdentity E' (trim_space ws) (xi_Provider i) (xi_ExternalSubject i) u))"
      by (metis prod.collapse)
    from inbound_resolved [OF later(1) this] obtain q where
        q: "q \<in> set (w_db u identities_table)" "q ''workspace_id'' = Text (trim_space ws)" "q ''provider'' = Text (xi_Provider i)"
          "q ''external_subject'' = Text (xi_ExternalSubject i)" "q ''status'' = Text ''active''" by auto
    then have "same_key q r [''workspace_id'', ''provider'', ''external_subject'']"
      using r(2,3) by (simp add: same_key_def holds_identity_def keyed_row_def)
    from unique [OF q(1) this identity_keys(2)] q(5) r(3,4) show False by (simp add: holds_identity_def)
  next
    fix provider subject j v'
    assume "ResolveExternalIdentity E' ws provider subject u = (Inr j, v')" and key: "xi_Key j = trim_space key"
    then obtain u1 v1 where "w_db u1 = w_db (before_step E' u)" and "resolve_external_identity (solo E') ws provider subject u1 = (Inr j, v1)"
      unfolding ResolveExternalIdentity_def by (elim managed_Inr [OF _ agree_resolve_external_identity])
    moreover have "all_rows identities_table identity_row (w_db u1)" using rows later calculation(1) by simp
    ultimately obtain q where q: "q \<in> set (w_db u identities_table)" "keyed_row ws ''provider'' provider q"
        "q ''identity_key'' = Text (xi_Key j)" "q ''status'' = Text ''active''"
      using managed_resolved [OF solo_alone] later(1) by fastforce
    then have "same_key q r [''workspace_id'', ''identity_key'']"
      using r(2) key by (simp add: same_key_def keyed_row_def)
    from unique [OF q(1) this identity_keys(1)] q(4) r(3,4) show False by (simp add: holds_identity_def)
  qed
qed

section \<open>An example\<close>

definition identity_db :: "string \<Rightarrow> string \<Rightarrow> string \<Rightarrow> database" where
  "identity_db status disabled stamp = (\<lambda>_. [])
    (identities_table := [row_of
       [(''id'', Text ''i1''), (''identity_key'', Text ''k''), (''workspace_id'', Text ''w1''), (''provider'', Text ''p''), (''external_subject'', Text ''s''),
        (''actor_id'', Text ''u1''), (''role_key'', Text ''r''), (''status'', Text status), (''created_by'', Text ''u1''), (''created_at'', Text ''t''),
        (''updated_at'', Text stamp), (''disabled_at'', Text disabled)]])"

lemmas run_identities = run_management disable_external_identity_def getExternalIdentity_def scanExternalIdentity_def

lemma identity_disabled:
  "\<exists>i w'. DisableExternalIdentity calm_env ''w1'' ''k'' (world_of (identity_db ''active'' [] ''t'')) = (Inr i, w') \<and>
    w_db w' = identity_db ''disabled'' first_stamp first_stamp"
proof -
  have cols: "set_columns [(''status'', Text ''disabled''), (''disabled_at'', Text first_stamp), (''updated_at'', Text first_stamp)]
      (row_of [(''id'', Text ''i1''), (''identity_key'', Text ''k''), (''workspace_id'', Text ''w1''), (''provider'', Text ''p''), (''external_subject'', Text ''s''),
        (''actor_id'', Text ''u1''), (''role_key'', Text ''r''), (''status'', Text ''active''), (''created_by'', Text ''u1''), (''created_at'', Text ''t''),
        (''updated_at'', Text ''t''), (''disabled_at'', Text [])]) =
      row_of [(''id'', Text ''i1''), (''identity_key'', Text ''k''), (''workspace_id'', Text ''w1''), (''provider'', Text ''p''), (''external_subject'', Text ''s''),
        (''actor_id'', Text ''u1''), (''role_key'', Text ''r''), (''status'', Text ''disabled''), (''created_by'', Text ''u1''), (''created_at'', Text ''t''),
        (''updated_at'', Text first_stamp), (''disabled_at'', Text first_stamp)]"
    by (simp add: fun_eq_iff)
  show ?thesis
    by (simp add: DisableExternalIdentity_def run_identities identity_db_def world_of_def trimmed_examples select_rows_def where_simps
        update_rows_def row_fenced_def cols first_stamp_def [symmetric] del: set_columns.simps)
qed

theorem disabled_identity_unresolved_witness:
  "\<exists>i w'. DisableExternalIdentity calm_env ''w1'' ''k'' (world_of (identity_db ''active'' [] ''t'')) = (Inr i, w') \<and>
    fst (resolveExternalIdentity calm_env ''w1'' (xi_Provider i) (xi_ExternalSubject i) w') \<noteq> Inr (Some (''u1'', ''r''))"
proof -
  obtain i w' where run: "DisableExternalIdentity calm_env ''w1'' ''k'' (world_of (identity_db ''active'' [] ''t'')) = (Inr i, w')"
    and w': "w_db w' = identity_db ''disabled'' first_stamp first_stamp" using identity_disabled by blast
  have "keyed (w_db w') identities_table" by (simp add: w' identity_db_def keyed_def)
  moreover have "all_rows identities_table identity_row (w_db w')" by (simp add: w' identity_db_def all_rows_def identity_row_def)
  moreover have "alone calm_env" by (simp add: calm_alone)
  ultimately show ?thesis
    using run disabled_identity_unresolved [OF run, of calm_env w' "(''u1'', ''r'')"] by (auto simp: trimmed_examples)
qed

end
