(* ===== verification/ManagedWebhooks.thy ===== *)
theory ManagedWebhooks
  imports ManagedKeys
begin

text \<open>
  The webhook subscriptions, \<open>management_webhook_store.go\<close>. The lemma shows that what an upsert returns is
  what was put in, read back from the table.
\<close>

definition webhooks_table :: string where "webhooks_table = ''_integration_webhook_subscriptions''"

record WebhookSubscription =
  whs_Key :: string
  whs_WorkspaceID :: string
  whs_Name :: string
  whs_ConnectorKey :: string
  whs_ConnectionKey :: string
  whs_EventTypes :: "string list"
  whs_Status :: string
  whs_Description :: string
  whs_CreatedBy :: string
  whs_CreatedAt :: string
  whs_UpdatedAt :: string
  whs_DisabledAt :: string

definition scanWebhookSubscription :: "row \<Rightarrow> WebhookSubscription dbop" where
  "scanWebhookSubscription r =
    seq (scan_texts r [''subscription_key'', ''workspace_id'', ''connector_key'', ''connection_key'', ''event_types_json'', ''status'',
           ''created_at'', ''updated_at'']) (\<lambda>_.
    case decode_string_list (doc_of (r ''event_types_json'')) of
      None \<Rightarrow> throw (Errorf ''decode Integration webhook event types: %w'' [])
    | Some types \<Rightarrow>
        ret \<lparr>whs_Key = text_of (r ''subscription_key''), whs_WorkspaceID = text_of (r ''workspace_id''),
             whs_Name = text_of (r ''name''), whs_ConnectorKey = text_of (r ''connector_key''),
             whs_ConnectionKey = text_of (r ''connection_key''), whs_EventTypes = types, whs_Status = text_of (r ''status''),
             whs_Description = text_of (r ''description''), whs_CreatedBy = text_of (r ''created_by''),
             whs_CreatedAt = text_of (r ''created_at''), whs_UpdatedAt = text_of (r ''updated_at''),
             whs_DisabledAt = text_of (r ''disabled_at'')\<rparr>)"

definition ListWebhookSubscriptions :: "env \<Rightarrow> string \<Rightarrow> WebhookSubscription list dbop" where
  "ListWebhookSubscriptions E workspaceID =
    seq (of_result (requiredOwnerValue ''workspace ID'' workspaceID)) (\<lambda>workspaceID.
    seq (of_result (scopedWhere (ev_scope E) workspaceID [] [] [])) (\<lambda>p.
    seq (wrapped ''list Integration webhook subscriptions: %w'' (select E webhooks_table p)) (\<lambda>rs.
    each scanWebhookSubscription (ascending ''subscription_key'' rs))))"

definition getWebhookSubscription :: "env \<Rightarrow> string \<Rightarrow> string \<Rightarrow> WebhookSubscription dbop" where
  "getWebhookSubscription E workspaceID key =
    seq (scoped_key E workspaceID ''subscription_key'' key) (\<lambda>p.
    seq (select_row E webhooks_table p) (\<lambda>found. case found of
      None \<Rightarrow> throw (Errorf ''Integration webhook subscription %q was not found'' [key])
    | Some r \<Rightarrow> scanWebhookSubscription r))"

record WebhookSubscriptionInput =
  whi_Name :: string
  whi_ConnectorKey :: string
  whi_ConnectionKey :: string
  whi_EventTypes :: "string list"
  whi_Status :: string
  whi_Description :: string

definition checked_webhook :: "WebhookSubscriptionInput \<Rightarrow> err + WebhookSubscriptionInput" where
  "checked_webhook input =
    (case requiredOwnerValue ''webhook connector key'' (whi_ConnectorKey input) of Inl e \<Rightarrow> Inl e | Inr connector \<Rightarrow>
     case requiredOwnerValue ''webhook connection key'' (whi_ConnectionKey input) of Inl e \<Rightarrow> Inl e | Inr connection \<Rightarrow>
       Inr (input\<lparr>whi_ConnectorKey := connector, whi_ConnectionKey := connection,
         whi_Status := (if blank (whi_Status input) then ''active'' else whi_Status input)\<rparr>))"

definition webhook_columns :: "WebhookSubscriptionInput \<Rightarrow> (string \<times> sql) list" where
  "webhook_columns i =
    [(''name'', Text (whi_Name i)), (''connector_key'', Text (whi_ConnectorKey i)), (''connection_key'', Text (whi_ConnectionKey i)),
     (''event_types_json'', list_json (whi_EventTypes i)), (''status'', Text (whi_Status i)),
     (''description'', Text (whi_Description i))]"

text \<open>No erasure fence is looked up before the row is written.\<close>

definition upsert_webhook :: "env \<Rightarrow> string \<Rightarrow> string \<Rightarrow> string \<Rightarrow> WebhookSubscriptionInput \<Rightarrow> WebhookSubscription dbop" where
  "upsert_webhook E workspaceID key actorID input =
    seq (requireAll E workspaceID) (\<lambda>_.
    seq (of_result (requiredOwnerValue ''workspace ID'' workspaceID)) (\<lambda>workspaceID.
    seq (of_result (requiredOwnerValue ''webhook subscription key'' key)) (\<lambda>key.
    seq (of_result (checked_webhook input)) (\<lambda>input.
    seq (ownerNow E) (\<lambda>stamp.
    seq (scoped_key E workspaceID ''subscription_key'' key) (\<lambda>p.
    seq (select_row E webhooks_table p) (\<lambda>found.
    seq (case found of
           None \<Rightarrow>
             wrapped ''insert Integration webhook subscription: %w'' (insert_into E webhooks_table
               ([(''id'', Text (ownerID E ''webhook_subscription_'' workspaceID key)), (''subscription_key'', Text key),
                 (''workspace_id'', Text workspaceID)] @ webhook_columns input @
                [(''created_by'', Text (fst (scopeOwner (ev_scope E) actorID))), (''created_at'', Text stamp),
                 (''updated_at'', Text stamp), (''disabled_at'', Text [])]))
         | Some r \<Rightarrow>
             seq (scan_texts r [''id'']) (\<lambda>_.
             wrapped ''update Integration webhook subscription: %w'' (guarded_update E webhooks_table
               (webhook_columns input @ [(''disabled_at'', Text []), (''updated_at'', Text stamp)]) p))) (\<lambda>_.
    getWebhookSubscription E workspaceID key))))))))"

definition UpsertWebhookSubscription ::
    "env \<Rightarrow> string \<Rightarrow> string \<Rightarrow> string \<Rightarrow> WebhookSubscriptionInput \<Rightarrow> WebhookSubscription dbop" where
  "UpsertWebhookSubscription E workspaceID key actorID input =
    managed E workspaceID (upsert_webhook E workspaceID key actorID input)"

definition delete_webhook :: "env \<Rightarrow> string \<Rightarrow> string \<Rightarrow> unit dbop" where
  "delete_webhook E workspaceID key =
    seq (requireAll E workspaceID) (\<lambda>_.
    seq (requireScopedCandidate E webhooks_table ''subscription_key'' workspaceID key) (\<lambda>_.
    seq (scoped_key E workspaceID ''subscription_key'' key) (\<lambda>p.
    seq (wrapped ''delete Integration webhook subscription: %w'' (delete_from E webhooks_table p)) (\<lambda>n.
    check (n \<noteq> 0) (Errorf ''Integration webhook subscription %q was not found'' [key])))))"

definition DeleteWebhookSubscription :: "env \<Rightarrow> string \<Rightarrow> string \<Rightarrow> unit dbop" where
  "DeleteWebhookSubscription E workspaceID key = managed E workspaceID (delete_webhook E workspaceID key)"

definition disable_webhook :: "env \<Rightarrow> string \<Rightarrow> string \<Rightarrow> WebhookSubscription dbop" where
  "disable_webhook E workspaceID key =
    seq (requireAll E workspaceID) (\<lambda>_.
    seq (getWebhookSubscription E workspaceID key) (\<lambda>_.
    seq (ownerNow E) (\<lambda>stamp.
    seq (scoped_key E workspaceID ''subscription_key'' key) (\<lambda>p.
    seq (guarded_update E webhooks_table
           [(''status'', Text ''disabled''), (''disabled_at'', Text stamp), (''updated_at'', Text stamp)] p) (\<lambda>n.
    seq (check (n \<noteq> 0) (Errorf ''Integration webhook subscription %q was not found'' [key])) (\<lambda>_.
    getWebhookSubscription E workspaceID key))))))"

definition DisableWebhookSubscription :: "env \<Rightarrow> string \<Rightarrow> string \<Rightarrow> WebhookSubscription dbop" where
  "DisableWebhookSubscription E workspaceID key = managed E workspaceID (disable_webhook E workspaceID key)"

section \<open>What is put in is read back\<close>

lemma agree_getWebhook: "agree (getWebhookSubscription E ws k) (getWebhookSubscription (solo E) ws k)"
  unfolding getWebhookSubscription_def scanWebhookSubscription_def solo_scoped by (intro agree_managed)

lemma agree_upsert_webhook: "agree (upsert_webhook E ws k a input) (upsert_webhook (solo E) ws k a input)"
  unfolding upsert_webhook_def solo_scoped solo_ownerID solo_simps by (intro agree_managed agree_getWebhook)

lemma agree_delete_webhook: "agree (delete_webhook E ws k) (delete_webhook (solo E) ws k)"
  unfolding delete_webhook_def requireScopedCandidate_def solo_scoped by (intro agree_managed)

lemma webhooks_not_fences [simp]: "webhooks_table \<noteq> fences" "fences \<noteq> webhooks_table"
  by (simp_all add: webhooks_table_def fences_def)

definition webhook_input :: "WebhookSubscription \<Rightarrow> WebhookSubscriptionInput" where
  "webhook_input v =
    \<lparr>whi_Name = whs_Name v, whi_ConnectorKey = whs_ConnectorKey v, whi_ConnectionKey = whs_ConnectionKey v,
     whi_EventTypes = whs_EventTypes v, whi_Status = whs_Status v, whi_Description = whs_Description v\<rparr>"

lemma getWebhook_Inr:
  assumes "alone E" and "requireAllDataScope (ev_scope E) (trim_space ws) = None"
    and "getWebhookSubscription E ws key w = (Inr v, w')"
  shows "w_db w' = w_db w \<and> (\<exists>r \<in> set (w_db w webhooks_table). keyed_row ws ''subscription_key'' key r \<and>
    (\<forall>i. list_all (\<lambda>(c, v). r c = v) (webhook_columns i) \<longrightarrow> webhook_input v = i))"
proof -
  from assms(3) obtain p w1 r w2 where p: "scoped_key E ws ''subscription_key'' key w = (Inr p, w1)"
    and sel: "select_row E webhooks_table p w1 = (Inr (Some r), w2)" and scan: "scanWebhookSubscription r w2 = (Inr v, w')"
    by (auto simp: getWebhookSubscription_def seq_Inr case_Inr throw_Inr)
  have "r \<in> set (w_db w webhooks_table) \<and> keyed_row ws ''subscription_key'' key r \<and> w_db w2 = w_db w"
    using select_row_Inr [OF assms(1) sel] scoped_key_holds [OF assms(2) p]
    by (auto simp: select_rows_def dest!: sym [of "Some r"] split: list.splits dest: filter_eq_ConsD)
  moreover have "w' = w2" "list_all (\<lambda>(c, v). r c = v) (webhook_columns i) \<Longrightarrow> webhook_input v = i" for i
    using scan by (auto simp: scanWebhookSubscription_def op_Inr scan_texts_def webhook_columns_def webhook_input_def split: option.splits)
  ultimately show ?thesis by blast
qed

lemma upsert_webhook_db:
  assumes "alone E" and run: "upsert_webhook E ws key actor input w = (Inr v, w')"
  shows "\<exists>i. checked_webhook input = Inr i \<and>
    (webhook_input v = i \<or> (\<exists>r \<in> set (w_db w' webhooks_table). keyed_row ws ''subscription_key'' key r \<and> row_fenced (w_db w') webhooks_table r))"
proof -
  let ?ws = "trim_space ws" and ?key = "trim_space key"
  from run obtain i w1 stamp w2 p w3 found w4 n w5 where scope: "requireAllDataScope (ev_scope E) ?ws = None"
    and i: "checked_webhook input = Inr i"
    and p: "scoped_key E ?ws ''subscription_key'' ?key w2 = (Inr p, w3)"
    and sel: "select_row E webhooks_table p w3 = (Inr found, w4)"
    and store: "(case found of
           None \<Rightarrow>
             wrapped ''insert Integration webhook subscription: %w'' (insert_into E webhooks_table
               ([(''id'', Text (ownerID E ''webhook_subscription_'' ?ws ?key)), (''subscription_key'', Text ?key),
                 (''workspace_id'', Text ?ws)] @ webhook_columns i @
                [(''created_by'', Text (fst (scopeOwner (ev_scope E) actor))), (''created_at'', Text stamp),
                 (''updated_at'', Text stamp), (''disabled_at'', Text [])]))
         | Some r \<Rightarrow>
             seq (scan_texts r [''id'']) (\<lambda>_.
             wrapped ''update Integration webhook subscription: %w'' (guarded_update E webhooks_table
               (webhook_columns i @ [(''disabled_at'', Text []), (''updated_at'', Text stamp)]) p))) w4 = (Inr n, w5)"
    and get: "getWebhookSubscription E ?ws ?key w5 = (Inr v, w')"
    by (auto simp: upsert_webhook_def seq_Inr requireAll_Inr requiredOwnerValue_def split: if_splits)
  have same: "keyed_row ?ws c ?key = keyed_row ws c key" for c by (simp add: keyed_row_def fun_eq_iff)
  have holds_p: "holds d r p = keyed_row ws ''subscription_key'' key r" for d r using scoped_key_holds [OF _ p] scope by (simp add: same)
  have "rows_have webhooks_table ''subscription_key'' ws key (webhook_columns i) (w_db w5)"
  proof (cases found)
    case None
    have "\<not> keyed_row ws ''subscription_key'' key r" if "r \<in> set (w_db w4 webhooks_table)" for r
      using None select_row_Inr [OF assms(1) sel] that by (auto simp: select_rows_def filter_empty_conv holds_p split: list.splits)
    moreover from store None obtain cs where "insert_row webhooks_table cs (w_db w4) = (Inr n, w_db w5)"
        "list_all (\<lambda>(c, v). row_of cs c = v) (webhook_columns i)"
      apply (simp add: wrapped_Inr)
      apply (drule insert_into_Inr [OF assms(1)], erule conjE, rule that, assumption)
      by (simp add: webhook_columns_def)
    ultimately show ?thesis by (intro insert_rows_have)
  next
    case (Some r)
    let ?cs = "webhook_columns i @ [(''disabled_at'', Text []), (''updated_at'', Text stamp)]"
    from store Some have "guarded_update E webhooks_table ?cs p w4 = (Inr n, w5)"
      by (auto simp: seq_Inr wrapped_Inr scan_texts_def)
    from scoped_update_have(1) [OF assms(1) _ p this] scope
    have "rows_have webhooks_table ''subscription_key'' ?ws ?key ?cs (w_db w5)"
      by (simp add: keeps_identity_def webhook_columns_def)
    then have "rows_have webhooks_table ''subscription_key'' ws key ?cs (w_db w5)" by (simp add: rows_have_def same)
    then show ?thesis by (rule rows_have_sub) auto
  qed
  moreover have "w_db w' = w_db w5 \<and> (\<exists>r \<in> set (w_db w5 webhooks_table). keyed_row ws ''subscription_key'' key r \<and>
    (\<forall>i. list_all (\<lambda>(c, v). r c = v) (webhook_columns i) \<longrightarrow> webhook_input v = i))"
    using getWebhook_Inr [OF assms(1) _ get] scope by (simp add: same)
  ultimately show ?thesis using i by (auto simp: rows_have_def all_rows_def)
qed

text \<open>
  The subscription that an upsert returns is the input, with its keys trimmed and its status set, read back from
  the table; unless an erasure has fenced the row, which an update then leaves as it was.
\<close>

theorem upserted_subscription_read_back:
  assumes "UpsertWebhookSubscription E ws key actor input w = (Inr v, w')"
  shows "checked_webhook input = Inr (webhook_input v) \<or>
    (\<exists>r \<in> set (w_db w' webhooks_table). keyed_row ws ''subscription_key'' key r \<and> row_fenced (w_db w') webhooks_table r)"
proof -
  from assms obtain u u' where run: "upsert_webhook (solo E) ws key actor input u = (Inr v, u')" and db: "w_db w' = w_db u'"
    unfolding UpsertWebhookSubscription_def by (rule managed_Inr [OF _ agree_upsert_webhook])
  from upsert_webhook_db [OF solo_alone run] show ?thesis unfolding db by metis
qed

definition new_webhook :: WebhookSubscriptionInput where
  "new_webhook = \<lparr>whi_Name = ''N'', whi_ConnectorKey = '' c'', whi_ConnectionKey = ''crm'', whi_EventTypes = [''paid''], whi_Status = [],
     whi_Description = []\<rparr>"

lemma webhook_upserted: "\<exists>v w'. UpsertWebhookSubscription calm_env ''w1'' ''k'' ''u1'' new_webhook (world_of (\<lambda>_. [])) = (Inr v, w')
    \<and> w_db w' fences = []"
proof -
  have "trim_space '' c'' = ''c''" "trim_space ''crm'' = ''crm''" by code_simp+
  then show ?thesis
    by (simp add: UpsertWebhookSubscription_def upsert_webhook_def checked_webhook_def webhook_columns_def getWebhookSubscription_def
        scanWebhookSubscription_def run_management new_webhook_def world_of_def trimmed_examples select_rows_def where_simps conflicts_def)
qed

theorem upserted_subscription_read_back_witness:
  "\<exists>v w'. UpsertWebhookSubscription calm_env ''w1'' ''k'' ''u1'' new_webhook (world_of (\<lambda>_. [])) = (Inr v, w') \<and>
    checked_webhook new_webhook = Inr (webhook_input v)"
proof -
  obtain v w' where run: "UpsertWebhookSubscription calm_env ''w1'' ''k'' ''u1'' new_webhook (world_of (\<lambda>_. [])) = (Inr v, w')"
    and free: "w_db w' fences = []" using webhook_upserted by blast
  from upserted_subscription_read_back [OF run] have "checked_webhook new_webhook = Inr (webhook_input v)"
    by (simp add: row_fenced_def free)
  with run show ?thesis by blast
qed

end
