(* ===== verification/ConnectionTests.thy ===== *)
theory ConnectionTests
  imports Management AccountReads
begin

text \<open>
  \<open>TestConnection\<close> of \<open>management_store.go\<close> and \<open>TestConnectionAccount\<close> of \<open>connection_account_store.go\<close>: a
  test of a complete connection by its provider, for an account under a scope of its own.
\<close>

section \<open>Testing a connection\<close>

record ConnectionTestRequest =
  ctq_Operation :: string
  ctq_Payload :: raw_message
  ctq_Input :: "(string \<times> json) list"
  ctq_Confirm :: bool

record ConnectionTestResult =
  ctr_Connection :: ManagedConnection
  ctr_Operation :: string
  ctr_Response :: raw_message
  ctr_MessageID :: string
  ctr_Status :: string

definition test_request :: "string \<Rightarrow> ManagedConnection \<Rightarrow> Connection \<Rightarrow> (string \<times> string) list \<Rightarrow> TestConnectionRequest" where
  "test_request workspaceID c connection secrets =
    \<lparr>tq_ConnectorKey = mc_ConnectorKey c, tq_ProviderKey = mc_ProviderKey c, tq_Connection = connection, tq_Secrets = secrets,
     tq_Principal = \<lparr>pr_UserID = [], pr_RoleKey = [], pr_WorkspaceID = workspaceID, pr_RequestID = [], pr_IsAuthenticated = True\<rparr>\<rparr>"

text \<open>The error beside the result is the one that is returned together with it.\<close>

definition perform_test ::
    "env \<Rightarrow> string \<Rightarrow> string \<Rightarrow> ManagedConnection \<Rightarrow> (nat \<Rightarrow> TestConnectionRequest \<Rightarrow> TestConnectionResult \<times> err option) \<Rightarrow>
     Connection \<Rightarrow> (ConnectionTestResult \<times> err option) dbop" where
  "perform_test E workspaceID key c test connection =
    seq (try_op (resolveProviderSecrets E workspaceID (mc_SecretRefs c))) (\<lambda>resolved. case resolved of
      Inl e \<Rightarrow>
        ret (\<lparr>ctr_Connection = c, ctr_Operation = ''test_connection'', ctr_Response = raw_nil, ctr_MessageID = [], ctr_Status = []\<rparr>, Some e)
    | Inr secrets \<Rightarrow>
        let request = test_request workspaceID c connection (rps_Values secrets) in
        seq (record_call (TestCall request) (\<lambda>n. test n request)) (\<lambda>(result, testErr).
        seq (persistProviderSecretUpdates E workspaceID (mc_SecretRefs c) (rps_Versions secrets) (tr_SecretUpdates result) testErr) (\<lambda>e.
        seq (ownerNow E) (\<lambda>stamp.
        ret (\<lparr>ctr_Connection = c, ctr_Operation = ''test_connection'', ctr_Response = tr_Details result,
              ctr_MessageID = ownerID E ''connection_test_'' workspaceID (key @ [CHR 0x00] @ stamp),
              ctr_Status = (if e \<noteq> None \<or> \<not> tr_Connected result then ''failed'' else ''succeeded'')\<rparr>, e)))))"

definition TestConnection :: "env \<Rightarrow> string \<Rightarrow> string \<Rightarrow> (ConnectionTestResult \<times> err option) dbop" where
  "TestConnection E workspaceID key =
    seq (GetConnection E workspaceID key) (\<lambda>c.
    case ev_Provider E (mc_ConnectorKey c) (mc_ProviderKey c) of
      None \<Rightarrow> throw (Errorf ''Integration provider %s/%s is unavailable'' [mc_ConnectorKey c, mc_ProviderKey c])
    | Some p \<Rightarrow>
        (case pv_TestConnection p of
           None \<Rightarrow> throw (Errorf ''Integration provider %s/%s does not support connection testing'' [mc_ConnectorKey c, mc_ProviderKey c])
         | Some test \<Rightarrow>
             seq (of_result (normalizeProviderConnection E (Some p) (sdk_managed c (mc_Status c)) True)) (\<lambda>connection.
             perform_test E workspaceID key c test connection)))"

section \<open>Testing an account\<close>

record ConnectionAccountTestResult =
  atr_Account :: ConnectionAccount
  atr_Operation :: string
  atr_Connected :: bool
  atr_MessageID :: string
  atr_Status :: string

definition test_scope :: "ConnectionAccountSubject \<Rightarrow> AccessScope" where
  "test_scope subject =
    \<lparr>as_WorkspaceID = sub_WorkspaceID subject, as_PermissionKey = ''integration.connection_accounts.test'',
     as_ActorID = sub_UserID subject, as_ActorOrgID = [], as_Unrestricted = True, as_AllowedUserIDs = [], as_AllowedOrgIDs = [],
     as_DeniedAll = False, as_DeniedUserIDs = [], as_DeniedOrgIDs = []\<rparr>"

definition no_business_input :: "ConnectionTestRequest \<Rightarrow> bool" where
  "no_business_input request \<longleftrightarrow>
    (trim_space (ctq_Operation request) = [] \<or> trim_space (ctq_Operation request) = ''test_connection'') \<and>
    raw_length (ctq_Payload request) = 0 \<and> ctq_Input request = [] \<and> \<not> ctq_Confirm request"

definition test_allowed :: "ConnectionAccount \<Rightarrow> bool" where
  "test_allowed a \<longleftrightarrow>
    (case ca_Readiness a of
       Some readiness \<Rightarrow> (case rd_Test readiness of Some eligibility \<Rightarrow> te_Allowed eligibility | None \<Rightarrow> True)
     | None \<Rightarrow> True)"

definition TestConnectionAccount ::
    "env \<Rightarrow> ConnectionAccountSubject \<Rightarrow> string \<Rightarrow> ConnectionTestRequest \<Rightarrow> ConnectionAccountTestResult dbop" where
  "TestConnectionAccount E subject key request =
    seq (of_result (normalizedConnectionAccountSubject E subject)) (\<lambda>subject.
    seq (check (no_business_input request) (Errorf ''Integration account test accepts no business operation or input'' [])) (\<lambda>_.
    seq (GetConnectionAccount E subject key) (\<lambda>account.
    seq (check (ca_Status account = ''active'') (Errorf ''Integration connection account is not active'' [])) (\<lambda>_.
    seq (check (test_allowed account) (Errorf ''Integration connection account test scope is not granted'' [])) (\<lambda>_.
    seq (try_op (TestConnection (E\<lparr>ev_scope := Some (test_scope subject)\<rparr>) (sub_WorkspaceID subject) (ca_Key account))) (\<lambda>tested.
    seq (of_result (case tested of
           Inr (result, None) \<Rightarrow> Inr result
         | _ \<Rightarrow> Inl (Errorf ''Integration connection account test failed'' []))) (\<lambda>result.
    seq (try_op (GetConnectionAccount E subject key)) (\<lambda>current. case current of
      Inl e \<Rightarrow> throw errConnectionAccountChanged
    | Inr a \<Rightarrow>
        if ca_Status a \<noteq> ''active'' \<or> ca_UpdatedAt a \<noteq> ca_UpdatedAt account then throw errConnectionAccountChanged
        else ret \<lparr>atr_Account = a, atr_Operation = ''test_connection'', atr_Connected = (ctr_Status result = ''succeeded''),
                  atr_MessageID = ctr_MessageID result, atr_Status = ctr_Status result\<rparr>))))))))"

section \<open>What a test calls\<close>

text \<open>A test of the connection of that workspace and key, complete and accepted by its provider.\<close>

definition complete_test :: "env \<Rightarrow> string \<Rightarrow> string \<Rightarrow> external_call \<Rightarrow> bool" where
  "complete_test E workspaceID key call \<longleftrightarrow>
    (case call of
       TestCall request \<Rightarrow>
         cn_WorkspaceID (tq_Connection request) = workspaceID \<and> cn_Key (tq_Connection request) = key \<and>
         (case ev_Provider E (tq_ConnectorKey request) (tq_ProviderKey request) of
            None \<Rightarrow> False
          | Some p \<Rightarrow> connection_error E p (tq_Connection request) True = None)
     | _ \<Rightarrow> False)"

lemma select_row_found:
  assumes "select_row E t p w = (Inr (Some r), w')"
  shows "\<exists>d. holds d r p"
proof -
  from assms obtain rs where rs: "select E t p w = (Inr rs, w')" "(case rs of [] \<Rightarrow> None | r # _ \<Rightarrow> Some r) = Some r"
    by (auto simp: select_row_def op_Inr)
  then have "r \<in> set rs" by (auto split: list.splits)
  moreover have "rs = select_rows t p (w_db (before_step E w))"
    using rs(1) by (cases "ev_fault E (w_step w)") (auto simp: select_def statement_def Let_def)
  ultimately show ?thesis by auto
qed

lemma GetConnection_keys:
  assumes "GetConnection E ws key w = (Inr c, w')"
  shows "mc_WorkspaceID c = trim_space ws \<and> mc_Key c = trim_space key"
proof -
  from assms obtain p w1 r where p: "scopedWhere (ev_scope E) (trim_space ws) [] [] [Equal ''connection_key'' (Text (trim_space key))] = Inr p"
    and sel: "select_row E connections_table p w = (Inr (Some r), w1)" and scan: "scanConnection r w1 = (Inr c, w')"
    by (auto simp: GetConnection_def seq_Inr requiredOwnerValue_def split: if_splits option.splits)
  from select_row_found [OF sel] obtain d where "holds d r p" ..
  then have "r ''workspace_id'' = Text (trim_space ws) \<and> r ''connection_key'' = Text (trim_space key)"
  proof (cases "ev_scope E")
    case (Some scope)
    from \<open>holds d r p\<close> show ?thesis unfolding scopedWhere_holds [OF p [unfolded Some]] by (auto simp: where_simps)
  next
    case None
    from \<open>holds d r p\<close> show ?thesis unfolding scopedWhere_holds_None [OF p [unfolded None]] by (auto simp: where_simps)
  qed
  with scan show ?thesis by (auto simp: scanConnection_def op_Inr case_Inr scan_texts_def)
qed

lemma normalize_complete:
  "normalizeProviderConnection E (Some p) c ready = Inr c' \<Longrightarrow>
    connection_error E p c' ready = None \<and> cn_Key c' = cn_Key c \<and> cn_WorkspaceID c' = cn_WorkspaceID c"
  by (auto simp: normalizeProviderConnection_def Let_def split: sum.splits option.splits if_splits)

lemma of_result_calls: "(\<And>x. r = Inr x \<Longrightarrow> calls_within ok (f x)) \<Longrightarrow> calls_within ok (seq (of_result r) f)"
  by (cases r) (auto simp: calls_within_def seq_apply of_result_apply)

lemma calls_within_option:
  "(x = None \<Longrightarrow> calls_within ok m) \<Longrightarrow> (\<And>y. x = Some y \<Longrightarrow> calls_within ok (f y)) \<Longrightarrow>
   calls_within ok (case x of None \<Rightarrow> m | Some y \<Rightarrow> f y)"
  by (cases x) auto

lemma perform_test_calls:
  assumes "\<And>secrets. ok (TestCall (test_request ws c connection secrets))"
  shows "calls_within ok (perform_test E ws key c test connection)"
  unfolding perform_test_def Let_def
proof (rule calls_within_seq)
  show "evolution.within quiet (try_op (resolveProviderSecrets E ws (mc_SecretRefs c)))" by (intro quiet.within_secret_writes)
qed (intro calls_within_sum calls_within_then [OF calls_within_record] assms;
    intro calls_within_quiet quiet.within_prod quiet.within_secret_writes quiet.within_ownerNow)

lemma TestConnection_calls: "calls_within (complete_test E (trim_space ws) (trim_space key)) (TestConnection E ws key)"
  unfolding TestConnection_def
proof (rule calls_within_seq [OF quiet.within_GetConnection(2)], intro calls_within_option of_result_calls perform_test_calls)
  fix w c w' p test connection secrets
  assume get: "GetConnection E ws key w = (Inr c, w')" and p: "ev_Provider E (mc_ConnectorKey c) (mc_ProviderKey c) = Some p"
    and n: "normalizeProviderConnection E (Some p) (sdk_managed c (mc_Status c)) True = Inr connection"
  show "complete_test E (trim_space ws) (trim_space key) (TestCall (test_request ws c connection secrets))"
    using GetConnection_keys [OF get] normalize_complete [OF n] p by (simp add: complete_test_def test_request_def sdk_managed_def)
qed (simp_all add: calls_within_def)


lemma complete_test_scope [simp]: "complete_test (E\<lparr>ev_scope := x\<rparr>) = complete_test E"
proof (intro ext)
  fix ws key call
  have scope: "ev_SDK (E\<lparr>ev_scope := x\<rparr>) = ev_SDK E" "ev_Regexp (E\<lparr>ev_scope := x\<rparr>) = ev_Regexp E" by simp_all
  have "connection_error (E\<lparr>ev_scope := x\<rparr>) = connection_error E"
    by (intro ext) (simp only: connection_error_def member_error_def validateProviderConfigValue_def text_error_def scope)
  then show "complete_test (E\<lparr>ev_scope := x\<rparr>) ws key call = complete_test E ws key call"
    by (cases call) (simp_all add: complete_test_def split: option.splits)
qed

lemma GetConnectionAccount_visible:
  assumes "GetConnectionAccount E subject key w = (Inr a, w')"
  shows "account_visible (subject\<lparr>sub_WorkspaceID := trim_space (sub_WorkspaceID subject),
      sub_UserID := trim_space (sub_UserID subject)\<rparr>) a \<and> ca_Key a = trim_space key"
proof -
  let ?s = "subject\<lparr>sub_WorkspaceID := trim_space (sub_WorkspaceID subject), sub_UserID := trim_space (sub_UserID subject)\<rparr>"
  obtain b u where b: "connectionAccount E (sub_WorkspaceID ?s) key (Some (connectionAccountAccess ?s)) w = (Inr b, u)"
    and e: "enrichAccountReadiness E b u = (Inr a, w')"
    using assms by (auto simp: GetConnectionAccount_def op_Inr normalizedConnectionAccountSubject_def Let_def split: option.splits)
  from enrich_Inr [OF e] obtain rd where "a = b\<lparr>ca_Readiness := Some rd\<rparr>" by blast
  with connectionAccount_visible [OF b] show ?thesis by simp
qed

text \<open>A call that the test of an account may make.\<close>

definition account_test_call :: "env \<Rightarrow> ConnectionAccountSubject \<Rightarrow> string \<Rightarrow> external_call \<Rightarrow> bool" where
  "account_test_call E subject key call \<longleftrightarrow>
    complete_test E (sub_WorkspaceID subject) key call \<and>
    (\<exists>a. account_visible subject a \<and> ca_Key a = key \<and> ca_Status a = ''active'' \<and> test_allowed a)"

lemma TestConnectionAccount_calls:
  "calls_within (account_test_call E (subject\<lparr>sub_WorkspaceID := trim_space (sub_WorkspaceID subject),
      sub_UserID := trim_space (sub_UserID subject)\<rparr>) (trim_space key)) (TestConnectionAccount E subject key request)"
  unfolding TestConnectionAccount_def
proof (intro of_result_calls check_calls)
  fix s
  let ?s = "subject\<lparr>sub_WorkspaceID := trim_space (sub_WorkspaceID subject), sub_UserID := trim_space (sub_UserID subject)\<rparr>"
  assume "normalizedConnectionAccountSubject E subject = Inr s"
  then have s: "s = ?s" by (auto simp: normalizedConnectionAccountSubject_def Let_def split: option.splits)
  have trims: "trim_space (sub_WorkspaceID s) = sub_WorkspaceID s" "trim_space (sub_UserID s) = sub_UserID s" by (simp_all add: s)
  show "calls_within (account_test_call E ?s (trim_space key))
    (seq (GetConnectionAccount E s key) (\<lambda>account.
      seq (check (ca_Status account = ''active'') (Errorf ''Integration connection account is not active'' [])) (\<lambda>_.
      seq (check (test_allowed account) (Errorf ''Integration connection account test scope is not granted'' [])) (\<lambda>_.
      seq (try_op (TestConnection (E\<lparr>ev_scope := Some (test_scope s)\<rparr>) (sub_WorkspaceID s) (ca_Key account))) (\<lambda>tested.
      seq (of_result (case tested of
             Inr (result, None) \<Rightarrow> Inr result
           | _ \<Rightarrow> Inl (Errorf ''Integration connection account test failed'' []))) (\<lambda>result.
      seq (try_op (GetConnectionAccount E s key)) (\<lambda>current. case current of
        Inl e \<Rightarrow> throw errConnectionAccountChanged
      | Inr a \<Rightarrow>
          if ca_Status a \<noteq> ''active'' \<or> ca_UpdatedAt a \<noteq> ca_UpdatedAt account then throw errConnectionAccountChanged
          else ret \<lparr>atr_Account = a, atr_Operation = ''test_connection'', atr_Connected = (ctr_Status result = ''succeeded''),
                    atr_MessageID = ctr_MessageID result, atr_Status = ctr_Status result\<rparr>)))))))"
  proof (rule calls_within_seq [OF quiet.within_GetConnectionAccount], intro check_calls calls_within_then calls_within_try)
    fix w account w'
    assume get: "GetConnectionAccount E s key w = (Inr account, w')" and ok: "ca_Status account = ''active''" "test_allowed account"
    show "calls_within (account_test_call E ?s (trim_space key))
      (TestConnection (E\<lparr>ev_scope := Some (test_scope s)\<rparr>) (sub_WorkspaceID s) (ca_Key account))"
    proof (rule calls_within_weaken [OF TestConnection_calls])
      fix call
      assume "complete_test (E\<lparr>ev_scope := Some (test_scope s)\<rparr>) (trim_space (sub_WorkspaceID s)) (trim_space (ca_Key account)) call"
      with GetConnectionAccount_visible [OF get] ok show "account_test_call E ?s (trim_space key) call"
        unfolding s [symmetric] by (auto simp: account_test_call_def trims)
    qed
  qed (intro quiet.within_reads quiet.within_GetConnectionAccount)
qed


end
