(* ===== verification/OAuth.thy ===== *)
theory OAuth
  imports ManagedKeys
begin

text \<open>
  The OAuth applications of a workspace and the authorization sessions of its users,
  \<open>oauth_application_store.go\<close> and \<open>oauth_session_store.go\<close>: a session is started with a state and a
  verifier that only the user's browser and the store hold, its code is exchanged once, and the account, its
  connection, its credentials and the granted scopes are stored in one transaction with the status
  \<open>connected\<close>. What a session goes through is in \<open>OAuthSessions.thy\<close>.
\<close>

definition applications_table :: string where "applications_table = ''_integration_oauth_applications''"

record OAuthApplication =
  oap_Key :: string
  oap_WorkspaceID :: string
  oap_ConnectorKey :: string
  oap_ProviderKey :: string
  oap_Name :: string
  oap_ClientID :: string
  oap_RedirectURI :: string
  oap_Scopes :: "string list"
  oap_ConnectionConfig :: "(string \<times> json) list"
  oap_Configured :: bool
  oap_Enabled :: bool
  oap_UpdatedAt :: string

record OAuthAuthorizationSession =
  oas_ID :: string
  oas_Status :: string
  oas_ApplicationKey :: string
  oas_Scope :: string
  oas_RequestedScopes :: "string list"
  oas_GrantedScopes :: "string list"
  oas_ExpiresAt :: string
  oas_AuthorizationURL :: string
  oas_Account :: "ConnectionAccount option"

definition zero_session :: OAuthAuthorizationSession where
  "zero_session =
    \<lparr>oas_ID = [], oas_Status = [], oas_ApplicationKey = [], oas_Scope = [], oas_RequestedScopes = [], oas_GrantedScopes = [],
     oas_ExpiresAt = [], oas_AuthorizationURL = [], oas_Account = None\<rparr>"

text \<open>
  The JSON form of the integration SDK's application and session, and the order in which a \<open>range\<close> over
  a map visits its entries at a step.
\<close>

record oauth_port =
  og_Application :: "OAuthApplication \<Rightarrow> json"
  og_ReadApplication :: "raw_message \<Rightarrow> OAuthApplication option"
  og_Session :: "OAuthAuthorizationSession \<Rightarrow> json"
  og_ReadSession :: "json \<Rightarrow> OAuthAuthorizationSession option"
  og_Order :: "nat \<Rightarrow> (string \<times> string) list \<Rightarrow> (string \<times> string) list"

section \<open>Applications\<close>

definition application_where :: "string \<Rightarrow> string \<Rightarrow> predicate" where
  "application_where workspace key = And [Equal ''workspace_id'' (Text workspace), Equal ''application_key'' (Text key)]"

definition oauthApplication :: "env \<Rightarrow> oauth_port \<Rightarrow> string \<Rightarrow> string \<Rightarrow> (OAuthApplication \<times> string) dbop" where
  "oauthApplication E C workspace key =
    seq (try_op (seq (row_or_error E applications_table (application_where workspace key)) (\<lambda>r.
           seq (scan_texts r [''application_json'', ''client_ciphertext'']) (\<lambda>_. ret r)))) (\<lambda>found. case found of
      Inl _ \<Rightarrow> throw (Errorf ''Integration OAuth application is unavailable'' [])
    | Inr r \<Rightarrow>
        (case og_ReadApplication C (doc_of (r ''application_json'')) of
           None \<Rightarrow> throw (Errorf ''json: cannot unmarshal'' [])
         | Some app \<Rightarrow> ret (app, text_of (r ''client_ciphertext''))))"

definition listOAuthApplications :: "env \<Rightarrow> oauth_port \<Rightarrow> string \<Rightarrow> OAuthApplication list dbop" where
  "listOAuthApplications E C workspace =
    seq (select E applications_table (Equal ''workspace_id'' (Text workspace))) (\<lambda>rs.
    each (\<lambda>r. seq (scan_texts r [''application_json'']) (\<lambda>_.
      case og_ReadApplication C (doc_of (r ''application_json'')) of
        None \<Rightarrow> throw (Errorf ''json: cannot unmarshal'' [])
      | Some app \<Rightarrow> ret app)) (ascending ''application_key'' rs))"

definition ListOAuthApplications :: "env \<Rightarrow> oauth_port \<Rightarrow> string \<Rightarrow> OAuthApplication list dbop" where
  "ListOAuthApplications E C workspace =
    seq (requireAll E workspace) (\<lambda>_. listOAuthApplications E C (trim_space workspace))"

record OAuthApplicationInput =
  oai_ConnectorKey :: string
  oai_ProviderKey :: string
  oai_Name :: string
  oai_ClientID :: string
  oai_ClientSecret :: string
  oai_RedirectURI :: string
  oai_Scopes :: "string list"
  oai_ConnectionConfig :: "(string \<times> json) list"
  oai_Enabled :: bool
  oai_ExpectedUpdatedAt :: string

text \<open>A call on a cipher that is not configured is a call on a nil interface.\<close>

definition nil_cipher :: err where
  "nil_cipher = Panic ''invalid memory address or nil pointer dereference''"

definition encrypt :: "env \<Rightarrow> string \<Rightarrow> string \<Rightarrow> string \<Rightarrow> string \<Rightarrow> err + string" where
  "encrypt E workspace key plaintext message =
    (case ev_Cipher E of
       None \<Rightarrow> Inl nil_cipher
     | Some c \<Rightarrow> (case ci_Encrypt c workspace key plaintext of Inl e \<Rightarrow> Inl (Errorf message []) | Inr ciphertext \<Rightarrow> Inr ciphertext))"

definition decrypt :: "env \<Rightarrow> string \<Rightarrow> string \<Rightarrow> string \<Rightarrow> string \<Rightarrow> err + string" where
  "decrypt E workspace key ciphertext message =
    (case ev_Cipher E of
       None \<Rightarrow> Inl nil_cipher
     | Some c \<Rightarrow> (case ci_Decrypt c workspace key ciphertext of Inl e \<Rightarrow> Inl (Errorf message []) | Inr plaintext \<Rightarrow> Inr plaintext))"

definition oauth_provider :: "env \<Rightarrow> string \<Rightarrow> string \<Rightarrow> string \<Rightarrow> err + provider \<times> OAuthAuthorizer" where
  "oauth_provider E connectorKey providerKey unsupported =
    (case ev_Provider E connectorKey providerKey of
       None \<Rightarrow> Inl (Errorf ''Integration OAuth provider is unavailable'' [])
     | Some p \<Rightarrow> (case pv_OAuth p of None \<Rightarrow> Inl (Errorf unsupported []) | Some a \<Rightarrow> Inr (p, a)))"

definition bare_connection :: "string \<Rightarrow> string \<Rightarrow> string \<Rightarrow> (string \<times> json) list \<Rightarrow> Connection" where
  "bare_connection workspace connectorKey providerKey config =
    \<lparr>cn_Key = [], cn_WorkspaceID = workspace, cn_ConnectorKey = connectorKey, cn_ProviderKey = providerKey, cn_Name = [],
     cn_Status = [], cn_Config = config, cn_SecretRefs = []\<rparr>"

text \<open>The application that an input describes, once its provider accepts the configuration.\<close>

definition checked_application :: "env \<Rightarrow> string \<Rightarrow> OAuthApplicationInput \<Rightarrow> err + (string \<times> json) list" where
  "checked_application E workspace input =
    (case oauth_provider E (oai_ConnectorKey input) (oai_ProviderKey input) ''Integration provider does not support initial OAuth'' of
       Inl e \<Rightarrow> Inl e
     | Inr (p, a) \<Rightarrow>
         (case normalizeProviderConnection E (Some p)
                 (bare_connection workspace (oai_ConnectorKey input) (oai_ProviderKey input) (oai_ConnectionConfig input)) False of
            Inl e \<Rightarrow> Inl e
          | Inr connection \<Rightarrow>
              (case oa_AuthorizationURL a
                  \<lparr>oq_Connection = connection, oq_ClientID = oai_ClientID input, oq_RedirectURI = oai_RedirectURI input,
                   oq_Scopes = oai_Scopes input, oq_State = replicate 43 CHR ''s'',
                   oq_CodeChallenge = ev_challenge E (replicate 43 CHR ''v'')\<rparr> of
                 Inl _ \<Rightarrow> Inl (Errorf ''Integration OAuth application protocol configuration is invalid'' [])
               | Inr _ \<Rightarrow> Inr (cn_Config connection))))"

definition application_changed :: err where
  "application_changed = Errorf ''Integration OAuth application changed'' []"

definition upsert_application ::
    "env \<Rightarrow> oauth_port \<Rightarrow> string \<Rightarrow> string \<Rightarrow> OAuthApplicationInput \<Rightarrow> OAuthApplication dbop" where
  "upsert_application E C workspace key input =
    seq (of_result (checked_application E workspace input)) (\<lambda>config.
    seq (select_row E applications_table (application_where workspace key)) (\<lambda>found.
    seq (case found of None \<Rightarrow> ret () | Some r \<Rightarrow> scan_texts r [''updated_at'', ''client_ciphertext'']) (\<lambda>_.
    let stored = (\<lambda>c. case found of None \<Rightarrow> [] | Some r \<Rightarrow> text_of (r c)) in
    seq (check (oai_ExpectedUpdatedAt input = stored ''updated_at'') application_changed) (\<lambda>_.
    seq (if oai_ClientSecret input = [] then ret (stored ''client_ciphertext'')
         else of_result (encrypt E workspace (''oauth_application_'' @ key) (oai_ClientSecret input)
                ''Integration OAuth application secret encryption failed'')) (\<lambda>ciphertext.
    seq (check (ciphertext \<noteq> []) (Errorf ''Integration OAuth client secret is required'' [])) (\<lambda>_.
    seq (ownerNow E) (\<lambda>stamp.
    let app = \<lparr>oap_Key = key, oap_WorkspaceID = workspace, oap_ConnectorKey = oai_ConnectorKey input,
               oap_ProviderKey = oai_ProviderKey input, oap_Name = trim_space (oai_Name input), oap_ClientID = oai_ClientID input,
               oap_RedirectURI = oai_RedirectURI input, oap_Scopes = oai_Scopes input, oap_ConnectionConfig = config,
               oap_Configured = True, oap_Enabled = oai_Enabled input, oap_UpdatedAt = stamp\<rparr>;
        document = Doc (marshal (og_Application C app)) in
    seq (case found of
           None \<Rightarrow>
             insert_into E applications_table
               [(''id'', Text (ownerID E ''oauth_application_'' workspace key)), (''workspace_id'', Text workspace),
                (''application_key'', Text key), (''application_json'', document), (''client_ciphertext'', Text ciphertext),
                (''updated_at'', Text stamp)]
         | Some r \<Rightarrow>
             update_set E applications_table
               [(''application_json'', document), (''client_ciphertext'', Text ciphertext), (''updated_at'', Text stamp)]
               (And [application_where workspace key, Equal ''updated_at'' (Text (stored ''updated_at''))])) (\<lambda>n.
    seq (check (n = 1) application_changed) (\<lambda>_. ret app)))))))))"

definition UpsertOAuthApplication ::
    "env \<Rightarrow> oauth_port \<Rightarrow> string \<Rightarrow> string \<Rightarrow> string \<Rightarrow> OAuthApplicationInput \<Rightarrow> OAuthApplication dbop" where
  "UpsertOAuthApplication E C workspace key actor input =
    (let workspace = trim_space workspace; key = trim_space key; actor = trim_space actor;
         guards = seq (requireAll E workspace) (\<lambda>_.
           check (workspace \<noteq> [] \<and> key \<noteq> [] \<and> actor \<noteq> [] \<and> ev_Cipher E \<noteq> None)
             (Errorf ''Integration OAuth application input is incomplete'' [])) in
     seq guards (\<lambda>_. transaction E (seq guards (\<lambda>_. upsert_application E C workspace key input))))"

record OAuthAuthorizationOption =
  oao_Key :: string
  oao_ConnectorKey :: string
  oao_ProviderKey :: string
  oao_Name :: string
  oao_Scopes :: "string list"

definition ListOAuthAuthorizationOptions ::
    "env \<Rightarrow> oauth_port \<Rightarrow> ConnectionAccountSubject \<Rightarrow> OAuthAuthorizationOption list dbop" where
  "ListOAuthAuthorizationOptions E C subject =
    seq (of_result (normalizedConnectionAccountSubject E subject)) (\<lambda>subject.
    case requireConnectionAccountSubjectScope (ev_scope E) subject of Some e \<Rightarrow> throw e | None \<Rightarrow>
    if \<not> acc_Personal (sub_Access subject) \<and> \<not> acc_Workspace (sub_Access subject) then ret []
    else
      seq (listOAuthApplications E C (sub_WorkspaceID subject)) (\<lambda>apps.
      ret (map (\<lambda>a. \<lparr>oao_Key = oap_Key a, oao_ConnectorKey = oap_ConnectorKey a, oao_ProviderKey = oap_ProviderKey a,
                      oao_Name = oap_Name a, oao_Scopes = oap_Scopes a\<rparr>)
             (filter (\<lambda>a. oap_Enabled a \<and> oap_Configured a) apps))))"

section \<open>Sessions\<close>

record oauthSessionRecord =
  osr_Session :: OAuthAuthorizationSession
  osr_Name :: string
  osr_Revision :: string
  osr_VerifierCiphertext :: string
  osr_ExchangeDeadline :: string

definition session_json :: "oauth_port \<Rightarrow> oauthSessionRecord \<Rightarrow> sql" where
  "session_json C s = Doc (marshal (JObj [(''session'', og_Session C (osr_Session s)), (''name'', JStr (osr_Name s))]))"

text \<open>\<open>json.Unmarshal\<close> into an \<open>oauthSessionRecord\<close>: a member that is missing leaves the zero value.\<close>

definition decode_session :: "oauth_port \<Rightarrow> raw_message \<Rightarrow> (OAuthAuthorizationSession \<times> string) option" where
  "decode_session C raw =
    (case decode_object raw of
       None \<Rightarrow> None
     | Some m \<Rightarrow>
         (case (case map_of m ''session'' of None \<Rightarrow> Some zero_session | Some j \<Rightarrow> og_ReadSession C j,
                case map_of m ''name'' of None \<Rightarrow> Some [] | Some j \<Rightarrow> decode_string j) of
            (Some s, Some name) \<Rightarrow> Some (s, name)
          | _ \<Rightarrow> None))"

definition oauthHash :: "env \<Rightarrow> string \<Rightarrow> string" where
  "oauthHash E s = ev_sha256 E s"

definition oauthScopeAllowed :: "ConnectionAccountSubject \<Rightarrow> string \<Rightarrow> bool" where
  "oauthScopeAllowed subject scope \<longleftrightarrow>
    scope = ScopePersonal \<and> acc_Personal (sub_Access subject) \<or> scope = ScopeWorkspace \<and> acc_Workspace (sub_Access subject)"

definition session_unavailable :: err where
  "session_unavailable = Errorf ''Integration OAuth session is unavailable'' []"

definition session_changed :: err where
  "session_changed = Errorf ''Integration OAuth session changed'' []"

definition session_where :: "ConnectionAccountSubject \<Rightarrow> predicate list \<Rightarrow> predicate" where
  "session_where subject ps =
    And ([Equal ''workspace_id'' (Text (sub_WorkspaceID subject)), Equal ''user_id'' (Text (sub_UserID subject))] @ ps)"

definition readOAuthSession :: "env \<Rightarrow> oauth_port \<Rightarrow> ConnectionAccountSubject \<Rightarrow> predicate \<Rightarrow> oauthSessionRecord dbop" where
  "readOAuthSession E C subject p =
    seq (try_op (seq (row_or_error E sessions_table (session_where subject [p])) (\<lambda>r.
           seq (scan_texts r [''session_json'', ''status'', ''application_revision'', ''verifier_ciphertext'', ''exchange_deadline'']) (\<lambda>_.
           ret r)))) (\<lambda>found. case found of
      Inl _ \<Rightarrow> throw session_unavailable
    | Inr r \<Rightarrow>
        (case decode_session C (doc_of (r ''session_json'')) of
           None \<Rightarrow> throw (Errorf ''json: cannot unmarshal'' [])
         | Some (s, name) \<Rightarrow>
             if oauthScopeAllowed subject (oas_Scope s) then
               ret \<lparr>osr_Session = s\<lparr>oas_Status := text_of (r ''status'')\<rparr>, osr_Name = name,
                    osr_Revision = text_of (r ''application_revision''),
                    osr_VerifierCiphertext = text_of (r ''verifier_ciphertext''),
                    osr_ExchangeDeadline = text_of (r ''exchange_deadline'')\<rparr>
             else throw session_unavailable))"

text \<open>Every update of a session clears its verifier and names the status that it replaces.\<close>

definition updateOAuthSession ::
    "env \<Rightarrow> oauth_port \<Rightarrow> ConnectionAccountSubject \<Rightarrow> oauthSessionRecord \<Rightarrow> string \<Rightarrow> unit dbop" where
  "updateOAuthSession E C subject s previous =
    seq (ownerNow E) (\<lambda>stamp.
    seq (guarded_update E sessions_table
           [(''status'', Text (oas_Status (osr_Session s))), (''session_json'', session_json C s), (''verifier_ciphertext'', Text []),
            (''exchange_deadline'', Text (osr_ExchangeDeadline s)), (''updated_at'', Text stamp)]
           (session_where subject [Equal ''id'' (Text (oas_ID (osr_Session s))), Equal ''status'' (Text previous)])) (\<lambda>n.
    check (n = 1) session_changed))"

definition in_status :: "oauthSessionRecord \<Rightarrow> string \<Rightarrow> oauthSessionRecord" where
  "in_status s status = s\<lparr>osr_Session := (osr_Session s)\<lparr>oas_Status := status\<rparr>\<rparr>"

section \<open>Starting an authorization\<close>

record OAuthAuthorizationInput =
  ain_ApplicationKey :: string
  ain_Name :: string
  ain_Scope :: string
  ain_Scopes :: "string list"

text \<open>Each requested scope is configured, and none is requested twice.\<close>

fun scopes_configured :: "string list \<Rightarrow> string list \<Rightarrow> bool" where
  "scopes_configured allowed [] = True"
| "scopes_configured allowed (s # ss) = (s \<in> set allowed \<and> scopes_configured (removeAll s allowed) ss)"

text \<open>The enabled application of a key, under a further condition.\<close>

definition enabled_application ::
    "env \<Rightarrow> oauth_port \<Rightarrow> string \<Rightarrow> string \<Rightarrow> (OAuthApplication \<Rightarrow> bool) \<Rightarrow> err \<Rightarrow> (OAuthApplication \<times> string) dbop" where
  "enabled_application E C workspace key ok e =
    seq (try_op (oauthApplication E C workspace key)) (\<lambda>found. case found of
      Inl _ \<Rightarrow> throw e
    | Inr (app, ciphertext) \<Rightarrow> if oap_Enabled app \<and> ok app then ret (app, ciphertext) else throw e)"

definition application_provider :: "env \<Rightarrow> OAuthApplication \<Rightarrow> err + provider \<times> OAuthAuthorizer" where
  "application_provider E app =
    oauth_provider E (oap_ConnectorKey app) (oap_ProviderKey app) ''Integration OAuth provider is unavailable''"

definition application_connection :: "ConnectionAccountSubject \<Rightarrow> OAuthApplication \<Rightarrow> Connection" where
  "application_connection subject app =
    bare_connection (sub_WorkspaceID subject) (oap_ConnectorKey app) (oap_ProviderKey app) (oap_ConnectionConfig app)"

definition StartOAuthAuthorization ::
    "env \<Rightarrow> oauth_port \<Rightarrow> ConnectionAccountSubject \<Rightarrow> OAuthAuthorizationInput \<Rightarrow> OAuthAuthorizationSession dbop" where
  "StartOAuthAuthorization E C subject input =
    seq (guardSubjectWrite E (sub_WorkspaceID subject) [(''subject'', [], sub_UserID subject)]) (\<lambda>_.
    seq (of_result (normalizedConnectionAccountSubject E subject)) (\<lambda>subject.
    case requireConnectionAccountSubjectScope (ev_scope E) subject of Some e \<Rightarrow> throw e | None \<Rightarrow>
    seq (check (oauthScopeAllowed subject (ain_Scope input)) (Errorf ''Integration OAuth account scope is not authorized'' [])) (\<lambda>_.
    seq (enabled_application E C (sub_WorkspaceID subject) (trim_space (ain_ApplicationKey input)) (\<lambda>_. True)
           (Errorf ''Integration OAuth application is unavailable'' [])) (\<lambda>(app, _).
    seq (check (ain_Scopes input \<noteq> [] \<and> length (ain_Scopes input) \<le> length (oap_Scopes app))
           (Errorf ''Integration OAuth scopes are required'' [])) (\<lambda>_.
    seq (check (scopes_configured (oap_Scopes app) (ain_Scopes input)) (Errorf ''Integration OAuth scope is not configured'' [])) (\<lambda>_.
    seq (of_result (application_provider E app)) (\<lambda>(p, a).
    seq (randomOwnerToken E ''oauth_'') (\<lambda>sid.
    seq (randomOwnerToken E []) (\<lambda>state.
    seq (randomOwnerToken E []) (\<lambda>verifier.
    case oa_AuthorizationURL a
        \<lparr>oq_Connection = application_connection subject app, oq_ClientID = oap_ClientID app, oq_RedirectURI = oap_RedirectURI app,
         oq_Scopes = ain_Scopes input, oq_State = state, oq_CodeChallenge = ev_challenge E verifier\<rparr> of
      Inl _ \<Rightarrow> throw (Errorf ''Integration OAuth authorization configuration is invalid'' [])
    | Inr target \<Rightarrow>
        seq (of_result (encrypt E (sub_WorkspaceID subject) sid verifier ''Integration OAuth session encryption failed'')) (\<lambda>ciphertext.
        seq (now E) (\<lambda>t.
        let s = zero_session\<lparr>oas_ID := sid, oas_Status := ''pending'', oas_ApplicationKey := oap_Key app, oas_Scope := ain_Scope input,
                  oas_RequestedScopes := ain_Scopes input, oas_ExpiresAt := format_rfc3339nano (t + 10 * minute)\<rparr>;
            r = \<lparr>osr_Session = s, osr_Name = trim_space (ain_Name input), osr_Revision = [], osr_VerifierCiphertext = [],
                 osr_ExchangeDeadline = []\<rparr> in
        seq (ownerNow E) (\<lambda>stamp.
        seq (insert_into E sessions_table
          [(''id'', Text sid), (''workspace_id'', Text (sub_WorkspaceID subject)), (''user_id'', Text (sub_UserID subject)),
           (''application_key'', Text (oap_Key app)), (''application_revision'', Text (oap_UpdatedAt app)),
           (''state_hash'', Text (oauthHash E state)), (''status'', Text ''pending''), (''session_json'', session_json C r),
           (''verifier_ciphertext'', Text ciphertext), (''expires_at'', Text (oas_ExpiresAt s)), (''exchange_deadline'', Text []),
           (''created_at'', Text stamp), (''updated_at'', Text stamp)]) (\<lambda>_.
        ret (s\<lparr>oas_AuthorizationURL := target\<rparr>)))))))))))))))"

section \<open>Reading an authorization\<close>

definition bad_time :: err where
  "bad_time = Errorf ''parsing time'' []"

text \<open>The status of a session once its time is looked at.\<close>

definition due_status :: "env \<Rightarrow> oauthSessionRecord \<Rightarrow> string dbop" where
  "due_status E s =
    (let previous = oas_Status (osr_Session s) in
     case parse_rfc3339 (oas_ExpiresAt (osr_Session s)) of None \<Rightarrow> throw bad_time | Some expires \<Rightarrow>
     seq (now E) (\<lambda>t.
     if previous = ''pending'' \<and> expires \<le> t then ret ''expired''
     else if previous = ''exchanging'' then
       (case parse_rfc3339 (osr_ExchangeDeadline s) of None \<Rightarrow> throw bad_time | Some deadline \<Rightarrow>
        seq (now E) (\<lambda>t. ret (if deadline \<le> t then ''needs_reauthorization'' else previous)))
     else ret previous))"

definition session_account :: "env \<Rightarrow> ConnectionAccountSubject \<Rightarrow> OAuthAuthorizationSession \<Rightarrow> OAuthAuthorizationSession dbop" where
  "session_account E subject s =
    (case oas_Account s of
       None \<Rightarrow> ret s
     | Some a \<Rightarrow> seq (GetConnectionAccount E subject (ca_Key a)) (\<lambda>account. ret (s\<lparr>oas_Account := Some account\<rparr>)))"

definition GetOAuthAuthorization ::
    "env \<Rightarrow> oauth_port \<Rightarrow> ConnectionAccountSubject \<Rightarrow> string \<Rightarrow> OAuthAuthorizationSession dbop" where
  "GetOAuthAuthorization E C subject sid =
    seq (of_result (normalizedConnectionAccountSubject E subject)) (\<lambda>subject.
    case requireConnectionAccountSubjectScope (ev_scope E) subject of Some e \<Rightarrow> throw e | None \<Rightarrow>
    seq (readOAuthSession E C subject (Equal ''id'' (Text (trim_space sid)))) (\<lambda>s.
    seq (due_status E s) (\<lambda>status.
    let previous = oas_Status (osr_Session s) in
    seq (if previous \<noteq> status then updateOAuthSession E C subject (in_status s status) previous else ret ()) (\<lambda>_.
    session_account E subject (osr_Session (in_status s status))))))"

section \<open>Completing an authorization\<close>

record OAuthAuthorizationCallback =
  cb_State :: string
  cb_Code :: string
  cb_Error :: string

definition callback_valid :: "OAuthAuthorizationCallback \<Rightarrow> bool" where
  "callback_valid c \<longleftrightarrow> 32 \<le> length (cb_State c) \<and> length (cb_State c) \<le> 512 \<and> (cb_Code c = [] \<longleftrightarrow> cb_Error c \<noteq> [])"

text \<open>The credentials are written as the owner of the workspace, for the user.\<close>

definition trusted_scope :: "ConnectionAccountSubject \<Rightarrow> AccessScope" where
  "trusted_scope subject =
    \<lparr>as_WorkspaceID = sub_WorkspaceID subject, as_PermissionKey = ''integration.oauth_authorizations.complete'',
     as_ActorID = sub_UserID subject, as_ActorOrgID = [], as_Unrestricted = True, as_AllowedUserIDs = [], as_AllowedOrgIDs = [],
     as_DeniedAll = False, as_DeniedUserIDs = [], as_DeniedOrgIDs = []\<rparr>"

definition store_credential :: "env \<Rightarrow> ConnectionAccountSubject \<Rightarrow> string \<Rightarrow> string \<times> string \<Rightarrow> (string \<times> string) dbop" where
  "store_credential E subject sid = (\<lambda>(field, v).
    let key = sid @ ''_'' @ field in
    seq (upsert_secret E (sub_WorkspaceID subject) key (sub_UserID subject)
           \<lparr>sin_Kind = field, sin_Value = v, sin_Description = [], sin_ExpiresAt = []\<rparr>) (\<lambda>_.
    ret (field, ''secret:'' @ key)))"

definition account_config :: "provider \<Rightarrow> OAuthApplication \<Rightarrow> OAuthTokens \<Rightarrow> (string \<times> json) list" where
  "account_config p app tokens =
    (if list_ex (\<lambda>field. cf_Key field = ''scope'') (pv_ConfigFields p)
     then obj_put ''scope'' (JStr (join_text '' '' (ot_GrantedScopes tokens))) (oap_ConnectionConfig app)
     else oap_ConnectionConfig app)"

text \<open>
  The connection, its four credentials, the account and the granted scopes, and the status
  \<open>connected\<close>: the body of the transaction that ends an exchange.
\<close>

definition connect_account ::
    "env \<Rightarrow> oauth_port \<Rightarrow> ConnectionAccountSubject \<Rightarrow> oauthSessionRecord \<Rightarrow> OAuthApplication \<Rightarrow> provider \<Rightarrow> string \<Rightarrow>
     OAuthTokens \<Rightarrow> oauthSessionRecord dbop" where
  "connect_account E C subject s app p secret tokens =
    (let sid = oas_ID (osr_Session s); key = ''account_'' @ sid; T = E\<lparr>ev_scope := Some (trusted_scope subject)\<rparr>;
         ws = sub_WorkspaceID subject in
     seq (try_op (readOAuthSession E C subject (Equal ''id'' (Text sid)))) (\<lambda>current.
     seq (check (case current of Inl _ \<Rightarrow> False | Inr c \<Rightarrow> oas_Status (osr_Session c) = ''exchanging'') session_changed) (\<lambda>_.
     seq (enabled_application E C ws (oap_Key app) (\<lambda>a. oap_UpdatedAt a = osr_Revision s) application_changed) (\<lambda>_.
     seq (at_step (\<lambda>n. Inr (og_Order C n
            [(''access_token'', ot_AccessToken tokens), (''refresh_token'', ot_RefreshToken tokens), (''client_id'', oap_ClientID app),
             (''client_secret'', secret)]))) (\<lambda>credentials.
     seq (each (store_credential T subject sid) credentials) (\<lambda>refs.
     seq (upsert_connection T ws key (sub_UserID subject)
            \<lparr>cni_ConnectorKey = oap_ConnectorKey app, cni_ProviderKey = oap_ProviderKey app, cni_Name = osr_Name s,
             cni_Status = ''active'', cni_Config = account_config p app tokens, cni_SecretRefs = refs\<rparr>) (\<lambda>_.
     seq (seq (register_guards T ws key (sub_UserID subject)
                \<lparr>reg_Scope = oas_Scope (osr_Session s),
                 reg_OwnerUserID = (if oas_Scope (osr_Session s) = ScopePersonal then sub_UserID subject else [])\<rparr>)
            (\<lambda>(ws, key, actorID, input). register_body T ws key actorID input)) (\<lambda>account.
     seq (saveConnectionGrant E ws key (ot_GrantedScopes tokens)) (\<lambda>_.
     seq (enrichAccountReadiness E account) (\<lambda>account.
     let s = s\<lparr>osr_Session := (osr_Session s)\<lparr>oas_Status := ''connected'', oas_GrantedScopes := ot_GrantedScopes tokens,
                                             oas_Account := Some account\<rparr>\<rparr> in
     seq (updateOAuthSession E C subject s ''exchanging'') (\<lambda>_. ret s)))))))))))"

text \<open>What becomes of a claimed session: the code is exchanged once, and the answer is recorded.\<close>

definition exchange_request ::
    "ConnectionAccountSubject \<Rightarrow> oauthSessionRecord \<Rightarrow> OAuthApplication \<Rightarrow> string \<Rightarrow> string \<Rightarrow> string \<Rightarrow> OAuthCodeExchangeRequest" where
  "exchange_request subject s app secret verifier code =
    \<lparr>ox_Connection = application_connection subject app, ox_ClientID = oap_ClientID app, ox_ClientSecret = secret,
     ox_RedirectURI = oap_RedirectURI app, ox_RequestedScopes = oas_RequestedScopes (osr_Session s), ox_Code = code,
     ox_CodeVerifier = verifier\<rparr>"

definition settle_exchange ::
    "env \<Rightarrow> oauth_port \<Rightarrow> ConnectionAccountSubject \<Rightarrow> oauthSessionRecord \<Rightarrow> OAuthApplication \<Rightarrow> provider \<Rightarrow> string \<Rightarrow>
     err + OAuthTokens \<Rightarrow> OAuthAuthorizationSession dbop" where
  "settle_exchange E C subject s app p secret answer =
    (case answer of
      Inl e \<Rightarrow>
        (let s = in_status s (case e of ProviderErr (Some ErrorPermanent) t \<Rightarrow> ''rejected'' | _ \<Rightarrow> ''needs_reauthorization'') in
         seq (try_op (updateOAuthSession E C subject s ''exchanging'')) (\<lambda>r. case r of
           Inl _ \<Rightarrow> throw (Errorf ''Integration OAuth result could not be persisted'' [])
         | Inr _ \<Rightarrow> ret (osr_Session s)))
    | Inr tokens \<Rightarrow>
        if ot_AccessToken tokens = [] \<or> ot_RefreshToken tokens = [] \<or> ot_TokenType tokens \<noteq> ''Bearer'' then
          (let s = in_status s ''needs_reauthorization'' in
           seq (updateOAuthSession E C subject s ''exchanging'') (\<lambda>_. ret (osr_Session s)))
        else
          seq (rescue (transaction E (connect_account E C subject s app p secret tokens))) (\<lambda>r. case r of
            Inl _ \<Rightarrow> throw (Errorf
              ''Integration OAuth credentials could not be committed; inspect session before starting a new authorization'' [])
          | Inr s \<Rightarrow> ret (osr_Session s)))"

definition exchange_code ::
    "env \<Rightarrow> oauth_port \<Rightarrow> ConnectionAccountSubject \<Rightarrow> oauthSessionRecord \<Rightarrow> OAuthApplication \<Rightarrow> provider \<Rightarrow> OAuthAuthorizer \<Rightarrow>
     string \<Rightarrow> OAuthCodeExchangeRequest \<Rightarrow> OAuthAuthorizationSession dbop" where
  "exchange_code E C subject s app p a secret request =
    seq (record_call (OAuthExchange request) (\<lambda>n. oa_Exchange a n request)) (settle_exchange E C subject s app p secret)"

definition complete_pending ::
    "env \<Rightarrow> oauth_port \<Rightarrow> ConnectionAccountSubject \<Rightarrow> OAuthAuthorizationCallback \<Rightarrow> oauthSessionRecord \<Rightarrow>
     OAuthAuthorizationSession dbop" where
  "complete_pending E C subject callback s =
    seq (enabled_application E C (sub_WorkspaceID subject) (oas_ApplicationKey (osr_Session s)) (\<lambda>a. oap_UpdatedAt a = osr_Revision s)
           (Errorf ''Integration OAuth application changed; restart authorization'' [])) (\<lambda>(app, ciphertext).
    if cb_Error callback \<noteq> [] then
      (let s = in_status s ''rejected'' in
       seq (updateOAuthSession E C subject s ''pending'') (\<lambda>_. ret (osr_Session s)))
    else
      seq (of_result (application_provider E app)) (\<lambda>(p, a).
      seq (of_result (decrypt E (sub_WorkspaceID subject) (''oauth_application_'' @ oap_Key app) ciphertext
             ''Integration OAuth application credentials are unavailable'')) (\<lambda>secret.
      seq (of_result (decrypt E (sub_WorkspaceID subject) (oas_ID (osr_Session s)) (osr_VerifierCiphertext s)
             ''Integration OAuth verifier is unavailable'')) (\<lambda>verifier.
      seq (now E) (\<lambda>t.
      let s = (in_status s ''exchanging'')\<lparr>osr_ExchangeDeadline := format_rfc3339nano (t + minute)\<rparr> in
      seq (updateOAuthSession E C subject s ''pending'') (\<lambda>_.
      exchange_code E C subject s app p a secret (exchange_request subject s app secret verifier (cb_Code callback))))))))"

definition CompleteOAuthAuthorization ::
    "env \<Rightarrow> oauth_port \<Rightarrow> ConnectionAccountSubject \<Rightarrow> OAuthAuthorizationCallback \<Rightarrow> OAuthAuthorizationSession dbop" where
  "CompleteOAuthAuthorization E C subject callback =
    seq (of_result (normalizedConnectionAccountSubject E subject)) (\<lambda>subject.
    case requireConnectionAccountSubjectScope (ev_scope E) subject of Some e \<Rightarrow> throw e | None \<Rightarrow>
    seq (check (callback_valid callback) (Errorf ''Integration OAuth callback is invalid'' [])) (\<lambda>_.
    seq (readOAuthSession E C subject (Equal ''state_hash'' (Text (oauthHash E (cb_State callback))))) (\<lambda>s.
    seq (GetOAuthAuthorization E C subject (oas_ID (osr_Session s))) (\<lambda>session.
    if oas_Status session \<noteq> ''pending'' then ret session
    else complete_pending E C subject callback s))))"

end
