(* ===== verification/OAuthSessions.thy ===== *)
theory OAuthSessions
  imports OAuth
begin

text \<open>
  What an authorization session goes through: the moves between its states, which no operation and no
  interleaving leaves, the single exchange of its code, and the credentials that appear together with the
  status \<open>connected\<close> or not at all.
\<close>

section \<open>Operations that spare a table\<close>

context evolution
begin

text \<open>What follows a step, where the result of the step is known.\<close>

lemma within_seq_result:
  assumes "within m" and "\<And>s x t. m s = (Inr x, t) \<Longrightarrow> within (f x)"
  shows "within (seq m f)"
proof (rule within_I)
  fix s
  show "R s (snd (seq m f s))"
  proof (cases "m s")
    case (Pair r t)
    have "R s t" by (rule within_D [OF assms(1) Pair])
    moreover have "R t (snd (f x t))" if "r = Inr x" for x
      using assms(2) Pair that by (simp add: within_def)
    ultimately show ?thesis using Pair chains by (cases r) (auto simp: seq_apply)
  qed
qed

end

text \<open>A relation in which everything stays that happens to other tables than one.\<close>

locale spares = store_reads +
  fixes T :: string
  assumes spared_insert: "t \<noteq> T \<Longrightarrow> within (insert_into E t cs)"
    and spared_update: "t \<noteq> T \<Longrightarrow> within (update_set E t cs p)"
    and spared_delete: "t \<noteq> T \<Longrightarrow> within (delete_from E t p)"
    and elsewhere: "T \<notin> {secrets_table, materials_table, connections_table, accounts_table, account_secrets_table, grants_table, applications_table}"
begin

lemma spared_guarded_update: "t \<noteq> T \<Longrightarrow> within (guarded_update E t cs p)"
  unfolding guarded_update_def by (rule spared_update)

lemma tables_spared:
  "secrets_table \<noteq> T" "materials_table \<noteq> T" "connections_table \<noteq> T" "accounts_table \<noteq> T" "account_secrets_table \<noteq> T"
  "grants_table \<noteq> T" "applications_table \<noteq> T"
  using elsewhere by auto

lemma within_requireAll: "within (requireAll F ws)"
  unfolding requireAll_def by (intro within_reads)

lemma within_scoped_key: "within (scoped_key F ws c k)"
  unfolding scoped_key_def by (intro within_reads)

lemma within_stamp: "within (ownerNow E)"
  unfolding ownerNow_def by (intro within_reads)

lemma within_wrapped: "within m \<Longrightarrow> within (wrapped f m)"
  unfolding wrapped_def by (intro within_reads)

lemmas within_spared = within_reads spared_insert spared_update spared_delete spared_guarded_update tables_spared within_requireAll
  within_scoped_key within_stamp within_wrapped within_GetConnection within_getSecret

lemma ownerNow_scope: "ownerNow (E\<lparr>ev_scope := x\<rparr>) = ownerNow E"
  by (simp add: ownerNow_def operations_scope)

lemma delete_scope: "delete_from (E\<lparr>ev_scope := x\<rparr>) = delete_from E"
  by (simp add: fun_eq_iff delete_from_def)

lemma within_material: "within (upsertSecretMaterial (E\<lparr>ev_scope := x\<rparr>) ws key ct stamp)"
  unfolding upsertSecretMaterial_def operations_scope by (intro within_spared)

lemma within_upsert_secret: "within (upsert_secret (E\<lparr>ev_scope := x\<rparr>) ws key a input)"
  unfolding upsert_secret_def store_secret_def Let_def operations_scope ownerNow_scope by (intro within_spared within_material)

lemma within_sync: "within (syncConnectionAccountSecrets (E\<lparr>ev_scope := x\<rparr>) c)"
  unfolding syncConnectionAccountSecrets_def rejectReservedAccountSecrets_def reserved_by_other_def
    rejectExistingCredentialAliases_def alias_check_def require_active_material_def reserve_secret_def Let_def operations_scope
    ownerNow_scope delete_scope
  by (intro within_spared)

lemma within_upsert_connection: "within (upsert_connection (E\<lparr>ev_scope := x\<rparr>) ws key a input)"
  unfolding upsert_connection_def store_connection_def operations_scope ownerNow_scope by (intro within_spared within_sync)

lemma within_register:
  "within (register_guards (E\<lparr>ev_scope := x\<rparr>) ws key a input)" "within (register_body (E\<lparr>ev_scope := x\<rparr>) ws key a input)"
  unfolding register_guards_def register_body_def connectionAccount_def scanConnectionAccount_def Let_def operations_scope ownerNow_scope
  by (intro within_spared within_sync)+

lemma within_grant: "within (saveConnectionGrant E ws key scopes)"
  unfolding saveConnectionGrant_def by (intro within_spared)

end

section \<open>The states of a session\<close>

inductive session_move :: "string \<Rightarrow> string \<Rightarrow> bool" where
  expires: "session_move ''pending'' ''expired''"
| denied: "session_move ''pending'' ''rejected''"
| claimed: "session_move ''pending'' ''exchanging''"
| refused: "session_move ''exchanging'' ''rejected''"
| lost: "session_move ''exchanging'' ''needs_reauthorization''"
| connected: "session_move ''exchanging'' ''connected''"

inductive_cases to_pending: "session_move s ''pending''"
inductive_cases to_connected: "session_move s ''connected''"
inductive_cases from_connected: "session_move ''connected'' s"
inductive_cases from_rejected: "session_move ''rejected'' s"
inductive_cases from_expired: "session_move ''expired'' s"
inductive_cases from_lost: "session_move ''needs_reauthorization'' s"
inductive_simps from_pending: "session_move ''pending'' s"
inductive_simps from_exchanging: "session_move ''exchanging'' s"

text \<open>A session that has left \<open>pending\<close> is never pending again, and the four last states are final.\<close>

lemma never_pending_again: "session_move\<^sup>*\<^sup>* s ''pending'' \<Longrightarrow> s = ''pending''"
  by (erule rtranclp.cases) (auto elim: to_pending)

lemma final_states:
  assumes "session_move\<^sup>*\<^sup>* s s'" and "s \<in> {''expired'', ''rejected'', ''needs_reauthorization'', ''connected''}"
  shows "s' = s"
  using assms by (induction rule: converse_rtranclp_induct)
    (auto elim: from_connected from_rejected from_expired from_lost)

text \<open>The JSON form of a session keeps its identifier.\<close>

definition port_ok :: "oauth_port \<Rightarrow> bool" where
  "port_ok C \<longleftrightarrow> (\<forall>s. \<exists>s'. og_ReadSession C (og_Session C s) = Some s' \<and> oas_ID s' = oas_ID s)"

text \<open>
  The rows of the sessions: the document of a row holds the session of its own identifier, and no two rows share
  their identifier or state. Progress: every row is still there, in a state that its moves lead to, and a row that
  moved has no verifier any more.
\<close>

definition session_row :: "oauth_port \<Rightarrow> row \<Rightarrow> bool" where
  "session_row C r \<longleftrightarrow>
    (case decode_session C (doc_of (r ''session_json'')) of None \<Rightarrow> False | Some (s, name) \<Rightarrow> r ''id'' = Text (oas_ID s)) \<and>
    (\<exists>s. r ''status'' = Text s) \<and> (\<exists>h. r ''state_hash'' = Text h)"

definition sessions_ok :: "oauth_port \<Rightarrow> database \<Rightarrow> bool" where
  "sessions_ok C d \<longleftrightarrow> port_ok C \<and> keyed d sessions_table \<and> all_rows sessions_table (session_row C) d"

definition row_moves :: "row \<Rightarrow> row \<Rightarrow> bool" where
  "row_moves r r' \<longleftrightarrow> r' ''id'' = r ''id'' \<and> r' ''state_hash'' = r ''state_hash'' \<and>
    session_move\<^sup>*\<^sup>* (text_of (r ''status'')) (text_of (r' ''status'')) \<and>
    (r' ''verifier_ciphertext'' = Text [] \<or> r' ''status'' = r ''status'' \<and> r' ''verifier_ciphertext'' = r ''verifier_ciphertext'')"

definition sessions_progress :: "database \<Rightarrow> database \<Rightarrow> bool" where
  "sessions_progress d d' \<longleftrightarrow> (\<forall>r \<in> set (d sessions_table). \<exists>r' \<in> set (d' sessions_table). row_moves r r')"

definition sessions_evolve :: "oauth_port \<Rightarrow> database \<Rightarrow> database \<Rightarrow> bool" where
  "sessions_evolve C d d' \<longleftrightarrow> (sessions_ok C d \<longrightarrow> sessions_ok C d' \<and> sessions_progress d d')"

lemma decode_session_json:
  "port_ok C \<Longrightarrow> \<exists>s' name. decode_session C (doc_of (session_json C s)) = Some (s', name) \<and> oas_ID s' = oas_ID (osr_Session s)"
  by (auto simp: port_ok_def decode_session_def session_json_def decode_string_def split: option.splits)
    (metis option.distinct(1) option.inject)

lemma row_moves_refl: "row_moves r r"
  by (simp add: row_moves_def)

lemma row_moves_trans: "row_moves a b \<Longrightarrow> row_moves b c \<Longrightarrow> row_moves a c"
  by (auto simp: row_moves_def)

lemma sessions_evolve_refl: "sessions_evolve C d d"
  using row_moves_refl by (auto simp: sessions_evolve_def sessions_progress_def)

lemma sessions_evolve_trans: "sessions_evolve C a b \<Longrightarrow> sessions_evolve C b c \<Longrightarrow> sessions_evolve C a c"
  unfolding sessions_evolve_def sessions_progress_def using row_moves_trans by blast

lemma sessions_ok_cong: "d' sessions_table = d sessions_table \<Longrightarrow> sessions_ok C d' = sessions_ok C d"
  by (simp add: sessions_ok_def keyed_def all_rows_def)

lemma sessions_evolve_elsewhere:
  assumes "d' sessions_table = d sessions_table"
  shows "sessions_evolve C d d'"
proof -
  have "sessions_progress d d'" using row_moves_refl by (auto simp: sessions_progress_def assms)
  moreover have "sessions_ok C d' = sessions_ok C d" by (rule sessions_ok_cong) (rule assms)
  ultimately show ?thesis by (simp add: sessions_evolve_def)
qed

section \<open>What operations do to the sessions\<close>

lemma sessions_elsewhere:
  "sessions_table \<notin> {secrets_table, materials_table, connections_table, accounts_table, account_secrets_table, grants_table, applications_table}"
  by (simp add: sessions_table_def secrets_table_def materials_table_def connections_table_def accounts_table_def
      account_secrets_table_def grants_table_def applications_table_def)

lemma sessions_not_fences [simp]: "sessions_table \<noteq> fences" "fences \<noteq> sessions_table"
  by (simp_all add: sessions_table_def fences_def)

interpretation evolving: evolution "db_within (sessions_evolve C) E" for C E
  by unfold_locales (auto simp: db_within_def intro: sessions_evolve_refl sessions_evolve_trans)

lemma evolving_statement:
  assumes "\<And>d. sessions_evolve C d (snd (f d))"
  shows "evolving.within C E (statement E f)"
  unfolding evolving.within_def db_within_def
proof (intro allI impI)
  fix w
  assume peers: "\<forall>n d. sessions_evolve C d (ev_others E n d)"
  let ?d = "w_db (before_step E w)"
  have "sessions_evolve C (w_db w) ?d" using peers sessions_evolve_refl by (simp add: before_step_def)
  moreover have "sessions_evolve C ?d (snd (f ?d))" by (rule assms)
  ultimately show "sessions_evolve C (w_db w) (w_db (snd (statement E f w)))"
    using sessions_evolve_trans by (cases "f ?d"; cases "ev_fault E (w_step w)") (auto simp: statement_def Let_def)
qed

interpretation evolving: spares "db_within (sessions_evolve C) E" E sessions_table for C E
proof unfold_locales
  show "evolving.within C E (select E t p)" for t p
    unfolding select_def by (rule evolving_statement) (simp add: sessions_evolve_refl)
  show "t \<noteq> sessions_table \<Longrightarrow> evolving.within C E (insert_into E t cs)" for t cs
    unfolding insert_into_def
    by (rule evolving_statement) (auto intro!: sessions_evolve_elsewhere simp: insert_row_def Let_def)
  show "t \<noteq> sessions_table \<Longrightarrow> evolving.within C E (update_set E t cs p)" for t cs p
    unfolding update_set_def by (rule evolving_statement) (auto intro!: sessions_evolve_elsewhere simp: update_rows_def)
  show "t \<noteq> sessions_table \<Longrightarrow> evolving.within C E (delete_from E t p)" for t p
    unfolding delete_from_def by (rule evolving_statement) (auto intro!: sessions_evolve_elsewhere simp: delete_rows_def)
  show "db_within (sessions_evolve C) E w (before_step E w)" for w
    using sessions_evolve_refl by (simp add: db_within_def before_step_def)
qed (use sessions_elsewhere sessions_evolve_refl in \<open>auto simp: db_within_def\<close>)

interpretation quiet: spares quiet E sessions_table for E
proof unfold_locales
  show "quiet.within (update_set E t cs p)" for t cs p
    by (simp add: quiet.within_def quiet_def update_set_def statement_calls)
  show "quiet.within (delete_from E t p)" for t p
    by (simp add: quiet.within_def quiet_def delete_from_def statement_calls)
qed (use sessions_elsewhere in \<open>auto intro: quiet.within_insert\<close>)

section \<open>Every operation moves the sessions forward\<close>

lemma session_where_holds:
  "holds d r (session_where subject ps) \<longleftrightarrow> r ''workspace_id'' = Text (sub_WorkspaceID subject) \<and> r ''user_id'' = Text (sub_UserID subject) \<and>
    (\<forall>p \<in> set ps. holds d r p)"
  by (auto simp: session_where_def where_simps)

definition update_columns :: "oauth_port \<Rightarrow> oauthSessionRecord \<Rightarrow> string \<Rightarrow> (string \<times> sql) list" where
  "update_columns C s stamp =
    [(''status'', Text (oas_Status (osr_Session s))), (''session_json'', session_json C s), (''verifier_ciphertext'', Text []),
     (''exchange_deadline'', Text (osr_ExchangeDeadline s)), (''updated_at'', Text stamp)]"

lemma updated_session_row:
  assumes "port_ok C" "session_row C r" "r ''id'' = Text (oas_ID (osr_Session s))"
  shows "session_row C (set_columns (update_columns C s stamp) r)"
  using decode_session_json [OF assms(1), of s] assms(2,3) by (auto simp: session_row_def update_columns_def)

lemma sessions_keys [simp]: "unique_keys sessions_table = [[''id''], [''state_hash'']]"
  by (simp add: unique_keys_def sessions_table_def)

lemma session_update_evolves:
  assumes "session_move previous (oas_Status (osr_Session s))"
  shows "sessions_evolve C d (snd (update_rows sessions_table (set_columns (update_columns C s stamp))
    (And [subjectRowWriteAllowed sessions_table,
          session_where subject [Equal ''id'' (Text (oas_ID (osr_Session s))), Equal ''status'' (Text previous)]]) d))"
    (is "sessions_evolve C d (snd (update_rows _ (set_columns ?cs) ?p d))")
  unfolding sessions_evolve_def
proof (intro impI conjI)
  let ?d = "snd (update_rows sessions_table (set_columns ?cs) ?p d)"
  assume ok: "sessions_ok C d"
  then have port: "port_ok C" by (simp add: sessions_ok_def)
  have holds_p: "r ''id'' = Text (oas_ID (osr_Session s)) \<and> r ''status'' = Text previous" if "holds d r ?p" for r
    using that by (simp add: where_simps session_where_holds)
  have "keyed ?d sessions_table"
  proof (rule keyed_update)
    show "keyed d sessions_table" using ok by (simp add: sessions_ok_def)
    show "set_columns ?cs r c = r c" if "ks \<in> set (unique_keys sessions_table)" "c \<in> set ks" for r c ks
    proof -
      have "c = ''id'' \<or> c = ''state_hash''" using that by auto
      then show ?thesis by (elim disjE) (simp_all add: update_columns_def)
    qed
  qed
  moreover have "all_rows sessions_table (session_row C) ?d"
  proof (rule all_rows_update [where P = "session_row C"])
    show "all_rows sessions_table (session_row C) d" using ok by (simp add: sessions_ok_def)
    show "session_row C (set_columns ?cs r)" if "session_row C r" "holds d r ?p" for r
      using updated_session_row [OF port that(1)] holds_p [OF that(2)] by blast
  qed
  ultimately show "sessions_ok C ?d" using port by (simp add: sessions_ok_def)
  have moves: "row_moves r (set_columns ?cs r)" if "holds d r ?p" for r
    using holds_p [OF that] assms by (auto simp: row_moves_def update_columns_def)
  show "sessions_progress d ?d"
    unfolding sessions_progress_def
  proof
    fix r
    assume r: "r \<in> set (d sessions_table)"
    let ?r = "if holds d r ?p then set_columns ?cs r else r"
    have "?r \<in> set (?d sessions_table)" using r by (simp add: update_rows_def)
    moreover have "row_moves r ?r" using moves [of r] row_moves_refl by simp
    ultimately show "\<exists>r' \<in> set (?d sessions_table). row_moves r r'" by blast
  qed
qed

lemma session_insert_evolves:
  assumes "port_ok C \<Longrightarrow> session_row C (row_of cs)"
  shows "sessions_evolve C d (snd (insert_row sessions_table cs d))"
  unfolding sessions_evolve_def sessions_progress_def
proof (intro impI conjI ballI)
  assume "sessions_ok C d"
  then show "sessions_ok C (snd (insert_row sessions_table cs d))"
    using keyed_insert assms by (auto simp: sessions_ok_def intro: all_rows_insert)
  show "\<exists>r' \<in> set (snd (insert_row sessions_table cs d) sessions_table). row_moves r r'" if "r \<in> set (d sessions_table)" for r
    using row_stays_insert [where d = d and t = sessions_table, OF that] row_moves_refl by blast
qed

lemma due_status_moves: "due_status E s w = (Inr status, w') \<Longrightarrow> status = oas_Status (osr_Session s) \<or> session_move (oas_Status (osr_Session s)) status"
  by (auto simp: due_status_def Let_def op_Inr case_Inr now_Inr split: if_splits option.splits intro: session_move.intros)

section \<open>Operations on sessions in general\<close>

text \<open>A relation in which everything stays that reads do, and the update of a session.\<close>

locale session_reads = store_reads R E for R E +
  fixes C :: oauth_port
  assumes update_within: "session_move previous (oas_Status (osr_Session s)) \<Longrightarrow> within (updateOAuthSession E C subject s previous)"
begin

lemma update_to: "session_move previous status \<Longrightarrow> within (updateOAuthSession E C subject (in_status s status) previous)"
  by (rule update_within) (simp add: in_status_def)

lemma within_readOAuthSession: "within (readOAuthSession E C subject p)"
  unfolding readOAuthSession_def by (intro within_reads)

lemma within_oauthApplication: "within (oauthApplication E C ws key)"
  unfolding oauthApplication_def by (intro within_reads)

lemma within_enabled_application: "within (enabled_application E C ws key ok e)"
  unfolding enabled_application_def by (intro within_reads within_oauthApplication)

lemma within_due_status: "within (due_status E s)"
  unfolding due_status_def Let_def by (intro within_reads)

lemma within_session_account: "within (session_account E subject s)"
  unfolding session_account_def by (intro within_reads within_GetConnectionAccount)

lemma within_randomOwnerToken: "within (randomOwnerToken E prefix)"
  unfolding randomOwnerToken_def by (intro within_reads)

lemma within_GetOAuthAuthorization: "within (GetOAuthAuthorization E C subject sid)"
proof -
  have moves: "within
      (seq (if oas_Status (osr_Session s) \<noteq> status then updateOAuthSession E C subject (in_status s status) (oas_Status (osr_Session s)) else ret ())
        (\<lambda>_. session_account E subject (osr_Session (in_status s status))))"
    if "status = oas_Status (osr_Session s) \<or> session_move (oas_Status (osr_Session s)) status" for subject s status
    using that by (intro within_reads within_session_account update_to) auto
  show ?thesis
    unfolding GetOAuthAuthorization_def Let_def
    by (intro within_reads within_readOAuthSession within_seq_result [OF within_due_status] moves due_status_moves)
qed

end

text \<open>The same with the insertion of a session, and with everything that happens to other tables.\<close>

locale session_writes = session_reads R E C + spares R E sessions_table for R E C +
  assumes session_insert_within: "(port_ok C \<Longrightarrow> session_row C (row_of cs)) \<Longrightarrow> within (insert_into E sessions_table cs)"
begin

lemma within_StartOAuthAuthorization: "within (StartOAuthAuthorization E C subject input)"
proof -
  have row: "session_row C (row_of
          [(''id'', Text i), (''workspace_id'', w), (''user_id'', u), (''application_key'', k), (''application_revision'', v),
           (''state_hash'', Text h), (''status'', Text ''pending''), (''session_json'', session_json C r), (''verifier_ciphertext'', t),
           (''expires_at'', x), (''exchange_deadline'', y), (''created_at'', c), (''updated_at'', c)])"
    if "oas_ID (osr_Session r) = i" "port_ok C" for r i w u k v h t x y c
    using decode_session_json [OF that(2), of r] that(1) by (auto simp: session_row_def)
  show ?thesis
    unfolding StartOAuthAuthorization_def Let_def
    by (intro within_spared within_enabled_application within_randomOwnerToken session_insert_within row) simp_all
qed

lemma within_connect_account: "within (connect_account E C subject s app p secret tokens)"
  unfolding connect_account_def store_credential_def Let_def
  by (intro within_spared within_readOAuthSession within_enabled_application within_upsert_secret
      within_upsert_connection within_register within_grant within_enrich update_within) (simp add: session_move.connected)

lemma within_settle_exchange: "within (settle_exchange E C subject s app p secret answer)"
proof -
  have status: "session_move ''exchanging'' (case e of ProviderErr (Some ErrorPermanent) t \<Rightarrow> ''rejected'' | _ \<Rightarrow> ''needs_reauthorization'')" for e
    by (auto split: err.splits option.splits err_class.splits intro: session_move.intros)
  show ?thesis
    unfolding settle_exchange_def Let_def
    by (intro within_spared within_connect_account update_to status session_move.lost)
qed

end

interpretation evolving: session_writes "db_within (sessions_evolve C) E" E C for C E
proof unfold_locales
  show "evolving.within C E (updateOAuthSession E C subject s previous)" if "session_move previous (oas_Status (osr_Session s))"
    for subject s previous
    unfolding updateOAuthSession_def guarded_update_def update_set_def
    by (intro evolving.within_spared evolving_statement session_update_evolves [OF that, unfolded update_columns_def])
  show "evolving.within C E (insert_into E sessions_table cs)" if "port_ok C \<Longrightarrow> session_row C (row_of cs)" for cs
    unfolding insert_into_def by (intro evolving_statement session_insert_evolves that)
qed

interpretation quiet: session_writes quiet E C for E C
proof unfold_locales
  show "quiet.within (updateOAuthSession E C subject s previous)" for subject s previous
    unfolding updateOAuthSession_def
    by (intro quiet.within_reads quiet.within_stamp quiet.within_guarded_update) (simp_all add: keeps_identity_def)
qed (rule quiet.within_insert)

section \<open>The life of a session\<close>

lemma exchange_recorded: "evolving.within C E (record_call c answer)"
  by (simp add: evolving.within_def record_call_def db_within_def sessions_evolve_refl)

lemma exchange_code_evolves: "evolving.within C E (exchange_code E C subject s app p a secret request)"
  unfolding exchange_code_def by (intro evolving.within_spared exchange_recorded evolving.within_settle_exchange)

lemma complete_pending_evolves: "evolving.within C E (complete_pending E C subject callback s)"
  unfolding complete_pending_def Let_def
  by (intro evolving.within_spared evolving.within_enabled_application exchange_code_evolves evolving.update_to session_move.denied
      evolving.update_within) (simp add: in_status_def session_move.claimed)

lemma CompleteOAuthAuthorization_evolves: "evolving.within C E (CompleteOAuthAuthorization E C subject callback)"
  unfolding CompleteOAuthAuthorization_def
  by (intro evolving.within_spared evolving.within_readOAuthSession evolving.within_GetOAuthAuthorization complete_pending_evolves)

text \<open>
  C34. Under all faults, and with other processes that do the same, starting, reading and completing authorizations
  keep the rows of the sessions well-formed and only move them forward: pending to expired, rejected or
  exchanging, exchanging to rejected, needs_reauthorization or connected. No session is lost, none leaves one of the last
  four states, and a session that has moved holds no verifier any more.
\<close>

theorem sessions_only_move_forward:
  assumes "\<And>n d. sessions_evolve C d (ev_others E n d)"
  shows "sessions_evolve C (w_db w) (w_db (snd (StartOAuthAuthorization E C subject input w))) \<and>
    sessions_evolve C (w_db w) (w_db (snd (GetOAuthAuthorization E C subject sid w))) \<and>
    sessions_evolve C (w_db w) (w_db (snd (CompleteOAuthAuthorization E C subject callback w)))"
  using evolving.within_StartOAuthAuthorization evolving.within_GetOAuthAuthorization CompleteOAuthAuthorization_evolves assms
  unfolding evolving.within_def db_within_def by blast

section \<open>One exchange for one state\<close>

text \<open>A session that has left \<open>pending\<close>, found by the digest of its state.\<close>

definition session_taken :: "string \<Rightarrow> database \<Rightarrow> bool" where
  "session_taken h d \<longleftrightarrow> list_ex (\<lambda>r. r ''state_hash'' = Text h \<and> r ''status'' \<noteq> Text ''pending'') (d sessions_table)"

definition session_known :: "string \<Rightarrow> string \<Rightarrow> database \<Rightarrow> bool" where
  "session_known i h d \<longleftrightarrow> list_ex (\<lambda>r. r ''id'' = Text i \<and> r ''state_hash'' = Text h) (d sessions_table)"

lemma taken_kept:
  assumes "sessions_ok C d" and "sessions_evolve C d d'" and "session_taken h d"
  shows "session_taken h d'"
proof -
  from assms(3) obtain r where r: "r \<in> set (d sessions_table)" "r ''state_hash'' = Text h" "r ''status'' \<noteq> Text ''pending''"
    by (auto simp: session_taken_def list_ex_iff)
  from assms(1,2) r(1) obtain r' where r': "r' \<in> set (d' sessions_table)" "row_moves r r'" and ok: "sessions_ok C d'"
    by (auto simp: sessions_evolve_def sessions_progress_def)
  from assms(1) r(1) obtain st where st: "r ''status'' = Text st"
    by (auto simp: sessions_ok_def all_rows_def session_row_def)
  with r'(2) have "session_move\<^sup>*\<^sup>* st (text_of (r' ''status''))" by (simp add: row_moves_def)
  with st r(3) have "text_of (r' ''status'') \<noteq> ''pending''" using never_pending_again by fastforce
  then have "r' ''status'' \<noteq> Text ''pending''" by auto
  with r'(1,2) r(2) show ?thesis by (auto simp: session_taken_def list_ex_iff row_moves_def)
qed

lemma known_kept:
  assumes "sessions_ok C d" and "sessions_evolve C d d'" and "session_known i h d"
  shows "session_known i h d'"
  using assms by (fastforce simp: session_known_def list_ex_iff sessions_evolve_def sessions_progress_def row_moves_def)

text \<open>What a read and an update know of the database they leave.\<close>

lemma statement_fine: "statement E f w = (Inr x, w') \<Longrightarrow> f (w_db (before_step E w)) = (Inr x, w_db w')"
  by (cases "f (w_db (before_step E w))"; cases "ev_fault E (w_step w)") (auto simp: statement_def Let_def)

lemma row_or_error_Inr:
  assumes "row_or_error E t p w = (Inr r, w')"
  shows "r \<in> set (w_db w' t) \<and> holds (w_db w') r p"
proof -
  from assms obtain x where x: "statement E (\<lambda>d. (Inr (select_rows t p d), d)) w = (Inr x, w')"
    and r: "(case x of [] \<Rightarrow> None | r # rs \<Rightarrow> Some r) = Some r"
    by (auto simp: row_or_error_def select_row_def select_def op_Inr case_Inr)
  from statement_fine [OF x] have "x = select_rows t p (w_db w')" by auto
  moreover from r obtain rs where "x = r # rs" by (cases x) auto
  ultimately have "r \<in> set (select_rows t p (w_db w'))" by (metis list.set_intros(1))
  then show ?thesis by simp
qed

lemma read_known:
  assumes "readOAuthSession E C subject (Equal ''state_hash'' (Text h)) w = (Inr s, w')" and "sessions_ok C (w_db w')"
  shows "session_known (oas_ID (osr_Session s)) h (w_db w')"
proof -
  from assms(1) obtain r name st where read: "row_or_error E sessions_table (session_where subject [Equal ''state_hash'' (Text h)]) w = (Inr r, w')"
    and id: "decode_session C (doc_of (r ''session_json'')) = Some (st, name)" "oas_ID (osr_Session s) = oas_ID st"
    by (auto simp: readOAuthSession_def op_Inr case_Inr scan_texts_def split: if_splits)
  from row_or_error_Inr [OF read] have r: "r \<in> set (w_db w' sessions_table)" "r ''state_hash'' = Text h"
    by (simp_all add: session_where_holds where_simps)
  with assms(2) id have "r ''id'' = Text (oas_ID (osr_Session s))"
    by (auto simp: sessions_ok_def all_rows_def session_row_def)
  with r show ?thesis by (auto simp: session_known_def list_ex_iff)
qed

lemma update_takes:
  assumes run: "updateOAuthSession E C subject s ''pending'' w = (Inr (), w')" and "oas_Status (osr_Session s) \<noteq> ''pending''"
    and ok: "sessions_ok C (w_db (before_step E w))" and known: "session_known (oas_ID (osr_Session s)) h (w_db (before_step E w))"
  shows "\<not> session_taken h (w_db (before_step E w)) \<and> session_taken h (w_db w')"
proof -
  let ?d = "w_db (before_step E w)" and ?i = "oas_ID (osr_Session s)"
  from run obtain stamp n where upd: "update_rows sessions_table (set_columns (update_columns C s stamp))
      (And [subjectRowWriteAllowed sessions_table, session_where subject [Equal ''id'' (Text ?i), Equal ''status'' (Text ''pending'')]]) ?d =
      (Inr n, w_db w')" and n: "n \<noteq> 0"
    by (auto simp: updateOAuthSession_def ownerNow_def op_Inr now_Inr guarded_update_def update_set_def update_columns_def dest!: statement_fine)
  from update_rows_hit [OF upd n] obtain r where r: "r \<in> set (?d sessions_table)" "r ''id'' = Text ?i" "r ''status'' = Text ''pending''"
    "set_columns (update_columns C s stamp) r \<in> set (w_db w' sessions_table)"
    by (auto simp: where_simps session_where_holds)
  from known obtain q where q: "q \<in> set (?d sessions_table)" "q ''id'' = Text ?i" "q ''state_hash'' = Text h"
    by (auto simp: session_known_def list_ex_iff)
  have keyed: "keyed ?d sessions_table" using ok by (simp add: sessions_ok_def)
  have "q = r" by (rule keyed_id [OF keyed q(1) r(1)]) (simp_all add: q r)
  with q(3) have h: "r ''state_hash'' = Text h" by simp
  have "p = r" if "p \<in> set (?d sessions_table)" "p ''state_hash'' = Text h" for p
    by (rule keyed_rows [OF keyed that(1) r(1), of "[''state_hash'']"]) (simp_all add: same_key_def that h)
  with r(3) have "\<not> session_taken h ?d" by (auto simp: session_taken_def list_ex_iff)
  moreover have "session_taken h (w_db w')"
    using r(4) h assms(2) by (auto simp: session_taken_def list_ex_iff update_columns_def intro!: bexI [of _ "set_columns (update_columns C s stamp) r"])
  ultimately show ?thesis by simp
qed

text \<open>A run that makes one external call at most, and only while it takes the session.\<close>

definition takes_once :: "string \<Rightarrow> 'a dbop \<Rightarrow> world \<Rightarrow> bool" where
  "takes_once h m w \<longleftrightarrow> w_calls (snd (m w)) = w_calls w \<or>
    (\<exists>c. w_calls (snd (m w)) = w_calls w @ [c] \<and> \<not> session_taken h (w_db w) \<and> session_taken h (w_db (snd (m w))))"

definition peers_evolve :: "oauth_port \<Rightarrow> env \<Rightarrow> bool" where
  "peers_evolve C E \<longleftrightarrow> (\<forall>n d. sessions_evolve C d (ev_others E n d))"

lemma evolving_D: "peers_evolve C E \<Longrightarrow> evolving.within C E m \<Longrightarrow> m w = (r, u) \<Longrightarrow> sessions_evolve C (w_db w) (w_db u)"
  unfolding evolving.within_def db_within_def peers_evolve_def by (metis snd_conv)

lemma takes_once_quiet: "quiet.within m \<Longrightarrow> takes_once h m w"
  by (cases "m w") (auto simp: takes_once_def dest: quiet_D)

lemma takes_once_seq:
  assumes "peers_evolve C E" and ok: "sessions_ok C (w_db w)" and m: "evolving.within C E m" "quiet.within m"
    and f: "\<And>x u. m w = (Inr x, u) \<Longrightarrow> sessions_ok C (w_db u) \<Longrightarrow> sessions_evolve C (w_db w) (w_db u) \<Longrightarrow> takes_once h (f x) u"
  shows "takes_once h (seq m f) w"
proof (cases "m w")
  case (Pair r u)
  note calls = quiet_D [OF m(2) Pair] and ev = evolving_D [OF assms(1) m(1) Pair]
  then have ok': "sessions_ok C (w_db u)" and kept: "session_taken h (w_db w) \<Longrightarrow> session_taken h (w_db u)"
    using ok taken_kept by (auto simp: sessions_evolve_def)
  show ?thesis
  proof (cases r)
    case (Inr x)
    with f [of x u] Pair ok' ev calls kept show ?thesis by (auto simp: takes_once_def seq_apply)
  qed (use Pair calls in \<open>simp add: takes_once_def seq_apply\<close>)
qed

lemma before_step_evolves: "peers_evolve C E \<Longrightarrow> sessions_evolve C (w_db w) (w_db (before_step E w))"
  using sessions_evolve_refl by (simp add: peers_evolve_def before_step_def)

lemma exchange_code_calls:
  "\<exists>c. w_calls (snd (exchange_code E C subject s app p a secret request w)) = w_calls w @ [c]"
proof -
  let ?m = "settle_exchange E C subject s app p secret"
  have "w_calls (snd (?m answer u)) = w_calls u" for answer u
    using quiet.within_settle_exchange by (simp add: quiet.within_def quiet_def)
  then show ?thesis by (cases "oa_Exchange a (w_step w) request") (simp_all add: exchange_code_def seq_apply record_call_def)
qed

lemma update_exchange_once:
  assumes peers: "peers_evolve C E" and ok: "sessions_ok C (w_db w)" and known: "session_known (oas_ID (osr_Session s)) h (w_db w)"
    and status: "oas_Status (osr_Session s) = ''exchanging''"
  shows "takes_once h (seq (updateOAuthSession E C subject s ''pending'') (\<lambda>_. exchange_code E C subject s app p a secret request)) w"
proof (cases "updateOAuthSession E C subject s ''pending'' w")
  case (Pair r u)
  have calls: "w_calls u = w_calls w" by (rule quiet_D [OF quiet.update_within Pair]) (simp add: status session_move.claimed)
  show ?thesis
  proof (cases r)
    case (Inr x)
    let ?d = "w_db (before_step E w)"
    note ev = before_step_evolves [OF peers, of w]
    have "sessions_ok C ?d" "session_known (oas_ID (osr_Session s)) h ?d"
      using ev ok known_kept [OF ok ev known] by (simp_all add: sessions_evolve_def)
    from update_takes [OF _ _ this] Pair Inr status have "\<not> session_taken h ?d" and taken: "session_taken h (w_db u)" by auto
    then have free: "\<not> session_taken h (w_db w)" using taken_kept [OF ok ev] by blast
    have "sessions_evolve C (w_db w) (w_db u)"
      by (rule evolving_D [OF peers evolving.update_within Pair]) (simp add: status session_move.claimed)
    with ok have ok': "sessions_ok C (w_db u)" by (simp add: sessions_evolve_def)
    let ?v = "exchange_code E C subject s app p a secret request u"
    have "sessions_evolve C (w_db u) (w_db (snd ?v))"
      by (rule evolving_D [OF peers exchange_code_evolves]) (rule prod.collapse [symmetric])
    from taken_kept [OF ok' this taken] have "session_taken h (w_db (snd ?v))" .
    with exchange_code_calls [of E C subject s app p a secret request u] free calls Pair Inr
    show ?thesis by (auto simp: takes_once_def seq_apply)
  qed (use calls Pair in \<open>simp add: takes_once_def seq_apply\<close>)
qed

text \<open>Steps that touch neither the database nor the calls.\<close>

lemma takes_once_pure:
  "(\<And>y. x = Inr y \<Longrightarrow> takes_once h (f y) w) \<Longrightarrow> takes_once h (seq (of_result x) f) w"
  "takes_once h (g (ev_clock E (w_step w))) w \<Longrightarrow> takes_once h (seq (now E) g) w"
  "(b \<Longrightarrow> takes_once h m w) \<Longrightarrow> takes_once h (seq (check b e) (\<lambda>_. m)) w"
  "(\<And>a b. q = (a, b) \<Longrightarrow> takes_once h (k a b) w) \<Longrightarrow> takes_once h (case q of (a, b) \<Rightarrow> k a b) w"
  by (cases x; simp add: takes_once_def seq_apply of_result_apply now_def check_apply split: prod.splits)+

lemma complete_pending_once:
  assumes peers: "peers_evolve C E" and ok: "sessions_ok C (w_db w)" and known: "session_known (oas_ID (osr_Session s)) h (w_db w)"
  shows "takes_once h (complete_pending E C subject callback s) w"
  unfolding complete_pending_def
proof (rule takes_once_seq [OF peers ok evolving.within_enabled_application quiet.within_enabled_application], clarify)
  fix app ciphertext and u :: world
  assume ok: "sessions_ok C (w_db u)" and ev: "sessions_evolve C (w_db w) (w_db u)"
  have known: "session_known (oas_ID (osr_Session s)) h (w_db u)" by (rule known_kept [OF assms(2) ev known])
  let ?s = "\<lambda>t. (in_status s ''exchanging'')\<lparr>osr_ExchangeDeadline := format_rfc3339nano (t + minute)\<rparr>"
  have go: "takes_once h (seq (updateOAuthSession E C subject (?s t) ''pending'')
      (\<lambda>_. exchange_code E C subject (?s t) app p a secret (request (?s t)))) u" for t p a secret request
    by (rule update_exchange_once [OF peers ok]) (simp_all add: in_status_def known)
  show "takes_once h (if cb_Error callback \<noteq> [] then
      (let s = in_status s ''rejected'' in
       seq (updateOAuthSession E C subject s ''pending'') (\<lambda>_. ret (osr_Session s)))
    else
      seq (of_result (application_provider E app)) (\<lambda>(p, a).
      seq (of_result (decrypt E (sub_WorkspaceID subject) (''oauth_application_'' @ oap_Key app) ciphertext
             ''Integration OAuth application credentials are unavailable'')) (\<lambda>secret.
      seq (of_result (decrypt E (sub_WorkspaceID subject) (oas_ID (osr_Session s)) (osr_VerifierCiphertext s)
             ''Integration OAuth verifier is unavailable'')) (\<lambda>verifier.
      seq (now E) (\<lambda>t.
      let s = ?s t in
      seq (updateOAuthSession E C subject s ''pending'') (\<lambda>_.
      exchange_code E C subject s app p a secret (exchange_request subject s app secret verifier (cb_Code callback)))))))) u"
  proof (cases "cb_Error callback = []")
    case False
    have "quiet.within (seq (updateOAuthSession E C subject (in_status s ''rejected'') ''pending'') (\<lambda>_. ret (osr_Session (in_status s ''rejected''))))"
      by (intro quiet.within_spared quiet.update_to session_move.denied)
    from takes_once_quiet [OF this] False show ?thesis by (simp add: Let_def)
  next
    case True
    then show ?thesis unfolding Let_def by (simp only: if_False not_True_eq_False simp_thms) (intro takes_once_pure go)
  qed
qed

lemma takes_once_option:
  "(\<And>e. x = Some e \<Longrightarrow> takes_once h (f e) w) \<Longrightarrow> (x = None \<Longrightarrow> takes_once h m w) \<Longrightarrow>
    takes_once h (case x of Some e \<Rightarrow> f e | None \<Rightarrow> m) w"
  by (cases x) simp_all

lemma takes_once_throw: "takes_once h (throw e) w"
  by (simp add: takes_once_def)

lemma CompleteOAuthAuthorization_once:
  assumes peers: "peers_evolve C E" and ok: "sessions_ok C (w_db w)"
  shows "takes_once (oauthHash E (cb_State callback)) (CompleteOAuthAuthorization E C subject callback) w"
  unfolding CompleteOAuthAuthorization_def
proof (intro takes_once_pure takes_once_option takes_once_throw
    takes_once_seq [OF peers ok evolving.within_readOAuthSession quiet.within_readOAuthSession])
  fix subject s and u :: world
  let ?h = "oauthHash E (cb_State callback)"
  assume read: "readOAuthSession E C subject (Equal ''state_hash'' (Text ?h)) w = (Inr s, u)" and ok: "sessions_ok C (w_db u)"
  have known: "session_known (oas_ID (osr_Session s)) ?h (w_db u)" by (rule read_known [OF read ok])
  show "takes_once ?h (seq (GetOAuthAuthorization E C subject (oas_ID (osr_Session s))) (\<lambda>session.
    if oas_Status session \<noteq> ''pending'' then ret session else complete_pending E C subject callback s)) u"
  proof (rule takes_once_seq [OF peers ok evolving.within_GetOAuthAuthorization quiet.within_GetOAuthAuthorization])
    fix session and v :: world
    assume ok': "sessions_ok C (w_db v)" and ev: "sessions_evolve C (w_db u) (w_db v)"
    from complete_pending_once [OF peers ok' known_kept [OF ok ev known]]
    show "takes_once ?h (if oas_Status session \<noteq> ''pending'' then ret session else complete_pending E C subject callback s) v"
      by (simp add: takes_once_def)
  qed
qed

definition completions ::
    "oauth_port \<Rightarrow> (env \<times> ConnectionAccountSubject \<times> OAuthAuthorizationCallback) list \<Rightarrow> world \<Rightarrow> world" where
  "completions C = fold (\<lambda>(E, subject, callback) w. snd (CompleteOAuthAuthorization E C subject callback w))"

lemma taken_completions:
  assumes "list_all (\<lambda>(E, subject, callback). peers_evolve C E \<and> oauthHash E (cb_State callback) = h) runs"
    and "sessions_ok C (w_db w)" and "session_taken h (w_db w)"
  shows "w_calls (completions C runs w) = w_calls w"
  using assms
proof (induction runs arbitrary: w)
  case (Cons run runs)
  obtain E subject callback where run: "run = (E, subject, callback)" by (cases run) auto
  let ?u = "snd (CompleteOAuthAuthorization E C subject callback w)"
  from Cons.prems(1) have peers: "peers_evolve C E" and h: "oauthHash E (cb_State callback) = h" by (simp_all add: run)
  have ev: "sessions_evolve C (w_db w) (w_db ?u)"
    by (rule evolving_D [OF peers CompleteOAuthAuthorization_evolves]) (rule prod.collapse [symmetric])
  have "w_calls ?u = w_calls w"
    using CompleteOAuthAuthorization_once [OF peers Cons.prems(2), of callback subject] Cons.prems(3) by (auto simp: takes_once_def h)
  moreover have "sessions_ok C (w_db ?u)" using ev Cons.prems(2) by (simp add: sessions_evolve_def)
  moreover have "session_taken h (w_db ?u)" by (rule taken_kept [OF Cons.prems(2) ev Cons.prems(3)])
  ultimately show ?case using Cons.IH [of ?u] Cons.prems(1) by (simp add: run completions_def)
qed (simp add: completions_def)

text \<open>
  C35. However often and by whomever a state is brought back, with whatever codes, the provider is asked at most once
  to exchange a code for it, under all faults and with other processes that do the same.
\<close>

theorem code_exchanged_at_most_once:
  assumes "list_all (\<lambda>(E, subject, callback). peers_evolve C E \<and> oauthHash E (cb_State callback) = h) runs"
    and "sessions_ok C (w_db w)"
  shows "\<exists>cs. w_calls (completions C runs w) = w_calls w @ cs \<and> length cs \<le> 1"
  using assms
proof (induction runs arbitrary: w)
  case (Cons run runs)
  obtain E subject callback where run: "run = (E, subject, callback)" by (cases run) auto
  let ?u = "snd (CompleteOAuthAuthorization E C subject callback w)"
  from Cons.prems(1) have peers: "peers_evolve C E" and h: "oauthHash E (cb_State callback) = h" by (simp_all add: run)
  have "sessions_evolve C (w_db w) (w_db ?u)"
    by (rule evolving_D [OF peers CompleteOAuthAuthorization_evolves]) (rule prod.collapse [symmetric])
  then have ok: "sessions_ok C (w_db ?u)" using Cons.prems(2) by (simp add: sessions_evolve_def)
  have rest: "completions C (run # runs) w = completions C runs ?u" by (simp add: completions_def run)
  from CompleteOAuthAuthorization_once [OF peers Cons.prems(2), of callback subject]
  consider "w_calls ?u = w_calls w" | c where "w_calls ?u = w_calls w @ [c]" "session_taken h (w_db ?u)"
    by (auto simp: takes_once_def h)
  then show ?case
  proof cases
    case 1
    then show ?thesis using Cons.IH [of ?u] Cons.prems(1) ok by (simp add: rest)
  next
    case 2
    then show ?thesis using taken_completions [OF _ ok, of h runs] Cons.prems(1) by (simp add: rest)
  qed
qed (simp add: completions_def)

section \<open>Credentials appear with the connected session\<close>

text \<open>Where no other process interferes, everything but the sessions stays.\<close>

definition rest_stays :: "env \<Rightarrow> world \<Rightarrow> world \<Rightarrow> bool" where
  "rest_stays E w w' \<longleftrightarrow> (alone E \<longrightarrow> (\<forall>t. t \<noteq> sessions_table \<longrightarrow> w_db w' t = w_db w t))"

interpretation rest: evolution "rest_stays E" for E
  by unfold_locales (auto simp: rest_stays_def)

lemma rest_statement:
  assumes "\<And>d t. t \<noteq> sessions_table \<Longrightarrow> snd (f d) t = d t"
  shows "rest.within E (statement E f)"
  unfolding rest.within_def rest_stays_def
proof (intro allI impI)
  fix w :: world and t
  assume "alone E" "t \<noteq> sessions_table"
  obtain x d where f: "f (w_db w) = (x, d)" by fastforce
  with assms [of t "w_db w"] \<open>t \<noteq> sessions_table\<close> have "d t = w_db w t" by simp
  with f \<open>alone E\<close> show "w_db (snd (statement E f w)) t = w_db w t"
    by (cases "ev_fault E (w_step w)") (simp_all add: statement_def Let_def)
qed

interpretation rest: session_reads "rest_stays E" E C for E C
proof unfold_locales
  show "rest.within E (select E t p)" for t p unfolding select_def by (rule rest_statement) simp
  have "rest.within E (guarded_update E sessions_table cs p)" for cs p
    unfolding guarded_update_def update_set_def by (rule rest_statement) (simp add: update_rows_def)
  moreover have "rest.within E (ownerNow E)" by (simp add: rest.within_def ownerNow_def seq_apply now_def rest_stays_def)
  ultimately show "rest.within E (updateOAuthSession E C subject s previous)" for subject s previous
    unfolding updateOAuthSession_def by (intro rest.within_seq rest.within_check)
qed (auto simp: rest_stays_def)

text \<open>What a connected session holds: its row, and the granted scopes of its account.\<close>

definition account_connected :: "string \<Rightarrow> database \<Rightarrow> bool" where
  "account_connected i d \<longleftrightarrow>
    list_ex (\<lambda>r. r ''id'' = Text i \<and> r ''status'' = Text ''connected'') (d sessions_table) \<and>
    list_ex (\<lambda>g. g ''connection_key'' = Text (''account_'' @ i)) (d grants_table)"

lemma connect_account_Inr:
  assumes "alone E" and "connect_account E C subject s app p secret tokens w = (Inr s', w')"
  shows "account_connected (oas_ID (osr_Session s)) (w_db w')"
proof -
  let ?i = "oas_ID (osr_Session s)"
  from assms(2) obtain n u1 u2 account' u3 s'' account u0 where
      grant: "saveConnectionGrant E (sub_WorkspaceID subject) (''account_'' @ ?i) (ot_GrantedScopes tokens) u1 = (Inr n, u2)"
    and enrich: "enrichAccountReadiness E account u2 = (Inr account', u3)"
    and update: "updateOAuthSession E C subject s'' ''exchanging'' u3 = (Inr u0, w')"
    and s'': "oas_ID (osr_Session s'') = ?i" "oas_Status (osr_Session s'') = ''connected''"
    by (auto simp: connect_account_def Let_def seq_Inr ret_Inr)
  have u3: "w_db u3 = w_db u2" using unchanged_D [OF untouched.within_enrich assms(1) enrich] by simp
  obtain cs where "insert_row grants_table cs (w_db u1) = (Inr n, w_db u2)" "row_of cs ''connection_key'' = Text (''account_'' @ ?i)"
    using grant unfolding saveConnectionGrant_def
    apply -
    apply (drule insert_into_Inr [OF assms(1)], erule conjE, rule that, assumption)
    by simp
  then have g: "list_ex (\<lambda>g. g ''connection_key'' = Text (''account_'' @ ?i)) (w_db u2 grants_table)"
    by (auto simp: list_ex_iff dest!: insert_row_db)
  from update obtain stamp m where upd: "update_rows sessions_table (set_columns (update_columns C s'' stamp))
      (And [subjectRowWriteAllowed sessions_table, session_where subject [Equal ''id'' (Text ?i), Equal ''status'' (Text ''exchanging'')]]) (w_db u3) =
      (Inr m, w_db w')" and m: "m \<noteq> 0"
    using assms(1) by (auto simp: updateOAuthSession_def ownerNow_def op_Inr now_Inr guarded_update_def update_set_def update_columns_def s'' dest!: statement_fine)
  from update_rows_hit [OF upd m] obtain r where r: "r ''id'' = Text ?i"
    "set_columns (update_columns C s'' stamp) r \<in> set (w_db w' sessions_table)"
    by (auto simp: where_simps session_where_holds)
  have "list_ex (\<lambda>r. r ''id'' = Text ?i \<and> r ''status'' = Text ''connected'') (w_db w' sessions_table)"
    using r s'' by (auto simp: list_ex_iff update_columns_def intro!: bexI [of _ "set_columns (update_columns C s'' stamp) r"])
  moreover have "w_db w' grants_table = w_db u2 grants_table"
    using update_rows_other [OF upd, of grants_table] u3 sessions_elsewhere by auto
  ultimately show ?thesis using g by (simp add: account_connected_def)
qed

lemma transaction_outcome:
  assumes "alone E" and "transaction E body w = (r, w')"
  shows "w_db w' = w_db w \<or> (\<exists>u x v. body u = (Inr x, v) \<and> w_db w' = w_db v)"
proof (cases "body ((before_step E w)\<lparr>w_tx := True\<rparr>)")
  case (Pair q v)
  show ?thesis
  proof (cases q)
    case (Inr x)
    with assms Pair have "w_db w' = w_db w \<or> w_db w' = w_db v"
      by (cases "ev_fault E (w_step w)"; cases "ev_fault E (w_step v)") (auto simp: transaction_def Let_def)
    with Pair Inr show ?thesis by blast
  qed (use assms Pair in \<open>auto simp: transaction_def Let_def split: if_splits\<close>)
qed

definition settled :: "string \<Rightarrow> database \<Rightarrow> database \<Rightarrow> bool" where
  "settled i d d' \<longleftrightarrow> (\<forall>t. t \<noteq> sessions_table \<longrightarrow> d' t = d t) \<or> account_connected i d'"

lemma settle_exchange_settled:
  assumes "alone E"
  shows "settled (oas_ID (osr_Session s)) (w_db w) (w_db (snd (settle_exchange E C subject s app p secret answer w)))"
proof -
  let ?i = "oas_ID (osr_Session s)"
  have rest: "settled ?i (w_db w) (w_db (snd (m w)))" if "rest.within E m" for m :: "OAuthAuthorizationSession dbop"
    using that assms by (simp add: rest.within_def rest_stays_def settled_def)
  show ?thesis
  proof (cases answer)
    case (Inl e)
    have "session_move ''exchanging'' (case e of ProviderErr (Some ErrorPermanent) t \<Rightarrow> ''rejected'' | _ \<Rightarrow> ''needs_reauthorization'')"
      by (auto split: err.splits option.splits err_class.splits intro: session_move.intros)
    then show ?thesis unfolding settle_exchange_def Let_def Inl sum.case by (intro rest rest.within_reads rest.update_to)
  next
    case (Inr tokens)
    show ?thesis
    proof (cases "ot_AccessToken tokens = [] \<or> ot_RefreshToken tokens = [] \<or> ot_TokenType tokens \<noteq> ''Bearer''")
      case True
      then show ?thesis unfolding settle_exchange_def Let_def Inr sum.case
        by (simp only: if_True) (intro rest rest.within_reads rest.update_to session_move.lost)
    next
      case False
      let ?t = "transaction E (connect_account E C subject s app p secret tokens)"
      obtain r u where t: "?t w = (r, u)" by fastforce
      have "w_db (snd (settle_exchange E C subject s app p secret answer w)) = w_db u"
        using False by (cases r) (auto simp: settle_exchange_def Inr seq_apply rescue_def t split: err.splits)
      with transaction_outcome [OF assms t] connect_account_Inr [OF assms] show ?thesis by (fastforce simp: settled_def)
    qed
  qed
qed

text \<open>All or nothing: the other tables are as before, or the session of the state is connected with its account.\<close>

definition all_or_nothing :: "string \<Rightarrow> 'a dbop \<Rightarrow> world \<Rightarrow> bool" where
  "all_or_nothing h m w \<longleftrightarrow> (\<forall>t. t \<noteq> sessions_table \<longrightarrow> w_db (snd (m w)) t = w_db w t) \<or>
    (\<exists>i. session_known i h (w_db (snd (m w))) \<and> account_connected i (w_db (snd (m w))))"

lemma all_or_nothing_rest: "alone E \<Longrightarrow> rest.within E m \<Longrightarrow> all_or_nothing h m w"
  by (simp add: all_or_nothing_def rest.within_def rest_stays_def)

lemma all_or_nothing_pure:
  "(\<And>y. x = Inr y \<Longrightarrow> all_or_nothing h (f y) w) \<Longrightarrow> all_or_nothing h (seq (of_result x) f) w"
  "all_or_nothing h (g (ev_clock E (w_step w))) w \<Longrightarrow> all_or_nothing h (seq (now E) g) w"
  "(b \<Longrightarrow> all_or_nothing h m w) \<Longrightarrow> all_or_nothing h (seq (check b e) (\<lambda>_. m)) w"
  "(\<And>a b. q = (a, b) \<Longrightarrow> all_or_nothing h (k a b) w) \<Longrightarrow> all_or_nothing h (case q of (a, b) \<Rightarrow> k a b) w"
  "all_or_nothing h (throw e) w"
  "(\<And>e. z = Some e \<Longrightarrow> all_or_nothing h (j e) w) \<Longrightarrow> (z = None \<Longrightarrow> all_or_nothing h m w) \<Longrightarrow>
    all_or_nothing h (case z of Some e \<Rightarrow> j e | None \<Rightarrow> m) w"
  by (cases x; cases z; simp add: all_or_nothing_def seq_apply of_result_apply now_def check_apply split: prod.splits)+

lemma alone_peers: "alone E \<Longrightarrow> peers_evolve C E"
  by (simp add: peers_evolve_def alone_def sessions_evolve_refl)

lemma all_or_nothing_seq:
  assumes "alone E" and ok: "sessions_ok C (w_db w)" and m: "evolving.within C E m" "rest.within E m"
    and f: "\<And>x u. m w = (Inr x, u) \<Longrightarrow> sessions_ok C (w_db u) \<Longrightarrow> sessions_evolve C (w_db w) (w_db u) \<Longrightarrow> all_or_nothing h (f x) u"
  shows "all_or_nothing h (seq m f) w"
proof (cases "m w")
  case (Pair r u)
  note ev = evolving_D [OF alone_peers [OF assms(1)] m(1) Pair]
  have same: "\<forall>t. t \<noteq> sessions_table \<longrightarrow> w_db u t = w_db w t"
    using rest.within_D [OF m(2) Pair] assms(1) by (simp add: rest_stays_def)
  show ?thesis
  proof (cases r)
    case (Inr x)
    have "sessions_ok C (w_db u)" using ok ev by (simp add: sessions_evolve_def)
    with f [of x u] Pair Inr ev same show ?thesis by (auto simp: all_or_nothing_def seq_apply)
  qed (use Pair same in \<open>simp add: all_or_nothing_def seq_apply\<close>)
qed

lemma exchange_code_settled:
  assumes alone: "alone E" and ok: "sessions_ok C (w_db w)" and known: "session_known (oas_ID (osr_Session s)) h (w_db w)"
  shows "all_or_nothing h (exchange_code E C subject s app p a secret request) w"
proof -
  let ?m = "exchange_code E C subject s app p a secret request"
  let ?u = "w\<lparr>w_calls := w_calls w @ [OAuthExchange request], w_step := Suc (w_step w)\<rparr>"
  have m: "?m w = settle_exchange E C subject s app p secret (oa_Exchange a (w_step w) request) ?u" and u: "w_db ?u = w_db w"
    by (simp_all add: exchange_code_def seq_apply record_call_def)
  have "sessions_evolve C (w_db w) (w_db (snd (?m w)))"
    by (rule evolving_D [OF alone_peers [OF alone] exchange_code_evolves]) (rule prod.collapse [symmetric])
  from known_kept [OF ok this known] settle_exchange_settled [OF alone, of s ?u C subject app p secret "oa_Exchange a (w_step w) request"]
  show ?thesis by (auto simp: all_or_nothing_def settled_def m u)
qed

lemma complete_pending_settled:
  assumes alone: "alone E" and ok: "sessions_ok C (w_db w)" and known: "session_known (oas_ID (osr_Session s)) h (w_db w)"
  shows "all_or_nothing h (complete_pending E C subject callback s) w"
  unfolding complete_pending_def
proof (rule all_or_nothing_seq [OF alone ok evolving.within_enabled_application rest.within_enabled_application], clarify)
  fix app ciphertext and u :: world
  assume ok: "sessions_ok C (w_db u)" and ev: "sessions_evolve C (w_db w) (w_db u)"
  have known: "session_known (oas_ID (osr_Session s)) h (w_db u)" by (rule known_kept [OF assms(2) ev known])
  let ?s = "\<lambda>t. (in_status s ''exchanging'')\<lparr>osr_ExchangeDeadline := format_rfc3339nano (t + minute)\<rparr>"
  have claim: "oas_Status (osr_Session (?s t)) = ''exchanging''" "oas_ID (osr_Session (?s t)) = oas_ID (osr_Session s)" for t
    by (simp_all add: in_status_def)
  have go: "all_or_nothing h (seq (updateOAuthSession E C subject (?s t) ''pending'')
      (\<lambda>_. exchange_code E C subject (?s t) app p a secret (request (?s t)))) u" for t p a secret request
  proof (rule all_or_nothing_seq [OF alone ok evolving.update_within rest.update_within])
    show "session_move ''pending'' (oas_Status (osr_Session (?s t)))" "session_move ''pending'' (oas_Status (osr_Session (?s t)))"
      unfolding claim by (rule session_move.claimed)+
    show "all_or_nothing h (exchange_code E C subject (?s t) app p a secret (request (?s t))) v"
      if "sessions_ok C (w_db v)" "sessions_evolve C (w_db u) (w_db v)" for v
      by (rule exchange_code_settled [OF alone that(1)]) (unfold claim, rule known_kept [OF ok that(2) known])
  qed
  show "all_or_nothing h (if cb_Error callback \<noteq> [] then
      (let s = in_status s ''rejected'' in
       seq (updateOAuthSession E C subject s ''pending'') (\<lambda>_. ret (osr_Session s)))
    else
      seq (of_result (application_provider E app)) (\<lambda>(p, a).
      seq (of_result (decrypt E (sub_WorkspaceID subject) (''oauth_application_'' @ oap_Key app) ciphertext
             ''Integration OAuth application credentials are unavailable'')) (\<lambda>secret.
      seq (of_result (decrypt E (sub_WorkspaceID subject) (oas_ID (osr_Session s)) (osr_VerifierCiphertext s)
             ''Integration OAuth verifier is unavailable'')) (\<lambda>verifier.
      seq (now E) (\<lambda>t.
      let s = ?s t in
      seq (updateOAuthSession E C subject s ''pending'') (\<lambda>_.
      exchange_code E C subject s app p a secret (exchange_request subject s app secret verifier (cb_Code callback)))))))) u"
  proof (cases "cb_Error callback = []")
    case False
    have "rest.within E (seq (updateOAuthSession E C subject (in_status s ''rejected'') ''pending'') (\<lambda>_. ret (osr_Session (in_status s ''rejected''))))"
      by (intro rest.within_reads rest.update_to session_move.denied)
    from all_or_nothing_rest [OF alone this] False show ?thesis by (simp add: Let_def)
  next
    case True
    then show ?thesis unfolding Let_def by (simp only: if_False not_True_eq_False simp_thms) (intro all_or_nothing_pure go)
  qed
qed


section \<open>A pending session\<close>

definition demo_port :: oauth_port where
  "demo_port =
    \<lparr>og_Application = (\<lambda>a. JNull), og_ReadApplication = (\<lambda>r. None), og_Session = (\<lambda>s. JStr (oas_ID s)),
     og_ReadSession = (\<lambda>j. map_option (\<lambda>i. zero_session\<lparr>oas_ID := i, oas_Scope := ScopePersonal\<rparr>) (decode_string j)),
     og_Order = (\<lambda>n xs. xs)\<rparr>"

definition demo_state :: string where
  "demo_state = replicate 43 CHR ''s''"

definition sessions_db :: database where
  "sessions_db = (\<lambda>_. [])
    (sessions_table := [row_of
       [(''id'', Text ''oauth_1''), (''workspace_id'', Text ''w1''), (''user_id'', Text ''u1''), (''application_key'', Text ''a''),
        (''application_revision'', Text ''t''), (''state_hash'', Text demo_state), (''status'', Text ''pending''),
        (''session_json'', Doc (marshal (JObj [(''session'', JStr ''oauth_1''), (''name'', JStr ''N'')]))),
        (''verifier_ciphertext'', Text ''v''), (''expires_at'', Text ''t''), (''exchange_deadline'', Text []), (''created_at'', Text ''t''),
        (''updated_at'', Text ''t'')]])"

definition demo_user :: ConnectionAccountSubject where
  "demo_user = \<lparr>sub_WorkspaceID = ''w1'', sub_UserID = ''u1'', sub_Access = \<lparr>acc_Personal = True, acc_Workspace = False\<rparr>\<rparr>"

definition demo_callback :: OAuthAuthorizationCallback where
  "demo_callback = \<lparr>cb_State = demo_state, cb_Code = ''c'', cb_Error = []\<rparr>"

lemma demo_port_ok: "port_ok demo_port"
  by (simp add: port_ok_def demo_port_def decode_string_def)

lemma sessions_db_ok: "sessions_ok demo_port sessions_db"
  using demo_port_ok
  by (simp add: sessions_ok_def keyed_def all_rows_def sessions_db_def session_row_def decode_session_def demo_port_def decode_string_def)

theorem sessions_only_move_forward_witness:
  "sessions_ok demo_port (w_db (snd (CompleteOAuthAuthorization calm_env demo_port demo_user demo_callback (world_of sessions_db)))) \<and>
   sessions_progress sessions_db (w_db (snd (CompleteOAuthAuthorization calm_env demo_port demo_user demo_callback (world_of sessions_db))))"
  using sessions_only_move_forward [of demo_port calm_env "world_of sessions_db"] sessions_db_ok
  by (simp add: sessions_evolve_refl sessions_evolve_def [of demo_port sessions_db] world_of_def)

theorem code_exchanged_at_most_once_witness:
  "\<exists>cs. w_calls (completions demo_port (replicate 3 (calm_env, demo_user, demo_callback)) (world_of sessions_db)) = cs \<and> length cs \<le> 1"
proof -
  have "list_all (\<lambda>(E, subject, callback). peers_evolve demo_port E \<and> oauthHash E (cb_State callback) = demo_state)
      (replicate 3 (calm_env, demo_user, demo_callback))"
    by (simp add: numeral_3_eq_3 peers_evolve_def sessions_evolve_refl oauthHash_def demo_callback_def)
  from code_exchanged_at_most_once [OF this, of "world_of sessions_db"] sessions_db_ok show ?thesis by (simp add: world_of_def)
qed


end
