(* ===== verification/Requirements.thy ===== *)
theory Requirements
  imports Inbound ManagedSecrets
begin

text \<open>
  \<open>requirements_store.go\<close> and \<open>event_mapping_store.go\<close>: the connections and event mappings that the
  manifest of an application requires, written into the tables at every synchronization. What the owner
  of an existing connection has set (its status, its configuration, its credentials) stays.
\<close>

section \<open>Connections\<close>

text \<open>\<open>fmt.Errorf("... %q: %w", key, err)\<close> around the error of a statement.\<close>

definition wrapped_for :: "string \<Rightarrow> string \<Rightarrow> 'a dbop \<Rightarrow> 'a dbop" where
  "wrapped_for f key m =
    seq (try_op m) (\<lambda>r. case r of Inl e \<Rightarrow> throw (Errorf f [key, err_text e]) | Inr x \<Rightarrow> ret x)"

lemma wrapped_for_Inr: "wrapped_for f key m w = (Inr x, w') \<longleftrightarrow> m w = (Inr x, w')"
  by (cases "m w") (auto simp: wrapped_for_def seq_apply try_op_apply split: sum.splits)

lemma snd_wrapped_for [simp]: "snd (wrapped_for f key m w) = snd (m w)" "snd (wrapped f m w) = snd (m w)"
  by (cases "m w"; auto simp: wrapped_for_def wrapped_def seq_apply try_op_apply split: sum.splits)+

text \<open>The row of a lookup, its columns scanned, or \<^const>\<open>None\<close> for \<open>sql.ErrNoRows\<close>.\<close>

definition scanned_row :: "env \<Rightarrow> string \<Rightarrow> predicate \<Rightarrow> string list \<Rightarrow> row option dbop" where
  "scanned_row E t p columns =
    seq (select_row E t p) (\<lambda>found.
    seq (case found of None \<Rightarrow> ret () | Some r \<Rightarrow> scan_texts r columns) (\<lambda>_. ret found))"

text \<open>The status of a connection that nobody has put to use yet.\<close>

definition member_missing :: "(string \<times> json) list \<Rightarrow> ConfigField \<Rightarrow> bool" where
  "member_missing config field \<longleftrightarrow>
    cf_Required field \<and>
    (case map_of config (cf_Key field) of None \<Rightarrow> True | Some j \<Rightarrow> j = JNull \<or> blank (sprint j))"

definition defaultConnectionStatus :: "provider \<Rightarrow> (string \<times> json) list \<Rightarrow> string" where
  "defaultConnectionStatus p config =
    (if \<not> pv_StartupSafe p \<or> pv_SecretFields p \<noteq> [] then ''configured''
     else if list_ex (member_missing config) (pv_ConfigFields p) then ''configured''
     else ''active'')"

text \<open>
  A JSON text column that is empty or blank: a blank text that is no document at all is seen as a
  \<^const>\<open>Text\<close>.
\<close>

definition blank_doc :: "sql \<Rightarrow> bool" where
  "blank_doc v = (case v of Doc r \<Rightarrow> r = raw_nil | Text s \<Rightarrow> blank s | _ \<Rightarrow> True)"

text \<open>The members that the owner manages win over those of the requirement.\<close>

fun put_all :: "(string \<times> json) list \<Rightarrow> (string \<times> json) list \<Rightarrow> (string \<times> json) list" where
  "put_all [] config = config"
| "put_all ((k, v) # owned) config = obj_put k v (put_all owned config)"

definition merged_config :: "row option \<Rightarrow> (string \<times> json) list \<Rightarrow> (string \<times> json) list" where
  "merged_config found config =
    (case found of
       None \<Rightarrow> config
     | Some r \<Rightarrow> (case decode_object (doc_of (r ''config_json'')) of None \<Rightarrow> config | Some owned \<Rightarrow> put_all owned config))"

definition merged_name :: "row option \<Rightarrow> string \<Rightarrow> string" where
  "merged_name found name =
    (case found of
       None \<Rightarrow> name
     | Some r \<Rightarrow> if \<not> blank (text_of (r ''name'')) \<and> blank name then text_of (r ''name'') else name)"

definition merged_status :: "provider \<Rightarrow> (string \<times> json) list \<Rightarrow> row option \<Rightarrow> string \<Rightarrow> string" where
  "merged_status p config found status =
    (let s = (case found of
                None \<Rightarrow> status
              | Some r \<Rightarrow> if \<not> blank (text_of (r ''status'')) then text_of (r ''status'') else status) in
     if blank s then defaultConnectionStatus p config else s)"

definition stored_refs :: "row option \<Rightarrow> (string \<times> string) list option" where
  "stored_refs found =
    (case found of
       None \<Rightarrow> Some []
     | Some r \<Rightarrow> if blank_doc (r ''secret_refs_json'') then Some [] else decode_string_map (doc_of (r ''secret_refs_json'')))"

definition requirement_where :: "ConnectionRequirement \<Rightarrow> predicate" where
  "requirement_where q =
    And [Equal ''workspace_id'' (Text (creq_WorkspaceID q)), Equal ''connection_key'' (Text (creq_Key q))]"

text \<open>What the row of a required connection is to hold, checked against the provider.\<close>

definition required_connection ::
    "env \<Rightarrow> ConnectionRequirement \<Rightarrow> provider \<Rightarrow> (string \<times> json) list \<Rightarrow> row option \<Rightarrow> err + Connection" where
  "required_connection E q p config found =
    (let config = merged_config found config; status = merged_status p config found (creq_Status q) in
     if \<not> validConnectionStatus status
     then Inl (Errorf ''Integration connection %q has invalid status %q'' [creq_Key q, status])
     else
       (case stored_refs found of
          None \<Rightarrow> Inl (Errorf ''decode Integration connection %q secret references: %w'' [creq_Key q, ''json''])
        | Some refs \<Rightarrow>
            (case normalizeProviderConnection E (Some p)
                    \<lparr>cn_Key = creq_Key q, cn_WorkspaceID = creq_WorkspaceID q, cn_ConnectorKey = creq_ConnectorKey q,
                     cn_ProviderKey = creq_ProviderKey q, cn_Name = merged_name found (creq_Name q), cn_Status = status,
                     cn_Config = config, cn_SecretRefs = refs\<rparr> (needs_ready status) of
               Inl e \<Rightarrow> Inl (Errorf ''validate Integration connection %q: %w'' [creq_Key q, err_text e])
             | Inr c \<Rightarrow> Inr c)))"

definition manifestID :: "env \<Rightarrow> string \<Rightarrow> string \<Rightarrow> string" where
  "manifestID E workspaceID key = ''manifest_'' @ take 32 (ev_sha256 E (workspaceID @ [CHR 0x00] @ key))"

definition connection_columns :: "Connection \<Rightarrow> time \<Rightarrow> (string \<times> sql) list" where
  "connection_columns c t =
    [(''connector_key'', Text (cn_ConnectorKey c)), (''provider_key'', Text (cn_ProviderKey c)),
     (''name'', Text (cn_Name c)), (''status'', Text (cn_Status c)), (''config_json'', config_json (cn_Config c)),
     (''updated_at'', timestamp t)]"

definition write_required :: "env \<Rightarrow> Connection \<Rightarrow> time \<Rightarrow> row option \<Rightarrow> nat dbop" where
  "write_required E c t found =
    (case found of
       Some r \<Rightarrow>
         wrapped ''update Integration connection requirement: %w''
           (guarded_update E connections_table (connection_columns c t) (Equal ''id'' (r ''id'')))
     | None \<Rightarrow>
         wrapped ''insert Integration connection requirement: %w'' (insert_into E connections_table
           ([(''id'', Text (manifestID E (cn_WorkspaceID c) (cn_Key c))), (''connection_key'', Text (cn_Key c)),
             (''workspace_id'', Text (cn_WorkspaceID c)), (''secret_refs_json'', refs_json []),
             (''created_by'', Text ''manifest''), (''created_at'', timestamp t)] @ connection_columns c t)))"

definition requirement_columns :: "string list" where
  "requirement_columns = [''id'', ''name'', ''status'', ''config_json'', ''secret_refs_json'', ''created_by'']"

definition synchronizeConnection ::
    "env \<Rightarrow> ConnectionRequirement \<Rightarrow> provider \<Rightarrow> (string \<times> json) list \<Rightarrow> unit dbop" where
  "synchronizeConnection E q p config =
    seq (wrapped ''lookup Integration connection requirement: %w''
      (scanned_row E connections_table (requirement_where q) requirement_columns)) (\<lambda>found.
    seq (of_result (required_connection E q p config found)) (\<lambda>c.
    seq (now E) (\<lambda>t.
    seq (write_required E c t found) (\<lambda>_. ret ()))))"

text \<open>The provider and the configuration of a requirement, its defaults filled in.\<close>

definition requirement_config :: "env \<Rightarrow> ConnectionRequirement \<Rightarrow> err + provider \<times> (string \<times> json) list" where
  "requirement_config E q =
    (case ev_Provider E (trim_space (creq_ConnectorKey q)) (trim_space (creq_ProviderKey q)) of
       None \<Rightarrow> Inl (Errorf ''Integration provider %s/%s required by connection %q is unavailable''
                      [creq_ConnectorKey q, creq_ProviderKey q, creq_Key q])
     | Some p \<Rightarrow>
         (case decode_object (creq_Config q) of
            None \<Rightarrow> Inl (Errorf ''decode Integration connection %q config: %w'' [creq_Key q, ''json''])
          | Some config \<Rightarrow>
              (case sdk_ApplyConfigDefaults (ev_SDK E) (pv_ConfigFields p) config of
                 Inl e \<Rightarrow> Inl (Errorf ''apply Integration connection %q defaults: %w'' [creq_Key q, err_text e])
               | Inr config \<Rightarrow> Inr (p, config))))"

fun SynchronizeConnections :: "env \<Rightarrow> ConnectionRequirement list \<Rightarrow> unit dbop" where
  "SynchronizeConnections E [] = ret ()"
| "SynchronizeConnections E (q # qs) =
    seq (ctx_done E) (\<lambda>cancelled.
    if cancelled then throw (Errorf ''context canceled'' [])
    else
      seq (of_result (requirement_config E q)) (\<lambda>(p, config).
      seq (synchronizeConnection E q p config) (\<lambda>_.
      SynchronizeConnections E qs)))"

section \<open>Event mappings\<close>

definition mapping_resource :: "EventMappingRequirement \<Rightarrow> string" where
  "mapping_resource m = trim_space (em_WorkspaceID m) @ '':'' @ trim_space (em_Key m)"

definition disabled_at :: "EventMappingRequirement \<Rightarrow> time \<Rightarrow> sql" where
  "disabled_at m t = (if em_Enabled m then Null else timestamp t)"

definition mapping_columns :: "env \<Rightarrow> EventMappingRequirement \<Rightarrow> time \<Rightarrow> (string \<times> sql) list" where
  "mapping_columns E m t =
    [(''object_key'', Text (em_WorkspaceID m)), (''name'', Text (em_Key m)),
     (''payload_json'', Doc (marshal (mapping_json m))), (''schema_hash'', Text (ev_sha256_json E (mapping_json m))),
     (''source_kind'', Text ''manifest_requirement''), (''source_id'', Text (em_Key m)),
     (''disabled_at'', disabled_at m t), (''updated_at'', timestamp t)]"

definition write_mapping :: "env \<Rightarrow> EventMappingRequirement \<Rightarrow> time \<Rightarrow> row option \<Rightarrow> nat dbop" where
  "write_mapping E m t found =
    (case found of
       None \<Rightarrow>
         wrapped_for ''insert Integration event mapping %q: %w'' (em_Key m) (insert_into E mappings_table
           ([(''id'', Text (''event-mapping:'' @ take 32 (ev_sha256_json E (mapping_json m)))),
             (''resource_key'', Text (mapping_resource m)), (''schema_version'', Text ''1''), (''created_at'', timestamp t)] @
            mapping_columns E m t))
     | Some r \<Rightarrow>
         wrapped_for ''update Integration event mapping %q: %w'' (em_Key m)
           (update_set E mappings_table (mapping_columns E m t) (Equal ''id'' (r ''id''))))"

definition synchronizeEventMapping :: "env \<Rightarrow> EventMappingRequirement \<Rightarrow> unit dbop" where
  "synchronizeEventMapping E m =
    seq (now E) (\<lambda>t.
    seq (wrapped_for ''lookup Integration event mapping %q: %w'' (em_Key m)
      (scanned_row E mappings_table (Equal ''resource_key'' (Text (mapping_resource m))) [''id''])) (\<lambda>found.
    seq (write_mapping E m t found) (\<lambda>_. ret ())))"

fun SynchronizeEventMappings :: "env \<Rightarrow> EventMappingRequirement list \<Rightarrow> unit dbop" where
  "SynchronizeEventMappings E [] = ret ()"
| "SynchronizeEventMappings E (m # ms) =
    (case EventMapping_Validate m of
       Some e \<Rightarrow> throw e
     | None \<Rightarrow> seq (synchronizeEventMapping E m) (\<lambda>_. SynchronizeEventMappings E ms))"

section \<open>What the owner has set stays\<close>

definition same_value :: "(string \<times> json) list \<Rightarrow> (string \<times> json) list \<Rightarrow> bool" where
  "same_value config config' \<longleftrightarrow>
    (\<forall>k j. map_of config k = Some j \<and> \<not> integrationEmptyValue j \<longrightarrow> map_of config' k = Some j)"

text \<open>
  A row as the owner left it: its identity, author and credentials, its status (unless it has none), and
  every member of its configuration that has a value.
\<close>

definition as_owner_left :: "row \<Rightarrow> row \<Rightarrow> bool" where
  "as_owner_left r q \<longleftrightarrow>
    (\<forall>c \<in> {''id'', ''workspace_id'', ''connection_key'', ''secret_refs_json'', ''created_by'', ''created_at''}. q c = r c) \<and>
    (\<not> blank (text_of (r ''status'')) \<longrightarrow> text_of (q ''status'') = text_of (r ''status'')) \<and>
    (\<forall>config. decode_object (doc_of (r ''config_json'')) = Some config \<longrightarrow>
      (\<exists>config'. decode_object (doc_of (q ''config_json'')) = Some config' \<and> same_value config config'))"

definition owner_kept :: "database \<Rightarrow> database \<Rightarrow> bool" where
  "owner_kept d d' \<longleftrightarrow> (\<forall>r \<in> set (d connections_table). \<exists>q \<in> set (d' connections_table). as_owner_left r q)"

text \<open>\<open>ApplyConfigDefaults\<close> fills members in; what has a value keeps it.\<close>

definition defaults_extend :: "env \<Rightarrow> bool" where
  "defaults_extend E \<longleftrightarrow>
    (\<forall>declared config config'. sdk_ApplyConfigDefaults (ev_SDK E) declared config = Inr config' \<longrightarrow> same_value config config')"

lemma as_owner_left_refl [simp]: "as_owner_left r r"
  by (auto simp: as_owner_left_def same_value_def)

lemma same_value_trans: "same_value a b \<Longrightarrow> same_value b c \<Longrightarrow> same_value a c"
  by (auto simp: same_value_def)

lemma as_owner_left_trans:
  assumes "as_owner_left r q" "as_owner_left q s"
  shows "as_owner_left r s"
  unfolding as_owner_left_def
proof (intro conjI allI impI)
  fix config
  assume "decode_object (doc_of (r ''config_json'')) = Some config"
  then show "\<exists>config'. decode_object (doc_of (s ''config_json'')) = Some config' \<and> same_value config config'"
    using assms same_value_trans unfolding as_owner_left_def by blast
qed (use assms in \<open>simp_all add: as_owner_left_def\<close>)

lemma owner_kept_refl [simp]: "owner_kept d d"
  unfolding owner_kept_def using as_owner_left_refl by blast

lemma owner_kept_trans: "owner_kept a b \<Longrightarrow> owner_kept b c \<Longrightarrow> owner_kept a c"
  unfolding owner_kept_def using as_owner_left_trans by blast

lemma map_of_put_all [simp]: "map_of (put_all owned config) k = (case map_of owned k of None \<Rightarrow> map_of config k | Some j \<Rightarrow> Some j)"
  by (induction owned) auto

text \<open>A required connection keeps what the row that was found holds.\<close>

lemma required_connection_keeps:
  assumes "defaults_extend E" and "required_connection E q p config (Some r) = Inr c"
  shows "(\<not> blank (text_of (r ''status'')) \<longrightarrow> cn_Status c = text_of (r ''status'')) \<and>
    (\<forall>owned. decode_object (doc_of (r ''config_json'')) = Some owned \<longrightarrow> same_value owned (cn_Config c))"
proof -
  from assms(2) obtain refs c0 where c: "normalizeProviderConnection E (Some p) c0 (needs_ready (cn_Status c0)) = Inr c"
    and c0: "cn_Status c0 = merged_status p (merged_config (Some r) config) (Some r) (creq_Status q)"
      "cn_Config c0 = merged_config (Some r) config"
    by (auto simp: required_connection_def Let_def split: if_splits option.splits sum.splits)
  from c obtain config' where c': "sdk_ApplyConfigDefaults (ev_SDK E) (pv_ConfigFields p) (cn_Config c0) = Inr config'"
    "c = c0\<lparr>cn_Config := config'\<rparr>"
    by (auto simp: normalize_Inr)
  then have same: "same_value (cn_Config c0) (cn_Config c)"
    using assms(1) by (auto simp: defaults_extend_def)
  have "same_value owned (cn_Config c0)" if "decode_object (doc_of (r ''config_json'')) = Some owned" for owned
    using that by (auto simp: c0 merged_config_def same_value_def)
  with same c0 c'(2) show ?thesis by (auto simp: merged_status_def Let_def intro: same_value_trans)
qed

lemma statement_effect:
  "alone E \<Longrightarrow> w_db (snd (statement E f w)) = w_db w \<or> w_db (snd (statement E f w)) = snd (f (w_db w))"
  by (cases "f (w_db w)"; cases "ev_fault E (w_step w)") (auto simp: statement_def Let_def)

definition required_ok :: "database \<Rightarrow> database \<Rightarrow> bool" where
  "required_ok d d' \<longleftrightarrow> keyed d connections_table \<longrightarrow> keyed d' connections_table \<and> owner_kept d d'"

lemma required_ok_trans: "required_ok a b \<Longrightarrow> required_ok b c \<Longrightarrow> required_ok a c"
  unfolding required_ok_def using owner_kept_trans by blast

lemma owner_kept_update:
  assumes "\<And>s. s \<in> set (d connections_table) \<Longrightarrow> as_owner_left s (if holds d s p then f s else s)"
  shows "owner_kept d (snd (update_rows connections_table f p d))"
  unfolding owner_kept_def
proof
  fix s
  assume s: "s \<in> set (d connections_table)"
  have "(if holds d s p then f s else s) \<in> set (snd (update_rows connections_table f p d) connections_table)"
    using s by (simp add: update_rows_def)
  with assms [OF s] show "\<exists>q \<in> set (snd (update_rows connections_table f p d) connections_table). as_owner_left s q" ..
qed

lemma connection_columns_keep:
  "c \<in> {''id'', ''workspace_id'', ''connection_key'', ''secret_refs_json'', ''created_by'', ''created_at''} \<Longrightarrow>
    set_columns (connection_columns x t) r c = r c"
  by (rule set_columns_other) (auto simp: connection_columns_def)

lemma connection_columns_sets:
  "set_columns (connection_columns x t) r ''status'' = Text (cn_Status x)"
  "set_columns (connection_columns x t) r ''config_json'' = config_json (cn_Config x)"
  by (simp_all add: connection_columns_def)

lemma update_required_kept:
  assumes "defaults_extend E" and req: "required_connection E q p config (Some r) = Inr c"
    and r: "r \<in> set (d connections_table)" "r ''id'' \<noteq> Null"
  shows "required_ok d (snd (update_rows connections_table (set_columns (connection_columns c t))
      (And [subjectRowWriteAllowed connections_table, Equal ''id'' (r ''id'')]) d))"
    (is "required_ok d (snd (update_rows _ ?f ?p d))")
  unfolding required_ok_def
proof (intro impI conjI)
  assume keyed: "keyed d connections_table"
  show "keyed (snd (update_rows connections_table ?f ?p d)) connections_table"
    by (rule keyed_update [OF keyed], rule connection_columns_keep) auto
  have "as_owner_left s (?f s)" if "s \<in> set (d connections_table)" "holds d s ?p" for s
  proof -
    have "s = r" using that r keyed by (intro keyed_id [OF keyed]) (auto simp: where_simps)
    then show ?thesis
      using required_connection_keeps [OF assms(1) req] connection_columns_keep connection_columns_sets
      by (simp add: as_owner_left_def)
  qed
  then show "owner_kept d (snd (update_rows connections_table ?f ?p d))"
    by (intro owner_kept_update) auto
qed

lemma write_required_kept:
  assumes "alone E" "defaults_extend E" and req: "required_connection E q p config found = Inr c"
    and found: "\<And>r. found = Some r \<Longrightarrow> r \<in> set (w_db w connections_table) \<and> r ''id'' \<noteq> Null"
  shows "required_ok (w_db w) (w_db (snd (write_required E c t found w)))"
proof (cases found)
  case None
  have "required_ok d (snd (insert_row connections_table cs d))" for cs d
    using keyed_insert by (auto simp: required_ok_def owner_kept_def insert_row_def Let_def intro: as_owner_left_refl)
  moreover have "required_ok d d" for d by (simp add: required_ok_def)
  ultimately show ?thesis
    unfolding write_required_def None option.case snd_wrapped_for insert_into_def
    using statement_effect [OF assms(1)] by metis
next
  case (Some r)
  have "required_ok d d" for d by (simp add: required_ok_def)
  moreover have "required_ok (w_db w) (snd (update_rows connections_table (set_columns (connection_columns c t))
      (And [subjectRowWriteAllowed connections_table, Equal ''id'' (r ''id'')]) (w_db w)))"
    using found [OF Some] req Some by (intro update_required_kept [OF assms(2)]) auto
  ultimately show ?thesis
    unfolding write_required_def Some option.case snd_wrapped_for guarded_update_def update_set_def
    using statement_effect [OF assms(1)] by metis
qed

lemma synchronizeConnection_kept:
  assumes "alone E" "defaults_extend E"
  shows "required_ok (w_db w) (w_db (snd (synchronizeConnection E q p config w)))"
proof -
  let ?look = "scanned_row E connections_table (requirement_where q) requirement_columns"
  have reads: "evolution.within (unchanged E) ?look"
    unfolding scanned_row_def by (intro untouched.within_reads)
  obtain x u where look: "?look w = (x, u)" by (cases "?look w")
  with reads assms(1) have same: "w_db u = w_db w" by (metis unchanged_D)
  show ?thesis
  proof (cases x)
    case (Inl e)
    with look same show ?thesis
      by (simp add: synchronizeConnection_def wrapped_def seq_apply try_op_apply required_ok_def)
  next
    case (Inr found)
    have run: "synchronizeConnection E q p config w =
      seq (of_result (required_connection E q p config found)) (\<lambda>c.
      seq (now E) (\<lambda>t. seq (write_required E c t found) (\<lambda>_. ret ()))) u"
      using look Inr by (simp add: synchronizeConnection_def wrapped_def seq_apply try_op_apply)
    have found: "r \<in> set (w_db u connections_table) \<and> r ''id'' \<noteq> Null" if "found = Some r" for r
    proof -
      from look Inr that have "\<exists>v. select_row E connections_table (requirement_where q) w = (Inr (Some r), v)"
        and "\<not> has_null r requirement_columns"
        by (auto simp: scanned_row_def seq_Inr scan_texts_def ret_Inr split: option.splits)
      then obtain rs where "select_rows connections_table (requirement_where q) (w_db w) = r # rs"
        by (auto dest!: select_row_Inr [OF assms(1)] split: list.splits)
      then have "r \<in> set (select_rows connections_table (requirement_where q) (w_db w))" by simp
      then show ?thesis
        using \<open>\<not> has_null r requirement_columns\<close> same by (simp add: requirement_columns_def)
    qed
    show ?thesis
    proof (cases "required_connection E q p config found")
      case (Inl e)
      then show ?thesis by (simp add: run seq_apply of_result_apply same required_ok_def)
    next
      case (Inr c)
      then show ?thesis
        using write_required_kept [OF assms Inr found, of "ev_clock E (w_step u)"]
        by (cases "write_required E c (ev_clock E (w_step u)) found u")
          (simp add: run seq_apply of_result_apply now_def same split: sum.splits)
    qed
  qed
qed


section \<open>Rows with a resource key\<close>

text \<open>The rows of a table that have none of the given resource keys, and the one row of a key.\<close>

definition rows_apart :: "string \<Rightarrow> string set \<Rightarrow> database \<Rightarrow> row set" where
  "rows_apart t keys d = {r \<in> set (d t). \<forall>k \<in> keys. r ''resource_key'' \<noteq> Text k}"

definition resource_row :: "string \<Rightarrow> (row \<Rightarrow> bool) \<Rightarrow> string \<Rightarrow> database \<Rightarrow> bool" where
  "resource_row t P k d \<longleftrightarrow>
    (\<exists>r \<in> set (d t). r ''resource_key'' = Text k \<and> P r) \<and> (\<forall>r \<in> set (d t). r ''resource_key'' = Text k \<longrightarrow> P r)"

text \<open>What writing the row of one key comes to.\<close>

definition resource_step :: "string \<Rightarrow> (row \<Rightarrow> bool) \<Rightarrow> string \<Rightarrow> database \<Rightarrow> database \<Rightarrow> bool" where
  "resource_step t P k d d' \<longleftrightarrow>
    keyed d' t \<and> resource_row t P k d' \<and> (\<forall>keys. k \<in> keys \<longrightarrow> rows_apart t keys d' = rows_apart t keys d)"

definition by_resource :: "string \<Rightarrow> bool" where
  "by_resource t \<longleftrightarrow> unique_keys t = [[''id''], [''resource_key'']]"

lemma resource_inserted:
  assumes "keyed d t" "by_resource t" and ins: "insert_row t cs d = (Inr n, d')"
    and key: "row_of cs ''resource_key'' = Text k" and "P (row_of cs)"
  shows "resource_step t P k d d'"
proof -
  have d': "d' t = d t @ [row_of cs]" using insert_row_db [OF ins] by (simp only: fun_upd_same)
  have "\<not> conflicts d t (row_of cs)" using ins by (auto simp: insert_row_def Let_def split: if_splits)
  then have none: "r ''resource_key'' \<noteq> Text k" if "r \<in> set (d t)" for r
    using that key assms(2) unfolding conflicts_def by_resource_def by (auto simp: same_key_def)
  have "keyed d' t" using keyed_insert [OF assms(1), of t cs] ins by simp
  moreover have "resource_row t P k d'" using none key assms(5) by (auto simp: resource_row_def d')
  moreover have "rows_apart t keys d' = rows_apart t keys d" if "k \<in> keys" for keys
    using that key unfolding rows_apart_def d' by auto
  ultimately show ?thesis by (simp add: resource_step_def)
qed

lemma resource_updated:
  assumes keyed: "keyed d t" "by_resource t" and r: "r \<in> set (d t)" "r ''resource_key'' = Text k" "r ''id'' \<noteq> Null"
    and upd: "update_rows t (set_columns cs) (Equal ''id'' (r ''id'')) d = (x, d')"
    and cs: "''id'' \<notin> fst ` set cs" "''resource_key'' \<notin> fst ` set cs" and P: "P (set_columns cs r)"
  shows "resource_step t P k d d'"
proof -
  let ?f = "set_columns cs"
  have same: "s = r" if "s \<in> set (d t)" "s ''resource_key'' = Text k" for s
    using that r by (intro keyed_rows [OF keyed(1) that(1) r(1), of "[''resource_key'']"])
      (use keyed(2) in \<open>simp_all add: same_key_def by_resource_def\<close>)
  have hit: "holds d s (Equal ''id'' (r ''id'')) \<longleftrightarrow> s = r" if "s \<in> set (d t)" for s
    using that r keyed_id [OF keyed(1)] by (auto simp: where_simps)
  have "d' t = map (\<lambda>s. if holds d s (Equal ''id'' (r ''id'')) then ?f s else s) (d t)"
    by (rule update_rows_result [OF upd])
  also have "\<dots> = map (\<lambda>s. if s = r then ?f r else s) (d t)" using hit by (intro map_cong) auto
  finally have d': "d' t = map (\<lambda>s. if s = r then ?f r else s) (d t)" .
  have key: "?f r ''resource_key'' = Text k" using r(2) cs(2) by (simp add: set_columns_other)
  have "resource_row t P k d'"
    unfolding resource_row_def d' set_map
  proof (intro conjI ballI impI)
    show "\<exists>s \<in> (\<lambda>s. if s = r then ?f r else s) ` set (d t). s ''resource_key'' = Text k \<and> P s"
      using P r(1) key by (intro bexI [of _ "?f r"] rev_image_eqI [of r]) simp_all
    show "P s" if s: "s \<in> (\<lambda>s. if s = r then ?f r else s) ` set (d t)" "s ''resource_key'' = Text k" for s
    proof -
      from s(1) obtain q where "q \<in> set (d t)" "s = (if q = r then ?f r else q)" ..
      with s(2) same P show ?thesis by (cases "q = r") simp_all
    qed
  qed
  moreover have "keyed d' t"
    by (rule keyed_set_columns [OF keyed(1) upd]) (use cs keyed(2) in \<open>simp add: by_resource_def\<close>)
  moreover have "rows_apart t keys d' = rows_apart t keys d" if "k \<in> keys" for keys
  proof -
    have "s \<in> set (d' t) \<longleftrightarrow> s \<in> set (d t)" if "s ''resource_key'' \<noteq> Text k" for s
      using that key r by (auto simp: d')
    with \<open>k \<in> keys\<close> show ?thesis by (auto simp: rows_apart_def)
  qed
  ultimately show ?thesis by (simp add: resource_step_def)
qed

lemma rows_apart_mono:
  "rows_apart t S d' = rows_apart t S d \<Longrightarrow> S \<subseteq> S' \<Longrightarrow> rows_apart t S' d' = rows_apart t S' d"
  by (auto simp: rows_apart_def)

lemma apart_iff:
  assumes "rows_apart t S d' = rows_apart t S d" and "k \<notin> S" and "r ''resource_key'' = Text k"
  shows "r \<in> set (d' t) \<longleftrightarrow> r \<in> set (d t)"
proof -
  have "r \<in> rows_apart t S e \<longleftrightarrow> r \<in> set (e t)" for e
    unfolding rows_apart_def mem_Collect_eq assms(3) using assms(2) by fastforce
  from this [of d'] this [of d] assms(1) show ?thesis by simp
qed

lemma stored_apart:
  assumes "rows_apart t S d' = rows_apart t S d" and "k \<notin> S" and "resource_row t P k d"
  shows "resource_row t P k d'"
  using assms(3) apart_iff [OF assms(1,2)] unfolding resource_row_def by blast

lemma scanned_row_Inr:
  assumes "alone E" and "scanned_row E t p columns w = (Inr found, w')"
  shows "w_db w' = w_db w \<and> found = (case select_rows t p (w_db w) of [] \<Rightarrow> None | r # _ \<Rightarrow> Some r) \<and>
    (\<forall>r. found = Some r \<longrightarrow> \<not> has_null r columns)"
  using assms(2) by (auto simp: scanned_row_def seq_Inr ret_Inr scan_texts_def split: option.splits dest!: select_row_Inr [OF assms(1)])

lemma scanned_resource:
  assumes "alone E" and "scanned_row E t (Equal ''resource_key'' (Text k)) columns w = (Inr (Some r), w')"
  shows "r \<in> set (w_db w t) \<and> r ''resource_key'' = Text k \<and> \<not> has_null r columns"
proof -
  note row = scanned_row_Inr [OF assms]
  then obtain rs where "select_rows t (Equal ''resource_key'' (Text k)) (w_db w) = r # rs" by (auto split: list.splits)
  then have "r \<in> set (select_rows t (Equal ''resource_key'' (Text k)) (w_db w))" by simp
  with row show ?thesis by (simp add: where_simps)
qed

section \<open>A synchronized mapping is the one that applies\<close>

lemma mappings_by_resource: "by_resource mappings_table"
  by (simp add: by_resource_def unique_keys_def mappings_table_def)

definition mapping_row :: "EventMappingRequirement \<Rightarrow> row \<Rightarrow> bool" where
  "mapping_row m r \<longleftrightarrow>
    r ''object_key'' = Text (em_WorkspaceID m) \<and> r ''payload_json'' = Doc (marshal (mapping_json m)) \<and>
    (r ''disabled_at'' = Null \<longleftrightarrow> em_Enabled m)"

abbreviation mapping_stored :: "EventMappingRequirement \<Rightarrow> database \<Rightarrow> bool" where
  "mapping_stored m \<equiv> resource_row mappings_table (mapping_row m) (mapping_resource m)"

lemma write_mapping_step:
  assumes "alone E" and keyed: "keyed (w_db u) mappings_table" and run: "write_mapping E m t found u = (Inr n, w')"
    and found: "\<And>r. found = Some r \<Longrightarrow> r \<in> set (w_db u mappings_table) \<and> r ''resource_key'' = Text (mapping_resource m) \<and> r ''id'' \<noteq> Null"
  shows "resource_step mappings_table (mapping_row m) (mapping_resource m) (w_db u) (w_db w')"
proof (cases found)
  case None
  note ins = run [unfolded write_mapping_def None option.case wrapped_for_Inr, THEN insert_into_Inr [OF assms(1)], THEN conjunct1]
  show ?thesis
    by (rule resource_inserted [OF keyed mappings_by_resource ins])
      (simp_all add: mapping_row_def mapping_columns_def disabled_at_def timestamp_def)
next
  case (Some r)
  note upd = run [unfolded write_mapping_def Some option.case wrapped_for_Inr, THEN update_set_Inr [OF assms(1)]]
  show ?thesis
    by (rule resource_updated [where r = r, OF keyed mappings_by_resource _ _ _ upd])
      (use found [OF Some] in \<open>simp_all add: mapping_row_def mapping_columns_def disabled_at_def timestamp_def\<close>)
qed

lemma synchronized_row:
  assumes "alone E" and keyed: "keyed (w_db w) mappings_table" and run: "synchronizeEventMapping E m w = (Inr (), w')"
  shows "resource_step mappings_table (mapping_row m) (mapping_resource m) (w_db w) (w_db w')"
proof -
  from run obtain found u n where
    look: "scanned_row E mappings_table (Equal ''resource_key'' (Text (mapping_resource m))) [''id''] w = (Inr found, u)"
    and rest: "write_mapping E m (ev_clock E (w_step w)) found u = (Inr n, w')"
    by (auto simp: synchronizeEventMapping_def seq_Inr now_Inr wrapped_for_Inr ret_Inr)
  have u: "w_db u = w_db w" using scanned_row_Inr [OF assms(1) look] by (rule conjunct1)
  show ?thesis
    using write_mapping_step [OF assms(1) _ rest] keyed scanned_resource [OF assms(1)] look unfolding u by fastforce
qed

lemma synchronized_rows:
  assumes "alone E" and "keyed (w_db w) mappings_table" and "distinct (map mapping_resource ms)"
    and "SynchronizeEventMappings E ms w = (Inr (), w')"
  shows "(\<forall>m \<in> set ms. mapping_stored m (w_db w')) \<and>
    rows_apart mappings_table (mapping_resource ` set ms) (w_db w') = rows_apart mappings_table (mapping_resource ` set ms) (w_db w)"
  using assms(2-)
proof (induction ms arbitrary: w)
  case (Cons m ms)
  let ?S = "mapping_resource ` set ms"
  from Cons.prems(3) obtain u where first: "synchronizeEventMapping E m w = (Inr (), u)"
    and rest: "SynchronizeEventMappings E ms u = (Inr (), w')"
    by (auto simp: seq_Inr split: option.splits)
  from synchronized_row [OF assms(1) Cons.prems(1) first] have u: "keyed (w_db u) mappings_table" "mapping_stored m (w_db u)"
    "rows_apart mappings_table (insert (mapping_resource m) ?S) (w_db u) = rows_apart mappings_table (insert (mapping_resource m) ?S) (w_db w)"
    by (auto simp: resource_step_def)
  from Cons.IH [OF u(1) _ rest] Cons.prems(2) have ms: "\<forall>m \<in> set ms. mapping_stored m (w_db w')"
    "rows_apart mappings_table ?S (w_db w') = rows_apart mappings_table ?S (w_db u)" by simp_all
  have "mapping_stored m (w_db w')" using stored_apart [OF ms(2) _ u(2)] Cons.prems(2) by auto
  moreover have "rows_apart mappings_table (insert (mapping_resource m) ?S) (w_db w') = rows_apart mappings_table (insert (mapping_resource m) ?S) (w_db u)"
    by (rule rows_apart_mono [OF ms(2)]) blast
  ultimately show ?case using ms(1) u(3) by simp
qed (simp add: ret_Inr rows_apart_def)

text \<open>A row that the search for the mapping of an event passes over.\<close>

definition passed_over :: "Event \<Rightarrow> row \<Rightarrow> bool" where
  "passed_over event r \<longleftrightarrow>
    (\<exists>raw j m. r ''payload_json'' = Doc raw \<and> raw_value raw = Some j \<and> decode_mapping j = Some m \<and>
      \<not> eventMappingMatches m event)"

lemma first_mapping_finds:
  assumes "\<exists>r \<in> set rs. mapping_row m r" and "\<forall>r \<in> set rs. mapping_row m r \<or> passed_over event r"
    and "mapping_canonical m" and "eventMappingMatches m event"
  shows "first_mapping event rs w = (Inr (Some m), w)"
  using assms(1,2)
proof (induction rs)
  case (Cons r rs)
  have decoded: "decode_mapping (mapping_json m) = Some m" by (rule mapping_decodes [OF assms(3)])
  show ?case
  proof (cases "mapping_row m r")
    case True
    then show ?thesis using decoded assms(4) by (simp add: mapping_row_def seq_apply scan_texts_def check_apply)
  next
    case False
    with Cons.prems have "passed_over event r" "\<exists>r \<in> set rs. mapping_row m r" by auto
    with Cons.IH Cons.prems(2) show ?thesis
      by (auto simp: passed_over_def seq_apply scan_texts_def check_apply)
  qed
qed simp

text \<open>
  C38. A mapping that was synchronized is the one under which the worker handles the events of its workspace
  that match it, whether its row was there before or not, unless another enabled mapping claims them too.
\<close>

theorem synchronized_mapping_applies:
  assumes "alone E" and "keyed (w_db w) mappings_table" and "distinct (map mapping_resource ms)"
    and "SynchronizeEventMappings E ms w = (Inr (), w')"
    and "m \<in> set ms" "mapping_canonical m" "eventMappingMatches m event" "em_WorkspaceID m = evt_WorkspaceID event"
    and "\<forall>n \<in> set ms - {m}. mapping_canonical n \<and> \<not> eventMappingMatches n event"
    and "\<forall>r \<in> rows_apart mappings_table (mapping_resource ` set ms) (w_db w). passed_over event r"
    and "eventMapping E event w' = (Inr found, w'')"
  shows "found = Some m"
proof -
  have stored: "\<forall>n \<in> set ms. mapping_stored n (w_db w')"
    and apart: "rows_apart mappings_table (mapping_resource ` set ms) (w_db w') = rows_apart mappings_table (mapping_resource ` set ms) (w_db w)"
    using synchronized_rows [OF assms(1-4)] by blast+
  have passed: "passed_over event r" if "mapping_row n r" "n \<in> set ms - {m}" for n r
    using that assms(9) mapping_decodes [of n] by (auto simp: passed_over_def mapping_row_def)
  have all: "mapping_row m r \<or> passed_over event r" if "r \<in> set (w_db w' mappings_table)" for r
  proof (cases "r \<in> rows_apart mappings_table (mapping_resource ` set ms) (w_db w')")
    case True
    with assms(10) apart show ?thesis by simp
  next
    case False
    with that obtain n where "n \<in> set ms" "r ''resource_key'' = Text (mapping_resource n)" by (auto simp: rows_apart_def)
    with stored that have "mapping_row n r" "n \<in> set ms" by (auto simp: resource_row_def)
    with passed show ?thesis by blast
  qed
  have "em_Enabled m" using assms(7) by (auto simp: eventMappingMatches_def split: if_splits)
  with stored assms(5) obtain r where r: "r \<in> set (w_db w' mappings_table)" "mapping_row m r" "r ''disabled_at'' = Null"
    by (auto simp: resource_row_def mapping_row_def)
  let ?p = "And [Equal ''object_key'' (Text (evt_WorkspaceID event)), IsNull ''disabled_at'']"
  from assms(11) obtain rs u where "select E mappings_table ?p w' = (Inr rs, u)"
    and search: "first_mapping event (ascending ''resource_key'' rs) u = (Inr found, w'')"
    by (auto simp: eventMapping_def seq_Inr)
  with select_Inr [OF assms(1)] have rs: "set rs = {r \<in> set (w_db w' mappings_table). holds (w_db w') r ?p}" by fastforce
  have "first_mapping event (ascending ''resource_key'' rs) u = (Inr (Some m), u)"
    using r all assms(6,7,8) by (intro first_mapping_finds) (auto simp: rs where_simps mapping_row_def)
  with search show ?thesis by simp
qed

lemma nothing_ascending: "ascending c [] = []"
  by (simp add: ascending_def)

lemma demo_valid: "EventMapping_Validate demo_mapping = None"
  by code_simp

lemma demo_matches: "eventMappingMatches demo_mapping hook_event"
  by code_simp

theorem synchronized_mapping_applies_witness:
  "\<exists>w' w''. SynchronizeEventMappings hook_env [demo_mapping] (world_of (\<lambda>_. [])) = (Inr (), w') \<and>
     eventMapping hook_env hook_event w' = (Inr (Some demo_mapping), w'')"
proof -
  let ?w = "world_of (\<lambda>_. [])"
  have "\<exists>w'. SynchronizeEventMappings hook_env [demo_mapping] ?w = (Inr (), w')"
    by (simp add: demo_valid synchronizeEventMapping_def write_mapping_def wrapped_for_def scanned_row_def run_steps world_of_def select_rows_def
        insert_row_def conflicts_def Let_def)
  then obtain w' where run: "SynchronizeEventMappings hook_env [demo_mapping] ?w = (Inr (), w')" by blast
  have keyed: "keyed (w_db ?w) mappings_table" by (simp add: world_of_def keyed_def)
  have ws: "em_WorkspaceID demo_mapping = evt_WorkspaceID hook_event" by (simp add: demo_mapping_def hook_event_def)
  have "\<exists>x u. eventMapping hook_env hook_event w' = (Inr x, u)"
  proof -
    have "mapping_stored demo_mapping (w_db w')" and "rows_apart mappings_table {mapping_resource demo_mapping} (w_db w') = {}"
      using synchronized_rows [OF hook_env_simps(2) keyed _ run] by (simp_all add: rows_apart_def world_of_def)
    then have only: "mapping_row demo_mapping r" if "r \<in> set (w_db w' mappings_table)" for r
      using that by (auto simp: resource_row_def rows_apart_def)
    obtain rs u where sel: "select hook_env mappings_table (And [Equal ''object_key'' (Text (evt_WorkspaceID hook_event)), IsNull ''disabled_at'']) w' = (Inr rs, u)"
      by (simp add: run_steps)
    then have "set rs \<subseteq> set (w_db w' mappings_table)" using select_Inr [OF hook_env_simps(2)] by fastforce
    then show ?thesis
      using sel only first_mapping_finds [OF _ _ demo_mapping_canonical demo_matches, of "ascending ''resource_key'' rs" u]
      by (cases "rs = []") (simp_all add: eventMapping_def seq_apply nothing_ascending subset_iff, blast dest: last_in_set)
  qed
  then obtain x u where search: "eventMapping hook_env hook_event w' = (Inr x, u)" by blast
  have "x = Some demo_mapping"
    by (rule synchronized_mapping_applies [OF hook_env_simps(2) keyed _ run _ demo_mapping_canonical demo_matches ws _ _ search])
      (simp_all add: rows_apart_def world_of_def)
  with run search show ?thesis by blast
qed

section \<open>A required connection\<close>

definition crm_requirement :: ConnectionRequirement where
  "crm_requirement =
    \<lparr>creq_Key = ''crm'', creq_WorkspaceID = ''w1'', creq_ConnectorKey = ''c'', creq_ProviderKey = ''p'', creq_Name = ''CRM'',
     creq_Status = [], creq_Config = marshal (JObj [(''url'', JStr ''https://new'')])\<rparr>"


text \<open>
  The lookup and the update are not one transaction: a revocation between them is written over with the
  status that was read before it.
\<close>

definition revoke_all :: "database \<Rightarrow> database" where
  "revoke_all d = snd (update_rows connections_table (set_columns [(''status'', Text ''revoked'')]) AlwaysTrue d)"

definition revoking_env :: env where
  "revoking_env = crm_env\<lparr>ev_others := (\<lambda>n d. if n = 1 then revoke_all d else d)\<rparr>"

definition active_row :: row where
  "active_row = crm_row [(''url'', JStr ''https://crm'')] [(''token'', ''secret:k'')] ''active''"

lemma required_active:
  "map_sum (\<lambda>_. ()) cn_Status (case requirement_config revoking_env crm_requirement of
     Inl e \<Rightarrow> Inl e | Inr (p, config) \<Rightarrow> required_connection revoking_env crm_requirement p config (Some active_row)) = Inr ''active''"
  by code_simp


definition active_db :: database where
  "active_db = (\<lambda>_. [])(connections_table := [active_row])"

lemma revoking_env_simps [simp]:
  "ev_fault revoking_env n = Fine" "ev_ctx_err revoking_env n = False"
  "ev_others revoking_env n d = (if n = 1 then revoke_all d else d)"
  by (simp_all add: revoking_env_def crm_env_def calm_env_def)

lemma active_row_columns [simp]:
  "active_row ''id'' = Text ''1''" "active_row ''workspace_id'' = Text ''w1''" "active_row ''connection_key'' = Text ''crm''"
  "\<not> has_null active_row requirement_columns"
  by (simp_all add: active_row_def crm_row_def requirement_columns_def config_json_def refs_json_def)

lemma active_db_revoked: "revoke_all active_db = active_db(connections_table := [active_row(''status'' := Text ''revoked'')])"
  by (simp add: revoke_all_def active_db_def update_rows_def where_simps)

lemma active_db_tables [simp]:
  "active_db connections_table = [active_row]" "active_db fences = []" "connections_table \<noteq> fences"
  by (simp_all add: active_db_def connections_table_def fences_def)

theorem synchronization_undoes_revocation:
  "ev_others revoking_env 1 active_db = active_db(connections_table := [active_row(''status'' := Text ''revoked'')]) \<and>
   (\<exists>w'. SynchronizeConnections revoking_env [crm_requirement] (world_of active_db) = (Inr (), w') \<and>
     (\<forall>r \<in> set (w_db w' connections_table). r ''status'' = Text ''active''))"
proof -
  obtain p config c where p: "requirement_config revoking_env crm_requirement = Inr (p, config)"
    and c: "required_connection revoking_env crm_requirement p config (Some active_row) = Inr c" "cn_Status c = ''active''"
    using required_active
    by (cases "requirement_config revoking_env crm_requirement";
        cases "required_connection revoking_env crm_requirement (fst (projr (requirement_config revoking_env crm_requirement)))
          (snd (projr (requirement_config revoking_env crm_requirement))) (Some active_row)") auto
  let ?w = "(world_of active_db)\<lparr>w_step := 1\<rparr>"
  have look: "scanned_row revoking_env connections_table (requirement_where crm_requirement) requirement_columns (world_of active_db)
      = (Inr (Some active_row), ?w)"
    by (simp add: scanned_row_def select_row_def select_def statement_def before_step_def seq_apply world_of_def Let_def
        scan_texts_def check_apply select_rows_def requirement_where_def where_simps crm_requirement_def
        del: has_null.simps)
  have written: "\<exists>n v. write_required revoking_env c t (Some active_row) ?w = (Inr n, v) \<and>
      (\<forall>r \<in> set (w_db v connections_table). r ''status'' = Text ''active'')" for t
    using c(2)
    by (simp add: write_required_def wrapped_def seq_apply try_op_apply guarded_update_def update_set_def statement_def
        before_step_def world_of_def Let_def active_db_revoked update_rows_def where_simps row_fenced_def
        connection_columns_sets)
  from written obtain n v where "write_required revoking_env c (ev_clock revoking_env 1) (Some active_row) ?w = (Inr n, v)"
    "\<forall>r \<in> set (w_db v connections_table). r ''status'' = Text ''active''" by blast
  then show ?thesis
    using look p c(1)
    by (simp add: active_db_revoked seq_apply ctx_done_def of_result_apply synchronizeConnection_def wrapped_def try_op_apply now_def)
qed

end
