(* ===== verification/Catalog.thy ===== *)
theory Catalog
  imports Requirements
begin

text \<open>
  The catalog of connectors: \<open>builtin_catalog_sync.go\<close> stores the definitions that the Connectors module
  owns, \<open>provider_catalog_sync.go\<close> lays the descriptors of the registered providers over them, both at
  every start, and \<open>catalog_store.go\<close> lists what is enabled.
\<close>

definition connectors_table :: string where "connectors_table = ''_integration_connector_definitions''"

section \<open>Documents\<close>

text \<open>
  What \<open>json.Marshal\<close> makes of a decoded document: members in key order, numbers in their shortest form.
  Two documents are deeply equal when they marshal to the same.
\<close>

fun shortest :: "int \<Rightarrow> nat \<Rightarrow> int \<times> nat" where
  "shortest m 0 = (m, 0)"
| "shortest m (Suc k) = (if m mod 10 = 0 then shortest (m div 10) k else (m, Suc k))"

definition canonical_members :: "(string \<times> json) list \<Rightarrow> (string \<times> json) list" where
  "canonical_members ms =
    map (\<lambda>k. (k, case map_of ms k of Some j \<Rightarrow> j | None \<Rightarrow> JNull)) (sort (remdups (map fst ms)))"

fun canonical :: "json \<Rightarrow> json" where
  "canonical (JNum m k) = (case shortest m k of (m', k') \<Rightarrow> JNum m' k')"
| "canonical (JArr js) = JArr (map canonical js)"
| "canonical (JObj ms) = JObj (canonical_members (map (\<lambda>(k, j). (k, canonical j)) ms))"
| "canonical j = j"

definition deep_equal :: "json \<Rightarrow> json \<Rightarrow> bool" where
  "deep_equal a b \<longleftrightarrow> canonical a = canonical b"

section \<open>The definitions of the Connectors module\<close>

text \<open>The digest of a payload's bytes is carried along, as the bytes themselves are not represented.\<close>

record builtin_definition =
  bd_Key :: string
  bd_Name :: string
  bd_Payload :: raw_message
  bd_Digest :: string

record persistedBuiltinConnector =
  pbc_id :: string
  pbc_payload :: raw_message
  pbc_schemaHash :: string
  pbc_sourceKind :: string

definition zero_connector :: persistedBuiltinConnector where
  "zero_connector = \<lparr>pbc_id = [], pbc_payload = raw_nil, pbc_schemaHash = [], pbc_sourceKind = []\<rparr>"

definition scan_connector :: "bool \<Rightarrow> row \<Rightarrow> (string \<times> persistedBuiltinConnector) dbop" where
  "scan_connector includePayload r =
    seq (scan_texts r ([''resource_key'', ''id'', ''schema_hash'', ''source_kind''] @ (if includePayload then [''payload_json''] else []))) (\<lambda>_.
    ret (text_of (r ''resource_key''),
      \<lparr>pbc_id = text_of (r ''id''), pbc_payload = (if includePayload then doc_of (r ''payload_json'') else raw_nil),
       pbc_schemaHash = text_of (r ''schema_hash''), pbc_sourceKind = text_of (r ''source_kind'')\<rparr>))"

text \<open>The map of a query: of two rows with one key the later one stays.\<close>

definition loadBuiltinConnectors :: "env \<Rightarrow> bool \<Rightarrow> (string \<times> persistedBuiltinConnector) list dbop" where
  "loadBuiltinConnectors E includePayload =
    seq (wrapped ''load Integration connectors: %w'' (select E connectors_table AlwaysTrue)) (\<lambda>rs.
    seq (wrapped ''scan Integration connector: %w'' (each (scan_connector includePayload) rs)) (\<lambda>entries.
    ret (rev entries)))"

definition scan_payload :: "row \<Rightarrow> (string \<times> raw_message) dbop" where
  "scan_payload r =
    seq (scan_texts r [''resource_key'', ''payload_json'']) (\<lambda>_.
    ret (text_of (r ''resource_key''), doc_of (r ''payload_json'')))"

definition loadProviderOverlayPayloads :: "env \<Rightarrow> (string \<times> raw_message) list dbop" where
  "loadProviderOverlayPayloads E =
    seq (wrapped ''load Integration provider connector payloads: %w''
      (select E connectors_table (Equal ''source_kind'' (Text ''connectors+provider'')))) (\<lambda>rs.
    seq (wrapped ''scan Integration provider connector payload: %w'' (each scan_payload rs)) (\<lambda>entries.
    ret (rev entries)))"

definition needsProviderPayloads :: "(string \<times> persistedBuiltinConnector) list \<Rightarrow> bool" where
  "needsProviderPayloads existing =
    list_ex (\<lambda>(key, _). case map_of existing key of
      None \<Rightarrow> False | Some c \<Rightarrow> trim_space (pbc_sourceKind c) = ''connectors+provider'') existing"

definition existing_connector ::
    "(string \<times> persistedBuiltinConnector) list \<Rightarrow> (string \<times> raw_message) list \<Rightarrow> string \<Rightarrow> persistedBuiltinConnector" where
  "existing_connector existing payloads key =
    (let c = (case map_of existing key of None \<Rightarrow> zero_connector | Some c \<Rightarrow> c) in
     case map_of payloads key of None \<Rightarrow> c | Some payload \<Rightarrow> c\<lparr>pbc_payload := payload\<rparr>)"

text \<open>What of a document the registered providers do not own, given the definition's own members.\<close>

definition own_part :: "(string \<times> json) list \<Rightarrow> (string \<times> json) list \<Rightarrow> (string \<times> json) list" where
  "own_part desired document =
    fold (\<lambda>key m. if map_of desired key = None then obj_delete key m else m) [''type'', ''source'', ''lifecycle_status'']
      (obj_delete ''operations'' (obj_delete ''providers'' document))"

definition documents_agree :: "raw_message \<Rightarrow> raw_message \<Rightarrow> bool" where
  "documents_agree payload desiredPayload =
    (case (decode_object payload, decode_object desiredPayload) of
       (Some document, Some desired) \<Rightarrow>
         let desired = obj_delete ''operations'' (obj_delete ''providers'' desired) in
         (raw_value payload = Some JNull \<longleftrightarrow> raw_value desiredPayload = Some JNull) \<and>
         deep_equal (JObj (own_part desired document)) (JObj desired)
     | _ \<Rightarrow> False)"

definition builtinConnectorIsCurrent :: "persistedBuiltinConnector \<Rightarrow> raw_message \<Rightarrow> string \<Rightarrow> bool" where
  "builtinConnectorIsCurrent existing desiredPayload desiredHash =
    (let source = trim_space (pbc_sourceKind existing) in
     if source = ''connectors'' then pbc_schemaHash existing = desiredHash
     else if source = ''connectors+provider'' then documents_agree (pbc_payload existing) desiredPayload
     else False)"

definition builtin_columns :: "builtin_definition \<Rightarrow> time \<Rightarrow> (string \<times> sql) list" where
  "builtin_columns definition t =
    [(''name'', Text (bd_Name definition)), (''payload_json'', Doc (bd_Payload definition)),
     (''schema_hash'', Text (bd_Digest definition)), (''source_kind'', Text ''connectors''),
     (''source_id'', Text ''connectors''), (''disabled_at'', Null), (''updated_at'', timestamp t)]"

definition syncBuiltinConnector :: "env \<Rightarrow> builtin_definition \<Rightarrow> persistedBuiltinConnector \<Rightarrow> unit dbop" where
  "syncBuiltinConnector E definition existing =
    seq (now E) (\<lambda>t.
    if pbc_id existing = [] then
      seq (wrapped_for ''insert Integration connector %s: %w'' (bd_Key definition) (insert_into E connectors_table
        ([(''id'', Text (''connector:'' @ bd_Key definition)), (''resource_key'', Text (bd_Key definition)),
          (''object_key'', Text []), (''schema_version'', Text ''1''), (''created_at'', timestamp t)] @ builtin_columns definition t)))
        (\<lambda>_. ret ())
    else if builtinConnectorIsCurrent existing (bd_Payload definition) (bd_Digest definition) then ret ()
    else
      seq (wrapped_for ''update Integration connector %s: %w'' (bd_Key definition)
        (update_set E connectors_table (builtin_columns definition t) (Equal ''id'' (Text (pbc_id existing))))) (\<lambda>_. ret ()))"

definition SyncBuiltinCatalog :: "env \<Rightarrow> builtin_definition list \<Rightarrow> unit dbop" where
  "SyncBuiltinCatalog E definitions =
    seq (loadBuiltinConnectors E False) (\<lambda>existing.
    seq (if needsProviderPayloads existing then loadProviderOverlayPayloads E else ret []) (\<lambda>payloads.
    seq (each (\<lambda>definition. syncBuiltinConnector E definition (existing_connector existing payloads (bd_Key definition)))
           definitions) (\<lambda>_. ret ())))"

section \<open>The descriptors of the registered providers\<close>

text \<open>
  What the connector SDK says of a provider: its keys, the JSON form of its fields and the texts of its
  operations' modes and effects; \<open>pd_Error\<close> is the error of its \<open>Validate\<close>.
\<close>

record descriptor_operation =
  do_Key :: string
  do_Mode :: string
  do_Effect :: string
  do_Idempotent :: bool

record ProviderDescriptor =
  pd_ConnectorKey :: string
  pd_ProviderKey :: string
  pd_ProviderRevision :: string
  pd_ConfigFields :: json
  pd_SecretFields :: json
  pd_StartupActivation :: string
  pd_Operations :: "descriptor_operation list"
  pd_Error :: "err option"

definition operation_json :: "descriptor_operation \<Rightarrow> json" where
  "operation_json d =
    JObj [(''execution_mode'', JStr (do_Mode d)), (''idempotency_supported'', JBool (do_Idempotent d)),
          (''key'', JStr (do_Key d)), (''side_effect'', JStr (do_Effect d))]"

definition provider_json :: "ProviderDescriptor \<Rightarrow> json" where
  "provider_json d =
    JObj [(''config_fields'', pd_ConfigFields d), (''key'', JStr (pd_ProviderKey d)),
          (''operation_keys'', JArr (map JStr (sort (map do_Key (pd_Operations d))))),
          (''provider_revision'', JStr (pd_ProviderRevision d)), (''secret_fields'', pd_SecretFields d),
          (''startup_activation'', JStr (pd_StartupActivation d))]"

text \<open>The operations of all providers of a connector, by key; the first provider that has one describes it.\<close>

definition operation_values :: "ProviderDescriptor list \<Rightarrow> json list" where
  "operation_values descriptors =
    (let all = concat (map pd_Operations descriptors);
         described = map_of (map (\<lambda>d. (do_Key d, operation_json d)) all) in
     map (\<lambda>key. case described key of Some j \<Rightarrow> j | None \<Rightarrow> JNull) (sort (remdups (map do_Key all))))"

definition default_members :: "string \<Rightarrow> (string \<times> json) list" where
  "default_members key =
    [(''key'', JStr key), (''type'', JStr ''connector''), (''name'', JStr key), (''source'', JStr ''integration-provider''),
     (''lifecycle_status'', JStr ''active'')]"

text \<open>
  The document under the overlay: the defaults with the stored members over them. A stored \<open>null\<close> makes the
  map nil, and the assignment of \<open>providers\<close> panics.
\<close>

definition base_document :: "string \<Rightarrow> row option \<Rightarrow> err + (string \<times> json) list" where
  "base_document key found =
    (case found of
       None \<Rightarrow> Inr (default_members key)
     | Some r \<Rightarrow>
         if blank_doc (r ''payload_json'') then Inr (default_members key)
         else
           (case raw_value (doc_of (r ''payload_json'')) of
              Some (JObj m) \<Rightarrow> Inr (put_all m (default_members key))
            | Some JNull \<Rightarrow> Inl nil_map
            | _ \<Rightarrow> Inl (Errorf ''decode Connectors-owned definition %s before Provider overlay: %w'' [key, ''json''])))"

definition overlaid :: "ProviderDescriptor list \<Rightarrow> (string \<times> json) list \<Rightarrow> (string \<times> json) list" where
  "overlaid descriptors document =
    obj_put ''operations'' (JArr (operation_values descriptors))
      (obj_put ''providers'' (JArr (map provider_json descriptors)) document)"

definition contains_text :: "string \<Rightarrow> string \<Rightarrow> bool" where
  "contains_text s sub = list_ex (\<lambda>i. has_prefix (drop i s) sub) [0 ..< Suc (length s)]"

definition overlay_source :: "string \<Rightarrow> string" where
  "overlay_source s = (if s = ''connectors'' \<or> contains_text s ''connectors'' then ''connectors+provider'' else ''provider'')"

definition overlay_name :: "string \<Rightarrow> (string \<times> json) list \<Rightarrow> string" where
  "overlay_name key document =
    (let name = trim_space (sprint (config_value document ''name'')) in
     if name = [] \<or> name = ''<nil>'' then key else name)"

definition overlay_columns :: "env \<Rightarrow> json \<Rightarrow> string \<Rightarrow> string \<Rightarrow> string \<Rightarrow> time \<Rightarrow> (string \<times> sql) list" where
  "overlay_columns E document name sourceKind sourceID t =
    [(''name'', Text name), (''payload_json'', Doc (marshal document)), (''schema_hash'', Text (ev_sha256_json E document)),
     (''source_kind'', Text sourceKind), (''source_id'', Text sourceID), (''disabled_at'', Null), (''updated_at'', timestamp t)]"

definition write_overlay ::
    "env \<Rightarrow> string \<Rightarrow> ProviderDescriptor list \<Rightarrow> (string \<times> json) list \<Rightarrow> time \<Rightarrow> row option \<Rightarrow> nat dbop" where
  "write_overlay E key descriptors document t found =
    (let payload = canonical (JObj document);
         revisions = join_text '','' (map (\<lambda>d. pd_ProviderKey d @ '':'' @ pd_ProviderRevision d) descriptors) in
     case found of
       None \<Rightarrow>
         wrapped_for ''insert Integration connector %s: %w'' key (insert_into E connectors_table
           ([(''id'', Text (''connector:'' @ key)), (''resource_key'', Text key), (''object_key'', Text []),
             (''schema_version'', Text ''1''), (''created_at'', timestamp t)] @
            overlay_columns E payload key ''provider'' revisions t))
     | Some r \<Rightarrow>
         wrapped_for ''update Integration connector %s: %w'' key (update_set E connectors_table
           (overlay_columns E payload (overlay_name key document) (overlay_source (text_of (r ''source_kind''))) revisions t)
           (Equal ''id'' (r ''id''))))"

text \<open>The providers in the order of their keys (\<open>sort.Slice\<close> leaves open how two of one key stand).\<close>

definition syncProviderConnector :: "env \<Rightarrow> string \<Rightarrow> ProviderDescriptor list \<Rightarrow> unit dbop" where
  "syncProviderConnector E key descriptors =
    (let descriptors = sort_key pd_ProviderKey descriptors in
     seq (now E) (\<lambda>t.
     seq (wrapped_for ''lookup Integration connector %s: %w'' key
       (scanned_row E connectors_table (Equal ''resource_key'' (Text key)) [''id'', ''payload_json'', ''source_kind''])) (\<lambda>found.
     seq (of_result (base_document key found)) (\<lambda>document.
     seq (write_overlay E key descriptors (overlaid descriptors document) t found) (\<lambda>_. ret ())))))"

definition SyncProviderCatalog :: "env \<Rightarrow> ProviderDescriptor list \<Rightarrow> unit dbop" where
  "SyncProviderCatalog E descriptors =
    (case find_error pd_Error descriptors of
       Some e \<Rightarrow> throw (Errorf ''validate Integration provider descriptor: %w'' [err_text e])
     | None \<Rightarrow>
         seq (each (\<lambda>key. syncProviderConnector E key (filter (\<lambda>d. pd_ConnectorKey d = key) descriptors))
                (sort (remdups (map pd_ConnectorKey descriptors)))) (\<lambda>_. ret ()))"

section \<open>Listing\<close>

definition scan_definition :: "row \<Rightarrow> ConnectorDefinition dbop" where
  "scan_definition r =
    seq (scan_texts r [''resource_key'', ''name'', ''payload_json'']) (\<lambda>_.
    seq (check (json_valid (doc_of (r ''payload_json'')))
      (Errorf ''Integration connector %q contains invalid definition JSON'' [text_of (r ''resource_key'')])) (\<lambda>_.
    ret \<lparr>cdf_Key = text_of (r ''resource_key''), cdf_DisplayName = text_of (r ''name''), cdf_Operations = [],
         cdf_Schema = raw_nil, cdf_Definition = doc_of (r ''payload_json'')\<rparr>))"

definition ListConnectorDefinitions :: "env \<Rightarrow> ConnectorDefinition list dbop" where
  "ListConnectorDefinitions E =
    seq (wrapped ''query Integration connector catalog: %w'' (select E connectors_table (IsNull ''disabled_at''))) (\<lambda>rs.
    each scan_definition (ascending ''resource_key'' rs))"

section \<open>Equal documents\<close>

lemma shortest_again: "shortest m k = (m', k') \<Longrightarrow> shortest m' k' = (m', k')"
  by (induction m k rule: shortest.induct) (auto split: if_splits)

lemma map_of_keyed: "map_of (map (\<lambda>k. (k, f k)) ks) k = (if k \<in> set ks then Some (f k) else None)"
  by (induction ks) auto

lemma map_of_canonical_members [simp]: "map_of (canonical_members ms) = map_of ms"
proof
  fix k
  have "k \<in> fst ` set ms \<longleftrightarrow> map_of ms k \<noteq> None" by (simp add: map_of_eq_None_iff)
  then show "map_of (canonical_members ms) k = map_of ms k"
    by (auto simp: canonical_members_def map_of_keyed split: option.splits)
qed

lemma canonical_members_cong: "map_of a = map_of b \<Longrightarrow> canonical_members a = canonical_members b"
proof -
  assume same: "map_of a = map_of b"
  then have "set (map fst a) = set (map fst b)" by (metis dom_map_of_conv_image_fst list.set_map)
  then have "sort (remdups (map fst a)) = sort (remdups (map fst b))"
    by (metis sorted_list_of_set_sort_remdups)
  with same show ?thesis by (simp add: canonical_members_def)
qed

lemma map_of_canonical: "canonical (JObj ms) = JObj x \<Longrightarrow> map_of x k = map_option canonical (map_of ms k)"
  by (auto simp: map_of_map)

lemma canonical_object:
  "canonical (JObj a) = canonical (JObj b) \<longleftrightarrow>
    (\<forall>k. map_option canonical (map_of a k) = map_option canonical (map_of b k))"
proof
  assume same: "canonical (JObj a) = canonical (JObj b)"
  obtain x where x: "canonical (JObj a) = JObj x" by simp
  with same have "canonical (JObj b) = JObj x" by simp
  from map_of_canonical [OF x] map_of_canonical [OF this]
  show "\<forall>k. map_option canonical (map_of a k) = map_option canonical (map_of b k)" by simp
next
  assume same: "\<forall>k. map_option canonical (map_of a k) = map_option canonical (map_of b k)"
  have "map_of (map (\<lambda>(k, j). (k, canonical j)) a) k = map_of (map (\<lambda>(k, j). (k, canonical j)) b) k" for k
    unfolding map_of_map comp_apply using same by blast
  then have "map_of (map (\<lambda>(k, j). (k, canonical j)) a) = map_of (map (\<lambda>(k, j). (k, canonical j)) b)" by (rule ext)
  then show "canonical (JObj a) = canonical (JObj b)" unfolding canonical.simps by (rule arg_cong [OF canonical_members_cong])
qed

lemma canonical_again [simp]: "canonical (canonical j) = canonical j"
proof (induction j rule: canonical.induct)
  case (1 m k)
  show ?case using shortest_again by (cases "shortest m k") simp
next
  case (3 ms)
  let ?x = "canonical_members (map (\<lambda>(k, j). (k, canonical j)) ms)"
  have "map_option canonical (map_of ?x k) = map_option canonical (map_of ms k)" for k
    using 3 by (cases "map_of ms k") (auto simp: map_of_map dest: map_of_SomeD)
  then have "canonical (JObj ?x) = canonical (JObj ms)" unfolding canonical_object by blast
  then show ?case by (simp only: canonical.simps)
qed simp_all

section \<open>The overlay leaves the definition as it is\<close>

lemma map_of_deletions:
  "map_of (fold (\<lambda>key m. if c key then obj_delete key m else m) ks m) k = (if k \<in> set ks \<and> c k then None else map_of m k)"
  by (induction ks arbitrary: m) auto

lemma map_of_own_part:
  "map_of (own_part desired document) k =
    (if k \<in> {''operations'', ''providers''} \<or> k \<in> {''type'', ''source'', ''lifecycle_status''} \<and> map_of desired k = None
     then None else map_of document k)"
  unfolding own_part_def map_of_deletions by auto

abbreviation own_members :: "(string \<times> json) list \<Rightarrow> (string \<times> json) list" where
  "own_members desired \<equiv> obj_delete ''operations'' (obj_delete ''providers'' desired)"

lemma map_of_overlaid:
  "map_of (overlaid descriptors (put_all document (default_members key))) k =
    (if k = ''operations'' then Some (JArr (operation_values descriptors))
     else if k = ''providers'' then Some (JArr (map provider_json descriptors))
     else case map_of document k of None \<Rightarrow> map_of (default_members key) k | Some j \<Rightarrow> Some j)"
  by (simp add: overlaid_def)

lemma own_part_self: "deep_equal (JObj (own_part (own_members desired) desired)) (JObj (own_members desired))"
  unfolding deep_equal_def canonical_object by (simp add: map_of_own_part)

lemma not_both: "\<not> (A \<or> B \<and> C) \<Longrightarrow> C \<Longrightarrow> \<not> B"
  by blast

lemma default_members_none:
  assumes "k \<noteq> ''key''" "k \<noteq> ''name''" "k \<notin> {''type'', ''source'', ''lifecycle_status''}"
  shows "map_of (default_members key) k = None"
  using assms by (simp add: default_members_def)

lemma overlay_agrees:
  assumes "map_of desired ''key'' \<noteq> None" "map_of desired ''name'' \<noteq> None"
    and agree: "deep_equal (JObj (own_part (own_members desired) document)) (JObj (own_members desired))"
    and x: "canonical (JObj (overlaid descriptors (put_all document (default_members key)))) = JObj x"
  shows "deep_equal (JObj (own_part (own_members desired) x)) (JObj (own_members desired))"
  unfolding deep_equal_def canonical_object
proof
  fix k
  let ?D = "own_members desired"
  show "map_option canonical (map_of (own_part ?D x) k) = map_option canonical (map_of ?D k)"
  proof (cases "k \<in> {''operations'', ''providers''} \<or> k \<in> {''type'', ''source'', ''lifecycle_status''} \<and> map_of ?D k = None")
    case True
    then have "map_of (own_part ?D x) k = None" unfolding map_of_own_part by (rule if_P)
    moreover have "map_of ?D k = None"
      using True by (elim disjE conjE) (auto simp only: insert_iff empty_iff map_of_obj_delete fun_upd_apply if_True split: if_splits)
    ultimately show ?thesis by simp
  next
    case False
    then have kept: "map_of (own_part ?D y) k = map_of y k" for y by (simp only: map_of_own_part if_False)
    have same: "map_option canonical (map_of document k) = map_option canonical (map_of ?D k)"
      using agree [unfolded deep_equal_def canonical_object, THEN spec, of k] unfolding kept .
    from False have plain: "k \<noteq> ''operations''" "k \<noteq> ''providers''" by blast+
    have x_at: "map_of x k = map_option canonical
        (case map_of document k of None \<Rightarrow> map_of (default_members key) k | Some j \<Rightarrow> Some j)"
      unfolding map_of_canonical [OF x] map_of_overlaid if_not_P [OF plain(1)] if_not_P [OF plain(2)] ..
    show ?thesis
    proof (cases "map_of document k")
      case None
      with same have none: "map_of ?D k = None" by simp
      have "k \<noteq> ''key''" "k \<noteq> ''name''" using none assms(1,2) by auto
      moreover have "k \<notin> {''type'', ''source'', ''lifecycle_status''}" by (rule not_both [OF False none])
      ultimately have "map_of (default_members key) k = None" by (rule default_members_none)
      with None none show ?thesis unfolding kept x_at by simp
    next
      case (Some j)
      then show ?thesis unfolding kept x_at same [symmetric] by simp
    qed
  qed
qed

section \<open>The text around a trimmed one\<close>

lemma trim_infix: "\<exists>a b. s = a @ trim_space s @ b"
proof -
  obtain r where r: "s = r @ trim_front go_spaces s" using trim_front_suffix by blast
  obtain q where "rev (trim_front go_spaces s) = q @ trim_front (map rev go_spaces) (rev (trim_front go_spaces s))"
    using trim_front_suffix by blast
  then have "trim_front go_spaces s = rev (trim_front (map rev go_spaces) (rev (trim_front go_spaces s))) @ rev q"
    by (metis rev_append rev_rev_ident)
  with r show ?thesis unfolding trim_space_def by metis
qed

lemma contains_infix: "contains_text (a @ x @ b) x"
  by (auto simp: contains_text_def list_ex_iff intro!: bexI [of _ "length a"])

lemma overlay_source_connectors:
  assumes "trim_space s = ''connectors''"
  shows "overlay_source s = ''connectors+provider''"
proof -
  obtain a b where "s = a @ trim_space s @ b" using trim_infix by blast
  then have "s = a @ ''connectors'' @ b" unfolding assms .
  then have "contains_text s ''connectors''" by (simp only: contains_infix)
  then show ?thesis by (simp add: overlay_source_def)
qed

lemma overlay_source_both: "overlay_source ''connectors+provider'' = ''connectors+provider''"
  using contains_infix [of "[]" "''connectors''" "''+provider''"] by (simp add: overlay_source_def)

section \<open>What is loaded\<close>

lemma connectors_by_resource: "by_resource connectors_table"
  by (simp add: by_resource_def unique_keys_def connectors_table_def)

text \<open>Scanning rows one by one, with no effect.\<close>

lemma each_scan:
  assumes "\<And>r w. scan r w = (if ok r then Inr (f r) else Inl StorageErr, w)"
    and "each scan rs w = (Inr xs, w')"
  shows "xs = map f rs \<and> w' = w"
  using assms(2)
proof (induction rs arbitrary: xs)
  case (Cons r rs)
  then show ?case by (auto simp: seq_Inr ret_Inr assms(1) split: if_splits)
qed (simp add: ret_Inr)

definition connector_entry :: "row \<Rightarrow> string \<times> persistedBuiltinConnector" where
  "connector_entry r =
    (text_of (r ''resource_key''),
     \<lparr>pbc_id = text_of (r ''id''), pbc_payload = raw_nil, pbc_schemaHash = text_of (r ''schema_hash''),
      pbc_sourceKind = text_of (r ''source_kind'')\<rparr>)"

lemma loaded_connectors:
  assumes "alone E" and "loadBuiltinConnectors E False w = (Inr existing, w')"
  shows "existing = rev (map connector_entry (w_db w connectors_table)) \<and> w_db w' = w_db w"
proof -
  from assms(2) obtain rs u xs where sel: "select E connectors_table AlwaysTrue w = (Inr rs, u)"
    and scan: "each (scan_connector False) rs u = (Inr xs, w')" and existing: "existing = rev xs"
    by (auto simp: loadBuiltinConnectors_def seq_Inr wrapped_Inr ret_Inr)
  from select_Inr [OF assms(1) sel] have rs: "rs = w_db w connectors_table" "w_db u = w_db w"
    by (simp_all add: select_rows_def where_simps)
  have "scan_connector False r v =
      (if \<not> has_null r [''resource_key'', ''id'', ''schema_hash'', ''source_kind''] then Inr (connector_entry r) else Inl StorageErr, v)" for r v
    by (simp add: scan_connector_def seq_apply scan_texts_def check_apply connector_entry_def del: has_null.simps)
  from each_scan [OF this scan] rs existing show ?thesis by simp
qed

lemma loaded_payloads:
  assumes "alone E" and "loadProviderOverlayPayloads E w = (Inr payloads, w')"
  shows "payloads = rev (map (\<lambda>r. (text_of (r ''resource_key''), doc_of (r ''payload_json'')))
      (select_rows connectors_table (Equal ''source_kind'' (Text ''connectors+provider'')) (w_db w))) \<and> w_db w' = w_db w"
proof -
  from assms(2) obtain rs u xs where sel: "select E connectors_table (Equal ''source_kind'' (Text ''connectors+provider'')) w = (Inr rs, u)"
    and scan: "each scan_payload rs u = (Inr xs, w')" and payloads: "payloads = rev xs"
    by (auto simp: loadProviderOverlayPayloads_def seq_Inr wrapped_Inr ret_Inr)
  have "scan_payload r v =
      (if \<not> has_null r [''resource_key'', ''payload_json''] then Inr (text_of (r ''resource_key''), doc_of (r ''payload_json''))
       else Inl StorageErr, v)" for r v
    by (simp add: scan_payload_def seq_apply scan_texts_def check_apply del: has_null.simps)
  from each_scan [OF this scan] select_Inr [OF assms(1) sel] payloads show ?thesis by simp
qed

lemma map_of_entries:
  assumes "\<And>r. r \<in> set rs \<Longrightarrow> f r = k \<Longrightarrow> g r = v" and "\<exists>r \<in> set rs. f r = k"
  shows "map_of (rev (map (\<lambda>r. (f r, g r)) rs)) k = Some v"
proof -
  have "map_of (rev (map (\<lambda>r. (f r, g r)) rs)) k \<noteq> None"
    using assms(2) by (auto simp: map_of_eq_None_iff image_image)
  then obtain y where "map_of (rev (map (\<lambda>r. (f r, g r)) rs)) k = Some y" by blast
  moreover from map_of_SomeD [OF this] assms(1) have "y = v" by auto
  ultimately show ?thesis by simp
qed

lemma map_of_entries_None: "(\<And>r. r \<in> set rs \<Longrightarrow> f r \<noteq> k) \<Longrightarrow> map_of (rev (map (\<lambda>r. (f r, g r)) rs)) k = None"
  by (force simp: map_of_eq_None_iff)

text \<open>What the synchronization knows of a row, and of the rows of one key.\<close>

definition connector_view :: "row \<Rightarrow> persistedBuiltinConnector" where
  "connector_view r =
    \<lparr>pbc_id = text_of (r ''id''),
     pbc_payload = (if r ''source_kind'' = Text ''connectors+provider'' then doc_of (r ''payload_json'') else raw_nil),
     pbc_schemaHash = text_of (r ''schema_hash''), pbc_sourceKind = text_of (r ''source_kind'')\<rparr>"

definition key_rows :: "string \<Rightarrow> database \<Rightarrow> row set" where
  "key_rows k d = {r \<in> set (d connectors_table). r ''resource_key'' = Text k}"

definition seen :: "persistedBuiltinConnector \<Rightarrow> row set \<Rightarrow> bool" where
  "seen c rows \<longleftrightarrow> (\<forall>r \<in> rows. c = connector_view r) \<and> (rows = {} \<longrightarrow> pbc_id c = [])"

lemma existing_seen:
  assumes "alone E" and keyed: "keyed (w_db w) connectors_table" and k: "k \<noteq> []"
    and load: "loadBuiltinConnectors E False w = (Inr existing, u)"
    and more: "(if needsProviderPayloads existing then loadProviderOverlayPayloads E else ret []) u = (Inr payloads, v)"
  shows "seen (existing_connector existing payloads k) (key_rows k (w_db w)) \<and> w_db v = w_db w"
proof -
  let ?T = "w_db w connectors_table"
  let ?both = "\<lambda>r. r ''source_kind'' = Text ''connectors+provider''"
  from loaded_connectors [OF assms(1) load] have existing: "existing = rev (map connector_entry ?T)" and u: "w_db u = w_db w" by auto
  have v: "w_db v = w_db w" and payloads: "payloads = (if needsProviderPayloads existing
      then rev (map (\<lambda>r. (text_of (r ''resource_key''), doc_of (r ''payload_json''))) (filter ?both ?T)) else [])"
    using more u loaded_payloads [OF assms(1), of u payloads v]
    by (auto simp: ret_Inr select_rows_def where_simps split: if_splits)
  have key: "text_of (r ''resource_key'') = k \<longleftrightarrow> r ''resource_key'' = Text k" for r
    using k by (auto simp: text_of_def split: sql.splits)
  have same: "q = r" if "r \<in> key_rows k (w_db w)" "q \<in> set ?T" "q ''resource_key'' = Text k" for r q
    using that by (intro keyed_rows [OF keyed that(2), of _ "[''resource_key'']"])
      (use connectors_by_resource in \<open>simp_all add: key_rows_def same_key_def by_resource_def\<close>)
  have "existing_connector existing payloads k = connector_view r" if r: "r \<in> key_rows k (w_db w)" for r
  proof -
    have found: "map_of existing k = Some (snd (connector_entry r))"
      unfolding existing connector_entry_def snd_conv
      by (rule map_of_entries) (use r same key in \<open>auto simp: key_rows_def\<close>)
    show ?thesis
    proof (cases "?both r")
      case True
      have "trim_space ''connectors+provider'' = ''connectors+provider''" by code_simp
      moreover have "connector_entry r \<in> set existing" using r by (simp add: existing key_rows_def)
      moreover have "fst (connector_entry r) = k" using r key by (simp add: connector_entry_def key_rows_def)
      moreover have "pbc_sourceKind (snd (connector_entry r)) = ''connectors+provider''"
        using True by (simp add: connector_entry_def)
      ultimately have "needsProviderPayloads existing"
        using found unfolding needsProviderPayloads_def list_ex_iff by (intro bexI [of _ "connector_entry r"]) (simp_all add: case_prod_beta)
      then have "map_of payloads k = Some (doc_of (r ''payload_json''))"
        unfolding payloads if_P
        by (simp, intro map_of_entries) (use r same key True in \<open>auto simp: key_rows_def\<close>)
      with found True show ?thesis
        by (simp add: existing_connector_def connector_view_def connector_entry_def)
    next
      case False
      have "text_of (q ''resource_key'') \<noteq> k" if "q \<in> set (filter ?both ?T)" for q
        using that key same [OF r] False by auto
      then have "map_of payloads k = None"
        unfolding payloads by (cases "needsProviderPayloads existing") (simp_all only: if_True if_False map_of.simps, rule map_of_entries_None)
      with found False show ?thesis
        by (simp add: existing_connector_def connector_view_def connector_entry_def)
    qed
  qed
  moreover have "pbc_id (existing_connector existing payloads k) = []" if none: "key_rows k (w_db w) = {}"
  proof -
    have "r ''resource_key'' \<noteq> Text k" if "r \<in> set ?T" for r using none that by (auto simp: key_rows_def)
    then have "map_of existing k = None" and "map_of payloads k = None"
      unfolding existing payloads connector_entry_def
      using map_of_entries_None [of ?T "\<lambda>r. text_of (r ''resource_key'')" k]
        map_of_entries_None [of "filter ?both ?T" "\<lambda>r. text_of (r ''resource_key'')" k] key by auto
    then show ?thesis by (simp add: existing_connector_def zero_connector_def)
  qed
  ultimately show ?thesis using v by (simp add: seen_def)
qed

section \<open>What a start leaves\<close>

text \<open>
  A definition that the Connectors module can own: it has a key, and its document says what it is and how it
  is called.
\<close>

definition complete_definition :: "builtin_definition \<Rightarrow> bool" where
  "complete_definition b \<longleftrightarrow>
    bd_Key b \<noteq> [] \<and>
    (\<exists>desired. raw_value (bd_Payload b) = Some (JObj desired) \<and>
      map_of desired ''key'' \<noteq> None \<and> map_of desired ''name'' \<noteq> None)"

text \<open>The row of a definition that is current, with the document of the definition under any overlay.\<close>

definition catalog_row :: "builtin_definition \<Rightarrow> row \<Rightarrow> bool" where
  "catalog_row b r \<longleftrightarrow>
    (\<exists>i. r ''id'' = Text i \<and> i \<noteq> []) \<and>
    (trim_space (text_of (r ''source_kind'')) = ''connectors'' \<and> text_of (r ''schema_hash'') = bd_Digest b \<or>
     r ''source_kind'' = Text ''connectors+provider'') \<and>
    (\<exists>document. raw_value (doc_of (r ''payload_json'')) = Some (JObj document)) \<and>
    documents_agree (doc_of (r ''payload_json'')) (bd_Payload b)"

text \<open>A digest tells the document: a row that says it holds the definition does.\<close>

definition digest_tells :: "builtin_definition \<Rightarrow> row \<Rightarrow> bool" where
  "digest_tells b r \<longleftrightarrow>
    (trim_space (text_of (r ''source_kind'')) = ''connectors'' \<and> text_of (r ''schema_hash'') = bd_Digest b \<longrightarrow>
     r ''payload_json'' = Doc (bd_Payload b))"

abbreviation in_catalog :: "builtin_definition \<Rightarrow> database \<Rightarrow> bool" where
  "in_catalog b \<equiv> resource_row connectors_table (catalog_row b) (bd_Key b)"

lemma both_trimmed: "trim_space ''connectors+provider'' = ''connectors+provider''"
  by code_simp

lemma connectors_trimmed: "trim_space ''connectors'' = ''connectors''"
  by code_simp

lemma definition_agrees: "complete_definition b \<Longrightarrow> documents_agree (bd_Payload b) (bd_Payload b)"
  using own_part_self by (auto simp: complete_definition_def documents_agree_def decode_object_def Let_def)

lemma agree_iff:
  assumes "raw_value a = Some (JObj document)" and "raw_value b = Some (JObj desired)"
  shows "documents_agree a b \<longleftrightarrow> deep_equal (JObj (own_part (own_members desired) document)) (JObj (own_members desired))"
  using assms by (simp add: documents_agree_def decode_object_def Let_def)

lemma agree_object:
  assumes "documents_agree a (bd_Payload b)" and "complete_definition b"
  shows "\<exists>document. raw_value a = Some (JObj document)"
  using assms
  by (auto simp: documents_agree_def decode_object_def complete_definition_def Let_def split: option.splits json.splits)

text \<open>A row that is taken as current is, and the other way round.\<close>

lemma current_row:
  assumes "complete_definition b" "digest_tells b r" "pbc_id (connector_view r) \<noteq> []"
    and "builtinConnectorIsCurrent (connector_view r) (bd_Payload b) (bd_Digest b)"
  shows "catalog_row b r"
proof -
  have id: "\<exists>i. r ''id'' = Text i \<and> i \<noteq> []"
    using assms(3) by (auto simp: connector_view_def text_of_def split: sql.splits)
  show ?thesis
  proof (cases "trim_space (text_of (r ''source_kind'')) = ''connectors''")
    case True
    with assms(4) have "text_of (r ''schema_hash'') = bd_Digest b"
      by (simp add: builtinConnectorIsCurrent_def connector_view_def)
    with True assms(2) have "doc_of (r ''payload_json'') = bd_Payload b" by (simp add: digest_tells_def)
    with id True \<open>text_of (r ''schema_hash'') = bd_Digest b\<close> definition_agrees [OF assms(1)] assms(1) show ?thesis
      by (auto simp: catalog_row_def complete_definition_def)
  next
    case False
    with assms(4) have agree: "documents_agree (pbc_payload (connector_view r)) (bd_Payload b)"
      by (simp add: builtinConnectorIsCurrent_def connector_view_def Let_def split: if_splits)
    moreover have "decode_object raw_nil = None" by (simp add: decode_object_def raw_nil_def)
    ultimately have "r ''source_kind'' = Text ''connectors+provider''"
      by (auto simp: connector_view_def documents_agree_def split: if_splits)
    with agree id agree_object [OF agree assms(1)] show ?thesis by (simp add: catalog_row_def connector_view_def)
  qed
qed

lemma row_current:
  assumes "catalog_row b r"
  shows "pbc_id (connector_view r) \<noteq> [] \<and> builtinConnectorIsCurrent (connector_view r) (bd_Payload b) (bd_Digest b)"
  using assms both_trimmed
  by (auto simp: catalog_row_def connector_view_def builtinConnectorIsCurrent_def Let_def)

section \<open>The definitions are stored\<close>

lemma builtin_row_written:
  assumes "complete_definition b" and "r ''id'' = Text i" "i \<noteq> []"
    and "r ''payload_json'' = Doc (bd_Payload b)" "r ''schema_hash'' = Text (bd_Digest b)" "r ''source_kind'' = Text ''connectors''"
  shows "catalog_row b r"
  using assms definition_agrees [OF assms(1)] connectors_trimmed by (auto simp: catalog_row_def complete_definition_def)

lemma written_Inr: "seq (wrapped_for f k m) (\<lambda>_. ret ()) w = (Inr (), w') \<Longrightarrow> \<exists>n. m w = (Inr n, w')"
  by (auto simp: seq_Inr wrapped_for_Inr ret_Inr)

lemma sync_builtin_row:
  assumes "alone E" and keyed: "keyed (w_db w) connectors_table" and b: "complete_definition b"
    and seen: "seen c (key_rows (bd_Key b) (w_db w))" and tells: "\<forall>r \<in> key_rows (bd_Key b) (w_db w). digest_tells b r"
    and run: "syncBuiltinConnector E b c w = (Inr (), w')"
  shows "resource_step connectors_table (catalog_row b) (bd_Key b) (w_db w) (w_db w')"
proof -
  let ?t = "ev_clock E (w_step w)"
  show ?thesis
  proof (cases "pbc_id c = []")
    case True
    let ?cs = "[(''id'', Text (''connector:'' @ bd_Key b)), (''resource_key'', Text (bd_Key b)), (''object_key'', Text []),
          (''schema_version'', Text ''1''), (''created_at'', timestamp ?t)] @ builtin_columns b ?t"
    have "syncBuiltinConnector E b c w =
        seq (wrapped_for ''insert Integration connector %s: %w'' (bd_Key b) (insert_into E connectors_table ?cs)) (\<lambda>_. ret ()) w"
      by (simp add: syncBuiltinConnector_def seq_apply now_def True)
    from written_Inr [OF this [symmetric, unfolded run]]
    obtain n where "insert_into E connectors_table ?cs w = (Inr n, w')" ..
    from insert_into_Inr [OF assms(1) this, THEN conjunct1] show ?thesis
      by (rule resource_inserted [OF keyed connectors_by_resource])
        (simp, rule builtin_row_written [OF b, of _ "''connector:'' @ bd_Key b"], simp_all add: builtin_columns_def)
  next
    case False
    with seen have rows: "key_rows (bd_Key b) (w_db w) \<noteq> {}" by (auto simp: seen_def)
    then obtain r where r: "r \<in> key_rows (bd_Key b) (w_db w)" by blast
    with seen have c: "c = connector_view r" by (simp add: seen_def)
    show ?thesis
    proof (cases "builtinConnectorIsCurrent c (bd_Payload b) (bd_Digest b)")
      case True
      with False run have w': "w' = w" by (simp add: syncBuiltinConnector_def seq_Inr now_Inr ret_Inr)
      have "catalog_row b q" if "q \<in> key_rows (bd_Key b) (w_db w)" for q
        using current_row [OF b, of q] that tells seen False True by (auto simp: seen_def)
      with rows w' keyed show ?thesis by (auto simp: resource_step_def resource_row_def key_rows_def)
    next
      case current: False
      with False run obtain n where "update_set E connectors_table (builtin_columns b ?t) (Equal ''id'' (Text (pbc_id c))) w = (Inr n, w')"
        unfolding syncBuiltinConnector_def by (auto simp: seq_Inr now_Inr wrapped_for_Inr ret_Inr)
      moreover have id: "r ''id'' = Text (pbc_id c)" using False c by (auto simp: connector_view_def text_of_def split: sql.splits)
      ultimately have upd: "update_rows connectors_table (set_columns (builtin_columns b ?t)) (Equal ''id'' (r ''id'')) (w_db w) = (Inr n, w_db w')"
        using update_set_Inr [OF assms(1)] by simp
      show ?thesis
        by (rule resource_updated [where r = r, OF keyed connectors_by_resource _ _ _ upd])
          (use r id False in \<open>simp_all add: key_rows_def builtin_columns_def builtin_row_written [OF b]\<close>)
    qed
  qed
qed

lemma key_rows_apart:
  assumes "rows_apart connectors_table S d' = rows_apart connectors_table S d" and "k \<notin> S"
  shows "key_rows k d' = key_rows k d"
  using apart_iff [OF assms] by (auto simp: key_rows_def)

lemma sync_builtin_rows:
  assumes "alone E" and "\<forall>b \<in> set bs. complete_definition b"
    and "keyed (w_db w) connectors_table" and "distinct (map bd_Key bs)"
    and "\<forall>b \<in> set bs. seen (c b) (key_rows (bd_Key b) (w_db w)) \<and> (\<forall>r \<in> key_rows (bd_Key b) (w_db w). digest_tells b r)"
    and "each (\<lambda>b. syncBuiltinConnector E b (c b)) bs w = (Inr xs, w')"
  shows "keyed (w_db w') connectors_table \<and> (\<forall>b \<in> set bs. in_catalog b (w_db w')) \<and>
    rows_apart connectors_table (bd_Key ` set bs) (w_db w') = rows_apart connectors_table (bd_Key ` set bs) (w_db w)"
  using assms(2-)
proof (induction bs arbitrary: w xs)
  case (Cons b bs)
  from Cons.prems(5) obtain u ys where first: "syncBuiltinConnector E b (c b) w = (Inr (), u)"
    and rest: "each (\<lambda>b. syncBuiltinConnector E b (c b)) bs u = (Inr ys, w')"
    by (auto simp: seq_Inr ret_Inr)
  from Cons.prems(1,4) have b: "complete_definition b" "seen (c b) (key_rows (bd_Key b) (w_db w))"
    "\<forall>r \<in> key_rows (bd_Key b) (w_db w). digest_tells b r" by auto
  from sync_builtin_row [OF assms(1) Cons.prems(2) b first] have u: "keyed (w_db u) connectors_table" "in_catalog b (w_db u)"
    and apart: "\<And>keys. bd_Key b \<in> keys \<Longrightarrow> rows_apart connectors_table keys (w_db u) = rows_apart connectors_table keys (w_db w)"
    by (auto simp: resource_step_def)
  have "key_rows (bd_Key a) (w_db u) = key_rows (bd_Key a) (w_db w)" if "a \<in> set bs" for a
  proof -
    have "bd_Key a \<notin> {bd_Key b}" using Cons.prems(3) that
      unfolding distinct.simps list.map set_map singleton_iff by (metis imageI)
    then show ?thesis using key_rows_apart [OF apart [of "{bd_Key b}"]] by simp
  qed
  with Cons.prems have "\<forall>a \<in> set bs. seen (c a) (key_rows (bd_Key a) (w_db u)) \<and> (\<forall>r \<in> key_rows (bd_Key a) (w_db u). digest_tells a r)"
    by simp
  from Cons.IH [OF _ u(1) _ this rest] Cons.prems(1,3)
  have IH: "keyed (w_db w') connectors_table" "\<forall>b \<in> set bs. in_catalog b (w_db w')"
    "rows_apart connectors_table (bd_Key ` set bs) (w_db w') = rows_apart connectors_table (bd_Key ` set bs) (w_db u)" by simp_all
  have "in_catalog b (w_db w')" using stored_apart [OF IH(3) _ u(2)] Cons.prems(3) by simp
  moreover have "rows_apart connectors_table (insert (bd_Key b) (bd_Key ` set bs)) (w_db w') =
      rows_apart connectors_table (insert (bd_Key b) (bd_Key ` set bs)) (w_db u)"
    by (rule rows_apart_mono [OF IH(3)]) blast
  ultimately show ?case using IH(1,2) apart by simp
qed (simp add: ret_Inr)

lemma builtin_catalog_stored:
  assumes "alone E" and "\<forall>b \<in> set bs. complete_definition b"
    and "keyed (w_db w) connectors_table" and "distinct (map bd_Key bs)"
    and "\<forall>b \<in> set bs. \<forall>r \<in> set (w_db w connectors_table). r ''resource_key'' = Text (bd_Key b) \<longrightarrow> digest_tells b r"
    and "SyncBuiltinCatalog E bs w = (Inr (), w')"
  shows "keyed (w_db w') connectors_table \<and> (\<forall>b \<in> set bs. in_catalog b (w_db w'))"
proof -
  from assms(6) obtain existing u payloads v xs where load: "loadBuiltinConnectors E False w = (Inr existing, u)"
    and more: "(if needsProviderPayloads existing then loadProviderOverlayPayloads E else ret []) u = (Inr payloads, v)"
    and run: "each (\<lambda>b. syncBuiltinConnector E b (existing_connector existing payloads (bd_Key b))) bs v = (Inr xs, w')"
    by (auto simp: SyncBuiltinCatalog_def seq_Inr ret_Inr)
  have seen: "seen (existing_connector existing payloads (bd_Key b)) (key_rows (bd_Key b) (w_db w)) \<and> w_db v = w_db w"
    if "b \<in> set bs" for b
    using existing_seen [OF assms(1,3) _ load more] assms(2) that by (auto simp: complete_definition_def)
  show ?thesis
  proof (cases bs)
    case Nil
    have "w_db v = w_db w" using existing_seen [OF assms(1,3) _ load more, of "''x''"] by simp
    with Nil run assms(3) show ?thesis by (simp add: ret_Inr)
  next
    case Cons
    then have v: "w_db v = w_db w" using seen by auto
    show ?thesis
      using sync_builtin_rows [OF assms(1,2) _ assms(4) _ run] seen assms(3,5) unfolding v key_rows_def by auto
  qed
qed

section \<open>The overlay of the providers\<close>

lemma overlay_columns_set:
  assumes "r' = set_columns (overlay_columns E document name sourceKind sourceID t) r"
  shows "r' ''id'' = r ''id''" "r' ''source_kind'' = Text sourceKind" "r' ''payload_json'' = Doc (marshal document)"
    "r' ''resource_key'' = r ''resource_key''"
  using assms by (simp_all add: overlay_columns_def)

lemma overlay_keeps_row:
  assumes b: "complete_definition b" and row: "catalog_row b r" and base: "base_document key (Some r) = Inr document"
    and r': "r' = set_columns (overlay_columns E (canonical (JObj (overlaid ds document))) name
      (overlay_source (text_of (r ''source_kind''))) sourceID t) r"
  shows "catalog_row b r'"
proof -
  from row obtain old where old: "raw_value (doc_of (r ''payload_json'')) = Some (JObj old)" by (auto simp: catalog_row_def)
  from b obtain desired where desired: "raw_value (bd_Payload b) = Some (JObj desired)"
    "map_of desired ''key'' \<noteq> None" "map_of desired ''name'' \<noteq> None" by (auto simp: complete_definition_def)
  have "\<not> blank_doc (r ''payload_json'')"
    using old by (auto simp: blank_doc_def doc_of_def raw_nil_def split: sql.splits)
  with base old have document: "document = put_all old (default_members key)" by (simp add: base_document_def)
  obtain x where x: "canonical (JObj (overlaid ds (put_all old (default_members key)))) = JObj x" by simp
  have "deep_equal (JObj (own_part (own_members desired) old)) (JObj (own_members desired))"
    using row agree_iff [OF old desired(1)] by (simp add: catalog_row_def)
  from overlay_agrees [OF desired(2,3) this x]
  have "documents_agree (marshal (JObj x)) (bd_Payload b)" using agree_iff [OF _ desired(1)] by simp
  moreover have "overlay_source (text_of (r ''source_kind'')) = ''connectors+provider''"
    using row overlay_source_connectors overlay_source_both by (auto simp: catalog_row_def)
  moreover have "canonical (JObj (overlaid ds document)) = JObj x" unfolding document by (rule x)
  ultimately show ?thesis
    using row overlay_columns_set [OF r'] by (simp add: catalog_row_def)
qed

lemma provider_step:
  assumes "alone E" and keyed: "keyed (w_db w) connectors_table"
    and bs: "\<forall>b \<in> set bs. complete_definition b \<and> in_catalog b (w_db w)"
    and run: "syncProviderConnector E key descriptors w = (Inr (), w')"
  shows "keyed (w_db w') connectors_table \<and> (\<forall>b \<in> set bs. in_catalog b (w_db w'))"
proof -
  let ?t = "ev_clock E (w_step w)"
  let ?ds = "sort_key pd_ProviderKey descriptors"
  let ?P = "\<lambda>r. \<forall>b \<in> set bs. bd_Key b = key \<longrightarrow> catalog_row b r"
  from run obtain found u document n where
    look: "scanned_row E connectors_table (Equal ''resource_key'' (Text key)) [''id'', ''payload_json'', ''source_kind''] w = (Inr found, u)"
    and base: "base_document key found = Inr document"
    and rest: "write_overlay E key ?ds (overlaid ?ds document) ?t found u = (Inr n, w')"
    unfolding syncProviderConnector_def Let_def by (auto simp: seq_Inr now_Inr wrapped_for_Inr ret_Inr)
  note scanned = scanned_row_Inr [OF assms(1) look]
  from scanned have u: "w_db u = w_db w" by (rule conjunct1)
  have "resource_step connectors_table ?P key (w_db u) (w_db w')"
  proof (cases found)
    case None
    with scanned have none: "\<forall>r \<in> set (w_db w connectors_table). r ''resource_key'' \<noteq> Text key"
      by (auto simp: select_rows_def filter_empty_conv where_simps split: list.splits)
    then have "bd_Key b \<noteq> key" if "b \<in> set bs" for b
      using bs that by (auto simp: resource_row_def)
    note ins = rest [unfolded write_overlay_def None option.case Let_def wrapped_for_Inr, THEN insert_into_Inr [OF assms(1)], THEN conjunct1]
    show ?thesis
      by (rule resource_inserted [OF _ connectors_by_resource ins])
        (use keyed u \<open>\<And>b. b \<in> set bs \<Longrightarrow> bd_Key b \<noteq> key\<close> in simp_all)
  next
    case (Some r)
    from scanned_resource [OF assms(1)] look Some have r: "r \<in> set (w_db w connectors_table)" "r ''resource_key'' = Text key"
      "r ''id'' \<noteq> Null" by fastforce+
    have "catalog_row b r" if "b \<in> set bs" "bd_Key b = key" for b
      using bs that r by (auto simp: resource_row_def)
    then have new: "?P (set_columns (overlay_columns E (canonical (JObj (overlaid ?ds document))) name
        (overlay_source (text_of (r ''source_kind''))) sourceID ?t) r)" for name sourceID
      using bs base overlay_keeps_row [OF _ _ base [unfolded Some] refl] by blast
    note upd = rest [unfolded write_overlay_def Some option.case Let_def wrapped_for_Inr, THEN update_set_Inr [OF assms(1)]]
    show ?thesis
      by (rule resource_updated [where r = r and P = ?P, OF _ connectors_by_resource _ _ _ upd])
        ((rule new | use keyed u r in \<open>simp add: overlay_columns_def\<close>)+)
  qed
  then have step: "keyed (w_db w') connectors_table" "resource_row connectors_table ?P key (w_db w')"
    "rows_apart connectors_table {key} (w_db w') = rows_apart connectors_table {key} (w_db w)"
    by (auto simp: resource_step_def u)
  have "in_catalog b (w_db w')" if b: "b \<in> set bs" for b
  proof (cases "bd_Key b = key")
    case True
    with step(2) b show ?thesis unfolding resource_row_def by blast
  next
    case False
    then show ?thesis using stored_apart [OF step(3)] bs b by simp
  qed
  with step(1) show ?thesis by blast
qed

lemma provider_steps:
  assumes "alone E" and "keyed (w_db w) connectors_table"
    and "\<forall>b \<in> set bs. complete_definition b \<and> in_catalog b (w_db w)"
    and "each (\<lambda>key. syncProviderConnector E key (ds key)) keys w = (Inr xs, w')"
  shows "keyed (w_db w') connectors_table \<and> (\<forall>b \<in> set bs. in_catalog b (w_db w'))"
  using assms(2-)
proof (induction keys arbitrary: w xs)
  case (Cons key keys)
  from Cons.prems(3) obtain u ys where first: "syncProviderConnector E key (ds key) w = (Inr (), u)"
    and rest: "each (\<lambda>key. syncProviderConnector E key (ds key)) keys u = (Inr ys, w')"
    by (auto simp: seq_Inr ret_Inr)
  from provider_step [OF assms(1) Cons.prems(1,2) first] Cons.prems(2) Cons.IH [OF _ _ rest] show ?case by blast
qed (simp add: ret_Inr)

lemma providers_keep_catalog:
  assumes "alone E" and "keyed (w_db w) connectors_table"
    and "\<forall>b \<in> set bs. complete_definition b \<and> in_catalog b (w_db w)"
    and "SyncProviderCatalog E ds w = (Inr (), w')"
  shows "keyed (w_db w') connectors_table \<and> (\<forall>b \<in> set bs. in_catalog b (w_db w'))"
  using assms(4) provider_steps [OF assms(1-3)]
  by (auto simp: SyncProviderCatalog_def seq_Inr ret_Inr split: option.splits simp del: find_error_None)

section \<open>The next start changes nothing\<close>

lemma current_skipped:
  assumes "\<forall>b \<in> set bs. pbc_id (c b) \<noteq> [] \<and> builtinConnectorIsCurrent (c b) (bd_Payload b) (bd_Digest b)"
  shows "snd (each (\<lambda>b. syncBuiltinConnector E b (c b)) bs w) = w"
  using assms by (induction bs) (auto simp: seq_apply syncBuiltinConnector_def now_def split: prod.splits sum.splits)

lemma catalog_current:
  assumes "alone E" and "keyed (w_db w) connectors_table"
    and "\<forall>b \<in> set bs. complete_definition b \<and> in_catalog b (w_db w)"
  shows "w_db (snd (SyncBuiltinCatalog E bs w)) = w_db w"
proof -
  obtain x u where load: "loadBuiltinConnectors E False w = (x, u)" by (cases "loadBuiltinConnectors E False w")
  have reads: "evolution.within (unchanged E) (loadBuiltinConnectors E False)"
    unfolding loadBuiltinConnectors_def wrapped_def scan_connector_def by (intro untouched.within_reads)
  have reads': "evolution.within (unchanged E) (loadProviderOverlayPayloads E)"
    unfolding loadProviderOverlayPayloads_def wrapped_def scan_payload_def by (intro untouched.within_reads)
  from unchanged_D [OF reads assms(1) load] have u: "w_db u = w_db w" by (rule conjunct1)
  show ?thesis
  proof (cases x)
    case (Inl e)
    with load u show ?thesis by (simp add: SyncBuiltinCatalog_def seq_apply)
  next
    case (Inr existing)
    let ?more = "if needsProviderPayloads existing then loadProviderOverlayPayloads E else ret []"
    obtain y v where more: "?more u = (y, v)" by (cases "?more u")
    have "w_db v = w_db u" using more unchanged_D [OF reads' assms(1)] by (auto split: if_splits)
    with u have v: "w_db v = w_db w" by simp
    show ?thesis
    proof (cases y)
      case (Inl e)
      with load \<open>x = Inr existing\<close> more v show ?thesis by (simp add: SyncBuiltinCatalog_def seq_apply)
    next
      case (Inr payloads)
      have "pbc_id (existing_connector existing payloads (bd_Key b)) \<noteq> [] \<and>
          builtinConnectorIsCurrent (existing_connector existing payloads (bd_Key b)) (bd_Payload b) (bd_Digest b)" if b: "b \<in> set bs" for b
      proof -
        from assms(3) b have "bd_Key b \<noteq> []" and stored: "in_catalog b (w_db w)" by (auto simp: complete_definition_def)
        then have "seen (existing_connector existing payloads (bd_Key b)) (key_rows (bd_Key b) (w_db w))"
          using existing_seen [OF assms(1,2)] load more \<open>x = Inr existing\<close> Inr by blast
        moreover from stored obtain r where "r \<in> key_rows (bd_Key b) (w_db w)" "catalog_row b r"
          by (auto simp: resource_row_def key_rows_def)
        ultimately show ?thesis using row_current by (auto simp: seen_def)
      qed
      then have "snd (each (\<lambda>b. syncBuiltinConnector E b (existing_connector existing payloads (bd_Key b))) bs v) = v"
        by (intro current_skipped) blast
      with load \<open>x = Inr existing\<close> more Inr v show ?thesis
        by (cases "each (\<lambda>b. syncBuiltinConnector E b (existing_connector existing payloads (bd_Key b))) bs v")
          (auto simp: SyncBuiltinCatalog_def seq_apply split: sum.splits)
    qed
  qed
qed

text \<open>
  C39. After a start that stored the definitions and laid the providers over them, the next start finds every
  definition current, overlaid or not, and leaves the catalog as it is, whatever fails.
\<close>

theorem restart_keeps_overlay:
  assumes "alone E" and "keyed (w_db w) connectors_table"
    and "\<forall>b \<in> set bs. complete_definition b" and "distinct (map bd_Key bs)"
    and "\<forall>b \<in> set bs. \<forall>r \<in> set (w_db w connectors_table). r ''resource_key'' = Text (bd_Key b) \<longrightarrow> digest_tells b r"
    and "SyncBuiltinCatalog E bs w = (Inr (), w')" and "SyncProviderCatalog E ds w' = (Inr (), w'')"
  shows "w_db (snd (SyncBuiltinCatalog E bs w'')) = w_db w''"
proof -
  have "keyed (w_db w') connectors_table \<and> (\<forall>b \<in> set bs. in_catalog b (w_db w'))"
    by (rule builtin_catalog_stored [OF assms(1,3,2,4,5,6)])
  with assms(3) have "keyed (w_db w'') connectors_table \<and> (\<forall>b \<in> set bs. in_catalog b (w_db w''))"
    by (intro providers_keep_catalog [OF assms(1) _ _ assms(7)]) auto
  with assms(3) show ?thesis by (intro catalog_current [OF assms(1)]) auto
qed

section \<open>A catalog with one connector and its provider\<close>

definition crm_definition :: builtin_definition where
  "crm_definition =
    \<lparr>bd_Key = ''crm'', bd_Name = ''CRM'',
     bd_Payload = marshal (JObj [(''key'', JStr ''crm''), (''name'', JStr ''CRM''), (''category'', JStr ''sales'')]), bd_Digest = ''d''\<rparr>"

definition crm_descriptor :: ProviderDescriptor where
  "crm_descriptor =
    \<lparr>pd_ConnectorKey = ''crm'', pd_ProviderKey = ''p'', pd_ProviderRevision = ''1'', pd_ConfigFields = JArr [], pd_SecretFields = JArr [],
     pd_StartupActivation = ''manual'',
     pd_Operations = [\<lparr>do_Key = ''read'', do_Mode = ''call'', do_Effect = ''read'', do_Idempotent = True\<rparr>], pd_Error = None\<rparr>"

lemma crm_complete: "complete_definition crm_definition"
  by (simp add: complete_definition_def crm_definition_def)

definition stored_row :: row where
  "stored_row = row_of
    ([(''id'', Text ''connector:crm''), (''resource_key'', Text ''crm''), (''object_key'', Text []), (''schema_version'', Text ''1''),
      (''created_at'', timestamp (ev_clock calm_env 0))] @ builtin_columns crm_definition (ev_clock calm_env 0))"

definition stored_db :: database where
  "stored_db = (\<lambda>_. [])(connectors_table := [stored_row])"

lemma first_start:
  "SyncBuiltinCatalog calm_env [crm_definition] (world_of (\<lambda>_. [])) = (Inr (), (world_of stored_db)\<lparr>w_step := 2\<rparr>)"
  by (simp add: SyncBuiltinCatalog_def loadBuiltinConnectors_def wrapped_def wrapped_for_def needsProviderPayloads_def
      existing_connector_def zero_connector_def syncBuiltinConnector_def run_steps world_of_def select_rows_def insert_row_def
      conflicts_def Let_def stored_db_def stored_row_def crm_definition_def numeral_2_eq_2)

lemma stored_row_columns [simp]:
  "stored_row ''id'' = Text ''connector:crm''" "stored_row ''resource_key'' = Text ''crm''"
  "stored_row ''source_kind'' = Text ''connectors''" "stored_row ''payload_json'' = Doc (bd_Payload crm_definition)"
  by (simp_all add: stored_row_def builtin_columns_def crm_definition_def)

lemma marshal_not_nil [simp]: "marshal j \<noteq> raw_nil"
  by (simp add: marshal_def raw_nil_def)

lemma first_overlay: "\<exists>w'. SyncProviderCatalog calm_env [crm_descriptor] ((world_of stored_db)\<lparr>w_step := 2\<rparr>) = (Inr (), w')"
  by (simp add: SyncProviderCatalog_def syncProviderConnector_def scanned_row_def wrapped_for_def write_overlay_def base_document_def
      run_steps world_of_def select_rows_def where_simps Let_def stored_db_def blank_doc_def crm_descriptor_def
      crm_definition_def update_set_def calm_statement update_rows_def)

theorem restart_keeps_overlay_witness:
  "\<exists>w' w''. SyncBuiltinCatalog calm_env [crm_definition] (world_of (\<lambda>_. [])) = (Inr (), w') \<and>
     SyncProviderCatalog calm_env [crm_descriptor] w' = (Inr (), w'') \<and>
     w_db (snd (SyncBuiltinCatalog calm_env [crm_definition] w'')) = w_db w''"
proof -
  obtain w'' where overlay: "SyncProviderCatalog calm_env [crm_descriptor] ((world_of stored_db)\<lparr>w_step := 2\<rparr>) = (Inr (), w'')"
    using first_overlay by blast
  have "w_db (snd (SyncBuiltinCatalog calm_env [crm_definition] w'')) = w_db w''"
    by (rule restart_keeps_overlay [OF _ _ _ _ _ first_start overlay])
      (simp_all add: crm_complete world_of_def keyed_def alone_def calm_env_def)
  with first_start overlay show ?thesis by blast
qed

text \<open>
  A definition whose document does not say how it is called is taken for changed under every overlay: the
  overlay adds the member \<open>name\<close>, which the comparison does not set aside.
\<close>

lemma nameless_never_current:
  assumes "raw_value payload = Some (JObj desired)" and "map_of desired ''name'' = None"
    and "canonical (JObj (overlaid ds (put_all desired (default_members key)))) = JObj x"
  shows "\<not> documents_agree (marshal (JObj x)) payload"
proof
  assume "documents_agree (marshal (JObj x)) payload"
  with agree_iff [OF _ assms(1)] have "deep_equal (JObj (own_part (own_members desired) x)) (JObj (own_members desired))" by simp
  then have "map_option canonical (map_of (own_part (own_members desired) x) ''name'') = map_option canonical (map_of (own_members desired) ''name'')"
    unfolding deep_equal_def canonical_object by (rule spec)
  then have "map_of x ''name'' = None" using assms(2) by (simp add: map_of_own_part)
  then show False
    unfolding map_of_canonical [OF assms(3)] map_of_overlaid using assms(2) by (simp add: default_members_def)
qed

end
