(* ===== verification/Service.thy ===== *)
theory Service
  imports Catalog ProviderWorker
begin

text \<open>
  \<open>integration_domain_service.go\<close>: what is checked before a store is asked. The checks of deliveries and
  calls are with their stores (\<open>Delivery.thy\<close>, \<open>Operations.thy\<close>); a service without an operations store, which
  the assembly never builds, is not represented.
\<close>

section \<open>Requirements\<close>

text \<open>Go visits the four fields in no fixed order: which of several missing ones is named is left open.\<close>

definition validateRequirement :: "ConnectionRequirement \<Rightarrow> err option" where
  "validateRequirement v =
    (let missing = (\<lambda>(name, s). fails_if (blank s) (Errorf ''Integration connection requirement %s is required'' [name])) in
     first_err (map missing
       [(''key'', creq_Key v), (''workspace_id'', creq_WorkspaceID v), (''connector_key'', creq_ConnectorKey v),
        (''provider_key'', creq_ProviderKey v)] @
      [fails_if (\<not> json_valid (creq_Config v)) (Errorf ''Integration connection requirement config must be valid JSON'' [])]))"

definition Service_SynchronizeConnections :: "env \<Rightarrow> ConnectionRequirement list \<Rightarrow> unit dbop" where
  "Service_SynchronizeConnections E vs =
    (case find_error validateRequirement vs of Some e \<Rightarrow> throw e | None \<Rightarrow> SynchronizeConnections E vs)"

definition Service_SynchronizeEventMappings :: "env \<Rightarrow> EventMappingRequirement list \<Rightarrow> unit dbop" where
  "Service_SynchronizeEventMappings E vs =
    (case find_error EventMapping_Validate vs of Some e \<Rightarrow> throw e | None \<Rightarrow> SynchronizeEventMappings E vs)"

section \<open>Webhooks\<close>

text \<open>\<open>ReceivedAt.IsZero()\<close>: the first instant of the year 1.\<close>

definition Service_AcceptWebhook :: "env \<Rightarrow> WebhookRequest \<Rightarrow> (WebhookReceipt \<times> err option) dbop" where
  "Service_AcceptWebhook E request =
    (if blank (wq_WorkspaceID request) \<or> blank (wq_ConnectorKey request) \<or> blank (wq_ConnectionKey request) \<or>
        wq_ReceivedAt request = 0
     then throw (Errorf ''Integration webhook request is invalid'' [])
     else AcceptWebhook E request)"

section \<open>A batch is checked before anything is written\<close>

lemma find_error_Some: "x \<in> set xs \<Longrightarrow> f x \<noteq> None \<Longrightarrow> \<exists>e. find_error f xs = Some e"
  by (induction xs) (auto split: option.splits)

text \<open>
  One requirement of a batch that is incomplete, or one mapping that is not well formed, and nothing of the
  batch is written.
\<close>

lemma invalid_batch_writes_nothing:
  "v \<in> set vs \<Longrightarrow> validateRequirement v \<noteq> None \<Longrightarrow> \<exists>e. Service_SynchronizeConnections E vs w = (Inl e, w)"
  "m \<in> set ms \<Longrightarrow> EventMapping_Validate m \<noteq> None \<Longrightarrow> \<exists>e. Service_SynchronizeEventMappings E ms w = (Inl e, w)"
  using find_error_Some [of v vs validateRequirement] find_error_Some [of m ms EventMapping_Validate]
  by (auto simp: Service_SynchronizeConnections_def Service_SynchronizeEventMappings_def)

end
