(* ===== verification/Http.thy ===== *)
theory Http
  imports Service Authorization AccountReads ConnectionTests ManagedIdentities ManagedWebhooks OAuth
begin

text \<open>
  The HTTP adapter of the module, \<open>src/internal/transport/http/module\<close>: the handler of every action of the
  manifest, the authorization in front of it, and the adapter that mounts them. What a handler answers is
  a status with a body; the JSON forms of the SDK's types are not represented, their decoding is a
  parameter.
\<close>

section \<open>Requests and responses\<close>

record http_request =
  hr_Principal :: "IdentityPrincipal option"
  hr_Path :: "string \<Rightarrow> string"
  hr_Query :: "(string \<times> string list) list"
  hr_Header :: "(string \<times> string list) list"
  hr_Body :: string

text \<open>\<open>Get\<close> of a query or a header: the first value, or nothing.\<close>

definition get_value :: "(string \<times> string list) list \<Rightarrow> string \<Rightarrow> string" where
  "get_value vs name = (case map_of vs name of Some (v # _) \<Rightarrow> v | _ \<Rightarrow> [])"

datatype http_body =
    NoBody
  | ErrorCode string
  | ErrorMessage string string
  | PlainText string
  | CatalogBody "(json + ConnectorDefinition) list" "ManagedConnection list"
  | ConnectionsBody "ManagedConnection list"
  | ConnectionBody ManagedConnection
  | ValidatedBody string ConnectionInput
  | TestBody ConnectionTestResult
  | AccountsBody "ConnectionAccount list"
  | AccountBody ConnectionAccount
  | AccountTestBody ConnectionAccountTestResult
  | ReadAccessBody ConnectionAccountReadAccess
  | ReadResultBody ConnectionAccountReadResult
  | SecretsBody "Secret list"
  | SecretBody Secret
  | APIKeysBody "APIKey list"
  | APIKeyBody APIKey
  | APIKeyCredentialBody APIKeyCredential
  | IdentitiesBody "ExternalIdentity list"
  | IdentityBody ExternalIdentity
  | WebhooksBody "WebhookSubscription list"
  | WebhookBody WebhookSubscription
  | ApplicationsBody "OAuthApplication list"
  | ApplicationBody OAuthApplication
  | OptionsBody "OAuthAuthorizationOption list"
  | SessionBody OAuthAuthorizationSession
  | InvocationsBody "Invocation list"
  | InvocationBody Invocation
  | EventsBody "Event list"
  | EventBody Event
  | ReceiptBody WebhookReceipt
  | ReadinessBody WebPushReadiness
  | PushesBody "WebPushSubscription list"
  | PushBody WebPushSubscription
  | CleanedBody nat

record http_response =
  hs_Status :: nat
  hs_Header :: "(string \<times> string) list"
  hs_Body :: http_body

definition writeJSON :: "nat \<Rightarrow> http_body \<Rightarrow> http_response" where
  "writeJSON status body = \<lparr>hs_Status = status, hs_Header = [(''Content-Type'', ''application/json'')], hs_Body = body\<rparr>"

definition writeError :: "nat \<Rightarrow> string \<Rightarrow> http_response" where
  "writeError status code = writeJSON status (ErrorCode code)"

definition with_header :: "string \<Rightarrow> string \<Rightarrow> http_response \<Rightarrow> http_response" where
  "with_header name v response = response\<lparr>hs_Header := (name, v) # hs_Header response\<rparr>"

text \<open>
  The actions of the SDK's manifest (their keys are the SDK's constants), and the strict decoding of a body
  of at most 1 MiB into each input type: \<^const>\<open>None\<close> where it fails. The port says which of the optional parts
  the binding has.
\<close>

datatype action =
    CatalogRead | ConnectorsList | ConnectionsList | ConnectionsGet | ConnectionsValidate | ConnectionsUpsert
  | ConnectionsDelete | ConnectionsDisable | ConnectionsTestOperation | ConnectionsRegisterAccount
  | ConnectionAccountsList | ConnectionAccountsGet | ConnectionAccountsTest | ConnectionAccountsRevoke
  | ConnectionAccountsReadAccess | ConnectionAccountsRead | SecretsList | SecretsUpsert | SecretsDisable | SecretsRotate
  | SecretsExpire | SecretsRevoke | APIKeysList | APIKeysCreate | APIKeysDisable | APIKeysRotate
  | ExternalIdentitiesList | ExternalIdentitiesUpsert | ExternalIdentitiesDisable | ExternalIdentitiesResolve
  | WebhookSubscriptionsList | WebhookSubscriptionsUpsert | WebhookSubscriptionsDelete | WebhookSubscriptionsDisable
  | OAuthApplicationsList | OAuthApplicationsUpsert | OAuthAuthorizationsOptions | OAuthAuthorizationsStart
  | OAuthAuthorizationsGet | OAuthAuthorizationsComplete
  | WebPushReadinessGet | WebPushSubscriptionsList | WebPushSubscriptionsUpsert | WebPushSubscriptionsRevoke
  | WebPushSubscriptionsCleanupExpired | InvocationsList | InvocationsGet | EventsList | EventsGet | EventsReplay
  | WebhooksIngest

record http_port =
  hp_Key :: "action \<Rightarrow> string"
  hp_Identity :: identity_sdk
  hp_ConnectionJSON :: "ManagedConnection \<Rightarrow> json"
  hp_ConnectionInput :: "string \<Rightarrow> ConnectionInput option"
  hp_Registration :: "string \<Rightarrow> ConnectionAccountRegistration option"
  hp_TestRequest :: "string \<Rightarrow> ConnectionTestRequest option"
  hp_ExpectedUpdatedAt :: "string \<Rightarrow> string option"
  hp_ReadOperation :: "string \<Rightarrow> ConnectionAccountReadOperation option"
  hp_ReadRequest :: "string \<Rightarrow> ConnectionAccountReadRequest option"
  hp_SecretInput :: "string \<Rightarrow> SecretInput option"
  hp_APIKeyInput :: "string \<Rightarrow> APIKeyInput option"
  hp_IdentityInput :: "string \<Rightarrow> ExternalIdentityInput option"
  hp_ResolveInput :: "string \<Rightarrow> (string \<times> string) option"
  hp_WebhookInput :: "string \<Rightarrow> WebhookSubscriptionInput option"
  hp_ApplicationInput :: "string \<Rightarrow> OAuthApplicationInput option"
  hp_AuthorizationInput :: "string \<Rightarrow> OAuthAuthorizationInput option"
  hp_Callback :: "string \<Rightarrow> OAuthAuthorizationCallback option"
  hp_PushInput :: "string \<Rightarrow> WebPushSubscriptionInput option"
  hp_OAuth :: "oauth_port option"
  hp_Reads :: "AccountReadService option"

type_synonym handler = "env \<Rightarrow> http_request \<Rightarrow> http_response dbop"

section \<open>What the handlers share\<close>

definition requestPrincipal :: "http_request \<Rightarrow> IdentityPrincipal option" where
  "requestPrincipal r =
    (case hr_Principal r of
       None \<Rightarrow> None
     | Some p \<Rightarrow> if ip_Known p \<and> \<not> blank (ip_WorkspaceID p) \<and> \<not> blank (ip_UserID p) then Some p else None)"

definition principal_required :: http_response where
  "principal_required = writeError 401 ''auth.principal_required''"

definition with_principal :: "http_request \<Rightarrow> (string \<Rightarrow> string \<Rightarrow> http_response dbop) \<Rightarrow> http_response dbop" where
  "with_principal r f =
    (case requestPrincipal r of None \<Rightarrow> ret principal_required | Some p \<Rightarrow> f (ip_WorkspaceID p) (ip_UserID p))"

text \<open>The account subject of a request: its principal, under an access scope of that principal.\<close>

definition connectionAccountSubject :: "env \<Rightarrow> http_request \<Rightarrow> (ConnectionAccountSubject \<Rightarrow> http_response dbop) \<Rightarrow> http_response dbop" where
  "connectionAccountSubject E r f =
    with_principal r (\<lambda>workspaceID userID.
    case ev_scope E of
      None \<Rightarrow> ret (writeError 403 ''backend.integration.permission_denied'')
    | Some scope \<Rightarrow>
        if as_WorkspaceID scope \<noteq> workspaceID \<or> as_ActorID scope \<noteq> userID
        then ret (writeError 403 ''backend.integration.permission_denied'')
        else f \<lparr>sub_WorkspaceID = workspaceID, sub_UserID = userID, sub_Access = scope_ConnectionAccountAccess scope\<rparr>)"

definition decodeJSON :: "'a option \<Rightarrow> ('a \<Rightarrow> http_response dbop) \<Rightarrow> http_response dbop" where
  "decodeJSON input f =
    (case input of None \<Rightarrow> ret (writeError 400 ''backend.request.invalid_json'') | Some x \<Rightarrow> f x)"

text \<open>A port asked; a panic leaves the handler.\<close>

definition answer :: "'a dbop \<Rightarrow> (err \<Rightarrow> http_response) \<Rightarrow> ('a \<Rightarrow> http_response) \<Rightarrow> http_response dbop" where
  "answer m bad good = seq (rescue m) (\<lambda>x. case x of Inl e \<Rightarrow> ret (bad e) | Inr y \<Rightarrow> ret (good y))"

text \<open>A result and an error beside it: only the error is looked at.\<close>

definition or_error :: "('a \<times> err option) dbop \<Rightarrow> 'a dbop" where
  "or_error m = seq m (\<lambda>(x, e). case e of None \<Rightarrow> ret x | Some e \<Rightarrow> throw e)"

definition writeManagementError :: "err \<Rightarrow> http_response" where
  "writeManagementError e = writeJSON 400 (ErrorMessage ''backend.integration.management_failed'' (err_text e))"

definition writeConnectionAccountError :: "err \<Rightarrow> http_response" where
  "writeConnectionAccountError e = writeError 400 ''backend.integration.connection_account_failed''"

definition managed_answer :: "'a dbop \<Rightarrow> ('a \<Rightarrow> http_body) \<Rightarrow> http_response dbop" where
  "managed_answer m body = answer m writeManagementError (\<lambda>x. writeJSON 200 (body x))"

definition no_content :: "'a \<Rightarrow> http_response" where
  "no_content x = \<lparr>hs_Status = 204, hs_Header = [], hs_Body = NoBody\<rparr>"

definition account_answer :: "'a dbop \<Rightarrow> ('a \<Rightarrow> http_body) \<Rightarrow> http_response dbop" where
  "account_answer m body = answer m writeConnectionAccountError (\<lambda>x. writeJSON 200 (body x))"

definition path_key :: "http_request \<Rightarrow> string \<Rightarrow> string" where
  "path_key r name = trim_space (hr_Path r name)"

section \<open>The management handlers\<close>

text \<open>A definition is shown as its document, where that decodes.\<close>

definition projected :: "ConnectorDefinition \<Rightarrow> json + ConnectorDefinition" where
  "projected c =
    (if raw_length (cdf_Definition c) \<noteq> 0 \<and> raw_value (cdf_Definition c) \<noteq> None
     then Inl (the (raw_value (cdf_Definition c))) else Inr c)"

definition http_integrationCatalog :: "http_port \<Rightarrow> handler" where
  "http_integrationCatalog P E r =
    with_principal r (\<lambda>workspaceID actorID.
    answer (seq (ListConnectorDefinitions E) (\<lambda>definitions.
            seq (ListConnections E workspaceID) (\<lambda>connections. ret (definitions, connections))))
      writeManagementError
      (\<lambda>(definitions, connections). writeJSON 200 (CatalogBody (map projected definitions) connections)))"

definition http_listConnections :: "http_port \<Rightarrow> handler" where
  "http_listConnections P E r =
    with_principal r (\<lambda>workspaceID actorID.
    managed_answer (ListConnections E workspaceID) ConnectionsBody)"

definition connectionHash :: "http_port \<Rightarrow> env \<Rightarrow> ManagedConnection \<Rightarrow> string" where
  "connectionHash P E c = ev_sha256_json E (hp_ConnectionJSON P c)"

definition http_getConnection :: "http_port \<Rightarrow> handler" where
  "http_getConnection P E r =
    with_principal r (\<lambda>workspaceID actorID.
    answer (GetConnection E workspaceID (path_key r ''connectionKey'')) writeManagementError
      (\<lambda>c. with_header ''X-Resource-Hash'' (connectionHash P E c) (writeJSON 200 (ConnectionBody c))))"

definition decodeConnectionInput ::
    "http_port \<Rightarrow> http_request \<Rightarrow> (ConnectionInput \<Rightarrow> http_response dbop) \<Rightarrow> http_response dbop" where
  "decodeConnectionInput P r f =
    decodeJSON (hp_ConnectionInput P (hr_Body r)) (\<lambda>input.
    if blank (cni_ConnectorKey input) \<or> blank (cni_ProviderKey input)
    then ret (writeError 400 ''backend.integration.connection_invalid'')
    else f input)"

definition http_validateConnection :: "http_port \<Rightarrow> handler" where
  "http_validateConnection P E r =
    with_principal r (\<lambda>workspaceID actorID.
    decodeConnectionInput P r (\<lambda>input.
    ret (writeJSON 200 (ValidatedBody (path_key r ''connectionKey'') input))))"

definition http_upsertConnection :: "http_port \<Rightarrow> handler" where
  "http_upsertConnection P E r =
    with_principal r (\<lambda>workspaceID actorID.
    decodeConnectionInput P r (\<lambda>input.
    managed_answer (UpsertConnection E workspaceID (path_key r ''connectionKey'') actorID input) ConnectionBody))"

definition http_deleteConnection :: "http_port \<Rightarrow> handler" where
  "http_deleteConnection P E r =
    with_principal r (\<lambda>workspaceID actorID.
    answer (DeleteConnection E workspaceID (path_key r ''connectionKey'')) writeManagementError no_content)"

definition http_disableConnection :: "http_port \<Rightarrow> handler" where
  "http_disableConnection P E r =
    with_principal r (\<lambda>workspaceID actorID.
    managed_answer (SetConnectionStatus E workspaceID (path_key r ''connectionKey'') ''disabled'') ConnectionBody)"

definition http_testConnection :: "http_port \<Rightarrow> handler" where
  "http_testConnection P E r =
    with_principal r (\<lambda>workspaceID actorID.
    decodeJSON (hp_TestRequest P (hr_Body r)) (\<lambda>input.
    managed_answer (or_error (TestConnection E workspaceID (path_key r ''connectionKey''))) TestBody))"

definition http_registerConnectionAccount :: "http_port \<Rightarrow> handler" where
  "http_registerConnectionAccount P E r =
    with_principal r (\<lambda>workspaceID actorID.
    decodeJSON (hp_Registration P (hr_Body r)) (\<lambda>input.
    account_answer (RegisterConnectionAccount E workspaceID (path_key r ''connectionKey'') actorID input) AccountBody))"

definition http_listConnectionAccounts :: "http_port \<Rightarrow> handler" where
  "http_listConnectionAccounts P E r =
    connectionAccountSubject E r (\<lambda>subject.
    account_answer (ListConnectionAccounts E subject) AccountsBody)"

definition http_getConnectionAccount :: "http_port \<Rightarrow> handler" where
  "http_getConnectionAccount P E r =
    connectionAccountSubject E r (\<lambda>subject.
    account_answer (GetConnectionAccount E subject (path_key r ''connectionKey'')) AccountBody)"

definition http_testConnectionAccount :: "http_port \<Rightarrow> handler" where
  "http_testConnectionAccount P E r =
    connectionAccountSubject E r (\<lambda>subject.
    decodeJSON (hp_TestRequest P (hr_Body r)) (\<lambda>input.
    account_answer (TestConnectionAccount E subject (path_key r ''connectionKey'') input) AccountTestBody))"

definition http_revokeConnectionAccount :: "http_port \<Rightarrow> handler" where
  "http_revokeConnectionAccount P E r =
    connectionAccountSubject E r (\<lambda>subject.
    decodeJSON (hp_ExpectedUpdatedAt P (hr_Body r)) (\<lambda>expected.
    account_answer (RevokeConnectionAccount E subject (path_key r ''connectionKey'') expected) AccountBody))"

text \<open>Reading through an account, of \<open>connection_account_reads.go\<close>; the answer is not to be stored.\<close>

definition reads_unavailable :: http_response where
  "reads_unavailable = writeError 503 ''backend.integration.account_reads_unavailable''"

definition no_store :: "http_response \<Rightarrow> http_response" where
  "no_store = with_header ''Cache-Control'' ''no-store''"

definition http_authorizeConnectionAccountRead :: "http_port \<Rightarrow> handler" where
  "http_authorizeConnectionAccountRead P E r =
    connectionAccountSubject E r (\<lambda>subject.
    case hp_Reads P of
      None \<Rightarrow> ret reads_unavailable
    | Some s \<Rightarrow>
        decodeJSON (hp_ReadOperation P (hr_Body r)) (\<lambda>input.
        answer (Service_AuthorizeRead s subject (path_key r ''connectionKey'') input) writeConnectionAccountError
          (\<lambda>x. no_store (writeJSON 200 (ReadAccessBody x)))))"

definition http_readConnectionAccount :: "http_port \<Rightarrow> handler" where
  "http_readConnectionAccount P E r =
    connectionAccountSubject E r (\<lambda>subject.
    case hp_Reads P of
      None \<Rightarrow> ret reads_unavailable
    | Some s \<Rightarrow>
        decodeJSON (hp_ReadRequest P (hr_Body r)) (\<lambda>input.
        answer (ReadConnectionAccount E s subject (path_key r ''connectionKey'') input) writeConnectionAccountError
          (\<lambda>x. no_store (writeJSON 200 (ReadResultBody x)))))"

definition http_listSecrets :: "http_port \<Rightarrow> handler" where
  "http_listSecrets P E r =
    with_principal r (\<lambda>workspaceID actorID.
    managed_answer (ListSecrets E workspaceID) SecretsBody)"

definition http_upsertSecret :: "http_port \<Rightarrow> handler" where
  "http_upsertSecret P E r =
    with_principal r (\<lambda>workspaceID actorID.
    decodeJSON (hp_SecretInput P (hr_Body r)) (\<lambda>input.
    managed_answer (UpsertSecret E workspaceID (path_key r ''secretKey'') actorID input) SecretBody))"

definition http_transitionSecret :: "string \<Rightarrow> http_port \<Rightarrow> handler" where
  "http_transitionSecret transition P E r =
    with_principal r (\<lambda>workspaceID actorID.
    managed_answer (TransitionSecret E workspaceID (path_key r ''secretKey'') transition) SecretBody)"

definition http_rotateSecret :: "http_port \<Rightarrow> handler" where
  "http_rotateSecret P E r =
    with_principal r (\<lambda>workspaceID actorID.
    decodeJSON (hp_SecretInput P (hr_Body r)) (\<lambda>input.
    managed_answer (RotateSecret E workspaceID (path_key r ''secretKey'') actorID input) SecretBody))"

definition http_listAPIKeys :: "http_port \<Rightarrow> handler" where
  "http_listAPIKeys P E r =
    with_principal r (\<lambda>workspaceID actorID.
    managed_answer (ListAPIKeys E workspaceID) APIKeysBody)"

definition http_createAPIKey :: "http_port \<Rightarrow> handler" where
  "http_createAPIKey P E r =
    with_principal r (\<lambda>workspaceID actorID.
    decodeJSON (hp_APIKeyInput P (hr_Body r)) (\<lambda>input.
    answer (CreateAPIKey E workspaceID actorID input) writeManagementError (\<lambda>x. writeJSON 201 (APIKeyCredentialBody x))))"

definition http_disableAPIKey :: "http_port \<Rightarrow> handler" where
  "http_disableAPIKey P E r =
    with_principal r (\<lambda>workspaceID actorID.
    managed_answer (DisableAPIKey E workspaceID (path_key r ''apiKey'')) APIKeyBody)"

definition http_rotateAPIKey :: "http_port \<Rightarrow> handler" where
  "http_rotateAPIKey P E r =
    with_principal r (\<lambda>workspaceID actorID.
    managed_answer (RotateAPIKey E workspaceID (path_key r ''apiKey'')) APIKeyCredentialBody)"

definition http_listExternalIdentities :: "http_port \<Rightarrow> handler" where
  "http_listExternalIdentities P E r =
    with_principal r (\<lambda>workspaceID actorID.
    managed_answer (ListExternalIdentities E workspaceID) IdentitiesBody)"

definition http_upsertExternalIdentity :: "http_port \<Rightarrow> handler" where
  "http_upsertExternalIdentity P E r =
    with_principal r (\<lambda>workspaceID actorID.
    decodeJSON (hp_IdentityInput P (hr_Body r)) (\<lambda>input.
    managed_answer (UpsertExternalIdentity E workspaceID (path_key r ''identityKey'') actorID input) IdentityBody))"

definition http_disableExternalIdentity :: "http_port \<Rightarrow> handler" where
  "http_disableExternalIdentity P E r =
    with_principal r (\<lambda>workspaceID actorID.
    managed_answer (DisableExternalIdentity E workspaceID (path_key r ''identityKey'')) IdentityBody)"

definition http_resolveExternalIdentity :: "http_port \<Rightarrow> handler" where
  "http_resolveExternalIdentity P E r =
    with_principal r (\<lambda>workspaceID actorID.
    decodeJSON (hp_ResolveInput P (hr_Body r)) (\<lambda>(provider, externalSubject).
    managed_answer (ResolveExternalIdentity E workspaceID provider externalSubject) IdentityBody))"

definition http_listWebhookSubscriptions :: "http_port \<Rightarrow> handler" where
  "http_listWebhookSubscriptions P E r =
    with_principal r (\<lambda>workspaceID actorID.
    managed_answer (ListWebhookSubscriptions E workspaceID) WebhooksBody)"

definition http_upsertWebhookSubscription :: "http_port \<Rightarrow> handler" where
  "http_upsertWebhookSubscription P E r =
    with_principal r (\<lambda>workspaceID actorID.
    decodeJSON (hp_WebhookInput P (hr_Body r)) (\<lambda>input.
    managed_answer (UpsertWebhookSubscription E workspaceID (path_key r ''subscriptionKey'') actorID input) WebhookBody))"

definition http_deleteWebhookSubscription :: "http_port \<Rightarrow> handler" where
  "http_deleteWebhookSubscription P E r =
    with_principal r (\<lambda>workspaceID actorID.
    answer (DeleteWebhookSubscription E workspaceID (path_key r ''subscriptionKey'')) writeManagementError no_content)"

definition http_disableWebhookSubscription :: "http_port \<Rightarrow> handler" where
  "http_disableWebhookSubscription P E r =
    with_principal r (\<lambda>workspaceID actorID.
    managed_answer (DisableWebhookSubscription E workspaceID (path_key r ''subscriptionKey'')) WebhookBody)"

section \<open>The OAuth handlers\<close>

text \<open>Every OAuth answer carries the two headers, an error as well.\<close>

definition oauth_headers :: "http_response \<Rightarrow> http_response" where
  "oauth_headers response =
    with_header ''Cache-Control'' ''no-store'' (with_header ''Referrer-Policy'' ''no-referrer'' response)"

definition oauthReady :: "http_port \<Rightarrow> (oauth_port \<Rightarrow> http_response dbop) \<Rightarrow> http_response dbop" where
  "oauthReady P f =
    seq (case hp_OAuth P of None \<Rightarrow> ret (writeError 503 ''backend.integration.oauth_unavailable'') | Some C \<Rightarrow> f C)
      (\<lambda>response. ret (oauth_headers response))"

definition oauthResponse :: "'a dbop \<Rightarrow> ('a \<Rightarrow> http_body) \<Rightarrow> http_response dbop" where
  "oauthResponse m body =
    answer m (\<lambda>e. writeError 400 ''backend.integration.oauth_failed'') (\<lambda>x. writeJSON 200 (body x))"

definition http_listOAuthApplications :: "http_port \<Rightarrow> handler" where
  "http_listOAuthApplications P E r =
    oauthReady P (\<lambda>C.
    with_principal r (\<lambda>workspace actor.
    oauthResponse (ListOAuthApplications E C workspace) ApplicationsBody))"

definition http_upsertOAuthApplication :: "http_port \<Rightarrow> handler" where
  "http_upsertOAuthApplication P E r =
    oauthReady P (\<lambda>C.
    with_principal r (\<lambda>workspace actor.
    decodeJSON (hp_ApplicationInput P (hr_Body r)) (\<lambda>input.
    oauthResponse (UpsertOAuthApplication E C workspace (hr_Path r ''applicationKey'') actor input) ApplicationBody)))"

definition http_oauthOptions :: "http_port \<Rightarrow> handler" where
  "http_oauthOptions P E r =
    oauthReady P (\<lambda>C.
    connectionAccountSubject E r (\<lambda>subject.
    oauthResponse (ListOAuthAuthorizationOptions E C subject) OptionsBody))"

definition http_startOAuth :: "http_port \<Rightarrow> handler" where
  "http_startOAuth P E r =
    oauthReady P (\<lambda>C.
    connectionAccountSubject E r (\<lambda>subject.
    decodeJSON (hp_AuthorizationInput P (hr_Body r)) (\<lambda>input.
    oauthResponse (StartOAuthAuthorization E C subject input) SessionBody)))"

definition http_getOAuth :: "http_port \<Rightarrow> handler" where
  "http_getOAuth P E r =
    oauthReady P (\<lambda>C.
    connectionAccountSubject E r (\<lambda>subject.
    oauthResponse (GetOAuthAuthorization E C subject (hr_Path r ''sessionID'')) SessionBody))"

definition http_completeOAuth :: "http_port \<Rightarrow> handler" where
  "http_completeOAuth P E r =
    oauthReady P (\<lambda>C.
    connectionAccountSubject E r (\<lambda>subject.
    decodeJSON (hp_Callback P (hr_Body r)) (\<lambda>input.
    oauthResponse (CompleteOAuthAuthorization E C subject input) SessionBody)))"

section \<open>The handlers of calls, events and push subscriptions\<close>

definition http_listInvocations :: "http_port \<Rightarrow> handler" where
  "http_listInvocations P E r =
    with_principal r (\<lambda>workspaceID actorID.
    answer (ListInvocations E
        \<lparr>iq_WorkspaceID = workspaceID, iq_ConnectorKey = get_value (hr_Query r) ''connector_key'',
         iq_ConnectionKey = get_value (hr_Query r) ''connection_key'', iq_Operation = get_value (hr_Query r) ''operation'',
         iq_Status = get_value (hr_Query r) ''status'', iq_CreatedFrom = get_value (hr_Query r) ''created_from'', iq_Limit = 0\<rparr>) (\<lambda>e. writeError 500 ''backend.integration.invocation_list_failed'')
      (\<lambda>x. writeJSON 200 (InvocationsBody x)))"

definition http_getInvocation :: "http_port \<Rightarrow> handler" where
  "http_getInvocation P E r =
    with_principal r (\<lambda>workspaceID actorID.
    answer (GetInvocation E workspaceID (hr_Path r ''invocationID'')) (\<lambda>e. writeError 404 ''backend.integration.invocation_not_found'')
      (\<lambda>x. writeJSON 200 (InvocationBody x)))"

definition http_listEvents :: "http_port \<Rightarrow> handler" where
  "http_listEvents P E r =
    with_principal r (\<lambda>workspaceID actorID.
    answer (ListEvents E
        \<lparr>eq_WorkspaceID = workspaceID, eq_Provider = get_value (hr_Query r) ''provider'',
         eq_EventType = get_value (hr_Query r) ''event_type'', eq_Status = get_value (hr_Query r) ''status'', eq_Limit = 0\<rparr>) (\<lambda>e. writeError 500 ''backend.integration.event_list_failed'')
      (\<lambda>x. writeJSON 200 (EventsBody x)))"

definition http_getEvent :: "http_port \<Rightarrow> handler" where
  "http_getEvent P E r =
    with_principal r (\<lambda>workspaceID actorID.
    answer (GetEvent E workspaceID (hr_Path r ''eventID'')) (\<lambda>e. writeError 404 ''backend.integration.event_not_found'')
      (\<lambda>x. writeJSON 200 (EventBody x)))"

definition http_replayEvent :: "http_port \<Rightarrow> handler" where
  "http_replayEvent P E r =
    with_principal r (\<lambda>workspaceID actorID.
    answer (or_error (ReplayEvent E workspaceID (hr_Path r ''eventID''))) (\<lambda>e. writeError 400 ''backend.integration.event_replay_failed'')
      (\<lambda>x. writeJSON 200 (EventBody x)))"

text \<open>The one handler without a principal: the provider verifies what it sent itself.\<close>

definition webhook_receipt :: "WebhookReceipt \<Rightarrow> http_response" where
  "webhook_receipt receipt =
    (if wrc_Challenge receipt \<noteq> [] \<and> wrc_Format receipt = ''plain''
     then \<lparr>hs_Status = 200, hs_Header = [(''Content-Type'', ''text/plain; charset=utf-8'')],
           hs_Body = PlainText (wrc_Challenge receipt)\<rparr>
     else writeJSON 202 (ReceiptBody receipt))"

definition http_webhook :: "http_port \<Rightarrow> handler" where
  "http_webhook P E r =
    (if length (hr_Body r) > 2 ^ 20 then ret (writeError 400 ''backend.integration.webhook_body_invalid'')
     else
       seq (now E) (\<lambda>t.
       answer (or_error (Service_AcceptWebhook E
           \<lparr>wq_WorkspaceID = hr_Path r ''workspaceID'', wq_ConnectorKey = hr_Path r ''connectorKey'',
            wq_ConnectionKey = hr_Path r ''connectionKey'', wq_Headers = hr_Header r, wq_Query = hr_Query r,
            wq_Body = hr_Body r, wq_ReceivedAt = t\<rparr>))
         (\<lambda>e. writeError 401 ''backend.integration.webhook_rejected'') webhook_receipt))"

definition http_readiness :: "http_port \<Rightarrow> handler" where
  "http_readiness P E r =
    with_principal r (\<lambda>workspaceID actorID.
    answer (push_Readiness E workspaceID) (\<lambda>e. writeError 500 ''backend.integration.web_push_readiness_failed'')
      (\<lambda>x. writeJSON 200 (ReadinessBody x)))"

definition http_listPush :: "http_port \<Rightarrow> handler" where
  "http_listPush P E r =
    with_principal r (\<lambda>workspaceID actorID.
    answer (push_List E workspaceID actorID) (\<lambda>e. writeError 500 ''backend.integration.web_push_list_failed'')
      (\<lambda>x. writeJSON 200 (PushesBody x)))"

definition http_upsertPush :: "http_port \<Rightarrow> handler" where
  "http_upsertPush P E r =
    with_principal r (\<lambda>workspaceID actorID.
    decodeJSON (hp_PushInput P (hr_Body r)) (\<lambda>input.
    answer (push_Upsert E workspaceID actorID (path_key r ''subscriptionID'') input) (\<lambda>e. writeError 500 ''backend.integration.web_push_upsert_failed'')
      (\<lambda>x. writeJSON 200 (PushBody x))))"

definition http_revokePush :: "http_port \<Rightarrow> handler" where
  "http_revokePush P E r =
    with_principal r (\<lambda>workspaceID actorID.
    if blank (get_value (hr_Header r) ''Idempotency-Key'') then ret (writeError 400 ''backend.idempotency.key_required'')
    else answer (push_Revoke E workspaceID actorID (path_key r ''subscriptionID'')) (\<lambda>e. writeError 500 ''backend.integration.web_push_revoke_failed'')
      (\<lambda>x. writeJSON 200 (PushBody x)))"

definition http_cleanupPush :: "http_port \<Rightarrow> handler" where
  "http_cleanupPush P E r =
    with_principal r (\<lambda>workspaceID actorID.
    answer (push_CleanupExpired E workspaceID) (\<lambda>e. writeError 500 ''backend.integration.web_push_cleanup_failed'')
      (\<lambda>x. writeJSON 200 (CleanedBody x)))"

end
