(* ===== verification/HttpAdapter.thy ===== *)
theory HttpAdapter
  imports Http
begin

text \<open>
  \<open>adapter.go\<close>: the handlers of all actions, the authorization in front of every one but the webhook's, and
  the adapter that is built only when the handlers, the routes of the SDK's manifest and its OpenAPI
  operations fit each other exactly. The lemmas say what no request can get past.
\<close>

section \<open>The handler of an action\<close>

fun managementHandlers :: "http_port \<Rightarrow> action \<Rightarrow> handler option" where
  "managementHandlers P CatalogRead = Some (http_integrationCatalog P)"
| "managementHandlers P ConnectorsList = Some (http_integrationCatalog P)"
| "managementHandlers P ConnectionsList = Some (http_listConnections P)"
| "managementHandlers P ConnectionsGet = Some (http_getConnection P)"
| "managementHandlers P ConnectionsValidate = Some (http_validateConnection P)"
| "managementHandlers P ConnectionsUpsert = Some (http_upsertConnection P)"
| "managementHandlers P ConnectionsDelete = Some (http_deleteConnection P)"
| "managementHandlers P ConnectionsDisable = Some (http_disableConnection P)"
| "managementHandlers P ConnectionsTestOperation = Some (http_testConnection P)"
| "managementHandlers P ConnectionsRegisterAccount = Some (http_registerConnectionAccount P)"
| "managementHandlers P ConnectionAccountsList = Some (http_listConnectionAccounts P)"
| "managementHandlers P ConnectionAccountsGet = Some (http_getConnectionAccount P)"
| "managementHandlers P ConnectionAccountsTest = Some (http_testConnectionAccount P)"
| "managementHandlers P ConnectionAccountsRevoke = Some (http_revokeConnectionAccount P)"
| "managementHandlers P ConnectionAccountsReadAccess = Some (http_authorizeConnectionAccountRead P)"
| "managementHandlers P ConnectionAccountsRead = Some (http_readConnectionAccount P)"
| "managementHandlers P SecretsList = Some (http_listSecrets P)"
| "managementHandlers P SecretsUpsert = Some (http_upsertSecret P)"
| "managementHandlers P SecretsDisable = Some (http_transitionSecret ''disable'' P)"
| "managementHandlers P SecretsRotate = Some (http_rotateSecret P)"
| "managementHandlers P SecretsExpire = Some (http_transitionSecret ''expire'' P)"
| "managementHandlers P SecretsRevoke = Some (http_transitionSecret ''revoke'' P)"
| "managementHandlers P APIKeysList = Some (http_listAPIKeys P)"
| "managementHandlers P APIKeysCreate = Some (http_createAPIKey P)"
| "managementHandlers P APIKeysDisable = Some (http_disableAPIKey P)"
| "managementHandlers P APIKeysRotate = Some (http_rotateAPIKey P)"
| "managementHandlers P ExternalIdentitiesList = Some (http_listExternalIdentities P)"
| "managementHandlers P ExternalIdentitiesUpsert = Some (http_upsertExternalIdentity P)"
| "managementHandlers P ExternalIdentitiesDisable = Some (http_disableExternalIdentity P)"
| "managementHandlers P ExternalIdentitiesResolve = Some (http_resolveExternalIdentity P)"
| "managementHandlers P WebhookSubscriptionsList = Some (http_listWebhookSubscriptions P)"
| "managementHandlers P WebhookSubscriptionsUpsert = Some (http_upsertWebhookSubscription P)"
| "managementHandlers P WebhookSubscriptionsDelete = Some (http_deleteWebhookSubscription P)"
| "managementHandlers P WebhookSubscriptionsDisable = Some (http_disableWebhookSubscription P)"
| "managementHandlers P a = None"

fun oauthHandlers :: "http_port \<Rightarrow> action \<Rightarrow> handler option" where
  "oauthHandlers P OAuthApplicationsList = Some (http_listOAuthApplications P)"
| "oauthHandlers P OAuthApplicationsUpsert = Some (http_upsertOAuthApplication P)"
| "oauthHandlers P OAuthAuthorizationsOptions = Some (http_oauthOptions P)"
| "oauthHandlers P OAuthAuthorizationsStart = Some (http_startOAuth P)"
| "oauthHandlers P OAuthAuthorizationsGet = Some (http_getOAuth P)"
| "oauthHandlers P OAuthAuthorizationsComplete = Some (http_completeOAuth P)"
| "oauthHandlers P a = None"

fun ownHandlers :: "http_port \<Rightarrow> action \<Rightarrow> handler option" where
  "ownHandlers P WebPushReadinessGet = Some (http_readiness P)"
| "ownHandlers P WebPushSubscriptionsList = Some (http_listPush P)"
| "ownHandlers P WebPushSubscriptionsUpsert = Some (http_upsertPush P)"
| "ownHandlers P WebPushSubscriptionsRevoke = Some (http_revokePush P)"
| "ownHandlers P WebPushSubscriptionsCleanupExpired = Some (http_cleanupPush P)"
| "ownHandlers P InvocationsList = Some (http_listInvocations P)"
| "ownHandlers P InvocationsGet = Some (http_getInvocation P)"
| "ownHandlers P EventsList = Some (http_listEvents P)"
| "ownHandlers P EventsGet = Some (http_getEvent P)"
| "ownHandlers P EventsReplay = Some (http_replayEvent P)"
| "ownHandlers P WebhooksIngest = Some (http_webhook P)"
| "ownHandlers P a = None"

definition all_actions :: "action list" where
  "all_actions =
    [CatalogRead, ConnectorsList, ConnectionsList, ConnectionsGet, ConnectionsValidate, ConnectionsUpsert,
     ConnectionsDelete, ConnectionsDisable, ConnectionsTestOperation, ConnectionsRegisterAccount,
     ConnectionAccountsList, ConnectionAccountsGet, ConnectionAccountsTest, ConnectionAccountsRevoke,
     ConnectionAccountsReadAccess, ConnectionAccountsRead, SecretsList, SecretsUpsert, SecretsDisable, SecretsRotate,
     SecretsExpire, SecretsRevoke, APIKeysList, APIKeysCreate, APIKeysDisable, APIKeysRotate,
     ExternalIdentitiesList, ExternalIdentitiesUpsert, ExternalIdentitiesDisable, ExternalIdentitiesResolve,
     WebhookSubscriptionsList, WebhookSubscriptionsUpsert, WebhookSubscriptionsDelete, WebhookSubscriptionsDisable,
     OAuthApplicationsList, OAuthApplicationsUpsert, OAuthAuthorizationsOptions, OAuthAuthorizationsStart,
     OAuthAuthorizationsGet, OAuthAuthorizationsComplete,
     WebPushReadinessGet, WebPushSubscriptionsList, WebPushSubscriptionsUpsert, WebPushSubscriptionsRevoke,
     WebPushSubscriptionsCleanupExpired, InvocationsList, InvocationsGet, EventsList, EventsGet, EventsReplay,
     WebhooksIngest]"

text \<open>One handler per action key; of two actions with one key the later one would stay.\<close>

definition action_handler :: "http_port \<Rightarrow> action \<Rightarrow> handler option" where
  "action_handler P a =
    (case ownHandlers P a of
       Some h \<Rightarrow> Some h
     | None \<Rightarrow> (case oauthHandlers P a of Some h \<Rightarrow> Some h | None \<Rightarrow> managementHandlers P a))"

fun handlers_of :: "http_port \<Rightarrow> action list \<Rightarrow> (string \<times> action) list" where
  "handlers_of P [] = []"
| "handlers_of P (a # actions) =
    (let rest = handlers_of P actions in
     case action_handler P a of
       None \<Rightarrow> rest
     | Some h \<Rightarrow> if hp_Key P a \<in> fst ` set rest then rest else (hp_Key P a, a) # rest)"

section \<open>Authorization\<close>

definition requiresAllDataScope :: "http_port \<Rightarrow> string \<Rightarrow> bool" where
  "requiresAllDataScope P permissionKey \<longleftrightarrow>
    permissionKey \<notin> set (map (hp_Key P)
      [OAuthAuthorizationsOptions, OAuthAuthorizationsStart, OAuthAuthorizationsGet, OAuthAuthorizationsComplete,
       WebPushSubscriptionsList, WebPushSubscriptionsUpsert, WebPushSubscriptionsRevoke,
       ConnectionAccountsList, ConnectionAccountsGet, ConnectionAccountsTest, ConnectionAccountsReadAccess,
       ConnectionAccountsRead, ConnectionAccountsRevoke])"

definition all_data :: "AccessScope \<Rightarrow> bool" where
  "all_data scope \<longleftrightarrow>
    as_Unrestricted scope \<and> \<not> as_DeniedAll scope \<and> as_DeniedUserIDs scope = [] \<and> as_DeniedOrgIDs scope = []"

definition authorizeAction :: "http_port \<Rightarrow> string \<Rightarrow> handler \<Rightarrow> handler" where
  "authorizeAction P permissionKey h E r =
    (case requestPrincipal r of
       None \<Rightarrow> ret principal_required
     | Some p \<Rightarrow>
         seq (now E) (\<lambda>t.
         case AuthorizeDataAccess (hp_Identity P) t p permissionKey of
           Inl e \<Rightarrow> ret (writeError 403 ''backend.integration.permission_denied'')
         | Inr scope \<Rightarrow>
             if requiresAllDataScope P permissionKey \<and> \<not> all_data scope
             then ret (writeError 403 ''backend.integration.all_data_scope_required'')
             else h (E\<lparr>ev_scope := Some scope\<rparr>) r))"

section \<open>The adapter\<close>

record http_route =
  rt_Key :: string
  rt_Pattern :: string

text \<open>A pattern with the key and the action that it is mounted for.\<close>

type_synonym mounting = "string \<times> string \<times> action"

definition route_key :: "http_route \<Rightarrow> string" where
  "route_key route = trim_space (rt_Key route)"

text \<open>
  The routes in the order of the manifest, each taking its handler and its OpenAPI operation out of what is
  left; nothing may be left at the end.
\<close>

fun mount ::
    "http_route list \<Rightarrow> (string \<times> action) list \<Rightarrow> string list \<Rightarrow>
     err + mounting list \<times> (string \<times> action) list \<times> string list" where
  "mount [] handlers operations = Inr ([], handlers, operations)"
| "mount (route # routes) handlers operations =
    (let key = route_key route in
     case map_of handlers key of
       None \<Rightarrow> Inl (Errorf ''Integration Action %q has no HTTP handler'' [key])
     | Some a \<Rightarrow>
         if rt_Pattern route \<notin> set operations then Inl (Errorf ''Integration Action %q has no OpenAPI operation'' [key])
         else
           (case mount routes (filter (\<lambda>h. fst h \<noteq> key) handlers) (filter (\<lambda>p. p \<noteq> rt_Pattern route) operations) of
              Inl e \<Rightarrow> Inl e
            | Inr (served, rest) \<Rightarrow> Inr ((rt_Pattern route, key, a) # served, rest)))"

definition NewAdapter :: "http_port \<Rightarrow> http_route list \<Rightarrow> string list \<Rightarrow> err + mounting list" where
  "NewAdapter P routes operations =
    (case mount routes (handlers_of P all_actions) operations of
       Inl e \<Rightarrow> Inl e
     | Inr (served, handlers, operations) \<Rightarrow>
         if handlers \<noteq> [] \<or> operations \<noteq> []
         then Inl (Errorf ''Integration implementations have no Action manifest entries: %v''
                     (sort (map (\<lambda>(k, _). ''handler:'' @ k) handlers @ map (\<lambda>p. ''openapi:'' @ p) operations)))
         else Inr served)"

text \<open>A request to a pattern: the handler of its action, behind the authorization unless it takes webhooks.\<close>

definition mounted :: "http_port \<Rightarrow> string \<Rightarrow> handler \<Rightarrow> handler" where
  "mounted P key h = (if key = hp_Key P WebhooksIngest then h else authorizeAction P key h)"

definition serve :: "http_port \<Rightarrow> mounting list \<Rightarrow> string \<Rightarrow> handler option" where
  "serve P served pattern =
    (case map_of served pattern of
       None \<Rightarrow> None
     | Some (key, a) \<Rightarrow> map_option (mounted P key) (action_handler P a))"

section \<open>The adapter is complete\<close>

lemma keys_filtered: "fst ` set (filter (\<lambda>h. fst h \<noteq> key) hs) = fst ` set hs - {key}"
  by auto

lemma map_of_filtered: "k \<noteq> key \<Longrightarrow> map_of (filter (\<lambda>h. fst h \<noteq> key) hs) k = map_of hs k"
  by (induction hs) auto

lemma mount_Inr:
  assumes "mount routes hs ops = Inr (served, hs', ops')"
  shows "distinct (map route_key routes) \<and> set (map route_key routes) \<subseteq> fst ` set hs \<and>
    fst ` set hs' = fst ` set hs - set (map route_key routes) \<and>
    distinct (map rt_Pattern routes) \<and> set (map rt_Pattern routes) \<subseteq> set ops \<and>
    set ops' = set ops - set (map rt_Pattern routes) \<and>
    (\<forall>(pattern, key, a) \<in> set served. map_of hs key = Some a \<and> (\<exists>route \<in> set routes. rt_Pattern route = pattern \<and> route_key route = key))"
  using assms
proof (induction routes arbitrary: hs ops served)
  case (Cons route routes)
  let ?hs = "filter (\<lambda>h. fst h \<noteq> route_key route) hs"
  let ?ops = "filter (\<lambda>p. p \<noteq> rt_Pattern route) ops"
  from Cons.prems obtain a rest where a: "map_of hs (route_key route) = Some a" "rt_Pattern route \<in> set ops"
    and m: "mount routes ?hs ?ops = Inr (rest, hs', ops')"
    and served: "served = (rt_Pattern route, route_key route, a) # rest"
    by (auto simp: Let_def split: option.splits if_splits sum.splits)
  note IH = Cons.IH [OF m, unfolded keys_filtered]
  have key: "route_key route \<in> fst ` set hs" using map_of_SomeD [OF a(1)] by force
  have old: "map_of hs k = Some b" if "(q, k, b) \<in> set rest" for q k b
  proof -
    from IH that have k: "map_of ?hs k = Some b" by blast
    then have "k \<in> fst ` set ?hs" using map_of_SomeD by force
    then have "k \<noteq> route_key route" by auto
    from map_of_filtered [OF this, of hs] k show ?thesis by metis
  qed
  have ops: "set ?ops = set ops - {rt_Pattern route}" by auto
  from IH have d: "distinct (map route_key routes)" "distinct (map rt_Pattern routes)"
    and k: "set (map route_key routes) \<subseteq> fst ` set hs - {route_key route}"
    and k': "fst ` set hs' = fst ` set hs - {route_key route} - set (map route_key routes)"
    and p: "set (map rt_Pattern routes) \<subseteq> set ops - {rt_Pattern route}"
    and p': "set ops' = set ops - {rt_Pattern route} - set (map rt_Pattern routes)"
    unfolding ops by iprover+
  from d k have "distinct (map route_key (route # routes))" by (simp del: set_map) blast
  moreover from d p have "distinct (map rt_Pattern (route # routes))" by (simp del: set_map) blast
  moreover from k key have "set (map route_key (route # routes)) \<subseteq> fst ` set hs" by (simp del: set_map) blast
  moreover from p a(2) have "set (map rt_Pattern (route # routes)) \<subseteq> set ops" by (simp del: set_map) blast
  moreover from k' have "fst ` set hs' = fst ` set hs - set (map route_key (route # routes))" by (simp del: set_map) blast
  moreover from p' have "set ops' = set ops - set (map rt_Pattern (route # routes))" by (simp del: set_map) blast
  moreover have "\<forall>(pattern, k, b) \<in> set served. map_of hs k = Some b \<and>
      (\<exists>r \<in> set (route # routes). rt_Pattern r = pattern \<and> route_key r = k)"
    using IH old a(1) unfolding served by auto
  ultimately show ?case by iprover
qed simp

lemma every_action_handled: "action_handler P a \<noteq> None"
  by (cases a) (simp_all add: action_handler_def)

lemma all_actions_listed: "a \<in> set all_actions"
  by (cases a) (simp_all add: all_actions_def)

lemma handlers_keys: "fst ` set (handlers_of P actions) = hp_Key P ` set actions"
proof (induction actions)
  case (Cons a actions)
  from every_action_handled obtain h where "action_handler P a = Some h" by blast
  with Cons show ?case by (simp add: Let_def insert_absorb)
qed simp

lemma handlers_action: "map_of (handlers_of P actions) k = Some a \<Longrightarrow> hp_Key P a = k"
  by (induction actions) (auto simp: Let_def split: option.splits if_splits)

lemma NewAdapter_Inr:
  assumes "NewAdapter P routes operations = Inr served"
  shows "distinct (map route_key routes) \<and> set (map route_key routes) = hp_Key P ` set all_actions \<and>
    distinct (map rt_Pattern routes) \<and> set (map rt_Pattern routes) = set operations \<and>
    (\<forall>(pattern, key, a) \<in> set served. hp_Key P a = key \<and> (\<exists>route \<in> set routes. rt_Pattern route = pattern \<and> route_key route = key))"
proof -
  from assms have m: "mount routes (handlers_of P all_actions) operations = Inr (served, [], [])"
    by (auto simp: NewAdapter_def split: sum.splits if_splits prod.splits)
  show ?thesis using mount_Inr [OF m] handlers_action [of P all_actions] unfolding handlers_keys by fastforce
qed

section \<open>Nothing gets past the authorization\<close>

text \<open>The scope under which a request may use an action at an instant, if it may.\<close>

definition permitted :: "http_port \<Rightarrow> string \<Rightarrow> time \<Rightarrow> http_request \<Rightarrow> AccessScope option" where
  "permitted P key t r =
    (case requestPrincipal r of
       None \<Rightarrow> None
     | Some p \<Rightarrow>
         (case AuthorizeDataAccess (hp_Identity P) t p key of
            Inl e \<Rightarrow> None
          | Inr scope \<Rightarrow> if requiresAllDataScope P key \<and> \<not> all_data scope then None else Some scope))"

lemma authorizeAction_permitted:
  "authorizeAction P key h E r w =
    (case permitted P key (ev_clock E (w_step w)) r of
       None \<Rightarrow> (Inr (if requestPrincipal r = None then principal_required
                 else writeError 403 (case AuthorizeDataAccess (hp_Identity P) (ev_clock E (w_step w)) (the (requestPrincipal r)) key of
                        Inl e \<Rightarrow> ''backend.integration.permission_denied''
                      | Inr scope \<Rightarrow> ''backend.integration.all_data_scope_required'')), w)
     | Some scope \<Rightarrow> h (E\<lparr>ev_scope := Some scope\<rparr>) r w)"
  by (simp add: authorizeAction_def permitted_def seq_apply now_def split: option.splits sum.splits)

lemma permitted_scope:
  assumes "permitted P key t r = Some scope"
  obtains p where "requestPrincipal r = Some p" "AccessScope_Valid scope" "as_WorkspaceID scope = trim_space (ip_WorkspaceID p)"
    "as_ActorID scope = trim_space (ip_UserID p)" "as_PermissionKey scope = trim_space key"
    "requiresAllDataScope P key \<Longrightarrow> all_data scope"
proof -
  from assms obtain p where p: "requestPrincipal r = Some p" "AuthorizeDataAccess (hp_Identity P) t p key = Inr scope"
    "requiresAllDataScope P key \<longrightarrow> all_data scope"
    by (auto simp: permitted_def split: option.splits sum.splits if_splits)
  from p(2) obtain b resource action s where s: "bundle_collected (trim_space key) p b resource action s" "AccessScope_Valid s"
    and scope: "scope = sorted_scope (if list_ex (record_guardrail resource action) (ab_Guardrails b) then s\<lparr>as_DeniedAll := True\<rparr> else s)"
    by (rule authorized) (rule that)
  have "AccessScope_Valid scope" unfolding scope by (rule sorted_valid [OF s])
  with collected_initial [OF s(1)] p show ?thesis
    by (intro that [of p]) (simp_all add: scope sorted_scope_def)
qed

text \<open>
  What stands in front of a handler \<open>g\<close>: a request that is not permitted is answered with 401 or 403 and changes and
  calls nothing, and any other is handled by \<open>g\<close> under the permitted scope.
\<close>

definition guarded :: "http_port \<Rightarrow> string \<Rightarrow> handler \<Rightarrow> handler \<Rightarrow> bool" where
  "guarded P key g h \<longleftrightarrow>
    (\<forall>E r w.
      (permitted P key (ev_clock E (w_step w)) r = None \<longrightarrow>
        (\<exists>response. h E r w = (Inr response, w) \<and> hs_Status response \<in> {401, 403})) \<and>
      (\<forall>scope. permitted P key (ev_clock E (w_step w)) r = Some scope \<longrightarrow>
        h E r w = g (E\<lparr>ev_scope := Some scope\<rparr>) r w \<and>
        (\<exists>p. requestPrincipal r = Some p \<and> as_WorkspaceID scope = trim_space (ip_WorkspaceID p) \<and>
          as_ActorID scope = trim_space (ip_UserID p)) \<and>
        as_PermissionKey scope = trim_space key \<and> (requiresAllDataScope P key \<longrightarrow> all_data scope)))"

lemma authorizeAction_guarded: "guarded P key g (authorizeAction P key g)"
  unfolding guarded_def
proof (intro allI conjI impI)
  fix E :: env and r and w :: world
  assume "permitted P key (ev_clock E (w_step w)) r = None"
  then show "\<exists>response. authorizeAction P key g E r w = (Inr response, w) \<and> hs_Status response \<in> {401, 403}"
    by (simp add: authorizeAction_permitted principal_required_def writeError_def writeJSON_def)
next
  fix E :: env and r and w :: world and scope
  assume p: "permitted P key (ev_clock E (w_step w)) r = Some scope"
  then show "authorizeAction P key g E r w = g (E\<lparr>ev_scope := Some scope\<rparr>) r w" by (simp add: authorizeAction_permitted)
  from p show "\<exists>p. requestPrincipal r = Some p \<and> as_WorkspaceID scope = trim_space (ip_WorkspaceID p) \<and>
      as_ActorID scope = trim_space (ip_UserID p)" by (rule permitted_scope) blast
  from p show "as_PermissionKey scope = trim_space key" by (rule permitted_scope)
  from p have "requiresAllDataScope P key \<longrightarrow> all_data scope" by (rule permitted_scope) blast
  then show "all_data scope" if "requiresAllDataScope P key" using that by blast
qed

text \<open>
  C40. Whatever is mounted for an action other than the webhook's: a request whose caller lacks the permission
  of that action is answered with 401 or 403 and changes and calls nothing, and any other is handled under
  an access scope of the caller's own workspace and of that permission, which covers all data where the
  action needs that.
\<close>

theorem no_action_without_permission:
  assumes "NewAdapter P routes operations = Inr served" and "serve P served pattern = Some h"
  shows "\<exists>route \<in> set routes. \<exists>a g. rt_Pattern route = pattern \<and> route_key route = hp_Key P a \<and> action_handler P a = Some g \<and>
    (if hp_Key P a = hp_Key P WebhooksIngest then h = g else guarded P (hp_Key P a) g h)"
proof -
  from assms(2) obtain key a g where served: "map_of served pattern = Some (key, a)" and g: "action_handler P a = Some g"
    and h: "h = mounted P key g"
    by (auto simp: serve_def split: option.splits)
  from map_of_SomeD [OF served] NewAdapter_Inr [OF assms(1)] have key: "hp_Key P a = key"
    and route: "\<exists>route \<in> set routes. rt_Pattern route = pattern \<and> route_key route = key" by blast+
  have "if hp_Key P a = hp_Key P WebhooksIngest then h = g else guarded P (hp_Key P a) g h"
    by (simp add: h key mounted_def authorizeAction_guarded)
  with route g show ?thesis unfolding key [symmetric] by blast
qed

text \<open>
  An adapter is only built when every action has exactly one route, every route its handler, and every
  route exactly one OpenAPI operation.
\<close>

theorem adapter_complete:
  assumes "NewAdapter P routes operations = Inr served"
  shows "distinct (map route_key routes) \<and> set (map route_key routes) = range (hp_Key P) \<and>
    distinct (map rt_Pattern routes) \<and> set (map rt_Pattern routes) = set operations"
proof -
  have "set all_actions = UNIV" using all_actions_listed by blast
  with NewAdapter_Inr [OF assms] show ?thesis by simp
qed

section \<open>A connection cannot be disabled\<close>

lemma disabled_status_unknown: "\<not> validConnectionStatus ''disabled''"
  by code_simp

lemma disabled_required: "requiredOwnerValue label ''disabled'' = Inr ''disabled''"
  by code_simp

lemma requireAll_refusal: "requireAll E ws w = (Inl e, w') \<Longrightarrow> w' = w \<and> (\<exists>m. e = Errorf m [])"
  by (auto simp: requireAll_def requireAllDataScope_def split: option.splits if_splits)

lemma requireAll_cases: "(\<exists>m. requireAll E ws w = (Inl (Errorf m []), w)) \<or> requireAll E ws w = (Inr (), w)"
  by (cases "requireAll E ws w"; cases "fst (requireAll E ws w)") (auto simp: requireAll_Inr dest: requireAll_refusal)

lemma set_disabled_refused: "\<exists>f xs. set_connection_status E ws key ''disabled'' w = (Inl (Errorf f xs), w)"
  using requireAll_cases [of E ws w]
  by (auto simp: set_connection_status_def seq_apply of_result_apply disabled_required check_apply disabled_status_unknown)

lemma disabling_refused:
  "\<exists>e w'. SetConnectionStatus E ws key ''disabled'' w = (Inl e, w') \<and> (\<forall>p. e \<noteq> Panic p) \<and> (alone E \<longrightarrow> w_db w' = w_db w)"
proof (cases "requireAll E ws w = (Inr (), w)")
  case True
  obtain f xs where "set_connection_status E ws key ''disabled'' ((before_step E w)\<lparr>w_tx := True\<rparr>) =
      (Inl (Errorf f xs), (before_step E w)\<lparr>w_tx := True\<rparr>)"
    using set_disabled_refused by blast
  with True show ?thesis
    by (simp add: SetConnectionStatus_def managed_def seq_apply transaction_def Let_def)
next
  case False
  with requireAll_cases [of E ws w] show ?thesis by (auto simp: SetConnectionStatus_def managed_def seq_apply)
qed

text \<open>
  C3. The handler that is to disable a connection asks for the status \<open>disabled\<close>, which no connection can have: it
  refuses every request and disables nothing.
\<close>

theorem disabling_always_refused:
  "\<exists>response w'. http_disableConnection P E r w = (Inr response, w') \<and> hs_Status response \<in> {400, 401} \<and>
    (alone E \<longrightarrow> w_db w' = w_db w)"
proof (cases "requestPrincipal r")
  case None
  then show ?thesis
    by (simp add: http_disableConnection_def with_principal_def principal_required_def writeError_def writeJSON_def)
next
  case (Some p)
  let ?op = "SetConnectionStatus E (ip_WorkspaceID p) (path_key r ''connectionKey'') ''disabled''"
  obtain e w' where e: "?op w = (Inl e, w')" "\<forall>q. e \<noteq> Panic q" "alone E \<longrightarrow> w_db w' = w_db w"
    using disabling_refused by blast
  then have "rescue ?op w = (Inr (Inl e), w')" by (simp add: rescue_Inr)
  with Some e(3) show ?thesis
    by (simp add: http_disableConnection_def with_principal_def managed_answer_def answer_def seq_apply
        writeManagementError_def writeJSON_def)
qed

section \<open>A manifest that fits\<close>

definition push_key :: "action \<Rightarrow> string" where
  "push_key a =
    (if a = WebPushSubscriptionsList then ''integration.push.read''
     else [char_of (length (takeWhile (\<lambda>b. b \<noteq> a) all_actions) + 33)])"

definition push_port :: http_port where
  "push_port =
    \<lparr>hp_Key = push_key, hp_Identity = open_identity, hp_ConnectionJSON = (\<lambda>c. JNull), hp_ConnectionInput = (\<lambda>s. None),
     hp_Registration = (\<lambda>s. None), hp_TestRequest = (\<lambda>s. None), hp_ExpectedUpdatedAt = (\<lambda>s. None),
     hp_ReadOperation = (\<lambda>s. None), hp_ReadRequest = (\<lambda>s. None), hp_SecretInput = (\<lambda>s. None), hp_APIKeyInput = (\<lambda>s. None),
     hp_IdentityInput = (\<lambda>s. None), hp_ResolveInput = (\<lambda>s. None), hp_WebhookInput = (\<lambda>s. None),
     hp_ApplicationInput = (\<lambda>s. None), hp_AuthorizationInput = (\<lambda>s. None), hp_Callback = (\<lambda>s. None),
     hp_PushInput = (\<lambda>s. None), hp_OAuth = None, hp_Reads = None\<rparr>"

definition push_routes :: "http_route list" where
  "push_routes = map (\<lambda>a. \<lparr>rt_Key = push_key a, rt_Pattern = CHR ''/'' # push_key a\<rparr>) all_actions"

definition push_served :: "mounting list" where
  "push_served = map (\<lambda>a. (CHR ''/'' # push_key a, push_key a, a)) all_actions"

fun keyed :: "(action \<Rightarrow> string) \<Rightarrow> action list \<Rightarrow> (string \<times> action) list" where
  "keyed k [] = []"
| "keyed k (a # actions) = (let rest = keyed k actions in if k a \<in> fst ` set rest then rest else (k a, a) # rest)"

lemma handlers_keyed: "handlers_of P actions = keyed (hp_Key P) actions"
proof (induction actions)
  case (Cons a actions)
  from every_action_handled obtain h where "action_handler P a = Some h" by blast
  with Cons show ?case by (simp add: Let_def)
qed simp

lemma push_adapter: "NewAdapter push_port push_routes (map rt_Pattern push_routes) = Inr push_served"
proof -
  have "mount push_routes (keyed push_key all_actions) (map rt_Pattern push_routes) = Inr (push_served, [], [])" by code_simp
  moreover have "hp_Key push_port = push_key" by (simp add: push_port_def)
  ultimately show ?thesis by (simp add: NewAdapter_def handlers_keyed)
qed

definition list_handler :: handler where
  "list_handler = mounted push_port ''integration.push.read'' (http_listPush push_port)"

lemma push_list_served: "serve push_port push_served ''/integration.push.read'' = Some list_handler"
proof -
  have "map_of push_served ''/integration.push.read'' = Some (''integration.push.read'', WebPushSubscriptionsList)" by code_simp
  then show ?thesis by (simp add: serve_def list_handler_def action_handler_def)
qed

definition member_request :: http_request where
  "member_request =
    \<lparr>hr_Principal = Some member_principal, hr_Path = (\<lambda>s. []), hr_Query = [], hr_Header = [], hr_Body = []\<rparr>"

lemma member_permitted: "permitted push_port ''integration.push.read'' 0 member_request = Some own_scope"
proof -
  have "requestPrincipal member_request = Some member_principal" by code_simp
  moreover have "push_key WebPushSubscriptionsList = ''integration.push.read''" by (simp add: push_key_def)
  then have "\<not> requiresAllDataScope push_port ''integration.push.read''" by (simp add: requiresAllDataScope_def push_port_def)
  ultimately show ?thesis by (simp add: permitted_def member_authorized push_port_def)
qed

theorem no_action_without_permission_witness:
  "\<exists>route \<in> set push_routes. \<exists>a g. rt_Pattern route = ''/integration.push.read'' \<and>
    route_key route = hp_Key push_port a \<and> action_handler push_port a = Some g \<and>
    (if hp_Key push_port a = hp_Key push_port WebhooksIngest then list_handler = g
     else guarded push_port (hp_Key push_port a) g list_handler)"
  by (rule no_action_without_permission [OF push_adapter push_list_served])

theorem adapter_complete_witness: "set (map route_key push_routes) = range push_key"
proof -
  have "hp_Key push_port = push_key" by (simp add: push_port_def)
  with adapter_complete [OF push_adapter] show ?thesis by simp
qed

theorem disabling_always_refused_witness:
  "\<exists>response w'. http_disableConnection push_port echo_env member_request (world_of (\<lambda>t. [])) = (Inr response, w') \<and>
    hs_Status response \<in> {400, 401} \<and> w_db w' = w_db (world_of (\<lambda>t. []))"
  using disabling_always_refused [of push_port echo_env member_request "world_of (\<lambda>t. [])"] by simp

end
