(* ===== verification/Spec2Isabelle.thy ===== *)
theory Spec2Isabelle
  imports EventMappings ScopeState AccountWrites Inbound ProviderWorker SubjectErasure Authorization AccountReads
    ManagedConnections ManagedIdentities ManagedWebhooks ConnectionTests OAuthSessions HttpAdapter
begin

text \<open>
  A verification development of the Integration module: the service that keeps the connections of a workspace
  to external systems, calls their providers, takes their webhooks, and erases what belongs to a subject.

  The parts of the program and how they meet. A request comes through the HTTP adapter
  (\<open>src/internal/transport/http/module\<close>), which authorizes the action and hands an access scope on in the
  context. The domain and application services (\<open>src/internal/domain/integration/service\<close>,
  \<open>src/internal/application/integration\<close>) check what they are given and call the stores of
  \<open>src/internal/infrastructure/persistence/database/integration\<close>. A store reads and writes the tables of one
  SQL database, which other processes use at the same time, and calls out: to providers, to the runtime that
  executes events, to OAuth authorizers. Workers run the same stores from a scheduler.

  Foundations. \<open>Prelude\<close>: Go strings as byte lists, errors as values, operations \<open>('s, 'a) op\<close> that pass a state
  and may fail, and the locale \<open>evolution\<close> of relations between states that every step of an operation stays
  in. \<open>Json\<close>: the values, decoding and errors of \<open>encoding/json\<close> as far as they matter. \<open>Timestamps\<close>: instants in
  nanoseconds and their RFC 3339 texts, with the comparison of texts that SQL makes. \<open>Sql\<close>: tables, rows, the
  predicates of the query builder in three-valued logic, and the unique keys of \<open>schema/definition.go\<close>. \<open>Store\<close>:
  the environment and the world. An environment says for every step what the clock shows, whether the statement
  fails (before or after it took effect), what other processes have done to the database in the meantime, and
  what the providers answer; the world is the database and the external calls made so far. A theorem that
  quantifies over the environment holds under all faults and all interference; \<open>alone\<close> excludes other processes,
  \<open>calm\<close> faults as well. \<open>Effects\<close>: the locales of stores that read, write and call (\<open>store_reads\<close>, \<open>store_writes\<close>,
  \<open>store_calls\<close>), each interpreted for what operations can be said to keep: calls made, fenced rows, row
  identities, no call at all. \<open>Transactions\<close>: inside a transaction an operation behaves as if it were alone.
  \<open>DomainModel\<close>: the records of \<open>internal/domain/integration/model\<close> and their validations.

  Components, each with its operations and what is shown of them.
  \<^item> \<open>AccessScope\<close>, \<open>Authorization\<close> (\<open>access_scope.go\<close>, \<open>authorization.go\<close>): from the access bundle of a principal to the
    predicate that a store puts into its statements; the rows a store shows are exactly those the bundle
    entitles to.
  \<^item> \<open>EventMappings\<close>, \<open>Inbound\<close> (\<open>inbound_store.go\<close>, \<open>event_worker_store.go\<close>): webhooks become events, an event is matched
    with a mapping and triggers the runtime. At most one trigger per event, rows stay well formed, passes are
    bounded, and failing events are given up after five recorded failures.
  \<^item> \<open>Delivery\<close>, \<open>Operations\<close> (\<open>delivery_store.go\<close>, \<open>operations_store.go\<close>): deliveries and calls through a connection, each with
    an invocation row; \<open>Secrets\<close> (\<open>secret_resolver.go\<close>) resolves their credentials. A succeeded delivery is not
    repeated, a sensitive call reaches a provider at most once and leaves no payload behind, nothing fenced is
    called for.
  \<^item> \<open>AccountWrites\<close>, \<open>AccountReads\<close>, \<open>ConnectionTests\<close>: what an application does through the account of a user: writes with
    a durable claim (at most one call, receipts that read back), reads and tests that call only declared
    operations. The services are stated over locales of their ports and interpreted on the stores.
  \<^item> \<open>ConnectionAccounts\<close>, \<open>ScopeState\<close>: who sees an account, its registration and revocation.
  \<^item> \<open>ConfigValidation\<close>, \<open>Management\<close>, \<open>ManagedConnections\<close>, \<open>ManagedSecrets\<close>, \<open>ManagedKeys\<close>, \<open>ManagedIdentities\<close>,
    \<open>ManagedWebhooks\<close>: what the owner of a workspace manages, every mutation one transaction: connections
    stay valid for their providers, a rotated secret resolves to its new value.
  \<^item> \<open>OAuth\<close>, \<open>OAuthSessions\<close>: authorization sessions: a state machine that no interleaving leaves, a code that is
    exchanged at most once, credentials only with their connection.
  \<^item> \<open>Requirements\<close>, \<open>Catalog\<close>: what applications and the Connectors catalog bring along at every start, and that it
    takes nothing from what the owner or a provider has stored.
  \<^item> \<open>ProviderWorker\<close>: background tasks, their commits, reconciliation and expiring credentials: results are written
    only under the claim, as a whole, with bounded retries.
  \<^item> \<open>WebPush\<close>: push subscriptions, whose keys are cleared with them.
  \<^item> \<open>SubjectErasure\<close> (\<open>subject_erasure.go\<close>, \<open>subject_write_fence.go\<close>): preview, preparation and erasure of what belongs to
    a subject; the plan is carried out exactly, the fences stand before it, other workspaces are untouched.
  \<^item> \<open>Service\<close>, \<open>Http\<close>, \<open>HttpAdapter\<close>: the checks of the service, the handlers of all actions and the adapter: no action
    is reached without its permission.

  Bounds. No fuel is used: the loops of the source are structural recursion over lists of rows or requirements,
  two have a measure (trimming, years). A retry is a later pass, so retries are a relation over recorded outcomes
  (\<open>retries\<close>), shown to end.

  Parameters. Code outside the repository is an argument: the connector SDK and the registered providers, the
  identity SDK's validations, the digest, the cipher, the random source, the regular expressions, the JSON codecs of
  SDK types, the environment variables. What is assumed of them is a hypothesis of the theorem that needs it.

  Limits of the model. A statement is atomic, a transaction sees no other process (serializable isolation), rows
  come in table order where the source does not order them. Errors are values of the source's messages with
  their arguments; wrapped causes are kept as texts. Lengths of Go's integers do not matter where they only
  count rows. The order in which Go visits a map is left open where it could be seen.

  Not modelled, and why: the construction of stores and modules and the server's main program (\<open>cmd\<close>,
  \<open>src/internal/assembly\<close>, \<open>src/module\<close>): wiring; the migrations and the table definitions beyond their unique keys:
  data for the ORM; \<open>integration_application_service.go\<close>, \<open>src/internal/adapter/integrationsdk\<close> and
  \<open>src/internal/domain/integration/repository\<close>: delegation, copying of equal fields and interfaces.
\<close>

end
